(* ===== verification/Prelude.thy ===== *)
theory Prelude
  imports Complex_Main "HOL-Library.Sublist"
begin

text \<open>
  The prelude of the development: Python exceptions as a datatype, the two monads the
  components are written in, the rules that compute weakest preconditions of effectful code,
  and the list and string functions of the Python standard library that several components
  share.

  \<^item> \<open>'a res\<close> is the result of pure code that can raise: \<open>Inl\<close> carries the exception.
  \<^item> \<open>('w, 'a) prog\<close> is effectful code: it maps a world to a result and a new world. An
    exception does not undo the effects that preceded it, as in Python.
  \<^item> Strings are lists of code points below 256. Times and other Python floats that the code
    only compares, adds and stores are exact rationals (\<open>rat\<close>).
\<close>

named_theorems res_simps \<open>computing results of code that can raise\<close>
named_theorems wp \<open>weakest preconditions of effectful code\<close>
named_theorems regex_defs \<open>the predicates that stand for the regular expressions of the code\<close>

section \<open>Exceptions\<close>

datatype exn =
    ValueError string
  | KeyError string
  | TypeError string
  | IndexError
  | AttributeError
  | OverflowError
  | Busy string
  | Conflict
  | HTTPError int
  | URLError
  | TimeoutError
  | ConnectionError
  | RuntimeError string
  | OtherError string

text \<open>\<open>type(exc).__name__\<close>, which the components record instead of the message.\<close>

fun exn_name :: "exn \<Rightarrow> string" where
  "exn_name (ValueError _) = ''ValueError''"
| "exn_name (KeyError _) = ''KeyError''"
| "exn_name (TypeError _) = ''TypeError''"
| "exn_name IndexError = ''IndexError''"
| "exn_name AttributeError = ''AttributeError''"
| "exn_name OverflowError = ''OverflowError''"
| "exn_name (Busy _) = ''Busy''"
| "exn_name Conflict = ''Conflict''"
| "exn_name (HTTPError _) = ''HTTPError''"
| "exn_name URLError = ''URLError''"
| "exn_name TimeoutError = ''TimeoutError''"
| "exn_name ConnectionError = ''ConnectionError''"
| "exn_name (RuntimeError _) = ''RuntimeError''"
| "exn_name (OtherError n) = n"

text \<open>
  The subclass tests of the \<open>except\<close> clauses. \<open>HTTPError\<close> is a subclass of \<open>URLError\<close>, and
  both, with \<open>TimeoutError\<close> and \<open>ConnectionError\<close>, are subclasses of \<open>OSError\<close>.
\<close>

fun is_value_error :: "exn \<Rightarrow> bool" where
  "is_value_error (ValueError _) = True"
| "is_value_error _ = False"

fun is_key_error :: "exn \<Rightarrow> bool" where
  "is_key_error (KeyError _) = True"
| "is_key_error _ = False"

fun is_type_error :: "exn \<Rightarrow> bool" where
  "is_type_error (TypeError _) = True"
| "is_type_error _ = False"

fun is_busy :: "exn \<Rightarrow> bool" where
  "is_busy (Busy _) = True"
| "is_busy _ = False"

fun is_http_error :: "exn \<Rightarrow> bool" where
  "is_http_error (HTTPError _) = True"
| "is_http_error _ = False"

fun is_transport_error :: "exn \<Rightarrow> bool" where
  "is_transport_error (HTTPError _) = True"
| "is_transport_error URLError = True"
| "is_transport_error TimeoutError = True"
| "is_transport_error ConnectionError = True"
| "is_transport_error _ = False"

section \<open>Pure code that can raise\<close>

type_synonym 'a res = "exn + 'a"

definition bindR :: "'a res \<Rightarrow> ('a \<Rightarrow> 'b res) \<Rightarrow> 'b res" where
  "bindR r f = (case r of Inl e \<Rightarrow> Inl e | Inr a \<Rightarrow> f a)"

definition requireR :: "bool \<Rightarrow> exn \<Rightarrow> unit res" where
  "requireR ok e = (if ok then Inr () else Inl e)"

text \<open>A sequence of guards: the first that fails raises its exception.\<close>

fun guards :: "(bool \<times> exn) list \<Rightarrow> unit res" where
  "guards [] = Inr ()"
| "guards ((ok, e) # gs) = (if ok then guards gs else Inl e)"

text \<open>Short-circuiting \<open>and\<close>, \<open>or\<close> and the loops \<open>all\<close>, \<open>any\<close> over operands that can raise.\<close>

fun andR :: "bool res list \<Rightarrow> bool res" where
  "andR [] = Inr True"
| "andR (x # xs) = bindR x (\<lambda>b. if b then andR xs else Inr False)"

fun orR :: "bool res list \<Rightarrow> bool res" where
  "orR [] = Inr False"
| "orR (x # xs) = bindR x (\<lambda>b. if b then Inr True else orR xs)"

fun mapR :: "('a \<Rightarrow> 'b res) \<Rightarrow> 'a list \<Rightarrow> 'b list res" where
  "mapR f [] = Inr []"
| "mapR f (x # xs) = bindR (f x) (\<lambda>y. bindR (mapR f xs) (\<lambda>ys. Inr (y # ys)))"

fun filterR :: "('a \<Rightarrow> bool res) \<Rightarrow> 'a list \<Rightarrow> 'a list res" where
  "filterR f [] = Inr []"
| "filterR f (x # xs) =
     bindR (f x) (\<lambda>b. bindR (filterR f xs) (\<lambda>ys. Inr (if b then x # ys else ys)))"

fun foldR :: "('a \<Rightarrow> 'b \<Rightarrow> 'b res) \<Rightarrow> 'a list \<Rightarrow> 'b \<Rightarrow> 'b res" where
  "foldR f [] b = Inr b"
| "foldR f (x # xs) b = bindR (f x b) (foldR f xs)"

definition forR :: "('a \<Rightarrow> unit res) \<Rightarrow> 'a list \<Rightarrow> unit res" where
  "forR f xs = foldR (\<lambda>x _. f x) xs ()"

lemma bindR_simps [simp, res_simps]:
  "bindR (Inr a) f = f a" "bindR (Inl e) f = Inl e"
  by (simp_all add: bindR_def)

lemma bindR_Inr_iff [res_simps]:
  "bindR r f = Inr b \<longleftrightarrow> (\<exists>a. r = Inr a \<and> f a = Inr b)"
  by (cases r) auto

lemma bindR_assoc: "bindR (bindR r f) g = bindR r (\<lambda>x. bindR (f x) g)"
  by (cases r) auto

lemma requireR_iff [simp, res_simps]:
  "requireR ok e = Inr u \<longleftrightarrow> ok" "requireR ok e = Inl e' \<longleftrightarrow> \<not> ok \<and> e' = e"
  by (auto simp: requireR_def)

lemma requireR_True [simp]: "requireR True e = Inr ()"
  by (simp add: requireR_def)

lemma guards_Inr_iff [res_simps]: "guards gs = Inr u \<longleftrightarrow> (\<forall>g \<in> set gs. fst g)"
  by (induction gs rule: guards.induct) auto

lemma guards_Inl_in: "guards gs = Inl e \<Longrightarrow> e \<in> snd ` set gs"
  by (induction gs rule: guards.induct) (auto split: if_splits)

lemma andR_True_iff [res_simps]: "andR xs = Inr True \<longleftrightarrow> (\<forall>x \<in> set xs. x = Inr True)"
proof (induction xs)
  case (Cons x xs)
  then show ?case by (cases x) auto
qed simp

lemma mapR_length: "mapR f xs = Inr ys \<Longrightarrow> length ys = length xs"
  by (induction xs arbitrary: ys) (auto simp: bindR_Inr_iff)

lemma mapR_nth: "mapR f xs = Inr ys \<Longrightarrow> i < length xs \<Longrightarrow> f (xs ! i) = Inr (ys ! i)"
proof (induction xs arbitrary: ys i)
  case (Cons x xs)
  then show ?case by (cases i) (auto simp: bindR_Inr_iff)
qed simp

lemma mapR_set: "mapR f xs = Inr ys \<Longrightarrow> y \<in> set ys \<Longrightarrow> \<exists>x \<in> set xs. f x = Inr y"
  by (induction xs arbitrary: ys) (auto simp: bindR_Inr_iff)

lemma filterR_pure: "filterR (\<lambda>x. Inr (p x)) xs = Inr (filter p xs)"
  by (induction xs) auto

lemma filterR_set: "filterR f xs = Inr ys \<Longrightarrow> set ys = {x \<in> set xs. f x = Inr True}"
  by (induction xs arbitrary: ys) (auto simp: bindR_Inr_iff split: if_splits)

lemma forR_Nil [simp]: "forR f [] = Inr ()"
  by (simp add: forR_def)

lemma forR_Cons [simp]: "forR f (x # xs) = bindR (f x) (\<lambda>_. forR f xs)"
  by (simp add: forR_def)

lemma forR_Inr_iff [res_simps]: "forR f xs = Inr u \<longleftrightarrow> (\<forall>x \<in> set xs. f x = Inr ())"
  by (induction xs) (auto simp: bindR_Inr_iff)

section \<open>Effectful code\<close>

type_synonym ('w, 'a) prog = "'w \<Rightarrow> 'a res \<times> 'w"

definition retP :: "'a \<Rightarrow> ('w, 'a) prog" where
  "retP a = (\<lambda>w. (Inr a, w))"

definition raiseP :: "exn \<Rightarrow> ('w, 'a) prog" where
  "raiseP e = (\<lambda>w. (Inl e, w))"

definition liftP :: "'a res \<Rightarrow> ('w, 'a) prog" where
  "liftP r = (\<lambda>w. (r, w))"

text \<open>Run \<open>m\<close> and hand its outcome, normal or exceptional, to \<open>k\<close>: the \<open>try\<close> of Python.\<close>

definition attemptP :: "('w, 'a) prog \<Rightarrow> ('a res \<Rightarrow> ('w, 'b) prog) \<Rightarrow> ('w, 'b) prog" where
  "attemptP m k = (\<lambda>w. case m w of (r, w') \<Rightarrow> k r w')"

definition bindP :: "('w, 'a) prog \<Rightarrow> ('a \<Rightarrow> ('w, 'b) prog) \<Rightarrow> ('w, 'b) prog" where
  "bindP m f = attemptP m (case_sum raiseP f)"

definition thenP :: "('w, unit) prog \<Rightarrow> ('w, 'b) prog \<Rightarrow> ('w, 'b) prog" where
  "thenP m n = bindP m (\<lambda>_. n)"

definition catchP :: "('w, 'a) prog \<Rightarrow> (exn \<Rightarrow> ('w, 'a) prog) \<Rightarrow> ('w, 'a) prog" where
  "catchP m h = attemptP m (case_sum h retP)"

definition whenP :: "bool \<Rightarrow> ('w, unit) prog \<Rightarrow> ('w, unit) prog" where
  "whenP b m = (if b then m else retP ())"

fun filterP :: "('a \<Rightarrow> ('w, bool) prog) \<Rightarrow> 'a list \<Rightarrow> ('w, 'a list) prog" where
  "filterP f [] = retP []"
| "filterP f (x # xs) =
     bindP (f x) (\<lambda>b. bindP (filterP f xs) (\<lambda>ys. retP (if b then x # ys else ys)))"

fun mapP :: "('a \<Rightarrow> ('w, 'b) prog) \<Rightarrow> 'a list \<Rightarrow> ('w, 'b list) prog" where
  "mapP f [] = retP []"
| "mapP f (x # xs) = bindP (f x) (\<lambda>y. bindP (mapP f xs) (\<lambda>ys. retP (y # ys)))"

subsection \<open>Weakest preconditions\<close>

text \<open>
  \<open>wpp m Q E w\<close>: started in \<open>w\<close>, \<open>m\<close> returns a value and a world that satisfy \<open>Q\<close>, or raises
  an exception in a world that satisfies \<open>E\<close>.
\<close>

definition wpp ::
  "('w, 'a) prog \<Rightarrow> ('a \<Rightarrow> 'w \<Rightarrow> bool) \<Rightarrow> (exn \<Rightarrow> 'w \<Rightarrow> bool) \<Rightarrow> 'w \<Rightarrow> bool" where
  "wpp m Q E w = (case m w of (Inr a, w') \<Rightarrow> Q a w' | (Inl e, w') \<Rightarrow> E e w')"

lemma wpp_retP [simp, wp]: "wpp (retP a) Q E = Q a"
  by (simp add: fun_eq_iff wpp_def retP_def)

lemma wpp_raiseP [simp, wp]: "wpp (raiseP e) Q E = E e"
  by (simp add: fun_eq_iff wpp_def raiseP_def)

lemma wpp_liftP [simp, wp]:
  "wpp (liftP r) Q E = (\<lambda>w. case r of Inr a \<Rightarrow> Q a w | Inl e \<Rightarrow> E e w)"
  by (simp add: fun_eq_iff wpp_def liftP_def split: sum.split)

lemma wpp_attemptP [simp, wp]:
  "wpp (attemptP m k) Q E = wpp m (\<lambda>a. wpp (k (Inr a)) Q E) (\<lambda>e. wpp (k (Inl e)) Q E)"
  by (simp add: fun_eq_iff wpp_def attemptP_def split: prod.split sum.split)

lemma wpp_bindP [simp, wp]: "wpp (bindP m f) Q E = wpp m (\<lambda>a. wpp (f a) Q E) E"
  by (simp add: bindP_def)

lemma wpp_thenP [simp, wp]: "wpp (thenP m n) Q E = wpp m (\<lambda>_. wpp n Q E) E"
  by (simp add: thenP_def)

lemma wpp_catchP [simp, wp]: "wpp (catchP m h) Q E = wpp m Q (\<lambda>e. wpp (h e) Q E)"
  by (simp add: catchP_def)

lemma wpp_whenP [simp, wp]: "wpp (whenP b m) Q E = (\<lambda>w. if b then wpp m Q E w else Q () w)"
  by (simp add: fun_eq_iff whenP_def)

lemma wpp_if [wp]:
  "wpp (if b then m else n) Q E = (\<lambda>w. if b then wpp m Q E w else wpp n Q E w)"
  by simp

lemma wpp_mono:
  assumes "wpp m Q E w" and "\<And>a w'. Q a w' \<Longrightarrow> Q' a w'" and "\<And>e w'. E e w' \<Longrightarrow> E' e w'"
  shows "wpp m Q' E' w"
  using assms by (auto simp: wpp_def split: prod.splits sum.splits)

lemma wpp_conj:
  "wpp m Q E w \<Longrightarrow> wpp m Q' E' w \<Longrightarrow>
    wpp m (\<lambda>a v. Q a v \<and> Q' a v) (\<lambda>e v. E e v \<and> E' e v) w"
  by (auto simp: wpp_def split: prod.splits sum.splits)

lemma wpp_InrD: "wpp m Q E w \<Longrightarrow> m w = (Inr a, w') \<Longrightarrow> Q a w'"
  by (simp add: wpp_def)

lemma wpp_InlD: "wpp m Q E w \<Longrightarrow> m w = (Inl e, w') \<Longrightarrow> E e w'"
  by (simp add: wpp_def)

lemma wpp_snd: "wpp m (\<lambda>_. I) (\<lambda>_. I) w \<longleftrightarrow> I (snd (m w))"
  by (cases "m w") (auto simp: wpp_def split: sum.split)

lemma wpp_I:
  "(\<And>a w'. m w = (Inr a, w') \<Longrightarrow> Q a w') \<Longrightarrow> (\<And>e w'. m w = (Inl e, w') \<Longrightarrow> E e w') \<Longrightarrow> wpp m Q E w"
  by (cases "m w") (auto simp: wpp_def split: sum.split)

subsection \<open>Running programs on concrete worlds\<close>

lemma run_retP [res_simps]: "retP a w = (Inr a, w)"
  by (simp add: retP_def)

lemma run_raiseP [res_simps]: "raiseP e w = (Inl e, w)"
  by (simp add: raiseP_def)

lemma run_liftP [res_simps]: "liftP r w = (r, w)"
  by (simp add: liftP_def)

lemma run_attemptP [res_simps]: "attemptP m k w = (case m w of (r, w') \<Rightarrow> k r w')"
  by (simp add: attemptP_def)

lemma run_bindP [res_simps]:
  "bindP m f w = (case m w of (Inr a, w') \<Rightarrow> f a w' | (Inl e, w') \<Rightarrow> (Inl e, w'))"
  by (simp add: bindP_def attemptP_def raiseP_def split: prod.split sum.split)

lemma run_thenP [res_simps]:
  "thenP m n w = (case m w of (Inr _, w') \<Rightarrow> n w' | (Inl e, w') \<Rightarrow> (Inl e, w'))"
  by (simp add: thenP_def run_bindP)

lemma run_catchP [res_simps]:
  "catchP m h w = (case m w of (Inr a, w') \<Rightarrow> (Inr a, w') | (Inl e, w') \<Rightarrow> h e w')"
  by (simp add: catchP_def attemptP_def retP_def split: prod.split sum.split)

lemma run_whenP [res_simps]: "whenP b m w = (if b then m w else (Inr (), w))"
  by (simp add: whenP_def retP_def)

lemmas run_simps =
  run_retP run_raiseP run_liftP run_attemptP run_bindP run_thenP run_catchP run_whenP

lemma bindP_Inr_iff:
  "bindP m f w = (Inr b, w') \<longleftrightarrow> (\<exists>a v. m w = (Inr a, v) \<and> f a v = (Inr b, w'))"
  by (auto simp: run_bindP split: prod.splits sum.splits)

subsection \<open>Programs that keep a relation on worlds\<close>

text \<open>\<open>keeps R m\<close>: whatever \<open>m\<close> does, its final world is \<open>R\<close>-related to its initial one.\<close>

definition keeps :: "('w \<Rightarrow> 'w \<Rightarrow> bool) \<Rightarrow> ('w, 'a) prog \<Rightarrow> bool" where
  "keeps R m \<longleftrightarrow> (\<forall>w. R w (snd (m w)))"

lemma keepsD: "keeps R m \<Longrightarrow> m w = (r, w') \<Longrightarrow> R w w'"
  unfolding keeps_def by (metis snd_conv)

lemma wpp_keeps: "keeps R m \<Longrightarrow> wpp m (\<lambda>_. R w) (\<lambda>_. R w) w"
  by (simp add: wpp_snd keeps_def)

lemma keeps_pure [intro]:
  "reflp R \<Longrightarrow> keeps R (retP a)" "reflp R \<Longrightarrow> keeps R (raiseP e)" "reflp R \<Longrightarrow> keeps R (liftP r)"
  by (simp_all add: keeps_def retP_def raiseP_def liftP_def reflp_def)

lemma keeps_attemptP [intro]:
  assumes "transp R" and "keeps R m" and "\<And>r. keeps R (k r)"
  shows "keeps R (attemptP m k)"
  using assms unfolding keeps_def attemptP_def
  by (auto split: prod.split) (metis snd_conv transpD)

lemma keeps_bindP [intro]:
  assumes "reflp R" and "transp R" and "keeps R m" and "\<And>a. keeps R (f a)"
  shows "keeps R (bindP m f)"
  unfolding bindP_def using assms by (intro keeps_attemptP) (auto split: sum.split)

lemma keeps_thenP [intro]:
  "reflp R \<Longrightarrow> transp R \<Longrightarrow> keeps R m \<Longrightarrow> keeps R n \<Longrightarrow> keeps R (thenP m n)"
  by (auto simp: thenP_def)

lemma keeps_catchP [intro]:
  assumes "reflp R" and "transp R" and "keeps R m" and "\<And>e. keeps R (h e)"
  shows "keeps R (catchP m h)"
  unfolding catchP_def using assms by (intro keeps_attemptP) (auto split: sum.split)

lemma keeps_whenP [intro]: "reflp R \<Longrightarrow> keeps R m \<Longrightarrow> keeps R (whenP b m)"
  by (auto simp: whenP_def)

lemma keeps_filterP [intro]:
  "reflp R \<Longrightarrow> transp R \<Longrightarrow> (\<And>x. keeps R (f x)) \<Longrightarrow> keeps R (filterP f xs)"
  by (induction xs) auto

lemma filterP_set: "filterP f xs w = (Inr ys, w') \<Longrightarrow> set ys \<subseteq> set xs"
proof (induction xs arbitrary: ys w)
  case (Cons x xs)
  then obtain b v zs v' where zs: "filterP f xs v = (Inr zs, v')" and ys: "ys = (if b then x # zs else zs)"
    and "v' = w'"
    by (auto simp: bindP_Inr_iff run_retP)
  with Cons.IH [of v zs] show ?case by auto
qed (simp add: run_retP)

section \<open>Lists\<close>

text \<open>\<open>xs[-n:]\<close> with \<open>n > 0\<close>: the bounded histories of the release state.\<close>

definition last_n :: "nat \<Rightarrow> 'a list \<Rightarrow> 'a list" where
  "last_n n xs = drop (length xs - n) xs"

lemma length_last_n [simp]: "length (last_n n xs) = min n (length xs)"
  by (simp add: last_n_def)

lemma last_n_short [simp]: "length xs \<le> n \<Longrightarrow> last_n n xs = xs"
  by (simp add: last_n_def)

lemma set_last_n: "set (last_n n xs) \<subseteq> set xs"
  by (auto simp: last_n_def dest: in_set_dropD)

lemma last_n_snoc: "0 < n \<Longrightarrow> last_n n (xs @ [x]) = last_n (n - 1) xs @ [x]"
  by (cases n) (auto simp: last_n_def Suc_diff_le)

lemma last_n_distinct: "distinct xs \<Longrightarrow> distinct (last_n n xs)"
  by (simp add: last_n_def)

text \<open>\<open>next((x for x in xs if p x), None)\<close>.\<close>

fun first_such :: "('a \<Rightarrow> bool) \<Rightarrow> 'a list \<Rightarrow> 'a option" where
  "first_such p [] = None"
| "first_such p (x # xs) = (if p x then Some x else first_such p xs)"

lemma first_such_SomeD: "first_such p xs = Some x \<Longrightarrow> x \<in> set xs \<and> p x"
  by (induction xs) (auto split: if_splits)

lemma first_such_None_iff: "first_such p xs = None \<longleftrightarrow> (\<forall>x \<in> set xs. \<not> p x)"
  by (induction xs) auto

text \<open>In-place update of the first element found by \<open>next\<close>.\<close>

fun update_first :: "('a \<Rightarrow> bool) \<Rightarrow> ('a \<Rightarrow> 'a) \<Rightarrow> 'a list \<Rightarrow> 'a list" where
  "update_first p f [] = []"
| "update_first p f (x # xs) = (if p x then f x # xs else x # update_first p f xs)"

lemma length_update_first [simp]: "length (update_first p f xs) = length xs"
  by (induction xs) auto

lemma update_first_none: "\<forall>x \<in> set xs. \<not> p x \<Longrightarrow> update_first p f xs = xs"
  by (induction xs) auto

lemma update_first_in: "y \<in> set (update_first p f xs) \<Longrightarrow> y \<in> set xs \<or> (\<exists>x \<in> set xs. p x \<and> y = f x)"
  by (induction xs) (auto split: if_splits)

lemma map_update_first: "(\<And>x. p x \<Longrightarrow> g (f x) = g x) \<Longrightarrow> map g (update_first p f xs) = map g xs"
  by (induction xs) auto

text \<open>
  \<open>max(xs, key=f)\<close> keeps the first of several maximal elements. \<open>lt\<close> is the comparison of the
  keys; the list is not empty where the code calls it.
\<close>

fun max_by :: "('a \<Rightarrow> 'a \<Rightarrow> bool) \<Rightarrow> 'a \<Rightarrow> 'a list \<Rightarrow> 'a" where
  "max_by lt x [] = x"
| "max_by lt x (y # ys) = max_by lt (if lt x y then y else x) ys"

lemma max_by_in: "max_by lt x xs \<in> set (x # xs)"
  by (induction xs arbitrary: x) (auto split: if_splits)

lemma max_by_max:
  fixes f :: "'a \<Rightarrow> 'b :: linorder"
  shows "\<forall>y \<in> set (x # xs). f y \<le> f (max_by (\<lambda>a b. f a < f b) x xs)"
proof (induction xs arbitrary: x)
  case (Cons z zs)
  show ?case using Cons.IH [of z] Cons.IH [of x] by (auto split: if_splits)
qed simp

section \<open>Characters and strings\<close>

definition code :: "char \<Rightarrow> nat" where
  "code c = of_char c"

definition digit :: "char \<Rightarrow> bool" where
  "digit c \<longleftrightarrow> 48 \<le> code c \<and> code c \<le> 57"

definition nonzero_digit :: "char \<Rightarrow> bool" where
  "nonzero_digit c \<longleftrightarrow> 49 \<le> code c \<and> code c \<le> 57"

definition upper :: "char \<Rightarrow> bool" where
  "upper c \<longleftrightarrow> 65 \<le> code c \<and> code c \<le> 90"

definition lower :: "char \<Rightarrow> bool" where
  "lower c \<longleftrightarrow> 97 \<le> code c \<and> code c \<le> 122"

definition hex_digit :: "char \<Rightarrow> bool" where
  "hex_digit c \<longleftrightarrow> digit c \<or> (97 \<le> code c \<and> code c \<le> 102)"

definition alnum :: "char \<Rightarrow> bool" where
  "alnum c \<longleftrightarrow> digit c \<or> upper c \<or> lower c"

text \<open>\<open>str.isspace\<close> on code points below 256: the characters \<open>strip\<close> and \<open>\\s\<close> treat as space.\<close>

definition space :: "char \<Rightarrow> bool" where
  "space c \<longleftrightarrow> (9 \<le> code c \<and> code c \<le> 13) \<or> (28 \<le> code c \<and> code c \<le> 32) \<or> code c = 133 \<or> code c = 160"

lemmas char_class_defs [regex_defs] =
  code_def digit_def nonzero_digit_def upper_def lower_def hex_digit_def alnum_def space_def

text \<open>For evaluation the classes compare binary integers.\<close>

lemma code_le: "n \<le> code c \<longleftrightarrow> int n \<le> of_char c" "code c \<le> n \<longleftrightarrow> of_char c \<le> int n"
  "code c = n \<longleftrightarrow> of_char c = int n"
  unfolding code_def by (simp_all flip: of_nat_of_char [where ?'a = int])

lemma char_class_code [code]:
  "digit c \<longleftrightarrow> (let i = (of_char c :: int) in 48 \<le> i \<and> i \<le> 57)"
  "nonzero_digit c \<longleftrightarrow> (let i = (of_char c :: int) in 49 \<le> i \<and> i \<le> 57)"
  "upper c \<longleftrightarrow> (let i = (of_char c :: int) in 65 \<le> i \<and> i \<le> 90)"
  "lower c \<longleftrightarrow> (let i = (of_char c :: int) in 97 \<le> i \<and> i \<le> 122)"
  "hex_digit c \<longleftrightarrow> (let i = (of_char c :: int) in 48 \<le> i \<and> i \<le> 57 \<or> 97 \<le> i \<and> i \<le> 102)"
  "space c \<longleftrightarrow> (let i = (of_char c :: int) in
     9 \<le> i \<and> i \<le> 13 \<or> 28 \<le> i \<and> i \<le> 32 \<or> i = 133 \<or> i = 160)"
  unfolding digit_def nonzero_digit_def upper_def lower_def hex_digit_def space_def Let_def code_le
  by simp_all

text \<open>\<open>str.lower\<close> on code points below 256.\<close>

definition lower_char :: "char \<Rightarrow> char" where
  "lower_char c =
     (if upper c \<or> (192 \<le> code c \<and> code c \<le> 222 \<and> code c \<noteq> 215) then char_of (code c + 32) else c)"

definition str_lower :: "string \<Rightarrow> string" where
  "str_lower = map lower_char"

lemma lower_char_code [code]:
  "lower_char c =
     (let i = (of_char c :: int)
      in if 65 \<le> i \<and> i \<le> 90 \<or> 192 \<le> i \<and> i \<le> 222 \<and> i \<noteq> 215 then char_of (i + 32) else c)"
proof -
  have "char_of (code c + 32) = (char_of ((of_char c :: int) + 32) :: char)"
    unfolding code_def by (metis char_of_nat of_nat_add of_nat_numeral of_nat_of_char)
  then show ?thesis
    unfolding lower_char_def upper_def Let_def code_le by simp
qed

definition lstrip_by :: "(char \<Rightarrow> bool) \<Rightarrow> string \<Rightarrow> string" where
  "lstrip_by p s = dropWhile p s"

definition rstrip_by :: "(char \<Rightarrow> bool) \<Rightarrow> string \<Rightarrow> string" where
  "rstrip_by p s = rev (dropWhile p (rev s))"

definition strip :: "string \<Rightarrow> string" where
  "strip s = rstrip_by space (lstrip_by space s)"

text \<open>\<open>s.strip()\<close> is the empty string exactly when every character is a space.\<close>

lemma strip_eq_Nil_iff: "strip s = [] \<longleftrightarrow> (\<forall>c \<in> set s. space c)"
proof -
  have "strip s = [] \<longleftrightarrow> (\<forall>c \<in> set (dropWhile space s). space c)"
    by (simp add: strip_def rstrip_by_def lstrip_by_def)
  also have "\<dots> \<longleftrightarrow> (\<forall>c \<in> set s. space c)"
    by (metis dropWhile_eq_Nil_conv hd_dropWhile list.set_sel(1) empty_iff list.set(1))
  finally show ?thesis .
qed

definition starts_with :: "string \<Rightarrow> string \<Rightarrow> bool" where
  "starts_with p s \<longleftrightarrow> take (length p) s = p"

definition ends_with :: "string \<Rightarrow> string \<Rightarrow> bool" where
  "ends_with p s \<longleftrightarrow> length p \<le> length s \<and> drop (length s - length p) s = p"

text \<open>\<open>s.split(c, 1)\<close> when \<open>c\<close> occurs: the part before its first occurrence and the rest.\<close>

definition before :: "char \<Rightarrow> string \<Rightarrow> string" where
  "before c s = takeWhile (\<lambda>d. d \<noteq> c) s"

definition after :: "char \<Rightarrow> string \<Rightarrow> string" where
  "after c s = drop 1 (dropWhile (\<lambda>d. d \<noteq> c) s)"

fun split_on :: "char \<Rightarrow> string \<Rightarrow> string list" where
  "split_on c [] = [[]]"
| "split_on c (x # xs) =
     (if x = c then [] # split_on c xs
      else case split_on c xs of [] \<Rightarrow> [[x]] | y # ys \<Rightarrow> (x # y) # ys)"

definition join :: "string \<Rightarrow> string list \<Rightarrow> string" where
  "join sep xs = (case xs of [] \<Rightarrow> [] | x # rest \<Rightarrow> x @ concat (map (\<lambda>y. sep @ y) rest))"

text \<open>\<open>sub in s\<close> for strings.\<close>

fun contains :: "string \<Rightarrow> string \<Rightarrow> bool" where
  "contains p [] = (p = [])"
| "contains p (c # s) = (starts_with p (c # s) \<or> contains p s)"

section \<open>Numbers as strings\<close>

definition digit_value :: "char \<Rightarrow> nat" where
  "digit_value c = code c - 48"

definition digits_value :: "string \<Rightarrow> nat" where
  "digits_value s = foldl (\<lambda>n c. 10 * n + digit_value c) 0 s"

text \<open>\<open>int(s)\<close> for a string of decimal digits with an optional sign and surrounding space.\<close>

definition py_int :: "string \<Rightarrow> int res" where
  "py_int s =
     (let t = strip s;
          neg = (t \<noteq> [] \<and> hd t = CHR ''-'');
          body = (if t \<noteq> [] \<and> hd t \<in> set ''+-'' then tl t else t);
          parts = split_on (CHR ''_'') body
      in if (\<forall>p \<in> set parts. p \<noteq> [] \<and> list_all digit p)
         then Inr ((if neg then - 1 else 1) * int (digits_value (concat parts)))
         else Inl (ValueError ''invalid literal for int()''))"

fun nat_digits :: "nat \<Rightarrow> string" where
  "nat_digits n =
     (if n < 10 then [char_of (48 + n)] else nat_digits (n div 10) @ [char_of (48 + n mod 10)])"

declare nat_digits.simps [simp del]

lemma digit_char: "n < 10 \<Longrightarrow> char_of (48 + n) = ''0123456789'' ! n" for n :: nat
proof -
  assume "n < 10"
  then have "n \<in> {0, 1, 2, 3, 4, 5, 6, 7, 8, 9}" by auto
  then show ?thesis by (auto simp: char_of_eq_iff take_bit_eq_mod)
qed

lemma nat_digits_code [code]:
  "nat_digits n =
     (if n < 10 then [''0123456789'' ! n] else nat_digits (n div 10) @ [''0123456789'' ! (n mod 10)])"
  by (subst nat_digits.simps) (simp add: digit_char del: nth_Cons_numeral)

definition int_str :: "int \<Rightarrow> string" where
  "int_str i = (if i < 0 then CHR ''-'' # nat_digits (nat (- i)) else nat_digits (nat i))"

section \<open>Shapes of regular expressions\<close>

text \<open>
  The regular expressions of the code are full matches of two shapes: a class repeated between
  two bounds, and a first character of one class followed by such a repetition. The predicates
  below are those shapes; each use names its expression.
\<close>

definition rx_chars :: "nat \<Rightarrow> nat \<Rightarrow> (char \<Rightarrow> bool) \<Rightarrow> string \<Rightarrow> bool" where
  "rx_chars lo hi p s \<longleftrightarrow> lo \<le> length s \<and> length s \<le> hi \<and> list_all p s"

definition rx_first :: "(char \<Rightarrow> bool) \<Rightarrow> (char \<Rightarrow> bool) \<Rightarrow> nat \<Rightarrow> string \<Rightarrow> bool" where
  "rx_first p q hi s \<longleftrightarrow>
     (case s of [] \<Rightarrow> False | c # cs \<Rightarrow> p c \<and> length cs \<le> hi \<and> list_all q cs)"

text \<open>\<open>sha256:[0-9a-f]{64}\<close>, the immutable digests of the system.\<close>

definition rx_digest :: "string \<Rightarrow> bool" where
  "rx_digest s \<longleftrightarrow> take 7 s = ''sha256:'' \<and> rx_chars 64 64 hex_digit (drop 7 s)"

lemmas rx_defs [regex_defs] = rx_chars_def rx_first_def rx_digest_def

lemma rx_digest_length: "rx_digest s \<Longrightarrow> length s = 71"
  by (auto simp: rx_digest_def rx_chars_def)

lemma digits_value_snoc: "digits_value (s @ [c]) = 10 * digits_value s + digit_value c"
  by (simp add: digits_value_def)

lemma digit_value_char_of [simp]: "n < 10 \<Longrightarrow> digit_value (char_of (48 + n)) = n"
  by (simp add: digit_value_def code_def of_char_of)

lemma digits_value_nat_digits [simp]: "digits_value (nat_digits n) = n"
proof (induction n rule: nat_digits.induct)
  case (1 n)
  show ?case
  proof (cases "n < 10")
    case True
    then show ?thesis by (subst nat_digits.simps) (simp add: digits_value_def)
  next
    case False
    with 1 have "digits_value (nat_digits (n div 10)) = n div 10" by simp
    then show ?thesis using False by (subst nat_digits.simps) (simp add: digits_value_snoc)
  qed
qed

lemma nat_digits_inject: "nat_digits m = nat_digits n \<longleftrightarrow> m = n"
  by (metis digits_value_nat_digits)

end
