(* ===== verification/Json.thy ===== *)
theory Json
  imports Prelude "HOL-Library.List_Lexorder" "HOL-Library.Char_ord"
begin

text \<open>
  Dynamically typed values: what \<open>json.loads\<close> returns, and what the components receive from
  the Kubernetes API, from AWS, from GitHub and from evidence files. The accessors raise the
  exception Python raises, so that a malformed document takes the branch the code gives it.
  \<open>pylib\<close> collects the three library functions the code uses as black boxes: the hexadecimal
  SHA-256 of a string, the shortest representation of a float, and \<open>datetime.fromisoformat\<close>
  (\<open>None\<close> where it raises, otherwise the POSIX time and whether a time zone is given). Every
  theorem holds for all choices of these functions.
\<close>

section \<open>Floats and values\<close>

datatype flt = Fin rat | PInf | NInf | NaN

fun flt_finite :: "flt \<Rightarrow> bool" where
  "flt_finite (Fin _) = True"
| "flt_finite _ = False"

text \<open>IEEE comparisons: every comparison with NaN is false.\<close>

fun flt_le :: "flt \<Rightarrow> flt \<Rightarrow> bool" where
  "flt_le NaN _ = False"
| "flt_le _ NaN = False"
| "flt_le NInf _ = True"
| "flt_le _ PInf = True"
| "flt_le (Fin a) (Fin b) = (a \<le> b)"
| "flt_le _ _ = False"

fun flt_eq :: "flt \<Rightarrow> flt \<Rightarrow> bool" where
  "flt_eq NaN _ = False"
| "flt_eq _ NaN = False"
| "flt_eq a b = (a = b)"

definition flt_lt :: "flt \<Rightarrow> flt \<Rightarrow> bool" where
  "flt_lt a b \<longleftrightarrow> flt_le a b \<and> \<not> flt_eq a b"

lemma flt_lt_Fin [simp]: "flt_lt (Fin a) (Fin b) \<longleftrightarrow> a < b"
  by (auto simp: flt_lt_def)

datatype json =
    JNull
  | JBool bool
  | JInt int
  | JFlt flt
  | JStr string
  | JArr "json list"
  | JObj "(string \<times> json) list"

record pylib =
  lib_sha256 :: "string \<Rightarrow> string"
  lib_float_repr :: "rat \<Rightarrow> string"
  lib_fromiso :: "string \<Rightarrow> (rat \<times> bool) option"

text \<open>The number a value stands for in comparisons; \<open>True\<close> and \<open>False\<close> are 1 and 0.\<close>

fun num_of :: "json \<Rightarrow> flt option" where
  "num_of (JBool b) = Some (Fin (if b then 1 else 0))"
| "num_of (JInt i) = Some (Fin (of_int i))"
| "num_of (JFlt f) = Some f"
| "num_of _ = None"

text \<open>\<open>type(x) in (int, float)\<close>: a bool is not one of them.\<close>

fun is_number :: "json \<Rightarrow> bool" where
  "is_number (JInt _) = True"
| "is_number (JFlt _) = True"
| "is_number _ = False"

fun is_str :: "json \<Rightarrow> bool" where
  "is_str (JStr _) = True"
| "is_str _ = False"

fun is_dict :: "json \<Rightarrow> bool" where
  "is_dict (JObj _) = True"
| "is_dict _ = False"

fun is_list :: "json \<Rightarrow> bool" where
  "is_list (JArr _) = True"
| "is_list _ = False"

fun str_of :: "json \<Rightarrow> string" where
  "str_of (JStr s) = s"
| "str_of _ = []"

fun list_of :: "json \<Rightarrow> json list" where
  "list_of (JArr xs) = xs"
| "list_of _ = []"

fun truthy :: "json \<Rightarrow> bool" where
  "truthy JNull = False"
| "truthy (JBool b) = b"
| "truthy (JInt i) = (i \<noteq> 0)"
| "truthy (JFlt f) = (f \<noteq> Fin 0)"
| "truthy (JStr s) = (s \<noteq> [])"
| "truthy (JArr xs) = (xs \<noteq> [])"
| "truthy (JObj kvs) = (kvs \<noteq> [])"

lemma is_str_iff: "is_str j \<longleftrightarrow> (\<exists>s. j = JStr s)"
  by (cases j) auto

lemma is_dict_iff: "is_dict j \<longleftrightarrow> (\<exists>kvs. j = JObj kvs)"
  by (cases j) auto

lemma is_list_iff: "is_list j \<longleftrightarrow> (\<exists>xs. j = JArr xs)"
  by (cases j) auto

lemma is_number_num_of: "is_number j \<Longrightarrow> \<exists>f. num_of j = Some f"
  by (cases j) auto

section \<open>Equality\<close>

text \<open>
  Python's \<open>==\<close>: numbers of all types by value, lists element by element, dicts as finite maps
  whatever their order. Dict keys are distinct.
\<close>

fun py_eq :: "json \<Rightarrow> json \<Rightarrow> bool" where
  "py_eq (JStr s) j = (j = JStr s)"
| "py_eq JNull j = (j = JNull)"
| "py_eq (JArr xs) j =
     (case j of JArr ys \<Rightarrow> list_all2 (\<lambda>p y. p y) (map py_eq xs) ys | _ \<Rightarrow> False)"
| "py_eq (JObj kvs) j =
     (case j of
        JObj kvs' \<Rightarrow> length kvs = length kvs' \<and>
          list_all (\<lambda>(k, p). case map_of kvs' k of Some v' \<Rightarrow> p v' | None \<Rightarrow> False)
            (map (\<lambda>(k, v). (k, py_eq v)) kvs)
      | _ \<Rightarrow> False)"
| "py_eq i j =
     (case (num_of i, num_of j) of (Some a, Some b) \<Rightarrow> flt_eq a b | _ \<Rightarrow> False)"

lemma py_eq_JStr_right [simp]: "py_eq j (JStr s) \<longleftrightarrow> j = JStr s"
  by (cases j) auto

lemma py_eq_JNull_right [simp]: "py_eq j JNull \<longleftrightarrow> j = JNull"
  by (cases j) auto

section \<open>Accessors\<close>

text \<open>\<open>j[k]\<close>, \<open>j.get(k, d)\<close> and \<open>k in j\<close> for a string key.\<close>

definition jget :: "string \<Rightarrow> json \<Rightarrow> json res" where
  "jget k j =
     (case j of
        JObj kvs \<Rightarrow> (case map_of kvs k of Some v \<Rightarrow> Inr v | None \<Rightarrow> Inl (KeyError k))
      | _ \<Rightarrow> Inl (TypeError ''not subscriptable''))"

definition jget_or :: "string \<Rightarrow> json \<Rightarrow> json \<Rightarrow> json res" where
  "jget_or k d j =
     (case j of
        JObj kvs \<Rightarrow> Inr (case map_of kvs k of Some v \<Rightarrow> v | None \<Rightarrow> d)
      | _ \<Rightarrow> Inl AttributeError)"

definition jhas :: "string \<Rightarrow> json \<Rightarrow> bool" where
  "jhas k j = (case j of JObj kvs \<Rightarrow> k \<in> fst ` set kvs | _ \<Rightarrow> False)"

text \<open>\<open>j.get(k1, {}).get(k2, {})\<close> and so on, each missing key an empty dict.\<close>

fun jpath :: "string list \<Rightarrow> json \<Rightarrow> json res" where
  "jpath [] j = Inr j"
| "jpath (k # ks) j = bindR (jget_or k (JObj []) j) (jpath ks)"

text \<open>\<open>j[k1][k2]\<close> and so on.\<close>

fun jdeep :: "string list \<Rightarrow> json \<Rightarrow> json res" where
  "jdeep [] j = Inr j"
| "jdeep (k # ks) j = bindR (jget k j) (jdeep ks)"

text \<open>\<open>j[n]\<close> for a list.\<close>

definition jnth :: "nat \<Rightarrow> json \<Rightarrow> json res" where
  "jnth n j =
     (case j of JArr xs \<Rightarrow> if n < length xs then Inr (xs ! n) else Inl IndexError
      | JObj _ \<Rightarrow> Inl (KeyError ''index'')
      | JStr s \<Rightarrow> if n < length s then Inr (JStr [s ! n]) else Inl IndexError
      | _ \<Rightarrow> Inl (TypeError ''not subscriptable''))"

text \<open>Iteration over a value: \<open>for x in j\<close>.\<close>

definition jiter :: "json \<Rightarrow> json list res" where
  "jiter j =
     (case j of JArr xs \<Rightarrow> Inr xs
      | JObj kvs \<Rightarrow> Inr (map (JStr \<circ> fst) kvs)
      | JStr s \<Rightarrow> Inr (map (\<lambda>c. JStr [c]) s)
      | _ \<Rightarrow> Inl (TypeError ''not iterable''))"

definition jlen :: "json \<Rightarrow> nat res" where
  "jlen j = bindR (jiter j) (\<lambda>xs. Inr (length xs))"

text \<open>\<open>set(j) == {k1, k2, ...}\<close> for a dict.\<close>

definition keys_are :: "string list \<Rightarrow> json \<Rightarrow> bool" where
  "keys_are ks j = (case j of JObj kvs \<Rightarrow> set (map fst kvs) = set ks | _ \<Rightarrow> False)"

text \<open>\<open>a <= b\<close> and \<open>a < b\<close>: values of other types than numbers raise.\<close>

definition jle :: "json \<Rightarrow> json \<Rightarrow> bool res" where
  "jle a b =
     (case (num_of a, num_of b) of (Some x, Some y) \<Rightarrow> Inr (flt_le x y)
      | _ \<Rightarrow> Inl (TypeError ''not comparable''))"

definition jlt :: "json \<Rightarrow> json \<Rightarrow> bool res" where
  "jlt a b =
     (case (num_of a, num_of b) of (Some x, Some y) \<Rightarrow> Inr (flt_lt x y)
      | _ \<Rightarrow> Inl (TypeError ''not comparable''))"

lemma jget_JObj [simp]:
  "jget k (JObj kvs) = (case map_of kvs k of Some v \<Rightarrow> Inr v | None \<Rightarrow> Inl (KeyError k))"
  by (simp add: jget_def)

lemma jget_or_JObj [simp]:
  "jget_or k d (JObj kvs) = Inr (case map_of kvs k of Some v \<Rightarrow> v | None \<Rightarrow> d)"
  by (simp add: jget_or_def)

lemma jget_Inr_iff: "jget k j = Inr v \<longleftrightarrow> (\<exists>kvs. j = JObj kvs \<and> map_of kvs k = Some v)"
  by (cases j) (auto simp: jget_def split: option.splits)

lemma jget_or_Inr_dict: "jget_or k d j = Inr v \<Longrightarrow> is_dict j"
  by (cases j) (auto simp: jget_or_def)

lemma keys_are_dict: "keys_are ks j \<Longrightarrow> is_dict j"
  by (cases j) (auto simp: keys_are_def)

lemma keys_are_get: "keys_are ks j \<Longrightarrow> k \<in> set ks \<Longrightarrow> \<exists>v. jget k j = Inr v"
proof -
  assume "keys_are ks j" and "k \<in> set ks"
  then obtain kvs where j: "j = JObj kvs" and "k \<in> fst ` set kvs"
    by (cases j) (auto simp: keys_are_def)
  then have "map_of kvs k \<noteq> None" by (simp add: map_of_eq_None_iff)
  with j show ?thesis by auto
qed

section \<open>Serialisation\<close>

text \<open>\<open>json.dumps\<close> with \<open>ensure_ascii\<close>: everything outside the printable ASCII range is escaped.\<close>

definition hex_char :: "nat \<Rightarrow> char" where
  "hex_char n = char_of (if n < 10 then 48 + n else 87 + n)"

definition esc_char :: "char \<Rightarrow> string" where
  "esc_char c =
     (if code c = 34 then [CHR 0x5C, CHR 0x22]
      else if code c = 92 then [CHR 0x5C, CHR 0x5C]
      else if code c = 8 then CHR 0x5C # ''b''
      else if code c = 9 then CHR 0x5C # ''t''
      else if code c = 10 then CHR 0x5C # ''n''
      else if code c = 12 then CHR 0x5C # ''f''
      else if code c = 13 then CHR 0x5C # ''r''
      else if 32 \<le> code c \<and> code c \<le> 126 then [c]
      else CHR 0x5C # ''u00'' @ [hex_char (code c div 16), hex_char (code c mod 16)])"

lemma esc_char_code [code]:
  "esc_char c =
     (let i = (of_char c :: int)
      in if i = 34 then [CHR 0x5C, CHR 0x22]
         else if i = 92 then [CHR 0x5C, CHR 0x5C]
         else if i = 8 then CHR 0x5C # ''b''
         else if i = 9 then CHR 0x5C # ''t''
         else if i = 10 then CHR 0x5C # ''n''
         else if i = 12 then CHR 0x5C # ''f''
         else if i = 13 then CHR 0x5C # ''r''
         else if 32 \<le> i \<and> i \<le> 126 then [c]
         else CHR 0x5C # ''u00'' @ [hex_char (code c div 16), hex_char (code c mod 16)])"
  unfolding esc_char_def Let_def code_le by simp

definition quote :: "string \<Rightarrow> string" where
  "quote s = CHR 0x22 # concat (map esc_char s) @ [CHR 0x22]"

fun dump_flt :: "(rat \<Rightarrow> string) \<Rightarrow> flt \<Rightarrow> string" where
  "dump_flt fr (Fin r) = fr r"
| "dump_flt fr PInf = ''Infinity''"
| "dump_flt fr NInf = ''-Infinity''"
| "dump_flt fr NaN = ''NaN''"

text \<open>\<open>sort_keys=True\<close> orders every dict of the value.\<close>

fun sort_keys :: "json \<Rightarrow> json" where
  "sort_keys (JArr xs) = JArr (map sort_keys xs)"
| "sort_keys (JObj kvs) = JObj (sort_key fst (map (\<lambda>(k, v). (k, sort_keys v)) kvs))"
| "sort_keys j = j"

fun dump :: "(rat \<Rightarrow> string) \<Rightarrow> string \<Rightarrow> string \<Rightarrow> json \<Rightarrow> string" where
  "dump fr isep ksep JNull = ''null''"
| "dump fr isep ksep (JBool b) = (if b then ''true'' else ''false'')"
| "dump fr isep ksep (JInt i) = int_str i"
| "dump fr isep ksep (JFlt f) = dump_flt fr f"
| "dump fr isep ksep (JStr s) = quote s"
| "dump fr isep ksep (JArr xs) = ''['' @ join isep (map (dump fr isep ksep) xs) @ '']''"
| "dump fr isep ksep (JObj kvs) =
     ''{'' @ join isep (map (\<lambda>(k, v). quote k @ ksep @ dump fr isep ksep v) kvs) @ ''}''"

fun all_finite :: "json \<Rightarrow> bool" where
  "all_finite (JFlt f) = flt_finite f"
| "all_finite (JArr xs) = list_all all_finite xs"
| "all_finite (JObj kvs) = list_all (\<lambda>(k, v). all_finite v) kvs"
| "all_finite _ = True"

text \<open>
  \<open>json.dumps(v, sort_keys=True, separators=(",", ":"))\<close>, with \<open>allow_nan=False\<close> where the
  code gives it: a non-finite float then raises.
\<close>

definition canonical_dumps :: "pylib \<Rightarrow> json \<Rightarrow> string" where
  "canonical_dumps L j = dump (lib_float_repr L) '','' '':'' (sort_keys j)"

definition strict_canonical_dumps :: "pylib \<Rightarrow> json \<Rightarrow> string res" where
  "strict_canonical_dumps L j =
     (if all_finite j then Inr (canonical_dumps L j)
      else Inl (ValueError ''Out of range float values are not JSON compliant''))"

text \<open>\<open>json.dumps(v, allow_nan=False)\<close> and its length in bytes; the output is ASCII.\<close>

definition plain_dumps :: "pylib \<Rightarrow> json \<Rightarrow> string" where
  "plain_dumps L j = dump (lib_float_repr L) '', '' '': '' j"

definition strict_dump_length :: "pylib \<Rightarrow> json \<Rightarrow> nat res" where
  "strict_dump_length L j =
     (if all_finite j then Inr (length (plain_dumps L j))
      else Inl (ValueError ''Out of range float values are not JSON compliant''))"

definition opt_json :: "('a \<Rightarrow> json) \<Rightarrow> 'a option \<Rightarrow> json" where
  "opt_json f x = (case x of None \<Rightarrow> JNull | Some a \<Rightarrow> f a)"

abbreviation jrat :: "rat \<Rightarrow> json" where
  "jrat r \<equiv> JFlt (Fin r)"

end
