(* ===== verification/Urls.thy ===== *)
theory Urls
  imports Prelude
begin

text \<open>
  \<open>urllib.parse.urlsplit\<close> as the components use it: scheme, network location, path, query and
  fragment, and the \<open>hostname\<close>, \<open>username\<close> and \<open>password\<close> of the location (empty where Python
  gives \<open>None\<close>). A location with an unmatched bracket raises; the address inside matched
  brackets and the normalisation of non-ASCII locations are not checked further, since every
  caller compares the location with a fixed ASCII host name.
\<close>

record url =
  u_scheme :: string
  u_netloc :: string
  u_path :: string
  u_query :: string
  u_fragment :: string

definition scheme_char :: "char \<Rightarrow> bool" where
  "scheme_char c \<longleftrightarrow> alnum c \<or> c \<in> set ''+-.''"

text \<open>The scheme is what precedes the first colon, if it looks like one.\<close>

definition split_scheme :: "string \<Rightarrow> string \<times> string" where
  "split_scheme s =
     (let p = before (CHR '':'') s
      in if CHR '':'' \<in> set s \<and> p \<noteq> [] \<and> (upper (hd p) \<or> lower (hd p)) \<and> list_all scheme_char p
         then (str_lower p, after (CHR '':'') s) else ([], s))"

text \<open>\<open>s.split(c, 1)\<close>, the second part empty when \<open>c\<close> does not occur.\<close>

definition cut :: "char \<Rightarrow> string \<Rightarrow> string \<times> string" where
  "cut c s = (before c s, after c s)"

text \<open>The characters \<open>urlsplit\<close> strips on the left, and those it removes everywhere.\<close>

definition control :: "char \<Rightarrow> bool" where
  "control c \<longleftrightarrow> code c \<le> 32"

definition tab_or_newline :: "char \<Rightarrow> bool" where
  "tab_or_newline c \<longleftrightarrow> code c = 9 \<or> code c = 10 \<or> code c = 13"

lemma control_code [code]:
  "control c \<longleftrightarrow> (of_char c :: int) \<le> 32"
  "tab_or_newline c \<longleftrightarrow> (let i = (of_char c :: int) in i = 9 \<or> i = 10 \<or> i = 13)"
  unfolding control_def tab_or_newline_def Let_def code_le by simp_all

definition urlsplit :: "string \<Rightarrow> url res" where
  "urlsplit value =
     (let s0 = filter (\<lambda>c. \<not> tab_or_newline c) (lstrip_by control value);
          (scheme, s1) = split_scheme s0;
          has = starts_with ''//'' s1;
          body = (if has then drop 2 s1 else s1);
          netloc = (if has then takeWhile (\<lambda>c. c \<notin> set ''/?#'') body else []);
          s2 = (if has then dropWhile (\<lambda>c. c \<notin> set ''/?#'') body else body);
          (s3, fragment) = cut (CHR ''#'') s2;
          (path, query) = cut (CHR ''?'') s3
      in if (CHR ''['' \<in> set netloc) \<noteq> (CHR '']'' \<in> set netloc)
         then Inl (ValueError ''Invalid IPv6 URL'')
         else Inr \<lparr>u_scheme = scheme, u_netloc = netloc, u_path = path, u_query = query,
                   u_fragment = fragment\<rparr>)"

text \<open>\<open>netloc.rpartition("@")\<close>: the user information and the host.\<close>

definition userinfo :: "string \<Rightarrow> string" where
  "userinfo n = (if CHR ''@'' \<in> set n then rev (after (CHR ''@'') (rev n)) else [])"

definition hostinfo :: "string \<Rightarrow> string" where
  "hostinfo n = rev (before (CHR ''@'') (rev n))"

definition username :: "url \<Rightarrow> string" where
  "username u = before (CHR '':'') (userinfo (u_netloc u))"

definition password :: "url \<Rightarrow> string" where
  "password u = after (CHR '':'') (userinfo (u_netloc u))"

definition hostname :: "url \<Rightarrow> string" where
  "hostname u =
     (let h = hostinfo (u_netloc u);
          name = (if CHR ''['' \<in> set h then before (CHR '']'') (after (CHR ''['') h) else before (CHR '':'') h)
      in str_lower (before (CHR ''%'') name) @ dropWhile (\<lambda>c. c \<noteq> CHR ''%'') name)"

end
