(* ===== verification/PromotionState.thy ===== *)
theory PromotionState
  imports Json Urls
begin

text \<open>
  The v2 promotion state: \<open>control_plane/state_v2.py\<close> up to ingestion. The persisted document is
  a record whose fields are the keys of the JSON document; a key the code may leave out is an
  option. What the code keeps as an unchecked nested document (the build request and the
  authorization) stays a dynamically typed value.
\<close>

section \<open>Identifiers\<close>

definition MODEL :: string where
  "MODEL = ''credit-risk-classifier''"

definition ARTIFACT_PREFIX :: string where
  "ARTIFACT_PREFIX = ''mlflow/workspaces/mlops/27/models/''"

definition BUCKET :: string where
  "BUCKET = ''mlflow-test-artifacts-quangcm''"

definition STATE_NAME :: string where
  "STATE_NAME = ''model-release-state-v2''"

definition REPOSITORY :: string where
  "REPOSITORY = ''596432515999.dkr.ecr.ap-southeast-1.amazonaws.com/model-service''"

abbreviation HISTORY :: nat where
  "HISTORY \<equiv> 100"

abbreviation MAX_PENDING :: nat where
  "MAX_PENDING \<equiv> 20"

definition id_char :: "char \<Rightarrow> bool" where
  "id_char c \<longleftrightarrow> alnum c \<or> c = CHR ''_'' \<or> c = CHR ''-''"

text \<open>\<open>ARTIFACT_PREFIX\<close>, one path segment \<open>[A-Za-z0-9_-]+\<close> and \<open>/artifacts\<close>.\<close>

definition rx_artifact_key :: "string \<Rightarrow> bool" where
  "rx_artifact_key key \<longleftrightarrow>
     starts_with ARTIFACT_PREFIX key \<and> ends_with ''/artifacts'' key
     \<and> length ARTIFACT_PREFIX + 10 < length key
     \<and> list_all id_char (drop (length ARTIFACT_PREFIX) (take (length key - 10) key))"

definition storage_uri :: "json \<Rightarrow> string res" where
  "storage_uri value =
     (case value of
        JStr s \<Rightarrow>
          if int (length s) > 2048 then Inl (ValueError ''invalid_artifact_uri'')
          else bindR (urlsplit s) (\<lambda>u.
            let key = lstrip_by (\<lambda>c. c = CHR ''/'') (u_path u)
            in if u_scheme u \<noteq> ''s3'' \<or> u_netloc u \<noteq> BUCKET \<or> u_query u \<noteq> [] \<or> u_fragment u \<noteq> []
                  \<or> \<not> rx_artifact_key key \<or> s \<noteq> ''s3://'' @ BUCKET @ ''/'' @ key
               then Inl (ValueError ''invalid_artifact_uri'') else Inr s)
      | _ \<Rightarrow> Inl (ValueError ''invalid_artifact_uri''))"

definition runtime_image :: "json \<Rightarrow> string res" where
  "runtime_image value =
     (case value of
        JStr s \<Rightarrow>
          if \<not> starts_with (REPOSITORY @ ''@'') s then Inl (ValueError ''unexpected_runtime_repository'')
          else if \<not> rx_digest (after (CHR ''@'') s) then Inl (ValueError ''invalid_runtime_digest'')
          else Inr s
      | _ \<Rightarrow> Inl (ValueError ''unexpected_runtime_repository''))"

text \<open>\<open>[1-9][0-9]{0,9}\<close>, at most \<open>2 ** 31 - 1\<close>.\<close>

definition numeric_version :: "json \<Rightarrow> int res" where
  "numeric_version value =
     (case value of
        JStr s \<Rightarrow>
          if \<not> rx_first nonzero_digit digit 9 s \<or> int (digits_value s) > 2147483647
          then Inl (ValueError ''invalid_model_version'') else Inr (int (digits_value s))
      | _ \<Rightarrow> Inl (ValueError ''invalid_model_version''))"

section \<open>Serving pairs\<close>

record serving_pair =
  sp_model_version :: string
  sp_runtime_digest :: string
  sp_storage_uri :: string

text \<open>\<open>ServingPair(...)\<close>: \<open>__post_init__\<close> runs the three checks in this order.\<close>

definition check_pair :: "serving_pair \<Rightarrow> unit res" where
  "check_pair p =
     bindR (numeric_version (JStr (sp_model_version p))) (\<lambda>_.
     bindR (runtime_image (JStr (sp_runtime_digest p))) (\<lambda>_.
     bindR (storage_uri (JStr (sp_storage_uri p))) (\<lambda>_. Inr ())))"

definition pair_json :: "serving_pair \<Rightarrow> json" where
  "pair_json p = JObj
     [(''model_version'', JStr (sp_model_version p)),
      (''runtime_digest'', JStr (sp_runtime_digest p)),
      (''storage_uri'', JStr (sp_storage_uri p))]"

text \<open>\<open>ServingPair(**value)\<close> for an unchecked value: other keys raise.\<close>

definition pair_of_json :: "json \<Rightarrow> serving_pair res" where
  "pair_of_json j =
     (case j of
        JObj kvs \<Rightarrow>
          if keys_are [''model_version'', ''runtime_digest'', ''storage_uri''] j
          then bindR (jget ''model_version'' j) (\<lambda>v. bindR (numeric_version v) (\<lambda>_.
               bindR (jget ''runtime_digest'' j) (\<lambda>d. bindR (runtime_image d) (\<lambda>img.
               bindR (jget ''storage_uri'' j) (\<lambda>u. bindR (storage_uri u) (\<lambda>uri.
                 Inr \<lparr>sp_model_version = str_of v, sp_runtime_digest = img, sp_storage_uri = uri\<rparr>))))))
          else Inl (TypeError ''ServingPair'')
      | _ \<Rightarrow> Inl (TypeError ''argument after ** must be a mapping''))"

section \<open>Events\<close>

record event =
  ev_schema_version :: int
  ev_event :: string
  ev_model_name :: string
  ev_alias :: string
  ev_workspace :: string
  ev_model_version :: string
  ev_artifact_uri :: string
  ev_run_id :: string
  ev_previous_version :: "string option"
  ev_promoted_at :: string

definition event_json :: "event \<Rightarrow> json" where
  "event_json e = JObj
     [(''schema_version'', JInt (ev_schema_version e)),
      (''event'', JStr (ev_event e)),
      (''model_name'', JStr (ev_model_name e)),
      (''alias'', JStr (ev_alias e)),
      (''workspace'', JStr (ev_workspace e)),
      (''model_version'', JStr (ev_model_version e)),
      (''artifact_uri'', JStr (ev_artifact_uri e)),
      (''run_id'', JStr (ev_run_id e)),
      (''previous_version'', opt_json JStr (ev_previous_version e)),
      (''promoted_at'', JStr (ev_promoted_at e))]"

definition expected_fields :: "(string \<times> json) list" where
  "expected_fields =
     [(''schema_version'', JInt 1), (''event'', JStr ''model_promoted''),
      (''model_name'', JStr MODEL), (''alias'', JStr ''champion''), (''workspace'', JStr ''mlops'')]"

text \<open>\<open>s.replace("Z", "+00:00")\<close>.\<close>

definition zulu :: "string \<Rightarrow> string" where
  "zulu s = concat (map (\<lambda>c. if c = CHR ''Z'' then ''+00:00'' else [c]) s)"

text \<open>
  \<open>parse_event\<close> on a decoded value. \<open>jstr\<close> below is the value of a key the code reads with
  \<open>get\<close>, so a missing key is \<open>None\<close>. The \<open>type(...) is not type(...)\<close> test of the expected
  fields makes the comparison exact: \<open>True\<close> and \<open>1.0\<close> are not the schema version 1.
\<close>

definition parse_fields :: "pylib \<Rightarrow> json \<Rightarrow> event res" where
  "parse_fields L ev =
     (if \<not> is_dict ev then Inl (ValueError ''invalid_event'')
      else bindR (forR (\<lambda>(k, v). bindR (jget_or k JNull ev) (\<lambda>x.
                    requireR (x = v) (ValueError (''unsupported_'' @ k)))) expected_fields) (\<lambda>_.
      bindR (jget_or ''model_version'' JNull ev) (\<lambda>mv.
      bindR (numeric_version mv) (\<lambda>version.
      bindR (jget_or ''artifact_uri'' JNull ev) (\<lambda>uj.
      bindR (storage_uri uj) (\<lambda>uri.
      bindR (jget_or ''run_id'' JNull ev) (\<lambda>run.
      bindR (requireR (is_str run \<and> rx_chars 1 128 id_char (str_of run)) (ValueError ''invalid_run_id'')) (\<lambda>_.
      bindR (jget_or ''previous_version'' JNull ev) (\<lambda>prev.
      bindR (if prev = JNull then Inr ()
             else bindR (numeric_version prev) (\<lambda>p. requireR (\<not> p \<ge> version) (ValueError ''invalid_previous_version''))) (\<lambda>_.
      bindR (jget_or ''promoted_at'' JNull ev) (\<lambda>stamp.
      bindR (requireR (is_str stamp \<and> length (str_of stamp) \<le> 64) (ValueError ''invalid_promoted_at'')) (\<lambda>_.
      bindR (requireR (case lib_fromiso L (zulu (str_of stamp)) of Some (_, aware) \<Rightarrow> aware | None \<Rightarrow> False)
              (ValueError ''invalid_promoted_at'')) (\<lambda>_.
        Inr \<lparr>ev_schema_version = 1, ev_event = ''model_promoted'', ev_model_name = MODEL,
             ev_alias = ''champion'', ev_workspace = ''mlops'', ev_model_version = str_of mv,
             ev_artifact_uri = uri, ev_run_id = str_of run,
             ev_previous_version = (if prev = JNull then None else Some (str_of prev)),
             ev_promoted_at = str_of stamp\<rparr>)))))))))))))"

text \<open>
  A message body is text, decoded first, or an already decoded value. \<open>loads\<close> is \<open>json.loads\<close>,
  \<open>None\<close> where it raises (\<open>JSONDecodeError\<close> is a \<open>ValueError\<close>).
\<close>

definition parse_event :: "pylib \<Rightarrow> (string \<Rightarrow> json option) \<Rightarrow> json \<Rightarrow> event res" where
  "parse_event L loads body =
     bindR (case body of
              JStr s \<Rightarrow> (case loads s of Some v \<Rightarrow> Inr v | None \<Rightarrow> Inl (ValueError ''JSONDecodeError''))
            | _ \<Rightarrow> Inr body)
       (parse_fields L)"

record event_identity =
  id_model_name :: string
  id_model_version :: string
  id_artifact_uri :: string
  id_run_id :: string

definition identity :: "event \<Rightarrow> event_identity" where
  "identity e =
     \<lparr>id_model_name = ev_model_name e, id_model_version = ev_model_version e,
      id_artifact_uri = ev_artifact_uri e, id_run_id = ev_run_id e\<rparr>"

section \<open>The persisted state\<close>

datatype status =
  ACCEPTED | RESOLUTION_RETRY | RESOLUTION_BLOCKED | BUILD_REQUIRED | READY_FOR_RELEASE | APPROVED_FOR_RELEASE

fun status_name :: "status \<Rightarrow> string" where
  "status_name ACCEPTED = ''ACCEPTED''"
| "status_name RESOLUTION_RETRY = ''RESOLUTION_RETRY''"
| "status_name RESOLUTION_BLOCKED = ''RESOLUTION_BLOCKED''"
| "status_name BUILD_REQUIRED = ''BUILD_REQUIRED''"
| "status_name READY_FOR_RELEASE = ''READY_FOR_RELEASE''"
| "status_name APPROVED_FOR_RELEASE = ''APPROVED_FOR_RELEASE''"

datatype phase = PREPARING | RAMP | FINALIZING | DRAINING | ROLLBACK | BLOCKED

fun phase_name :: "phase \<Rightarrow> string" where
  "phase_name PREPARING = ''PREPARING''"
| "phase_name RAMP = ''RAMP''"
| "phase_name FINALIZING = ''FINALIZING''"
| "phase_name DRAINING = ''DRAINING''"
| "phase_name ROLLBACK = ''ROLLBACK''"
| "phase_name BLOCKED = ''BLOCKED''"

record pending_item =
  it_event :: event
  it_status :: status
  it_attempts :: int
  it_next_attempt :: rat
  it_fingerprint :: "string option"
  it_build_request :: "json option"
  it_pair :: "serving_pair option"
  it_error_type :: "string option"
  it_authorization :: "json option"

record active_release =
  ac_pair :: serving_pair
  ac_fingerprint :: string
  ac_phase :: phase
  ac_previous_stable :: serving_pair
  ac_previous_fingerprint :: string
  ac_deadline :: rat
  ac_stage_since :: "rat option"
  ac_authorization :: "json option"
  ac_reason :: "string option"

record failure =
  fl_pair :: serving_pair
  fl_reason :: string

record audit_row =
  au_time :: rat
  au_reason :: string
  au_fields :: "(string \<times> json) list"

record route_state =
  rt_weight :: int
  rt_revision :: int

record lease =
  le_owner :: string
  le_until :: rat

record release_state =
  st_schema_version :: int
  st_model_name :: string
  st_highest_accepted :: int
  st_pending :: "pending_item list"
  st_active :: "active_release option"
  st_stable :: "serving_pair option"
  st_stable_fingerprint :: "string option"
  st_processed :: "serving_pair list"
  st_failed :: "failure list"
  st_identities :: "event_identity list"
  st_audit :: "audit_row list"
  st_route :: route_state
  st_lease :: "lease option"

definition version_of :: "serving_pair \<Rightarrow> int res" where
  "version_of p = py_int (sp_model_version p)"

definition initial_state :: "serving_pair option \<Rightarrow> string option \<Rightarrow> release_state res" where
  "initial_state base fp =
     bindR (case base of None \<Rightarrow> Inr 0
            | Some p \<Rightarrow>
                bindR (check_pair p) (\<lambda>_.
                bindR (requireR (case fp of Some f \<Rightarrow> rx_digest f | None \<Rightarrow> False)
                         (ValueError ''Stable runtime fingerprint required'')) (\<lambda>_.
                version_of p)))
       (\<lambda>highest. Inr
         \<lparr>st_schema_version = 2, st_model_name = MODEL, st_highest_accepted = highest,
          st_pending = [], st_active = None, st_stable = base, st_stable_fingerprint = fp,
          st_processed = [], st_failed = [], st_identities = [], st_audit = [],
          st_route = \<lparr>rt_weight = 0, rt_revision = 0\<rparr>, st_lease = None\<rparr>)"

definition audit ::
  "string \<Rightarrow> rat \<Rightarrow> (string \<times> json) list \<Rightarrow> release_state \<Rightarrow> release_state" where
  "audit reason now info s =
     s\<lparr>st_audit := last_n HISTORY (st_audit s @ [\<lparr>au_time = now, au_reason = reason, au_fields = info\<rparr>])\<rparr>"

text \<open>\<open>ingest\<close>: the decision is audited and returned whatever it is; only the full queue raises.\<close>

definition new_item :: "event \<Rightarrow> pending_item" where
  "new_item e =
     \<lparr>it_event = e, it_status = ACCEPTED, it_attempts = 0, it_next_attempt = 0, it_fingerprint = None,
      it_build_request = None, it_pair = None, it_error_type = None, it_authorization = None\<rparr>"

definition ingest ::
  "pylib \<Rightarrow> (string \<Rightarrow> json option) \<Rightarrow> json \<Rightarrow> rat \<Rightarrow> string \<Rightarrow> release_state \<Rightarrow> (string \<times> release_state) res"
where
  "ingest L loads body now source s =
     bindR (parse_event L loads body) (\<lambda>e.
     let version = int (digits_value (ev_model_version e));
         known = first_such (\<lambda>x. id_model_version x = ev_model_version e) (st_identities s)
     in bindR
          (case known of
             Some x \<Rightarrow> Inr (if x = identity e then ''duplicate'' else ''identity_conflict'', s)
           | None \<Rightarrow>
               if version \<le> st_highest_accepted s then Inr (''stale'', s)
               else if length (st_pending s) \<ge> MAX_PENDING
               then Inl (Busy ''Pending promotion bound reached'')
               else Inr (''accepted'',
                 s\<lparr>st_pending := st_pending s @ [new_item e], st_highest_accepted := version,
                   st_identities := last_n HISTORY (st_identities s @ [identity e])\<rparr>))
          (\<lambda>(outcome, s'). Inr (outcome,
             audit outcome now [(''model_version'', JStr (ev_model_version e)), (''source'', JStr source)] s')))"

end
