(* ===== verification/Resolver.thy ===== *)
theory Resolver
  imports Json
begin

text \<open>
  The runtime contract of an artifact: \<open>control_plane/runtime_resolver.py\<close> (exact pins, Python
  version, runtime profiles, the technical fingerprint), \<open>control_plane/build_contract.py\<close> (the
  canonical build request) and \<open>control_plane/artifact_metadata.py\<close> (the reviewed MLflow
  surface). The YAML parser is third-party code: \<open>validate_mlmodel\<close> receives the parsed value.
\<close>

section \<open>Exact pins\<close>

text \<open>\<open>str.splitlines\<close> on code points below 256.\<close>

definition line_break :: "char \<Rightarrow> bool" where
  "line_break c \<longleftrightarrow> (10 \<le> code c \<and> code c \<le> 13) \<or> (28 \<le> code c \<and> code c \<le> 30) \<or> code c = 133"

lemma line_break_code [code]:
  "line_break c \<longleftrightarrow> (let i = (of_char c :: int) in 10 \<le> i \<and> i \<le> 13 \<or> 28 \<le> i \<and> i \<le> 30 \<or> i = 133)"
  unfolding line_break_def Let_def code_le by simp

fun splitlines_aux :: "string \<Rightarrow> string \<Rightarrow> string list" where
  "splitlines_aux acc [] = (if acc = [] then [] else [rev acc])"
| "splitlines_aux acc [c] = (if line_break c then [rev acc] else [rev (c # acc)])"
| "splitlines_aux acc (c # d # s) =
     (if code c = 13 \<and> code d = 10 then rev acc # splitlines_aux [] s
      else if line_break c then rev acc # splitlines_aux [] (d # s)
      else splitlines_aux (c # acc) (d # s))"

definition splitlines :: "string \<Rightarrow> string list" where
  "splitlines s = splitlines_aux [] s"

definition name_char :: "char \<Rightarrow> bool" where
  "name_char c \<longleftrightarrow> alnum c \<or> c \<in> set ''._-''"

definition version_char :: "char \<Rightarrow> bool" where
  "version_char c \<longleftrightarrow> alnum c \<or> c \<in> set ''.!+_-''"

text \<open>
  \<open>_EXACT_PIN\<close>: a name, \<open>==\<close> and a version. Neither class contains \<open>=\<close>, so the name ends at the
  first one.
\<close>

definition match_pin :: "string \<Rightarrow> (string \<times> string) option" where
  "match_pin s =
     (let name = takeWhile (\<lambda>c. c \<noteq> CHR ''='') s;
          rest = dropWhile (\<lambda>c. c \<noteq> CHR ''='') s;
          version = drop 2 rest
      in if name \<noteq> [] \<and> alnum (hd name) \<and> list_all name_char name \<and> starts_with ''=='' rest
            \<and> version \<noteq> [] \<and> digit (hd version) \<and> list_all version_char version
         then Some (name, version) else None)"

text \<open>\<open>re.sub(r"[-_.]+", "-", name).lower()\<close>.\<close>

definition separator :: "char \<Rightarrow> bool" where
  "separator c \<longleftrightarrow> c \<in> set ''-_.''"

fun collapse :: "string \<Rightarrow> string" where
  "collapse [] = []"
| "collapse [c] = (if separator c then ''-'' else [c])"
| "collapse (c # d # s) =
     (if separator c then (if separator d then collapse (d # s) else CHR ''-'' # collapse (d # s))
      else c # collapse (d # s))"

definition normalize_name :: "string \<Rightarrow> string" where
  "normalize_name name = str_lower (collapse name)"

text \<open>One line of the file: comments and blanks are skipped, spaces inside a pin removed.\<close>

definition requirement_line :: "string \<Rightarrow> (string \<times> string) list \<Rightarrow> (string \<times> string) list res" where
  "requirement_line original pins =
     (let line = strip (before (CHR ''#'') original)
      in if line = [] then Inr pins
         else case match_pin (filter (\<lambda>c. \<not> space c) line) of
                None \<Rightarrow> Inl (ValueError ''Unsupported requirement; exact package==version pin required'')
              | Some (raw, version) \<Rightarrow>
                  let name = normalize_name raw
                  in case map_of pins name of
                       None \<Rightarrow> Inr ((name, version) # pins)
                     | Some v \<Rightarrow> if v = version then Inr pins
                                else Inl (ValueError ''Conflicting exact pins for dependency''))"

definition pin_text :: "string \<times> string \<Rightarrow> string" where
  "pin_text p = fst p @ ''=='' @ snd p"

definition normalize_requirements :: "string \<Rightarrow> string list res" where
  "normalize_requirements text =
     bindR (foldR requirement_line (splitlines text) []) (\<lambda>pins.
       if pins = [] then Inl (ValueError ''Artifact requirements.txt contains no runtime dependencies'')
       else Inr (map pin_text (sort_key fst pins)))"

section \<open>Python version\<close>

text \<open>
  \<open>_PYTHON.findall\<close>: the expression is anchored at line starts, so its matches are found among
  the suffixes of the text that start a line. After the version and an optional quote only space
  may follow up to the end of the text or past the end of the line.
\<close>

fun line_suffixes :: "string \<Rightarrow> string list" where
  "line_suffixes [] = []"
| "line_suffixes (c # s) = (if code c = 10 then s # line_suffixes s else line_suffixes s)"

definition drop_quote :: "string \<Rightarrow> string" where
  "drop_quote s = (case s of c # cs \<Rightarrow> if code c = 34 \<or> code c = 39 then cs else s | [] \<Rightarrow> [])"

definition match_python :: "string \<Rightarrow> string option" where
  "match_python s =
     (let r0 = drop_quote (dropWhile space (drop 7 s));
          a = takeWhile digit r0; r1 = dropWhile digit r0;
          b = takeWhile digit (drop 1 r1); r2 = dropWhile digit (drop 1 r1);
          c = takeWhile digit (drop 1 r2); r3 = drop_quote (dropWhile digit (drop 1 r2));
          gap = takeWhile space r3
      in if starts_with ''python:'' s \<and> a \<noteq> [] \<and> starts_with ''.'' r1 \<and> b \<noteq> []
            \<and> starts_with ''.'' r2 \<and> c \<noteq> []
            \<and> (dropWhile space r3 = [] \<or> (\<exists>x \<in> set gap. code x = 10))
         then Some (a @ ''.'' @ b @ ''.'' @ c) else None)"

definition parse_python_version :: "string \<Rightarrow> string res" where
  "parse_python_version text =
     (case List.map_filter match_python (text # line_suffixes text) of
        [v] \<Rightarrow> Inr v
      | _ \<Rightarrow> Inl (ValueError ''python_env.yaml must contain exactly one top-level Python X.Y.Z version''))"

section \<open>Contracts, profiles and fingerprints\<close>

record artifact_contract =
  ac_python_version :: string
  ac_requirements :: "string list"

text \<open>The two files of an artifact directory; \<open>None\<close> is a missing file.\<close>

definition from_artifact :: "string option \<Rightarrow> string option \<Rightarrow> artifact_contract res" where
  "from_artifact python_env requirements =
     (case python_env of None \<Rightarrow> Inl (ValueError ''Artifact is missing python_env.yaml'')
      | Some env \<Rightarrow>
         (case requirements of None \<Rightarrow> Inl (ValueError ''Artifact is missing requirements.txt'')
          | Some reqs \<Rightarrow>
              bindR (parse_python_version env) (\<lambda>v.
                bindR (normalize_requirements reqs) (\<lambda>rs.
                  Inr \<lparr>ac_python_version = v, ac_requirements = rs\<rparr>))))"

record runtime_profile =
  rp_mlserver_version :: string
  rp_mlserver_mlflow_version :: string
  rp_platform :: string
  rp_build_profile :: string
  rp_serving_profile :: string

definition canonical :: "runtime_profile \<Rightarrow> json" where
  "canonical p = JObj
     [(''mlserver_version'', JStr (rp_mlserver_version p)),
      (''mlserver_mlflow_version'', JStr (rp_mlserver_mlflow_version p)),
      (''platform'', JStr (rp_platform p)),
      (''build_profile'', JStr (rp_build_profile p)),
      (''serving_profile'', JStr (rp_serving_profile p))]"

definition RUNTIME_X_V1 :: runtime_profile where
  "RUNTIME_X_V1 =
     \<lparr>rp_mlserver_version = ''1.7.1'', rp_mlserver_mlflow_version = ''1.7.1'',
      rp_platform = ''linux/amd64'', rp_build_profile = ''runtime-x-hardened-v1'',
      rp_serving_profile = ''mlserver-v2-parallel-workers-0''\<rparr>"

definition RUNTIME_CI_V2 :: runtime_profile where
  "RUNTIME_CI_V2 =
     \<lparr>rp_mlserver_version = ''1.7.1'', rp_mlserver_mlflow_version = ''1.7.1'',
      rp_platform = ''linux/amd64'', rp_build_profile = ''runtime-ci-py31214-slim-v2'',
      rp_serving_profile = ''mlserver-v2-parallel-workers-0''\<rparr>"

definition fingerprint_payload :: "artifact_contract \<Rightarrow> runtime_profile \<Rightarrow> json" where
  "fingerprint_payload contract profile = JObj
     [(''schema_version'', JInt 1),
      (''python_version'', JStr (ac_python_version contract)),
      (''requirements'', JArr (map JStr (ac_requirements contract))),
      (''runtime_profile'', canonical profile)]"

definition runtime_fingerprint :: "pylib \<Rightarrow> artifact_contract \<Rightarrow> runtime_profile \<Rightarrow> string" where
  "runtime_fingerprint L contract profile =
     ''sha256:'' @ lib_sha256 L (canonical_dumps L (fingerprint_payload contract profile))"

text \<open>\<open>[^@\s]+@sha256:[0-9a-f]{64}\<close>.\<close>

definition validate_exact_image :: "string \<Rightarrow> string res" where
  "validate_exact_image img =
     (let repo = before (CHR ''@'') img
      in if repo \<noteq> [] \<and> list_all (\<lambda>c. \<not> space c) repo \<and> CHR ''@'' \<in> set img
            \<and> rx_digest (after (CHR ''@'') img)
         then Inr img
         else Inl (ValueError ''Runtime catalog values must be immutable repository@sha256 references''))"

datatype resolution = REUSE string string | BUILD string

definition resolve_runtime ::
  "pylib \<Rightarrow> artifact_contract \<Rightarrow> (string \<rightharpoonup> string) \<Rightarrow> runtime_profile \<Rightarrow> resolution res" where
  "resolve_runtime L contract catalog profile =
     (let fingerprint = runtime_fingerprint L contract profile
      in case catalog fingerprint of
           Some existing \<Rightarrow> bindR (validate_exact_image existing) (\<lambda>i. Inr (REUSE fingerprint i))
         | None \<Rightarrow> Inr (BUILD fingerprint))"

section \<open>Build requests\<close>

definition build_request :: "pylib \<Rightarrow> artifact_contract \<Rightarrow> runtime_profile \<Rightarrow> json" where
  "build_request L contract profile = JObj
     [(''schema_version'', JInt 1),
      (''fingerprint'', JStr (runtime_fingerprint L contract profile)),
      (''python_version'', JStr (ac_python_version contract)),
      (''requirements'', JArr (map JStr (ac_requirements contract))),
      (''runtime_profile'', canonical profile)]"

text \<open>\<open>RuntimeProfile(**value)\<close>: exactly the five fields, of any type.\<close>

definition profile_keys :: "string list" where
  "profile_keys = [''mlserver_version'', ''mlserver_mlflow_version'', ''platform'',
                   ''build_profile'', ''serving_profile'']"

definition profile_of :: "json \<Rightarrow> runtime_profile option res" where
  "profile_of j =
     (if keys_are profile_keys j
      then Inr (if py_eq (canonical RUNTIME_X_V1) j then Some RUNTIME_X_V1
                else if py_eq (canonical RUNTIME_CI_V2) j then Some RUNTIME_CI_V2 else None)
      else Inl (TypeError ''RuntimeProfile''))"

definition validate_request :: "pylib \<Rightarrow> json \<Rightarrow> (artifact_contract \<times> runtime_profile) res" where
  "validate_request L data =
     bindR (jget_or ''schema_version'' JNull data) (\<lambda>sv.
     if sv \<noteq> JInt 1 then Inl (ValueError ''Unsupported build request'')
     else if \<not> keys_are [''schema_version'', ''fingerprint'', ''python_version'', ''requirements'',
                          ''runtime_profile''] data
     then Inl (ValueError ''Build request must contain technical fields only'')
     else bindR (jget ''requirements'' data) (\<lambda>reqs.
     if \<not> is_list reqs \<or> \<not> list_all is_str (list_of reqs) then Inl (ValueError ''Invalid requirements'')
     else bindR (jget ''python_version'' data) (\<lambda>pv.
     if \<not> is_str pv then Inl (TypeError ''can only concatenate str'')
     else bindR (parse_python_version (''python: '' @ str_of pv)) (\<lambda>v.
     bindR (normalize_requirements (join [char_of (10 :: nat)] (map str_of (list_of reqs)))) (\<lambda>rs.
     bindR (jget ''runtime_profile'' data) (\<lambda>pj.
     bindR (profile_of pj) (\<lambda>p.
       let contract = \<lparr>ac_python_version = v, ac_requirements = rs\<rparr>
       in case p of
            None \<Rightarrow> Inl (ValueError ''Noncanonical or unsupported technical build request'')
          | Some profile \<Rightarrow>
              if py_eq (build_request L contract profile) data then Inr (contract, profile)
              else Inl (ValueError ''Noncanonical or unsupported technical build request''))))))))"

section \<open>Artifact metadata\<close>

text \<open>\<open>set(j)\<close>: elements that are lists or dicts cannot be hashed.\<close>

definition jset :: "json \<Rightarrow> json list res" where
  "jset j = bindR (jiter j) (\<lambda>xs.
     if list_ex (\<lambda>x. is_list x \<or> is_dict x) xs then Inl (TypeError ''unhashable type'') else Inr xs)"

text \<open>\<open>dict(pin.split("==", 1) for pin in requirements)\<close>.\<close>

fun split_pin :: "string \<Rightarrow> (string \<times> string) option" where
  "split_pin [] = None"
| "split_pin (c # s) =
     (if starts_with ''=='' (c # s) then Some ([], drop 1 s)
      else map_option (\<lambda>(a, b). (c # a, b)) (split_pin s))"

definition pins_of :: "string list \<Rightarrow> (string \<rightharpoonup> string) res" where
  "pins_of reqs =
     bindR (mapR (\<lambda>r. case split_pin r of Some p \<Rightarrow> Inr p
                      | None \<Rightarrow> Inl (ValueError ''dictionary update sequence'')) reqs)
       (\<lambda>ps. Inr (map_of (rev ps)))"

definition reviewed_types :: "string list" where
  "reviewed_types = [''sklearn.tree._tree.Tree'',
                     ''sklearn.ensemble._hist_gradient_boosting.predictor.TreePredictor'']"

definition validate_mlmodel :: "json \<Rightarrow> artifact_contract \<Rightarrow> unit res" where
  "validate_mlmodel model contract =
     (if \<not> is_dict model then Inl (ValueError ''Invalid MLmodel'')
      else bindR (jget_or ''flavors'' (JObj []) model) (\<lambda>flavors.
      bindR (jset flavors) (\<lambda>names.
      if set names \<noteq> {JStr ''python_function'', JStr ''sklearn''}
      then Inl (ValueError ''Unreviewed MLflow flavor'')
      else bindR (jget ''python_function'' flavors) (\<lambda>pyfunc.
      bindR (jget ''sklearn'' flavors) (\<lambda>sklearn.
      bindR (pins_of (ac_requirements contract)) (\<lambda>pins.
      bindR (orR (map (\<lambda>(k, v). bindR (jget_or k JNull pyfunc) (\<lambda>x. Inr (x \<noteq> JStr v)))
              [(''loader_module'', ''mlflow.sklearn''), (''model_path'', ''model.skops''),
               (''predict_fn'', ''predict''), (''python_version'', ac_python_version contract)]))
        (\<lambda>bad. if bad then Inl (ValueError ''Unsupported pyfunc contract'')
      else bindR (orR [bindR (jget_or ''code'' JNull pyfunc) (\<lambda>x. Inr (x \<noteq> JNull)),
                       bindR (jget_or ''code'' JNull sklearn) (\<lambda>x. Inr (x \<noteq> JNull))])
        (\<lambda>bad. if bad then Inl (ValueError ''Custom artifact code not approved'')
      else bindR (orR [bindR (jget_or ''serialization_format'' JNull sklearn) (\<lambda>x. Inr (x \<noteq> JStr ''skops'')),
                       bindR (jget_or ''pickled_model'' JNull sklearn) (\<lambda>x. Inr (x \<noteq> JStr ''model.skops''))])
        (\<lambda>bad. if bad then Inl (ValueError ''Only reviewed skops serialization is allowed'')
      else bindR (orR [bindR (jget_or ''mlflow_version'' JNull model)
                         (\<lambda>x. Inr (x \<noteq> opt_json JStr (pins ''mlflow''))),
                       bindR (jget_or ''sklearn_version'' JNull sklearn)
                         (\<lambda>x. Inr (x \<noteq> opt_json JStr (pins ''scikit-learn'')))])
        (\<lambda>bad. if bad then Inl (ValueError ''MLmodel and requirements mismatch'')
      else bindR (jget_or ''skops_trusted_types'' (JArr []) sklearn) (\<lambda>trusted.
        requireR (is_list trusted \<and> list_all (\<lambda>x. is_str x \<and> str_of x \<in> set reviewed_types) (list_of trusted))
          (ValueError ''Unreviewed skops trusted type''))))))))))))"

end
