(* ===== verification/Authorization.thy ===== *)
theory Authorization
  imports PromotionState Resolver
begin

text \<open>
  Release authorization: \<open>control_plane/authorization_v2.py\<close>. The evidence and the authorization
  are dynamically typed documents, because the evidence is read back from a file of the protected
  job and checked field by field; \<open>validate_authorization\<close> is that check. SHA-256 and the float
  representation come from \<open>pylib\<close>.
\<close>

definition WORKFLOW :: string where
  "WORKFLOW = ''.github/workflows/release.yml''"

definition RELEASE_REPOSITORY :: string where
  "RELEASE_REPOSITORY = ''Ngducanh05/ml_template''"

abbreviation TTL :: rat where
  "TTL \<equiv> 900"

abbreviation EVIDENCE_TTL :: rat where
  "EVIDENCE_TTL \<equiv> 86400"

section \<open>References\<close>

text \<open>\<open>[A-Za-z0-9][A-Za-z0-9._:/-]{0,127}\<close>.\<close>

definition ticket :: "json \<Rightarrow> unit res" where
  "ticket value =
     requireR (is_str value \<and> rx_first alnum (\<lambda>c. alnum c \<or> c \<in> set ''._:/-'') 127 (str_of value))
       (ValueError ''invalid_ticket_reference'')"

text \<open>A decimal number without leading zeros, \<open>(0|[1-9][0-9]*)\<close>.\<close>

definition canonical_number :: "string \<Rightarrow> bool" where
  "canonical_number s \<longleftrightarrow> s = ''0'' \<or> (s \<noteq> [] \<and> nonzero_digit (hd s) \<and> list_all digit (tl s))"

definition rx_semver_tag :: "string \<Rightarrow> bool" where
  "rx_semver_tag s \<longleftrightarrow>
     starts_with ''refs/tags/v'' s \<and>
     (let parts = split_on (CHR ''.'') (drop 11 s) in length parts = 3 \<and> list_all canonical_number parts)"

definition source :: "json \<Rightarrow> unit res" where
  "source value =
     bindR (requireR (keys_are [''repository'', ''workflow'', ''run_id'', ''run_attempt'', ''sha'', ''ref''] value)
              (ValueError ''invalid_release_source'')) (\<lambda>_.
     bindR (jget ''repository'' value) (\<lambda>repo. bindR (jget ''workflow'' value) (\<lambda>workflow.
     bindR (jget ''run_id'' value) (\<lambda>run. bindR (jget ''run_attempt'' value) (\<lambda>attempt.
     bindR (jget ''sha'' value) (\<lambda>sha. bindR (jget ''ref'' value) (\<lambda>ref.
       guards
         [(repo = JStr RELEASE_REPOSITORY \<and> workflow = JStr WORKFLOW, ValueError ''unexpected_release_workflow''),
          (is_str run \<and> rx_first nonzero_digit digit 19 (str_of run), ValueError ''invalid_release_run''),
          (attempt = JStr ''1'', ValueError ''release_rerun_prohibited''),
          (is_str sha \<and> rx_chars 40 40 hex_digit (str_of sha), ValueError ''invalid_source_sha''),
          (is_str ref \<and> rx_semver_tag (str_of ref), ValueError ''release_requires_semver_tag'')])))))))"

section \<open>Candidates\<close>

text \<open>
  The identity of a candidate. The event is an unchecked document when an active release is
  re-validated from its evidence, so its keys are read as such.
\<close>

definition identity_json :: "json \<Rightarrow> json res" where
  "identity_json ev =
     bindR (jget ''model_name'' ev) (\<lambda>n. bindR (jget ''model_version'' ev) (\<lambda>v.
     bindR (jget ''artifact_uri'' ev) (\<lambda>u. bindR (jget ''run_id'' ev) (\<lambda>r.
       Inr (JObj [(''model_name'', n), (''model_version'', v), (''artifact_uri'', u), (''run_id'', r)])))))"

definition candidate_identity :: "serving_pair option \<Rightarrow> string option \<Rightarrow> json \<Rightarrow> json res" where
  "candidate_identity pr fp ev =
     (case pr of None \<Rightarrow> Inl (KeyError ''pair'')
      | Some p \<Rightarrow>
          bindR (check_pair p) (\<lambda>_.
          bindR (jget ''model_version'' ev) (\<lambda>v.
          bindR (if v = JStr (sp_model_version p)
                 then bindR (jget ''artifact_uri'' ev) (\<lambda>u. Inr (u = JStr (sp_storage_uri p)))
                 else Inr False) (\<lambda>same.
          bindR (requireR same (ValueError ''candidate_event_mismatch'')) (\<lambda>_.
          (case fp of None \<Rightarrow> Inl (KeyError ''fingerprint'')
           | Some f \<Rightarrow>
               bindR (requireR (rx_digest f) (ValueError ''invalid_fingerprint'')) (\<lambda>_.
               bindR (identity_json ev) (\<lambda>idj.
                 Inr (JObj [(''pair'', pair_json p), (''fingerprint'', JStr f), (''event'', idj)])))))))))"

text \<open>\<open>int(value)\<close> of a dynamically typed value.\<close>

definition int_of_json :: "json \<Rightarrow> int res" where
  "int_of_json j =
     (case j of
        JStr s \<Rightarrow> py_int s
      | JInt i \<Rightarrow> Inr i
      | JBool b \<Rightarrow> Inr (if b then 1 else 0)
      | JFlt (Fin r) \<Rightarrow> Inr (if r < 0 then - \<lfloor>- r\<rfloor> else \<lfloor>r\<rfloor>)
      | JFlt NaN \<Rightarrow> Inl (ValueError ''cannot convert float NaN to integer'')
      | JFlt _ \<Rightarrow> Inl OverflowError
      | _ \<Rightarrow> Inl (TypeError ''int() argument''))"

text \<open>The queued items whose event has the version, compared with \<open>==\<close>.\<close>

definition items_for :: "json \<Rightarrow> release_state \<Rightarrow> pending_item list" where
  "items_for version s = filter (\<lambda>x. JStr (ev_model_version (it_event x)) = version) (st_pending s)"

text \<open>\<open>snapshot\<close> of the single eligible item: its build request is canonical and is its own.\<close>

definition snapshot_item :: "pylib \<Rightarrow> release_state \<Rightarrow> serving_pair \<Rightarrow> pending_item \<Rightarrow> json res" where
  "snapshot_item L s base item =
     bindR (requireR (it_status item = READY_FOR_RELEASE \<or> it_status item = APPROVED_FOR_RELEASE)
              (ValueError ''candidate_not_eligible'')) (\<lambda>_.
     bindR (case it_build_request item of None \<Rightarrow> Inl (KeyError ''build_request'') | Some r \<Rightarrow> Inr r) (\<lambda>request.
     bindR (validate_request L request) (\<lambda>_.
     bindR (jget ''fingerprint'' request) (\<lambda>rf.
     bindR (case it_fingerprint item of None \<Rightarrow> Inl (KeyError ''fingerprint'') | Some f \<Rightarrow> Inr f) (\<lambda>f.
     bindR (requireR (rf = JStr f) (ValueError ''candidate_contract_mismatch'')) (\<lambda>_.
     bindR (candidate_identity (it_pair item) (Some f) (event_json (it_event item))) (\<lambda>cand.
       Inr (JObj [(''candidate'', cand), (''stable'', pair_json base),
                  (''stable_fingerprint'', opt_json JStr (st_stable_fingerprint s)),
                  (''highest_accepted'', JInt (st_highest_accepted s))]))))))))"

definition snapshot :: "pylib \<Rightarrow> release_state \<Rightarrow> json \<Rightarrow> json res" where
  "snapshot L s version =
     (case st_stable s of
        None \<Rightarrow> Inl (ValueError ''release_baseline_not_idle'')
      | Some base \<Rightarrow>
          bindR (requireR (st_active s = None \<and> rt_weight (st_route s) = 0) (ValueError ''release_baseline_not_idle'')) (\<lambda>_.
          bindR (int_of_json version) (\<lambda>v.
          bindR (if v = st_highest_accepted s then bindR (version_of base) (\<lambda>b. Inr (v > b)) else Inr False) (\<lambda>fresh.
          bindR (requireR fresh (ValueError ''stale_release_candidate'')) (\<lambda>_.
            case items_for version s of
              [item] \<Rightarrow> snapshot_item L s base item
            | _ \<Rightarrow> Inl (ValueError ''candidate_not_eligible''))))))"

definition evidence ::
  "pylib \<Rightarrow> release_state \<Rightarrow> string \<Rightarrow> json \<Rightarrow> json \<Rightarrow> json \<Rightarrow> json \<Rightarrow> json res" where
  "evidence L s version ticket_reference release_source security_hash now =
     bindR (ticket ticket_reference) (\<lambda>_. bindR (source release_source) (\<lambda>_.
     bindR (requireR (is_str security_hash \<and> rx_digest (str_of security_hash)) (ValueError ''security_evidence_required'')) (\<lambda>_.
     bindR (requireR (is_number now \<and> (case num_of now of Some f \<Rightarrow> flt_finite f | None \<Rightarrow> False))
              (ValueError ''invalid_evidence_time'')) (\<lambda>_.
     bindR (snapshot L s (JStr version)) (\<lambda>current.
     bindR (case items_for (JStr version) s of [] \<Rightarrow> Inl (OtherError ''StopIteration'') | item # _ \<Rightarrow> Inr (it_authorization item)) (\<lambda>previous.
     bindR (case previous of None \<Rightarrow> Inr JNull
            | Some p \<Rightarrow> if truthy p then jget ''evidence_hash'' p else Inr JNull) (\<lambda>supersedes.
     (case current of
        JObj parts \<Rightarrow> Inr (JObj ((''schema_version'', JInt 1) # parts
            @ [(''supersedes'', supersedes), (''ticket_reference'', ticket_reference),
               (''source'', release_source), (''security_hash'', security_hash), (''created_at'', now)]))
      | _ \<Rightarrow> Inl (TypeError ''argument after ** must be a mapping'')))))))))"

definition digest :: "pylib \<Rightarrow> json \<Rightarrow> string res" where
  "digest L value = bindR (strict_canonical_dumps L value) (\<lambda>t. Inr (''sha256:'' @ lib_sha256 L t))"

section \<open>Checking an authorization\<close>

definition evidence_fields :: "string list" where
  "evidence_fields = [''schema_version'', ''candidate'', ''stable'', ''stable_fingerprint'', ''highest_accepted'',
     ''ticket_reference'', ''source'', ''security_hash'', ''created_at'', ''supersedes'']"

definition auth_fields :: "string list" where
  "auth_fields = [''evidence'', ''evidence_hash'', ''authorized_at'', ''expires_at'']"

text \<open>\<open>DIGEST.fullmatch(value)\<close>: a value that is not a string raises.\<close>

definition digest_match :: "json \<Rightarrow> bool res" where
  "digest_match j = (case j of JStr s \<Rightarrow> Inr (rx_digest s) | _ \<Rightarrow> Inl (TypeError ''expected string''))"

definition finite_number :: "json \<Rightarrow> rat res" where
  "finite_number j =
     (if is_number j
      then (case num_of j of Some (Fin r) \<Rightarrow> Inr r | _ \<Rightarrow> Inl (ValueError ''invalid_authorization_time''))
      else Inl (ValueError ''invalid_authorization_time''))"

definition validate_authorization ::
  "pylib \<Rightarrow> json \<Rightarrow> serving_pair option \<Rightarrow> string option \<Rightarrow> json \<Rightarrow> unit res" where
  "validate_authorization L auth pr fp event =
     bindR (requireR (keys_are auth_fields auth) (ValueError ''invalid_authorization'')) (\<lambda>_.
     bindR (jget ''evidence'' auth) (\<lambda>ev.
     bindR (requireR (keys_are evidence_fields ev) (ValueError ''invalid_approval_evidence'')) (\<lambda>_.
     bindR (jget ''schema_version'' ev) (\<lambda>sv. bindR (jget ''candidate'' ev) (\<lambda>cand.
     bindR (if py_eq (JInt 1) sv
            then bindR (candidate_identity pr fp event) (\<lambda>c. Inr (py_eq c cand)) else Inr False) (\<lambda>same.
     bindR (requireR same (ValueError ''approval_candidate_mismatch'')) (\<lambda>_.
     bindR (jget ''supersedes'' ev) (\<lambda>sup.
     bindR (requireR (sup = JNull \<or> (is_str sup \<and> rx_digest (str_of sup))) (ValueError ''invalid_previous_authorization'')) (\<lambda>_.
     bindR (jget ''ticket_reference'' ev) (\<lambda>tk. bindR (ticket tk) (\<lambda>_.
     bindR (jget ''source'' ev) (\<lambda>src. bindR (source src) (\<lambda>_.
     bindR (jget ''stable'' ev) (\<lambda>st. bindR (pair_of_json st) (\<lambda>_.
     bindR (jget ''stable_fingerprint'' ev) (\<lambda>sf. bindR (jget ''security_hash'' ev) (\<lambda>sh.
     bindR (andR [digest_match sf, digest_match sh]) (\<lambda>ok.
     bindR (requireR ok (ValueError ''invalid_approval_digest'')) (\<lambda>_.
     bindR (jget ''highest_accepted'' ev) (\<lambda>ha.
     bindR (jdeep [''pair'', ''model_version''] cand) (\<lambda>mv. bindR (int_of_json mv) (\<lambda>v.
     bindR (requireR (py_eq (JInt v) ha) (ValueError ''approval_version_mismatch'')) (\<lambda>_.
     bindR (jget ''created_at'' ev) (\<lambda>cj. bindR (jget ''authorized_at'' auth) (\<lambda>aj. bindR (jget ''expires_at'' auth) (\<lambda>xj.
     bindR (finite_number cj) (\<lambda>created. bindR (finite_number aj) (\<lambda>authorized. bindR (finite_number xj) (\<lambda>expires.
     bindR (requireR (0 \<le> authorized - created \<and> authorized - created \<le> EVIDENCE_TTL \<and> expires = authorized + TTL)
              (ValueError ''invalid_authorization_lifetime'')) (\<lambda>_.
     bindR (jget ''evidence_hash'' auth) (\<lambda>eh. bindR (digest L ev) (\<lambda>h.
       requireR (eh = JStr h) (ValueError ''authorization_evidence_mismatch'')))))))))))))))))))))))))))))))))"

definition validate_item_authorization :: "pylib \<Rightarrow> json \<Rightarrow> pending_item \<Rightarrow> unit res" where
  "validate_item_authorization L auth item =
     validate_authorization L auth (it_pair item) (it_fingerprint item) (event_json (it_event item))"

text \<open>\<open>{k: ev[k] for k in ks}\<close>.\<close>

definition project :: "string list \<Rightarrow> json \<Rightarrow> json res" where
  "project ks j = bindR (mapR (\<lambda>k. bindR (jget k j) (\<lambda>v. Inr (k, v))) ks) (\<lambda>kvs. Inr (JObj kvs))"

definition baseline_keys :: "string list" where
  "baseline_keys = [''candidate'', ''stable'', ''stable_fingerprint'', ''highest_accepted'']"

text \<open>\<open>claimable\<close>: every \<open>ValueError\<close>, \<open>KeyError\<close> and \<open>TypeError\<close> means no.\<close>

definition claimable_checked :: "pylib \<Rightarrow> release_state \<Rightarrow> pending_item \<Rightarrow> rat \<Rightarrow> bool res" where
  "claimable_checked L s item now =
     bindR (validate_item_authorization L (opt_json id (it_authorization item)) item) (\<lambda>_.
     let auth = opt_json id (it_authorization item)
     in bindR (jget ''evidence'' auth) (\<lambda>ev.
        bindR (jget ''authorized_at'' auth) (\<lambda>aj. bindR (jget ''expires_at'' auth) (\<lambda>xj.
        bindR (andR [jle aj (jrat now), jlt (jrat now) xj]) (\<lambda>inside.
          if \<not> inside then Inr False
          else (case it_pair item of
                  None \<Rightarrow> Inl (KeyError ''pair'')
                | Some p \<Rightarrow>
                    bindR (snapshot L s (JStr (sp_model_version p))) (\<lambda>snap.
                    bindR (project baseline_keys ev) (\<lambda>base. Inr (py_eq snap base)))))))))"

definition claimable :: "pylib \<Rightarrow> release_state \<Rightarrow> pending_item \<Rightarrow> rat \<Rightarrow> bool res" where
  "claimable L s item now =
     (if it_status item \<noteq> APPROVED_FOR_RELEASE then Inr False
      else case claimable_checked L s item now of
             Inr b \<Rightarrow> Inr b
           | Inl e \<Rightarrow> if is_value_error e \<or> is_key_error e \<or> is_type_error e then Inr False else Inl e)"

section \<open>Authorizing\<close>

text \<open>
  The mutator of \<open>authorize\<close>. It returns the authorization and the new state; an identical retry
  within its lifetime returns the stored authorization and changes nothing.
\<close>

definition store_authorization ::
  "pylib \<Rightarrow> json \<Rightarrow> json \<Rightarrow> rat \<Rightarrow> json option \<Rightarrow> pending_item \<Rightarrow> release_state \<Rightarrow> (json \<times> release_state) res" where
  "store_authorization L version expected now previous item s =
     bindR (digest L expected) (\<lambda>h.
     let auth = JObj [(''evidence'', expected), (''evidence_hash'', JStr h),
                      (''authorized_at'', jrat now), (''expires_at'', jrat (now + TTL))];
         item' = item\<lparr>it_status := APPROVED_FOR_RELEASE, it_authorization := Some auth\<rparr>
     in bindR (validate_item_authorization L auth item) (\<lambda>_.
        bindR (case it_pair item of None \<Rightarrow> Inl (KeyError ''pair'') | Some p \<Rightarrow> Inr p) (\<lambda>p.
        bindR (case previous of None \<Rightarrow> Inr JNull | Some pv \<Rightarrow> jget ''evidence_hash'' pv) (\<lambda>ph.
        bindR (jget ''source'' expected) (\<lambda>src. bindR (jget ''ticket_reference'' expected) (\<lambda>tk.
          Inr (auth, audit (if previous = None then ''release_authorized'' else ''release_reauthorized'') now
                 [(''previous_authorization_id'', ph), (''model_version'', JStr (sp_model_version p)),
                  (''authorization_id'', JStr h), (''source'', src), (''ticket_reference'', tk)]
                 (s\<lparr>st_pending := update_first (\<lambda>x. JStr (ev_model_version (it_event x)) = version)
                                    (\<lambda>_. item') (st_pending s)\<rparr>))))))))"

text \<open>A second authorization of the same candidate: only after expiry, from a new run.\<close>

definition check_renewal :: "json \<Rightarrow> rat \<Rightarrow> json \<Rightarrow> json \<Rightarrow> unit res" where
  "check_renewal expected now previous actual =
     bindR (jget ''evidence'' previous) (\<lambda>pe.
     bindR (jget ''expires_at'' previous) (\<lambda>xj.
     bindR (jle xj (jrat now)) (\<lambda>expired.
     bindR (requireR expired (ValueError ''already_authorized_by_another_run'')) (\<lambda>_.
     bindR (jget_or ''supersedes'' JNull expected) (\<lambda>sup.
     bindR (jget ''evidence_hash'' previous) (\<lambda>ph.
     bindR (requireR (py_eq sup ph) (ValueError ''stale_previous_authorization'')) (\<lambda>_.
     bindR (jdeep [''source'', ''run_id''] expected) (\<lambda>run.
     bindR (jdeep [''source'', ''run_id''] pe) (\<lambda>prun.
     bindR (requireR (\<not> py_eq run prun) (ValueError ''fresh_release_run_required'')) (\<lambda>_.
     bindR (jget ''created_at'' expected) (\<lambda>cj.
     bindR (jle xj cj) (\<lambda>fresh.
     bindR (requireR fresh (ValueError ''fresh_preflight_required'')) (\<lambda>_.
     bindR (project baseline_keys pe) (\<lambda>pbase.
       requireR (py_eq actual pbase) (ValueError ''original_baseline_changed'')))))))))))))))"

definition authorize :: "pylib \<Rightarrow> json \<Rightarrow> rat \<Rightarrow> release_state \<Rightarrow> (json \<times> release_state) res" where
  "authorize L expected now s =
     bindR (jdeep [''candidate'', ''pair'', ''model_version''] expected) (\<lambda>version.
     bindR (snapshot L s version) (\<lambda>actual.
     bindR (project baseline_keys expected) (\<lambda>want.
     bindR (requireR (py_eq actual want) (ValueError ''stale_candidate_evidence'')) (\<lambda>_.
     bindR (case items_for version s of [] \<Rightarrow> Inl (OtherError ''StopIteration'') | x # _ \<Rightarrow> Inr x) (\<lambda>item.
       let previous = opt_json id (it_authorization item)
       in if truthy previous then
            bindR (jget ''evidence'' previous) (\<lambda>pe.
            if py_eq pe expected then
              bindR (claimable L s item now) (\<lambda>ok.
              bindR (requireR ok (ValueError ''authorization_expired_or_stale'')) (\<lambda>_. Inr (previous, s)))
            else
              bindR (check_renewal expected now previous actual) (\<lambda>_.
                store_authorization L version expected now (Some previous) item s))
          else
            bindR (jget_or ''supersedes'' JNull expected) (\<lambda>sup.
            bindR (requireR (sup = JNull) (ValueError ''previous_authorization_missing'')) (\<lambda>_.
              store_authorization L version expected now None item s)))))))"

end
