(* ===== verification/CasStore.thy ===== *)
theory CasStore
  imports Prelude
begin

text \<open>
  Optimistic concurrency, shared by both control planes: \<open>Store.update\<close> of
  \<open>control_plane/state_v2.py\<close> and \<open>control_plane/state.py\<close>. A backend reads a revision and a
  state and writes a state at a revision; a write at a stale revision raises \<open>Conflict\<close>. The
  loop reads, applies a mutator to the snapshot, and retries on \<open>Conflict\<close>, a bounded number of
  times.

  \<open>cas_backend\<close> is the contract of a backend: \<open>cell\<close> is what is stored, \<open>drift\<close> what other
  writers may do to it between two of our operations. The laws are those Kubernetes documents for
  \<open>resourceVersion\<close>; a write that fails otherwise than by \<open>Conflict\<close> may or may not have taken
  effect.
\<close>

record ('w, 'r, 's) backend =
  be_read :: "('w, 'r \<times> 's) prog"
  be_write :: "'r \<Rightarrow> 's \<Rightarrow> ('w, unit) prog"

text \<open>\<open>Store.read\<close> of v2: what is read is validated.\<close>

definition store_read :: "('s \<Rightarrow> unit res) \<Rightarrow> ('w, 'r, 's) backend \<Rightarrow> ('w, 's) prog" where
  "store_read vld be = bindP (be_read be) (\<lambda>(r, s). bindP (liftP (vld s)) (\<lambda>_. retP s))"

text \<open>
  One retry loop for both versions: \<open>pre\<close> checks the state read (v2 validates it), \<open>post\<close> the
  state about to be written, \<open>exhausted\<close> is the message of the final \<open>Busy\<close>. A \<open>Conflict\<close> of
  the write alone makes the loop go on; every other exception leaves it.
\<close>

fun update_loop ::
  "('s \<Rightarrow> unit res) \<Rightarrow> ('s \<Rightarrow> unit res) \<Rightarrow> string \<Rightarrow> ('w, 'r, 's) backend \<Rightarrow> nat
    \<Rightarrow> ('s \<Rightarrow> ('w, 'a \<times> 's) prog) \<Rightarrow> ('w, 'a) prog" where
  "update_loop pre post exhausted be 0 mutate = raiseP (Busy exhausted)"
| "update_loop pre post exhausted be (Suc n) mutate =
     bindP (be_read be) (\<lambda>(revision, original).
     bindP (liftP (pre original)) (\<lambda>_.
     bindP (mutate original) (\<lambda>(result, state).
     bindP (liftP (post state)) (\<lambda>_.
     attemptP (be_write be revision state) (\<lambda>outcome.
       case outcome of
         Inr _ \<Rightarrow> retP result
       | Inl e \<Rightarrow> if e = Conflict then update_loop pre post exhausted be n mutate else raiseP e)))))"

section \<open>The contract of a backend\<close>

locale cas_backend =
  fixes be :: "('w, 'r, 's) backend"
    and cell :: "'w \<Rightarrow> 'r \<times> 's"
    and drift :: "'w \<Rightarrow> 'w \<Rightarrow> bool"
  assumes drift_reflp: "reflp drift"
    and drift_transp: "transp drift"
    and revision_unique: "drift v w \<Longrightarrow> fst (cell v) = fst (cell w) \<Longrightarrow> snd (cell v) = snd (cell w)"
    and read_sound: "be_read be w = (Inr (r, s), w') \<Longrightarrow> cell w' = (r, s)"
    and read_quiet: "drift w (snd (be_read be w))"
    and write_sound: "be_write be r s w = (Inr u, w') \<Longrightarrow>
      \<exists>v. drift w v \<and> fst (cell v) = r \<and> snd (cell w') = s"
    and write_conflict: "be_write be r s w = (Inl Conflict, w') \<Longrightarrow> drift w w'"
    and write_unknown: "be_write be r s w = (Inl e, w') \<Longrightarrow> e \<noteq> Conflict \<Longrightarrow>
      drift w w' \<or> (\<exists>v. drift w v \<and> fst (cell v) = r \<and> snd (cell w') = s)"
begin

text \<open>
  \<open>commits f w a w'\<close>: somewhere between \<open>w\<close> and \<open>w'\<close> the mutator ran on exactly the state that
  its result replaced; the stored state is the mutator's result and nothing else was overwritten.
\<close>

definition commits :: "('s \<Rightarrow> ('w, 'a \<times> 's) prog) \<Rightarrow> 'w \<Rightarrow> 'a \<Rightarrow> 's \<Rightarrow> 's \<Rightarrow> 'w \<Rightarrow> bool" where
  "commits f w a s s' w' \<longleftrightarrow>
     (\<exists>u u' v. drift w u \<and> f s u = (Inr (a, s'), u') \<and> drift u' v \<and> snd (cell v) = s
       \<and> snd (cell w') = s')"

lemma drift_read: "be_read be w = (x, w') \<Longrightarrow> drift w w'"
  using read_quiet [of w] by simp

lemma keeps_be_read: "keeps drift (be_read be)"
  by (simp add: keeps_def read_quiet)

lemma keeps_read: "keeps drift (store_read vld be)"
  unfolding store_read_def
proof (rule keeps_bindP [OF drift_reflp drift_transp keeps_be_read])
  fix rs
  show "keeps drift (case rs of (r, s) \<Rightarrow> bindP (liftP (vld s)) (\<lambda>_. retP s))"
    by (cases rs)
       (simp add: keeps_bindP keeps_pure drift_reflp drift_transp)
qed

text \<open>No lost update: a successful update is one atomic application of its mutator.\<close>

lemma update_commits:
  assumes quiet: "\<And>s. keeps drift (f s)"
    and run: "update_loop pre post msg be n f w = (Inr a, w')"
  shows "\<exists>s s'. commits f w a s s' w' \<and> pre s = Inr () \<and> post s' = Inr ()"
  using run
proof (induction n arbitrary: w)
  case 0
  then show ?case by (simp add: run_raiseP)
next
  case (Suc n)
  from Suc.prems obtain r s w1 where rd: "be_read be w = (Inr (r, s), w1)" and pre: "pre s = Inr ()"
    and rest: "bindP (f s) (\<lambda>(a, s'). bindP (liftP (post s')) (\<lambda>_. attemptP (be_write be r s') (\<lambda>outcome.
       case outcome of Inr _ \<Rightarrow> retP a
       | Inl e \<Rightarrow> if e = Conflict then update_loop pre post msg be n f else raiseP e))) w1 = (Inr a, w')"
    by (auto simp: bindP_Inr_iff run_liftP)
  from rest obtain b s' w2 where m: "f s w1 = (Inr (b, s'), w2)" and post: "post s' = Inr ()"
    and att: "attemptP (be_write be r s') (\<lambda>outcome.
       case outcome of Inr _ \<Rightarrow> retP b
       | Inl e \<Rightarrow> if e = Conflict then update_loop pre post msg be n f else raiseP e) w2 = (Inr a, w')"
    by (auto simp: bindP_Inr_iff run_liftP)
  obtain x w3 where wr: "be_write be r s' w2 = (x, w3)" by fastforce
  with att have out: "(case x of Inr _ \<Rightarrow> retP b
       | Inl e \<Rightarrow> if e = Conflict then update_loop pre post msg be n f else raiseP e) w3 = (Inr a, w')"
    by (simp add: run_attemptP)
  have d1: "drift w w1" using drift_read [OF rd] .
  have d2: "drift w1 w2" using quiet m by (rule keepsD)
  show ?case
  proof (cases x)
    case (Inr u)
    with out have eq: "b = a" "w3 = w'" by (simp_all add: run_retP)
    from write_sound [OF wr [unfolded Inr]] obtain v where v: "drift w2 v" "fst (cell v) = r" "snd (cell w3) = s'"
      by blast
    have "drift w1 v" using drift_transp d2 v(1) by (rule transpD)
    moreover have c1: "cell w1 = (r, s)" using read_sound [OF rd] .
    ultimately have "snd (cell v) = s" using revision_unique [of w1 v] v(2) by simp
    with d1 m v eq pre post show ?thesis unfolding commits_def by blast
  next
    case (Inl e)
    with out have e: "e = Conflict" and again: "update_loop pre post msg be n f w3 = (Inr a, w')"
      by (auto simp: run_raiseP split: if_splits)
    have "drift w2 w3" using write_conflict wr Inl e by blast
    with d1 d2 have d: "drift w w3" using drift_transp by (blast dest: transpD)
    from Suc.IH [OF again] obtain s s' where "commits f w3 a s s' w'" "pre s = Inr ()" "post s' = Inr ()"
      by blast
    with d show ?thesis unfolding commits_def by (blast intro: transpD [OF drift_transp])
  qed
qed

lemma update_atomically:
  assumes "\<And>s. keeps drift (f s)" and "update_loop pre post msg be n f w = (Inr a, w')"
  obtains u u' v s s' where "drift w u" "f s u = (Inr (a, s'), u')" "drift u' v" "snd (cell v) = s"
    "snd (cell w') = s'" "pre s = Inr ()" "post s' = Inr ()"
proof -
  from update_commits [OF assms] obtain s s' where c: "commits f w a s s' w'" and p: "pre s = Inr ()" "post s' = Inr ()"
    by blast
  from c obtain u u' v where "drift w u \<and> f s u = (Inr (a, s'), u') \<and> drift u' v \<and> snd (cell v) = s \<and> snd (cell w') = s'"
    unfolding commits_def by blast
  then show thesis using that [of u s s' u' v] p by blast
qed

text \<open>
  The rule for an update in a larger proof. \<open>P\<close> is what is known of the stored state whatever the
  others do, \<open>J a s'\<close> what the mutator establishes. Only a failure whose effect is unknown can
  leave \<open>J\<close> behind an exception.
\<close>

lemma update_failure:
  assumes quiet: "\<And>s. keeps drift (f s)"
    and rely: "\<And>v w. drift v w \<Longrightarrow> P (snd (cell v)) \<Longrightarrow> P (snd (cell w))"
    and step: "\<And>s u a s' u'. P s \<Longrightarrow> pre s = Inr () \<Longrightarrow> f s u = (Inr (a, s'), u') \<Longrightarrow> post s' = Inr () \<Longrightarrow> J a s'"
    and start: "P (snd (cell w))" and run: "update_loop pre post msg be n f w = (Inl e, w')"
  shows "P (snd (cell w')) \<or> (\<exists>a. J a (snd (cell w')))"
  using start run
proof (induction n arbitrary: w)
  case 0
  then show ?case by (simp add: run_raiseP)
next
  case (Suc n)
  obtain x w1 where rd: "be_read be w = (x, w1)" by fastforce
  have P1: "P (snd (cell w1))" using rely [OF drift_read [OF rd] Suc.prems(1)] .
  show ?case
  proof (cases x)
    case (Inl z)
    with rd P1 Suc.prems(2) show ?thesis by (simp add: run_bindP)
  next
    case (Inr rs)
    obtain r s where rs: "rs = (r, s)" by fastforce
    have c1: "cell w1 = (r, s)" using read_sound rd Inr rs by blast
    obtain y w2 where m: "f s w1 = (y, w2)" by fastforce
    have P2: "P (snd (cell w2))" using rely [OF keepsD [OF quiet m] P1] .
    show ?thesis
    proof (cases "pre s = Inr () \<and> (\<exists>b s'. y = Inr (b, s') \<and> post s' = Inr ())")
      case False
      with rd Inr rs m P1 P2 Suc.prems(2) show ?thesis
        by (cases "pre s"; cases y) (auto simp: run_simps split: sum.splits prod.splits)
    next
      case True
      then obtain b s' where pre: "pre s = Inr ()" and y: "y = Inr (b, s')" and post: "post s' = Inr ()" by blast
      have J: "J b s'" using step [OF _ pre m [unfolded y] post] P1 c1 by simp
      obtain z w3 where wr: "be_write be r s' w2 = (z, w3)" by fastforce
      have out: "(case z of Inr _ \<Rightarrow> (Inr b, w3)
         | Inl e \<Rightarrow> if e = Conflict then update_loop pre post msg be n f w3 else (Inl e, w3)) = (Inl e, w')"
        using Suc.prems(2) rd Inr rs m y pre post wr by (auto simp: run_simps split: sum.splits)
      then obtain x where z: "z = Inl x" by (cases z) simp_all
      show ?thesis
      proof (cases "x = Conflict")
        case True
        then have "P (snd (cell w3))" using write_conflict [of r s' w2 w3] wr z rely [OF _ P2] by blast
        then show ?thesis using Suc.IH out z True by simp
      next
        case False
        then show ?thesis
          using write_unknown [of r s' w2 x w3] wr z rely [OF _ P2] J out by auto
      qed
    qed
  qed
qed

lemma update_rule:
  assumes quiet: "\<And>s. keeps drift (f s)"
    and rely: "\<And>v w. drift v w \<Longrightarrow> P (snd (cell v)) \<Longrightarrow> P (snd (cell w))"
    and step: "\<And>s u a s' u'. P s \<Longrightarrow> pre s = Inr () \<Longrightarrow> f s u = (Inr (a, s'), u') \<Longrightarrow> post s' = Inr () \<Longrightarrow> J a s'"
    and start: "P (snd (cell w))"
  shows "wpp (update_loop pre post msg be n f) (\<lambda>a w'. J a (snd (cell w')))
    (\<lambda>e w'. P (snd (cell w')) \<or> (\<exists>a. J a (snd (cell w')))) w"
proof (rule wpp_I)
  fix a w'
  assume run: "update_loop pre post msg be n f w = (Inr a, w')"
  obtain s s' u u' v where "drift w u" and m: "f s u = (Inr (a, s'), u')" and "drift u' v"
    and s: "snd (cell v) = s" "snd (cell w') = s'" and ok: "pre s = Inr ()" "post s' = Inr ()"
    using update_commits [of f, OF quiet run] unfolding commits_def by blast
  have "drift w v"
    using \<open>drift w u\<close> keepsD [OF quiet m] \<open>drift u' v\<close> drift_transp by (blast dest: transpD)
  then have "P s" using rely start s by blast
  then show "J a (snd (cell w'))" using step m ok s by blast
qed (rule update_failure [of f P, OF quiet rely step start])

text \<open>The frame of an update: what others and the mutator keep, holds whatever the outcome.\<close>

lemma update_inv:
  assumes "\<And>s. keeps drift (f s)"
    and "\<And>v w. drift v w \<Longrightarrow> I (snd (cell v)) \<Longrightarrow> I (snd (cell w))"
    and "\<And>s u a s' u'. I s \<Longrightarrow> pre s = Inr () \<Longrightarrow> f s u = (Inr (a, s'), u') \<Longrightarrow> post s' = Inr () \<Longrightarrow> I s'"
    and "I (snd (cell w))"
  shows "I (snd (cell (snd (update_loop pre post msg be n f w))))"
proof -
  have "wpp (update_loop pre post msg be n f) (\<lambda>_ w'. I (snd (cell w'))) (\<lambda>_ w'. I (snd (cell w'))) w"
    using update_rule [of f I pre post "\<lambda>_. I", OF assms] by (rule wpp_mono) auto
  then show ?thesis by (simp add: wpp_snd)
qed

end

section \<open>ConfigMap backends\<close>

text \<open>
  A ConfigMap as the backends see it: its name and namespace, its resource version and the decoded
  \<open>state.json\<close>. The API server is a parameter: \<open>api_get\<close> is a GET (\<open>None\<close> for a 404) and
  \<open>api_put\<close> a PUT (which raises \<open>Conflict\<close> for a 409).
\<close>

record 's configmap =
  cm_name :: string
  cm_namespace :: string
  cm_resource_version :: string
  cm_state :: 's

record ('w, 's) configmap_api =
  api_get :: "('w, 's configmap option) prog"
  api_put :: "'s configmap \<Rightarrow> ('w, unit) prog"

text \<open>\<open>KubeV2.read_state\<close> and \<open>Kube.write_state\<close>.\<close>

definition kube_read_state :: "('s \<Rightarrow> unit res) \<Rightarrow> ('w, 's) configmap_api \<Rightarrow> ('w, string \<times> 's) prog" where
  "kube_read_state vld api =
     bindP (api_get api) (\<lambda>cm.
       case cm of
         None \<Rightarrow> raiseP (RuntimeError ''Isolated v2 state must be initialized explicitly'')
       | Some c \<Rightarrow> bindP (liftP (vld (cm_state c))) (\<lambda>_. retP (cm_resource_version c, cm_state c)))"

definition kube_write_state ::
  "string \<Rightarrow> string \<Rightarrow> ('w, 's) configmap_api \<Rightarrow> string \<Rightarrow> 's \<Rightarrow> ('w, unit) prog" where
  "kube_write_state name ns api revision state =
     api_put api \<lparr>cm_name = name, cm_namespace = ns, cm_resource_version = revision, cm_state = state\<rparr>"

definition kube_backend ::
  "('s \<Rightarrow> unit res) \<Rightarrow> string \<Rightarrow> string \<Rightarrow> ('w, 's) configmap_api \<Rightarrow> ('w, string, 's) backend" where
  "kube_backend vld name ns api =
     \<lparr>be_read = kube_read_state vld api, be_write = kube_write_state name ns api\<rparr>"

text \<open>
  \<open>AuthorizationBackend\<close>: the same object, with the ConfigMap of the last read kept in
  \<open>self.original\<close>. The world of this backend carries that attribute beside the server's world.
\<close>

type_synonym ('w, 's) session = "'w \<times> 's configmap option"

definition on_server :: "('w, 'a) prog \<Rightarrow> (('w, 's) session, 'a) prog" where
  "on_server m = (\<lambda>(w, original). case m w of (r, w') \<Rightarrow> (r, (w', original)))"

definition authorization_read_state ::
  "('s \<Rightarrow> unit res) \<Rightarrow> string \<Rightarrow> ('w, 's) configmap_api \<Rightarrow> (('w, 's) session, string \<times> 's) prog" where
  "authorization_read_state vld state_name api =
     bindP (on_server (api_get api)) (\<lambda>cm.
       case cm of
         None \<Rightarrow> raiseP (RuntimeError ''Release state API failed: HTTP 404'')
       | Some c \<Rightarrow>
           if cm_name c \<noteq> state_name \<or> cm_namespace c \<noteq> ''production''
           then raiseP (ValueError ''Wrong state resource'')
           else bindP (liftP (vld (cm_state c))) (\<lambda>_ (w, _).
             (Inr (cm_resource_version c, cm_state c), (w, Some c))))"

definition authorization_write_state ::
  "bool \<Rightarrow> ('w, 's) configmap_api \<Rightarrow> string \<Rightarrow> 's \<Rightarrow> (('w, 's) session, unit) prog" where
  "authorization_write_state writable api revision state = (\<lambda>(w, original).
     (if \<not> writable then raiseP (ValueError ''Read-only release identity'')
      else case original of
             None \<Rightarrow> raiseP Conflict
           | Some c \<Rightarrow>
               if cm_resource_version c \<noteq> revision then raiseP Conflict
               else on_server (api_put api (c\<lparr>cm_state := state\<rparr>))) (w, original))"

definition authorization_backend ::
  "('s \<Rightarrow> unit res) \<Rightarrow> string \<Rightarrow> bool \<Rightarrow> ('w, 's) configmap_api \<Rightarrow> (('w, 's) session, string, 's) backend" where
  "authorization_backend vld state_name writable api =
     \<lparr>be_read = authorization_read_state vld state_name api,
      be_write = authorization_write_state writable api\<rparr>"

text \<open>\<open>SnapshotBackend\<close>: a validated snapshot of the state, read-only.\<close>

definition snapshot_backend :: "string \<Rightarrow> 's \<Rightarrow> ('w, string, 's) backend" where
  "snapshot_backend revision state =
     \<lparr>be_read = retP (revision, state),
      be_write = (\<lambda>_ _. raiseP (ValueError ''OIDC release snapshot is read-only''))\<rparr>"

section \<open>The contract of the API server\<close>

text \<open>
  \<open>configmap_server\<close> states what Kubernetes documents of one ConfigMap: \<open>obj\<close> is the stored
  object, \<open>drift\<close> what other clients may do to it. A resource version names one content; a PUT that
  succeeds replaced the object whose version it carries; a 409 changed nothing. A PUT that fails
  otherwise may have been applied. \<open>kube_backend\<close> then meets \<open>cas_backend\<close>.
\<close>

locale configmap_server =
  fixes api :: "('w, 's) configmap_api"
    and obj :: "'w \<Rightarrow> 's configmap"
    and drift :: "'w \<Rightarrow> 'w \<Rightarrow> bool"
  assumes server_reflp: "reflp drift"
    and server_transp: "transp drift"
    and version_unique: "drift v w \<Longrightarrow> cm_resource_version (obj v) = cm_resource_version (obj w) \<Longrightarrow>
      cm_state (obj v) = cm_state (obj w)"
    and get_sound: "api_get api w = (Inr (Some c), w') \<Longrightarrow> obj w' = c"
    and get_quiet: "drift w (snd (api_get api w))"
    and put_sound: "api_put api c w = (Inr u, w') \<Longrightarrow>
      \<exists>v. drift w v \<and> cm_resource_version (obj v) = cm_resource_version c \<and> cm_state (obj w') = cm_state c"
    and put_conflict: "api_put api c w = (Inl Conflict, w') \<Longrightarrow> drift w w'"
    and put_unknown: "api_put api c w = (Inl e, w') \<Longrightarrow> e \<noteq> Conflict \<Longrightarrow>
      drift w w' \<or> (\<exists>v. drift w v \<and> cm_resource_version (obj v) = cm_resource_version c
        \<and> cm_state (obj w') = cm_state c)"

definition stored :: "('w \<Rightarrow> 's configmap) \<Rightarrow> 'w \<Rightarrow> string \<times> 's" where
  "stored obj w = (cm_resource_version (obj w), cm_state (obj w))"

lemma stored_simps [simp]:
  "fst (stored obj w) = cm_resource_version (obj w)" "snd (stored obj w) = cm_state (obj w)"
  by (simp_all add: stored_def)

sublocale configmap_server \<subseteq> kube: cas_backend "kube_backend vld name ns api" "stored obj" drift
  for vld name ns
proof
  fix w r s w'
  assume "be_read (kube_backend vld name ns api) w = (Inr (r, s), w')"
  then obtain c where "api_get api w = (Inr (Some c), w')" "r = cm_resource_version c" "s = cm_state c"
    by (auto simp: kube_backend_def kube_read_state_def bindP_Inr_iff run_liftP run_retP run_raiseP
        split: option.splits)
  then show "stored obj w' = (r, s)" using get_sound by (auto simp: stored_def)
next
  fix w
  show "drift w (snd (be_read (kube_backend vld name ns api) w))"
    using get_quiet [of w]
    by (auto simp: kube_backend_def kube_read_state_def run_simps split: prod.splits sum.splits option.splits)
next
  fix r s w u w'
  assume "be_write (kube_backend vld name ns api) r s w = (Inr u, w')"
  then show "\<exists>v. drift w v \<and> fst (stored obj v) = r \<and> snd (stored obj w') = s"
    unfolding kube_backend_def kube_write_state_def using put_sound by fastforce
next
  fix r s w w'
  assume "be_write (kube_backend vld name ns api) r s w = (Inl Conflict, w')"
  then show "drift w w'" unfolding kube_backend_def kube_write_state_def using put_conflict by simp
next
  fix r s w e w'
  assume "be_write (kube_backend vld name ns api) r s w = (Inl e, w')" and "e \<noteq> Conflict"
  then show "drift w w' \<or> (\<exists>v. drift w v \<and> fst (stored obj v) = r \<and> snd (stored obj w') = s)"
    unfolding kube_backend_def kube_write_state_def using put_unknown by fastforce
qed (use server_reflp server_transp version_unique in \<open>auto\<close>)

context configmap_server begin

lemma kube_contract: "cas_backend (kube_backend vld name ns api) (stored obj) drift"
  by (rule kube.cas_backend_axioms)

end

text \<open>
  The authorization writer meets the same contract: its world is the server's beside the kept
  ConfigMap, which no other client sees.
\<close>

lemma run_on_server: "on_server m (w, orig) = (case m w of (r, w') \<Rightarrow> (r, (w', orig)))"
  by (simp add: on_server_def)

sublocale configmap_server \<subseteq> session: cas_backend "authorization_backend vld state_name writable api"
    "\<lambda>x. stored obj (fst x)" "\<lambda>x y. drift (fst x) (fst y)"
  for vld state_name writable
proof
  show "reflp (\<lambda>x y. drift (fst x) (fst y))" "transp (\<lambda>x y. drift (fst x) (fst y))"
    using server_reflp server_transp by (auto simp: reflp_def transp_def)
next
  fix w r s w'
  assume "be_read (authorization_backend vld state_name writable api) w = (Inr (r, s), w')"
  then obtain c where "api_get api (fst w) = (Inr (Some c), fst w')" "r = cm_resource_version c" "s = cm_state c"
    by (cases w) (auto simp: authorization_backend_def authorization_read_state_def bindP_Inr_iff run_liftP run_raiseP
        run_on_server split: option.splits if_splits prod.splits)
  then show "stored obj (fst w') = (r, s)" using get_sound by (auto simp: stored_def)
next
  fix w
  show "drift (fst w) (fst (snd (be_read (authorization_backend vld state_name writable api) w)))"
    using get_quiet [of "fst w"]
    by (cases w) (auto simp: authorization_backend_def authorization_read_state_def run_simps run_on_server
        split: prod.splits sum.splits option.splits)
next
  fix r s w u w'
  assume "be_write (authorization_backend vld state_name writable api) r s w = (Inr u, w')"
  then obtain c where "cm_resource_version c = r" "api_put api (c\<lparr>cm_state := s\<rparr>) (fst w) = (Inr u, fst w')"
    by (cases w) (auto simp: authorization_backend_def authorization_write_state_def run_raiseP run_on_server
        split: option.splits if_splits prod.splits)
  then show "\<exists>v. drift (fst w) (fst v) \<and> fst (stored obj (fst v)) = r \<and> snd (stored obj (fst w')) = s"
    using put_sound by fastforce
next
  fix r s w w'
  assume "be_write (authorization_backend vld state_name writable api) r s w = (Inl Conflict, w')"
  then show "drift (fst w) (fst w')"
    using put_conflict server_reflp
    by (cases w) (auto simp: authorization_backend_def authorization_write_state_def run_raiseP run_on_server reflp_def
        split: option.splits if_splits prod.splits)
next
  fix r s w e w'
  assume "be_write (authorization_backend vld state_name writable api) r s w = (Inl e, w')" and "e \<noteq> Conflict"
  then have "w' = w \<or> (\<exists>c. cm_resource_version c = r \<and> api_put api (c\<lparr>cm_state := s\<rparr>) (fst w) = (Inl e, fst w'))"
    by (cases w) (auto simp: authorization_backend_def authorization_write_state_def run_raiseP run_on_server
        split: option.splits if_splits prod.splits)
  then show "drift (fst w) (fst w') \<or>
      (\<exists>v. drift (fst w) (fst v) \<and> fst (stored obj (fst v)) = r \<and> snd (stored obj (fst w')) = s)"
    using put_unknown [OF _ \<open>e \<noteq> Conflict\<close>] server_reflp by (fastforce simp: reflp_def)
qed (use version_unique in auto)

context configmap_server begin

lemma session_contract:
  "cas_backend (authorization_backend vld state_name writable api) (\<lambda>x. stored obj (fst x)) (\<lambda>x y. drift (fst x) (fst y))"
  by (rule session.cas_backend_axioms)

end

text \<open>A backend none of whose writes succeeds never lets an update return.\<close>

lemma read_only_update:
  assumes "\<And>r s x. be_write be r s x = (Inl e, x)" and "update_loop pre post msg be n f w = (Inr a, w')"
    and "e \<noteq> Conflict"
  shows False
  using assms(2)
proof (induction n arbitrary: w)
  case (Suc n)
  then show ?case using assms(1,3)
    by (auto simp: bindP_Inr_iff run_liftP run_attemptP run_raiseP split: if_splits)
qed (simp add: run_raiseP)

section \<open>Backends that meet the contract\<close>

text \<open>The read-only snapshot: every write fails, nothing ever changes.\<close>

interpretation snap: cas_backend "snapshot_backend rev st" "\<lambda>_. (rev, st)" "(=)" for rev st
  by unfold_locales (auto simp: snapshot_backend_def run_simps reflp_def transp_def)

text \<open>
  A server to run the components on: one object whose version counts its writes, and a script
  that says what befalls each PUT: nothing, a write of another client that comes first, an outage
  before it is applied, or a response lost after it was. \<open>sv_now\<close> is the clock.
\<close>

datatype 's incident = Calm | Rival 's | Outage exn | Lost exn

record 's server =
  sv_version :: nat
  sv_state :: 's
  sv_script :: "'s incident list"
  sv_now :: rat

definition server_object :: "'s server \<Rightarrow> 's configmap" where
  "server_object w =
     \<lparr>cm_name = ''model-release-state-v2'', cm_namespace = ''production'',
      cm_resource_version = nat_digits (sv_version w), cm_state = sv_state w\<rparr>"

definition server_write :: "'s \<Rightarrow> 's server \<Rightarrow> 's server" where
  "server_write s w = w\<lparr>sv_version := sv_version w + 1, sv_state := s\<rparr>"

text \<open>The server's own test: the version of the request against the stored one.\<close>

definition server_cas :: "'s configmap \<Rightarrow> ('s server, unit) prog" where
  "server_cas c v =
     (if cm_resource_version c = nat_digits (sv_version v)
      then (Inr (), server_write (cm_state c) v) else (Inl Conflict, v))"

definition not_conflict :: "exn \<Rightarrow> exn" where
  "not_conflict e = (if e = Conflict then URLError else e)"

text \<open>Other clients keep to a discipline \<open>ok\<close>: a rival write that would break it does not happen.\<close>

definition server_put :: "('s \<Rightarrow> 's \<Rightarrow> bool) \<Rightarrow> 's configmap \<Rightarrow> ('s server, unit) prog" where
  "server_put ok c w =
     (let w1 = w\<lparr>sv_script := tl (sv_script w)\<rparr>
      in case sv_script w of
           Rival s # _ \<Rightarrow> server_cas c (if ok (sv_state w) s then server_write s w1 else w1)
         | Outage e # _ \<Rightarrow> (Inl (not_conflict e), w1)
         | Lost e # _ \<Rightarrow>
             (case server_cas c w1 of (Inr u, v) \<Rightarrow> (Inl (not_conflict e), v) | (Inl x, v) \<Rightarrow> (Inl x, v))
         | _ \<Rightarrow> server_cas c w1)"

definition server_api :: "('s \<Rightarrow> 's \<Rightarrow> bool) \<Rightarrow> ('s server, 's) configmap_api" where
  "server_api ok = \<lparr>api_get = (\<lambda>w. (Inr (Some (server_object w)), w)), api_put = server_put ok\<rparr>"

definition server_clock :: "('s server, rat) prog" where
  "server_clock w = (Inr (sv_now w), w)"

definition server_drift :: "('s \<Rightarrow> 's \<Rightarrow> bool) \<Rightarrow> 's server \<Rightarrow> 's server \<Rightarrow> bool" where
  "server_drift ok v w \<longleftrightarrow>
     sv_version v \<le> sv_version w \<and> (sv_version v = sv_version w \<longrightarrow> sv_state v = sv_state w)
     \<and> ok (sv_state v) (sv_state w)"

lemma server_drift_reflp: "reflp ok \<Longrightarrow> reflp (server_drift ok)"
  by (simp add: reflp_def server_drift_def)

lemma server_drift_transp:
  assumes "transp ok"
  shows "transp (server_drift ok)"
proof (rule transpI)
  fix u v w :: "'a server"
  assume uv: "server_drift ok u v" and vw: "server_drift ok v w"
  then have "ok (sv_state u) (sv_state w)"
    using assms unfolding server_drift_def by (blast dest: transpD)
  moreover have "sv_version u \<le> sv_version w" using uv vw by (simp add: server_drift_def)
  moreover have "sv_state u = sv_state w" if "sv_version u = sv_version w"
    using uv vw that by (simp add: server_drift_def)
  ultimately show "server_drift ok u w" by (simp add: server_drift_def)
qed

definition put_outcome ::
  "('s \<Rightarrow> 's \<Rightarrow> bool) \<Rightarrow> 's configmap \<Rightarrow> 's server \<Rightarrow> unit res \<Rightarrow> 's server \<Rightarrow> bool" where
  "put_outcome ok c w x w' \<longleftrightarrow>
     (\<exists>v. server_drift ok w v \<and> x \<noteq> Inl Conflict \<and> cm_resource_version c = nat_digits (sv_version v)
        \<and> sv_state w' = cm_state c)
     \<or> (\<exists>e. x = Inl e \<and> server_drift ok w w')"

lemma not_conflict [simp]: "not_conflict e \<noteq> Conflict"
  by (simp add: not_conflict_def)

lemma server_cas_cases:
  assumes "server_drift ok w v" and "server_cas c v = (x, w')"
  shows "put_outcome ok c w x w'"
    and "x = Inr u \<Longrightarrow> put_outcome ok c w (Inl (not_conflict e)) w'"
  using assms by (auto simp: put_outcome_def server_cas_def server_write_def split: if_splits)

lemma server_put_cases:
  assumes refl: "reflp ok" and put: "server_put ok c w = (x, w')"
  shows "put_outcome ok c w x w'"
proof -
  define w1 where "w1 = w\<lparr>sv_script := tl (sv_script w)\<rparr>"
  have w1: "server_drift ok w w1"
    using refl by (simp add: w1_def server_drift_def reflp_def)
  have fw: "server_drift ok w (if ok (sv_state w) s then server_write s w1 else w1)" for s
    using w1 by (simp add: server_drift_def server_write_def w1_def)
  note put = put [unfolded server_put_def Let_def, folded w1_def]
  show ?thesis
  proof (cases "sv_script w")
    case Nil
    with put show ?thesis by (simp add: server_cas_cases [OF w1])
  next
    case (Cons i rest)
    show ?thesis
    proof (cases i)
      case Calm
      with Cons put show ?thesis by (simp add: server_cas_cases [OF w1])
    next
      case (Rival s)
      with Cons put have "server_cas c (if ok (sv_state w) s then server_write s w1 else w1) = (x, w')"
        by simp
      then show ?thesis by (rule server_cas_cases(1) [OF fw])
    next
      case (Outage e)
      with Cons put w1 show ?thesis by (auto simp: put_outcome_def)
    next
      case (Lost e)
      obtain y v where cas: "server_cas c w1 = (y, v)" by fastforce
      show ?thesis
      proof (cases y)
        case (Inr u)
        with Cons Lost put cas have "x = Inl (not_conflict e)" "w' = v" by simp_all
        with server_cas_cases(2) [OF w1 cas Inr] show ?thesis by simp
      next
        case (Inl z)
        with Cons Lost put cas have "x = Inl z" "w' = v" by simp_all
        with server_cas_cases(1) [OF w1 cas] Inl show ?thesis by simp
      qed
    qed
  qed
qed

lemma server_contract:
  fixes ok :: "'s \<Rightarrow> 's \<Rightarrow> bool"
  assumes "reflp ok" and "transp ok"
  shows "configmap_server (server_api ok) server_object (server_drift ok)"
proof
  fix c w u w'
  assume "api_put (server_api ok) c w = (Inr u, w')"
  then show "\<exists>v. server_drift ok w v \<and> cm_resource_version (server_object v) = cm_resource_version c
      \<and> cm_state (server_object w') = cm_state c"
    using server_put_cases [OF assms(1), of c w "Inr u" w']
    by (auto simp: server_api_def server_object_def put_outcome_def)
next
  fix c w w'
  assume "api_put (server_api ok) c w = (Inl Conflict, w')"
  then show "server_drift ok w w'"
    using server_put_cases [OF assms(1), of c w "Inl Conflict" w'] by (auto simp: server_api_def put_outcome_def)
next
  fix c w e w'
  assume "api_put (server_api ok) c w = (Inl e, w')"
  then show "server_drift ok w w' \<or> (\<exists>v. server_drift ok w v \<and> cm_resource_version (server_object v) = cm_resource_version c
      \<and> cm_state (server_object w') = cm_state c)"
    using server_put_cases [OF assms(1), of c w "Inl e" w']
    by (auto simp: server_api_def server_object_def put_outcome_def)
next
  fix v w :: "'s server"
  assume "server_drift ok v w"
    and "cm_resource_version (server_object v) = cm_resource_version (server_object w)"
  then show "cm_state (server_object v) = cm_state (server_object w)"
    by (simp add: server_drift_def server_object_def nat_digits_inject)
qed (use assms server_drift_reflp [of ok] server_drift_transp [of ok] in
     \<open>auto simp: server_api_def server_drift_def reflp_def\<close>)

interpretation server: configmap_server "server_api (\<lambda>_ _. True)" server_object "server_drift (\<lambda>_ _. True)"
  by (rule server_contract) (simp_all add: reflp_def transp_def)

end
