(* ===== verification/ReleaseStore.thy ===== *)
theory ReleaseStore
  imports Authorization CasStore
begin

text \<open>
  The second half of \<open>control_plane/state_v2.py\<close>: \<open>Store.validate\<close>, \<open>Store.read\<close>,
  \<open>Store.update\<close> and \<open>enqueue\<close>. The state record is encoded as the JSON document it stands for,
  because its size in bytes is bounded. Then the invariants of ingestion: versions are accepted in
  increasing order, at most once, and every collection is bounded.
\<close>

section \<open>The document\<close>

definition field :: "string \<Rightarrow> ('a \<Rightarrow> json) \<Rightarrow> 'a option \<Rightarrow> (string \<times> json) list" where
  "field k f x = (case x of None \<Rightarrow> [] | Some a \<Rightarrow> [(k, f a)])"

definition item_json :: "pending_item \<Rightarrow> json" where
  "item_json it = JObj
     ([(''event'', event_json (it_event it)), (''status'', JStr (status_name (it_status it))),
       (''attempts'', JInt (it_attempts it)),
       (''next_attempt'', if it_next_attempt it = 0 then JInt 0 else jrat (it_next_attempt it))]
      @ field ''fingerprint'' JStr (it_fingerprint it) @ field ''build_request'' id (it_build_request it)
      @ field ''pair'' pair_json (it_pair it) @ field ''error_type'' JStr (it_error_type it)
      @ field ''authorization'' id (it_authorization it))"

definition active_json :: "active_release \<Rightarrow> json" where
  "active_json a = JObj
     ([(''pair'', pair_json (ac_pair a)), (''fingerprint'', JStr (ac_fingerprint a)),
       (''phase'', JStr (phase_name (ac_phase a))), (''previous_stable'', pair_json (ac_previous_stable a)),
       (''previous_fingerprint'', JStr (ac_previous_fingerprint a)), (''deadline'', jrat (ac_deadline a)),
       (''stage_since'', opt_json (\<lambda>t. jrat t) (ac_stage_since a))]
      @ field ''authorization'' id (ac_authorization a) @ field ''reason'' JStr (ac_reason a))"

definition identity_record_json :: "event_identity \<Rightarrow> json" where
  "identity_record_json i = JObj
     [(''model_name'', JStr (id_model_name i)), (''model_version'', JStr (id_model_version i)),
      (''artifact_uri'', JStr (id_artifact_uri i)), (''run_id'', JStr (id_run_id i))]"

definition audit_json :: "audit_row \<Rightarrow> json" where
  "audit_json r = JObj ((''time'', jrat (au_time r)) # (''reason'', JStr (au_reason r)) # au_fields r)"

definition failure_json :: "failure \<Rightarrow> json" where
  "failure_json f = JObj [(''pair'', pair_json (fl_pair f)), (''reason'', JStr (fl_reason f))]"

definition route_json :: "route_state \<Rightarrow> json" where
  "route_json r = JObj [(''weight'', JInt (rt_weight r)), (''revision'', JInt (rt_revision r))]"

definition lease_json :: "lease \<Rightarrow> json" where
  "lease_json l = JObj [(''owner'', JStr (le_owner l)), (''until'', jrat (le_until l))]"

definition state_json :: "release_state \<Rightarrow> json" where
  "state_json s = JObj
     [(''schema_version'', JInt (st_schema_version s)), (''model_name'', JStr (st_model_name s)),
      (''highest_accepted'', JInt (st_highest_accepted s)), (''pending'', JArr (map item_json (st_pending s))),
      (''active'', opt_json active_json (st_active s)), (''stable'', opt_json pair_json (st_stable s)),
      (''stable_fingerprint'', opt_json JStr (st_stable_fingerprint s)),
      (''processed'', JArr (map pair_json (st_processed s))), (''failed'', JArr (map failure_json (st_failed s))),
      (''identities'', JArr (map identity_record_json (st_identities s))),
      (''audit'', JArr (map audit_json (st_audit s))), (''route'', route_json (st_route s)),
      (''lease'', opt_json lease_json (st_lease s))]"

section \<open>Validation\<close>

text \<open>The checks of \<open>Store.validate\<close>, in its order; each raises the exception of its line.\<close>

definition validate_route :: "route_state \<Rightarrow> unit res" where
  "validate_route r =
     requireR (rt_weight r \<in> {0, 10, 25, 50, 100} \<and> 0 \<le> rt_revision r) (ValueError ''Invalid route state'')"

definition validate_stable :: "release_state \<Rightarrow> unit res" where
  "validate_stable s =
     (case st_stable s of
        None \<Rightarrow> Inr ()
      | Some p \<Rightarrow>
          bindR (check_pair p) (\<lambda>_.
          case st_stable_fingerprint s of
            None \<Rightarrow> Inl (TypeError ''expected string'')
          | Some f \<Rightarrow> requireR (rx_digest f) (ValueError ''Invalid stable fingerprint'')))"

definition validate_active :: "active_release \<Rightarrow> unit res" where
  "validate_active a =
     bindR (check_pair (ac_pair a)) (\<lambda>_.
     bindR (check_pair (ac_previous_stable a)) (\<lambda>_.
     requireR (rx_digest (ac_fingerprint a) \<and> rx_digest (ac_previous_fingerprint a))
       (ValueError ''Invalid active fingerprint'')))"

definition validate_item :: "pylib \<Rightarrow> pending_item \<Rightarrow> unit res" where
  "validate_item L it =
     bindR (if it_status it = READY_FOR_RELEASE \<or> it_status it = APPROVED_FOR_RELEASE
            then (case it_pair it of
                    None \<Rightarrow> Inl (KeyError ''pair'')
                  | Some p \<Rightarrow>
                      bindR (check_pair p) (\<lambda>_.
                      requireR (sp_model_version p = ev_model_version (it_event it)
                          \<and> sp_storage_uri p = ev_artifact_uri (it_event it))
                        (ValueError ''Resolved candidate identity mismatch'')))
            else Inr ()) (\<lambda>_.
     if it_authorization it \<noteq> None \<and> it_authorization it \<noteq> Some JNull \<or> it_status it = APPROVED_FOR_RELEASE
     then bindR (requireR (it_status it = APPROVED_FOR_RELEASE) (ValueError ''Authorization on unresolved candidate'')) (\<lambda>_.
          validate_item_authorization L (opt_json id (it_authorization it)) it)
     else Inr ())"

definition validate_bounds :: "release_state \<Rightarrow> unit res" where
  "validate_bounds s =
     requireR (length (st_pending s) \<le> MAX_PENDING \<and> length (st_audit s) \<le> HISTORY
         \<and> length (st_identities s) \<le> HISTORY \<and> length (st_processed s) \<le> HISTORY
         \<and> length (st_failed s) \<le> HISTORY)
       (Busy ''State collection bound exceeded'')"

definition validate :: "pylib \<Rightarrow> release_state \<Rightarrow> unit res" where
  "validate L s =
     bindR (requireR (st_schema_version s = 2 \<and> st_model_name s = MODEL)
              (ValueError ''Not isolated v2 release state'')) (\<lambda>_.
     bindR (validate_route (st_route s)) (\<lambda>_.
     bindR (validate_stable s) (\<lambda>_.
     bindR (case st_active s of None \<Rightarrow> Inr () | Some a \<Rightarrow> validate_active a) (\<lambda>_.
     bindR (forR (validate_item L) (st_pending s)) (\<lambda>_.
     bindR (validate_bounds s) (\<lambda>_.
     bindR (strict_dump_length L (state_json s)) (\<lambda>n.
       requireR (int n \<le> 500000) (Busy ''State byte bound exceeded''))))))))"

type_synonym ('w, 'a) mutator = "release_state \<Rightarrow> ('w, 'a \<times> release_state) prog"

section \<open>The store\<close>

type_synonym 'w release_backend = "('w, string, release_state) backend"

definition read :: "pylib \<Rightarrow> 'w release_backend \<Rightarrow> ('w, release_state) prog" where
  "read L be = store_read (validate L) be"

definition update :: "pylib \<Rightarrow> 'w release_backend \<Rightarrow> ('w, 'a) mutator \<Rightarrow> ('w, 'a) prog" where
  "update L be mutate = update_loop (validate L) (validate L) ''CAS retries exhausted'' be 8 mutate"

definition enqueue ::
  "pylib \<Rightarrow> (string \<Rightarrow> json option) \<Rightarrow> 'w release_backend \<Rightarrow> ('w, rat) prog \<Rightarrow> json \<Rightarrow> string
    \<Rightarrow> ('w, string) prog" where
  "enqueue L loads be clock body origin =
     bindP (liftP (parse_event L loads body)) (\<lambda>e.
       update L be (\<lambda>s. bindP clock (\<lambda>now. liftP (ingest L loads (event_json e) now origin s))))"

section \<open>What validation establishes\<close>

lemma validate_InrD:
  assumes "validate L s = Inr u"
  shows "st_schema_version s = 2" "rt_weight (st_route s) \<in> {0, 10, 25, 50, 100}"
    "0 \<le> rt_revision (st_route s)" "length (st_pending s) \<le> MAX_PENDING"
    "length (st_audit s) \<le> HISTORY" "length (st_identities s) \<le> HISTORY"
    "length (st_processed s) \<le> HISTORY" "length (st_failed s) \<le> HISTORY"
    "\<And>it. it \<in> set (st_pending s) \<Longrightarrow> validate_item L it = Inr ()"
    "st_stable s \<noteq> None \<Longrightarrow> st_stable_fingerprint s \<noteq> None"
  using assms
  by (auto simp: validate_def bindR_Inr_iff validate_route_def validate_bounds_def forR_Inr_iff
      validate_stable_def split: option.splits)

lemma validate_item_approved:
  assumes "validate_item L it = Inr u" and "it_status it = APPROVED_FOR_RELEASE"
  shows "validate_item_authorization L (opt_json id (it_authorization it)) it = Inr ()"
  using assms by (auto simp: validate_item_def bindR_Inr_iff)

lemma validate_item_unauthorized:
  assumes "validate_item L it = Inr u" and "it_status it \<noteq> APPROVED_FOR_RELEASE"
  shows "it_authorization it = None \<or> it_authorization it = Some JNull"
  using assms by (auto simp: validate_item_def bindR_Inr_iff split: if_splits)

section \<open>Events\<close>

definition version_string :: "string \<Rightarrow> bool" where
  "version_string s \<longleftrightarrow> rx_first nonzero_digit digit 9 s \<and> digits_value s \<le> 2147483647"

definition artifact_uri :: "string \<Rightarrow> bool" where
  "artifact_uri u \<longleftrightarrow> storage_uri (JStr u) = Inr u"

text \<open>A parsed event satisfies the schema, and parsing it again returns it.\<close>

definition well_formed_event :: "pylib \<Rightarrow> event \<Rightarrow> bool" where
  "well_formed_event L e \<longleftrightarrow>
     ev_schema_version e = 1 \<and> ev_event e = ''model_promoted'' \<and> ev_model_name e = MODEL
     \<and> ev_alias e = ''champion'' \<and> ev_workspace e = ''mlops''
     \<and> version_string (ev_model_version e) \<and> artifact_uri (ev_artifact_uri e)
     \<and> rx_chars 1 128 id_char (ev_run_id e)
     \<and> (\<forall>p. ev_previous_version e = Some p \<longrightarrow>
          version_string p \<and> digits_value p < digits_value (ev_model_version e))
     \<and> length (ev_promoted_at e) \<le> 64
     \<and> (\<exists>t. lib_fromiso L (zulu (ev_promoted_at e)) = Some (t, True))"

lemma numeric_version_iff:
  "numeric_version j = Inr v \<longleftrightarrow> (\<exists>s. j = JStr s \<and> v = int (digits_value s) \<and> version_string s)"
  by (cases j) (auto simp: numeric_version_def version_string_def)

lemma storage_uri_iff: "storage_uri j = Inr u \<longleftrightarrow> j = JStr u \<and> artifact_uri u"
  by (cases j)
     (auto simp: artifact_uri_def storage_uri_def bindR_Inr_iff Let_def split: if_splits)

lemma version_string_pos:
  assumes "version_string s"
  shows "1 \<le> digits_value s" and "digits_value s < 2 ^ 31"
proof -
  have foldl_pos: "0 < n \<Longrightarrow> 0 < foldl (\<lambda>n c. 10 * n + digit_value c) n t" for n t
    by (induction t arbitrary: n) auto
  from assms obtain c cs where s: "s = c # cs" and c: "nonzero_digit c"
    by (auto simp: version_string_def rx_first_def split: list.splits)
  have "0 < digit_value c" using c by (simp add: nonzero_digit_def digit_value_def)
  then have "0 < digits_value s"
    unfolding digits_value_def s by (simp add: foldl_pos)
  with assms show "1 \<le> digits_value s" "digits_value s < 2 ^ 31" by (simp_all add: version_string_def)
qed

lemma parse_fields_well_formed:
  assumes "parse_fields L j = Inr e"
  shows "well_formed_event L e"
  using assms unfolding parse_fields_def
  by (auto simp: bindR_Inr_iff well_formed_event_def is_str_iff numeric_version_iff storage_uri_iff
      split: if_splits option.splits)

lemma numeric_version_string: "version_string s \<Longrightarrow> numeric_version (JStr s) = Inr (int (digits_value s))"
  by (simp add: numeric_version_iff)

lemma storage_uri_string: "artifact_uri u \<Longrightarrow> storage_uri (JStr u) = Inr u"
  by (simp add: artifact_uri_def)

lemma parse_fields_event_json:
  assumes "well_formed_event L e"
  shows "parse_fields L (event_json e) = Inr e"
proof -
  have fix_ok: "forR (\<lambda>(k, v). bindR (jget_or k JNull (event_json e)) (\<lambda>x.
      requireR (x = v) (ValueError (''unsupported_'' @ k)))) expected_fields = Inr ()"
    using assms by (simp add: expected_fields_def event_json_def well_formed_event_def)
  have prev: "(if opt_json JStr (ev_previous_version e) = JNull then Inr ()
      else bindR (numeric_version (opt_json JStr (ev_previous_version e)))
        (\<lambda>p. requireR (\<not> int (digits_value (ev_model_version e)) \<le> p) (ValueError ''invalid_previous_version''))) = Inr ()"
    using assms
    by (cases "ev_previous_version e")
       (auto simp: opt_json_def well_formed_event_def numeric_version_string)
  obtain t where t: "lib_fromiso L (zulu (ev_promoted_at e)) = Some (t, True)"
    using assms by (auto simp: well_formed_event_def)
  have opt: "(if opt_json JStr p = JNull then None else Some (str_of (opt_json JStr p))) = p" for p
    by (cases p) (simp_all add: opt_json_def)
  have dict: "is_dict (event_json e)" by (simp add: event_json_def)
  have get: "jget_or ''model_version'' JNull (event_json e) = Inr (JStr (ev_model_version e))"
    "jget_or ''artifact_uri'' JNull (event_json e) = Inr (JStr (ev_artifact_uri e))"
    "jget_or ''run_id'' JNull (event_json e) = Inr (JStr (ev_run_id e))"
    "jget_or ''previous_version'' JNull (event_json e) = Inr (opt_json JStr (ev_previous_version e))"
    "jget_or ''promoted_at'' JNull (event_json e) = Inr (JStr (ev_promoted_at e))"
    by (simp_all add: event_json_def)
  show ?thesis
    using assms
    unfolding parse_fields_def fix_ok get
    by (simp add: dict numeric_version_string storage_uri_string well_formed_event_def prev t opt)
qed

lemma parse_event_well_formed: "parse_event L loads body = Inr e \<Longrightarrow> well_formed_event L e"
  by (auto simp: parse_event_def bindR_Inr_iff dest: parse_fields_well_formed)

lemma parse_event_event_json: "well_formed_event L e \<Longrightarrow> parse_event L loads (event_json e) = Inr e"
  using parse_fields_event_json [of L e] by (simp add: parse_event_def event_json_def)

section \<open>Ingestion\<close>

text \<open>
  \<open>queue_ok\<close>: queued versions increase strictly and none exceeds the highest accepted one; the
  known identities have distinct versions, none above it either, and the queue is bounded.
\<close>

definition item_version :: "pending_item \<Rightarrow> nat" where
  "item_version it = digits_value (ev_model_version (it_event it))"

definition queue_ok :: "release_state \<Rightarrow> bool" where
  "queue_ok s \<longleftrightarrow>
     sorted_wrt (<) (map item_version (st_pending s))
     \<and> (\<forall>it \<in> set (st_pending s). version_string (ev_model_version (it_event it)))
     \<and> (\<forall>it \<in> set (st_pending s). int (item_version it) \<le> st_highest_accepted s)
     \<and> distinct (map id_model_version (st_identities s))
     \<and> (\<forall>i \<in> set (st_identities s). int (digits_value (id_model_version i)) \<le> st_highest_accepted s)
     \<and> length (st_pending s) \<le> MAX_PENDING"

lemma audit_simps [simp]:
  "st_pending (audit r t i s) = st_pending s" "st_active (audit r t i s) = st_active s"
  "st_stable (audit r t i s) = st_stable s" "st_route (audit r t i s) = st_route s"
  "st_stable_fingerprint (audit r t i s) = st_stable_fingerprint s"
  "st_highest_accepted (audit r t i s) = st_highest_accepted s"
  "st_identities (audit r t i s) = st_identities s" "st_lease (audit r t i s) = st_lease s"
  "st_processed (audit r t i s) = st_processed s" "st_failed (audit r t i s) = st_failed s"
  "st_schema_version (audit r t i s) = st_schema_version s" "st_model_name (audit r t i s) = st_model_name s"
  by (simp_all add: audit_def)

lemma length_audit [simp]: "length (st_audit (audit r t i s)) = min HISTORY (length (st_audit s) + 1)"
  by (simp add: audit_def)

text \<open>The outcomes of ingestion, each with its condition and its effect.\<close>

definition accept :: "event \<Rightarrow> release_state \<Rightarrow> release_state" where
  "accept e s =
     s\<lparr>st_pending := st_pending s @ [new_item e], st_highest_accepted := int (digits_value (ev_model_version e)),
       st_identities := last_n HISTORY (st_identities s @ [identity e])\<rparr>"

lemma ingest_cases:
  assumes "ingest L loads body now origin s = Inr (outcome, s')"
  obtains e where "parse_event L loads body = Inr e"
    and "s' = audit outcome now [(''model_version'', JStr (ev_model_version e)), (''source'', JStr origin)]
           (if outcome = ''accepted'' then accept e s else s)"
    and "outcome = ''accepted'' \<Longrightarrow> st_highest_accepted s < int (digits_value (ev_model_version e))
           \<and> length (st_pending s) < MAX_PENDING \<and> ev_model_version e \<notin> id_model_version ` set (st_identities s)"
    and "outcome = ''duplicate'' \<Longrightarrow> identity e \<in> set (st_identities s)"
    and "outcome = ''identity_conflict'' \<Longrightarrow>
           \<exists>i \<in> set (st_identities s). id_model_version i = ev_model_version e \<and> i \<noteq> identity e"
    and "outcome = ''stale'' \<Longrightarrow> int (digits_value (ev_model_version e)) \<le> st_highest_accepted s"
    and "outcome \<in> {''accepted'', ''duplicate'', ''identity_conflict'', ''stale''}"
proof -
  from assms obtain e where e: "parse_event L loads body = Inr e"
    by (auto simp: ingest_def bindR_Inr_iff)
  show thesis
  proof (cases "first_such (\<lambda>x. id_model_version x = ev_model_version e) (st_identities s)")
    case None
    then have new: "ev_model_version e \<notin> id_model_version ` set (st_identities s)"
      by (auto simp: first_such_None_iff)
    show thesis
    proof (cases "int (digits_value (ev_model_version e)) \<le> st_highest_accepted s")
      case True
      with assms e None have "outcome = ''stale''"
        and "s' = audit outcome now [(''model_version'', JStr (ev_model_version e)), (''source'', JStr origin)] s"
        by (auto simp: ingest_def)
      with True show thesis by (intro that [OF e]) simp_all
    next
      case False
      with assms e None have "length (st_pending s) < MAX_PENDING" and "outcome = ''accepted''"
        and "s' = audit outcome now [(''model_version'', JStr (ev_model_version e)), (''source'', JStr origin)]
               (accept e s)"
        by (auto simp: ingest_def accept_def split: if_splits)
      with False new show thesis by (intro that [OF e]) simp_all
    qed
  next
    case (Some x)
    with first_such_SomeD [OF Some] assms e
    have x: "x \<in> set (st_identities s)" "id_model_version x = ev_model_version e"
      and out: "outcome = (if x = identity e then ''duplicate'' else ''identity_conflict'')"
      and "s' = audit outcome now [(''model_version'', JStr (ev_model_version e)), (''source'', JStr origin)] s"
      by (auto simp: ingest_def)
    then show thesis by (intro that [OF e]) (auto split: if_splits)
  qed
qed

lemma queue_ok_audit [simp]: "queue_ok (audit r t i s) = queue_ok s"
  by (simp add: queue_ok_def)

lemma accept_queue_ok:
  assumes "queue_ok s" and "st_highest_accepted s < int (digits_value (ev_model_version e))"
    and "length (st_pending s) < MAX_PENDING" and "ev_model_version e \<notin> id_model_version ` set (st_identities s)"
    and "version_string (ev_model_version e)"
  shows "queue_ok (accept e s)"
proof -
  let ?ids = "last_n HISTORY (st_identities s @ [identity e])"
  have "distinct (map id_model_version (st_identities s @ [identity e]))"
    using assms by (auto simp: queue_ok_def identity_def)
  then have "distinct (map id_model_version ?ids)"
    by (simp add: last_n_def drop_map [symmetric] del: drop_append map_append)
  moreover have "\<forall>i \<in> set ?ids. int (digits_value (id_model_version i)) \<le> int (digits_value (ev_model_version e))"
    using assms(1,2) set_last_n [of HISTORY "st_identities s @ [identity e]"]
    by (fastforce simp: queue_ok_def identity_def)
  moreover have "\<forall>it \<in> set (st_pending s). item_version it < digits_value (ev_model_version e)"
    using assms(1,2) by (fastforce simp: queue_ok_def)
  ultimately show ?thesis
    using assms(1,3,5) by (auto simp: queue_ok_def accept_def sorted_wrt_append item_version_def new_item_def
        intro: less_imp_le)
qed

lemma ingest_queue_ok:
  "ingest L loads body now origin s = Inr (outcome, s') \<Longrightarrow> queue_ok s \<Longrightarrow> queue_ok s'"
  by (erule ingest_cases)
     (auto intro!: accept_queue_ok dest!: parse_event_well_formed simp: well_formed_event_def)

text \<open>On the strings that are versions, \<open>int\<close> and the value of the digits agree.\<close>

lemma py_int_version:
  assumes "version_string v"
  shows "py_int v = Inr (int (digits_value v))"
proof -
  obtain c cs where v: "v = c # cs" and c: "nonzero_digit c" and cs: "list_all digit cs"
    using assms by (auto simp: version_string_def rx_first_def split: list.splits)
  have digits: "list_all digit v" using c cs by (auto simp: v nonzero_digit_def digit_def)
  have no_space: "\<not> space d" if "digit d" for d
    using that by (simp add: digit_def space_def)
  have no_underscore: "split_on (CHR ''_'') t = [t]" if "list_all digit t" for t
    using that by (induction t) (auto simp: digit_def code_def)
  have drop1: "dropWhile space t = t" if "list_all digit t" for t
    using that no_space by (cases t) auto
  have "strip v = v"
    using drop1 [OF digits] drop1 [of "rev v"] digits
    by (simp add: strip_def lstrip_by_def rstrip_by_def)
  moreover have "c \<noteq> CHR ''-''" "c \<noteq> CHR ''+''"
    using c by (auto simp: nonzero_digit_def code_def)
  ultimately show ?thesis
    using no_underscore [OF digits] digits by (simp add: py_int_def Let_def v)
qed

section \<open>The discipline of the writers\<close>

text \<open>
  What a controller may rely on. \<open>core\<close> is the part of the state only a lease holder changes: the
  active release, the stable pair and the route. Writers other than \<open>me\<close> respect \<open>me\<close>: if
  \<open>me\<close> still holds the lease after their writes, it held it before and the core is unchanged.
\<close>

record release_core =
  cr_active :: "active_release option"
  cr_stable :: "serving_pair option"
  cr_fingerprint :: "string option"
  cr_route :: route_state

definition core :: "release_state \<Rightarrow> release_core" where
  "core s =
     \<lparr>cr_active = st_active s, cr_stable = st_stable s, cr_fingerprint = st_stable_fingerprint s,
      cr_route = st_route s\<rparr>"

lemma core_simps [simp]:
  "cr_active (core s) = st_active s" "cr_stable (core s) = st_stable s"
  "cr_fingerprint (core s) = st_stable_fingerprint s" "cr_route (core s) = st_route s"
  by (simp_all add: core_def)

lemma core_eq_iff:
  "core s = core t \<longleftrightarrow> st_active s = st_active t \<and> st_stable s = st_stable t
     \<and> st_stable_fingerprint s = st_stable_fingerprint t \<and> st_route s = st_route t"
  by (auto simp: core_def)

definition holds_lease :: "string \<Rightarrow> release_state \<Rightarrow> bool" where
  "holds_lease me s \<longleftrightarrow> (case st_lease s of Some l \<Rightarrow> le_owner l = me | None \<Rightarrow> False)"

definition defers_to :: "string \<Rightarrow> release_state \<Rightarrow> release_state \<Rightarrow> bool" where
  "defers_to me s s' \<longleftrightarrow> (holds_lease me s' \<longrightarrow> holds_lease me s \<and> core s' = core s)"

lemma defers_to_reflp: "reflp (defers_to me)"
  by (simp add: reflp_def defers_to_def)

lemma defers_to_transp: "transp (defers_to me)"
  by (auto simp: transp_def defers_to_def)

lemma same_core_defers_to: "core s' = core s \<Longrightarrow> st_lease s' = st_lease s \<Longrightarrow> defers_to me s s'"
  by (simp add: defers_to_def holds_lease_def)

text \<open>A mutator that touches neither the core nor the lease defers to every controller.\<close>

lemma ingest_defers_to: "ingest L loads body now origin s = Inr (outcome, s') \<Longrightarrow> defers_to me s s'"
  by (erule ingest_cases) (auto simp: core_eq_iff accept_def intro!: same_core_defers_to)

text \<open>A state on which the components are run: an idle release system with a stable pair.\<close>

definition sample_pair :: "string \<Rightarrow> serving_pair" where
  "sample_pair v =
     \<lparr>sp_model_version = v, sp_runtime_digest = REPOSITORY @ ''@sha256:'' @ replicate 64 (CHR ''a''),
      sp_storage_uri = ''s3://'' @ BUCKET @ ''/'' @ ARTIFACT_PREFIX @ ''m-1/artifacts''\<rparr>"

definition sample_state :: release_state where
  "sample_state =
     \<lparr>st_schema_version = 2, st_model_name = MODEL, st_highest_accepted = 7, st_pending = [],
      st_active = None, st_stable = Some (sample_pair ''7''),
      st_stable_fingerprint = Some (''sha256:'' @ replicate 64 (CHR ''b'')), st_processed = [], st_failed = [],
      st_identities = [], st_audit = [], st_route = \<lparr>rt_weight = 0, rt_revision = 0\<rparr>, st_lease = None\<rparr>"

definition sample_lib :: pylib where
  "sample_lib = \<lparr>lib_sha256 = (\<lambda>_. replicate 64 (CHR ''c'')), lib_float_repr = (\<lambda>_. ''1.0''),
                 lib_fromiso = (\<lambda>_. Some (0, True))\<rparr>"

end
