(* ===== verification/Policy.thy ===== *)
theory Policy
  imports Json
begin

text \<open>
  Release policy: \<open>control_plane/policy.py\<close> (the validated thresholds), the \<open>assess\<close> of
  \<open>control_plane/controller.py\<close> (the gates on one window of canary metrics) and
  \<open>control_plane/autoscaling_v2.py\<close> (the reviewed replica ceilings). Floats are exact rationals,
  infinities and NaN; \<open>py_float\<close> is \<open>float(s)\<close> without its rounding.
\<close>

section \<open>Reading numbers\<close>

definition underscored_digits :: "string \<Rightarrow> bool" where
  "underscored_digits s \<longleftrightarrow> (\<forall>p \<in> set (split_on (CHR ''_'') s). p \<noteq> [] \<and> list_all digit p)"

definition plain_digits :: "string \<Rightarrow> string" where
  "plain_digits s = filter (\<lambda>c. c \<noteq> CHR ''_'') s"

definition signed :: "string \<Rightarrow> bool \<times> string" where
  "signed s = (case s of c # cs \<Rightarrow> if c = CHR ''-'' then (True, cs) else if c = CHR ''+'' then (False, cs)
                                   else (False, s) | [] \<Rightarrow> (False, s))"

definition decimal :: "string \<Rightarrow> rat option" where
  "decimal s =
     (let whole = before (CHR ''.'') s; frac = after (CHR ''.'') s
      in if (whole = [] \<and> frac = []) \<or> (whole \<noteq> [] \<and> \<not> underscored_digits whole)
            \<or> (frac \<noteq> [] \<and> \<not> underscored_digits frac) then None
         else Some (of_nat (digits_value (plain_digits (whole @ frac)))
                      / 10 ^ length (plain_digits frac)))"

definition py_float :: "string \<Rightarrow> flt res" where
  "py_float s =
     (let (neg, t) = signed (str_lower (strip s));
          mantissa = before (CHR ''e'') t; (eneg, exponent) = signed (after (CHR ''e'') t);
          k = digits_value (plain_digits exponent)
      in if t = ''nan'' then Inr NaN
         else if t = ''inf'' \<or> t = ''infinity'' then Inr (if neg then NInf else PInf)
         else case decimal mantissa of
                None \<Rightarrow> Inl (ValueError ''could not convert string to float'')
              | Some m \<Rightarrow>
                  if CHR ''e'' \<in> set t \<and> \<not> underscored_digits exponent
                  then Inl (ValueError ''could not convert string to float'')
                  else let v = (if eneg then m / 10 ^ k else m * 10 ^ k) in Inr (Fin (if neg then - v else v)))"

section \<open>Policy.from_env\<close>

record policy =
  po_minimum :: int
  po_dwell :: rat
  po_timeout :: rat
  po_error_limit :: rat
  po_p95_limit :: rat

type_synonym env = "string \<rightharpoonup> string"

definition policy_defaults :: "(string \<times> string) list" where
  "policy_defaults =
     [(''MIN_CANARY_REQUESTS'', ''1''), (''CANARY_DWELL_SECONDS'', ''35''),
      (''RELEASE_STAGE_TIMEOUT_SECONDS'', ''300''), (''MAX_ERROR_RATIO'', ''0.05''),
      (''MAX_P95_SECONDS'', ''0.1'')]"

definition setting :: "(string \<times> string) list \<Rightarrow> env \<Rightarrow> string \<Rightarrow> string" where
  "setting defaults e k =
     (case e k of Some v \<Rightarrow> v | None \<Rightarrow> (case map_of defaults k of Some v \<Rightarrow> v | None \<Rightarrow> []))"

definition make_policy :: "int \<Rightarrow> flt \<Rightarrow> flt \<Rightarrow> flt \<Rightarrow> flt \<Rightarrow> policy res" where
  "make_policy minimum dwell timeout error_limit p95_limit =
     (case (dwell, timeout, error_limit, p95_limit) of
        (Fin d, Fin t, Fin e, Fin p) \<Rightarrow>
          if minimum < 1 \<or> d < 0 \<or> t \<le> d \<or> \<not> (0 < e \<and> e \<le> 1) \<or> p \<le> 0
          then Inl (ValueError ''Invalid release policy'')
          else Inr \<lparr>po_minimum = minimum, po_dwell = d, po_timeout = t, po_error_limit = e, po_p95_limit = p\<rparr>
      | _ \<Rightarrow> Inl (ValueError ''Invalid release policy''))"

definition from_env :: "env \<Rightarrow> policy res" where
  "from_env e =
     bindR (py_int (setting policy_defaults e ''MIN_CANARY_REQUESTS'')) (\<lambda>n.
     bindR (py_float (setting policy_defaults e ''CANARY_DWELL_SECONDS'')) (\<lambda>d.
     bindR (py_float (setting policy_defaults e ''RELEASE_STAGE_TIMEOUT_SECONDS'')) (\<lambda>t.
     bindR (py_float (setting policy_defaults e ''MAX_ERROR_RATIO'')) (\<lambda>x.
     bindR (py_float (setting policy_defaults e ''MAX_P95_SECONDS'')) (\<lambda>p.
       make_policy n d t x p)))))"

definition sound_policy :: "policy \<Rightarrow> bool" where
  "sound_policy p \<longleftrightarrow>
     1 \<le> po_minimum p \<and> 0 \<le> po_dwell p \<and> po_dwell p < po_timeout p
     \<and> 0 < po_error_limit p \<and> po_error_limit p \<le> 1 \<and> 0 < po_p95_limit p"

lemma make_policy_sound: "make_policy n d t x y = Inr p \<Longrightarrow> sound_policy p"
  by (auto simp: make_policy_def sound_policy_def split: flt.splits if_splits)

lemma from_env_sound: "from_env e = Inr p \<Longrightarrow> sound_policy p"
  by (auto simp: from_env_def bindR_Inr_iff dest: make_policy_sound)

section \<open>Assessing a canary window\<close>

type_synonym metrics = "string \<rightharpoonup> flt"

definition required_metrics :: "string list" where
  "required_metrics = [''up'', ''age'', ''traffic'', ''success'', ''errors'', ''p95'', ''stable_errors'']"

definition present_finite :: "metrics \<Rightarrow> string \<Rightarrow> bool" where
  "present_finite m k = (case m k of Some f \<Rightarrow> flt_finite f | None \<Rightarrow> False)"

definition fin_of :: "metrics \<Rightarrow> string \<Rightarrow> rat" where
  "fin_of m k = (case m k of Some (Fin r) \<Rightarrow> r | _ \<Rightarrow> 0)"

definition assess :: "metrics \<Rightarrow> rat \<Rightarrow> rat \<Rightarrow> string list" where
  "assess m error_limit p95_limit =
     (if \<not> list_all (present_finite m) required_metrics then [''invalid_canary_metrics'']
      else (if fin_of m ''up'' \<noteq> 1 \<or> \<not> (0 \<le> fin_of m ''age'' \<and> fin_of m ''age'' \<le> 15)
            then [''router_unavailable_or_stale''] else [])
         @ (if fin_of m ''traffic'' \<le> 0 then [''no_real_canary_traffic''] else [])
         @ (if fin_of m ''success'' \<le> 0 then [''no_successful_canary_predictions''] else [])
         @ (if \<not> (0 \<le> fin_of m ''errors'' \<and> fin_of m ''errors'' < error_limit) then [''canary_errors''] else [])
         @ (if \<not> (0 \<le> fin_of m ''stable_errors'' \<and> fin_of m ''stable_errors'' < error_limit)
            then [''stable_errors''] else [])
         @ (if \<not> (0 \<le> fin_of m ''p95'' \<and> fin_of m ''p95'' < p95_limit) then [''canary_latency''] else []))"

text \<open>A window is healthy: what the gates promise when they let a release through.\<close>

definition healthy_window :: "metrics \<Rightarrow> rat \<Rightarrow> rat \<Rightarrow> bool" where
  "healthy_window m error_limit p95_limit \<longleftrightarrow>
     (\<exists>up age traffic success errors stable p95.
        m ''up'' = Some (Fin up) \<and> m ''age'' = Some (Fin age) \<and> m ''traffic'' = Some (Fin traffic)
        \<and> m ''success'' = Some (Fin success) \<and> m ''errors'' = Some (Fin errors)
        \<and> m ''stable_errors'' = Some (Fin stable) \<and> m ''p95'' = Some (Fin p95)
        \<and> up = 1 \<and> 0 \<le> age \<and> age \<le> 15 \<and> 0 < traffic \<and> 0 < success
        \<and> 0 \<le> errors \<and> errors < error_limit \<and> 0 \<le> stable \<and> stable < error_limit
        \<and> 0 \<le> p95 \<and> p95 < p95_limit)"

lemma present_finite_iff: "present_finite m k \<longleftrightarrow> (\<exists>r. m k = Some (Fin r))"
  by (auto simp: present_finite_def split: option.splits elim: flt_finite.elims)

lemma healthy_window_present: "healthy_window m e p \<Longrightarrow> list_all (present_finite m) required_metrics"
  by (auto simp: healthy_window_def required_metrics_def present_finite_iff)

lemma assess_Nil_iff: "assess m e p = [] \<longleftrightarrow> healthy_window m e p"
proof (cases "list_all (present_finite m) required_metrics")
  case True
  then obtain up age traffic success errors stable p95 where
    "m ''up'' = Some (Fin up)" "m ''age'' = Some (Fin age)" "m ''traffic'' = Some (Fin traffic)"
    "m ''success'' = Some (Fin success)" "m ''errors'' = Some (Fin errors)"
    "m ''p95'' = Some (Fin p95)" "m ''stable_errors'' = Some (Fin stable)"
    by (auto simp: required_metrics_def present_finite_iff)
  with True show ?thesis
    by (simp add: assess_def healthy_window_def fin_of_def not_le not_less)
next
  case False
  then show ?thesis using healthy_window_present by (auto simp: assess_def)
qed

section \<open>Replica ceilings\<close>

definition autoscaling_defaults :: "(string \<times> string) list" where
  "autoscaling_defaults =
     [(''V2_STABLE_MAX_REPLICAS'', ''1''), (''V2_CANARY_MAX_REPLICAS'', ''1''), (''V2_HPA_CPU_TARGET'', ''80'')]"

definition decimal_setting :: "env \<Rightarrow> string \<Rightarrow> int res" where
  "decimal_setting e k =
     (let raw = setting autoscaling_defaults e k
      in if raw \<noteq> [] \<and> list_all digit raw then Inr (int (digits_value raw))
         else Inl (ValueError (''Invalid autoscaling setting: '' @ k)))"

definition pods_policy :: "int \<Rightarrow> json" where
  "pods_policy window = JObj
     [(''stabilizationWindowSeconds'', JInt window),
      (''policies'', JArr [JObj [(''type'', JStr ''Pods''), (''value'', JInt 1), (''periodSeconds'', JInt 60)]])]"

definition scaling_document :: "int \<Rightarrow> int \<Rightarrow> json" where
  "scaling_document maximum target =
     (if maximum = 1 then JObj [(''minReplicas'', JInt 1), (''maxReplicas'', JInt 1)]
      else JObj
        [(''minReplicas'', JInt 1), (''maxReplicas'', JInt maximum), (''scaleMetric'', JStr ''cpu''),
         (''scaleTarget'', JInt target),
         (''autoScaling'', JObj [(''behavior'', JObj [(''scaleUp'', pods_policy 0), (''scaleDown'', pods_policy 300)])])])"

definition predictor_policy :: "string \<Rightarrow> env \<Rightarrow> json res" where
  "predictor_policy lane e =
     bindR (requireR (lane = ''stable'' \<or> lane = ''canary'') (ValueError ''Unknown serving lane'')) (\<lambda>_.
     bindR (decimal_setting e ''V2_STABLE_MAX_REPLICAS'') (\<lambda>stable_max.
     bindR (decimal_setting e ''V2_CANARY_MAX_REPLICAS'') (\<lambda>canary_max.
     bindR (decimal_setting e ''V2_HPA_CPU_TARGET'') (\<lambda>target.
     bindR (guards
        [(1 \<le> stable_max \<and> stable_max \<le> 2 \<and> 1 \<le> canary_max \<and> canary_max \<le> 2,
          ValueError ''Replica ceiling exceeds reviewed policy''),
         (stable_max + canary_max \<le> 3, ValueError ''Combined replica ceiling leaves no rollout headroom''),
         (50 \<le> target \<and> target \<le> 90, ValueError ''CPU target outside reviewed range'')]) (\<lambda>_.
       Inr (scaling_document (if lane = ''stable'' then stable_max else canary_max) target))))))"

definition max_replicas :: "json \<Rightarrow> int" where
  "max_replicas j = (case jget ''maxReplicas'' j of Inr (JInt n) \<Rightarrow> n | _ \<Rightarrow> 0)"

lemma max_replicas_scaling_document [simp]: "max_replicas (scaling_document n t) = n"
  by (simp add: max_replicas_def scaling_document_def)

lemma predictor_policy_cases:
  assumes "predictor_policy lane e = Inr d"
  obtains sm cm t where
    "decimal_setting e ''V2_STABLE_MAX_REPLICAS'' = Inr sm" "decimal_setting e ''V2_CANARY_MAX_REPLICAS'' = Inr cm"
    "d = scaling_document (if lane = ''stable'' then sm else cm) t"
    "1 \<le> sm" "sm \<le> 2" "1 \<le> cm" "cm \<le> 2" "sm + cm \<le> 3" "50 \<le> t" "t \<le> 90" "lane = ''stable'' \<or> lane = ''canary''"
proof -
  from assms obtain sm cm t where
    "lane = ''stable'' \<or> lane = ''canary''"
    "decimal_setting e ''V2_STABLE_MAX_REPLICAS'' = Inr sm" "decimal_setting e ''V2_CANARY_MAX_REPLICAS'' = Inr cm"
    "d = scaling_document (if lane = ''stable'' then sm else cm) t"
    "(1 \<le> sm \<and> sm \<le> 2 \<and> 1 \<le> cm \<and> cm \<le> 2) \<and> sm + cm \<le> 3 \<and> 50 \<le> t \<and> t \<le> 90"
    unfolding predictor_policy_def
    by (simp only: bindR_Inr_iff guards_Inr_iff requireR_iff sum.inject list.set ball_simps fst_conv) blast
  then show thesis by (intro that [of sm cm t]) simp_all
qed

end
