(* ===== verification/Lifecycle.thy ===== *)
theory Lifecycle
  imports ReleaseStore Policy
begin

text \<open>
  The release controller: \<open>control_plane/controller_v2.py\<close>. A controller owns a lease in the
  shared state and moves one release at a time through its phases. The environment of a controller
  is a record of programs: the clock, the backend of the store and the four effects. Every call of
  \<open>self.clock()\<close> is a call of the clock program; a mutator runs again on every retry of the store.

  \<open>release_step\<close> is the abstract machine the controller implements; the refinement theorem says
  that whatever a tick does to the stored state is a sequence of its steps and of steps of other
  writers that defer to the lease holder.
\<close>

section \<open>The controller\<close>

record 'w effects =
  ef_ensure :: "string \<Rightarrow> serving_pair \<Rightarrow> string \<Rightarrow> ('w, unit) prog"
  ef_ready :: "string \<Rightarrow> serving_pair option \<Rightarrow> string option \<Rightarrow> ('w, bool) prog"
  ef_router :: "('w, json) prog"
  ef_metrics :: "('w, metrics) prog"

record 'w controller =
  co_lib :: pylib
  co_owner :: string
  co_policy :: policy
  co_clock :: "('w, rat) prog"
  co_backend :: "'w release_backend"
  co_effects :: "'w effects"

definition routed :: "int \<Rightarrow> route_state \<Rightarrow> route_state" where
  "routed weight r =
     (if rt_weight r \<noteq> weight then \<lparr>rt_weight = weight, rt_revision = rt_revision r + 1\<rparr> else r)"

definition route :: "int \<Rightarrow> release_state \<Rightarrow> release_state" where
  "route weight s = s\<lparr>st_route := routed weight (st_route s)\<rparr>"

subsection \<open>The lease\<close>

definition grant_lease :: "'w controller \<Rightarrow> ('w, bool) mutator" where
  "grant_lease C s =
     bindP (co_clock C) (\<lambda>now.
       retP (True, s\<lparr>st_lease := Some \<lparr>le_owner = co_owner C, le_until = now + 60\<rparr>\<rparr>))"

definition claim_lease :: "'w controller \<Rightarrow> ('w, bool) mutator" where
  "claim_lease C s =
     (case st_lease s of
        Some l \<Rightarrow>
          if le_owner l \<noteq> co_owner C
          then bindP (co_clock C) (\<lambda>now. if le_until l > now then retP (False, s) else grant_lease C s)
          else grant_lease C s
      | None \<Rightarrow> grant_lease C s)"

definition acquire :: "'w controller \<Rightarrow> ('w, bool) prog" where
  "acquire C = update (co_lib C) (co_backend C) (claim_lease C)"

definition guard :: "'w controller \<Rightarrow> release_state \<Rightarrow> ('w, unit) prog" where
  "guard C s =
     (case st_lease s of
        None \<Rightarrow> raiseP (Busy ''Controller lease lost'')
      | Some l \<Rightarrow>
          if le_owner l \<noteq> co_owner C then raiseP (Busy ''Controller lease lost'')
          else bindP (co_clock C) (\<lambda>now.
            if le_until l \<le> now + 10 then raiseP (Busy ''Controller lease lost'') else retP ()))"

definition guarded :: "'w controller \<Rightarrow> ('w, unit) mutator \<Rightarrow> ('w, unit) mutator" where
  "guarded C mutate s = thenP (guard C s) (mutate s)"

definition change :: "'w controller \<Rightarrow> ('w, unit) mutator \<Rightarrow> ('w, unit) prog" where
  "change C mutate = update (co_lib C) (co_backend C) (guarded C mutate)"

definition read_state :: "'w controller \<Rightarrow> ('w, release_state) prog" where
  "read_state C = read (co_lib C) (co_backend C)"

definition ensure :: "'w controller \<Rightarrow> string \<Rightarrow> serving_pair \<Rightarrow> string \<Rightarrow> ('w, unit) prog" where
  "ensure C lane pr fp =
     bindP (read_state C) (\<lambda>s. thenP (guard C s) (ef_ensure (co_effects C) lane pr fp))"

definition ready :: "'w controller \<Rightarrow> string \<Rightarrow> serving_pair option \<Rightarrow> string option \<Rightarrow> ('w, bool) prog" where
  "ready C = ef_ready (co_effects C)"

subsection \<open>Mutators of the active release\<close>

text \<open>\<open>state["active"].update(...)\<close>: raises when there is no active release.\<close>

definition update_active ::
  "release_state \<Rightarrow> ('w, active_release \<Rightarrow> active_release) prog \<Rightarrow> ('w, release_state) prog" where
  "update_active s m =
     (case st_active s of
        None \<Rightarrow> raiseP AttributeError
      | Some a \<Rightarrow> bindP m (\<lambda>f. retP (s\<lparr>st_active := Some (f a)\<rparr>)))"

text \<open>\<open>audit(state, reason, self.clock(), ...)\<close> as the last statement of a mutator.\<close>

definition audited :: "'w controller \<Rightarrow> string \<Rightarrow> (string \<times> json) list \<Rightarrow> release_state
    \<Rightarrow> ('w, unit \<times> release_state) prog" where
  "audited C reason info s = bindP (co_clock C) (\<lambda>now. retP ((), audit reason now info s))"

definition deadline_from :: "'w controller \<Rightarrow> ('w, rat) prog" where
  "deadline_from C = bindP (co_clock C) (\<lambda>now. retP (now + po_timeout (co_policy C)))"

definition request_rollback :: "'w controller \<Rightarrow> string \<Rightarrow> ('w, unit) mutator" where
  "request_rollback C reason s =
     (case st_active s of
        None \<Rightarrow> raiseP (TypeError ''not subscriptable'')
      | Some a \<Rightarrow>
          if ac_phase a \<in> {ROLLBACK, BLOCKED} then retP ((), s)
          else bindP (deadline_from C) (\<lambda>d.
            audited C ''rollback_requested'' [(''detail'', JStr reason)]
              (route 0 (s\<lparr>st_active := Some (a\<lparr>ac_phase := ROLLBACK, ac_reason := Some reason, ac_deadline := d\<rparr>)\<rparr>))))"

definition rollback :: "'w controller \<Rightarrow> string \<Rightarrow> ('w, unit) prog" where
  "rollback C reason = change C (request_rollback C reason)"

definition ack :: "'w controller \<Rightarrow> release_state \<Rightarrow> ('w, bool) prog" where
  "ack C s =
     bindP (ef_router (co_effects C)) (\<lambda>seen.
       liftP (andR
         [bindR (jget_or ''ready'' JNull seen) (\<lambda>v. Inr (truthy v)),
          bindR (jget_or ''weight'' JNull seen) (\<lambda>v. Inr (py_eq v (JInt (rt_weight (st_route s))))),
          bindR (jget_or ''revision'' JNull seen) (\<lambda>v. Inr (py_eq v (JInt (rt_revision (st_route s)))))]))"

definition mark_blocked :: "('w, unit) mutator" where
  "mark_blocked s =
     bindP (update_active s (retP (\<lambda>a. a\<lparr>ac_phase := BLOCKED\<rparr>))) (\<lambda>s'. retP ((), s'))"

definition block_if_expired :: "'w controller \<Rightarrow> active_release \<Rightarrow> ('w, unit) prog" where
  "block_if_expired C a =
     bindP (co_clock C) (\<lambda>now. whenP (now \<ge> ac_deadline a) (change C mark_blocked))"

subsection \<open>Claiming a candidate\<close>

definition newer :: "string \<Rightarrow> string \<Rightarrow> bool res" where
  "newer v w = bindR (py_int v) (\<lambda>x. bindR (py_int w) (\<lambda>y. Inr (x > y)))"

definition eligible_item :: "'w controller \<Rightarrow> release_state \<Rightarrow> serving_pair \<Rightarrow> pending_item \<Rightarrow> ('w, bool) prog" where
  "eligible_item C s base it =
     bindP (co_clock C) (\<lambda>now.
     bindP (liftP (claimable (co_lib C) s it now)) (\<lambda>ok.
       if \<not> ok then retP False
       else case it_pair it of
              None \<Rightarrow> raiseP (KeyError ''pair'')
            | Some p \<Rightarrow> liftP (newer (sp_model_version p) (sp_model_version base))))"

text \<open>\<open>max(eligible, key=lambda x: int(x["pair"]["model_version"]))\<close>.\<close>

definition pair_version :: "pending_item \<Rightarrow> int res" where
  "pair_version it = (case it_pair it of None \<Rightarrow> Inl (KeyError ''pair'') | Some p \<Rightarrow> version_of p)"

definition highest_candidate :: "pending_item list \<Rightarrow> pending_item res" where
  "highest_candidate xs =
     bindR (mapR (\<lambda>it. bindR (pair_version it) (\<lambda>v. Inr (v, it))) xs) (\<lambda>keyed.
       case keyed of
         [] \<Rightarrow> Inl (ValueError ''max() arg is an empty sequence'')
       | x # rest \<Rightarrow> Inr (snd (max_by (\<lambda>a b. fst a < fst b) x rest)))"

definition newer_than :: "string \<Rightarrow> pending_item \<Rightarrow> bool res" where
  "newer_than v it = newer (ev_model_version (it_event it)) v"

text \<open>
  What the claim copies out of a candidate; \<open>candidate["fingerprint"]\<close> and
  \<open>candidate["authorization"]\<close> raise when missing. A missing stable fingerprint, which the store
  does not let through, raises here instead of in the validation that follows the mutator.
\<close>

definition start_release :: "'w controller \<Rightarrow> serving_pair \<Rightarrow> pending_item \<Rightarrow> ('w, unit) mutator" where
  "start_release C base it s =
     (case (it_pair it, it_fingerprint it, st_stable_fingerprint s, it_authorization it) of
        (Some p, Some f, Some sf, Some auth) \<Rightarrow>
          bindP (liftP (filterR (newer_than (sp_model_version p)) (st_pending s))) (\<lambda>kept.
          bindP (deadline_from C) (\<lambda>d.
            let a = \<lparr>ac_pair = p, ac_fingerprint = f, ac_phase = PREPARING, ac_previous_stable = base,
                     ac_previous_fingerprint = sf, ac_deadline = d, ac_stage_since = None,
                     ac_authorization = Some auth, ac_reason = None\<rparr>
            in bindP (co_clock C) (\<lambda>now. bindP (liftP (jget ''evidence_hash'' auth)) (\<lambda>h.
                 retP ((), audit ''release_started'' now [(''pair'', pair_json p), (''authorization_id'', h)]
                   (route 0 (s\<lparr>st_pending := kept, st_active := Some a\<rparr>)))))))
      | (None, _) \<Rightarrow> raiseP (KeyError ''pair'')
      | (Some _, None, _) \<Rightarrow> raiseP (KeyError ''fingerprint'')
      | (Some _, Some _, None, _) \<Rightarrow> raiseP (TypeError ''expected string'')
      | (Some _, Some _, Some _, None) \<Rightarrow> raiseP (KeyError ''authorization''))"

definition claim :: "'w controller \<Rightarrow> ('w, unit) mutator" where
  "claim C s =
     (case st_stable s of
        None \<Rightarrow> retP ((), s)
      | Some base \<Rightarrow>
          bindP (filterP (eligible_item C s base) (st_pending s)) (\<lambda>eligible.
            if eligible = [] then retP ((), s)
            else bindP (liftP (highest_candidate eligible)) (\<lambda>it. start_release C base it s)))"

subsection \<open>Advancing\<close>

definition arm :: "'w controller \<Rightarrow> ('w, unit) mutator" where
  "arm C s =
     bindP (update_active s (bindP (deadline_from C) (\<lambda>d.
       retP (\<lambda>a. a\<lparr>ac_phase := RAMP, ac_stage_since := None, ac_deadline := d\<rparr>)))) (\<lambda>s'.
     retP ((), route 10 s'))"

definition start_stage :: "'w controller \<Rightarrow> ('w, unit) mutator" where
  "start_stage C s =
     bindP (update_active s (bindP (co_clock C) (\<lambda>now. retP (\<lambda>a. a\<lparr>ac_stage_since := Some now\<rparr>))))
       (\<lambda>s'. retP ((), s'))"

definition next_weight :: "int \<Rightarrow> int res" where
  "next_weight w =
     (if w = 10 then Inr 25 else if w = 25 then Inr 50 else if w = 50 then Inr 100
      else Inl (KeyError ''weight''))"

definition promote_stage :: "'w controller \<Rightarrow> int \<Rightarrow> ('w, unit) mutator" where
  "promote_stage C weight s =
     bindP
       (if weight = 100
        then update_active s (bindP (deadline_from C) (\<lambda>d.
               retP (\<lambda>a. a\<lparr>ac_phase := FINALIZING, ac_deadline := d\<rparr>)))
        else bindP (liftP (next_weight weight)) (\<lambda>w.
               update_active (route w s) (bindP (deadline_from C) (\<lambda>d.
                 retP (\<lambda>a. a\<lparr>ac_stage_since := None, ac_deadline := d\<rparr>)))))
       (audited C ''stage_promoted'' [(''previous_weight'', JInt weight)])"

definition commit_stable :: "'w controller \<Rightarrow> serving_pair \<Rightarrow> string \<Rightarrow> ('w, unit) mutator" where
  "commit_stable C pr fp s =
     bindP (update_active (s\<lparr>st_stable := Some pr, st_stable_fingerprint := Some fp\<rparr>)
       (bindP (deadline_from C) (\<lambda>d. retP (\<lambda>a. a\<lparr>ac_phase := DRAINING, ac_deadline := d\<rparr>)))) (\<lambda>s'.
     audited C ''stable_committed'' [(''pair'', pair_json pr)] (route 0 s'))"

text \<open>\<open>a.get("authorization", {}).get("evidence_hash")\<close>.\<close>

definition authorization_id :: "active_release \<Rightarrow> json res" where
  "authorization_id a =
     (case ac_authorization a of None \<Rightarrow> Inr JNull | Some auth \<Rightarrow> jget_or ''evidence_hash'' JNull auth)"

definition complete_release :: "'w controller \<Rightarrow> active_release \<Rightarrow> ('w, unit) mutator" where
  "complete_release C a s =
     bindP (co_clock C) (\<lambda>now. bindP (liftP (authorization_id a)) (\<lambda>h.
       retP ((), audit ''release_completed'' now [(''pair'', pair_json (ac_pair a)), (''authorization_id'', h)]
         (s\<lparr>st_processed := last_n HISTORY (st_processed s @ [ac_pair a]), st_active := None\<rparr>))))"

definition restore_stable :: "'w controller \<Rightarrow> active_release \<Rightarrow> ('w, unit) mutator" where
  "restore_stable C a s =
     (case ac_reason a of
        None \<Rightarrow> raiseP (KeyError ''reason'')
      | Some reason \<Rightarrow>
          bindP (co_clock C) (\<lambda>now. bindP (liftP (authorization_id a)) (\<lambda>h.
            retP ((), audit ''rollback_completed'' now
                [(''previous_stable'', pair_json (ac_previous_stable a)), (''authorization_id'', h)]
              (s\<lparr>st_stable := Some (ac_previous_stable a),
                 st_stable_fingerprint := Some (ac_previous_fingerprint a),
                 st_failed := last_n HISTORY (st_failed s @ [\<lparr>fl_pair = ac_pair a, fl_reason = reason\<rparr>]),
                 st_active := None\<rparr>)))))"

definition drop_route :: "('w, unit) mutator" where
  "drop_route s = retP ((), route 0 s)"

definition advance_preparing :: "'w controller \<Rightarrow> active_release \<Rightarrow> bool \<Rightarrow> ('w, unit) prog" where
  "advance_preparing C a expired =
     thenP (ensure C ''canary'' (ac_pair a) (ac_fingerprint a))
       (if expired then rollback C ''candidate_readiness_timeout''
        else bindP (ready C ''canary'' (Some (ac_pair a)) (Some (ac_fingerprint a)))
               (\<lambda>ok. whenP ok (change C (arm C))))"

text \<open>The gates of one ramp stage, once both lanes are ready and the router has acknowledged.\<close>

definition judge_stage ::
  "'w controller \<Rightarrow> release_state \<Rightarrow> rat \<Rightarrow> bool \<Rightarrow> metrics \<Rightarrow> ('w, unit) prog" where
  "judge_stage C s since expired m =
     (if \<not> list_all (present_finite m) [''up'', ''age'', ''traffic''] \<or> fin_of m ''traffic'' < 0
      then rollback C ''invalid_canary_metrics''
      else if fin_of m ''up'' \<noteq> 1 \<or> \<not> (0 \<le> fin_of m ''age'' \<and> fin_of m ''age'' \<le> 15)
      then rollback C ''router_unavailable_or_stale''
      else if fin_of m ''traffic'' < of_int (po_minimum (co_policy C))
      then whenP expired (rollback C ''insufficient_canary_traffic'')
      else let reasons = assess m (po_error_limit (co_policy C)) (po_p95_limit (co_policy C))
           in if reasons \<noteq> [] then rollback C (join '','' reasons)
              else if expired then rollback C ''stage_deadline_exceeded''
              else bindP (co_clock C) (\<lambda>now.
                whenP (\<not> now - since < po_dwell (co_policy C))
                  (change C (promote_stage C (rt_weight (st_route s))))))"

definition advance_ramp ::
  "'w controller \<Rightarrow> release_state \<Rightarrow> active_release \<Rightarrow> bool \<Rightarrow> ('w, unit) prog" where
  "advance_ramp C s a expired =
     bindP (ready C ''canary'' (Some (ac_pair a)) (Some (ac_fingerprint a))) (\<lambda>canary.
     bindP (if canary then ready C ''stable'' (st_stable s) (st_stable_fingerprint s) else retP False) (\<lambda>both.
       if \<not> both then rollback C ''backend_unhealthy''
       else bindP (ack C s) (\<lambda>seen.
         if \<not> seen then whenP expired (rollback C ''router_ack_timeout'')
         else case ac_stage_since a of
                None \<Rightarrow> if expired then rollback C ''stage_deadline_exceeded'' else change C (start_stage C)
              | Some since \<Rightarrow> bindP (ef_metrics (co_effects C)) (judge_stage C s since expired))))"

definition advance_finalizing :: "'w controller \<Rightarrow> active_release \<Rightarrow> bool \<Rightarrow> ('w, unit) prog" where
  "advance_finalizing C a expired =
     thenP (ensure C ''stable'' (ac_pair a) (ac_fingerprint a))
       (bindP (ready C ''stable'' (Some (ac_pair a)) (Some (ac_fingerprint a))) (\<lambda>ok.
          if expired then rollback C ''stable_readiness_timeout''
          else whenP ok (change C (commit_stable C (ac_pair a) (ac_fingerprint a)))))"

definition advance_draining ::
  "'w controller \<Rightarrow> release_state \<Rightarrow> active_release \<Rightarrow> bool \<Rightarrow> ('w, unit) prog" where
  "advance_draining C s a expired =
     bindP (ready C ''stable'' (Some (ac_pair a)) (Some (ac_fingerprint a))) (\<lambda>ok.
       if \<not> ok then rollback C ''stable_unhealthy_during_drain''
       else bindP (ack C s) (\<lambda>seen.
         if \<not> seen then whenP expired (rollback C ''drain_router_timeout'')
         else change C (complete_release C a)))"

definition advance_rollback :: "'w controller \<Rightarrow> active_release \<Rightarrow> ('w, unit) prog" where
  "advance_rollback C a =
     thenP (change C drop_route)
    (thenP (ensure C ''stable'' (ac_previous_stable a) (ac_previous_fingerprint a))
       (bindP (ready C ''stable'' (Some (ac_previous_stable a)) (Some (ac_previous_fingerprint a))) (\<lambda>ok.
        bindP (if ok then bindP (read_state C) (ack C) else retP False) (\<lambda>seen.
          if \<not> seen then block_if_expired C a else change C (restore_stable C a)))))"

definition advance :: "'w controller \<Rightarrow> release_state \<Rightarrow> active_release \<Rightarrow> ('w, unit) prog" where
  "advance C s a =
     bindP (co_clock C) (\<lambda>now.
       let expired = (now \<ge> ac_deadline a)
       in case ac_phase a of
            PREPARING \<Rightarrow> advance_preparing C a expired
          | RAMP \<Rightarrow> advance_ramp C s a expired
          | FINALIZING \<Rightarrow> advance_finalizing C a expired
          | DRAINING \<Rightarrow> advance_draining C s a expired
          | ROLLBACK \<Rightarrow> advance_rollback C a
          | BLOCKED \<Rightarrow> advance_rollback C a)"

subsection \<open>One tick\<close>

text \<open>The \<open>except\<close> clauses of \<open>tick\<close>.\<close>

definition recover :: "'w controller \<Rightarrow> active_release \<Rightarrow> exn \<Rightarrow> ('w, unit) prog" where
  "recover C a e =
     (if is_busy e then raiseP e
      else if is_transport_error e then
        (if ac_phase a = FINALIZING \<and> \<not> is_http_error e
         then bindP (co_clock C) (\<lambda>now. whenP (now \<ge> ac_deadline a) (rollback C ''stable_backend_unavailable''))
         else if ac_phase a \<in> {ROLLBACK, BLOCKED} then block_if_expired C a
         else rollback C ''backend_unavailable'')
      else if ac_phase a \<in> {ROLLBACK, BLOCKED} then block_if_expired C a
      else rollback C (if is_value_error e then ''invalid_backend_contract'' else ''effect_failure''))"

text \<open>The authorization of the active release is checked again on every tick.\<close>

definition authorization_holds :: "pylib \<Rightarrow> active_release \<Rightarrow> bool res" where
  "authorization_holds L a =
     (case bindR (case ac_authorization a of None \<Rightarrow> Inl (KeyError ''authorization'') | Some auth \<Rightarrow> Inr auth) (\<lambda>auth.
           bindR (jdeep [''evidence'', ''candidate'', ''event''] auth) (\<lambda>ev.
           validate_authorization L auth (Some (ac_pair a)) (Some (ac_fingerprint a)) ev)) of
        Inr _ \<Rightarrow> Inr True
      | Inl e \<Rightarrow> if is_key_error e \<or> is_value_error e \<or> is_type_error e then Inr False else Inl e)"

definition tick :: "'w controller \<Rightarrow> ('w, unit) prog" where
  "tick C =
     bindP (acquire C) (\<lambda>mine.
     whenP mine
      (bindP (read_state C) (\<lambda>s. thenP (guard C s)
        (case st_active s of
           None \<Rightarrow> change C (claim C)
         | Some a \<Rightarrow>
             bindP (if ac_phase a \<in> {ROLLBACK, BLOCKED} then retP True
                    else liftP (authorization_holds (co_lib C) a)) (\<lambda>ok.
             if \<not> ok then rollback C ''missing_release_authorization''
             else catchP (advance C s a) (recover C a))))))"

end
