(* ===== verification/Refinement.thy ===== *)
theory Refinement
  imports Lifecycle
begin

text \<open>
  The abstract release machine and the proof that the controller of \<open>Lifecycle\<close> implements it.
  \<open>release_step\<close> says how the holder of the lease may change the active release, the stable pair
  and the route; \<open>sys_step\<close> adds the writers that defer to it. \<open>release_controller\<close> is the
  contract of a controller's environment; its lemmas end in \<open>tick_traced\<close>. \<open>core_ok\<close> is the
  invariant that ties the phase, the weight and the stable pair together.
\<close>

section \<open>The abstract machine\<close>

definition continues :: "active_release \<Rightarrow> active_release \<Rightarrow> bool" where
  "continues a a' \<longleftrightarrow>
     ac_pair a' = ac_pair a \<and> ac_fingerprint a' = ac_fingerprint a
     \<and> ac_previous_stable a' = ac_previous_stable a \<and> ac_previous_fingerprint a' = ac_previous_fingerprint a
     \<and> ac_authorization a' = ac_authorization a"

definition undoing :: "active_release \<Rightarrow> bool" where
  "undoing a \<longleftrightarrow> ac_phase a \<in> {ROLLBACK, BLOCKED}"

text \<open>The queue side of the state, which a release step leaves alone, except that a claim drops items.\<close>

definition same_ledger :: "release_state \<Rightarrow> release_state \<Rightarrow> bool" where
  "same_ledger s s' \<longleftrightarrow>
     st_pending s' = st_pending s \<and> st_highest_accepted s' = st_highest_accepted s
     \<and> st_identities s' = st_identities s"

inductive release_step :: "pylib \<Rightarrow> release_state \<Rightarrow> release_state \<Rightarrow> bool" for L where
  start: "st_active s = None \<Longrightarrow> st_stable s = Some base \<Longrightarrow> st_stable_fingerprint s = Some sf
    \<Longrightarrow> it \<in> set (st_pending s) \<Longrightarrow> claimable L s it now = Inr True
    \<Longrightarrow> it_pair it = Some (ac_pair a) \<Longrightarrow> it_fingerprint it = Some (ac_fingerprint a)
    \<Longrightarrow> it_authorization it = ac_authorization a
    \<Longrightarrow> newer (sp_model_version (ac_pair a)) (sp_model_version base) = Inr True
    \<Longrightarrow> ac_phase a = PREPARING \<Longrightarrow> ac_previous_stable a = base \<Longrightarrow> ac_previous_fingerprint a = sf
    \<Longrightarrow> core s' = (core s)\<lparr>cr_active := Some a, cr_route := routed 0 (st_route s)\<rparr>
    \<Longrightarrow> subseq (st_pending s') (st_pending s) \<Longrightarrow> st_highest_accepted s' = st_highest_accepted s
    \<Longrightarrow> st_identities s' = st_identities s \<Longrightarrow> release_step L s s'"
| arm_canary: "st_active s = Some a \<Longrightarrow> ac_phase a = PREPARING \<Longrightarrow> continues a a' \<Longrightarrow> ac_phase a' = RAMP
    \<Longrightarrow> core s' = (core s)\<lparr>cr_active := Some a', cr_route := routed 10 (st_route s)\<rparr>
    \<Longrightarrow> same_ledger s s' \<Longrightarrow> release_step L s s'"
| observe: "st_active s = Some a \<Longrightarrow> ac_phase a = RAMP \<Longrightarrow> continues a a' \<Longrightarrow> ac_phase a' = RAMP
    \<Longrightarrow> core s' = (core s)\<lparr>cr_active := Some a'\<rparr> \<Longrightarrow> same_ledger s s' \<Longrightarrow> release_step L s s'"
| promote: "st_active s = Some a \<Longrightarrow> ac_phase a = RAMP \<Longrightarrow> continues a a' \<Longrightarrow> ac_phase a' = RAMP
    \<Longrightarrow> next_weight (rt_weight (st_route s)) = Inr w
    \<Longrightarrow> core s' = (core s)\<lparr>cr_active := Some a', cr_route := routed w (st_route s)\<rparr>
    \<Longrightarrow> same_ledger s s' \<Longrightarrow> release_step L s s'"
| finalize: "st_active s = Some a \<Longrightarrow> ac_phase a = RAMP \<Longrightarrow> continues a a' \<Longrightarrow> ac_phase a' = FINALIZING
    \<Longrightarrow> rt_weight (st_route s) = 100 \<Longrightarrow> core s' = (core s)\<lparr>cr_active := Some a'\<rparr>
    \<Longrightarrow> same_ledger s s' \<Longrightarrow> release_step L s s'"
| commit: "st_active s = Some a \<Longrightarrow> ac_phase a = FINALIZING \<Longrightarrow> continues a a' \<Longrightarrow> ac_phase a' = DRAINING
    \<Longrightarrow> core s' = \<lparr>cr_active = Some a', cr_stable = Some (ac_pair a), cr_fingerprint = Some (ac_fingerprint a),
                  cr_route = routed 0 (st_route s)\<rparr>
    \<Longrightarrow> same_ledger s s' \<Longrightarrow> release_step L s s'"
| complete: "st_active s = Some a \<Longrightarrow> ac_phase a = DRAINING
    \<Longrightarrow> core s' = (core s)\<lparr>cr_active := None\<rparr> \<Longrightarrow> same_ledger s s' \<Longrightarrow> release_step L s s'"
| retreat: "st_active s = Some a \<Longrightarrow> \<not> undoing a \<Longrightarrow> continues a a' \<Longrightarrow> ac_phase a' = ROLLBACK
    \<Longrightarrow> core s' = (core s)\<lparr>cr_active := Some a', cr_route := routed 0 (st_route s)\<rparr>
    \<Longrightarrow> same_ledger s s' \<Longrightarrow> release_step L s s'"
| hold: "st_active s = Some a \<Longrightarrow> undoing a
    \<Longrightarrow> core s' = (core s)\<lparr>cr_route := routed 0 (st_route s)\<rparr> \<Longrightarrow> same_ledger s s' \<Longrightarrow> release_step L s s'"
| block: "st_active s = Some a \<Longrightarrow> undoing a \<Longrightarrow> continues a a' \<Longrightarrow> ac_phase a' = BLOCKED
    \<Longrightarrow> core s' = (core s)\<lparr>cr_active := Some a'\<rparr> \<Longrightarrow> same_ledger s s' \<Longrightarrow> release_step L s s'"
| restore: "st_active s = Some a \<Longrightarrow> undoing a
    \<Longrightarrow> core s' = \<lparr>cr_active = None, cr_stable = Some (ac_previous_stable a),
                  cr_fingerprint = Some (ac_previous_fingerprint a), cr_route = st_route s\<rparr>
    \<Longrightarrow> same_ledger s s' \<Longrightarrow> release_step L s s'"

text \<open>
  A step of the system as the controller \<open>me\<close> sees it: a write of the others, a change of the lease
  alone, or a release step made while \<open>me\<close> holds the lease.
\<close>

definition sys_step ::
  "pylib \<Rightarrow> (release_state \<Rightarrow> release_state \<Rightarrow> bool) \<Rightarrow> string \<Rightarrow> release_state \<Rightarrow> release_state \<Rightarrow> bool" where
  "sys_step L others me s s' \<longleftrightarrow>
     others s s' \<or> (\<exists>l. s' = s\<lparr>st_lease := l\<rparr>) \<or> (holds_lease me s \<and> release_step L s s')"

definition traced ::
  "pylib \<Rightarrow> (release_state \<Rightarrow> release_state \<Rightarrow> bool) \<Rightarrow> string \<Rightarrow> release_state \<Rightarrow> release_state \<Rightarrow> bool" where
  "traced L others me = (sys_step L others me)\<^sup>*\<^sup>*"

lemma traced_refl [simp]: "traced L others me s s"
  by (simp add: traced_def)

lemma traced_step: "traced L others me s t \<Longrightarrow> sys_step L others me t u \<Longrightarrow> traced L others me s u"
  unfolding traced_def by (rule rtranclp.rtrancl_into_rtrancl)

lemma traced_others: "traced L others me s t \<Longrightarrow> others t u \<Longrightarrow> traced L others me s u"
  by (erule traced_step) (simp add: sys_step_def)

lemma traced_lease: "traced L others me s t \<Longrightarrow> traced L others me s (t\<lparr>st_lease := l\<rparr>)"
  by (erule traced_step) (auto simp: sys_step_def)

lemma traced_own:
  "traced L others me s t \<Longrightarrow> holds_lease me t \<Longrightarrow> release_step L t u \<Longrightarrow> traced L others me s u"
  by (erule traced_step) (simp add: sys_step_def)

section \<open>Knowledge that other writers keep\<close>

definition settled :: "(release_state \<Rightarrow> release_state \<Rightarrow> bool) \<Rightarrow> (release_state \<Rightarrow> bool) \<Rightarrow> bool" where
  "settled others P \<longleftrightarrow> (\<forall>s s'. others s s' \<longrightarrow> P s \<longrightarrow> P s')"

definition knows_core :: "string \<Rightarrow> release_state \<Rightarrow> release_state \<Rightarrow> bool" where
  "knows_core me s1 s \<longleftrightarrow> (holds_lease me s \<longrightarrow> core s = core s1)"

definition knows_active :: "string \<Rightarrow> active_release \<Rightarrow> release_state \<Rightarrow> bool" where
  "knows_active me a s \<longleftrightarrow> (holds_lease me s \<longrightarrow> st_active s = Some a)"

definition knows_undoing :: "string \<Rightarrow> release_state \<Rightarrow> bool" where
  "knows_undoing me s \<longleftrightarrow>
     (holds_lease me s \<longrightarrow> (case st_active s of None \<Rightarrow> True | Some a \<Rightarrow> undoing a))"

named_theorems settled_rules \<open>predicates on the state that other writers keep\<close>

lemma settled_traced [settled_rules]: "settled others (traced L others me s)"
  by (auto simp: settled_def dest: traced_others)

lemma defers_knows:
  assumes "\<And>s s'. others s s' \<Longrightarrow> defers_to me s s'"
  shows "settled others (knows_core me s1)" "settled others (knows_active me a)"
    "settled others (knows_undoing me)"
  using assms
  by (fastforce simp: settled_def knows_core_def knows_active_def knows_undoing_def defers_to_def core_eq_iff
      split: option.splits)+

lemma settled_conj [settled_rules]:
  "settled others P \<Longrightarrow> settled others Q \<Longrightarrow> settled others (\<lambda>s. P s \<and> Q s)"
  by (auto simp: settled_def)

lemma settled_imp [settled_rules]: "settled others P \<Longrightarrow> settled others (\<lambda>s. b \<longrightarrow> P s)"
  by (auto simp: settled_def)

lemma knows_core_active: "knows_core me s1 s \<Longrightarrow> st_active s1 = Some a \<Longrightarrow> knows_active me a s"
  by (auto simp: knows_core_def knows_active_def core_eq_iff)

lemma knows_active_undoing: "knows_active me a s \<Longrightarrow> undoing a \<Longrightarrow> knows_undoing me s"
  by (simp add: knows_active_def knows_undoing_def)

section \<open>What the mutators do\<close>

lemmas mutator_run = bindP_Inr_iff run_retP run_liftP run_raiseP audited_def deadline_from_def update_active_def

lemma routed_simps [simp]: "rt_weight (routed w r) = w" "rt_weight r = w \<Longrightarrow> routed w r = r"
  by (simp_all add: routed_def)

lemma route_simps [simp]:
  "st_active (route w s) = st_active s" "st_stable (route w s) = st_stable s"
  "st_stable_fingerprint (route w s) = st_stable_fingerprint s" "st_route (route w s) = routed w (st_route s)"
  "st_lease (route w s) = st_lease s" "st_pending (route w s) = st_pending s"
  "st_highest_accepted (route w s) = st_highest_accepted s" "st_identities (route w s) = st_identities s"
  by (simp_all add: route_def)

lemma filterP_holds:
  "filterP f xs w = (Inr ys, w') \<Longrightarrow> y \<in> set ys \<Longrightarrow> y \<in> set xs \<and> (\<exists>v v'. f y v = (Inr True, v'))"
proof (induction xs arbitrary: ys w)
  case (Cons x xs)
  then obtain b v zs where x: "f x w = (Inr b, v)" and zs: "filterP f xs v = (Inr zs, w')"
    and ys: "ys = (if b then x # zs else zs)"
    by (auto simp: bindP_Inr_iff run_retP)
  with Cons.IH [OF zs] Cons.prems(2) show ?case by (auto split: if_splits)
qed (simp add: run_retP)

lemma eligible_itemD:
  assumes "eligible_item C s base it v = (Inr True, v')"
  obtains now p where "claimable (co_lib C) s it now = Inr True" and "it_pair it = Some p"
    and "newer (sp_model_version p) (sp_model_version base) = Inr True"
  using assms
  by (auto simp: eligible_item_def bindP_Inr_iff run_liftP run_retP run_raiseP split: if_splits option.splits)

lemma highest_candidate_in:
  assumes "highest_candidate xs = Inr it"
  shows "it \<in> set xs \<and> (\<exists>v. pair_version it = Inr v \<and> (\<forall>x \<in> set xs. \<exists>w \<le> v. pair_version x = Inr w))"
proof -
  let ?f = "\<lambda>it. bindR (pair_version it) (\<lambda>v. Inr (v, it))"
  from assms obtain ks where ks: "mapR ?f xs = Inr ks" and out: "(case ks of
       [] \<Rightarrow> Inl (ValueError ''max() arg is an empty sequence'')
     | x # rest \<Rightarrow> Inr (snd (max_by (\<lambda>a b. fst a < fst b) x rest))) = Inr it"
    unfolding highest_candidate_def bindR_Inr_iff by blast
  then obtain x rest where "ks = x # rest" by (cases ks) simp_all
  with ks out have keyed: "mapR ?f xs = Inr (x # rest)"
    and it: "it = snd (max_by (\<lambda>a b. fst a < fst b) x rest)" by simp_all
  let ?m = "max_by (\<lambda>a b. fst a < fst b) x rest"
  have m: "?m \<in> set (x # rest)" by (rule max_by_in)
  have key: "z \<in> set (x # rest) \<Longrightarrow> snd z \<in> set xs \<and> pair_version (snd z) = Inr (fst z)" for z
    using mapR_set [OF keyed, of z] by (auto simp: bindR_Inr_iff)
  have "\<exists>w \<le> fst ?m. pair_version y = Inr w" if "y \<in> set xs" for y
  proof -
    from that obtain i where i: "i < length xs" "xs ! i = y" by (auto simp: in_set_conv_nth)
    then have z: "?f y = Inr ((x # rest) ! i)" using mapR_nth [OF keyed] by blast
    have "(x # rest) ! i \<in> set (x # rest)" using i mapR_length [OF keyed] by (metis nth_mem)
    then have "fst ((x # rest) ! i) \<le> fst ?m" using max_by_max [of x rest fst] by blast
    moreover from z obtain w where "pair_version y = Inr w" "(x # rest) ! i = (w, y)"
      by (auto simp: bindR_Inr_iff)
    ultimately show ?thesis by auto
  qed
  with key [OF m] it show ?thesis by blast
qed

lemma start_releaseD:
  assumes "start_release C base it s u = (Inr ((), s'), u')"
  obtains a sf kept where "it_pair it = Some (ac_pair a)" "it_fingerprint it = Some (ac_fingerprint a)"
    "st_stable_fingerprint s = Some sf" "it_authorization it = ac_authorization a" "ac_phase a = PREPARING"
    "ac_previous_stable a = base" "ac_previous_fingerprint a = sf" "ac_stage_since a = None"
    "filterR (newer_than (sp_model_version (ac_pair a))) (st_pending s) = Inr kept" "st_pending s' = kept"
    "core s' = (core s)\<lparr>cr_active := Some a, cr_route := routed 0 (st_route s)\<rparr>"
    "st_highest_accepted s' = st_highest_accepted s" "st_identities s' = st_identities s"
    "st_lease s' = st_lease s"
proof -
  from assms obtain p f sf auth where o: "it_pair it = Some p" "it_fingerprint it = Some f"
    "st_stable_fingerprint s = Some sf" "it_authorization it = Some auth"
    by (auto simp: start_release_def run_raiseP split: option.splits)
  from assms obtain kept d now h where k: "filterR (newer_than (sp_model_version p)) (st_pending s) = Inr kept"
    and s': "s' = audit ''release_started'' now [(''pair'', pair_json p), (''authorization_id'', h)]
        (route 0 (s\<lparr>st_pending := kept, st_active := Some
           \<lparr>ac_pair = p, ac_fingerprint = f, ac_phase = PREPARING, ac_previous_stable = base,
            ac_previous_fingerprint = sf, ac_deadline = d, ac_stage_since = None,
            ac_authorization = Some auth, ac_reason = None\<rparr>\<rparr>))"
    by (auto simp: start_release_def o mutator_run Let_def)
  show thesis
    by (rule that [of "the (st_active s')" sf kept]) (simp_all add: o k s' core_def route_def)
qed

lemma claim_cases:
  assumes run: "claim C s u = (Inr ((), s'), u')"
  obtains "s' = s"
  | base it now eligible v v' where "st_stable s = Some base" "it \<in> set (st_pending s)"
      "claimable (co_lib C) s it now = Inr True" "\<And>p. it_pair it = Some p \<Longrightarrow>
        newer (sp_model_version p) (sp_model_version base) = Inr True"
      "highest_candidate eligible = Inr it" "start_release C base it s v = (Inr ((), s'), v')"
proof (cases "st_stable s")
  case None
  with run have "s' = s" by (simp add: claim_def run_retP)
  then show thesis by (rule that(1))
next
  case (Some base)
  from run obtain eligible u1 where el: "filterP (eligible_item C s base) (st_pending s) u = (Inr eligible, u1)"
    and rest: "(if eligible = [] then retP ((), s)
        else bindP (liftP (highest_candidate eligible)) (\<lambda>it. start_release C base it s)) u1 = (Inr ((), s'), u')"
    by (auto simp: claim_def Some bindP_Inr_iff)
  show thesis
  proof (cases "eligible = []")
    case True
    with rest have "s' = s" by (simp add: run_retP)
    then show thesis by (rule that(1))
  next
    case False
    with rest obtain it where hc: "highest_candidate eligible = Inr it"
      and sr: "start_release C base it s u1 = (Inr ((), s'), u')"
      by (auto simp: bindP_Inr_iff run_liftP)
    from highest_candidate_in [OF hc] filterP_holds [OF el, of it] obtain v v' where
      it: "it \<in> set (st_pending s)" and e: "eligible_item C s base it v = (Inr True, v')" by blast
    from e show thesis by (rule eligible_itemD) (rule that(2) [OF Some it _ _ hc sr], auto)
  qed
qed

lemma filterR_subseq: "filterR f xs = Inr ys \<Longrightarrow> subseq ys xs"
proof (induction xs arbitrary: ys)
  case (Cons x xs)
  then obtain b zs where "filterR f xs = Inr zs" and "ys = (if b then x # zs else zs)"
    by (auto simp: bindR_Inr_iff)
  with Cons.IH [of zs] show ?case by auto
qed simp

lemma claim_step:
  assumes run: "claim C s u = (Inr ((), s'), u')" and none: "st_active s = None"
  shows "s' = s \<or> release_step (co_lib C) s s'"
  using run
proof (cases rule: claim_cases)
  case (2 base it now eligible v v')
  from 2(6) obtain a sf kept where a: "it_pair it = Some (ac_pair a)" "it_fingerprint it = Some (ac_fingerprint a)"
    "st_stable_fingerprint s = Some sf" "it_authorization it = ac_authorization a" "ac_phase a = PREPARING"
    "ac_previous_stable a = base" "ac_previous_fingerprint a = sf"
    "core s' = (core s)\<lparr>cr_active := Some a, cr_route := routed 0 (st_route s)\<rparr>"
    and k: "filterR (newer_than (sp_model_version (ac_pair a))) (st_pending s) = Inr kept" "st_pending s' = kept"
    and l: "st_highest_accepted s' = st_highest_accepted s" "st_identities s' = st_identities s"
    by (rule start_releaseD)
  have "subseq (st_pending s') (st_pending s)" using filterR_subseq [OF k(1)] k(2) by simp
  then have "release_step (co_lib C) s s'"
    by (rule release_step.start [OF none 2(1) a(3) 2(2) 2(3) a(1,2,4) 2(4) [OF a(1)] a(5-8) _ l])
  then show ?thesis ..
qed simp

lemma arm_step:
  assumes "arm C s u = (Inr ((), s'), u')" and "st_active s = Some a" and "ac_phase a = PREPARING"
  shows "release_step L s s'"
  using assms
  by (auto simp: arm_def mutator_run same_ledger_def core_def continues_def intro!: release_step.arm_canary [where a = a and a' = "the (st_active s')"])

lemma start_stage_step:
  assumes "start_stage C s u = (Inr ((), s'), u')" and "st_active s = Some a" and "ac_phase a = RAMP"
  shows "release_step L s s'"
  using assms by (auto simp: start_stage_def mutator_run same_ledger_def core_def continues_def intro!: release_step.observe [where a = a and a' = "the (st_active s')"])

lemma promote_stage_step:
  assumes "promote_stage C (rt_weight (st_route s)) s u = (Inr ((), s'), u')"
    and "st_active s = Some a" and "ac_phase a = RAMP"
  shows "release_step L s s'"
proof (cases "rt_weight (st_route s) = 100")
  case True
  with assms show ?thesis
    by (auto simp: promote_stage_def mutator_run same_ledger_def core_def continues_def intro!: release_step.finalize [where a = a and a' = "the (st_active s')"])
next
  case False
  with assms show ?thesis
    by (auto simp: promote_stage_def mutator_run same_ledger_def core_def continues_def intro!: release_step.promote [where a = a and a' = "the (st_active s')"])
qed

lemma commit_stable_step:
  assumes "commit_stable C (ac_pair a) (ac_fingerprint a) s u = (Inr ((), s'), u')"
    and "st_active s = Some a" and "ac_phase a = FINALIZING"
  shows "release_step L s s'"
  using assms by (auto simp: commit_stable_def mutator_run same_ledger_def core_def continues_def intro!: release_step.commit [where a = a and a' = "the (st_active s')"])

lemma complete_release_step:
  assumes "complete_release C a s u = (Inr ((), s'), u')" and "st_active s = Some a" and "ac_phase a = DRAINING"
  shows "release_step L s s'"
  using assms by (auto simp: complete_release_def mutator_run same_ledger_def core_def intro!: release_step.complete)

lemma request_rollback_step:
  assumes "request_rollback C reason s u = (Inr ((), s'), u')"
  shows "s' = s \<or> release_step L s s'"
proof (cases "st_active s")
  case None
  with assms show ?thesis by (simp add: request_rollback_def run_raiseP)
next
  case (Some a)
  show ?thesis
  proof (cases "undoing a")
    case True
    with assms Some show ?thesis by (simp add: request_rollback_def undoing_def run_retP)
  next
    case False
    with assms Some show ?thesis
      by (auto simp: request_rollback_def undoing_def mutator_run same_ledger_def core_def continues_def
          intro!: release_step.retreat [where a = a and a' = "the (st_active s')"])
  qed
qed

lemma drop_route_step:
  assumes "drop_route s u = (Inr ((), s'), u')" and "st_active s = Some a" and "undoing a"
  shows "release_step L s s' \<and> st_active s' = Some a"
  using assms by (auto simp: drop_route_def run_retP same_ledger_def core_def intro!: release_step.hold)

lemma mark_blocked_step:
  assumes "mark_blocked s u = (Inr ((), s'), u')" and "st_active s = Some a" and "undoing a"
  shows "release_step L s s' \<and> (\<exists>a'. st_active s' = Some a' \<and> undoing a')"
  using assms
  by (auto simp: mark_blocked_def mutator_run same_ledger_def core_def continues_def undoing_def intro!: release_step.block [where a = a and a' = "the (st_active s')"])

lemma restore_stable_step:
  assumes "restore_stable C a s u = (Inr ((), s'), u')" and "st_active s = Some a" and "undoing a"
  shows "release_step L s s' \<and> st_active s' = None"
  using assms
  by (auto simp: restore_stable_def mutator_run same_ledger_def core_def split: option.splits intro!: release_step.restore)

section \<open>The environment of a controller\<close>

lemma keeps_case_option:
  "keeps R m \<Longrightarrow> (\<And>x. keeps R (f x)) \<Longrightarrow> keeps R (case o' of None \<Rightarrow> m | Some x \<Rightarrow> f x)"
  by (simp split: option.split)

lemma keeps_if: "keeps R m \<Longrightarrow> keeps R n \<Longrightarrow> keeps R (if b then m else n)"
  by simp

locale release_controller = kube: cas_backend "co_backend C" cell drift
  for C :: "'w controller" and cell :: "'w \<Rightarrow> string \<times> release_state" and drift :: "'w \<Rightarrow> 'w \<Rightarrow> bool" +
  fixes others :: "release_state \<Rightarrow> release_state \<Rightarrow> bool"
  assumes clock_quiet: "keeps drift (co_clock C)"
    and ensure_quiet: "keeps drift (ef_ensure (co_effects C) lane pr fp)"
    and ready_quiet: "keeps drift (ef_ready (co_effects C) lane pair_option fp_option)"
    and router_quiet: "keeps drift (ef_router (co_effects C))"
    and metrics_quiet: "keeps drift (ef_metrics (co_effects C))"
    and drift_others: "drift v w \<Longrightarrow> others (snd (cell v)) (snd (cell w))"
    and others_defer: "others s s' \<Longrightarrow> defers_to (co_owner C) s s'"
begin

lemmas settled_knows [settled_rules] = defers_knows [OF others_defer]

abbreviation me :: string where
  "me \<equiv> co_owner C"

abbreviation state :: "'w \<Rightarrow> release_state" where
  "state w \<equiv> snd (cell w)"

abbreviation trace :: "release_state \<Rightarrow> release_state \<Rightarrow> bool" where
  "trace \<equiv> traced (co_lib C) others me"

lemmas quiet_facts = kube.drift_reflp kube.drift_transp

lemmas quiet_rules =
  keeps_pure [OF kube.drift_reflp] keeps_bindP [OF kube.drift_reflp kube.drift_transp]
  keeps_thenP [OF kube.drift_reflp kube.drift_transp] keeps_filterP [OF kube.drift_reflp kube.drift_transp]
  keeps_case_option keeps_if clock_quiet

lemma mutators_quiet:
  "keeps drift (claim_lease C s)" "keeps drift (guard C s)" "keeps drift (request_rollback C reason s)"
  "keeps drift (claim C s)" "keeps drift (arm C s)" "keeps drift (start_stage C s)"
  "keeps drift (promote_stage C weight s)" "keeps drift (commit_stable C pr fp s)"
  "keeps drift (complete_release C a s)" "keeps drift (restore_stable C a s)"
  "keeps drift (drop_route s)" "keeps drift (mark_blocked s)"
  unfolding claim_lease_def grant_lease_def guard_def request_rollback_def claim_def eligible_item_def
    start_release_def arm_def start_stage_def promote_stage_def commit_stable_def complete_release_def
    restore_stable_def drop_route_def mark_blocked_def update_active_def audited_def deadline_from_def Let_def
  by (intro quiet_rules | simp split: prod.split)+

lemma guarded_quiet: "(\<And>s. keeps drift (f s)) \<Longrightarrow> keeps drift (guarded C f s)"
  unfolding guarded_def by (intro quiet_rules mutators_quiet) simp

text \<open>Programs that do not write: what other writers keep, they keep.\<close>

lemma settledD: "settled others P \<Longrightarrow> drift v w \<Longrightarrow> P (state v) \<Longrightarrow> P (state w)"
  using drift_others unfolding settled_def by blast

lemma quiet_wpp:
  assumes "keeps drift m" and "settled others P" and "P (state w)"
  shows "wpp m (\<lambda>_ w'. P (state w')) (\<lambda>_ w'. P (state w')) w"
  using assms settledD unfolding keeps_def by (fastforce simp: wpp_snd)

lemma guard_Inr: "guard C s w = (Inr (), w') \<Longrightarrow> holds_lease me s"
  by (auto simp: guard_def holds_lease_def run_simps split: option.splits if_splits)

text \<open>The rule of a guarded change; \<open>J\<close> also holds if its write takes effect but is reported lost.\<close>

lemma change_wpp:
  assumes quiet: "\<And>s. keeps drift (f s)" and P: "settled others P" "P (state w)"
    and step: "\<And>s u s' u'. P s \<Longrightarrow> holds_lease me s \<Longrightarrow> f s u = (Inr ((), s'), u') \<Longrightarrow> J s'"
  shows "wpp (change C f) (\<lambda>_ w'. J (state w')) (\<lambda>_ w'. P (state w') \<or> J (state w')) w"
proof -
  have "wpp (change C f) (\<lambda>_ w'. J (state w')) (\<lambda>_ w'. P (state w') \<or> (\<exists>a :: unit. J (state w'))) w"
    unfolding change_def update_def
  proof (rule kube.update_rule [where J = "\<lambda>_. J"])
    show "keeps drift (guarded C f s)" for s using quiet by (rule guarded_quiet)
    show "P (state w)" by (rule P(2))
    show "P (state v') \<Longrightarrow> P (state w')" if "drift v' w'" for v' w' using settledD P(1) that by blast
    fix s u a s' u'
    assume "P s" and "guarded C f s u = (Inr (a, s'), u')"
    then obtain v where "guard C s u = (Inr (), v)" and "f s v = (Inr (a, s'), u')"
      by (auto simp: guarded_def run_thenP split: prod.splits sum.splits)
    then show "J s'" using step [OF \<open>P s\<close> guard_Inr] by (cases a) blast
  qed
  then show ?thesis by simp
qed

text \<open>The common case: the mutator makes one abstract step or none.\<close>

lemma change_traced:
  assumes "\<And>s. keeps drift (f s)" and "settled others K" and "trace s0 (state w)" and "K (state w)"
    and "\<And>s u s' u'. K s \<Longrightarrow> holds_lease me s \<Longrightarrow> f s u = (Inr ((), s'), u') \<Longrightarrow>
      s' = s \<or> release_step (co_lib C) s s'"
  shows "wpp (change C f) (\<lambda>_ w'. trace s0 (state w')) (\<lambda>_ w'. trace s0 (state w')) w"
proof (rule wpp_mono)
  show "wpp (change C f) (\<lambda>_ w'. trace s0 (state w'))
    (\<lambda>_ w'. (trace s0 (state w') \<and> K (state w')) \<or> trace s0 (state w')) w"
    by (rule change_wpp [where P = "\<lambda>s. trace s0 s \<and> K s"])
       (use assms in \<open>blast intro: settled_rules traced_own\<close>)+
qed auto

subsection \<open>Every operation of a tick is traced\<close>

abbreviation holds_after :: "(release_state \<Rightarrow> bool) \<Rightarrow> (release_state \<Rightarrow> bool) \<Rightarrow> ('w, 'a) prog \<Rightarrow> 'w \<Rightarrow> bool" where
  "holds_after P Q m w \<equiv> wpp m (\<lambda>_ w'. P (state w')) (\<lambda>_ w'. Q (state w')) w"

lemma rollback_traced: "trace s0 (state w) \<Longrightarrow> holds_after (trace s0) (trace s0) (rollback C reason) w"
  unfolding rollback_def
  by (rule change_traced [where K = "\<lambda>_. True"])
     (auto simp: mutators_quiet settled_def dest: request_rollback_step)

lemma ensure_quiet_C: "keeps drift (ensure C lane pr fp)"
  unfolding ensure_def read_state_def read_def
  by (intro quiet_rules kube.keeps_read mutators_quiet ensure_quiet)

lemma ready_quiet_C: "keeps drift (ready C lane pr fp)"
  unfolding ready_def by (rule ready_quiet)

lemma ack_quiet: "keeps drift (ack C s)"
  unfolding ack_def by (intro quiet_rules router_quiet)

text \<open>
  What an advance leaves behind an exception: the trace and, when the release was being undone, the
  knowledge that it still is or has been.
\<close>

definition safe :: "release_state \<Rightarrow> active_release \<Rightarrow> release_state \<Rightarrow> bool" where
  "safe s0 a s \<longleftrightarrow> trace s0 s \<and> (undoing a \<longrightarrow> knows_undoing me s)"

lemma settled_safe [settled_rules]: "settled others (safe s0 a)"
  unfolding safe_def by (intro settled_rules)

lemma block_traced:
  assumes "safe s0 a (state w)" and "undoing a"
  shows "holds_after (safe s0 a) (safe s0 a) (block_if_expired C a) w"
proof -
  have block: "holds_after (safe s0 a) (safe s0 a) (change C mark_blocked) v" if "safe s0 a (state v)" for v
  proof (rule wpp_mono)
    show "holds_after (safe s0 a) (\<lambda>s. safe s0 a s \<or> safe s0 a s) (change C mark_blocked) v"
    proof (rule change_wpp [OF _ settled_safe that])
      show "keeps drift (mark_blocked s)" for s by (rule mutators_quiet)
      fix s u s' u'
      assume s: "safe s0 a s" "holds_lease me s" and run: "mark_blocked s u = (Inr ((), s'), u')"
      then obtain b where b: "st_active s = Some b" "undoing b"
        using \<open>undoing a\<close>
        by (cases "st_active s")
           (auto simp: safe_def knows_undoing_def mark_blocked_def mutator_run)
      with mark_blocked_step [OF run b, of "co_lib C"] s show "safe s0 a s'"
        unfolding safe_def knows_undoing_def by (auto intro: traced_own)
    qed
  qed auto
  show ?thesis
    unfolding block_if_expired_def wpp_bindP
    by (rule wpp_mono [OF quiet_wpp [OF clock_quiet settled_safe assms(1)]])
       (auto simp: block)
qed

lemma recover_traced:
  assumes "safe s0 a (state w)"
  shows "holds_after (trace s0) (trace s0) (recover C a e) w"
proof -
  have t: "trace s0 (state w)" using assms by (simp add: safe_def)
  have clock: "holds_after (trace s0) (trace s0) (co_clock C) w"
    by (rule quiet_wpp [OF clock_quiet settled_traced t])
  have block: "holds_after (trace s0) (trace s0) (block_if_expired C a) w" if "undoing a"
    by (rule wpp_mono [OF block_traced [OF assms that]]) (auto simp: safe_def)
  have wait: "holds_after (trace s0) (trace s0)
      (bindP (co_clock C) (\<lambda>now. whenP (now \<ge> ac_deadline a) (rollback C r))) w" for r
    unfolding wpp_bindP by (rule wpp_mono [OF clock]) (auto simp: rollback_traced)
  show ?thesis
    using t block wait rollback_traced [OF t]
    by (auto simp: recover_def undoing_def)
qed

lemma promote_traced:
  assumes "trace s0 (state w)" and "knows_core me s1 (state w)"
    and "st_active s1 = Some a" and "ac_phase a = RAMP" and "weight = rt_weight (st_route s1)"
  shows "holds_after (trace s0) (trace s0) (change C (promote_stage C weight)) w"
proof (rule change_traced [where K = "knows_core me s1"])
  fix s u s' u'
  assume "knows_core me s1 s" "holds_lease me s" "promote_stage C weight s u = (Inr ((), s'), u')"
  then show "s' = s \<or> release_step (co_lib C) s s'"
    using assms promote_stage_step [of C s u s' u' a] by (auto simp: knows_core_def core_eq_iff)
qed (use assms in \<open>auto simp: mutators_quiet intro: settled_rules\<close>)

text \<open>Changes whose mutator needs to know the active release.\<close>

lemma change_active_traced:
  assumes "trace s0 (state w)" and "knows_active me a (state w)"
    and "\<And>s. keeps drift (f s)"
    and "\<And>s u s' u'. f s u = (Inr ((), s'), u') \<Longrightarrow> st_active s = Some a \<Longrightarrow> release_step (co_lib C) s s'"
  shows "holds_after (trace s0) (trace s0) (change C f) w"
  by (rule change_traced [where K = "knows_active me a"])
     (use assms in \<open>auto simp: knows_active_def intro: settled_rules\<close>)

subsection \<open>Advancing is traced\<close>

declare wpp_bindP [simp del] wpp_thenP [simp del] wpp_whenP [simp del]

lemma bind_quiet:
  assumes "keeps drift m" and "settled others P" and "P (state w)"
    and "\<And>a v. P (state v) \<Longrightarrow> holds_after Q R (f a) v" and "\<And>s. P s \<Longrightarrow> R s"
  shows "holds_after Q R (bindP m f) w"
  unfolding wpp_bindP by (rule wpp_mono [OF quiet_wpp [OF assms(1-3)]]) (use assms(4,5) in auto)

lemma then_quiet:
  assumes "keeps drift m" and "settled others P" and "P (state w)"
    and "\<And>v. P (state v) \<Longrightarrow> holds_after Q R n v" and "\<And>s. P s \<Longrightarrow> R s"
  shows "holds_after Q R (thenP m n) w"
  unfolding thenP_def by (rule bind_quiet [OF assms(1-3)]) (use assms(4,5) in auto)

lemma when_traced:
  "trace s0 (state w) \<Longrightarrow> (b \<Longrightarrow> holds_after (trace s0) (trace s0) m w) \<Longrightarrow>
    holds_after (trace s0) (trace s0) (whenP b m) w"
  by (simp add: wpp_whenP)

text \<open>What a tick knows after it has read \<open>s1\<close> and passed the guard.\<close>

definition known :: "release_state \<Rightarrow> release_state \<Rightarrow> release_state \<Rightarrow> bool" where
  "known s0 s1 s \<longleftrightarrow> trace s0 s \<and> knows_core me s1 s"

lemma settled_known [settled_rules]: "settled others (known s0 s1)"
  unfolding known_def by (intro settled_rules)

lemma known_trace: "known s0 s1 s \<Longrightarrow> trace s0 s"
  by (simp add: known_def)

lemma known_active: "known s0 s1 s \<Longrightarrow> st_active s1 = Some a \<Longrightarrow> knows_active me a s"
  by (auto simp: known_def intro: knows_core_active)

lemma known_change:
  assumes "known s0 s1 (state w)" and "st_active s1 = Some a"
    and "\<And>s. keeps drift (f s)"
    and "\<And>s u s' u'. f s u = (Inr ((), s'), u') \<Longrightarrow> st_active s = Some a \<Longrightarrow> release_step (co_lib C) s s'"
  shows "holds_after (trace s0) (trace s0) (change C f) w"
  by (rule change_active_traced [OF known_trace [OF assms(1)] known_active [OF assms(1,2)] assms(3,4)])

lemma known_rollback: "known s0 s1 (state w) \<Longrightarrow> holds_after (trace s0) (trace s0) (rollback C reason) w"
  by (rule rollback_traced) (rule known_trace)

lemmas known_bind = bind_quiet [OF _ settled_known]
lemmas known_then = then_quiet [OF _ settled_known]

lemma advance_preparing_traced:
  assumes "known s0 s1 (state w)" and "st_active s1 = Some a" and "ac_phase a = PREPARING"
  shows "holds_after (trace s0) (trace s0) (advance_preparing C a expired) w"
  unfolding advance_preparing_def
proof (rule known_then [OF ensure_quiet_C assms(1)])
  fix v assume v: "known s0 s1 (state v)"
  show "holds_after (trace s0) (trace s0)
    (if expired then rollback C ''candidate_readiness_timeout''
     else bindP (ready C ''canary'' (Some (ac_pair a)) (Some (ac_fingerprint a)))
            (\<lambda>ok. whenP ok (change C (arm C)))) v"
  proof (cases expired)
    case False
    have "holds_after (trace s0) (trace s0) (whenP ok (change C (arm C))) u" if "known s0 s1 (state u)" for ok u
      using that assms(2,3)
      by (intro when_traced known_trace [OF that] known_change [OF that assms(2)] mutators_quiet arm_step) auto
    then have "holds_after (trace s0) (trace s0)
        (bindP (ready C ''canary'' (Some (ac_pair a)) (Some (ac_fingerprint a)))
           (\<lambda>ok. whenP ok (change C (arm C)))) v"
      by (rule known_bind [OF ready_quiet_C v _ known_trace])
    with False show ?thesis by simp
  qed (simp add: known_rollback [OF v])
qed (rule known_trace)

lemma judge_stage_traced:
  assumes k: "known s0 s1 (state w)" and "st_active s1 = Some a" and "ac_phase a = RAMP"
  shows "holds_after (trace s0) (trace s0) (judge_stage C s1 since expired m) w"
proof -
  have promote: "holds_after (trace s0) (trace s0)
      (whenP b (change C (promote_stage C (rt_weight (st_route s1))))) v" if "known s0 s1 (state v)" for v b
    by (intro when_traced known_trace [OF that] promote_traced [of s0 _ s1 a])
       (use that assms in \<open>auto simp: known_def\<close>)
  have wait: "holds_after (trace s0) (trace s0) (bindP (co_clock C) (\<lambda>now.
      whenP (b now) (change C (promote_stage C (rt_weight (st_route s1)))))) w" for b
    by (rule known_bind [OF clock_quiet k promote known_trace])
  show ?thesis
    unfolding judge_stage_def Let_def
    using wait [of "\<lambda>now. \<not> now - since < po_dwell (co_policy C)"] known_rollback [OF k] known_trace [OF k]
      when_traced [OF known_trace [OF k] known_rollback [OF k]]
    by auto
qed

lemma advance_ramp_traced:
  assumes k: "known s0 s1 (state w)" and a: "st_active s1 = Some a" "ac_phase a = RAMP"
  shows "holds_after (trace s0) (trace s0) (advance_ramp C s1 a expired) w"
proof -
  have stage: "holds_after (trace s0) (trace s0)
      (case ac_stage_since a of
         None \<Rightarrow> if expired then rollback C ''stage_deadline_exceeded'' else change C (start_stage C)
       | Some since \<Rightarrow> bindP (ef_metrics (co_effects C)) (judge_stage C s1 since expired)) v"
    if v: "known s0 s1 (state v)" for v
    by (cases "ac_stage_since a"; simp)
       (intro conjI impI known_rollback [OF v] known_change [OF v a(1)] mutators_quiet start_stage_step
          known_bind [OF metrics_quiet v judge_stage_traced [OF _ a] known_trace]; (assumption | rule a(2)))+
  have seen: "holds_after (trace s0) (trace s0)
      (if \<not> both then rollback C ''backend_unhealthy''
       else bindP (ack C s1) (\<lambda>seen.
         if \<not> seen then whenP expired (rollback C ''router_ack_timeout'')
         else case ac_stage_since a of
                None \<Rightarrow> if expired then rollback C ''stage_deadline_exceeded'' else change C (start_stage C)
              | Some since \<Rightarrow> bindP (ef_metrics (co_effects C)) (judge_stage C s1 since expired))) v"
    if v: "known s0 s1 (state v)" for v both
  proof (cases both)
    case True
    have "holds_after (trace s0) (trace s0)
        (if \<not> ok then whenP expired (rollback C ''router_ack_timeout'')
         else case ac_stage_since a of
                None \<Rightarrow> if expired then rollback C ''stage_deadline_exceeded'' else change C (start_stage C)
              | Some since \<Rightarrow> bindP (ef_metrics (co_effects C)) (judge_stage C s1 since expired)) u"
      if u: "known s0 s1 (state u)" for u ok
      using stage [OF u] when_traced [OF known_trace [OF u] known_rollback [OF u]] by simp
    note this = known_bind [OF ack_quiet v this known_trace]
    with True show ?thesis by (simp only: not_True_eq_False if_False)
  qed (simp add: known_rollback [OF v])
  show ?thesis
    unfolding advance_ramp_def
    by (intro known_bind [OF ready_quiet_C k _ known_trace]
        known_bind [OF keeps_if [OF ready_quiet_C keeps_pure(1) [OF kube.drift_reflp]] _ _ known_trace] seen)
qed

lemma advance_finalizing_traced:
  assumes k: "known s0 s1 (state w)" and a: "st_active s1 = Some a" "ac_phase a = FINALIZING"
  shows "holds_after (trace s0) (trace s0) (advance_finalizing C a expired) w"
proof -
  have commit: "holds_after (trace s0) (trace s0)
      (whenP ok (change C (commit_stable C (ac_pair a) (ac_fingerprint a)))) v"
    if "known s0 s1 (state v)" for v ok
    using a(2)
    by (intro when_traced known_trace [OF that] known_change [OF that a(1)] mutators_quiet commit_stable_step) auto
  have decide: "holds_after (trace s0) (trace s0)
      (if expired then rollback C ''stable_readiness_timeout''
       else whenP ok (change C (commit_stable C (ac_pair a) (ac_fingerprint a)))) v"
    if "known s0 s1 (state v)" for v ok
    using commit [OF that] known_rollback [OF that] by simp
  show ?thesis
    unfolding advance_finalizing_def
    by (rule known_then [OF ensure_quiet_C k known_bind [OF ready_quiet_C _ decide known_trace] known_trace])
qed

lemma advance_draining_traced:
  assumes k: "known s0 s1 (state w)" and a: "st_active s1 = Some a" "ac_phase a = DRAINING"
  shows "holds_after (trace s0) (trace s0) (advance_draining C s1 a expired) w"
proof -
  have finish: "holds_after (trace s0) (trace s0)
      (if \<not> seen then whenP expired (rollback C ''drain_router_timeout'') else change C (complete_release C a)) v"
    if v: "known s0 s1 (state v)" for v seen
    using when_traced [OF known_trace [OF v] known_rollback [OF v]]
      known_change [OF v a(1) mutators_quiet(9) complete_release_step [OF _ _ a(2)]]
    by (cases seen) simp_all
  have decide: "holds_after (trace s0) (trace s0)
      (if \<not> ok then rollback C ''stable_unhealthy_during_drain''
       else bindP (ack C s1) (\<lambda>seen.
         if \<not> seen then whenP expired (rollback C ''drain_router_timeout'') else change C (complete_release C a))) v"
    if v: "known s0 s1 (state v)" for v ok
    using known_rollback [OF v] known_bind [OF ack_quiet v finish known_trace] by (cases ok) simp_all
  show ?thesis
    unfolding advance_draining_def by (rule known_bind [OF ready_quiet_C k decide known_trace])
qed

text \<open>Undoing a release: several changes in one tick, each knowing the release it undoes.\<close>

definition undo :: "release_state \<Rightarrow> active_release \<Rightarrow> release_state \<Rightarrow> bool" where
  "undo s0 a s \<longleftrightarrow> trace s0 s \<and> knows_active me a s"

lemma settled_undo [settled_rules]: "settled others (undo s0 a)"
  unfolding undo_def by (intro settled_rules)

lemma undo_safe: "undoing a \<Longrightarrow> undo s0 a s \<Longrightarrow> safe s0 a s"
  by (auto simp: undo_def safe_def intro: knows_active_undoing)

lemma drop_route_undo:
  assumes "undo s0 a (state w)" and u: "undoing a"
  shows "holds_after (undo s0 a) (undo s0 a) (change C drop_route) w"
proof (rule wpp_mono)
  show "holds_after (undo s0 a) (\<lambda>s. undo s0 a s \<or> undo s0 a s) (change C drop_route) w"
  proof (rule change_wpp [OF mutators_quiet(11) settled_undo assms(1)])
    fix s u s' u'
    assume s: "undo s0 a s" "holds_lease me s" and run: "drop_route s u = (Inr ((), s'), u')"
    then have "st_active s = Some a" by (simp add: undo_def knows_active_def)
    with drop_route_step [OF run this u, of "co_lib C"] s show "undo s0 a s'"
      unfolding undo_def knows_active_def by (auto intro: traced_own)
  qed
qed auto

lemma restore_safe:
  assumes "undo s0 a (state w)" and u: "undoing a"
  shows "holds_after (safe s0 a) (safe s0 a) (change C (restore_stable C a)) w"
proof (rule wpp_mono)
  show "holds_after (safe s0 a) (\<lambda>s. undo s0 a s \<or> safe s0 a s) (change C (restore_stable C a)) w"
  proof (rule change_wpp [OF mutators_quiet(10) settled_undo assms(1)])
    fix s u s' u'
    assume s: "undo s0 a s" "holds_lease me s" and run: "restore_stable C a s u = (Inr ((), s'), u')"
    then have "st_active s = Some a" by (simp add: undo_def knows_active_def)
    with restore_stable_step [OF run this u, of "co_lib C"] s show "safe s0 a s'"
      unfolding undo_def safe_def knows_undoing_def by (auto intro: traced_own)
  qed
qed (auto intro: undo_safe [OF u])

lemmas undo_bind = bind_quiet [OF _ settled_undo]
lemmas undo_then = then_quiet [OF _ settled_undo]

lemma advance_rollback_safe:
  assumes k: "undo s0 a (state w)" and u: "undoing a"
  shows "holds_after (safe s0 a) (safe s0 a) (advance_rollback C a) w"
proof -
  have last: "holds_after (safe s0 a) (safe s0 a)
      (if \<not> seen then block_if_expired C a else change C (restore_stable C a)) v"
    if v: "undo s0 a (state v)" for v seen
    using block_traced [OF undo_safe [OF u v] u] restore_safe [OF v u] by (cases seen) simp_all
  have seen_quiet: "keeps drift (if ok then bindP (read_state C) (ack C) else retP False)" for ok
    unfolding read_state_def read_def by (intro quiet_rules kube.keeps_read ack_quiet)
  have rest: "holds_after (safe s0 a) (safe s0 a)
      (thenP (ensure C ''stable'' (ac_previous_stable a) (ac_previous_fingerprint a))
        (bindP (ready C ''stable'' (Some (ac_previous_stable a)) (Some (ac_previous_fingerprint a))) (\<lambda>ok.
         bindP (if ok then bindP (read_state C) (ack C) else retP False) (\<lambda>seen.
           if \<not> seen then block_if_expired C a else change C (restore_stable C a))))) v"
    if v: "undo s0 a (state v)" for v
    by (rule undo_then [OF ensure_quiet_C v undo_bind [OF ready_quiet_C _ undo_bind [OF seen_quiet _ last]]])
       (auto intro: undo_safe [OF u])
  show ?thesis
    unfolding advance_rollback_def wpp_thenP [of "change C drop_route"]
    by (rule wpp_mono [OF drop_route_undo [OF k u]]) (auto intro: rest undo_safe [OF u])
qed

lemma advance_traced:
  assumes k: "known s0 s1 (state w)" and a: "st_active s1 = Some a"
  shows "holds_after (trace s0) (safe s0 a) (advance C s1 a) w"
proof -
  have weaken: "holds_after (trace s0) (safe s0 a) m v" if "\<not> undoing a" "holds_after (trace s0) (trace s0) m v"
    for m :: "('w, unit) prog" and v
    using that by (auto simp: safe_def)
  have undo: "holds_after (trace s0) (safe s0 a) (advance_rollback C a) v"
    if "undoing a" "known s0 s1 (state v)" for v
    by (rule wpp_mono [OF advance_rollback_safe])
       (use that known_active [OF that(2) a] in \<open>auto simp: undo_def safe_def known_def\<close>)
  have safe: "known s0 s1 s \<Longrightarrow> safe s0 a s" for s
    using known_active [of s0 s1 s a] a by (auto simp: safe_def known_def knows_active_undoing)
  have "holds_after (trace s0) (safe s0 a)
      (case ac_phase a of
         PREPARING \<Rightarrow> advance_preparing C a e | RAMP \<Rightarrow> advance_ramp C s1 a e
       | FINALIZING \<Rightarrow> advance_finalizing C a e | DRAINING \<Rightarrow> advance_draining C s1 a e
       | ROLLBACK \<Rightarrow> advance_rollback C a | BLOCKED \<Rightarrow> advance_rollback C a) v"
    if v: "known s0 s1 (state v)" for e v
    using weaken advance_preparing_traced [OF v a] advance_ramp_traced [OF v a]
      advance_finalizing_traced [OF v a] advance_draining_traced [OF v a] undo [OF _ v]
    by (cases "ac_phase a") (simp_all add: undoing_def)
  then show ?thesis
    unfolding advance_def Let_def by (rule bind_quiet [OF clock_quiet settled_known k _ safe])
qed

subsection \<open>The tick\<close>

lemma acquire_traced:
  assumes "trace s0 (state w)"
  shows "holds_after (trace s0) (trace s0) (acquire C) w"
proof (rule wpp_mono)
  show "wpp (acquire C) (\<lambda>_ w'. trace s0 (state w')) (\<lambda>_ w'. trace s0 (state w') \<or> (\<exists>a :: bool. trace s0 (state w'))) w"
    unfolding acquire_def update_def
  proof (rule kube.update_rule [where J = "\<lambda>_. trace s0" and P = "trace s0"])
    show "trace s0 (state v') \<Longrightarrow> trace s0 (state w')" if "drift v' w'" for v' w'
      using settledD [OF settled_traced] that by blast
    fix s u a s' u'
    assume t: "trace s0 s" and run: "claim_lease C s u = (Inr (a, s'), u')"
    then obtain l where "s' = s\<lparr>st_lease := l\<rparr>"
      by (auto simp: claim_lease_def grant_lease_def mutator_run split: option.splits if_splits)
         (metis release_state.surjective release_state.update_convs(13))
    with t show "trace s0 s'" by (simp add: traced_lease)
  qed (use assms mutators_quiet in auto)
qed auto

lemma read_known:
  assumes "trace s0 (state w)"
  shows "wpp (read_state C) (\<lambda>s1 w'. state w' = s1 \<and> trace s0 (state w')) (\<lambda>_ w'. trace s0 (state w')) w"
proof (rule wpp_I)
  fix s1 w'
  assume run: "read_state C w = (Inr s1, w')"
  then have "state w' = s1"
    using kube.read_sound
    by (auto simp: read_state_def read_def store_read_def bindP_Inr_iff run_liftP run_retP)
  moreover have "trace s0 (state w')"
    using settledD [OF settled_traced] keepsD [OF kube.keeps_read run [unfolded read_state_def read_def]] assms
    by blast
  ultimately show "state w' = s1 \<and> trace s0 (state w')" by simp
next
  fix e w'
  assume "read_state C w = (Inl e, w')"
  then show "trace s0 (state w')"
    using settledD [OF settled_traced] keepsD [OF kube.keeps_read] assms
    unfolding read_state_def read_def by blast
qed

lemma claim_traced:
  assumes k: "known s0 s1 (state w)" and none: "st_active s1 = None"
  shows "holds_after (trace s0) (trace s0) (change C (claim C)) w"
proof (rule change_traced [where K = "knows_core me s1"])
  fix s u s' u'
  assume "knows_core me s1 s" "holds_lease me s" "claim C s u = (Inr ((), s'), u')"
  then show "s' = s \<or> release_step (co_lib C) s s'"
    using none claim_step [of C s u s' u'] by (auto simp: knows_core_def core_eq_iff)
qed (use k in \<open>auto simp: mutators_quiet known_def intro: settled_rules\<close>)

lemma run_active_traced:
  assumes k: "known s0 s1 (state w)" and a: "st_active s1 = Some a"
  shows "holds_after (trace s0) (trace s0)
    (if \<not> ok then rollback C ''missing_release_authorization'' else catchP (advance C s1 a) (recover C a)) w"
proof (cases ok)
  case True
  have "holds_after (trace s0) (trace s0) (catchP (advance C s1 a) (recover C a)) w"
    unfolding wpp_catchP
    by (rule wpp_mono [OF advance_traced [OF k a]]) (auto intro: recover_traced)
  with True show ?thesis by simp
qed (simp add: known_rollback [OF k])

theorem tick_traced:
  assumes "trace s0 (state w)"
  shows "holds_after (trace s0) (trace s0) (tick C) w"
proof -
  have body: "holds_after (trace s0) (trace s0)
      (case st_active s1 of
         None \<Rightarrow> change C (claim C)
       | Some a \<Rightarrow>
           bindP (if ac_phase a \<in> {ROLLBACK, BLOCKED} then retP True
                  else liftP (authorization_holds (co_lib C) a)) (\<lambda>ok.
           if \<not> ok then rollback C ''missing_release_authorization''
           else catchP (advance C s1 a) (recover C a))) v"
    if k: "known s0 s1 (state v)" for s1 v
  proof (cases "st_active s1")
    case (Some a)
    have q: "keeps drift (if ac_phase a \<in> {ROLLBACK, BLOCKED} then retP True
        else liftP (authorization_holds (co_lib C) a))"
      by (intro quiet_rules)
    show ?thesis
      unfolding Some option.case by (rule known_bind [OF q k run_active_traced [OF _ Some] known_trace])
  qed (simp add: claim_traced [OF k])
  have enter: "holds_after (trace s0) (trace s0)
      (bindP (read_state C) (\<lambda>s. thenP (guard C s)
        (case st_active s of
           None \<Rightarrow> change C (claim C)
         | Some a \<Rightarrow>
             bindP (if ac_phase a \<in> {ROLLBACK, BLOCKED} then retP True
                    else liftP (authorization_holds (co_lib C) a)) (\<lambda>ok.
             if \<not> ok then rollback C ''missing_release_authorization''
             else catchP (advance C s a) (recover C a))))) v" if "trace s0 (state v)" for v
    unfolding wpp_bindP [of "read_state C"]
  proof (rule wpp_mono [OF read_known [OF that]])
    fix s1 u
    assume "state u = s1 \<and> trace s0 (state u)"
    then have "known s0 s1 (state u)" by (auto simp: known_def knows_core_def)
    then show "holds_after (trace s0) (trace s0) (thenP (guard C s1)
        (case st_active s1 of
           None \<Rightarrow> change C (claim C)
         | Some a \<Rightarrow>
             bindP (if ac_phase a \<in> {ROLLBACK, BLOCKED} then retP True
                    else liftP (authorization_holds (co_lib C) a)) (\<lambda>ok.
             if \<not> ok then rollback C ''missing_release_authorization''
             else catchP (advance C s1 a) (recover C a)))) u"
      by (rule known_then [OF mutators_quiet(2) _ body known_trace])
  qed
  show ?thesis
    unfolding tick_def wpp_bindP [of "acquire C"]
    by (rule wpp_mono [OF acquire_traced [OF assms]]) (auto intro: when_traced enter)
qed

end

end
