(* ===== verification/ReleaseSafety.thy ===== *)
theory ReleaseSafety
  imports Refinement
begin

text \<open>
  What the release machine guarantees: the invariant \<open>core_ok\<close>, the ladder of weights, where the
  stable pair may change, what a claim needs and does to the queue, who may hold the lease. A
  simulated server with a constant environment shows that the contracts can be met.
\<close>

section \<open>The invariant\<close>

definition active_ok :: "active_release \<Rightarrow> serving_pair option \<Rightarrow> string option \<Rightarrow> int \<Rightarrow> bool" where
  "active_ok a st fp weight \<longleftrightarrow>
     newer (sp_model_version (ac_pair a)) (sp_model_version (ac_previous_stable a)) = Inr True
     \<and> (let on_previous = (st = Some (ac_previous_stable a) \<and> fp = Some (ac_previous_fingerprint a));
            on_pair = (st = Some (ac_pair a) \<and> fp = Some (ac_fingerprint a))
        in case ac_phase a of
             PREPARING \<Rightarrow> weight = 0 \<and> on_previous
           | RAMP \<Rightarrow> weight \<in> {10, 25, 50, 100} \<and> on_previous
           | FINALIZING \<Rightarrow> weight = 100 \<and> on_previous
           | DRAINING \<Rightarrow> weight = 0 \<and> on_pair
           | _ \<Rightarrow> weight = 0 \<and> (on_previous \<or> on_pair))"

definition core_ok :: "release_state \<Rightarrow> bool" where
  "core_ok s \<longleftrightarrow>
     (case st_active s of
        None \<Rightarrow> rt_weight (st_route s) = 0
      | Some a \<Rightarrow> active_ok a (st_stable s) (st_stable_fingerprint s) (rt_weight (st_route s)))"

lemma core_ok_lease [simp]: "core_ok (s\<lparr>st_lease := l\<rparr>) = core_ok s"
  by (simp add: core_ok_def cong: option.case_cong)

lemma core_ok_core: "core_ok s = (case cr_active (core s) of
    None \<Rightarrow> rt_weight (cr_route (core s)) = 0
  | Some a \<Rightarrow> active_ok a (cr_stable (core s)) (cr_fingerprint (core s)) (rt_weight (cr_route (core s))))"
  by (simp add: core_ok_def cong: option.case_cong)

lemma next_weight_cases: "next_weight w = Inr v \<longleftrightarrow> (w, v) \<in> {(10, 25), (25, 50), (50, 100)}"
  by (auto simp: next_weight_def)

lemma release_step_core_ok:
  assumes "release_step L s s'" and "core_ok s"
  shows "core_ok s'"
  using assms
proof cases
  case (start base sf it now a)
  then show ?thesis by (simp add: core_ok_core active_ok_def)
next
  case (arm_canary a a')
  with assms(2) show ?thesis by (simp add: core_ok_core active_ok_def continues_def)
next
  case (observe a a')
  with assms(2) show ?thesis by (simp add: core_ok_core active_ok_def continues_def)
next
  case (promote a a' w)
  with assms(2) show ?thesis by (auto simp: core_ok_core active_ok_def continues_def next_weight_cases)
next
  case (finalize a a')
  with assms(2) show ?thesis by (simp add: core_ok_core active_ok_def continues_def)
next
  case (commit a a')
  with assms(2) show ?thesis by (simp add: core_ok_core active_ok_def continues_def)
next
  case (complete a)
  with assms(2) show ?thesis by (simp add: core_ok_core active_ok_def)
next
  case (retreat a a')
  with assms(2) show ?thesis
    by (cases "ac_phase a") (auto simp: core_ok_core active_ok_def continues_def undoing_def Let_def)
next
  case (hold a)
  with assms(2) show ?thesis
    by (cases "ac_phase a") (auto simp: core_ok_core active_ok_def undoing_def Let_def)
next
  case (block a a')
  with assms(2) show ?thesis
    by (cases "ac_phase a") (auto simp: core_ok_core active_ok_def continues_def undoing_def Let_def)
next
  case (restore a)
  with assms(2) show ?thesis
    by (cases "ac_phase a") (auto simp: core_ok_core active_ok_def undoing_def Let_def)
qed

lemma traced_invariant:
  assumes "traced L others me s t" and "I s"
    and "\<And>s s'. others s s' \<Longrightarrow> I s \<Longrightarrow> I s'" and "\<And>s l. I s \<Longrightarrow> I (s\<lparr>st_lease := l\<rparr>)"
    and "\<And>s s'. release_step L s s' \<Longrightarrow> I s \<Longrightarrow> I s'"
  shows "I t"
  using assms(1,2) unfolding traced_def
proof (induction rule: rtranclp_induct)
  case (step y z)
  then show ?case using assms(3-5) unfolding sys_step_def by blast
qed

lemma queue_ok_lease [simp]: "queue_ok (s\<lparr>st_lease := l\<rparr>) = queue_ok s"
  by (simp add: queue_ok_def)

lemma sorted_wrt_subseq: "subseq xs ys \<Longrightarrow> sorted_wrt R ys \<Longrightarrow> sorted_wrt R xs"
proof (induction rule: list_emb.induct)
  case (list_emb_Cons2 x y xs ys)
  then show ?case by (auto elim: list_emb_set)
qed auto

lemma queue_ok_subseq:
  assumes "queue_ok s" and "subseq (st_pending s') (st_pending s)"
    and "st_highest_accepted s' = st_highest_accepted s" and "st_identities s' = st_identities s"
  shows "queue_ok s'"
proof -
  have "set (st_pending s') \<subseteq> set (st_pending s)" using assms(2) by (auto elim: list_emb_set)
  moreover have "sorted_wrt (<) (map item_version (st_pending s'))"
    using assms(1) subseq_map [OF assms(2), of item_version] sorted_wrt_subseq
    unfolding queue_ok_def by blast
  moreover have "length (st_pending s') \<le> length (st_pending s)" using assms(2) by (rule list_emb_length)
  ultimately show ?thesis using assms(1,3,4) unfolding queue_ok_def by auto
qed

lemma release_step_queue_ok:
  assumes "release_step L s s'" and "queue_ok s"
  shows "queue_ok s'"
proof -
  have "subseq (st_pending s') (st_pending s)" "st_highest_accepted s' = st_highest_accepted s"
    "st_identities s' = st_identities s"
    using assms(1) by (cases; simp add: same_ledger_def)+
  with assms(2) show ?thesis by (rule queue_ok_subseq)
qed

section \<open>The ladder of weights and the stable pair\<close>

definition ladder :: "(int \<times> int) set" where
  "ladder = {(0, 10), (10, 25), (25, 50), (50, 100), (10, 0), (25, 0), (50, 0), (100, 0)}"

lemma release_step_moves:
  assumes "release_step L s s'"
  shows "st_route s' = st_route s \<or> st_route s' = routed 0 (st_route s)
    \<or> (\<exists>a. st_active s = Some a \<and> ac_phase a = PREPARING \<and> st_route s' = routed 10 (st_route s))
    \<or> (\<exists>w. next_weight (rt_weight (st_route s)) = Inr w \<and> st_route s' = routed w (st_route s))"
  using assms by cases (auto simp: core_def)

lemma release_step_route:
  assumes "release_step L s s'" and "core_ok s"
  shows "st_route s' = st_route s \<or>
    ((rt_weight (st_route s), rt_weight (st_route s')) \<in> ladder
      \<and> rt_revision (st_route s') = rt_revision (st_route s) + 1)"
proof -
  have w: "rt_weight (st_route s) \<in> {0, 10, 25, 50, 100}"
    using assms(2) by (auto simp: core_ok_def active_ok_def Let_def split: option.splits phase.splits)
  have p: "rt_weight (st_route s) = 0" if "st_active s = Some a" "ac_phase a = PREPARING" for a
    using assms(2) that by (simp add: core_ok_def active_ok_def)
  from release_step_moves [OF assms(1)] show ?thesis
  proof (elim disjE exE conjE)
    assume "st_route s' = routed 0 (st_route s)"
    with w show ?thesis by (auto simp: routed_def ladder_def)
  next
    fix a
    assume "st_active s = Some a" "ac_phase a = PREPARING" "st_route s' = routed 10 (st_route s)"
    with p show ?thesis by (auto simp: routed_def ladder_def)
  next
    fix v
    assume "next_weight (rt_weight (st_route s)) = Inr v" "st_route s' = routed v (st_route s)"
    then show ?thesis by (auto simp: next_weight_cases routed_def ladder_def)
  qed simp
qed

lemma release_step_stable:
  assumes "release_step L s s'" and "st_stable s' \<noteq> st_stable s"
  obtains a where "st_active s = Some a" and "ac_phase a = FINALIZING"
      and "st_stable s' = Some (ac_pair a)" and "rt_weight (st_route s') = 0"
    | a where "st_active s = Some a" and "undoing a" and "st_stable s' = Some (ac_previous_stable a)"
        and "st_active s' = None"
proof -
  from assms(1) have "st_stable s' = st_stable s
    \<or> (\<exists>a. st_active s = Some a \<and> ac_phase a = FINALIZING \<and> st_stable s' = Some (ac_pair a)
          \<and> rt_weight (st_route s') = 0)
    \<or> (\<exists>a. st_active s = Some a \<and> undoing a \<and> st_stable s' = Some (ac_previous_stable a) \<and> st_active s' = None)"
    by cases (simp_all add: core_def)
  with assms(2) that show thesis by blast
qed

section \<open>Claims\<close>

lemma finite_number_Inr: "finite_number j = Inr r \<Longrightarrow> num_of j = Some (Fin r)"
  by (auto simp: finite_number_def split: option.splits flt.splits if_splits)

lemma validate_authorization_lifetime:
  assumes "validate_authorization L auth pr fp ev = Inr ()"
  obtains authorized expires created evid where
    "jget ''authorized_at'' auth = Inr authorized" "jget ''expires_at'' auth = Inr expires"
    "jget ''evidence'' auth = Inr evid" "jget ''created_at'' evid = Inr created"
    "\<exists>c t. num_of created = Some (Fin c) \<and> num_of authorized = Some (Fin t)
       \<and> num_of expires = Some (Fin (t + TTL)) \<and> c \<le> t \<and> t \<le> c + EVIDENCE_TTL"
proof -
  from assms obtain evid created authorized expires c t x where
    "jget ''evidence'' auth = Inr evid" "jget ''created_at'' evid = Inr created"
    "jget ''authorized_at'' auth = Inr authorized" "jget ''expires_at'' auth = Inr expires"
    "finite_number created = Inr c" "finite_number authorized = Inr t" "finite_number expires = Inr x"
    "0 \<le> t - c \<and> t - c \<le> EVIDENCE_TTL \<and> x = t + TTL"
    unfolding validate_authorization_def
    by (simp only: bindR_Inr_iff requireR_iff) blast
  then show thesis by (intro that) (auto dest!: finite_number_Inr)
qed

lemma snapshotD:
  assumes "snapshot L s (JStr v) = Inr snap"
  shows "st_active s = None" and "rt_weight (st_route s) = 0" and "py_int v = Inr (st_highest_accepted s)"
    and "\<exists>base b. st_stable s = Some base \<and> version_of base = Inr b \<and> b < st_highest_accepted s"
    and "\<exists>it. items_for (JStr v) s = [it] \<and> it_status it \<in> {READY_FOR_RELEASE, APPROVED_FOR_RELEASE}"
proof -
  from assms obtain base x where base: "st_stable s = Some base"
    and idle: "st_active s = None \<and> rt_weight (st_route s) = 0" and x: "int_of_json (JStr v) = Inr x"
    and fresh: "(if x = st_highest_accepted s then bindR (version_of base) (\<lambda>b. Inr (v' > b)) else Inr False) = Inr True
      \<Longrightarrow> True"
    and rest: "(case items_for (JStr v) s of [item] \<Rightarrow> snapshot_item L s base item
       | _ \<Rightarrow> Inl (ValueError ''candidate_not_eligible'')) = Inr snap"
    and top: "(if x = st_highest_accepted s then bindR (version_of base) (\<lambda>b. Inr (x > b)) else Inr False) = Inr True"
    for v'
    by (auto simp: snapshot_def bindR_Inr_iff split: option.splits)
  show "st_active s = None" "rt_weight (st_route s) = 0" using idle by simp_all
  show "py_int v = Inr (st_highest_accepted s)" using x top by (auto simp: int_of_json_def split: if_splits)
  show "\<exists>base b. st_stable s = Some base \<and> version_of base = Inr b \<and> b < st_highest_accepted s"
    using base top by (auto simp: bindR_Inr_iff split: if_splits)
  from rest obtain it where "items_for (JStr v) s = [it]" "snapshot_item L s base it = Inr snap"
    by (auto split: list.splits)
  then show "\<exists>it. items_for (JStr v) s = [it] \<and> it_status it \<in> {READY_FOR_RELEASE, APPROVED_FOR_RELEASE}"
    by (auto simp: snapshot_item_def bindR_Inr_iff)
qed

lemma claimable_checked:
  assumes "claimable L s it now = Inr True"
  shows "it_status it = APPROVED_FOR_RELEASE" and "claimable_checked L s it now = Inr True"
  using assms by (auto simp: claimable_def split: if_splits sum.splits)

lemma claimableD:
  assumes "claimable L s it now = Inr True"
  obtains p t where "it_status it = APPROVED_FOR_RELEASE" "it_pair it = Some p"
    "validate_item_authorization L (opt_json id (it_authorization it)) it = Inr ()"
    "\<exists>snap. snapshot L s (JStr (sp_model_version p)) = Inr snap" "t \<le> now" "now < t + TTL"
proof -
  let ?auth = "opt_json id (it_authorization it)"
  from claimable_checked(2) [OF assms] obtain aj xj p snap where
    v: "validate_item_authorization L ?auth it = Inr ()"
    and j: "jget ''authorized_at'' ?auth = Inr aj" "jget ''expires_at'' ?auth = Inr xj"
    and inside: "andR [jle aj (jrat now), jlt (jrat now) xj] = Inr True"
    and p: "it_pair it = Some p" and snap: "snapshot L s (JStr (sp_model_version p)) = Inr snap"
    unfolding claimable_checked_def Let_def
    by (fastforce simp: bindR_Inr_iff split: if_splits option.splits)
  obtain authorized expires t where "jget ''authorized_at'' ?auth = Inr authorized"
    "jget ''expires_at'' ?auth = Inr expires" "num_of authorized = Some (Fin t)"
    "num_of expires = Some (Fin (t + TTL))"
    using validate_authorization_lifetime [OF v [unfolded validate_item_authorization_def]] by metis
  with j inside have "t \<le> now" "now < t + TTL"
    by (auto simp: jle_def jlt_def split: if_splits)
  with that [OF claimable_checked(1) [OF assms] p v] snap show thesis by blast
qed

lemma claimable_window:
  assumes "claimable L s it now = Inr True"
  shows "\<exists>auth t. it_authorization it = Some auth
    \<and> num_of (the (map_of (case auth of JObj kvs \<Rightarrow> kvs | _ \<Rightarrow> []) ''authorized_at'')) = Some (Fin t)
    \<and> t \<le> now \<and> now < t + TTL"
proof -
  let ?auth = "opt_json id (it_authorization it)"
  from claimable_checked(2) [OF assms] obtain aj xj where
    v: "validate_item_authorization L ?auth it = Inr ()"
    and j: "jget ''authorized_at'' ?auth = Inr aj" "jget ''expires_at'' ?auth = Inr xj"
    and inside: "andR [jle aj (jrat now), jlt (jrat now) xj] = Inr True"
    unfolding claimable_checked_def Let_def
    by (fastforce simp: bindR_Inr_iff split: if_splits option.splits)
  obtain authorized expires t where "jget ''authorized_at'' ?auth = Inr authorized"
    "jget ''expires_at'' ?auth = Inr expires" "num_of authorized = Some (Fin t)"
    "num_of expires = Some (Fin (t + TTL))"
    using validate_authorization_lifetime [OF v [unfolded validate_item_authorization_def]] by metis
  with j inside show ?thesis
    by (cases "it_authorization it")
      (auto simp: opt_json_def jget_Inr_iff jle_def jlt_def split: if_splits)
qed

text \<open>A claim takes the highest accepted version and leaves nothing queued.\<close>

lemma claim_empties_queue:
  assumes run: "claim C s u = (Inr ((), s'), u')" and new: "s' \<noteq> s" and q: "queue_ok s"
  shows "st_pending s' = []"
  using run
proof (cases rule: claim_cases)
  case (2 base it now eligible v v')
  from 2(6) obtain a :: active_release and kept where p: "it_pair it = Some (ac_pair a)"
    and kept: "filterR (newer_than (sp_model_version (ac_pair a))) (st_pending s) = Inr kept" "st_pending s' = kept"
    by (rule start_releaseD) blast
  then have k: "filterR (newer_than (sp_model_version (ac_pair a))) (st_pending s) = Inr (st_pending s')" by simp
  have "\<exists>snap. snapshot (co_lib C) s (JStr (sp_model_version (ac_pair a))) = Inr snap"
    by (rule claimableD [OF 2(3)]) (use p in simp)
  then have top: "py_int (sp_model_version (ac_pair a)) = Inr (st_highest_accepted s)"
    using snapshotD(3) by blast
  have "x \<notin> set (st_pending s')" for x
  proof
    assume "x \<in> set (st_pending s')"
    then have x: "x \<in> set (st_pending s)" and n: "newer_than (sp_model_version (ac_pair a)) x = Inr True"
      using filterR_set [OF k] by auto
    from q x have "version_string (ev_model_version (it_event x))" and le: "int (item_version x) \<le> st_highest_accepted s"
      by (auto simp: queue_ok_def)
    then show False
      using n top py_int_version by (auto simp: newer_than_def newer_def item_version_def bindR_Inr_iff)
  qed
  then show ?thesis by (metis list.set_intros(1) neq_Nil_conv)
qed (use new in simp)

section \<open>The lease\<close>

text \<open>A lease that is held by another controller is taken only once it has expired.\<close>

lemma claim_lease_exclusive:
  assumes "claim_lease C s w = (Inr (mine, s'), w')" and "st_lease s = Some l" and "le_owner l \<noteq> co_owner C"
  obtains now v where "co_clock C w = (Inr now, v)"
    and "mine \<longleftrightarrow> le_until l \<le> now" and "\<not> mine \<Longrightarrow> s' = s"
    and "mine \<Longrightarrow> holds_lease (co_owner C) s'"
proof -
  from assms obtain now v where c: "co_clock C w = (Inr now, v)"
    and rest: "(if le_until l > now then retP (False, s) else grant_lease C s) v = (Inr (mine, s'), w')"
    by (auto simp: claim_lease_def bindP_Inr_iff)
  show thesis
    by (rule that [OF c])
       (use rest in \<open>auto simp: grant_lease_def holds_lease_def mutator_run split: if_splits\<close>)
qed

section \<open>A controller on the simulated server\<close>

text \<open>
  An environment that answers the same to every call: whether the lanes are ready, the state the
  router reports and the metrics. With the simulated server, whose rivals defer to the controller,
  it meets the contract \<open>release_controller\<close>.
\<close>

definition steady_effects :: "bool \<Rightarrow> json \<Rightarrow> metrics \<Rightarrow> 'w effects" where
  "steady_effects ok seen m =
     \<lparr>ef_ensure = (\<lambda>_ _ _. retP ()), ef_ready = (\<lambda>_ _ _. retP ok), ef_router = retP seen, ef_metrics = retP m\<rparr>"

definition sim_controller ::
  "(release_state \<Rightarrow> release_state \<Rightarrow> bool) \<Rightarrow> pylib \<Rightarrow> string \<Rightarrow> policy \<Rightarrow> bool \<Rightarrow> json \<Rightarrow> metrics
    \<Rightarrow> release_state server controller" where
  "sim_controller discipline L owner pol ok seen m =
     \<lparr>co_lib = L, co_owner = owner, co_policy = pol, co_clock = server_clock,
      co_backend = kube_backend (validate L) STATE_NAME ''production'' (server_api discipline),
      co_effects = steady_effects ok seen m\<rparr>"

text \<open>What the workers that fill the queue do: the core and the lease stay, the queue stays in order.\<close>

definition worker_writes :: "release_state \<Rightarrow> release_state \<Rightarrow> bool" where
  "worker_writes s s' \<longleftrightarrow> core s' = core s \<and> st_lease s' = st_lease s \<and> (queue_ok s \<longrightarrow> queue_ok s')"

lemma worker_writes_preorder: "reflp worker_writes" "transp worker_writes"
  by (auto simp: reflp_def transp_def worker_writes_def)

lemma worker_writes_defer: "worker_writes s s' \<Longrightarrow> defers_to me s s'"
  by (auto simp: worker_writes_def intro: same_core_defers_to)

lemma worker_writes_core_ok: "worker_writes s s' \<Longrightarrow> core_ok s \<Longrightarrow> core_ok s'"
  unfolding worker_writes_def by (metis core_ok_core)

interpretation deferring: configmap_server "server_api (defers_to me)" server_object "server_drift (defers_to me)" for me
  by (rule server_contract [OF defers_to_reflp defers_to_transp])

interpretation working: configmap_server "server_api worker_writes" server_object "server_drift worker_writes"
  by (rule server_contract [OF worker_writes_preorder])

lemma sim_contract:
  assumes refl: "reflp discipline" and "\<And>s s'. discipline s s' \<Longrightarrow> defers_to owner s s'"
    and be: "configmap_server (server_api discipline) server_object (server_drift discipline)"
  shows "release_controller (sim_controller discipline L owner pol ok seen m) (stored server_object)
    (server_drift discipline) discipline"
proof -
  let ?C = "sim_controller discipline L owner pol ok seen m"
  have "cas_backend (co_backend ?C) (stored server_object) (server_drift discipline)"
    unfolding sim_controller_def controller.simps by (rule configmap_server.kube_contract [OF be])
  moreover have "keeps (server_drift discipline) server_clock"
    using server_drift_reflp [OF refl] by (simp add: keeps_def server_clock_def reflp_def)
  ultimately show ?thesis
    using assms(2) by (simp add: release_controller_def release_controller_axioms_def sim_controller_def
        steady_effects_def server_drift_def server_object_def keeps_pure server_drift_reflp refl)
qed

interpretation sim: release_controller "sim_controller (defers_to owner) L owner pol ok seen m" "stored server_object"
  "server_drift (defers_to owner)" "defers_to owner" for L owner pol ok seen m
  by (intro sim_contract defers_to_reflp deferring.configmap_server_axioms) auto

interpretation work: release_controller "sim_controller worker_writes L owner pol ok seen m" "stored server_object"
  "server_drift worker_writes" worker_writes for L owner pol ok seen m
  by (intro sim_contract worker_writes_preorder working.configmap_server_axioms worker_writes_defer)

end
