(* ===== verification/AuthorizationSafety.thy ===== *)
theory AuthorizationSafety
  imports ReleaseSafety
begin

text \<open>
  What \<open>authorize\<close> may do to the state: it touches one queued item and the audit, returns a stored
  authorization unchanged on an identical retry, and renews only after expiry for a new run.
\<close>

lemma store_authorization_cases:
  assumes "store_authorization L version expected now previous item s = Inr (auth, s')"
  obtains p h ph src tk where "it_pair item = Some p" "digest L expected = Inr h"
    "auth = JObj [(''evidence'', expected), (''evidence_hash'', JStr h),
       (''authorized_at'', jrat now), (''expires_at'', jrat (now + TTL))]"
    "validate_item_authorization L auth item = Inr ()"
    "s' = audit (if previous = None then ''release_authorized'' else ''release_reauthorized'') now
       [(''previous_authorization_id'', ph), (''model_version'', JStr (sp_model_version p)),
        (''authorization_id'', JStr h), (''source'', src), (''ticket_reference'', tk)]
       (s\<lparr>st_pending := update_first (\<lambda>x. JStr (ev_model_version (it_event x)) = version)
          (\<lambda>_. item\<lparr>it_status := APPROVED_FOR_RELEASE, it_authorization := Some auth\<rparr>) (st_pending s)\<rparr>)"
proof -
  from assms obtain h p ph src tk u where "digest L expected = Inr h"
    and v: "validate_item_authorization L (JObj [(''evidence'', expected), (''evidence_hash'', JStr h),
       (''authorized_at'', jrat now), (''expires_at'', jrat (now + TTL))]) item = Inr u"
    and p: "(case it_pair item of None \<Rightarrow> Inl (KeyError ''pair'') | Some p \<Rightarrow> Inr p) = Inr p"
    and out: "Inr (JObj [(''evidence'', expected), (''evidence_hash'', JStr h),
         (''authorized_at'', jrat now), (''expires_at'', jrat (now + TTL))],
       audit (if previous = None then ''release_authorized'' else ''release_reauthorized'') now
         [(''previous_authorization_id'', ph), (''model_version'', JStr (sp_model_version p)),
          (''authorization_id'', JStr h), (''source'', src), (''ticket_reference'', tk)]
         (s\<lparr>st_pending := update_first (\<lambda>x. JStr (ev_model_version (it_event x)) = version)
            (\<lambda>_. item\<lparr>it_status := APPROVED_FOR_RELEASE, it_authorization := Some (JObj
              [(''evidence'', expected), (''evidence_hash'', JStr h),
               (''authorized_at'', jrat now), (''expires_at'', jrat (now + TTL))])\<rparr>) (st_pending s)\<rparr>))
       = (Inr (auth, s') :: (json \<times> release_state) res)"
    unfolding store_authorization_def Let_def by (simp only: bindR_Inr_iff) blast
  moreover have "it_pair item = Some p" using p by (cases "it_pair item") simp_all
  ultimately show thesis by (intro that [of p h ph src tk]) auto
qed

text \<open>The three ways \<open>authorize\<close> returns.\<close>

lemma authorize_cases:
  assumes "authorize L expected now s = Inr (auth, s')"
  obtains version actual item rest where
    "jdeep [''candidate'', ''pair'', ''model_version''] expected = Inr version" "snapshot L s version = Inr actual"
    "\<exists>want. project baseline_keys expected = Inr want \<and> py_eq actual want"
    "items_for version s = item # rest"
    "(truthy auth \<and> s' = s \<and> it_authorization item = Some auth \<and> claimable L s item now = Inr True
        \<and> (\<exists>pe. jget ''evidence'' auth = Inr pe \<and> py_eq pe expected))
     \<or> (\<exists>previous. it_authorization item = Some previous \<and> truthy previous
          \<and> check_renewal expected now previous actual = Inr ()
          \<and> store_authorization L version expected now (Some previous) item s = Inr (auth, s'))
     \<or> (\<not> truthy (opt_json id (it_authorization item)) \<and> jget_or ''supersedes'' JNull expected = Inr JNull
          \<and> store_authorization L version expected now None item s = Inr (auth, s'))"
proof -
  from assms obtain version actual want item where
    v: "jdeep [''candidate'', ''pair'', ''model_version''] expected = Inr version" "snapshot L s version = Inr actual"
    and w: "project baseline_keys expected = Inr want" "py_eq actual want"
    and i: "(case items_for version s of [] \<Rightarrow> Inl (OtherError ''StopIteration'') | x # _ \<Rightarrow> Inr x) = Inr item"
    and rest: "(let previous = opt_json id (it_authorization item)
       in if truthy previous then
            bindR (jget ''evidence'' previous) (\<lambda>pe.
            if py_eq pe expected then
              bindR (claimable L s item now) (\<lambda>ok.
              bindR (requireR ok (ValueError ''authorization_expired_or_stale'')) (\<lambda>_. Inr (previous, s)))
            else
              bindR (check_renewal expected now previous actual) (\<lambda>_.
                store_authorization L version expected now (Some previous) item s))
          else
            bindR (jget_or ''supersedes'' JNull expected) (\<lambda>sup.
            bindR (requireR (sup = JNull) (ValueError ''previous_authorization_missing'')) (\<lambda>_.
              store_authorization L version expected now None item s))) = Inr (auth, s')"
    unfolding authorize_def by (simp only: bindR_Inr_iff requireR_iff) blast
  from i obtain more where more: "items_for version s = item # more" by (auto split: list.splits)
  have "it_authorization item = Some (opt_json id (it_authorization item))" if "truthy (opt_json id (it_authorization item))"
    using that by (cases "it_authorization item") (simp_all add: opt_json_def)
  with rest show thesis
    by (intro that [OF v _ more]) (use w in \<open>auto simp: Let_def bindR_Inr_iff split: if_splits\<close>)
qed

lemma items_for_in: "items_for version s = item # rest \<Longrightarrow> item \<in> set (st_pending s)
    \<and> JStr (ev_model_version (it_event item)) = version"
  unfolding items_for_def by (auto dest!: arg_cong [where f = set])

text \<open>With a single match, replacing the first match replaces that item.\<close>

lemma update_first_single:
  "filter p xs = [x] \<Longrightarrow> update_first p (\<lambda>_. y) xs = map (\<lambda>z. if p z then y else z) xs"
proof (induction xs)
  case (Cons z zs)
  then show ?case by (cases "p z") (auto simp: filter_empty_conv intro!: map_idI [symmetric])
qed simp

lemma snapshot_single: "snapshot L s version = Inr snap \<Longrightarrow> \<exists>it. items_for version s = [it]
    \<and> it_status it \<in> {READY_FOR_RELEASE, APPROVED_FOR_RELEASE}"
  by (auto simp: snapshot_def snapshot_item_def bindR_Inr_iff split: option.splits list.splits)

lemma store_authorization_frame:
  assumes "store_authorization L version expected now previous item s = Inr (auth, s')"
    and "items_for version s = [item]"
  shows "core s' = core s" "st_lease s' = st_lease s" "map it_event (st_pending s') = map it_event (st_pending s)"
    "st_highest_accepted s' = st_highest_accepted s" "st_identities s' = st_identities s"
    "items_for version s' = [item\<lparr>it_status := APPROVED_FOR_RELEASE, it_authorization := Some auth\<rparr>]"
proof -
  let ?new = "item\<lparr>it_status := APPROVED_FOR_RELEASE, it_authorization := Some auth\<rparr>"
  let ?p = "\<lambda>x. JStr (ev_model_version (it_event x)) = version"
  from assms(2) have f: "filter ?p (st_pending s) = [item]" by (simp add: items_for_def)
  have p: "?p item" using items_for_in [OF assms(2)] by simp
  from assms(1) have s': "st_pending s' = map (\<lambda>z. if ?p z then ?new else z) (st_pending s)"
    by (rule store_authorization_cases) (simp add: update_first_single [OF f])
  show "core s' = core s" "st_lease s' = st_lease s" "st_highest_accepted s' = st_highest_accepted s"
    "st_identities s' = st_identities s"
    using assms(1) by (auto elim!: store_authorization_cases simp: core_eq_iff)
  have "z = item" if "z \<in> set (st_pending s)" "?p z" for z
    using arg_cong [OF f, of set] that by auto
  then show "map it_event (st_pending s') = map it_event (st_pending s)" by (auto simp: s')
  have "filter ?p (map (\<lambda>z. if ?p z then ?new else z) xs) = map (\<lambda>_. ?new) (filter ?p xs)" for xs
    using p by (induction xs) auto
  then show "items_for version s' = [?new]" by (simp add: items_for_def s' f)
qed

lemma queue_ok_events:
  assumes "queue_ok s" and "map it_event (st_pending s') = map it_event (st_pending s)"
    and "st_highest_accepted s' = st_highest_accepted s" and "st_identities s' = st_identities s"
  shows "queue_ok s'"
proof -
  have versions: "map item_version (st_pending s') = map item_version (st_pending s)"
    using arg_cong [OF assms(2), of "map (\<lambda>e. digits_value (ev_model_version e))"]
    by (simp add: comp_def item_version_def [abs_def])
  have events: "it_event ` set (st_pending s') = it_event ` set (st_pending s)"
    using assms(2) by (metis set_map)
  then have "\<forall>it \<in> set (st_pending s'). \<exists>it' \<in> set (st_pending s). it_event it = it_event it'" by (metis imageE imageI)
  moreover have "length (st_pending s') = length (st_pending s)" using assms(2) by (metis length_map)
  ultimately show ?thesis
    using assms(1,3,4) versions unfolding queue_ok_def item_version_def by metis
qed

lemma authorize_frame:
  assumes "authorize L expected now s = Inr (auth, s')"
  shows "core s' = core s \<and> st_lease s' = st_lease s \<and> (queue_ok s \<longrightarrow> queue_ok s')"
  using assms
proof (cases rule: authorize_cases)
  case (1 version actual item rest)
  have single: "items_for version s = [item]" using snapshot_single [OF 1(2)] 1(4) by auto
  have "core t = core s \<and> st_lease t = st_lease s \<and> (queue_ok s \<longrightarrow> queue_ok t)"
    if "store_authorization L version expected now previous item s = Inr (auth, t)" for previous t
    using store_authorization_frame [OF that single] queue_ok_events by blast
  with 1(5) show ?thesis by blast
qed

end
