(* ===== verification/Scenario.thy ===== *)
theory Scenario
  imports AuthorizationSafety
begin

text \<open>
  Concrete worlds on which the components are run: a release system with version 7 stable and
  version 8 resolved, its approval evidence, its authorization, and a controller on the simulated
  server.
\<close>

definition sample_policy :: policy where
  "sample_policy = \<lparr>po_minimum = 1, po_dwell = 35, po_timeout = 300, po_error_limit = 1 / 20, po_p95_limit = 1 / 10\<rparr>"

definition sample_controller :: "(release_state \<Rightarrow> release_state \<Rightarrow> bool) \<Rightarrow> release_state server controller" where
  "sample_controller discipline = sim_controller discipline sample_lib ''me'' sample_policy True JNull Map.empty"

definition sample_server :: "release_state server" where
  "sample_server =
     \<lparr>sv_version = 1, sv_state = sample_state,
      sv_script = [Rival (sample_state\<lparr>st_highest_accepted := 8\<rparr>), Lost URLError, Outage TimeoutError], sv_now = 100\<rparr>"

lemma sample_simps [simp]:
  "cm_state (server_object sample_server) = sample_state"
  "co_lib (sample_controller discipline) = sample_lib" "co_owner (sample_controller discipline) = ''me''"
  by (simp_all add: server_object_def sample_server_def sample_controller_def sim_controller_def)

definition sample_event :: event where
  "sample_event =
     \<lparr>ev_schema_version = 1, ev_event = ''model_promoted'', ev_model_name = MODEL, ev_alias = ''champion'',
      ev_workspace = ''mlops'', ev_model_version = ''8'', ev_artifact_uri = sp_storage_uri (sample_pair ''8''),
      ev_run_id = ''r-1'', ev_previous_version = Some ''7'', ev_promoted_at = ''2026-01-01T00:00:00Z''\<rparr>"

definition sample_digest :: "char \<Rightarrow> string" where
  "sample_digest c = ''sha256:'' @ replicate 64 c"

definition sample_request :: json where
  "sample_request = JObj
     [(''schema_version'', JInt 1), (''fingerprint'', JStr (sample_digest (CHR ''c''))),
      (''python_version'', JStr ''3.12.14''), (''requirements'', JArr [JStr ''mlflow==2.0.1'']),
      (''runtime_profile'', canonical RUNTIME_CI_V2)]"

definition resolved_item :: pending_item where
  "resolved_item = (new_item sample_event)
     \<lparr>it_status := READY_FOR_RELEASE, it_fingerprint := Some (sample_digest (CHR ''c'')),
      it_build_request := Some sample_request, it_pair := Some (sample_pair ''8'')\<rparr>"

definition resolved_state :: release_state where
  "resolved_state = sample_state\<lparr>st_highest_accepted := 8, st_pending := [resolved_item]\<rparr>"

definition sample_source :: json where
  "sample_source = JObj
     [(''repository'', JStr RELEASE_REPOSITORY), (''workflow'', JStr WORKFLOW), (''run_id'', JStr ''11''),
      (''run_attempt'', JStr ''1''), (''sha'', JStr (replicate 40 (CHR ''a''))), (''ref'', JStr ''refs/tags/v1.2.3'')]"

definition sample_evidence :: json where
  "sample_evidence = JObj
     [(''schema_version'', JInt 1),
      (''candidate'', JObj
         [(''pair'', pair_json (sample_pair ''8'')), (''fingerprint'', JStr (sample_digest (CHR ''c''))),
          (''event'', JObj [(''model_name'', JStr MODEL), (''model_version'', JStr ''8''),
             (''artifact_uri'', JStr (sp_storage_uri (sample_pair ''8''))), (''run_id'', JStr ''r-1'')])]),
      (''stable'', pair_json (sample_pair ''7'')), (''stable_fingerprint'', JStr (sample_digest (CHR ''b''))),
      (''highest_accepted'', JInt 8), (''supersedes'', JNull), (''ticket_reference'', JStr ''T-1''),
      (''source'', sample_source), (''security_hash'', JStr (sample_digest (CHR ''d''))), (''created_at'', JInt 90)]"

text \<open>The evidence is what \<open>evidence\<close> builds.\<close>

lemma sample_evidence_built:
  "evidence sample_lib resolved_state ''8'' (JStr ''T-1'') sample_source (JStr (sample_digest (CHR ''d''))) (JInt 90)
     = Inr sample_evidence"
  by code_simp

definition sample_authorization :: json where
  "sample_authorization = JObj
     [(''evidence'', sample_evidence), (''evidence_hash'', JStr (sample_digest (CHR ''c''))),
      (''authorized_at'', jrat 100), (''expires_at'', jrat 1000)]"

definition authorized_state :: release_state where
  "authorized_state = resolved_state
     \<lparr>st_pending := [resolved_item\<lparr>it_status := APPROVED_FOR_RELEASE, it_authorization := Some sample_authorization\<rparr>],
      st_audit := [\<lparr>au_time = 100, au_reason = ''release_authorized'',
        au_fields = [(''previous_authorization_id'', JNull), (''model_version'', JStr ''8''),
          (''authorization_id'', JStr (sample_digest (CHR ''c''))), (''source'', sample_source),
          (''ticket_reference'', JStr ''T-1'')]\<rparr>]\<rparr>"

lemma sample_authorize:
  "authorize sample_lib sample_evidence 100 resolved_state = Inr (sample_authorization, authorized_state)"
  by code_simp

text \<open>The same approval sent again within its lifetime.\<close>

lemma sample_reauthorize:
  "authorize sample_lib sample_evidence 150 authorized_state = Inr (sample_authorization, authorized_state)"
  by code_simp

text \<open>The claim of the authorized candidate 100 seconds later.\<close>

definition claiming_server :: "release_state server" where
  "claiming_server = sample_server\<lparr>sv_state := authorized_state, sv_script := [], sv_now := 200\<rparr>"

definition sample_claim :: "(unit \<times> release_state) res \<times> release_state server" where
  "sample_claim = claim (sample_controller worker_writes) authorized_state claiming_server"

definition claimed_state :: release_state where
  "claimed_state = (case fst sample_claim of Inr (_, s) \<Rightarrow> s | Inl _ \<Rightarrow> authorized_state)"

lemma sample_claim_starts: "st_active claimed_state \<noteq> None"
  by code_simp


lemma sample_contracts:
  "release_controller (sample_controller (defers_to ''me'')) (stored server_object)
     (server_drift (defers_to ''me'')) (defers_to ''me'')"
  "release_controller (sample_controller worker_writes) (stored server_object) (server_drift worker_writes) worker_writes"
  unfolding sample_controller_def by (rule sim.release_controller_axioms work.release_controller_axioms)+

lemma sample_invariants: "core_ok sample_state" "queue_ok sample_state"
  by (simp_all add: core_ok_def queue_ok_def sample_state_def)

lemma sample_run: "tick (sample_controller discipline) sample_server
    = (fst (tick (sample_controller discipline) sample_server), snd (tick (sample_controller discipline) sample_server))"
  by simp

lemma worker_writesD:
  "worker_writes s s' \<Longrightarrow> core s' = core s" "worker_writes s s' \<Longrightarrow> queue_ok s \<Longrightarrow> queue_ok s'"
  by (simp_all add: worker_writes_def)

lemma resolved_queue: "queue_ok resolved_state"
  by (simp add: queue_ok_def resolved_state_def sample_state_def item_version_def resolved_item_def new_item_def
      sample_event_def version_string_def rx_first_def digits_value_def digit_value_def nonzero_digit_def code_def)

lemma authorized_facts: "queue_ok authorized_state" "st_active authorized_state = None"
  using authorize_frame [OF sample_authorize] resolved_queue
  by (simp_all add: core_eq_iff resolved_state_def sample_state_def)

lemma sample_claim_runs:
  "claim (sample_controller worker_writes) authorized_state claiming_server = (Inr ((), claimed_state), snd sample_claim)"
  "claimed_state \<noteq> authorized_state"
proof -
  show new: "claimed_state \<noteq> authorized_state" using sample_claim_starts authorized_facts(2) by metis
  then obtain t where "fst sample_claim = Inr ((), t)"
    by (cases "fst sample_claim") (auto simp: claimed_state_def)
  then show "claim (sample_controller worker_writes) authorized_state claiming_server
      = (Inr ((), claimed_state), snd sample_claim)"
    by (simp add: claimed_state_def sample_claim_def [symmetric] prod_eq_iff)
qed

end
