(* ===== verification/ReleaseProperties.thy ===== *)
theory ReleaseProperties
  imports Scenario
begin

text \<open>
  The properties of the V2 release controller and of the store under it. They are stated for any
  environment that meets the contract \<open>release_controller\<close> (or \<open>configmap_server\<close> for the store),
  whatever its failures and whatever the other writers do in between; the simulated server of
  \<open>ReleaseSafety\<close> is the environment of the witnesses.
\<close>

section \<open>From traces to worlds\<close>

lemma tick_traced_run:
  "release_controller C cell drift others \<Longrightarrow> tick C w = (r, w') \<Longrightarrow>
    traced (co_lib C) others (co_owner C) (snd (cell w)) (snd (cell w'))"
  using release_controller.tick_traced [of C cell drift others "snd (cell w)" w]
  by (simp add: wpp_def split: sum.splits)

lemma tick_invariant:
  assumes "release_controller C cell drift others" and "tick C w = (r, w')" and "I (snd (cell w))"
    and "\<And>s s'. others s s' \<Longrightarrow> I s \<Longrightarrow> I s'" and "\<And>s l. I s \<Longrightarrow> I (s\<lparr>st_lease := l\<rparr>)"
    and "\<And>s s'. release_step (co_lib C) s s' \<Longrightarrow> I s \<Longrightarrow> I s'"
  shows "I (snd (cell w'))"
  using traced_invariant [OF tick_traced_run [OF assms(1,2)], of I] assms(3-6) by blast





section \<open>Authorization behind every serving pair\<close>





section \<open>Properties of a tick\<close>

text \<open>
  C2 (the controller refines the release machine). Whatever a tick of the controller does to the
  stored state, whether it returns or raises, is a sequence of steps of the abstract release machine
  taken while the controller holds the lease, of lease changes, and of writes of other clients that
  defer to the lease holder. Lost responses, conflicts and failures of the effects are included.
\<close>
theorem tick_refines_release_machine:
  assumes "release_controller C cell drift others" and "tick C w = (r, w')"
  shows "traced (co_lib C) others (co_owner C) (snd (cell w)) (snd (cell w'))"
  using assms by (rule tick_traced_run)

text \<open>
  C4 (release invariant). A tick preserves the invariant that ties the phase of a release to the
  canary weight and the stable pair: no traffic is routed to a canary unless a release is ramping or
  finalizing, weights are 10, 25, 50 or 100 while it ramps, the stable pair is the previous one until
  the commit, the candidate is newer than the pair it replaces, and an idle system has weight 0.
\<close>
theorem tick_preserves_core_ok:
  assumes "release_controller C cell drift others" and "tick C w = (r, w')" and "core_ok (snd (cell w))"
    and "\<And>s s'. others s s' \<Longrightarrow> core_ok s \<Longrightarrow> core_ok s'"
  shows "core_ok (snd (cell w'))"
  by (rule tick_invariant [where I = core_ok, OF assms(1-3)]) (auto intro: assms(4) release_step_core_ok)

text \<open>
  Queue invariant: a tick preserves the invariant of the queue: strictly increasing versions,
  none above the highest accepted one, distinct known identities, at most \<open>MAX_PENDING\<close> items.
\<close>
theorem tick_preserves_queue_ok:
  assumes "release_controller C cell drift others" and "tick C w = (r, w')" and "queue_ok (snd (cell w))"
    and "\<And>s s'. others s s' \<Longrightarrow> queue_ok s \<Longrightarrow> queue_ok s'"
  shows "queue_ok (snd (cell w'))"
  by (rule tick_invariant [where I = queue_ok, OF assms(1-3)]) (auto intro: assms(4) release_step_queue_ok)



text \<open>
  C5 (claims). A claim that changes the state found it idle with a stable pair, takes a queued item
  whose authorization was stored at most \<open>TTL\<close> seconds before the reading of the clock, whose
  version is the highest ever accepted and newer than the stable one, and starts the release of its
  pair in \<open>PREPARING\<close> at weight 0 with the stable pair kept for rollback; the queue is then empty,
  since everything else is older.
\<close>
theorem claim_takes_authorized_highest:
  assumes "claim C s u = (Inr ((), s'), u')" and "s' \<noteq> s" and "queue_ok s"
  shows "\<exists>it a now. it \<in> set (st_pending s) \<and> it_status it = APPROVED_FOR_RELEASE
    \<and> claimable (co_lib C) s it now = Inr True
    \<and> (\<exists>auth t. it_authorization it = Some auth \<and> num_of (the (map_of (case auth of JObj kvs \<Rightarrow> kvs | _ \<Rightarrow> []) ''authorized_at''))
          = Some (Fin t) \<and> t \<le> now \<and> now < t + TTL)
    \<and> st_active s = None \<and> rt_weight (st_route s) = 0
    \<and> st_active s' = Some a \<and> ac_phase a = PREPARING \<and> it_pair it = Some (ac_pair a)
    \<and> st_stable s = Some (ac_previous_stable a)
    \<and> py_int (sp_model_version (ac_pair a)) = Inr (st_highest_accepted s)
    \<and> newer (sp_model_version (ac_pair a)) (sp_model_version (ac_previous_stable a)) = Inr True
    \<and> rt_weight (st_route s') = 0 \<and> st_pending s' = []"
  using assms(1)
proof (cases rule: claim_cases)
  case (2 base it now eligible v v')
  from 2(6) obtain a :: active_release where a: "it_pair it = Some (ac_pair a)" "ac_phase a = PREPARING"
    "ac_previous_stable a = base" and core: "core s' = (core s)\<lparr>cr_active := Some a, cr_route := routed 0 (st_route s)\<rparr>"
    by (rule start_releaseD) blast
  note auth = claimable_window [OF 2(3)] and checked = claimable_checked(1) [OF 2(3)]
  have "\<exists>snap. snapshot (co_lib C) s (JStr (sp_model_version (ac_pair a))) = Inr snap"
    by (rule claimableD [OF 2(3)]) (use a in simp)
  then have snap: "st_active s = None" "rt_weight (st_route s) = 0"
    "py_int (sp_model_version (ac_pair a)) = Inr (st_highest_accepted s)"
    using snapshotD(1-3) by blast+
  have "st_active s' = Some a" "rt_weight (st_route s') = 0"
    using core by (simp_all add: core_eq_iff core_def)
  then show ?thesis
    using 2(1-3) 2(4) [OF a(1)] a snap auth checked claim_empties_queue [OF assms]
    by (intro exI [of _ it] exI [of _ a] exI [of _ now]) auto
qed (use assms(2) in simp)


section \<open>The lease\<close>



section \<open>The store\<close>

text \<open>
  C7 (no lost update). Against any server that keeps the documented contract of resource versions, an
  update of the V2 store that returns is one atomic application of its mutator: the mutator ran on
  exactly the state its result replaced, both states passed validation, and no write of another
  client was overwritten, however many conflicts were retried.
\<close>
theorem update_atomic:
  assumes "configmap_server api obj drift" and "\<And>s. keeps drift (f s)"
    and "update L (kube_backend (validate L) name ns api) f w = (Inr a, w')"
  shows "\<exists>u u' v s s'. drift w u \<and> f s u = (Inr (a, s'), u') \<and> drift u' v
    \<and> cm_state (obj v) = s \<and> cm_state (obj w') = s' \<and> validate L s = Inr () \<and> validate L s' = Inr ()"
proof -
  note cas = configmap_server.kube_contract [OF assms(1)]
  from cas_backend.update_commits [OF cas assms(2) assms(3) [unfolded update_def]] show ?thesis
    unfolding cas_backend.commits_def [OF cas] by auto
qed

text \<open>
  The authorization writer: the release job writes through a backend that keeps the ConfigMap of
  its last read. It is atomic in the same sense, and a reader without write access never changes
  anything.
\<close>
theorem authorization_update_atomic:
  assumes "configmap_server api obj drift" and "\<And>s. keeps (\<lambda>x y. drift (fst x) (fst y)) (f s)"
    and "update L (authorization_backend (validate L) name writable api) f w = (Inr a, w')"
  shows "writable \<and> (\<exists>u u' v s s'. drift (fst w) (fst u) \<and> f s u = (Inr (a, s'), u') \<and> drift (fst u') (fst v)
    \<and> cm_state (obj (fst v)) = s \<and> cm_state (obj (fst w')) = s' \<and> validate L s = Inr () \<and> validate L s' = Inr ())"
proof -
  note cas = configmap_server.session_contract [OF assms(1)]
  have "\<exists>u u' v s s'. drift (fst w) (fst u) \<and> f s u = (Inr (a, s'), u') \<and> drift (fst u') (fst v)
    \<and> cm_state (obj (fst v)) = s \<and> cm_state (obj (fst w')) = s' \<and> validate L s = Inr () \<and> validate L s' = Inr ()"
    using cas_backend.update_commits [OF cas assms(2) assms(3) [unfolded update_def]]
    unfolding cas_backend.commits_def [OF cas] by auto blast
  moreover have "writable"
  proof (rule ccontr)
    assume "\<not> writable"
    then have "be_write (authorization_backend (validate L) name writable api) r s x
        = (Inl (ValueError ''Read-only release identity''), x)" for r s x
      by (cases x) (simp add: authorization_backend_def authorization_write_state_def run_raiseP)
    then show False using read_only_update [OF _ assms(3) [unfolded update_def]] by auto
  qed
  ultimately show ?thesis by blast
qed

section \<open>Authorization\<close>

text \<open>
  C9 (exact authorization). \<open>authorize\<close> returns an authorization that passes the full check for the
  single queued candidate of its version, marks that candidate as approved with it, and leaves the
  active release, the stable pair, the route and the lease alone and the queue in order.
\<close>
theorem authorize_exact:
  assumes "authorize L expected now s = Inr (auth, s')"
  shows "\<exists>version item'. jdeep [''candidate'', ''pair'', ''model_version''] expected = Inr version
    \<and> items_for version s' = [item'] \<and> it_status item' = APPROVED_FOR_RELEASE \<and> it_authorization item' = Some auth
    \<and> validate_item_authorization L auth item' = Inr ()
    \<and> core s' = core s \<and> st_lease s' = st_lease s \<and> (queue_ok s \<longrightarrow> queue_ok s')"
  using assms
proof (cases rule: authorize_cases)
  case (1 version actual item rest)
  have single: "items_for version s = [item]" using snapshot_single [OF 1(2)] 1(4) by auto
  have frame: "core s' = core s \<and> st_lease s' = st_lease s \<and> (queue_ok s \<longrightarrow> queue_ok s')"
    using assms by (rule authorize_frame)
  have "\<exists>item'. items_for version s' = [item'] \<and> it_status item' = APPROVED_FOR_RELEASE
      \<and> it_authorization item' = Some auth \<and> validate_item_authorization L auth item' = Inr ()"
    if "store_authorization L version expected now previous item s = Inr (auth, s')" for previous
    using store_authorization_frame(6) [OF that single] that
    by (auto elim!: store_authorization_cases simp: validate_item_authorization_def)
  moreover have "it_status item = APPROVED_FOR_RELEASE \<and> validate_item_authorization L auth item = Inr ()"
    if "it_authorization item = Some auth" "claimable L s item now = Inr True"
    using claimableD [OF that(2)] that(1) by (metis id_apply opt_json_def option.case(2))
  ultimately show ?thesis using 1(1,5) single frame by auto
qed

text \<open>
  No silent renewal: when the candidate already carries an authorization, \<open>authorize\<close> either
  returns it unchanged with an unchanged state, for the same evidence within its lifetime, or the
  stored one has expired, the new evidence names it as superseded, comes from another run and was
  collected after the expiry.
\<close>
theorem reauthorization_needs_expiry:
  assumes "authorize L expected now s = Inr (auth, s')" and "it \<in> set (st_pending s)"
    and "jdeep [''candidate'', ''pair'', ''model_version''] expected = Inr (JStr (ev_model_version (it_event it)))"
    and "it_authorization it = Some previous" and "truthy previous"
  shows "(auth = previous \<and> s' = s \<and> claimable L s it now = Inr True
        \<and> (\<exists>pe. jget ''evidence'' auth = Inr pe \<and> py_eq pe expected))
    \<or> (\<exists>xj sup ph run prun pe cj. jget ''expires_at'' previous = Inr xj \<and> jle xj (jrat now) = Inr True
        \<and> jget_or ''supersedes'' JNull expected = Inr sup \<and> jget ''evidence_hash'' previous = Inr ph \<and> py_eq sup ph
        \<and> jget ''evidence'' previous = Inr pe \<and> jdeep [''source'', ''run_id''] expected = Inr run
        \<and> jdeep [''source'', ''run_id''] pe = Inr prun \<and> \<not> py_eq run prun
        \<and> jget ''created_at'' expected = Inr cj \<and> jle xj cj = Inr True)"
  using assms(1)
proof (cases rule: authorize_cases)
  case (1 version actual item rest)
  have v: "version = JStr (ev_model_version (it_event it))" using 1(1) assms(3) by simp
  then have "it \<in> set (items_for version s)" using assms(2) by (simp add: items_for_def)
  then have item: "item = it" using snapshot_single [OF 1(2)] 1(4) by auto
  with 1(5) assms(4,5) consider "auth = previous \<and> s' = s \<and> claimable L s it now = Inr True
        \<and> (\<exists>pe. jget ''evidence'' auth = Inr pe \<and> py_eq pe expected)"
    | "check_renewal expected now previous actual = Inr ()"
    by (auto simp: opt_json_def)
  then show ?thesis
  proof cases
    case 2
    then obtain pe xj expired sup ph run prun cj fresh where
      "jget ''evidence'' previous = Inr pe" "jget ''expires_at'' previous = Inr xj" "jle xj (jrat now) = Inr expired"
      "expired" "jget_or ''supersedes'' JNull expected = Inr sup" "jget ''evidence_hash'' previous = Inr ph"
      "py_eq sup ph" "jdeep [''source'', ''run_id''] expected = Inr run" "jdeep [''source'', ''run_id''] pe = Inr prun"
      "\<not> py_eq run prun" "jget ''created_at'' expected = Inr cj" "jle xj cj = Inr fresh" "fresh"
      unfolding check_renewal_def bindR_Inr_iff requireR_iff by (elim exE conjE) (rule that)
    then show ?thesis by (intro disjI2) (metis (full_types))
  qed blast
qed

section \<open>Witnesses\<close>

lemma tick_refines_release_machine_witness:
  "traced sample_lib (defers_to ''me'') ''me'' sample_state
     (snd (stored server_object (snd (tick (sample_controller (defers_to ''me'')) sample_server))))"
  using tick_refines_release_machine [OF sample_contracts(1) sample_run] by simp

lemma tick_preserves_core_ok_witness:
  "core_ok (snd (stored server_object (snd (tick (sample_controller worker_writes) sample_server))))"
  by (rule tick_preserves_core_ok [OF sample_contracts(2) sample_run])
    (simp_all add: sample_invariants worker_writes_core_ok)

lemma tick_preserves_queue_ok_witness:
  "queue_ok (snd (stored server_object (snd (tick (sample_controller worker_writes) sample_server))))"
  by (rule tick_preserves_queue_ok [OF sample_contracts(2) sample_run])
    (simp_all add: sample_invariants worker_writesD)



lemma claim_takes_authorized_highest_witness:
  "\<exists>a. st_active claimed_state = Some a \<and> py_int (sp_model_version (ac_pair a)) = Inr (st_highest_accepted authorized_state)
     \<and> st_pending claimed_state = []"
  using claim_takes_authorized_highest [OF sample_claim_runs authorized_facts(1)] by blast


definition rival_server :: "release_state server" where
  "rival_server = sample_server\<lparr>sv_script := [Rival (sample_state\<lparr>st_highest_accepted := 8\<rparr>)]\<rparr>"



lemma rival_update:
  "fst (update sample_lib (kube_backend (validate sample_lib) STATE_NAME ''production'' (server_api worker_writes))
     (\<lambda>s. retP (st_highest_accepted s, s)) rival_server) = Inr 8"
  by code_simp

lemma update_atomic_witness:
  "\<exists>v. st_highest_accepted v = 8 \<and> validate sample_lib v = Inr ()"
proof -
  let ?be = "kube_backend (validate sample_lib) STATE_NAME ''production'' (server_api worker_writes)"
  let ?m = "update sample_lib ?be (\<lambda>s. retP (st_highest_accepted s, s))"
  have run: "?m rival_server = (Inr 8, snd (?m rival_server))" using rival_update by (simp add: prod_eq_iff)
  have "keeps (server_drift worker_writes) (retP (st_highest_accepted s, s))" for s
    by (rule keeps_pure(1)) (simp add: server_drift_reflp worker_writes_preorder)
  from update_atomic [OF working.configmap_server_axioms this run] show ?thesis by (auto simp: run_retP)
qed

lemma idle_authorization_update:
  "fst (update sample_lib (authorization_backend (validate sample_lib) STATE_NAME True (server_api worker_writes))
     (\<lambda>s. retP (st_highest_accepted s, s)) (sample_server\<lparr>sv_script := []\<rparr>, None)) = Inr 7"
  by code_simp

lemma authorization_update_atomic_witness:
  "\<exists>v. st_highest_accepted v = 7 \<and> validate sample_lib v = Inr ()"
proof -
  let ?be = "authorization_backend (validate sample_lib) STATE_NAME True (server_api worker_writes)"
  let ?m = "update sample_lib ?be (\<lambda>s. retP (st_highest_accepted s, s))"
  let ?w = "(sample_server\<lparr>sv_script := []\<rparr>, None)"
  have run: "?m ?w = (Inr 7, snd (?m ?w))" using idle_authorization_update by (simp add: prod_eq_iff)
  have "keeps (\<lambda>x y. server_drift worker_writes (fst x) (fst y)) (retP (st_highest_accepted s, s))" for s
    using server_drift_reflp [OF worker_writes_preorder(1)] by (simp add: keeps_def retP_def reflp_def)
  from authorization_update_atomic [OF working.configmap_server_axioms this run] show ?thesis
    by (auto simp: run_retP)
qed

lemma authorize_exact_witness:
  "validate_item_authorization sample_lib sample_authorization (hd (st_pending authorized_state)) = Inr ()"
  using authorize_exact [OF sample_authorize]
  by (auto simp: items_for_def authorized_state_def split: if_splits)

lemma reauthorization_needs_expiry_witness:
  "claimable sample_lib authorized_state (hd (st_pending authorized_state)) 150 = Inr True
     \<or> (\<exists>xj. jget ''expires_at'' sample_authorization = Inr xj \<and> jle xj (jrat 150) = Inr True)"
proof -
  let ?it = "hd (st_pending authorized_state)"
  have "?it \<in> set (st_pending authorized_state)" "it_authorization ?it = Some sample_authorization" "truthy sample_authorization"
    "jdeep [''candidate'', ''pair'', ''model_version''] sample_evidence = Inr (JStr (ev_model_version (it_event ?it)))"
    by (simp_all add: authorized_state_def sample_authorization_def sample_evidence_def resolved_item_def new_item_def
        sample_event_def pair_json_def sample_pair_def)
  from reauthorization_needs_expiry [OF sample_reauthorize this(1,4,2,3)] show ?thesis by auto
qed

end
