(* ===== verification/Processor.thy ===== *)
theory Processor
  imports ReleaseStore
begin

text \<open>
  The workers that fill the queue: \<open>control_plane/processor_v2.py\<close> (artifact metadata resolution),
  \<open>control_plane/consumer_v2.py\<close> (SQS messages), \<open>control_plane/reconciliation_v2.py\<close> (the
  champion pointer) and \<open>control_plane/operator_v2.py\<close> (audited recovery). S3, SQS and the image
  catalog are records of programs; the UTF-8 decoder and the YAML parser are parameters.
\<close>

section \<open>Artifact metadata\<close>

record 'w metadata_source =
  ms_get_object :: "string \<Rightarrow> string \<Rightarrow> ('w, string) prog"
  ms_decode :: "string \<Rightarrow> string res"
  ms_yaml :: "string \<Rightarrow> json res"

definition read_file :: "'w metadata_source \<Rightarrow> url \<Rightarrow> string \<Rightarrow> ('w, string) prog" where
  "read_file S u filename =
     bindP (ms_get_object S (u_netloc u) (lstrip_by (\<lambda>c. c = CHR ''/'') (u_path u) @ ''/'' @ filename)) (\<lambda>body.
       let bytes = take 65537 body
       in if length bytes > 65536 then raiseP (ValueError ''Artifact metadata exceeds bound'')
          else liftP (ms_decode S bytes))"

definition inspect :: "'w metadata_source \<Rightarrow> string \<Rightarrow> ('w, artifact_contract) prog" where
  "inspect S uri =
     bindP (liftP (bindR (storage_uri (JStr uri)) urlsplit)) (\<lambda>u.
     bindP (read_file S u ''python_env.yaml'') (\<lambda>python_env.
     bindP (read_file S u ''requirements.txt'') (\<lambda>requirements.
     bindP (read_file S u ''MLmodel'') (\<lambda>mlmodel.
     liftP (bindR (parse_python_version python_env) (\<lambda>v.
            bindR (normalize_requirements requirements) (\<lambda>rs.
            let contract = \<lparr>ac_python_version = v, ac_requirements = rs\<rparr>
            in bindR (ms_yaml S mlmodel) (\<lambda>model.
               bindR (validate_mlmodel model contract) (\<lambda>_. Inr contract)))))))))"

section \<open>The processor\<close>

record 'w processor =
  pr_lib :: pylib
  pr_backend :: "'w release_backend"
  pr_source :: "string \<Rightarrow> ('w, artifact_contract) prog"
  pr_lookup :: "string \<Rightarrow> ('w, string option) prog"
  pr_clock :: "('w, rat) prog"
  pr_max_attempts :: int

text \<open>The two shapes of \<open>result\<close>, and \<open>current.update(result)\<close>.\<close>

datatype resolution_result =
    Resolved status string json rat "serving_pair option"
  | Failed status int rat string

fun result_status :: "resolution_result \<Rightarrow> status" where
  "result_status (Resolved st _ _ _ _) = st"
| "result_status (Failed st _ _ _) = st"

fun apply_result :: "resolution_result \<Rightarrow> pending_item \<Rightarrow> pending_item" where
  "apply_result (Resolved st fingerprint request next_time p) it =
     it\<lparr>it_status := st, it_fingerprint := Some fingerprint, it_build_request := Some request,
        it_next_attempt := next_time, it_attempts := 0,
        it_pair := (case p of Some x \<Rightarrow> Some x | None \<Rightarrow> it_pair it)\<rparr>"
| "apply_result (Failed st attempts next_time name) it =
     it\<lparr>it_status := st, it_attempts := attempts, it_next_attempt := next_time, it_error_type := Some name\<rparr>"

definition unresolved :: "pending_item \<Rightarrow> bool" where
  "unresolved it \<longleftrightarrow> it_status it \<in> {ACCEPTED, RESOLUTION_RETRY, BUILD_REQUIRED}"

definition due :: "'w processor \<Rightarrow> pending_item \<Rightarrow> ('w, bool) prog" where
  "due P it =
     (if unresolved it then bindP (pr_clock P) (\<lambda>now. retP (it_next_attempt it \<le> now)) else retP False)"

text \<open>
  The \<open>try\<close> block: the historical profile first, the current one when the catalog has no image
  for it. An image that is an empty string counts as none when the status is chosen.
\<close>

definition resolve_item :: "'w processor \<Rightarrow> event \<Rightarrow> ('w, resolution_result) prog" where
  "resolve_item P e =
     bindP (pr_source P (ev_artifact_uri e)) (\<lambda>contract.
     let fp1 = runtime_fingerprint (pr_lib P) contract RUNTIME_X_V1;
         fp2 = runtime_fingerprint (pr_lib P) contract RUNTIME_CI_V2
     in bindP (pr_lookup P fp1) (\<lambda>first.
        bindP (case first of Some i \<Rightarrow> retP (RUNTIME_X_V1, fp1, Some i)
               | None \<Rightarrow> bindP (pr_lookup P fp2) (\<lambda>second. retP (RUNTIME_CI_V2, fp2, second)))
          (\<lambda>(profile, fingerprint, found).
        let present = (case found of Some i \<Rightarrow> i \<noteq> [] | None \<Rightarrow> False);
            request = build_request (pr_lib P) contract profile
        in bindP (pr_clock P) (\<lambda>now.
           if present
           then let p = \<lparr>sp_model_version = ev_model_version e, sp_runtime_digest = (case found of Some i \<Rightarrow> i | None \<Rightarrow> []),
                         sp_storage_uri = ev_artifact_uri e\<rparr>
                in bindP (liftP (check_pair p)) (\<lambda>_.
                   retP (Resolved READY_FOR_RELEASE fingerprint request (now + 900) (Some p)))
           else retP (Resolved BUILD_REQUIRED fingerprint request (now + 900) None)))))"

definition backoff :: "int \<Rightarrow> int" where
  "backoff attempts = min 900 (15 * 2 ^ nat attempts)"

definition failed_result :: "'w processor \<Rightarrow> pending_item \<Rightarrow> exn \<Rightarrow> ('w, resolution_result) prog" where
  "failed_result P it e =
     (let attempts = it_attempts it + 1
      in bindP (pr_clock P) (\<lambda>now.
         retP (Failed (if attempts \<ge> pr_max_attempts P then RESOLUTION_BLOCKED else RESOLUTION_RETRY)
                attempts (now + of_int (backoff attempts)) (exn_name e))))"

text \<open>
  The commit: only the exact item that was inspected makes the transition. Items are compared as
  the decoded documents they are.
\<close>

definition commit_result :: "'w processor \<Rightarrow> pending_item \<Rightarrow> resolution_result \<Rightarrow> ('w, string) mutator" where
  "commit_result P it r s =
     (if first_such (\<lambda>x. it_event x = it_event it) (st_pending s) \<noteq> Some it then retP (''superseded'', s)
      else bindP (pr_clock P) (\<lambda>now.
        retP (status_name (result_status r),
          audit (status_name (result_status r)) now [(''model_version'', JStr (ev_model_version (it_event it)))]
            (s\<lparr>st_pending := update_first (\<lambda>x. it_event x = it_event it) (apply_result r) (st_pending s)\<rparr>))))"

definition processor_tick :: "'w processor \<Rightarrow> ('w, string option) prog" where
  "processor_tick P =
     bindP (read (pr_lib P) (pr_backend P)) (\<lambda>s.
     bindP (filterP (due P) (st_pending s)) (\<lambda>eligible.
       case eligible of
         [] \<Rightarrow> retP None
       | it # _ \<Rightarrow>
           bindP (catchP (resolve_item P (it_event it)) (failed_result P it)) (\<lambda>r.
           bindP (update (pr_lib P) (pr_backend P) (commit_result P it r)) (\<lambda>out. retP (Some out)))))"

section \<open>Operator recovery\<close>

definition operator_text :: "string \<Rightarrow> json \<Rightarrow> unit res" where
  "operator_text name value =
     requireR (is_str value \<and> strip (str_of value) \<noteq> [] \<and> length (str_of value) \<le> 256
         \<and> list_all (\<lambda>c. 32 \<le> code c) (str_of value))
       (ValueError (''invalid_'' @ name))"

definition recover_item :: "rat \<Rightarrow> pending_item \<Rightarrow> pending_item" where
  "recover_item now it =
     it\<lparr>it_error_type := None, it_status := RESOLUTION_RETRY, it_attempts := 0, it_next_attempt := now\<rparr>"

definition recover_mutator ::
  "('w, rat) prog \<Rightarrow> string \<Rightarrow> string \<Rightarrow> string \<Rightarrow> ('w, json) mutator" where
  "recover_mutator clock version operator note s =
     (case filter (\<lambda>x. ev_model_version (it_event x) = version) (st_pending s) of
        [it] \<Rightarrow>
          if it_status it \<noteq> RESOLUTION_BLOCKED then raiseP (ValueError ''resolution_not_blocked'')
          else bindP clock (\<lambda>now. retP
            (JObj [(''model_version'', JStr version), (''status'', JStr ''RESOLUTION_RETRY'')],
             audit ''operator_resolution_retry'' now
               [(''model_version'', JStr version), (''operator'', JStr operator), (''note'', JStr note),
                (''previous_status'', JStr ''RESOLUTION_BLOCKED''), (''previous_attempts'', JInt (it_attempts it)),
                (''previous_error_type'', opt_json JStr (it_error_type it))]
               (s\<lparr>st_pending := update_first (\<lambda>x. ev_model_version (it_event x) = version)
                                   (recover_item now) (st_pending s)\<rparr>)))
      | _ \<Rightarrow> raiseP (ValueError ''resolution_version_not_unique''))"

definition recover_resolution ::
  "pylib \<Rightarrow> 'w release_backend \<Rightarrow> ('w, rat) prog \<Rightarrow> json \<Rightarrow> json \<Rightarrow> json \<Rightarrow> ('w, json) prog" where
  "recover_resolution L be clock version operator note =
     bindP (liftP (bindR (numeric_version version) (\<lambda>_.
            bindR (operator_text ''operator'' operator) (\<lambda>_. operator_text ''note'' note)))) (\<lambda>_.
     update L be (recover_mutator clock (str_of version) (str_of operator) (str_of note)))"

section \<open>The consumer\<close>

definition QUEUE :: string where
  "QUEUE = ''https://sqs.ap-southeast-1.amazonaws.com/378457871131/mlflow-model-promoted''"

record message =
  mg_body :: json
  mg_receipt_handle :: string

record 'w sqs =
  sq_receive :: "('w, message list) prog"
  sq_delete :: "string \<Rightarrow> string \<Rightarrow> ('w, unit) prog"

definition handle_message ::
  "pylib \<Rightarrow> (string \<Rightarrow> json option) \<Rightarrow> 'w sqs \<Rightarrow> 'w release_backend \<Rightarrow> ('w, rat) prog \<Rightarrow> message
    \<Rightarrow> ('w, string) prog" where
  "handle_message L loads q be clock m =
     bindP (enqueue L loads be clock (mg_body m) ''sqs'') (\<lambda>outcome.
       if outcome = ''identity_conflict'' then raiseP (ValueError outcome)
       else thenP (sq_delete q QUEUE (mg_receipt_handle m)) (retP outcome))"

fun handle_all ::
  "(message \<Rightarrow> ('w, string) prog) \<Rightarrow> message list \<Rightarrow> ('w, unit) prog" where
  "handle_all h [] = retP ()"
| "handle_all h (m # ms) = bindP (h m) (\<lambda>_. handle_all h ms)"

definition poll_once ::
  "pylib \<Rightarrow> (string \<Rightarrow> json option) \<Rightarrow> 'w sqs \<Rightarrow> 'w release_backend \<Rightarrow> ('w, rat) prog \<Rightarrow> ('w, unit) prog" where
  "poll_once L loads q be clock =
     bindP (sq_receive q) (handle_all (handle_message L loads q be clock))"

section \<open>Reconciliation\<close>

text \<open>\<open>Reconciler.tick\<close>: its attribute \<open>next_attempt\<close> is passed in and returned.\<close>

record 'w reconciler =
  rc_lib :: pylib
  rc_loads :: "string \<Rightarrow> json option"
  rc_backend :: "'w release_backend"
  rc_source :: "('w, json) prog"
  rc_clock :: "('w, rat) prog"
  rc_interval :: rat

definition reconcile_now :: "'w reconciler \<Rightarrow> ('w, string) prog" where
  "reconcile_now R =
     catchP
       (bindP (rc_source R) (\<lambda>body.
        bindP (liftP (parse_event (rc_lib R) (rc_loads R) body)) (\<lambda>e.
          enqueue (rc_lib R) (rc_loads R) (rc_backend R) (rc_clock R) (event_json e) ''champion'')))
       (\<lambda>_. retP ''blocked'')"

definition reconciler_tick :: "'w reconciler \<Rightarrow> rat \<Rightarrow> ('w, string option \<times> rat) prog" where
  "reconciler_tick R next_attempt =
     bindP (rc_clock R) (\<lambda>now.
       if now < next_attempt then retP (None, next_attempt)
       else bindP (rc_clock R) (\<lambda>again.
         bindP (reconcile_now R) (\<lambda>out. retP (Some out, again + rc_interval R))))"

text \<open>\<open>s3_pointer\<close>: the champion document, at most 64 KiB.\<close>

definition s3_pointer :: "(string \<Rightarrow> json option) \<Rightarrow> ('w, string) prog \<Rightarrow> ('w, json) prog" where
  "s3_pointer loads get_body =
     bindP get_body (\<lambda>body.
       let raw = take 65537 body
       in if length raw > 65536 then raiseP (ValueError ''Champion pointer exceeds size bound'')
          else liftP (case loads raw of Some v \<Rightarrow> Inr v | None \<Rightarrow> Inl (ValueError ''JSONDecodeError'')))"

end
