(* ===== verification/SecurityGate.thy ===== *)
theory SecurityGate
  imports Resolver
begin

text \<open>
  The vulnerability gate: \<open>control_plane/runtime_security.py\<close>. A Trivy report, a build request and
  a waiver document, all untrusted, are turned into a decision. Times are POSIX times read by
  \<open>lib_fromiso\<close>; \<open>isoformat\<close> is a parameter. A decision keeps the exception of a malformed input
  where the code keeps its text.
\<close>

section \<open>Waivers\<close>

definition SEVERITIES :: "string list" where
  "SEVERITIES = [''CRITICAL'', ''HIGH'', ''UNKNOWN'', ''MEDIUM'', ''LOW'']"

definition UPSTREAM :: string where
  "UPSTREAM = ''UPSTREAM_CONTRACT_REMEDIATION_REQUIRED''"

definition RUNTIME :: string where
  "RUNTIME = ''RUNTIME_RECIPE_REMEDIATION_REQUIRED''"

definition BASE :: string where
  "BASE = ''BASE_RECIPE_REMEDIATION_REQUIRED''"

definition REVIEW :: string where
  "REVIEW = ''WAIVER_REVIEW_REQUIRED''"

definition WAIVER_FIELDS :: "string list" where
  "WAIVER_FIELDS = [''vulnerability_id'', ''package_name'', ''installed_version'', ''build_profile'',
                    ''reason'', ''compensating_controls'', ''owner'', ''expires_at'']"

definition MATCH_FIELDS :: "string list" where
  "MATCH_FIELDS = [''vulnerability_id'', ''package_name'', ''installed_version'', ''build_profile'']"

text \<open>\<open>_text\<close>: a string that is not blank and has no surrounding space.\<close>

definition is_text :: "json \<Rightarrow> bool" where
  "is_text v = (case v of JStr s \<Rightarrow> strip s \<noteq> [] \<and> s = strip s | _ \<Rightarrow> False)"

definition time_of :: "pylib \<Rightarrow> json \<Rightarrow> rat res" where
  "time_of L v =
     (if \<not> is_text v then Inl (ValueError ''Invalid timestamp'')
      else case lib_fromiso L (concat (map (\<lambda>c. if c = CHR ''Z'' then ''+00:00'' else [c]) (str_of v))) of
             None \<Rightarrow> Inl (ValueError ''Invalid isoformat string'')
           | Some (t, aware) \<Rightarrow> if aware then Inr t else Inl (ValueError ''Timestamp requires timezone''))"

type_synonym waivers = "(string list \<times> json) list"

definition waiver_entry :: "pylib \<Rightarrow> rat \<Rightarrow> json \<Rightarrow> waivers \<Rightarrow> waivers res" where
  "waiver_entry L now item found =
     (case item of
        JObj kvs \<Rightarrow>
          if \<not> keys_are WAIVER_FIELDS item \<or> \<not> list_all (is_text \<circ> snd) kvs
          then Inl (ValueError ''Malformed waiver entry'')
          else bindR (mapR (\<lambda>k. bindR (jget k item) (\<lambda>v. Inr (str_of v))) MATCH_FIELDS) (\<lambda>key.
               if list_ex (list_ex (\<lambda>c. c \<in> set ''*?[]'')) key then Inl (ValueError ''Wildcard waiver prohibited'')
               else if map_of found key \<noteq> None then Inl (ValueError ''Duplicate/conflicting waiver'')
               else bindR (jget ''expires_at'' item) (\<lambda>x. bindR (time_of L x) (\<lambda>t.
                    if t \<le> now then Inl (ValueError ''Expired waiver'') else Inr ((key, item) # found))))
      | _ \<Rightarrow> Inl (ValueError ''Malformed waiver entry''))"

definition read_waivers :: "pylib \<Rightarrow> json \<Rightarrow> rat \<Rightarrow> waivers res" where
  "read_waivers L data now =
     (if \<not> keys_are [''schema_version'', ''waivers''] data then Inl (ValueError ''Malformed waiver document'')
      else bindR (jget ''schema_version'' data) (\<lambda>sv. bindR (jget ''waivers'' data) (\<lambda>ws.
           if sv \<noteq> JInt 1 \<or> \<not> is_list ws then Inl (ValueError ''Malformed waiver document'')
           else foldR (waiver_entry L now) (list_of ws) [])))"

section \<open>Findings\<close>

datatype disposition = NON_BLOCKING | WAIVED json | BLOCKING

record finding =
  fi_vulnerability_id :: string
  fi_package_name :: string
  fi_installed_version :: string
  fi_fixed_version :: string
  fi_severity :: string
  fi_target :: string
  fi_source :: string
  fi_source_class :: string
  fi_ownership :: string
  fi_build_profile :: string
  fi_remediation :: string
  fi_disposition :: disposition

fun disposition_name :: "disposition \<Rightarrow> string" where
  "disposition_name NON_BLOCKING = ''NON_BLOCKING''"
| "disposition_name (WAIVED _) = ''WAIVED''"
| "disposition_name BLOCKING = ''BLOCK''"

definition finding_json :: "finding \<Rightarrow> json" where
  "finding_json f = JObj
     ([(''vulnerability_id'', JStr (fi_vulnerability_id f)), (''package_name'', JStr (fi_package_name f)),
       (''installed_version'', JStr (fi_installed_version f)), (''fixed_version'', JStr (fi_fixed_version f)),
       (''severity'', JStr (fi_severity f)), (''target'', JStr (fi_target f)), (''source'', JStr (fi_source f)),
       (''source_class'', JStr (fi_source_class f)), (''ownership'', JStr (fi_ownership f)),
       (''build_profile'', JStr (fi_build_profile f)),
       (''disposition'', JStr (disposition_name (fi_disposition f))), (''remediation'', JStr (fi_remediation f))]
      @ (case fi_disposition f of WAIVED w \<Rightarrow> [(''waiver'', w)] | _ \<Rightarrow> []))"

text \<open>\<open>all(_text(j.get(k)) for k in ks)\<close> for a dict.\<close>

definition texts :: "string list \<Rightarrow> json \<Rightarrow> bool" where
  "texts ks j = (is_dict j \<and> list_all (\<lambda>k. case jget_or k JNull j of Inr v \<Rightarrow> is_text v | Inl _ \<Rightarrow> False) ks)"

definition text_at :: "string \<Rightarrow> json \<Rightarrow> string" where
  "text_at k j = (case jget_or k JNull j of Inr v \<Rightarrow> str_of v | Inl _ \<Rightarrow> [])"

record scan_context =
  sc_direct :: "string list"
  sc_allowed :: waivers
  sc_profile :: string

text \<open>One vulnerability of one scan result: its owner, whether it may be waived, its disposition.\<close>

definition base_finding :: "scan_context \<Rightarrow> bool \<Rightarrow> json \<Rightarrow> json \<Rightarrow> string \<Rightarrow> finding" where
  "base_finding ctx os_package result vuln fixed =
     (let owner = (if os_package then BASE
                   else if normalize_name (text_at ''PkgName'' vuln) \<in> set (sc_direct ctx) then UPSTREAM else RUNTIME)
      in \<lparr>fi_vulnerability_id = text_at ''VulnerabilityID'' vuln, fi_package_name = text_at ''PkgName'' vuln,
          fi_installed_version = text_at ''InstalledVersion'' vuln, fi_fixed_version = fixed,
          fi_severity = text_at ''Severity'' vuln, fi_target = text_at ''Target'' result,
          fi_source = text_at ''Type'' result, fi_source_class = text_at ''Class'' result,
          fi_ownership = owner, fi_build_profile = sc_profile ctx, fi_remediation = owner,
          fi_disposition = BLOCKING\<rparr>)"

definition waiver_for :: "scan_context \<Rightarrow> finding \<Rightarrow> json option" where
  "waiver_for ctx f = map_of (sc_allowed ctx)
     [fi_vulnerability_id f, fi_package_name f, fi_installed_version f, fi_build_profile f]"

definition dispose :: "scan_context \<Rightarrow> bool \<Rightarrow> finding \<Rightarrow> finding res" where
  "dispose ctx os_package f =
     (let waiver = waiver_for ctx f;
          waiverable = (os_package \<and> fi_severity f \<in> {''HIGH'', ''UNKNOWN''} \<and> fi_fixed_version f = [])
      in if waiver \<noteq> None \<and> \<not> waiverable then Inl (ValueError ''Waiver matches a prohibited finding'')
         else if fi_severity f \<in> {''MEDIUM'', ''LOW''}
         then Inr (f\<lparr>fi_remediation := ''NON_BLOCKING'', fi_disposition := NON_BLOCKING\<rparr>)
         else case waiver of
                Some w \<Rightarrow> Inr (f\<lparr>fi_remediation := REVIEW, fi_disposition := WAIVED w\<rparr>)
              | None \<Rightarrow> Inr (f\<lparr>fi_remediation := (if waiverable then REVIEW else fi_ownership f),
                               fi_disposition := BLOCKING\<rparr>))"

definition judge :: "scan_context \<Rightarrow> bool \<Rightarrow> json \<Rightarrow> json \<Rightarrow> string \<Rightarrow> finding res" where
  "judge ctx os_package result vuln fixed = dispose ctx os_package (base_finding ctx os_package result vuln fixed)"

definition judge_vulnerability :: "scan_context \<Rightarrow> bool \<Rightarrow> json \<Rightarrow> json \<Rightarrow> finding res" where
  "judge_vulnerability ctx os_package result vuln =
     (if \<not> texts [''VulnerabilityID'', ''PkgName'', ''InstalledVersion'', ''Severity''] vuln
      then Inl (ValueError ''Malformed vulnerability record'')
      else bindR (jget_or ''FixedVersion'' JNull vuln) (\<lambda>fixed.
           if text_at ''Severity'' vuln \<notin> set SEVERITIES \<or> \<not> (fixed = JNull \<or> is_str fixed)
           then Inl (ValueError ''Malformed severity/fixed version'')
           else judge ctx os_package result vuln (strip (str_of fixed))))"

definition os_result :: "json \<Rightarrow> bool" where
  "os_result result \<longleftrightarrow> text_at ''Class'' result = ''os-pkgs'' \<and> text_at ''Type'' result \<noteq> ''python-pkg''"

definition python_result :: "json \<Rightarrow> bool" where
  "python_result result \<longleftrightarrow> text_at ''Class'' result = ''lang-pkgs'' \<and> text_at ''Type'' result = ''python-pkg''"

definition judge_result :: "scan_context \<Rightarrow> json \<Rightarrow> finding list res" where
  "judge_result ctx result =
     (if \<not> texts [''Target'', ''Class'', ''Type''] result then Inl (ValueError ''Malformed scan result'')
      else if \<not> os_result result \<and> \<not> python_result result then Inl (ValueError ''Unsupported scan source'')
      else bindR (jget_or ''Vulnerabilities'' (JArr []) result) (\<lambda>vs.
           let vs' = (if vs = JNull then JArr [] else vs)
           in if \<not> is_list vs' then Inl (ValueError ''Malformed vulnerability list'')
              else mapR (judge_vulnerability ctx (os_result result) result) (list_of vs')))"

section \<open>The decision\<close>

record scan_decision =
  sd_pass :: bool
  sd_errors :: "exn list"
  sd_image_id :: "string option"
  sd_fingerprint :: "json option"
  sd_evaluated_at :: "string option"
  sd_raw_counts :: "(string \<times> nat) list"
  sd_unique_vulnerabilities :: nat
  sd_blocking :: "finding list"
  sd_waived :: "finding list"
  sd_non_blocking :: "finding list"
  sd_remediation :: "(string \<times> finding list) list"

definition blocked_integrity :: "exn \<Rightarrow> scan_decision" where
  "blocked_integrity e =
     \<lparr>sd_pass = False, sd_errors = [e], sd_image_id = None, sd_fingerprint = None, sd_evaluated_at = None,
      sd_raw_counts = [], sd_unique_vulnerabilities = 0, sd_blocking = [], sd_waived = [], sd_non_blocking = [],
      sd_remediation = map (\<lambda>k. (k, [])) [UPSTREAM, RUNTIME, BASE, REVIEW]\<rparr>"

definition is_blocking :: "finding \<Rightarrow> bool" where
  "is_blocking f \<longleftrightarrow> fi_disposition f = BLOCKING"

definition is_waived :: "finding \<Rightarrow> bool" where
  "is_waived f = (case fi_disposition f of WAIVED _ \<Rightarrow> True | _ \<Rightarrow> False)"

definition sort_findings :: "pylib \<Rightarrow> finding list \<Rightarrow> finding list" where
  "sort_findings L fs = sort_key (\<lambda>f. plain_dumps L (sort_keys (finding_json f))) fs"

definition decide :: "pylib \<Rightarrow> (rat \<Rightarrow> string) \<Rightarrow> string \<Rightarrow> json \<Rightarrow> rat \<Rightarrow> finding list \<Rightarrow> scan_decision" where
  "decide L isof img fp now found =
     (let fs = sort_findings L found; blocking = filter is_blocking fs
      in \<lparr>sd_pass = (blocking = []), sd_errors = [], sd_image_id = Some img, sd_fingerprint = Some fp,
          sd_evaluated_at = Some (isof now),
          sd_raw_counts = map (\<lambda>s. (s, length (filter (\<lambda>f. fi_severity f = s) fs))) SEVERITIES,
          sd_unique_vulnerabilities = card (set (map fi_vulnerability_id fs)),
          sd_blocking = blocking, sd_waived = filter is_waived fs,
          sd_non_blocking = filter (\<lambda>f. fi_disposition f = NON_BLOCKING) fs,
          sd_remediation = map (\<lambda>k. (k, filter (\<lambda>f. fi_remediation f = k) blocking)) [UPSTREAM, RUNTIME, BASE, REVIEW]\<rparr>)"

text \<open>\<open>pin.split("==")[0]\<close>, normalised.\<close>

definition pin_name :: "string \<Rightarrow> string" where
  "pin_name pin = normalize_name (case split_pin pin of Some (a, _) \<Rightarrow> a | None \<Rightarrow> pin)"

definition scan_results :: "json \<Rightarrow> (string \<times> json list) res" where
  "scan_results report =
     (if \<not> is_dict report then Inl (ValueError ''Missing container scan'')
      else bindR (jget_or ''ArtifactType'' JNull report) (\<lambda>kind.
      if kind \<noteq> JStr ''container_image'' then Inl (ValueError ''Missing container scan'')
      else bindR (jget_or ''Metadata'' JNull report) (\<lambda>meta.
      if \<not> is_dict meta then Inl (ValueError ''Missing image config identity'')
      else bindR (jget_or ''ImageID'' JNull meta) (\<lambda>img.
      if \<not> is_str img \<or> \<not> rx_digest (str_of img) then Inl (ValueError ''Missing image config identity'')
      else bindR (jget_or ''Results'' JNull report) (\<lambda>results.
      if \<not> is_list results \<or> list_of results = [] then Inl (ValueError ''Missing scan results'')
      else Inr (str_of img, list_of results))))))"

definition evaluate_inputs ::
  "pylib \<Rightarrow> (rat \<Rightarrow> string) \<Rightarrow> json \<Rightarrow> json \<Rightarrow> json \<Rightarrow> rat option \<Rightarrow> scan_decision res" where
  "evaluate_inputs L isof report request ws now =
     (case now of
        None \<Rightarrow> Inl (ValueError ''Evaluation requires timezone-aware time'')
      | Some t \<Rightarrow>
          bindR (validate_request L request) (\<lambda>(contract, profile).
          bindR (read_waivers L ws t) (\<lambda>allowed.
          bindR (scan_results report) (\<lambda>(img, results).
          let ctx = \<lparr>sc_direct = map pin_name (ac_requirements contract), sc_allowed = allowed,
                     sc_profile = rp_build_profile profile\<rparr>
          in bindR (mapR (judge_result ctx) results) (\<lambda>found.
             bindR (jget ''fingerprint'' request) (\<lambda>fp.
               Inr (decide L isof img fp t (concat found))))))))"

definition caught :: "exn \<Rightarrow> bool" where
  "caught e \<longleftrightarrow> is_value_error e \<or> is_type_error e \<or> is_key_error e \<or> e = AttributeError"

definition evaluate_scan ::
  "pylib \<Rightarrow> (rat \<Rightarrow> string) \<Rightarrow> json \<Rightarrow> json \<Rightarrow> json \<Rightarrow> rat option \<Rightarrow> scan_decision res" where
  "evaluate_scan L isof report request ws now =
     (case evaluate_inputs L isof report request ws now of
        Inr d \<Rightarrow> Inr d
      | Inl e \<Rightarrow> if caught e then Inr (blocked_integrity e) else Inl e)"

section \<open>What a pass means\<close>

text \<open>
  A finding may stand in the way of a release in only one form: it is CRITICAL, HIGH or UNKNOWN
  and no waiver covers it. A waiver covers only an unfixed HIGH or UNKNOWN of an OS package.
\<close>

definition severe :: "finding \<Rightarrow> bool" where
  "severe f \<longleftrightarrow> fi_severity f \<notin> {''MEDIUM'', ''LOW''}"

definition covered :: "scan_context \<Rightarrow> finding \<Rightarrow> bool" where
  "covered ctx f \<longleftrightarrow>
     fi_severity f \<in> {''HIGH'', ''UNKNOWN''} \<and> fi_fixed_version f = [] \<and> fi_source_class f = ''os-pkgs''
     \<and> (\<exists>w. waiver_for ctx f = Some w \<and> fi_disposition f = WAIVED w)"

lemma waiver_for_simps [simp]:
  "waiver_for ctx (f\<lparr>fi_remediation := r\<rparr>) = waiver_for ctx f"
  "waiver_for ctx (f\<lparr>fi_disposition := d\<rparr>) = waiver_for ctx f"
  by (simp_all add: waiver_for_def)

lemma dispose_disposition:
  assumes "dispose ctx os b = Inr f" and "os \<longrightarrow> fi_source_class b = ''os-pkgs''"
  shows "fi_disposition f = BLOCKING \<longleftrightarrow> severe f \<and> \<not> covered ctx f"
    and "is_waived f \<longleftrightarrow> covered ctx f"
    and "fi_severity f = fi_severity b" and "fi_vulnerability_id f = fi_vulnerability_id b"
proof -
  from assms(1) consider
      (low) "fi_severity b \<in> {''MEDIUM'', ''LOW''}"
        "f = b\<lparr>fi_remediation := ''NON_BLOCKING'', fi_disposition := NON_BLOCKING\<rparr>"
    | (waived) w where "fi_severity b \<notin> {''MEDIUM'', ''LOW''}" "waiver_for ctx b = Some w"
        "os \<and> fi_severity b \<in> {''HIGH'', ''UNKNOWN''} \<and> fi_fixed_version b = []"
        "f = b\<lparr>fi_remediation := REVIEW, fi_disposition := WAIVED w\<rparr>"
    | (block) r where "fi_severity b \<notin> {''MEDIUM'', ''LOW''}" "waiver_for ctx b = None"
        "f = b\<lparr>fi_remediation := r, fi_disposition := BLOCKING\<rparr>"
    unfolding dispose_def Let_def
    by (cases "waiver_for ctx b"; cases "fi_severity b \<in> {''MEDIUM'', ''LOW''}")
       (simp_all only: option.case if_True if_False HOL.simp_thms option.simps sum.inject sum.distinct
          split: if_splits; blast)+
  then have "(fi_disposition f = BLOCKING \<longleftrightarrow> severe f \<and> \<not> covered ctx f) \<and> (is_waived f \<longleftrightarrow> covered ctx f)
      \<and> fi_severity f = fi_severity b \<and> fi_vulnerability_id f = fi_vulnerability_id b"
  proof cases
    case low
    then show ?thesis by (auto simp: severe_def covered_def is_waived_def)
  next
    case waived
    with assms(2) show ?thesis by (auto simp: severe_def covered_def is_waived_def)
  next
    case block
    then show ?thesis by (simp add: severe_def covered_def is_waived_def)
  qed
  then show "fi_disposition f = BLOCKING \<longleftrightarrow> severe f \<and> \<not> covered ctx f" "is_waived f \<longleftrightarrow> covered ctx f"
    "fi_severity f = fi_severity b" "fi_vulnerability_id f = fi_vulnerability_id b" by simp_all
qed

lemma base_finding_simps:
  "fi_severity (base_finding ctx os r v x) = text_at ''Severity'' v"
  "fi_vulnerability_id (base_finding ctx os r v x) = text_at ''VulnerabilityID'' v"
  "fi_source_class (base_finding ctx os r v x) = text_at ''Class'' r"
  by (simp_all add: base_finding_def Let_def)

lemma judge_vulnerability_disposition:
  assumes "judge_vulnerability ctx (os_result result) result vuln = Inr f"
  shows "fi_disposition f = BLOCKING \<longleftrightarrow> severe f \<and> \<not> covered ctx f"
    and "is_waived f \<longleftrightarrow> covered ctx f"
    and "fi_severity f = text_at ''Severity'' vuln" and "fi_severity f \<in> set SEVERITIES"
    and "fi_vulnerability_id f = text_at ''VulnerabilityID'' vuln"
proof -
  from assms obtain fixed where j: "judge ctx (os_result result) result vuln fixed = Inr f"
    and sev: "text_at ''Severity'' vuln \<in> set SEVERITIES"
    by (auto simp: judge_vulnerability_def bindR_Inr_iff split: if_splits)
  note f = j [unfolded judge_def]
  have os: "os_result result \<longrightarrow> fi_source_class (base_finding ctx (os_result result) result vuln fixed) = ''os-pkgs''"
    by (simp add: os_result_def base_finding_simps)
  show "fi_disposition f = BLOCKING \<longleftrightarrow> severe f \<and> \<not> covered ctx f" "is_waived f \<longleftrightarrow> covered ctx f"
    "fi_severity f = text_at ''Severity'' vuln" "fi_severity f \<in> set SEVERITIES"
    "fi_vulnerability_id f = text_at ''VulnerabilityID'' vuln"
    using dispose_disposition [OF f os] sev by (simp_all add: base_finding_simps)
qed

lemma set_sort_findings [simp]: "set (sort_findings L fs) = set fs"
  by (simp add: sort_findings_def)

text \<open>Every vulnerability of the report has its finding.\<close>

definition reported :: "json \<Rightarrow> json list" where
  "reported result = (case jget_or ''Vulnerabilities'' (JArr []) result of Inr vs \<Rightarrow> list_of vs | Inl _ \<Rightarrow> [])"

lemma judge_result_all:
  assumes "judge_result ctx result = Inr fs"
  shows "length fs = length (reported result)"
    and "i < length fs \<Longrightarrow> judge_vulnerability ctx (os_result result) result (reported result ! i) = Inr (fs ! i)"
proof -
  from assms obtain vs where vs: "jget_or ''Vulnerabilities'' (JArr []) result = Inr vs"
    and m: "mapR (judge_vulnerability ctx (os_result result) result) (list_of (if vs = JNull then JArr [] else vs)) = Inr fs"
    by (auto simp: judge_result_def bindR_Inr_iff Let_def split: if_splits)
  have "list_of (if vs = JNull then JArr [] else vs) = reported result" by (simp add: reported_def vs)
  with m have "mapR (judge_vulnerability ctx (os_result result) result) (reported result) = Inr fs" by simp
  from mapR_length [OF this] mapR_nth [OF this]
  show "length fs = length (reported result)"
    "i < length fs \<Longrightarrow> judge_vulnerability ctx (os_result result) result (reported result ! i) = Inr (fs ! i)"
    by simp_all
qed

lemma evaluate_inputs_cases:
  assumes "evaluate_inputs L isof report request ws (Some t) = Inr d"
  obtains contract profile allowed img results found fp ctx where
    "validate_request L request = Inr (contract, profile)" "read_waivers L ws t = Inr allowed"
    "scan_results report = Inr (img, results)"
    "ctx = \<lparr>sc_direct = map pin_name (ac_requirements contract), sc_allowed = allowed,
            sc_profile = rp_build_profile profile\<rparr>"
    "mapR (judge_result ctx) results = Inr found" "d = decide L isof img fp t (concat found)"
  using assms unfolding evaluate_inputs_def option.case Let_def
  by (auto simp: bindR_Inr_iff split: prod.splits)

text \<open>The waivers in force: none has expired.\<close>

lemma foldR_inv:
  assumes "foldR f xs b = Inr c" and "P b" and "\<And>x y z. x \<in> set xs \<Longrightarrow> P y \<Longrightarrow> f x y = Inr z \<Longrightarrow> P z"
  shows "P c"
  using assms
proof (induction xs arbitrary: b)
  case (Cons x xs)
  from Cons.prems(1) obtain y where "f x b = Inr y" "foldR f xs y = Inr c" by (auto simp: bindR_Inr_iff)
  with Cons.IH [of y] Cons.prems(2,3) show ?case by (metis list.set_intros)
qed simp

definition waiver_in_force :: "pylib \<Rightarrow> rat \<Rightarrow> json \<Rightarrow> string list \<Rightarrow> json \<Rightarrow> bool" where
  "waiver_in_force L now document key item \<longleftrightarrow>
     (\<exists>x t. jget ''expires_at'' item = Inr x \<and> time_of L x = Inr t \<and> now < t)
     \<and> mapR (\<lambda>k. bindR (jget k item) (\<lambda>v. Inr (str_of v))) MATCH_FIELDS = Inr key
     \<and> (\<exists>items. jget ''waivers'' document = Inr (JArr items) \<and> item \<in> set items)"

lemma read_waivers_in_force:
  assumes "read_waivers L document now = Inr ws" and "(key, item) \<in> set ws"
  shows "waiver_in_force L now document key item"
proof -
  from assms(1) obtain items where items: "jget ''waivers'' document = Inr (JArr items)"
    and fold: "foldR (waiver_entry L now) items [] = Inr ws"
    by (auto simp: read_waivers_def bindR_Inr_iff is_list_iff split: if_splits)
  have "\<forall>(k, i) \<in> set ws. waiver_in_force L now document k i"
  proof (rule foldR_inv [OF fold, where P = "\<lambda>ws. \<forall>(k, i) \<in> set ws. waiver_in_force L now document k i"])
    fix x y z
    assume x: "x \<in> set items" and y: "\<forall>(k, i) \<in> set y. waiver_in_force L now document k i"
      and z: "waiver_entry L now x y = Inr z"
    from z obtain key xj t where "z = (key, x) # y"
      "mapR (\<lambda>k. bindR (jget k x) (\<lambda>v. Inr (str_of v))) MATCH_FIELDS = Inr key"
      "jget ''expires_at'' x = Inr xj" "time_of L xj = Inr t" "now < t"
      unfolding waiver_entry_def
      by (cases x) (auto simp: bindR_Inr_iff simp del: jget_JObj split: if_splits)
    with x y items show "\<forall>(k, i) \<in> set z. waiver_in_force L now document k i"
      unfolding waiver_in_force_def by auto
  qed simp
  with assms(2) show ?thesis by auto
qed

end
