(* ===== verification/KServe.thy ===== *)
theory KServe
  imports Lifecycle
begin

text \<open>
  The effects of a release: \<open>control_plane/kserve_effects.py\<close> (manifests, drift checks, \<open>ensure\<close>
  and \<open>ready\<close>), the resource paths of \<open>control_plane/kube_v2.py\<close> and the ECR catalog of
  \<open>control_plane/runtime_catalog.py\<close>. Kubernetes, ECR and the HTTP probe are records of programs;
  objects are dynamically typed documents.
\<close>

section \<open>Names and manifests\<close>

definition NS :: string where
  "NS = ''production''"

definition ANNOTATION :: string where
  "ANNOTATION = ''ml-template.io/runtime-fingerprint''"

definition OWNER :: string where
  "OWNER = ''ml-template.io/control-plane''"

definition VERSION_ANNOTATION :: string where
  "VERSION_ANNOTATION = ''ml-template.io/model-version''"

definition LANES :: "string \<Rightarrow> string res" where
  "LANES lane =
     (if lane = ''stable'' then Inr ''credit-risk-stable-v2''
      else if lane = ''canary'' then Inr ''credit-risk-canary-v2'' else Inl (KeyError lane))"

definition fingerprint_tag :: "string \<Rightarrow> string res" where
  "fingerprint_tag fp =
     (if rx_digest fp then Inr (''runtime-fp-'' @ drop 7 fp) else Inl (ValueError ''Invalid technical fingerprint''))"

definition runtime_name :: "string \<Rightarrow> string res" where
  "runtime_name fp = bindR (fingerprint_tag fp) (\<lambda>_. Inr (''runtime-'' @ take 40 (drop 7 fp)))"

definition strings :: "(string \<times> string) list \<Rightarrow> json" where
  "strings kvs = JObj (map (\<lambda>(k, v). (k, JStr v)) kvs)"

definition container_env :: json where
  "container_env = JArr (map (\<lambda>(k, v). strings [(''name'', k), (''value'', v)])
     [(''MLSERVER_MODEL_IMPLEMENTATION'', ''mlserver_mlflow.MLflowRuntime''),
      (''MLSERVER_HTTP_PORT'', ''8080''), (''MLSERVER_GRPC_PORT'', ''9000''),
      (''MODELS_DIR'', ''/mnt/models''), (''MLSERVER_PARALLEL_WORKERS'', ''0'')])"

definition container_security :: json where
  "container_security = JObj
     [(''runAsNonRoot'', JBool True), (''runAsUser'', JInt 10001), (''runAsGroup'', JInt 10001),
      (''allowPrivilegeEscalation'', JBool False), (''privileged'', JBool False),
      (''capabilities'', JObj [(''drop'', JArr [JStr ''ALL''])]),
      (''seccompProfile'', strings [(''type'', ''RuntimeDefault'')])]"

definition runtime_manifest :: "string \<Rightarrow> string \<Rightarrow> json res" where
  "runtime_manifest fp img =
     bindR (runtime_image (JStr img)) (\<lambda>_.
     bindR (runtime_name fp) (\<lambda>name.
       Inr (JObj
         [(''apiVersion'', JStr ''serving.kserve.io/v1alpha1''), (''kind'', JStr ''ServingRuntime''),
          (''metadata'', JObj
             [(''name'', JStr name), (''namespace'', JStr NS),
              (''annotations'', strings [(OWNER, ''v2''), (ANNOTATION, fp), (''serving.kserve.io/server-type'', ''mlserver'')])]),
          (''spec'', JObj
             [(''disabled'', JBool False), (''protocolVersions'', JArr [JStr ''v2'']),
              (''supportedModelFormats'', JArr [JObj [(''name'', JStr ''mlflow''), (''autoSelect'', JBool False)]]),
              (''containers'', JArr [JObj
                 [(''name'', JStr ''kserve-container''), (''image'', JStr img), (''imagePullPolicy'', JStr ''IfNotPresent''),
                  (''env'', container_env), (''securityContext'', container_security),
                  (''resources'', JObj
                     [(''requests'', strings [(''cpu'', ''1''), (''memory'', ''2Gi'')]),
                      (''limits'', strings [(''cpu'', ''1''), (''memory'', ''2Gi'')])])]])])])))"

text \<open>\<open>dict(a=..., **policy, b=...)\<close>.\<close>

definition entries :: "json \<Rightarrow> (string \<times> json) list" where
  "entries j = (case j of JObj kvs \<Rightarrow> kvs | _ \<Rightarrow> [])"

definition lane_manifest :: "env \<Rightarrow> string \<Rightarrow> serving_pair option \<Rightarrow> string option \<Rightarrow> json res" where
  "lane_manifest e lane pr fp =
     (case pr of None \<Rightarrow> Inl (TypeError ''argument after ** must be a mapping'')
      | Some p \<Rightarrow>
          bindR (check_pair p) (\<lambda>_.
          bindR (LANES lane) (\<lambda>name.
          bindR (predictor_policy lane e) (\<lambda>pol.
          bindR (case fp of None \<Rightarrow> Inl (ValueError ''Invalid technical fingerprint'') | Some f \<Rightarrow> runtime_name f) (\<lambda>rt.
            Inr (JObj
              [(''apiVersion'', JStr ''serving.kserve.io/v1beta1''), (''kind'', JStr ''InferenceService''),
               (''metadata'', JObj
                  [(''name'', JStr name), (''namespace'', JStr NS),
                   (''annotations'', strings
                      [(OWNER, ''v2''), (''serving.kserve.io/deploymentMode'', ''Standard''),
                       (VERSION_ANNOTATION, sp_model_version p)])]),
               (''spec'', JObj [(''predictor'', JObj
                  ((''serviceAccountName'', JStr ''kserve-artifact-reader'') # entries pol @
                   [(''securityContext'', JObj [(''fsGroup'', JInt 10001), (''seccompProfile'', strings [(''type'', ''RuntimeDefault'')])]),
                    (''model'', JObj
                       [(''modelFormat'', strings [(''name'', ''mlflow'')]), (''protocolVersion'', JStr ''v2''),
                        (''runtime'', JStr rt), (''storageUri'', JStr (sp_storage_uri p))])]))])]))))))"

section \<open>Readiness of a deployment\<close>

text \<open>\<open>x in j\<close> for a string.\<close>

definition jmember :: "string \<Rightarrow> json \<Rightarrow> bool res" where
  "jmember x j =
     (case j of JArr xs \<Rightarrow> Inr (JStr x \<in> set xs) | JStr s \<Rightarrow> Inr (contains x s)
      | JObj kvs \<Rightarrow> Inr (x \<in> fst ` set kvs) | _ \<Rightarrow> Inl (TypeError ''not iterable''))"

definition get_eq :: "string \<Rightarrow> json \<Rightarrow> json \<Rightarrow> bool res" where
  "get_eq k v j = bindR (jget_or k JNull j) (\<lambda>x. Inr (py_eq x v))"

definition get_number :: "string \<Rightarrow> json \<Rightarrow> json res" where
  "get_number k j = jget_or k (JInt 0) j"

definition serving_container :: "string \<Rightarrow> json \<Rightarrow> bool res" where
  "serving_container img c = andR [get_eq ''name'' (JStr ''kserve-container'') c, get_eq ''image'' (JStr img) c]"

definition deployment_ready :: "json \<Rightarrow> serving_pair \<Rightarrow> bool res" where
  "deployment_ready obj p =
     (if \<not> truthy obj then Inr False
      else bindR (jget_or ''spec'' (JObj []) obj) (\<lambda>spec.
      bindR (jget_or ''status'' (JObj []) obj) (\<lambda>status.
      bindR (get_number ''replicas'' spec) (\<lambda>count.
      bindR (jget_or ''template'' (JObj []) spec) (\<lambda>template.
      bindR (jpath [''metadata'', ''annotations''] template) (\<lambda>annotations.
      andR
        [jlt (JInt 0) count,
         bindR (get_number ''observedGeneration'' status) (\<lambda>seen. bindR (jdeep [''metadata'', ''generation''] obj) (\<lambda>g. jle g seen)),
         bindR (get_number ''replicas'' status) (\<lambda>r. bindR (get_number ''updatedReplicas'' status) (\<lambda>u.
           Inr (py_eq r u \<and> py_eq u count))),
         bindR (get_number ''readyReplicas'' status) (\<lambda>r. jle count r),
         bindR (get_number ''availableReplicas'' status) (\<lambda>r. jle count r),
         get_eq VERSION_ANNOTATION (JStr (sp_model_version p)) annotations,
         get_eq ''internal.serving.kserve.io/storage-initializer-sourceuri'' (JStr (sp_storage_uri p)) annotations,
         bindR (jget_or ''spec'' (JObj []) template) (\<lambda>pod.
         bindR (jget_or ''containers'' (JArr []) pod) (\<lambda>cs. bindR (jiter cs) (\<lambda>xs.
           orR (map (serving_container (sp_runtime_digest p)) xs))))]))))))"

section \<open>Drift checks\<close>

definition get_truthy :: "json \<Rightarrow> string \<Rightarrow> bool res" where
  "get_truthy j k = bindR (jget_or k JNull j) (\<lambda>v. Inr (truthy v))"

text \<open>\<open>a.get(k) != e[k]\<close>.\<close>

definition differs :: "json \<Rightarrow> json \<Rightarrow> string \<Rightarrow> bool res" where
  "differs a e k = bindR (jget_or k JNull a) (\<lambda>v. bindR (jget k e) (\<lambda>w. Inr (\<not> py_eq v w)))"

definition annotation_of :: "json \<Rightarrow> string \<Rightarrow> json res" where
  "annotation_of obj k =
     bindR (jget ''metadata'' obj) (\<lambda>m. bindR (jget_or ''annotations'' (JObj []) m) (\<lambda>a. jget_or k JNull a))"

definition first_container :: "json \<Rightarrow> json res" where
  "first_container obj = bindR (jdeep [''spec'', ''containers''] obj) (jnth 0)"

definition validate_runtime :: "json \<Rightarrow> string \<Rightarrow> string \<Rightarrow> unit res" where
  "validate_runtime existing fp img =
     bindR (runtime_manifest fp img) (\<lambda>expected.
     bindR (if \<not> truthy existing then Inr True
            else orR
              [bindR (annotation_of existing ANNOTATION) (\<lambda>v. Inr (v \<noteq> JStr fp)),
               bindR (annotation_of existing OWNER) (\<lambda>v. Inr (v \<noteq> JStr ''v2'')),
               bindR (first_container existing) (\<lambda>c. bindR (jget ''image'' c) (\<lambda>v. Inr (v \<noteq> JStr img)))]) (\<lambda>collision.
     bindR (requireR (\<not> collision) (ValueError ''Runtime identity collision'')) (\<lambda>_.
     bindR (first_container existing) (\<lambda>container.
     bindR (first_container expected) (\<lambda>wanted.
     bindR (jget ''spec'' existing) (\<lambda>spec.
     bindR (orR
        [differs container wanted ''env'', differs container wanted ''securityContext'',
         get_truthy container ''command'', get_truthy container ''args'',
         bindR (jget ''containers'' spec) (\<lambda>cs. bindR (jlen cs) (\<lambda>n. Inr (n \<noteq> 1))),
         get_truthy spec ''volumes'', get_truthy spec ''hostIPC'']) (\<lambda>drifted.
       requireR (\<not> drifted) (ValueError ''Runtime security/serving configuration drift''))))))))"

definition scale_keys :: "string list" where
  "scale_keys = [''scaleMetric'', ''scaleTarget'', ''autoScaling'']"

definition lane_matches :: "json \<Rightarrow> json \<Rightarrow> bool res" where
  "lane_matches existing desired =
     bindR (annotation_of existing OWNER) (\<lambda>owner.
     bindR (requireR (owner = JStr ''v2'') (ValueError ''Existing lane is not owned by v2'')) (\<lambda>_.
     bindR (jdeep [''spec'', ''predictor''] existing) (\<lambda>actual.
     bindR (jdeep [''spec'', ''predictor''] desired) (\<lambda>expected.
     bindR (orR (map (differs actual expected) [''serviceAccountName'', ''minReplicas'', ''maxReplicas'', ''securityContext''])) (\<lambda>d1.
     if d1 then Inr False
     else bindR (orR (map (\<lambda>k. if jhas k expected then differs actual expected k else Inr False) scale_keys)) (\<lambda>d2.
     if d2 then Inr False
     else bindR (orR (map (get_truthy actual)
            [''containers'', ''initContainers'', ''volumes'', ''hostNetwork'', ''hostPID'', ''hostIPC'', ''imagePullSecrets''])) (\<lambda>d3.
     if d3 then Inr False
     else bindR (jget ''model'' actual) (\<lambda>model.
     bindR (orR (map (get_truthy model) [''image'', ''command'', ''args'', ''env'', ''envFrom'', ''volumeMounts''])) (\<lambda>d4.
     if d4 then Inr False
     else bindR (jget ''model'' expected) (\<lambda>wanted.
     bindR (jdeep [''metadata'', ''annotations''] desired) (\<lambda>notes.
       andR (map (\<lambda>(k, v). get_eq k v model) (entries wanted)
         @ map (\<lambda>(k, v). bindR (annotation_of existing k) (\<lambda>x. Inr (py_eq x v))) (entries notes)))))))))))))"

section \<open>KServe\<close>

record 'w kserve =
  ks_get :: "string \<Rightarrow> string \<Rightarrow> ('w, json option) prog"
  ks_create :: "string \<Rightarrow> json \<Rightarrow> ('w, unit) prog"
  ks_replace :: "string \<Rightarrow> json \<Rightarrow> ('w, unit) prog"
  ks_deployment :: "string \<Rightarrow> ('w, json option) prog"
  ks_probe :: "string \<Rightarrow> ('w, json) prog"
  ks_env :: env

definition ignore_conflict :: "('w, unit) prog \<Rightarrow> ('w, unit) prog" where
  "ignore_conflict m = catchP m (\<lambda>e. if e = Conflict then retP () else raiseP e)"

definition ensure_runtime :: "'w kserve \<Rightarrow> string \<Rightarrow> string \<Rightarrow> ('w, string) prog" where
  "ensure_runtime K fp img =
     bindP (liftP (runtime_manifest fp img)) (\<lambda>desired.
     bindP (liftP (runtime_name fp)) (\<lambda>name.
     bindP (ks_get K ''servingruntimes'' name) (\<lambda>found.
     bindP (case found of
              Some x \<Rightarrow> retP (Some x)
            | None \<Rightarrow> thenP (ignore_conflict (ks_create K ''servingruntimes'' desired)) (ks_get K ''servingruntimes'' name))
       (\<lambda>existing.
     bindP (liftP (validate_runtime (opt_json id existing) fp img)) (\<lambda>_. retP name)))))"

text \<open>\<open>desired["metadata"]["resourceVersion"] = ...\<close>.\<close>

definition with_version :: "json \<Rightarrow> json \<Rightarrow> json" where
  "with_version version obj =
     JObj (map (\<lambda>(k, v). (k, if k = ''metadata'' then JObj (entries v @ [(''resourceVersion'', version)]) else v)) (entries obj))"

definition kserve_ensure :: "'w kserve \<Rightarrow> string \<Rightarrow> serving_pair \<Rightarrow> string \<Rightarrow> ('w, bool) prog" where
  "kserve_ensure K lane p fp =
     bindP (ensure_runtime K fp (sp_runtime_digest p)) (\<lambda>_.
     bindP (liftP (lane_manifest (ks_env K) lane (Some p) (Some fp))) (\<lambda>desired.
     bindP (liftP (LANES lane)) (\<lambda>name.
     bindP (ks_get K ''inferenceservices'' name) (\<lambda>found.
       case found of
         None \<Rightarrow> thenP (ignore_conflict (ks_create K ''inferenceservices'' desired)) (retP False)
       | Some existing \<Rightarrow>
           bindP (liftP (lane_matches existing desired)) (\<lambda>same.
             if same then retP True
             else bindP (liftP (jdeep [''metadata'', ''resourceVersion''] existing)) (\<lambda>v.
                  thenP (ks_replace K ''inferenceservices'' (with_version v desired)) (retP False)))))))"

definition condition_ready :: "json \<Rightarrow> bool res" where
  "condition_ready c =
     bindR (jget ''type'' c) (\<lambda>t. if t \<noteq> JStr ''Ready'' then Inr False
       else bindR (jget ''status'' c) (\<lambda>s. Inr (s = JStr ''True'')))"

text \<open>The first group of tests of \<open>ready\<close>: the object serves exactly this pair and is Ready.\<close>

definition service_current :: "json \<Rightarrow> serving_pair \<Rightarrow> string \<Rightarrow> bool res" where
  "service_current obj p rt =
     bindR (jdeep [''spec'', ''predictor'', ''model''] obj) (\<lambda>model.
     bindR (jget_or ''status'' (JObj []) obj) (\<lambda>status.
     andR
       [get_eq ''runtime'' (JStr rt) model, get_eq ''storageUri'' (JStr (sp_storage_uri p)) model,
        bindR (annotation_of obj VERSION_ANNOTATION) (\<lambda>v. Inr (v = JStr (sp_model_version p))),
        bindR (get_number ''observedGeneration'' status) (\<lambda>seen.
          bindR (jdeep [''metadata'', ''generation''] obj) (\<lambda>g. bindR (jlt seen g) (\<lambda>b. Inr (\<not> b)))),
        bindR (jget_or ''conditions'' (JArr []) status) (\<lambda>cs. bindR (jiter cs) (\<lambda>xs. orR (map condition_ready xs)))]))"

definition service_address :: "json \<Rightarrow> string \<Rightarrow> string res" where
  "service_address obj name =
     bindR (jget_or ''status'' (JObj []) obj) (\<lambda>st. bindR (jget_or ''address'' (JObj []) st) (\<lambda>ad.
     bindR (jget_or ''url'' (JStr []) ad) (\<lambda>base.
       case base of
         JStr b \<Rightarrow>
           bindR (urlsplit b) (\<lambda>u.
             if u_scheme u \<noteq> ''http''
                \<or> hostname u \<notin> {name @ ''-predictor.'' @ NS @ ''.svc.cluster.local'', name @ ''-predictor.'' @ NS @ ''.svc''}
                \<or> username u \<noteq> [] \<or> u_query u \<noteq> [] \<or> u_fragment u \<noteq> []
             then Inl (ValueError ''Invalid internal KServe address'')
             else Inr (rstrip_by (\<lambda>c. c = CHR ''/'') b))
       | _ \<Rightarrow> Inl AttributeError)))"

text \<open>The three probes; a 404 or 503 of any of them means not ready yet.\<close>

definition probe_backend :: "'w kserve \<Rightarrow> string \<Rightarrow> string \<Rightarrow> ('w, json option) prog" where
  "probe_backend K base name =
     catchP
       (bindP (ks_probe K (base @ ''/v2/health/ready'')) (\<lambda>_.
        bindP (ks_probe K (base @ ''/v2/models/'' @ name @ ''/ready'')) (\<lambda>_.
        bindP (ks_probe K (base @ ''/v2/models/'' @ name)) (\<lambda>m. retP (Some m)))))
       (\<lambda>e. if e = HTTPError 404 \<or> e = HTTPError 503 then retP None else raiseP e)"

definition metadata_matches :: "json \<Rightarrow> string \<Rightarrow> bool res" where
  "metadata_matches m name = andR [get_eq ''name'' (JStr name) m, get_truthy m ''inputs'', get_truthy m ''outputs'']"

definition ready_probes :: "'w kserve \<Rightarrow> string \<Rightarrow> json \<Rightarrow> ('w, bool) prog" where
  "ready_probes K name obj =
     bindP (liftP (service_address obj name)) (\<lambda>base.
     bindP (probe_backend K base name) (\<lambda>answer.
       case answer of
         None \<Rightarrow> retP False
       | Some m \<Rightarrow>
           bindP (liftP (metadata_matches m name)) (\<lambda>ok.
             if ok then retP True else raiseP (ValueError ''Backend metadata contract mismatch''))))"

definition ready_serving :: "'w kserve \<Rightarrow> string \<Rightarrow> string \<Rightarrow> json \<Rightarrow> serving_pair \<Rightarrow> string \<Rightarrow> ('w, bool) prog" where
  "ready_serving K lane name obj p fp =
     bindP (liftP (runtime_name fp)) (\<lambda>rt.
     bindP (liftP (service_current obj p rt)) (\<lambda>current.
     if \<not> current then retP False
     else bindP (ks_get K ''servingruntimes'' rt) (\<lambda>existing.
          bindP (liftP (validate_runtime (opt_json id existing) fp (sp_runtime_digest p))) (\<lambda>_.
          bindP (ks_deployment K lane) (\<lambda>deployment.
          bindP (liftP (deployment_ready (opt_json id deployment) p)) (\<lambda>deployed.
            if \<not> deployed then retP False else ready_probes K name obj))))))"

definition kserve_ready ::
  "'w kserve \<Rightarrow> string \<Rightarrow> serving_pair option \<Rightarrow> string option \<Rightarrow> ('w, bool) prog" where
  "kserve_ready K lane pr fpo =
     bindP (liftP (LANES lane)) (\<lambda>name.
     bindP (ks_get K ''inferenceservices'' name) (\<lambda>found.
       case found of
         None \<Rightarrow> retP False
       | Some obj \<Rightarrow>
           bindP (liftP (lane_manifest (ks_env K) lane pr fpo)) (\<lambda>desired.
           bindP (liftP (lane_matches obj desired)) (\<lambda>same.
             case (pr, fpo) of
               (Some p, Some fp) \<Rightarrow> if \<not> same then retP False else ready_serving K lane name obj p fp
             | _ \<Rightarrow> retP False))))"

section \<open>Resource paths\<close>

definition kube_path :: "string \<Rightarrow> string option \<Rightarrow> string res" where
  "kube_path kind name =
     bindR (requireR (kind = ''servingruntimes'' \<or> kind = ''inferenceservices'') (ValueError ''Resource not allowed'')) (\<lambda>_.
     let given = (case name of Some n \<Rightarrow> n | None \<Rightarrow> [])
     in bindR (requireR (given = []
            \<or> (if kind = ''inferenceservices'' then given \<in> {''credit-risk-stable-v2'', ''credit-risk-canary-v2''}
               else starts_with ''runtime-'' given))
          (ValueError ''Legacy resource access prohibited'')) (\<lambda>_.
        Inr (''/apis/serving.kserve.io/'' @ (if kind = ''servingruntimes'' then ''v1alpha1'' else ''v1beta1'')
          @ ''/namespaces/'' @ NS @ ''/'' @ kind @ (if given = [] then [] else ''/'' @ given))))"

text \<open>\<open>KubeV2\<close> over the HTTP request of the API server; \<open>None\<close> is a 404 of a GET.\<close>

type_synonym 'w kube_request = "string \<Rightarrow> string \<Rightarrow> json option \<Rightarrow> ('w, json option) prog"

definition kube_get :: "'w kube_request \<Rightarrow> string \<Rightarrow> string \<Rightarrow> ('w, json option) prog" where
  "kube_get request kind name = bindP (liftP (kube_path kind (Some name))) (\<lambda>p. request p ''GET'' None)"

definition object_name :: "json \<Rightarrow> string res" where
  "object_name obj = bindR (jdeep [''metadata'', ''name''] obj) (\<lambda>n. if is_str n then Inr (str_of n) else Inl AttributeError)"

definition kube_create :: "'w kube_request \<Rightarrow> string \<Rightarrow> json \<Rightarrow> ('w, unit) prog" where
  "kube_create request kind obj =
     bindP (liftP (bindR (object_name obj) (\<lambda>n. kube_path kind (Some n)))) (\<lambda>_.
     bindP (liftP (kube_path kind None)) (\<lambda>p. bindP (request p ''POST'' (Some obj)) (\<lambda>_. retP ())))"

definition kube_replace :: "'w kube_request \<Rightarrow> string \<Rightarrow> json \<Rightarrow> ('w, unit) prog" where
  "kube_replace request kind obj =
     (if kind = ''servingruntimes'' then raiseP (ValueError ''Runtime identities cannot be replaced'')
      else bindP (liftP (bindR (object_name obj) (\<lambda>n. kube_path kind (Some n)))) (\<lambda>p.
           bindP (request p ''PUT'' (Some obj)) (\<lambda>_. retP ())))"

definition kube_deployment :: "'w kube_request \<Rightarrow> string \<Rightarrow> ('w, json option) prog" where
  "kube_deployment request lane =
     bindP (liftP (LANES lane)) (\<lambda>name.
       request (''/apis/apps/v1/namespaces/'' @ NS @ ''/deployments/'' @ name @ ''-predictor'') ''GET'' None)"

definition kube_kserve :: "'w kube_request \<Rightarrow> (string \<Rightarrow> ('w, json) prog) \<Rightarrow> env \<Rightarrow> 'w kserve" where
  "kube_kserve request probe e =
     \<lparr>ks_get = kube_get request, ks_create = kube_create request, ks_replace = kube_replace request,
      ks_deployment = kube_deployment request, ks_probe = probe, ks_env = e\<rparr>"

section \<open>The effects of the controller\<close>

text \<open>\<open>read_json\<close>: at most 1 MiB, an empty answer is an empty document.\<close>

definition read_json :: "(string \<Rightarrow> json option) \<Rightarrow> ('w, string) prog \<Rightarrow> ('w, json) prog" where
  "read_json loads fetch =
     bindP fetch (\<lambda>body.
       let payload = take 1048577 body
       in if length payload > 1048576 then raiseP (ValueError ''Backend response exceeds bound'')
          else if payload = [] then retP (JObj [])
          else liftP (case loads payload of Some v \<Rightarrow> Inr v | None \<Rightarrow> Inl (ValueError ''JSONDecodeError'')))"

definition kserve_effects :: "'w kserve \<Rightarrow> ('w, json) prog \<Rightarrow> ('w, metrics) prog \<Rightarrow> 'w effects" where
  "kserve_effects K router metrics =
     \<lparr>ef_ensure = (\<lambda>lane p fp. bindP (kserve_ensure K lane p fp) (\<lambda>_. retP ())),
      ef_ready = kserve_ready K, ef_router = router, ef_metrics = metrics\<rparr>"

section \<open>The image catalog\<close>

text \<open>\<open>ec_code\<close> is the error code botocore attaches to an exception, if any.\<close>

record 'w ecr =
  ec_describe_repositories :: "('w, json) prog"
  ec_describe_images :: "string \<Rightarrow> ('w, json) prog"
  ec_batch_get_image :: "string \<Rightarrow> ('w, json) prog"
  ec_put_image :: "json \<Rightarrow> string \<Rightarrow> string \<Rightarrow> ('w, unit) prog"
  ec_code :: "exn \<Rightarrow> string option"

definition verify_repository :: "json \<Rightarrow> unit res" where
  "verify_repository answer =
     bindR (jget ''repositories'' answer) (\<lambda>repo. bindR (jlen repo) (\<lambda>n.
     bindR (if n \<noteq> 1 then Inr True
            else bindR (jnth 0 repo) (\<lambda>r. orR
              [bindR (jget_or ''repositoryUri'' JNull r) (\<lambda>v. Inr (v \<noteq> JStr REPOSITORY)),
               bindR (jget_or ''imageTagMutability'' JNull r) (\<lambda>v. Inr (v \<noteq> JStr ''IMMUTABLE'')),
               get_truthy r ''imageTagMutabilityExclusionFilters''])) (\<lambda>bad.
       requireR (\<not> bad) (ValueError ''Catalog requires immutable tags without exclusions''))))"

definition catalog_row :: "string \<Rightarrow> json \<Rightarrow> string res" where
  "catalog_row tag answer =
     bindR (jget_or ''imageDetails'' (JArr []) answer) (\<lambda>rows. bindR (jlen rows) (\<lambda>n.
     bindR (requireR (n = 1) (ValueError ''Malformed ECR catalog response'')) (\<lambda>_.
     bindR (jnth 0 rows) (\<lambda>row.
     bindR (jget_or ''imageTags'' (JArr []) row) (\<lambda>tags. bindR (jmember tag tags) (\<lambda>present.
     bindR (requireR present (ValueError ''Malformed ECR catalog response'')) (\<lambda>_.
     bindR (jget_or ''imageDigest'' (JStr []) row) (\<lambda>d.
       case d of JStr s \<Rightarrow> runtime_image (JStr (REPOSITORY @ ''@'' @ s))
       | _ \<Rightarrow> Inl (TypeError ''can only concatenate str'')))))))))"

definition lookup :: "'w ecr \<Rightarrow> string \<Rightarrow> ('w, string option) prog" where
  "lookup E fp =
     bindP (liftP (fingerprint_tag fp)) (\<lambda>tag.
     bindP (ec_describe_repositories E) (\<lambda>repos.
     bindP (liftP (verify_repository repos)) (\<lambda>_.
     attemptP (ec_describe_images E tag) (\<lambda>out.
       case out of
         Inl e \<Rightarrow> if ec_code E e = Some ''ImageNotFoundException'' then retP None else raiseP e
       | Inr answer \<Rightarrow> bindP (liftP (catalog_row tag answer)) (\<lambda>i. retP (Some i))))))"

definition source_manifest :: "(string \<Rightarrow> json option) \<Rightarrow> string \<Rightarrow> json \<Rightarrow> json res" where
  "source_manifest loads digest_ref answer =
     bindR (jget_or ''images'' (JArr []) answer) (\<lambda>rows.
     bindR (orR
        [get_truthy answer ''failures'', bindR (jlen rows) (\<lambda>n. Inr (n \<noteq> 1)),
         bindR (jnth 0 rows) (\<lambda>row. bindR (jdeep [''imageId'', ''imageDigest''] row) (\<lambda>d. Inr (d \<noteq> JStr digest_ref)))])
       (\<lambda>bad.
     bindR (requireR (\<not> bad) (ValueError ''Source manifest unavailable'')) (\<lambda>_.
     bindR (jnth 0 rows) (\<lambda>row. bindR (jget ''imageManifest'' row) (\<lambda>m.
       case m of JStr s \<Rightarrow> (case loads s of Some _ \<Rightarrow> Inr m | None \<Rightarrow> Inl (ValueError ''JSONDecodeError''))
       | _ \<Rightarrow> Inl (TypeError ''the JSON object must be str''))))))"

definition already_exists :: "string option \<Rightarrow> bool" where
  "already_exists c \<longleftrightarrow> c = Some ''ImageAlreadyExistsException'' \<or> c = Some ''ImageTagAlreadyExistsException''"

definition publish :: "(string \<Rightarrow> json option) \<Rightarrow> 'w ecr \<Rightarrow> string \<Rightarrow> string \<Rightarrow> ('w, string) prog" where
  "publish loads E fp img =
     bindP (liftP (runtime_image (JStr img))) (\<lambda>_.
     bindP (lookup E fp) (\<lambda>existing.
       case existing of
         Some x \<Rightarrow> if x \<noteq> img then raiseP (ValueError ''Catalog integrity violation'') else retP x
       | None \<Rightarrow>
           let d = after (CHR ''@'') img
           in bindP (ec_batch_get_image E d) (\<lambda>answer.
              bindP (liftP (source_manifest loads d answer)) (\<lambda>m.
              bindP (liftP (fingerprint_tag fp)) (\<lambda>tag.
              bindP (catchP (ec_put_image E m d tag)
                       (\<lambda>e. if already_exists (ec_code E e) then retP () else raiseP e)) (\<lambda>_.
              bindP (lookup E fp) (\<lambda>now.
                if now \<noteq> Some img then raiseP (ValueError ''Catalog publication conflict'') else retP img)))))))"

end
