(* ===== verification/Routing.thy ===== *)
theory Routing
  imports ReleaseStore
begin

text \<open>
  Request routing: the weighted choice of \<open>canary/router.py\<close>, the \<open>Routing\<close> object and the
  legacy gateway of \<open>control_plane/router.py\<close>, and the V2 proxy of \<open>control_plane/router_v2.py\<close>.
  An HTTP exchange is a function from the request to the reply; sockets, metrics and threads are
  left out, except that the lock makes each method of \<open>Routing\<close> one step. The body stream and the
  upstream connection are programs.
\<close>

section \<open>The weighted choice\<close>

datatype track = Stable | Canary

fun track_name :: "track \<Rightarrow> string" where
  "track_name Stable = ''stable''"
| "track_name Canary = ''canary''"

definition choose_track :: "int \<Rightarrow> int \<Rightarrow> track" where
  "choose_track index percent = (if index * percent mod 100 + percent \<ge> 100 then Canary else Stable)"

text \<open>How many of the first \<open>n\<close> requests go to the canary.\<close>

fun canary_count :: "int \<Rightarrow> nat \<Rightarrow> nat" where
  "canary_count percent 0 = 0"
| "canary_count percent (Suc n) =
     canary_count percent n + (if choose_track (int n) percent = Canary then 1 else 0)"

lemma choose_track_carry:
  assumes "0 \<le> p" "p \<le> 100" "0 \<le> i"
  shows "(i + 1) * p div 100 = i * p div 100 + (if choose_track i p = Canary then 1 else 0)"
proof -
  define r where "r = i * p mod 100"
  have "i * p = 100 * (i * p div 100) + r" unfolding r_def by simp
  then have "(i + 1) * p = 100 * (i * p div 100) + (r + p)" by (simp add: algebra_simps)
  then have "(i + 1) * p div 100 = i * p div 100 + (r + p) div 100" by simp
  moreover have "0 \<le> r" "r < 100" unfolding r_def by simp_all
  then have "(r + p) div 100 = (if r + p \<ge> 100 then 1 else 0)"
    using assms by (auto simp: div_pos_geq)
  ultimately show ?thesis by (simp add: choose_track_def r_def)
qed

lemma canary_count_eq:
  assumes "0 \<le> p" "p \<le> 100"
  shows "int (canary_count p n) = int n * p div 100"
proof (induction n)
  case (Suc n)
  then show ?case using choose_track_carry [OF assms, of "int n"] by (simp add: algebra_simps)
qed simp

section \<open>The demo router\<close>

record demo_router =
  dr_weight :: int
  dr_sequence :: int

definition demo_start :: demo_router where
  "demo_start = \<lparr>dr_weight = 10, dr_sequence = 0\<rparr>"

definition upstream_url :: "(string \<rightharpoonup> string) \<Rightarrow> track \<Rightarrow> string" where
  "upstream_url env tr =
     (let key = (if tr = Canary then ''CANARY_CANARY_URL'' else ''CANARY_STABLE_URL'');
          port_key = (if tr = Canary then ''CANARY_CANARY_PORT'' else ''CANARY_STABLE_PORT'');
          port = (case env port_key of Some p \<Rightarrow> p | None \<Rightarrow> if tr = Canary then ''8082'' else ''8081'')
      in rstrip_by (\<lambda>c. c = CHR ''/'')
           (case env key of Some u \<Rightarrow> u | None \<Rightarrow> ''http://127.0.0.1:'' @ port))"

record reply =
  re_status :: int
  re_body :: string
  re_kind :: string
  re_track :: "track option"

definition json_reply :: "int \<Rightarrow> string \<Rightarrow> reply" where
  "json_reply status body =
     \<lparr>re_status = status, re_body = body, re_kind = ''application/json'', re_track = None\<rparr>"

text \<open>What \<open>urlopen\<close> yields: a response, or an \<open>HTTPError\<close> that is itself a response.\<close>

record http_response =
  hr_status :: int
  hr_body :: string
  hr_content_type :: "string option"

datatype opened = Opened http_response | ErrorStatus http_response

text \<open>A request: \<open>rq_body\<close> is what the client will send; reading may time out.\<close>

record request =
  rq_path :: string
  rq_content_length :: "string option"
  rq_transfer_encoding :: "string option"
  rq_content_type :: "string option"
  rq_body :: "string res"

definition body_size :: "request \<Rightarrow> int res" where
  "body_size r = py_int (case rq_content_length r of Some s \<Rightarrow> s | None \<Rightarrow> ''0'')"

definition read_body :: "int \<Rightarrow> request \<Rightarrow> string res" where
  "read_body n r = bindR (rq_body r) (\<lambda>b. Inr (take (nat n) b))"

definition demo_get :: "demo_router \<Rightarrow> string \<Rightarrow> string \<Rightarrow> reply" where
  "demo_get d metrics path =
     (if path = ''/__admin/state''
      then json_reply 200 (dump (\<lambda>_. []) '', '' '': '' (JObj [(''canary_weight'', JInt (dr_weight d))]))
      else if path = ''/metrics'' then json_reply 200 metrics
      else if path = ''/health/ready'' then json_reply 200 (dump (\<lambda>_. []) '','' '':'' (JObj [(''status'', JStr ''ready'')]))
      else json_reply 404 ''{}'')"

text \<open>The first \<open>try\<close> of \<open>do_POST\<close>: an admin request is answered, any other one passes its body on.\<close>

definition demo_admin :: "(string \<Rightarrow> json option) \<Rightarrow> request \<Rightarrow> (int + string) res" where
  "demo_admin loads r =
     bindR (body_size r) (\<lambda>size.
     bindR (requireR (0 < size \<and> size \<le> 1048576) (ValueError [])) (\<lambda>_.
     bindR (read_body size r) (\<lambda>body.
     if rq_path r \<noteq> ''/__admin/weight'' then Inr (Inr body)
     else bindR (case loads body of Some v \<Rightarrow> Inr v | None \<Rightarrow> Inl (ValueError ''JSONDecodeError'')) (\<lambda>j.
          bindR (jget ''canary_weight'' j) (\<lambda>value.
            case value of
              JInt i \<Rightarrow> if i \<in> {0, 10, 25, 50, 100} then Inr (Inl i) else Inl (ValueError [])
            | _ \<Rightarrow> Inl (ValueError []))))))"

definition demo_post ::
  "(string \<Rightarrow> json option) \<Rightarrow> (track \<Rightarrow> string \<Rightarrow> ('w, opened) prog) \<Rightarrow> request \<Rightarrow> demo_router
    \<Rightarrow> ('w, reply \<times> demo_router) prog" where
  "demo_post loads send r d =
     (case demo_admin loads r of
        Inl e \<Rightarrow>
          if is_value_error e \<or> is_key_error e \<or> is_type_error e
          then retP (json_reply 400 (dump (\<lambda>_. []) '','' '':'' (JObj [(''error'', JStr ''invalid request'')])), d)
          else raiseP e
      | Inr (Inl value) \<Rightarrow>
          retP (json_reply 200 (dump (\<lambda>_. []) '', '' '': '' (JObj [(''canary_weight'', JInt value)])),
                \<lparr>dr_weight = value, dr_sequence = 0\<rparr>)
      | Inr (Inr body) \<Rightarrow>
          if rq_path r \<noteq> ''/api/v1/predict'' then retP (json_reply 404 ''{}'', d)
          else let tr = choose_track (dr_sequence d) (dr_weight d);
                   d' = d\<lparr>dr_sequence := dr_sequence d + 1\<rparr>
               in attemptP (send tr body) (\<lambda>out.
                    let answer = (\<lambda>status data. retP ((json_reply status data)\<lparr>re_track := Some tr\<rparr>, d'))
                    in case out of
                         Inr (Opened h) \<Rightarrow> answer (hr_status h) (hr_body h)
                       | Inr (ErrorStatus h) \<Rightarrow> answer (hr_status h) (hr_body h)
                       | Inl e \<Rightarrow>
                           if is_transport_error e
                           then answer 502 (dump (\<lambda>_. []) '','' '':'' (JObj [(''error'', JStr ''upstream unavailable'')]))
                           else raiseP e))"

section \<open>The routing state\<close>

text \<open>The parts of a release state the router reads; both state versions have them.\<close>

record route_view =
  rv_weight :: int
  rv_revision :: int
  rv_active :: bool
  rv_lease_until :: "rat option"

definition view_v2 :: "release_state \<Rightarrow> route_view" where
  "view_v2 s =
     \<lparr>rv_weight = rt_weight (st_route s), rv_revision = rt_revision (st_route s),
      rv_active = (st_active s \<noteq> None), rv_lease_until = map_option le_until (st_lease s)\<rparr>"

record routing =
  ro_state :: "route_view option"
  ro_updated :: rat
  ro_sequence :: int
  ro_revision :: int

definition routing_start :: routing where
  "routing_start = \<lparr>ro_state = None, ro_updated = 0, ro_sequence = 0, ro_revision = -1\<rparr>"

definition routing_set :: "('w, rat) prog \<Rightarrow> route_view \<Rightarrow> routing \<Rightarrow> ('w, routing) prog" where
  "routing_set clock v r =
     (let r' = (if rv_revision v \<noteq> ro_revision r
                then r\<lparr>ro_sequence := 0, ro_revision := rv_revision v\<rparr> else r)
      in bindP clock (\<lambda>now. retP (r'\<lparr>ro_state := Some v, ro_updated := now\<rparr>)))"

record route_status =
  rs_ready :: bool
  rs_weight :: int
  rs_revision :: int

text \<open>
  \<open>status\<close>: the state must be at most 10 seconds old and, while a release is active, the lease of
  its controller must not have expired. The weight of a router that is not ready is 0.
\<close>

definition routing_status :: "('w, rat) prog \<Rightarrow> routing \<Rightarrow> ('w, route_status) prog" where
  "routing_status clock r =
     bindP clock (\<lambda>now.
       case ro_state r of
         None \<Rightarrow> retP \<lparr>rs_ready = False, rs_weight = 0, rs_revision = -1\<rparr>
       | Some v \<Rightarrow>
           bindP
             (if now - ro_updated r > 10 then retP False
              else if \<not> rv_active v then retP True
              else case rv_lease_until v of
                     None \<Rightarrow> retP False
                   | Some t \<Rightarrow> bindP clock (\<lambda>later. retP (t > later)))
             (\<lambda>ok. retP \<lparr>rs_ready = ok, rs_weight = (if ok then rv_weight v else 0), rs_revision = ro_revision r\<rparr>))"

definition choose_route :: "('w, rat) prog \<Rightarrow> routing \<Rightarrow> ('w, track option \<times> routing) prog" where
  "choose_route clock r =
     bindP (routing_status clock r) (\<lambda>st.
       if \<not> rs_ready st then retP (None, r)
       else retP (Some (choose_track (ro_sequence r) (rs_weight st)), r\<lparr>ro_sequence := ro_sequence r + 1\<rparr>))"

text \<open>\<open>BoundedServer\<close>: 64 slots; a connection that finds none is closed.\<close>

definition process_request :: "nat \<Rightarrow> bool \<times> nat" where
  "process_request free = (if free = 0 then (False, 0) else (True, free - 1))"

definition process_request_done :: "nat \<Rightarrow> nat" where
  "process_request_done free = free + 1"

definition status_body :: "route_status \<Rightarrow> string" where
  "status_body st = dump (\<lambda>_. []) '', '' '': ''
     (JObj [(''ready'', JBool (rs_ready st)), (''weight'', JInt (rs_weight st)), (''revision'', JInt (rs_revision st))])"

section \<open>The legacy gateway\<close>

definition error_body :: "string \<Rightarrow> string" where
  "error_body e = dump (\<lambda>_. []) '','' '':'' (JObj [(''error'', JStr e)])"

definition legacy_get :: "string \<Rightarrow> route_status \<Rightarrow> string \<Rightarrow> reply" where
  "legacy_get metrics st path =
     (if path = ''/metrics'' then json_reply 200 metrics
      else if path = ''/state'' then json_reply 200 (status_body st)
      else if path = ''/health/live'' then json_reply 200 (dump (\<lambda>_. []) '','' '':'' (JObj [(''status'', JStr ''ok'')]))
      else if path = ''/health/ready'' then json_reply (if rs_ready st then 200 else 503) (status_body st)
      else json_reply 404 ''{}'')"

datatype checked_body = Answer reply | Body string

definition legacy_body :: "(string \<Rightarrow> json option) \<Rightarrow> request \<Rightarrow> checked_body res" where
  "legacy_body loads r =
     bindR (body_size r) (\<lambda>size.
     if \<not> (0 < size \<and> size \<le> 1048576) then Inr (Answer (json_reply 413 (error_body ''body_size'')))
     else bindR (read_body size r) (\<lambda>b.
     if int (length b) \<noteq> size then Inr (Answer (json_reply 400 (error_body ''truncated_body'')))
     else case loads b of Some _ \<Rightarrow> Inr (Body b) | None \<Rightarrow> Inl (ValueError ''JSONDecodeError'')))"

definition or_json :: "string option \<Rightarrow> string" where
  "or_json k = (case k of Some s \<Rightarrow> s | None \<Rightarrow> ''application/json'')"

definition legacy_answer :: "opened \<Rightarrow> track \<Rightarrow> reply" where
  "legacy_answer out tr =
     (case out of
        Opened h \<Rightarrow>
          if length (take 1048577 (hr_body h)) > 1048576
          then \<lparr>re_status = 502, re_body = error_body ''response_too_large'',
                re_kind = or_json (hr_content_type h), re_track = Some tr\<rparr>
          else \<lparr>re_status = hr_status h, re_body = hr_body h, re_kind = or_json (hr_content_type h), re_track = Some tr\<rparr>
      | ErrorStatus h \<Rightarrow>
          \<lparr>re_status = hr_status h, re_body = take 1048576 (hr_body h), re_kind = ''application/json'', re_track = Some tr\<rparr>)"

definition legacy_post ::
  "(string \<Rightarrow> json option) \<Rightarrow> ('w, rat) prog \<Rightarrow> (track \<Rightarrow> string \<Rightarrow> ('w, opened) prog) \<Rightarrow> request \<Rightarrow> routing
    \<Rightarrow> ('w, reply \<times> routing) prog" where
  "legacy_post loads clock send r ro =
     (if rq_path r \<noteq> ''/predict'' then retP (json_reply 404 ''{}'', ro)
      else case legacy_body loads r of
        Inl e \<Rightarrow>
          if is_value_error e \<or> e = TimeoutError then retP (json_reply 400 (error_body ''invalid_request''), ro)
          else raiseP e
      | Inr (Answer a) \<Rightarrow> retP (a, ro)
      | Inr (Body b) \<Rightarrow>
          bindP (choose_route clock ro) (\<lambda>(tr, ro').
            case tr of
              None \<Rightarrow> retP (json_reply 503 (error_body ''release_state_unavailable''), ro')
            | Some t \<Rightarrow>
                attemptP (send t b) (\<lambda>out.
                  case out of
                    Inr o' \<Rightarrow> retP (legacy_answer o' t, ro')
                  | Inl e \<Rightarrow>
                      if is_transport_error e
                      then retP ((json_reply 502 (error_body ''backend_unavailable''))\<lparr>re_track := Some t\<rparr>, ro')
                      else raiseP e)))"

section \<open>The V2 proxy\<close>

abbreviation MAX_BODY :: int where
  "MAX_BODY \<equiv> 1048576"

fun lane_service :: "track \<Rightarrow> string" where
  "lane_service Stable = ''credit-risk-stable-v2''"
| "lane_service Canary = ''credit-risk-canary-v2''"

definition internal_address :: "json \<Rightarrow> track \<Rightarrow> string res" where
  "internal_address obj lane =
     bindR (jget_or ''status'' (JObj []) obj) (\<lambda>st.
     bindR (jget_or ''address'' (JObj []) st) (\<lambda>ad.
     bindR (jget_or ''url'' (JStr []) ad) (\<lambda>base.
     (case base of
        JStr b \<Rightarrow>
          bindR (urlsplit b) (\<lambda>u.
            if u_scheme u \<noteq> ''http''
               \<or> hostname u \<notin> {lane_service lane @ ''-predictor.production.svc'',
                                lane_service lane @ ''-predictor.production.svc.cluster.local''}
               \<or> username u \<noteq> [] \<or> u_query u \<noteq> [] \<or> u_fragment u \<noteq> [] \<or> u_path u \<notin> {[], ''/''}
            then Inl (ValueError ''Missing or unexpected internal KServe address'')
            else Inr (rstrip_by (\<lambda>c. c = CHR ''/'') b))
      | _ \<Rightarrow> Inl AttributeError))))"

definition infer_path :: "string \<Rightarrow> string" where
  "infer_path model = ''/v2/models/'' @ model @ ''/infer''"

definition forward ::
  "(string \<Rightarrow> string \<Rightarrow> string \<Rightarrow> ('w, opened) prog) \<Rightarrow> string \<Rightarrow> track \<Rightarrow> string \<Rightarrow> string
    \<Rightarrow> ('w, reply) prog" where
  "forward opener base lane body content_type =
     attemptP (opener (base @ infer_path (lane_service lane)) body content_type) (\<lambda>out.
       case out of
         Inr o' \<Rightarrow>
           let h = (case o' of Opened h \<Rightarrow> h | ErrorStatus h \<Rightarrow> h);
               data = take (nat MAX_BODY + 1) (hr_body h)
           in if int (length data) > MAX_BODY then retP (json_reply 502 (error_body ''response_too_large''))
              else retP \<lparr>re_status = hr_status h, re_body = data, re_kind = or_json (hr_content_type h), re_track = None\<rparr>
       | Inl e \<Rightarrow>
           if is_transport_error e then retP (json_reply 502 (error_body ''backend_unavailable'')) else raiseP e)"

definition v2_get :: "string \<Rightarrow> route_status \<Rightarrow> string \<Rightarrow> reply" where
  "v2_get metrics st path =
     (if path = ''/metrics'' then json_reply 200 metrics
      else if path = ''/state'' then json_reply 200 (status_body st)
      else if path = ''/health/live'' then json_reply 200 ''{}''
      else if path = ''/health/ready'' then json_reply (if rs_ready st then 200 else 503) ''{}''
      else json_reply 404 ''{}'')"

definition v2_body :: "request \<Rightarrow> checked_body res" where
  "v2_body r =
     bindR (body_size r) (\<lambda>size.
     if \<not> (0 < size \<and> size \<le> MAX_BODY)
        \<or> (case rq_transfer_encoding r of Some t \<Rightarrow> t \<noteq> [] | None \<Rightarrow> False)
     then Inr (Answer (json_reply 413 ''{}''))
     else bindR (read_body size r) (\<lambda>b.
       if int (length b) \<noteq> size then Inr (Answer (json_reply 400 ''{}'')) else Inr (Body b)))"

definition v2_post ::
  "('w, rat) prog \<Rightarrow> (string \<Rightarrow> string \<Rightarrow> string \<Rightarrow> ('w, opened) prog) \<Rightarrow> (track \<rightharpoonup> string) \<Rightarrow> request \<Rightarrow> routing
    \<Rightarrow> ('w, reply \<times> routing) prog" where
  "v2_post clock opener addresses r ro =
     (if rq_path r \<noteq> infer_path MODEL then retP (json_reply 404 ''{}'', ro)
      else case v2_body r of
        Inl e \<Rightarrow>
          if is_value_error e \<or> e = TimeoutError then retP (json_reply 400 ''{}'', ro) else raiseP e
      | Inr (Answer a) \<Rightarrow> retP (a, ro)
      | Inr (Body b) \<Rightarrow>
          bindP (choose_route clock ro) (\<lambda>(tr, ro').
            case (tr, Option.bind tr addresses) of
              (Some t, Some base) \<Rightarrow>
                bindP (forward opener base t b (or_json (rq_content_type r)))
                  (\<lambda>a. retP (a\<lparr>re_track := Some t\<rparr>, ro'))
            | _ \<Rightarrow> retP (json_reply 503 (error_body ''release_state_unavailable''), ro')))"

text \<open>
  One round of \<open>sync\<close>: discover the addresses, read the state, and only then replace both. On an
  exception the router keeps what it had and the age of its state grows.
\<close>

definition discover :: "(string \<Rightarrow> ('w, json) prog) \<Rightarrow> track \<Rightarrow> (track \<rightharpoonup> string) \<Rightarrow> ('w, track \<rightharpoonup> string) prog" where
  "discover get lane found =
     bindP (get (lane_service lane)) (\<lambda>obj.
       if truthy obj then bindP (liftP (internal_address obj lane)) (\<lambda>a. retP (found(lane \<mapsto> a)))
       else retP found)"

definition sync_once ::
  "('w, rat) prog \<Rightarrow> (string \<Rightarrow> ('w, json) prog) \<Rightarrow> ('w, release_state) prog
    \<Rightarrow> (track \<rightharpoonup> string) \<times> routing \<Rightarrow> ('w, (track \<rightharpoonup> string) \<times> routing) prog" where
  "sync_once clock get read_state old =
     catchP
       (bindP (discover get Stable Map.empty) (\<lambda>d1.
        bindP (discover get Canary d1) (\<lambda>d2.
        bindP read_state (\<lambda>s.
          if st_stable s = None \<or> d2 Stable = None then raiseP (ValueError ''Stable baseline unavailable'')
          else bindP (routing_set clock (view_v2 s) (snd old)) (\<lambda>r. retP (d2, r))))))
       (\<lambda>_. retP old)"

end
