(* ===== verification/LegacyRelease.thy ===== *)
theory LegacyRelease
  imports CasStore Policy
begin

text \<open>
  The legacy control plane: \<open>control_plane/state.py\<close> (image candidates, ingestion, operator retry)
  and \<open>control_plane/controller.py\<close> (its release controller). Its state is never migrated to v2.
  A missing \<open>source_time\<close> and the value 0 mean the same to every reader, so the model has 0.
  \<open>time.time\<close>, which stamps audit rows, is a program of its own beside the controller's clock.
\<close>

section \<open>State\<close>

definition LEGACY_MODEL :: string where
  "LEGACY_MODEL = ''credit-risk-classifier''"

definition LEGACY_REPOSITORY :: string where
  "LEGACY_REPOSITORY = ''mlflow-models''"

definition REGISTRY :: string where
  "REGISTRY = ''378457871131''"

definition REGION :: string where
  "REGION = ''ap-southeast-1''"

definition BASE_DIGEST :: string where
  "BASE_DIGEST = ''sha256:45dcaf3b993483344e55f71d7486cc83ab76fd9cff8a6690318449df48d4a3a5''"

record candidate =
  lc_version :: int
  lc_digest :: string
  lc_source_time :: rat

datatype legacy_phase = L_PREPARING | L_RAMP | L_FINALIZING | L_DRAINING | L_ROLLBACK | L_BLOCKED

fun legacy_phase_name :: "legacy_phase \<Rightarrow> string" where
  "legacy_phase_name L_PREPARING = ''PREPARING''"
| "legacy_phase_name L_RAMP = ''RAMP''"
| "legacy_phase_name L_FINALIZING = ''FINALIZING''"
| "legacy_phase_name L_DRAINING = ''DRAINING''"
| "legacy_phase_name L_ROLLBACK = ''ROLLBACK''"
| "legacy_phase_name L_BLOCKED = ''BLOCKED''"

record legacy_active =
  la_candidate :: candidate
  la_phase :: legacy_phase
  la_deadline :: rat
  la_stage_since :: "rat option"
  la_previous_stable :: candidate
  la_reason :: "string option"
  la_restore_stable :: bool

record legacy_failure =
  lf_digest :: string
  lf_version :: int
  lf_source_time :: rat
  lf_reason :: string
  lf_time :: rat

record legacy_audit_row =
  lu_time :: rat
  lu_reason :: string
  lu_fields :: "(string \<times> json) list"

record legacy_state =
  lg_stable :: candidate
  lg_active :: "legacy_active option"
  lg_pending :: "candidate list"
  lg_processed :: "string list"
  lg_failed :: "legacy_failure list"
  lg_audit :: "legacy_audit_row list"
  lg_weight :: int
  lg_revision :: int
  lg_lease :: "(string \<times> rat) option"

definition legacy_initial_state :: legacy_state where
  "legacy_initial_state =
     \<lparr>lg_stable = \<lparr>lc_version = 1, lc_digest = BASE_DIGEST, lc_source_time = 0\<rparr>, lg_active = None,
      lg_pending = [], lg_processed = [BASE_DIGEST], lg_failed = [], lg_audit = [], lg_weight = 0,
      lg_revision = 0, lg_lease = None\<rparr>"

definition candidate_fields :: "candidate \<Rightarrow> (string \<times> json) list" where
  "candidate_fields c =
     [(''version'', JInt (lc_version c)), (''digest'', JStr (lc_digest c)), (''source_time'', jrat (lc_source_time c))]"

definition candidate_json :: "candidate \<Rightarrow> json" where
  "candidate_json c = JObj ((''model'', JStr LEGACY_MODEL) # candidate_fields c)"

definition legacy_active_json :: "legacy_active \<Rightarrow> json" where
  "legacy_active_json a = JObj
     ((''model'', JStr LEGACY_MODEL) # candidate_fields (la_candidate a) @
      [(''phase'', JStr (legacy_phase_name (la_phase a))), (''deadline'', jrat (la_deadline a)),
       (''stage_since'', opt_json (\<lambda>t. jrat t) (la_stage_since a)),
       (''previous_stable'', JObj (candidate_fields (la_previous_stable a)))]
      @ (case la_reason a of None \<Rightarrow> [] | Some r \<Rightarrow> [(''reason'', JStr r), (''restore_stable'', JBool (la_restore_stable a))]))"

definition legacy_failure_json :: "legacy_failure \<Rightarrow> json" where
  "legacy_failure_json f = JObj
     [(''digest'', JStr (lf_digest f)), (''version'', JInt (lf_version f)), (''source_time'', jrat (lf_source_time f)),
      (''reason'', JStr (lf_reason f)), (''time'', jrat (lf_time f))]"

definition legacy_json :: "legacy_state \<Rightarrow> json" where
  "legacy_json s = JObj
     [(''schema'', JInt 1), (''model'', JStr LEGACY_MODEL), (''stable'', JObj (candidate_fields (lg_stable s))),
      (''active'', opt_json legacy_active_json (lg_active s)), (''pending'', JArr (map candidate_json (lg_pending s))),
      (''processed'', JArr (map JStr (lg_processed s))), (''failed'', JArr (map legacy_failure_json (lg_failed s))),
      (''audit'', JArr (map (\<lambda>r. JObj ((''time'', jrat (lu_time r)) # (''reason'', JStr (lu_reason r)) # lu_fields r)) (lg_audit s))),
      (''route'', JObj [(''weight'', JInt (lg_weight s)), (''revision'', JInt (lg_revision s))]),
      (''lease'', opt_json (\<lambda>(o', u). JObj [(''owner'', JStr o'), (''until'', jrat u)]) (lg_lease s))]"

definition legacy_audit :: "('w, rat) prog \<Rightarrow> string \<Rightarrow> (string \<times> json) list \<Rightarrow> legacy_state \<Rightarrow> ('w, legacy_state) prog" where
  "legacy_audit time reason info s =
     bindP time (\<lambda>t. retP (s\<lparr>lg_audit := last_n 100 (lg_audit s @ [\<lparr>lu_time = t, lu_reason = reason, lu_fields = info\<rparr>])\<rparr>))"

section \<open>Candidates\<close>

text \<open>
  \<open>TAG\<close>: a model name, \<open>-v\<close> and a decimal version. The version is the whole run of digits at the
  end, because the character before it must be \<open>v\<close>.
\<close>

definition match_tag :: "string \<Rightarrow> (string \<times> string) option" where
  "match_tag s =
     (let ds = rev (takeWhile digit (rev s));
          rest = take (length s - length ds) s;
          model = take (length rest - 2) rest
      in if ds \<noteq> [] \<and> ends_with ''-v'' rest \<and> model \<noteq> [] \<and> CHR 0x0A \<notin> set model then Some (model, ds) else None)"

text \<open>The pair of Python, a candidate or the reason for refusing it, as a sum.\<close>

definition parse_candidate :: "json \<Rightarrow> json \<Rightarrow> rat \<Rightarrow> string + candidate" where
  "parse_candidate tag digest stamp =
     (case (if is_str tag then match_tag (str_of tag) else None) of
        None \<Rightarrow> Inl ''noncanonical''
      | Some (model, ds) \<Rightarrow>
          if model \<noteq> LEGACY_MODEL then Inl ''model_not_allowed''
          else if \<not> (is_str digest \<and> rx_digest (str_of digest)) then Inl ''invalid_digest''
          else let version = int (digits_value ds)
               in if version < 1 \<or> version > 2147483647 then Inl ''invalid_version''
                  else Inr \<lparr>lc_version = version, lc_digest = str_of digest, lc_source_time = stamp\<rparr>)"

text \<open>The time of an event: nothing, or an ISO string. A value of another type has no \<open>replace\<close>.\<close>

definition event_time :: "pylib \<Rightarrow> json \<Rightarrow> rat res" where
  "event_time L raw =
     (if \<not> truthy raw then Inr 0
      else case raw of
             JStr s \<Rightarrow>
               (case lib_fromiso L (concat (map (\<lambda>c. if c = CHR ''Z'' then ''+00:00'' else [c]) s)) of
                  Some (t, _) \<Rightarrow> Inr t | None \<Rightarrow> Inl (ValueError ''Invalid isoformat string''))
           | _ \<Rightarrow> Inl AttributeError)"

definition checked_detail :: "json \<Rightarrow> (string + json) res" where
  "checked_detail ev =
     (if \<not> is_dict ev then Inr (Inl ''invalid_event'')
      else bindR (jget_or ''detail'' JNull ev) (\<lambda>detail.
      if \<not> is_dict detail then Inr (Inl ''invalid_event'')
      else bindR (jget_or ''detail-type'' JNull ev) (\<lambda>kind.
           bindR (jget_or ''source'' (JStr ''aws.ecr'') ev) (\<lambda>src.
           bindR (jget_or ''account'' (JStr REGISTRY) ev) (\<lambda>account.
           bindR (jget_or ''region'' (JStr REGION) ev) (\<lambda>region.
           bindR (jget_or ''action-type'' JNull detail) (\<lambda>action.
           bindR (jget_or ''result'' JNull detail) (\<lambda>result.
           bindR (jget_or ''repository-name'' JNull detail) (\<lambda>repo.
             Inr (if kind \<noteq> JStr ''ECR Image Action'' then Inl ''wrong_event_type''
                  else if src \<noteq> JStr ''aws.ecr'' then Inl ''wrong_source''
                  else if account \<noteq> JStr REGISTRY \<or> region \<noteq> JStr REGION then Inl ''wrong_origin''
                  else if action \<noteq> JStr ''PUSH'' then Inl ''wrong_action''
                  else if result \<noteq> JStr ''SUCCESS'' then Inl ''failed_push''
                  else if repo \<noteq> JStr LEGACY_REPOSITORY then Inl ''wrong_repository''
                  else Inr detail))))))))))"

definition event_candidate_checked :: "pylib \<Rightarrow> (string \<Rightarrow> json option) \<Rightarrow> string \<Rightarrow> (string + candidate) res" where
  "event_candidate_checked L loads body =
     bindR (case loads body of Some v \<Rightarrow> Inr v | None \<Rightarrow> Inl (ValueError ''JSONDecodeError'')) (\<lambda>ev.
     bindR (checked_detail ev) (\<lambda>out.
       case out of
         Inl reason \<Rightarrow> Inr (Inl reason)
       | Inr detail \<Rightarrow>
           bindR (jget_or ''time'' JNull ev) (\<lambda>raw. bindR (event_time L raw) (\<lambda>stamp.
           bindR (jget_or ''image-tag'' JNull detail) (\<lambda>tag. bindR (jget_or ''image-digest'' JNull detail) (\<lambda>d.
             Inr (parse_candidate tag d stamp)))))))"

definition event_candidate :: "pylib \<Rightarrow> (string \<Rightarrow> json option) \<Rightarrow> string \<Rightarrow> (string + candidate) res" where
  "event_candidate L loads body =
     (case event_candidate_checked L loads body of
        Inr out \<Rightarrow> Inr out
      | Inl e \<Rightarrow>
          if is_value_error e \<or> is_type_error e \<or> e = OverflowError then Inr (Inl ''invalid_event'') else Inl e)"

section \<open>Ingestion\<close>

definition known_digests :: "legacy_state \<Rightarrow> string set" where
  "known_digests s =
     set (lg_processed s) \<union> lf_digest ` set (lg_failed s) \<union> lc_digest ` set (lg_pending s)
     \<union> {lc_digest (lg_stable s)} \<union> (case lg_active s of None \<Rightarrow> {} | Some a \<Rightarrow> {lc_digest (la_candidate a)})"

definition stale_rebuild :: "candidate \<Rightarrow> candidate \<Rightarrow> bool" where
  "stale_rebuild c base \<longleftrightarrow>
     lc_version c = lc_version base \<and> 0 < lc_source_time base \<and> lc_source_time c \<le> lc_source_time base"

definition or_invalid :: "string option \<Rightarrow> string" where
  "or_invalid reason = (case reason of Some r \<Rightarrow> if r = [] then ''invalid_event'' else r | None \<Rightarrow> ''invalid_event'')"

definition legacy_ingest ::
  "('w, rat) prog \<Rightarrow> candidate option \<Rightarrow> string option \<Rightarrow> json \<Rightarrow> legacy_state \<Rightarrow> ('w, string \<times> legacy_state) prog" where
  "legacy_ingest time cand reason event_id s =
     (let done = (\<lambda>r s'. bindP (legacy_audit time r
            [(''event_id'', event_id), (''digest'', opt_json (\<lambda>c. JStr (lc_digest c)) cand)] s')
            (\<lambda>t. retP (r, t)))
      in case cand of
           None \<Rightarrow> done (or_invalid reason) s
         | Some c \<Rightarrow>
             if lc_digest c \<in> known_digests s then done ''duplicate'' s
             else if lc_version c < lc_version (lg_stable s) then done ''stale'' s
             else if stale_rebuild c (lg_stable s) then done ''stale_rebuild'' s
             else if length (lg_pending s) \<ge> 20 then raiseP (Busy ''Pending release queue full'')
             else done ''accepted'' (s\<lparr>lg_pending := lg_pending s @ [c]\<rparr>))"

definition candidate_before :: "candidate \<Rightarrow> candidate \<Rightarrow> bool" where
  "candidate_before a b \<longleftrightarrow>
     lc_source_time a < lc_source_time b \<or> (lc_source_time a = lc_source_time b \<and> lc_digest a < lc_digest b)"

text \<open>
  \<open>reconcile_candidates\<close> over the described images; \<open>ei_pushed\<close> is the push time as a number, 0
  when missing.
\<close>

record ecr_image =
  ei_tags :: "json list"
  ei_digest :: json
  ei_pushed :: rat

definition image_candidates :: "ecr_image \<Rightarrow> candidate list" where
  "image_candidates i =
     List.map_filter (\<lambda>t. case parse_candidate t (ei_digest i) (ei_pushed i) of Inr c \<Rightarrow> Some c | Inl _ \<Rightarrow> None)
       (ei_tags i)"

definition reconcile_candidates :: "ecr_image list \<Rightarrow> candidate list" where
  "reconcile_candidates details =
     (let cs = concat (map image_candidates details)
      in if cs = [] then []
         else let highest = Max (lc_version ` set cs)
              in case filter (\<lambda>c. lc_version c = highest) cs of
                   [] \<Rightarrow> []
                 | c # rest \<Rightarrow> [max_by candidate_before c rest])"

section \<open>The store\<close>

type_synonym 'w legacy_backend = "('w, string, legacy_state) backend"

definition size_bound :: "pylib \<Rightarrow> legacy_state \<Rightarrow> unit res" where
  "size_bound L s =
     requireR (int (length (plain_dumps L (legacy_json s))) \<le> 500000) (Busy ''State size bound exceeded'')"

definition legacy_update ::
  "pylib \<Rightarrow> 'w legacy_backend \<Rightarrow> (legacy_state \<Rightarrow> ('w, 'a \<times> legacy_state) prog) \<Rightarrow> ('w, 'a) prog" where
  "legacy_update L be mutate =
     update_loop (\<lambda>_. Inr ()) (size_bound L) ''State optimistic concurrency retries exhausted'' be 8 mutate"

definition legacy_read :: "'w legacy_backend \<Rightarrow> ('w, legacy_state) prog" where
  "legacy_read be = store_read (\<lambda>_. Inr ()) be"

definition legacy_enqueue ::
  "pylib \<Rightarrow> 'w legacy_backend \<Rightarrow> ('w, rat) prog \<Rightarrow> candidate option \<Rightarrow> string option \<Rightarrow> json \<Rightarrow> ('w, string) prog" where
  "legacy_enqueue L be time cand reason event_id = legacy_update L be (legacy_ingest time cand reason event_id)"

text \<open>\<open>operator_retry\<close>: a failed digest goes back to the queue unless it would regress the stable one.\<close>

definition retry_mutator ::
  "('w, rat) prog \<Rightarrow> string \<Rightarrow> int \<Rightarrow> string \<Rightarrow> string \<Rightarrow> legacy_state \<Rightarrow> ('w, candidate \<times> legacy_state) prog" where
  "retry_mutator time digest version operator note s =
     (let matches = filter (\<lambda>f. lf_digest f = digest \<and> lf_version f = version) (lg_failed s);
          previous = last matches;
          c = \<lparr>lc_version = version, lc_digest = digest, lc_source_time = lf_source_time previous\<rparr>
      in bindP (liftP (guards
           [(lg_active s = None, Busy ''An active release conflicts with retry''),
            (\<forall>x \<in> set (lg_pending s). lc_digest x \<noteq> digest, Busy ''Digest already pending''),
            (matches \<noteq> [], ValueError ''Failed digest/version not found''),
            (digest \<noteq> lc_digest (lg_stable s) \<and> digest \<notin> set (lg_processed s),
             Busy ''Digest is already stable or processed''),
            (\<not> (version < lc_version (lg_stable s)) \<and> \<not> stale_rebuild c (lg_stable s),
             Busy ''Retry would regress current Stable''),
            (length (lg_pending s) < 20, Busy ''Pending release queue full'')])) (\<lambda>_.
         bindP (legacy_audit time ''operator_retry''
             [(''digest'', JStr digest), (''version'', JInt version), (''operator'', JStr operator), (''note'', JStr note),
              (''previous_failure'', JStr (lf_reason previous))]
             (s\<lparr>lg_pending := lg_pending s @ [c]\<rparr>)) (\<lambda>s'. retP (c, s'))))"

definition operator_retry ::
  "pylib \<Rightarrow> 'w legacy_backend \<Rightarrow> ('w, rat) prog \<Rightarrow> string \<Rightarrow> int \<Rightarrow> string \<Rightarrow> string \<Rightarrow> ('w, candidate) prog" where
  "operator_retry L be time digest version operator note =
     bindP (liftP (guards
       [(rx_digest digest \<and> strip operator \<noteq> [] \<and> strip note \<noteq> [],
         ValueError ''Digest, operator and explanation are required''),
        (length operator \<le> 128 \<and> length note \<le> 1024, ValueError ''Audit fields too long'')])) (\<lambda>_.
     legacy_update L be (retry_mutator time digest version operator note))"

section \<open>Effects\<close>

definition TRANSPORT_WAIT :: exn where
  "TRANSPORT_WAIT = OtherError ''BackendTransportUnavailable''"

record 'w legacy_effects =
  le_ensure :: "string \<Rightarrow> string \<Rightarrow> int \<Rightarrow> ('w, unit) prog"
  le_kube_ready :: "string \<Rightarrow> string \<Rightarrow> ('w, bool) prog"
  le_api :: "string \<Rightarrow> ('w, json) prog"
  le_metrics :: "('w, metrics) prog"

text \<open>\<open>str(value) == str(version)\<close>: only a string or an integer can print as one.\<close>

definition names_version :: "json \<Rightarrow> int \<Rightarrow> bool" where
  "names_version j v = (case j of JStr s \<Rightarrow> s = int_str v | JInt i \<Rightarrow> i = v | _ \<Rightarrow> False)"

definition legacy_ready :: "'w legacy_effects \<Rightarrow> string \<Rightarrow> candidate \<Rightarrow> bool \<Rightarrow> ('w, bool) prog" where
  "legacy_ready F track c wait_transport =
     bindP (le_kube_ready F track (lc_digest c)) (\<lambda>deployed.
     if \<not> deployed then retP False
     else let base = ''http://credit-risk-classifier-'' @ track @ '':8080''
          in bindP (catchP
               (bindP (le_api F (base @ ''/health'')) (\<lambda>_. le_api F (base @ ''/metadata'')))
               (\<lambda>e. if \<not> is_http_error e \<and> is_transport_error e \<and> wait_transport
                    then raiseP TRANSPORT_WAIT else raiseP e)) (\<lambda>m.
             bindP (liftP (bindR (jget_or ''model_name'' JNull m) (\<lambda>n.
                           bindR (jget_or ''model_version'' JNull m) (\<lambda>v.
                             requireR (n = JStr LEGACY_MODEL \<and> names_version v (lc_version c))
                               (ValueError ''Backend metadata contract mismatch''))))) (\<lambda>_. retP True)))"

definition legacy_router :: "'w legacy_effects \<Rightarrow> ('w, json) prog" where
  "legacy_router F = le_api F ''http://credit-risk-router:8080/state''"

section \<open>The controller\<close>

record 'w legacy_controller =
  lk_lib :: pylib
  lk_owner :: string
  lk_policy :: policy
  lk_clock :: "('w, rat) prog"
  lk_time :: "('w, rat) prog"
  lk_backend :: "'w legacy_backend"
  lk_effects :: "'w legacy_effects"

type_synonym ('w, 'a) legacy_mutator = "legacy_state \<Rightarrow> ('w, 'a \<times> legacy_state) prog"

definition legacy_route :: "int \<Rightarrow> legacy_state \<Rightarrow> legacy_state" where
  "legacy_route weight s =
     (if lg_weight s \<noteq> weight then s\<lparr>lg_weight := weight, lg_revision := lg_revision s + 1\<rparr> else s)"

definition legacy_claim_lease :: "'w legacy_controller \<Rightarrow> ('w, bool) legacy_mutator" where
  "legacy_claim_lease K s =
     (let grant = bindP (lk_clock K) (\<lambda>now. retP (True, s\<lparr>lg_lease := Some (lk_owner K, now + 60)\<rparr>))
      in case lg_lease s of
           Some (owner, until) \<Rightarrow>
             if owner \<noteq> lk_owner K
             then bindP (lk_clock K) (\<lambda>now. if until > now then retP (False, s) else grant) else grant
         | None \<Rightarrow> grant)"

definition legacy_acquire :: "'w legacy_controller \<Rightarrow> ('w, bool) prog" where
  "legacy_acquire K = legacy_update (lk_lib K) (lk_backend K) (legacy_claim_lease K)"

definition check_lease :: "'w legacy_controller \<Rightarrow> rat \<Rightarrow> string \<Rightarrow> legacy_state \<Rightarrow> ('w, unit) prog" where
  "check_lease K margin message s =
     (case lg_lease s of
        None \<Rightarrow> raiseP (Busy message)
      | Some (owner, until) \<Rightarrow>
          if owner \<noteq> lk_owner K then raiseP (Busy message)
          else bindP (lk_clock K) (\<lambda>now. if until \<le> now + margin then raiseP (Busy message) else retP ()))"

definition legacy_guard :: "'w legacy_controller \<Rightarrow> ('w, legacy_state) prog" where
  "legacy_guard K =
     bindP (legacy_read (lk_backend K)) (\<lambda>s. thenP (check_lease K 10 ''Controller lease unavailable'' s) (retP s))"

definition legacy_change :: "'w legacy_controller \<Rightarrow> ('w, unit) legacy_mutator \<Rightarrow> ('w, unit) prog" where
  "legacy_change K f =
     legacy_update (lk_lib K) (lk_backend K) (\<lambda>s. thenP (check_lease K 0 ''Controller lease lost'' s) (f s))"

definition legacy_ensure :: "'w legacy_controller \<Rightarrow> string \<Rightarrow> string \<Rightarrow> int \<Rightarrow> ('w, unit) prog" where
  "legacy_ensure K track digest replicas =
     bindP (legacy_guard K) (\<lambda>_. le_ensure (lk_effects K) track digest replicas)"

definition legacy_deadline :: "'w legacy_controller \<Rightarrow> ('w, rat) prog" where
  "legacy_deadline K = bindP (lk_clock K) (\<lambda>now. retP (now + po_timeout (lk_policy K)))"

definition finish :: "'w legacy_controller \<Rightarrow> string \<Rightarrow> (string \<times> json) list \<Rightarrow> ('w, unit) legacy_mutator" where
  "finish K reason info s = bindP (legacy_audit (lk_time K) reason info s) (\<lambda>s'. retP ((), s'))"

definition rollback_mutator :: "'w legacy_controller \<Rightarrow> string \<Rightarrow> ('w, unit) legacy_mutator" where
  "rollback_mutator K reason s =
     (case lg_active s of
        None \<Rightarrow> retP ((), s)
      | Some a \<Rightarrow>
          if la_phase a \<in> {L_DRAINING, L_ROLLBACK, L_BLOCKED} then retP ((), s)
          else bindP (legacy_deadline K) (\<lambda>d.
            let late = (la_phase a = L_FINALIZING);
                s1 = s\<lparr>lg_active := Some (a\<lparr>la_phase := L_ROLLBACK, la_reason := Some reason, la_deadline := d,
                                           la_restore_stable := late\<rparr>)\<rparr>
            in finish K ''rollback_requested''
                 [(''digest'', JStr (lc_digest (la_candidate a))), (''reason_detail'', JStr reason)]
                 (if late then s1 else legacy_route 0 s1)))"

definition begin_rollback :: "'w legacy_controller \<Rightarrow> string \<Rightarrow> ('w, unit) prog" where
  "begin_rollback K reason = legacy_change K (rollback_mutator K reason)"

definition legacy_eligible :: "candidate \<Rightarrow> candidate \<Rightarrow> bool" where
  "legacy_eligible base c \<longleftrightarrow>
     lc_digest c \<noteq> lc_digest base
     \<and> (lc_version base < lc_version c
        \<or> lc_version c = lc_version base \<and> (lc_source_time base = 0 \<or> lc_source_time base < lc_source_time c))"

definition older :: "candidate \<Rightarrow> candidate \<Rightarrow> bool" where
  "older a b \<longleftrightarrow>
     lc_version a < lc_version b \<or> (lc_version a = lc_version b \<and> lc_source_time a < lc_source_time b)"

definition legacy_claim :: "'w legacy_controller \<Rightarrow> ('w, unit) legacy_mutator" where
  "legacy_claim K s =
     (case filter (legacy_eligible (lg_stable s)) (lg_pending s) of
        [] \<Rightarrow> retP ((), s\<lparr>lg_pending := []\<rparr>)
      | x # rest \<Rightarrow>
          let c = max_by older x rest
          in bindP (legacy_deadline K) (\<lambda>d.
             finish K ''release_started'' [(''digest'', JStr (lc_digest c)), (''version'', JInt (lc_version c))]
               (legacy_route 0 (s\<lparr>lg_pending := remove1 c (x # rest),
                  lg_active := Some \<lparr>la_candidate = c, la_phase = L_PREPARING, la_deadline = d, la_stage_since = None,
                    la_previous_stable = lg_stable s, la_reason = None, la_restore_stable = False\<rparr>\<rparr>))))"

definition active_update ::
  "legacy_state \<Rightarrow> ('w, legacy_active \<Rightarrow> legacy_active) prog \<Rightarrow> ('w, legacy_state) prog" where
  "active_update s m =
     (case lg_active s of
        None \<Rightarrow> raiseP AttributeError
      | Some a \<Rightarrow> bindP m (\<lambda>f. retP (s\<lparr>lg_active := Some (f a)\<rparr>)))"

definition legacy_arm :: "'w legacy_controller \<Rightarrow> ('w, unit) legacy_mutator" where
  "legacy_arm K s =
     bindP (active_update s (bindP (legacy_deadline K) (\<lambda>d.
       retP (\<lambda>a. a\<lparr>la_phase := L_RAMP, la_stage_since := None, la_deadline := d\<rparr>)))) (\<lambda>s'.
     retP ((), legacy_route 10 s'))"

definition legacy_start_stage :: "'w legacy_controller \<Rightarrow> ('w, unit) legacy_mutator" where
  "legacy_start_stage K s =
     bindP (active_update s (bindP (lk_clock K) (\<lambda>now. retP (\<lambda>a. a\<lparr>la_stage_since := Some now\<rparr>)))) (\<lambda>s'. retP ((), s'))"

definition metrics_json :: "metrics \<Rightarrow> json" where
  "metrics_json m = JObj (List.map_filter (\<lambda>k. map_option (\<lambda>f. (k, JFlt f)) (m k)) required_metrics)"

definition legacy_advance :: "'w legacy_controller \<Rightarrow> string \<Rightarrow> int \<Rightarrow> int \<Rightarrow> metrics \<Rightarrow> ('w, unit) legacy_mutator" where
  "legacy_advance K digest weight new m s =
     bindP (active_update (legacy_route new s) (bindP (legacy_deadline K) (\<lambda>d.
       retP (\<lambda>a. a\<lparr>la_stage_since := None, la_deadline := d\<rparr>)))) (\<lambda>s'.
     finish K ''stage_pass''
       [(''digest'', JStr digest), (''previous_weight'', JInt weight), (''weight'', JInt new), (''metrics'', metrics_json m)] s')"

definition legacy_finalizing :: "'w legacy_controller \<Rightarrow> ('w, unit) legacy_mutator" where
  "legacy_finalizing K s =
     bindP (active_update s (bindP (legacy_deadline K) (\<lambda>d.
       retP (\<lambda>a. a\<lparr>la_phase := L_FINALIZING, la_deadline := d\<rparr>)))) (\<lambda>s'. retP ((), s'))"

definition legacy_finalize :: "'w legacy_controller \<Rightarrow> candidate \<Rightarrow> ('w, unit) legacy_mutator" where
  "legacy_finalize K c s =
     bindP (active_update (legacy_route 0 (s\<lparr>lg_stable := c\<rparr>)) (bindP (legacy_deadline K) (\<lambda>d.
       retP (\<lambda>a. a\<lparr>la_phase := L_DRAINING, la_deadline := d\<rparr>)))) (\<lambda>s'.
     finish K ''stable_committed'' [(''digest'', JStr (lc_digest c)), (''version'', JInt (lc_version c))] s')"

definition legacy_complete :: "'w legacy_controller \<Rightarrow> string \<Rightarrow> ('w, unit) legacy_mutator" where
  "legacy_complete K digest s =
     finish K ''release_promoted'' [(''digest'', JStr digest)]
       (s\<lparr>lg_processed := last_n 100 (lg_processed s @ [digest]), lg_active := None\<rparr>)"

definition legacy_restored :: "('w, unit) legacy_mutator" where
  "legacy_restored s =
     bindP (active_update (legacy_route 0 s) (retP (\<lambda>a. a\<lparr>la_restore_stable := False\<rparr>))) (\<lambda>s'. retP ((), s'))"

definition legacy_block :: "('w, unit) legacy_mutator" where
  "legacy_block s = bindP (active_update s (retP (\<lambda>a. a\<lparr>la_phase := L_BLOCKED\<rparr>))) (\<lambda>s'. retP ((), s'))"

definition complete_rollback :: "'w legacy_controller \<Rightarrow> legacy_active \<Rightarrow> ('w, unit) legacy_mutator" where
  "complete_rollback K a s =
     (case la_reason a of
        None \<Rightarrow> raiseP (KeyError ''reason'')
      | Some reason \<Rightarrow>
          bindP (lk_clock K) (\<lambda>now.
          finish K ''release_rolled_back'' [(''digest'', JStr (lc_digest (la_candidate a)))]
            (s\<lparr>lg_failed := last_n 100 (lg_failed s @
                 [\<lparr>lf_digest = lc_digest (la_candidate a), lf_version = lc_version (la_candidate a),
                   lf_source_time = lc_source_time (la_candidate a), lf_reason = reason, lf_time = now\<rparr>]),
               lg_active := None\<rparr>)))"

subsection \<open>The phases of a tick\<close>

definition after_deadline :: "'w legacy_controller \<Rightarrow> legacy_active \<Rightarrow> bool \<Rightarrow> ('w, unit) prog \<Rightarrow> ('w, unit) prog" where
  "after_deadline K a strict m =
     bindP (lk_clock K) (\<lambda>now. whenP (if strict then now > la_deadline a else now \<ge> la_deadline a) m)"

definition legacy_preparing :: "'w legacy_controller \<Rightarrow> legacy_active \<Rightarrow> ('w, unit) prog" where
  "legacy_preparing K a =
     thenP (legacy_ensure K ''canary'' (lc_digest (la_candidate a)) 1)
       (bindP (legacy_ready (lk_effects K) ''canary'' (la_candidate a) False) (\<lambda>ok.
          if ok then legacy_change K (legacy_arm K)
          else after_deadline K a True (begin_rollback K ''candidate_readiness_timeout'')))"

definition acknowledged :: "json \<Rightarrow> int \<Rightarrow> int \<Rightarrow> bool res" where
  "acknowledged observed weight revision =
     andR [bindR (jget_or ''weight'' JNull observed) (\<lambda>v. Inr (py_eq v (JInt weight))),
           bindR (jget_or ''revision'' JNull observed) (\<lambda>v. Inr (py_eq v (JInt revision))),
           bindR (jget_or ''ready'' JNull observed) (\<lambda>v. Inr (truthy v))]"

definition legacy_judge ::
  "'w legacy_controller \<Rightarrow> legacy_state \<Rightarrow> legacy_active \<Rightarrow> rat \<Rightarrow> metrics \<Rightarrow> ('w, unit) prog" where
  "legacy_judge K s a since m =
     (if \<not> list_all (present_finite m) [''up'', ''age'', ''traffic''] \<or> fin_of m ''traffic'' < 0
      then begin_rollback K ''invalid_canary_metrics''
      else if fin_of m ''up'' \<noteq> 1 \<or> \<not> (0 \<le> fin_of m ''age'' \<and> fin_of m ''age'' \<le> 15)
      then begin_rollback K ''router_unavailable_or_stale''
      else if fin_of m ''traffic'' < of_int (po_minimum (lk_policy K))
      then after_deadline K a False (begin_rollback K ''insufficient_canary_traffic'')
      else bindP (lk_clock K) (\<lambda>now.
        if now - since < po_dwell (lk_policy K)
        then after_deadline K a False (begin_rollback K ''stage_deadline_exceeded'')
        else let reasons = assess m (po_error_limit (lk_policy K)) (po_p95_limit (lk_policy K))
             in if reasons \<noteq> [] then begin_rollback K (join '','' reasons)
                else bindP (lk_clock K) (\<lambda>later.
                  if later \<ge> la_deadline a then begin_rollback K ''stage_deadline_exceeded''
                  else if lg_weight s < 100
                  then bindP (liftP (if lg_weight s = 10 then Inr 25 else if lg_weight s = 25 then Inr 50
                                     else if lg_weight s = 50 then Inr 100 else Inl (KeyError ''weight''))) (\<lambda>new.
                       legacy_change K (legacy_advance K (lc_digest (la_candidate a)) (lg_weight s) new m))
                  else legacy_change K (legacy_finalizing K))))"

definition legacy_ramp :: "'w legacy_controller \<Rightarrow> legacy_state \<Rightarrow> legacy_active \<Rightarrow> ('w, unit) prog" where
  "legacy_ramp K s a =
     bindP (legacy_ready (lk_effects K) ''canary'' (la_candidate a) False) (\<lambda>canary.
     bindP (if canary then legacy_ready (lk_effects K) ''stable'' (lg_stable s) False else retP False) (\<lambda>both.
       if \<not> both then begin_rollback K ''backend_unhealthy''
       else bindP (legacy_router (lk_effects K)) (\<lambda>observed.
            bindP (liftP (acknowledged observed (lg_weight s) (lg_revision s))) (\<lambda>seen.
              if \<not> seen then after_deadline K a True (begin_rollback K ''router_ack_timeout'')
              else case la_stage_since a of
                     None \<Rightarrow> legacy_change K (legacy_start_stage K)
                   | Some since \<Rightarrow> bindP (le_metrics (lk_effects K)) (legacy_judge K s a since)))))"

definition legacy_finalizing_phase :: "'w legacy_controller \<Rightarrow> legacy_active \<Rightarrow> ('w, unit) prog" where
  "legacy_finalizing_phase K a =
     thenP (legacy_ensure K ''stable'' (lc_digest (la_candidate a)) 1)
       (attemptP (legacy_ready (lk_effects K) ''stable'' (la_candidate a) True) (\<lambda>out.
          case out of
            Inl e \<Rightarrow>
              if e = TRANSPORT_WAIT then after_deadline K a False (begin_rollback K ''stable_backend_unavailable'')
              else raiseP e
          | Inr ok \<Rightarrow>
              bindP (lk_clock K) (\<lambda>now.
                if now \<ge> la_deadline a then begin_rollback K ''stable_readiness_timeout''
                else whenP ok (legacy_change K (legacy_finalize K (la_candidate a))))))"

definition legacy_draining :: "'w legacy_controller \<Rightarrow> legacy_state \<Rightarrow> legacy_active \<Rightarrow> ('w, unit) prog" where
  "legacy_draining K s a =
     bindP (legacy_router (lk_effects K)) (\<lambda>observed.
     bindP (liftP (bindR (jget_or ''ready'' JNull observed) (\<lambda>r.
            if \<not> truthy r then Inr False else acknowledged observed 0 (lg_revision s)))) (\<lambda>seen.
       if \<not> seen then bindP (lk_clock K) (\<lambda>_. retP ())
       else thenP (legacy_ensure K ''canary'' (lc_digest (la_candidate a)) 0)
              (legacy_change K (legacy_complete K (lc_digest (la_candidate a))))))"

definition legacy_rollback_phase :: "'w legacy_controller \<Rightarrow> legacy_active \<Rightarrow> ('w, unit) prog" where
  "legacy_rollback_phase K a =
     (if la_restore_stable a
      then thenP (legacy_ensure K ''stable'' (lc_digest (la_previous_stable a)) 1)
             (bindP (legacy_ready (lk_effects K) ''stable'' (la_previous_stable a) False) (\<lambda>ok.
                if \<not> ok then after_deadline K a True (legacy_change K legacy_block)
                else legacy_change K legacy_restored))
      else thenP (legacy_change K (\<lambda>s. retP ((), legacy_route 0 s)))
             (bindP (legacy_router (lk_effects K)) (\<lambda>observed.
              bindP (legacy_guard K) (\<lambda>current.
              bindP (liftP (andR
                 [bindR (jget_or ''weight'' JNull observed) (\<lambda>v. Inr (py_eq v (JInt 0))),
                  bindR (jget_or ''revision'' JNull observed) (\<lambda>v. Inr (py_eq v (JInt (lg_revision current))))])) (\<lambda>seen.
                whenP seen (thenP (legacy_ensure K ''canary'' (lc_digest (la_candidate a)) 0)
                                  (legacy_change K (complete_rollback K a))))))))"

definition legacy_phase_step :: "'w legacy_controller \<Rightarrow> legacy_state \<Rightarrow> legacy_active \<Rightarrow> ('w, unit) prog" where
  "legacy_phase_step K s a =
     (case la_phase a of
        L_PREPARING \<Rightarrow> legacy_preparing K a
      | L_RAMP \<Rightarrow> legacy_ramp K s a
      | L_FINALIZING \<Rightarrow> legacy_finalizing_phase K a
      | L_DRAINING \<Rightarrow> legacy_draining K s a
      | L_ROLLBACK \<Rightarrow> legacy_rollback_phase K a
      | L_BLOCKED \<Rightarrow> retP ())"

definition legacy_tick :: "'w legacy_controller \<Rightarrow> ('w, unit) prog" where
  "legacy_tick K =
     bindP (legacy_acquire K) (\<lambda>mine.
     whenP mine (bindP (legacy_guard K) (\<lambda>s.
       case lg_active s of
         None \<Rightarrow> legacy_change K (legacy_claim K)
       | Some a \<Rightarrow>
           catchP (legacy_phase_step K s a) (\<lambda>e.
             if is_busy e then raiseP e
             else whenP (la_phase a \<in> {L_PREPARING, L_RAMP, L_FINALIZING}) (begin_rollback K (exn_name e))))))"

end
