(* ===== verification/Serving.thy ===== *)
theory Serving
  imports Json
begin

text \<open>
  The model service (\<open>src/model_service\<close>): the settings, the sklearn adapter that checks the
  artifact and the rows, the inference service, the HTTP routes with their error mapping, and the
  serving metrics. Deserialising the artifact (joblib) and the fitted pipeline (sklearn) are
  arguments. Log output and durations are left out.
\<close>

section \<open>Settings\<close>

text \<open>
  \<open>str.upper\<close> for the comparison with the five ASCII level names: no other code point below 256
  becomes part of one of them.
\<close>

definition ascii_upper :: "string \<Rightarrow> string" where
  "ascii_upper = map (\<lambda>c. if lower c then char_of (code c - 32) else c)"

definition log_levels :: "string list" where
  "log_levels = [''DEBUG'', ''INFO'', ''WARNING'', ''ERROR'', ''CRITICAL'']"

record settings =
  se_model_path :: string
  se_model_name :: string
  se_log_level :: string

definition env_value :: "(string \<rightharpoonup> string) \<Rightarrow> string \<Rightarrow> string \<Rightarrow> string" where
  "env_value e k d = (case e k of Some v \<Rightarrow> v | None \<Rightarrow> d)"

definition settings_from_env :: "(string \<rightharpoonup> string) \<Rightarrow> settings res" where
  "settings_from_env e =
     (let path = strip (env_value e ''MODEL_PATH'' []);
          name = strip (env_value e ''MODEL_NAME'' ''iris-demo-v1'');
          level = ascii_upper (strip (env_value e ''LOG_LEVEL'' ''INFO''))
      in bindR (guards
           [(path \<noteq> [], ValueError ''MODEL_PATH is required''),
            (name \<noteq> [], ValueError ''MODEL_NAME must not be empty''),
            (level \<in> set log_levels, ValueError ''LOG_LEVEL must be one of DEBUG, INFO, WARNING, ERROR, CRITICAL'')])
           (\<lambda>_. Inr \<lparr>se_model_path = path, se_model_name = name, se_log_level = level\<rparr>))"

section \<open>The artifact\<close>

abbreviation ModelLoadError :: exn where
  "ModelLoadError \<equiv> OtherError ''ModelLoadError''"

abbreviation InputContractError :: exn where
  "InputContractError \<equiv> OtherError ''InputContractError''"

abbreviation InferenceError :: exn where
  "InferenceError \<equiv> OtherError ''InferenceError''"

abbreviation NotReadyError :: exn where
  "NotReadyError \<equiv> OtherError ''NotReadyError''"

datatype iris_class = Setosa | Versicolor | Virginica

fun class_value :: "iris_class \<Rightarrow> string" where
  "class_value Setosa = ''setosa''"
| "class_value Versicolor = ''versicolor''"
| "class_value Virginica = ''virginica''"

definition VERIFIED_FEATURE_NAMES :: "string list" where
  "VERIFIED_FEATURE_NAMES = [''sepal_length'', ''sepal_width'', ''petal_length'', ''petal_width'']"

definition VERIFIED_TARGET_NAMES :: "string list" where
  "VERIFIED_TARGET_NAMES = map class_value [Setosa, Versicolor, Virginica]"

text \<open>
  What the adapter can observe of an unpickled object: a plain value, a mapping or a pipeline. A
  pipeline has its named steps, its fitted attributes where present, and \<open>predict\<close>.
\<close>

datatype estimator = StandardScaler | LogisticRegression | OtherEstimator

record pipeline =
  pi_steps :: "(string \<times> estimator) list"
  pi_n_features_in :: "json option"
  pi_classes :: "json option"
  pi_predict :: "flt list list \<Rightarrow> json res"

datatype artifact_object =
    Plain json
  | Pipeline pipeline
  | Mapping "(string \<times> artifact_object) list"

record serving_contract =
  ct_model_version :: string
  ct_feature_names :: "string list"
  ct_feature_units :: string
  ct_class_ids :: "int list"
  ct_target_names :: "string list"
  ct_min_batch :: int
  ct_max_batch :: int
  ct_input_signature :: string
  ct_output_signature :: string
  ct_python_version :: string
  ct_sklearn_version :: string

record runtime_versions =
  rv_python :: string
  rv_sklearn :: string

definition required_value :: "(string \<times> artifact_object) list \<Rightarrow> string \<Rightarrow> artifact_object res" where
  "required_value m k = (case map_of m k of Some v \<Rightarrow> Inr v | None \<Rightarrow> Inl ModelLoadError)"

definition as_mapping :: "artifact_object \<Rightarrow> (string \<times> artifact_object) list res" where
  "as_mapping a =
     (case a of Mapping m \<Rightarrow> Inr m
      | Plain (JObj kvs) \<Rightarrow> Inr (map (\<lambda>(k, v). (k, Plain v)) kvs)
      | _ \<Rightarrow> Inl ModelLoadError)"

definition as_pipeline :: "artifact_object \<Rightarrow> pipeline res" where
  "as_pipeline a = (case a of Pipeline p \<Rightarrow> Inr p | _ \<Rightarrow> Inl ModelLoadError)"

definition string_sequence :: "artifact_object \<Rightarrow> string list res" where
  "string_sequence a =
     (case a of
        Plain (JArr xs) \<Rightarrow>
          if xs = [] \<or> (\<exists>x \<in> set xs. \<not> is_str x \<or> str_of x = []) then Inl ModelLoadError
          else Inr (map str_of xs)
      | _ \<Rightarrow> Inl ModelLoadError)"

text \<open>\<open>[A-Za-z0-9][A-Za-z0-9._+-]*\<close>\<close>

definition rx_model_version :: "string \<Rightarrow> bool" where
  "rx_model_version s \<longleftrightarrow> s \<noteq> [] \<and> alnum (hd s) \<and> list_all (\<lambda>c. alnum c \<or> c \<in> set ''._+-'') (tl s)"

definition is_plain_str :: "string \<Rightarrow> artifact_object \<Rightarrow> bool" where
  "is_plain_str s a = (case a of Plain (JStr t) \<Rightarrow> t = s | _ \<Rightarrow> False)"

definition plain_str :: "artifact_object \<Rightarrow> string" where
  "plain_str a = (case a of Plain j \<Rightarrow> str_of j | _ \<Rightarrow> [])"

definition plain_integral :: "artifact_object \<Rightarrow> int option" where
  "plain_integral a = (case a of Plain (JInt i) \<Rightarrow> Some i | _ \<Rightarrow> None)"

fun integral :: "json \<Rightarrow> int option" where
  "integral (JInt i) = Some i"
| "integral _ = None"

text \<open>The class ids of the fitted pipeline.\<close>

definition class_ids_of :: "pipeline \<Rightarrow> int list res" where
  "class_ids_of p =
     (case pi_classes p of
        None \<Rightarrow> Inl ModelLoadError
      | Some JNull \<Rightarrow> Inl ModelLoadError
      | Some raw \<Rightarrow>
          (case jiter raw of
             Inl _ \<Rightarrow> Inl ModelLoadError
           | Inr xs \<Rightarrow>
               if \<exists>x \<in> set xs. integral x = None then Inl ModelLoadError
               else Inr (map (\<lambda>x. the (integral x)) xs)))"

definition supported_steps :: "pipeline \<Rightarrow> bool" where
  "supported_steps p \<longleftrightarrow> map snd (pi_steps p) = [StandardScaler, LogisticRegression]"

definition VERIFIED_CLASS_IDS :: "int list" where
  "VERIFIED_CLASS_IDS = [0, 1, 2]"

definition VERIFIED_SIGNATURE_INPUT :: string where
  "VERIFIED_SIGNATURE_INPUT = ''instances: list of objects with four positive finite numbers''"

definition VERIFIED_SIGNATURE_OUTPUT :: string where
  "VERIFIED_SIGNATURE_OUTPUT = ''predictions: list of Iris class names''"

definition contract_guards ::
  "runtime_versions \<Rightarrow> string list \<Rightarrow> string list \<Rightarrow> artifact_object \<Rightarrow> artifact_object \<Rightarrow> artifact_object
    \<Rightarrow> artifact_object \<Rightarrow> artifact_object \<Rightarrow> artifact_object \<Rightarrow> artifact_object \<Rightarrow> artifact_object
    \<Rightarrow> bool list" where
  "contract_guards rv features targets units version python sklearn lo hi sig_in sig_out =
     [features = VERIFIED_FEATURE_NAMES,
      targets = VERIFIED_TARGET_NAMES,
      is_plain_str ''centimetres'' units,
      is_plain_str (plain_str version) version \<and> rx_model_version (plain_str version),
      is_plain_str ''3.12.14'' python,
      is_plain_str ''1.7.2'' sklearn,
      is_plain_str (rv_sklearn rv) sklearn,
      plain_integral lo = Some 1 \<and> plain_integral hi = Some 100,
      is_plain_str VERIFIED_SIGNATURE_INPUT sig_in,
      is_plain_str VERIFIED_SIGNATURE_OUTPUT sig_out]"

definition model_guards :: "pipeline \<Rightarrow> string list \<Rightarrow> bool list" where
  "model_guards p features =
     [supported_steps p,
      (case pi_n_features_in p of
         Some j \<Rightarrow> integral j = Some (int (length features)) | None \<Rightarrow> False)]"

definition all_hold :: "bool list \<Rightarrow> unit res" where
  "all_hold bs = guards (map (\<lambda>b. (b, ModelLoadError)) bs)"

definition validate_artifact ::
  "runtime_versions \<Rightarrow> artifact_object \<Rightarrow> (pipeline \<times> serving_contract \<times> (int \<times> string) list) res" where
  "validate_artifact rv artifact =
     bindR (as_mapping artifact) (\<lambda>root.
     bindR (required_value root ''model'') (\<lambda>raw_model.
     bindR (required_value root ''metadata'') (\<lambda>raw_metadata.
     bindR (as_pipeline raw_model) (\<lambda>model.
     bindR (as_mapping raw_metadata) (\<lambda>metadata.
     bindR (bindR (required_value metadata ''feature_names'') string_sequence) (\<lambda>features.
     bindR (bindR (required_value metadata ''target_names'') string_sequence) (\<lambda>targets.
     bindR (required_value metadata ''feature_units'') (\<lambda>units.
     bindR (required_value metadata ''signature'') (\<lambda>raw_signature.
     bindR (required_value metadata ''model_version'') (\<lambda>version.
     bindR (required_value metadata ''sklearn_version'') (\<lambda>sklearn.
     bindR (required_value metadata ''python_version'') (\<lambda>python.
     bindR (as_mapping raw_signature) (\<lambda>signature.
     bindR (required_value signature ''input'') (\<lambda>sig_in.
     bindR (required_value signature ''output'') (\<lambda>sig_out.
     bindR (required_value signature ''min_batch_size'') (\<lambda>lo.
     bindR (required_value signature ''max_batch_size'') (\<lambda>hi.
     bindR (all_hold (contract_guards rv features targets units version python sklearn lo hi sig_in sig_out)) (\<lambda>_.
     bindR (all_hold (model_guards model features)) (\<lambda>_.
     bindR (class_ids_of model) (\<lambda>ids.
     bindR (all_hold [length ids = length targets, ids = VERIFIED_CLASS_IDS]) (\<lambda>_.
       Inr (model,
            \<lparr>ct_model_version = plain_str version, ct_feature_names = features,
             ct_feature_units = plain_str units, ct_class_ids = ids, ct_target_names = targets,
             ct_min_batch = the (plain_integral lo), ct_max_batch = the (plain_integral hi),
             ct_input_signature = plain_str sig_in, ct_output_signature = plain_str sig_out,
             ct_python_version = plain_str python, ct_sklearn_version = plain_str sklearn\<rparr>,
            zip ids targets))))))))))))))))))))))"

section \<open>The adapter\<close>

record adapter =
  ad_model :: "pipeline option"
  ad_contract :: "serving_contract option"
  ad_names :: "(int \<times> string) list option"

definition new_adapter :: adapter where
  "new_adapter = \<lparr>ad_model = None, ad_contract = None, ad_names = None\<rparr>"

definition adapter_is_ready :: "adapter \<Rightarrow> bool" where
  "adapter_is_ready a \<longleftrightarrow> ad_model a \<noteq> None \<and> ad_contract a \<noteq> None \<and> ad_names a \<noteq> None"

text \<open>
  \<open>load\<close> forgets the old model first; whatever goes wrong afterwards surfaces as
  \<open>ModelLoadError\<close>. \<open>joblib_load\<close> is the outcome of \<open>joblib.load\<close> on the configured path.
\<close>

definition load :: "runtime_versions \<Rightarrow> artifact_object res \<Rightarrow> (adapter, unit) prog" where
  "load rv joblib_load = (\<lambda>_.
     case bindR joblib_load (validate_artifact rv) of
       Inl _ \<Rightarrow> (Inl ModelLoadError, new_adapter)
     | Inr (model, contract, names) \<Rightarrow>
         (Inr (), \<lparr>ad_model = Some model, ad_contract = Some contract, ad_names = Some names\<rparr>))"

type_synonym instance_row = "(string \<times> json) list"

text \<open>\<open>float(i)\<close> raises when the nearest double would not be finite.\<close>

definition int_to_float :: "int \<Rightarrow> flt res" where
  "int_to_float i =
     (if \<bar>i\<bar> \<ge> 2 ^ 1024 - 2 ^ 970 then Inl OverflowError else Inr (Fin (of_int i)))"

definition feature_value :: "instance_row \<Rightarrow> string \<Rightarrow> flt res" where
  "feature_value row k =
     bindR (case map_of row k of
              Some (JInt i) \<Rightarrow> int_to_float i
            | Some (JFlt f) \<Rightarrow> Inr f
            | Some _ \<Rightarrow> Inl InputContractError
            | None \<Rightarrow> Inl (KeyError k)) (\<lambda>f.
     if flt_finite f \<and> flt_lt (Fin 0) f then Inr f else Inl InputContractError)"

definition prepare_rows :: "serving_contract \<Rightarrow> instance_row list \<Rightarrow> flt list list res" where
  "prepare_rows c instances =
     bindR (requireR (ct_min_batch c \<le> int (length instances) \<and> int (length instances) \<le> ct_max_batch c)
              InputContractError) (\<lambda>_.
     mapR (\<lambda>row.
       if set (map fst row) \<noteq> set (ct_feature_names c) then Inl InputContractError
       else mapR (feature_value row) (ct_feature_names c)) instances)"

definition class_name :: "(int \<times> string) list \<Rightarrow> json \<Rightarrow> string res" where
  "class_name names prediction =
     (case integral prediction of
        None \<Rightarrow> Inl InferenceError
      | Some i \<Rightarrow> (case map_of names i of Some n \<Rightarrow> Inr n | None \<Rightarrow> Inl InferenceError))"

definition adapter_predict :: "adapter \<Rightarrow> instance_row list \<Rightarrow> string list res" where
  "adapter_predict a instances =
     (case (ad_model a, ad_contract a, ad_names a) of
        (Some model, Some contract, Some names) \<Rightarrow>
          bindR (prepare_rows contract instances) (\<lambda>rows.
          bindR (case pi_predict model rows of Inl _ \<Rightarrow> Inl InferenceError | Inr raw \<Rightarrow> jiter raw) (\<lambda>predictions.
          bindR (requireR (length predictions = length rows) InferenceError) (\<lambda>_.
            mapR (class_name names) predictions)))
      | _ \<Rightarrow> Inl InferenceError)"

section \<open>The inference service and its metrics\<close>

datatype outcome = Success | InputError | NotReady | Failure

fun outcome_label :: "outcome \<Rightarrow> string" where
  "outcome_label Success = ''success''"
| "outcome_label InputError = ''input_error''"
| "outcome_label NotReady = ''not_ready''"
| "outcome_label Failure = ''error''"

record serving_metrics =
  sm_calls :: "outcome \<Rightarrow> nat"
  sm_items :: "outcome \<Rightarrow> nat"
  sm_http :: "(string \<times> string \<times> string) \<Rightarrow> nat"
  sm_identity :: "(string \<times> string) list"

definition record_inference :: "outcome \<Rightarrow> nat \<Rightarrow> serving_metrics \<Rightarrow> serving_metrics" where
  "record_inference out n m =
     m\<lparr>sm_calls := (sm_calls m)(out := sm_calls m out + 1), sm_items := (sm_items m)(out := sm_items m out + n)\<rparr>"

definition service_result :: "adapter \<Rightarrow> instance_row list \<Rightarrow> string list res" where
  "service_result a instances =
     bindR (requireR (adapter_is_ready a) NotReadyError) (\<lambda>_.
     bindR (adapter_predict a instances) (\<lambda>predictions.
     bindR (requireR (length predictions = length instances) InferenceError) (\<lambda>_. Inr predictions)))"

definition outcome_of :: "'a res \<Rightarrow> outcome" where
  "outcome_of r =
     (case r of Inr _ \<Rightarrow> Success
      | Inl e \<Rightarrow> if e = InputContractError then InputError else if e = NotReadyError then NotReady else Failure)"

definition service_predict :: "adapter \<Rightarrow> instance_row list \<Rightarrow> (serving_metrics, string list) prog" where
  "service_predict a instances = (\<lambda>m.
     let r = service_result a instances
     in (r, record_inference (outcome_of r) (length instances) m))"

text \<open>The identity the process exports: fields of the build file only where their syntax is right.\<close>

definition whitelisted :: "(json \<Rightarrow> bool) \<Rightarrow> (json \<Rightarrow> string) \<Rightarrow> json option \<Rightarrow> string" where
  "whitelisted p f v = (case v of Some j \<Rightarrow> if p j then f j else ''unknown'' | None \<Rightarrow> ''unknown'')"

definition build_field :: "json option \<Rightarrow> string \<Rightarrow> json option" where
  "build_field raw k = (case raw of Some (JObj kvs) \<Rightarrow> map_of kvs k | _ \<Rightarrow> None)"

definition set_identity :: "json option \<Rightarrow> string option \<Rightarrow> serving_metrics \<Rightarrow> serving_metrics" where
  "set_identity raw version m = m\<lparr>sm_identity :=
     [(''source_commit'', whitelisted (\<lambda>j. is_str j \<and> rx_chars 40 40 hex_digit (str_of j)) str_of (build_field raw ''source_commit'')),
      (''source_digest'', whitelisted (\<lambda>j. is_str j \<and> rx_digest (str_of j)) str_of (build_field raw ''source_digest'')),
      (''dirty'', whitelisted (\<lambda>j. j = JBool True \<or> j = JBool False)
                    (\<lambda>j. if j = JBool True then ''true'' else ''false'') (build_field raw ''source_dirty'')),
      (''model_version'', (case version of Some v \<Rightarrow> if v = [] then ''unknown'' else v | None \<Rightarrow> ''unknown''))]\<rparr>"

definition new_metrics :: serving_metrics where
  "new_metrics = \<lparr>sm_calls = (\<lambda>_. 0), sm_items = (\<lambda>_. 0), sm_http = (\<lambda>_. 0), sm_identity = []\<rparr>"

section \<open>The HTTP routes\<close>

text \<open>
  The request schema: what the declared fields accept. A strict float field takes a JSON number,
  an integer included, and neither a boolean nor a string; \<open>gt=0\<close> and \<open>allow_inf_nan=False\<close>
  bound it; \<open>extra="forbid"\<close> excludes other keys. \<open>model_dump\<close> returns the four fields in order.
\<close>

fun strict_float :: "json \<Rightarrow> flt option" where
  "strict_float (JInt i) = (case int_to_float i of Inr f \<Rightarrow> Some f | Inl _ \<Rightarrow> None)"
| "strict_float (JFlt f) = Some f"
| "strict_float _ = None"

definition positive_field :: "json \<Rightarrow> string \<Rightarrow> (string \<times> json) res" where
  "positive_field j k =
     bindR (jget k j) (\<lambda>v.
       case strict_float v of
         Some f \<Rightarrow> if flt_finite f \<and> flt_lt (Fin 0) f then Inr (k, JFlt f) else Inl (OtherError ''RequestValidationError'')
       | None \<Rightarrow> Inl (OtherError ''RequestValidationError''))"

definition iris_instance :: "json \<Rightarrow> instance_row res" where
  "iris_instance j =
     bindR (requireR (keys_are VERIFIED_FEATURE_NAMES j) (OtherError ''RequestValidationError'')) (\<lambda>_.
     mapR (positive_field j) VERIFIED_FEATURE_NAMES)"

definition predict_request :: "json \<Rightarrow> instance_row list res" where
  "predict_request j =
     bindR (requireR (keys_are [''instances''] j) (OtherError ''RequestValidationError'')) (\<lambda>_.
     bindR (jget ''instances'' j) (\<lambda>xs.
     bindR (requireR (is_list xs \<and> 1 \<le> length (list_of xs) \<and> length (list_of xs) \<le> 100)
              (OtherError ''RequestValidationError'')) (\<lambda>_.
     mapR iris_instance (list_of xs))))"

datatype api_reply =
    Predictions "iris_class list"
  | ApiError int string
  | Unhandled exn

definition class_of_value :: "string \<Rightarrow> iris_class option" where
  "class_of_value s = map_of (map (\<lambda>c. (class_value c, c)) [Setosa, Versicolor, Virginica]) s"

definition predict_response :: "string list \<Rightarrow> api_reply" where
  "predict_response names =
     (if \<forall>n \<in> set names. class_of_value n \<noteq> None then Predictions (map (\<lambda>n. the (class_of_value n)) names)
      else Unhandled (OtherError ''ValidationError''))"

definition error_reply :: "exn \<Rightarrow> api_reply" where
  "error_reply e =
     (if e = InputContractError then ApiError 422 ''INPUT_CONTRACT_ERROR''
      else if e = NotReadyError then ApiError 503 ''NOT_READY''
      else if e = InferenceError then ApiError 500 ''INFERENCE_FAILED''
      else Unhandled e)"

definition predict_route :: "adapter \<Rightarrow> json \<Rightarrow> serving_metrics \<Rightarrow> api_reply \<times> serving_metrics" where
  "predict_route a body m =
     (case predict_request body of
        Inl _ \<Rightarrow> (ApiError 422 ''INVALID_REQUEST'', m)
      | Inr instances \<Rightarrow>
          (case service_predict a instances m of
             (Inl e, m') \<Rightarrow> (error_reply e, m')
           | (Inr names, m') \<Rightarrow> (predict_response names, m')))"

fun reply_status :: "api_reply \<Rightarrow> int" where
  "reply_status (Predictions _) = 200"
| "reply_status (ApiError n _) = n"
| "reply_status (Unhandled _) = 500"

definition ready_route :: "adapter \<Rightarrow> int \<times> string" where
  "ready_route a = (if adapter_is_ready a then (200, ''ready'') else (503, ''NOT_READY''))"

definition live_route :: "int \<times> string" where
  "live_route = (200, ''live'')"

text \<open>
  Startup: the settings, the artifact, the identity. An exception ends the process before it
  serves. \<open>joblib\<close> is \<open>joblib.load\<close>, \<open>build_file\<close> the parsed identity file where it can be read.
\<close>

definition start_app ::
  "runtime_versions \<Rightarrow> (string \<Rightarrow> artifact_object res) \<Rightarrow> json option \<Rightarrow> (string \<rightharpoonup> string)
    \<Rightarrow> (settings \<times> adapter \<times> serving_metrics) res" where
  "start_app rv joblib build_file e =
     bindR (settings_from_env e) (\<lambda>s.
       case load rv (joblib (se_model_path s)) new_adapter of
         (Inl x, _) \<Rightarrow> Inl x
       | (Inr _, a) \<Rightarrow>
           (case ad_contract a of
              None \<Rightarrow> Inl ModelLoadError
            | Some c \<Rightarrow> Inr (s, a, set_identity build_file (Some (ct_model_version c)) new_metrics)))"

section \<open>The metrics middleware\<close>

definition HTTP_METHODS :: "string list" where
  "HTTP_METHODS = [''GET'', ''HEAD'', ''POST'', ''PUT'', ''PATCH'', ''DELETE'', ''OPTIONS'', ''TRACE'', ''CONNECT'']"

definition EXCLUDED_PATHS :: "string list" where
  "EXCLUDED_PATHS = [''/metrics'', ''/health/live'', ''/health/ready'']"

datatype asgi_message = ResponseStart int | ResponseBody bool | OtherMessage

record scope =
  sc_http :: bool
  sc_path :: string
  sc_method :: string
  sc_route :: "string option"

record measured =
  me_status :: int
  me_recorded :: bool
  me_metrics :: serving_metrics

definition metric_labels :: "scope \<Rightarrow> int \<Rightarrow> string \<times> string \<times> string" where
  "metric_labels sc status =
     (if sc_method sc \<in> set HTTP_METHODS then sc_method sc else ''OTHER'',
      case sc_route sc of Some r \<Rightarrow> r | None \<Rightarrow> ''unmatched'',
      if 100 \<le> status \<and> status \<le> 599 then int_str status else ''other'')"

definition observe :: "scope \<Rightarrow> measured \<Rightarrow> measured" where
  "observe sc s =
     (if me_recorded s then s
      else let l = metric_labels sc (me_status s); m = me_metrics s
           in s\<lparr>me_recorded := True, me_metrics := m\<lparr>sm_http := (sm_http m)(l := sm_http m l + 1)\<rparr>\<rparr>)"

text \<open>The flag of \<open>ResponseBody\<close> is \<open>more_body\<close>.\<close>

fun measured_send :: "scope \<Rightarrow> asgi_message \<Rightarrow> measured \<Rightarrow> measured" where
  "measured_send sc (ResponseStart n) s = s\<lparr>me_status := n\<rparr>"
| "measured_send sc (ResponseBody unfinished) s = (if unfinished then s else observe sc s)"
| "measured_send sc OtherMessage s = s"

text \<open>\<open>raised\<close>: the application ended with an exception after sending \<open>ms\<close>.\<close>

definition middleware :: "scope \<Rightarrow> asgi_message list \<Rightarrow> bool \<Rightarrow> serving_metrics \<Rightarrow> serving_metrics" where
  "middleware sc ms raised m =
     (if \<not> sc_http sc \<or> rstrip_by (\<lambda>c. c = CHR ''/'') (sc_path sc) \<in> set EXCLUDED_PATHS then m
      else let s = fold (measured_send sc) ms \<lparr>me_status = 500, me_recorded = False, me_metrics = m\<rparr>
           in me_metrics (if raised then observe sc s else s))"

section \<open>Lemmas\<close>

text \<open>What the adapter promises once an artifact is loaded.\<close>

definition adapter_ok :: "adapter \<Rightarrow> bool" where
  "adapter_ok a \<longleftrightarrow>
     (adapter_is_ready a \<longrightarrow>
       ct_feature_names (the (ad_contract a)) = VERIFIED_FEATURE_NAMES
       \<and> ct_min_batch (the (ad_contract a)) = 1 \<and> ct_max_batch (the (ad_contract a)) = 100
       \<and> rx_model_version (ct_model_version (the (ad_contract a)))
       \<and> the (ad_names a) = zip VERIFIED_CLASS_IDS VERIFIED_TARGET_NAMES
       \<and> supported_steps (the (ad_model a)))"

lemma is_plain_str_iff: "is_plain_str s a \<longleftrightarrow> a = Plain (JStr s)"
  by (auto simp: is_plain_str_def split: artifact_object.split json.split)

lemma validate_artifact_InrD:
  assumes "validate_artifact rv art = Inr (model, c, names)"
  shows "ct_feature_names c = VERIFIED_FEATURE_NAMES" "ct_min_batch c = 1" "ct_max_batch c = 100"
    "rx_model_version (ct_model_version c)" "names = zip VERIFIED_CLASS_IDS VERIFIED_TARGET_NAMES"
    "supported_steps model" "ct_sklearn_version c = rv_sklearn rv"
proof -
  have "ct_feature_names c = VERIFIED_FEATURE_NAMES \<and> ct_min_batch c = 1 \<and> ct_max_batch c = 100
    \<and> rx_model_version (ct_model_version c) \<and> names = zip VERIFIED_CLASS_IDS VERIFIED_TARGET_NAMES
    \<and> supported_steps model \<and> ct_sklearn_version c = rv_sklearn rv"
    using assms unfolding validate_artifact_def
    by (clarsimp simp: bindR_Inr_iff all_hold_def contract_guards_def model_guards_def is_plain_str_iff
          plain_str_def split: if_splits)
  then show "ct_feature_names c = VERIFIED_FEATURE_NAMES" "ct_min_batch c = 1" "ct_max_batch c = 100"
    "rx_model_version (ct_model_version c)" "names = zip VERIFIED_CLASS_IDS VERIFIED_TARGET_NAMES"
    "supported_steps model" "ct_sklearn_version c = rv_sklearn rv" by auto
qed

lemma load_cases:
  obtains (loaded) a where "load rv art a0 = (Inr (), a)" "adapter_is_ready a" "adapter_ok a"
    | (refused) "load rv art a0 = (Inl ModelLoadError, new_adapter)"
proof (cases "bindR art (validate_artifact rv)")
  case (Inl e)
  then show thesis by (intro refused) (simp add: load_def)
next
  case (Inr r)
  obtain model c names where r: "r = (model, c, names)" by (cases r)
  with Inr obtain o' where "validate_artifact rv o' = Inr (model, c, names)" by (auto simp: bindR_Inr_iff)
  from validate_artifact_InrD [OF this] Inr r show thesis
    by (intro loaded) (auto simp: load_def adapter_is_ready_def adapter_ok_def)
qed

lemma new_adapter_ok [simp]: "adapter_ok new_adapter" "\<not> adapter_is_ready new_adapter"
  by (simp_all add: adapter_ok_def adapter_is_ready_def new_adapter_def)

lemma class_name_Inr: 
  "class_name (zip VERIFIED_CLASS_IDS VERIFIED_TARGET_NAMES) p = Inr n \<Longrightarrow>
    \<exists>i. p = JInt (int i) \<and> i < 3 \<and> n = VERIFIED_TARGET_NAMES ! i"
  by (cases p)
    (auto simp: class_name_def VERIFIED_CLASS_IDS_def VERIFIED_TARGET_NAMES_def
      intro: exI [of _ "0::nat"] exI [of _ "1::nat"] exI [of _ "2::nat"] split: if_splits)

lemma prepare_rows_InrD:
  assumes "prepare_rows c xs = Inr rows"
  shows "length rows = length xs" "ct_min_batch c \<le> int (length xs)" "int (length xs) \<le> ct_max_batch c"
    "i < length xs \<Longrightarrow> length (rows ! i) = length (ct_feature_names c)"
    "i < length xs \<Longrightarrow> j < length (ct_feature_names c) \<Longrightarrow> \<exists>r. rows ! i ! j = Fin r \<and> 0 < r"
proof -
  let ?row = "\<lambda>row. if set (map fst row) \<noteq> set (ct_feature_names c) then Inl InputContractError
       else mapR (feature_value row) (ct_feature_names c)"
  from assms have m: "mapR ?row xs = Inr rows"
    and b: "ct_min_batch c \<le> int (length xs)" "int (length xs) \<le> ct_max_batch c"
    by (auto simp: prepare_rows_def bindR_Inr_iff)
  show "length rows = length xs" using m by (rule mapR_length)
  show "ct_min_batch c \<le> int (length xs)" "int (length xs) \<le> ct_max_batch c" by (fact b)+
  have row: "mapR (feature_value (xs ! i)) (ct_feature_names c) = Inr (rows ! i)" if "i < length xs"
    using mapR_nth [OF m that] by (auto split: if_splits)
  show "length (rows ! i) = length (ct_feature_names c)" if "i < length xs"
    using mapR_length [OF row [OF that]] .
  show "\<exists>r. rows ! i ! j = Fin r \<and> 0 < r" if "i < length xs" "j < length (ct_feature_names c)"
    using mapR_nth [OF row [OF that(1)] that(2)]
    by (auto simp: feature_value_def bindR_Inr_iff elim: flt_finite.elims split: if_splits)
qed


subsection \<open>The schema and the adapter agree\<close>

definition float_of_field :: "string \<times> json \<Rightarrow> flt" where
  "float_of_field kv = (case snd kv of JFlt f \<Rightarrow> f | _ \<Rightarrow> Fin 0)"

lemma positive_field_InrD:
  "positive_field j k = Inr kv \<Longrightarrow> \<exists>f. kv = (k, JFlt f) \<and> flt_finite f \<and> flt_lt (Fin 0) f"
  by (auto simp: positive_field_def bindR_Inr_iff split: option.splits if_splits)

lemma mapR_fst:
  "mapR f ks = Inr kvs \<Longrightarrow> (\<And>k kv. f k = Inr kv \<Longrightarrow> fst kv = k) \<Longrightarrow> map fst kvs = ks"
  by (induction ks arbitrary: kvs) (auto simp: bindR_Inr_iff)

lemma iris_instance_InrD:
  assumes "iris_instance j = Inr row"
  shows "map fst row = VERIFIED_FEATURE_NAMES"
    "kv \<in> set row \<Longrightarrow> \<exists>f. snd kv = JFlt f \<and> flt_finite f \<and> flt_lt (Fin 0) f"
proof -
  from assms have m: "mapR (positive_field j) VERIFIED_FEATURE_NAMES = Inr row"
    by (auto simp: iris_instance_def bindR_Inr_iff)
  then show "map fst row = VERIFIED_FEATURE_NAMES" by (rule mapR_fst) (auto dest: positive_field_InrD)
  show "\<exists>f. snd kv = JFlt f \<and> flt_finite f \<and> flt_lt (Fin 0) f" if "kv \<in> set row"
    using mapR_set [OF m that] by (auto dest: positive_field_InrD)
qed

lemma mapR_Inr_map: "(\<And>x. x \<in> set xs \<Longrightarrow> f x = Inr (g x)) \<Longrightarrow> mapR f xs = Inr (map g xs)"
  by (induction xs) auto

lemma feature_values_of_row:
  assumes "distinct (map fst row)"
    and "\<And>kv. kv \<in> set row \<Longrightarrow> \<exists>f. snd kv = JFlt f \<and> flt_finite f \<and> flt_lt (Fin 0) f"
  shows "mapR (feature_value row) (map fst row) = Inr (map float_of_field row)"
proof -
  have "feature_value row (fst kv) = Inr (float_of_field kv)" if "kv \<in> set row" for kv
  proof -
    from assms(2) [OF that] obtain f where f: "snd kv = JFlt f" "flt_finite f" "flt_lt (Fin 0) f" by blast
    moreover from assms(1) that have "map_of row (fst kv) = Some (snd kv)" by simp
    ultimately show ?thesis by (simp add: feature_value_def float_of_field_def)
  qed
  then have "mapR (\<lambda>kv. feature_value row (fst kv)) row = Inr (map float_of_field row)"
    by (rule mapR_Inr_map)
  moreover have "mapR f (map g xs) = mapR (\<lambda>x. f (g x)) xs" for f :: "'a \<Rightarrow> 'b res" and g :: "'c \<Rightarrow> 'a" and xs
    by (induction xs) auto
  ultimately show ?thesis by metis
qed

lemma predict_request_InrD:
  assumes "predict_request j = Inr xs"
  shows "1 \<le> length xs" "length xs \<le> 100" "row \<in> set xs \<Longrightarrow> \<exists>i. iris_instance i = Inr row"
proof -
  from assms obtain items where m: "mapR iris_instance items = Inr xs"
    and n: "1 \<le> length items" "length items \<le> 100"
    by (auto simp: predict_request_def bindR_Inr_iff)
  show "1 \<le> length xs" "length xs \<le> 100" using n mapR_length [OF m] by simp_all
  show "\<exists>i. iris_instance i = Inr row" if "row \<in> set xs" using mapR_set [OF m that] by blast
qed

text \<open>Whatever the schema accepts, the adapter's own row check accepts, and keeps the order.\<close>

lemma schema_rows_accepted:
  assumes "predict_request j = Inr xs" and "ct_feature_names c = VERIFIED_FEATURE_NAMES"
    and "ct_min_batch c = 1" and "ct_max_batch c = 100"
  shows "prepare_rows c xs = Inr (map (map float_of_field) xs)"
proof -
  have dist: "distinct VERIFIED_FEATURE_NAMES" by (simp add: VERIFIED_FEATURE_NAMES_def)
  have "mapR (\<lambda>row. if set (map fst row) \<noteq> set (ct_feature_names c) then Inl InputContractError
      else mapR (feature_value row) (ct_feature_names c)) xs = Inr (map (map float_of_field) xs)"
  proof (rule mapR_Inr_map)
    fix row assume "row \<in> set xs"
    then obtain i where i: "iris_instance i = Inr row" using predict_request_InrD(3) [OF assms(1)] by blast
    note names = iris_instance_InrD(1) [OF i]
    have "mapR (feature_value row) (map fst row) = Inr (map float_of_field row)"
      by (intro feature_values_of_row iris_instance_InrD(2) [OF i]) (simp_all add: names dist)
    then show "(if set (map fst row) \<noteq> set (ct_feature_names c) then Inl InputContractError
      else mapR (feature_value row) (ct_feature_names c)) = Inr (map float_of_field row)"
      using names assms(2) by simp
  qed
  then show ?thesis
    using predict_request_InrD(1,2) [OF assms(1)] assms(3,4) by (simp add: prepare_rows_def)
qed

definition iris_classes :: "iris_class list" where
  "iris_classes = [Setosa, Versicolor, Virginica]"

lemma class_of_target:
  "k < 3 \<Longrightarrow> class_of_value (VERIFIED_TARGET_NAMES ! k) = Some (iris_classes ! k)"
  by (cases k rule: nat.exhaust; cases "k - 1"; cases "k - 2")
    (auto simp: class_of_value_def VERIFIED_TARGET_NAMES_def iris_classes_def numeral_3_eq_3 less_Suc_eq)

lemma mapR_class_names:
  assumes "mapR (class_name (zip VERIFIED_CLASS_IDS VERIFIED_TARGET_NAMES)) ps = Inr names"
  shows "length names = length ps"
    "i < length ps \<Longrightarrow> \<exists>k < 3. ps ! i = JInt (int k) \<and> class_of_value (names ! i) = Some (iris_classes ! k)"
proof -
  show "length names = length ps" using mapR_length [OF assms] .
  show "\<exists>k < 3. ps ! i = JInt (int k) \<and> class_of_value (names ! i) = Some (iris_classes ! k)" if "i < length ps"
    using class_name_Inr [OF mapR_nth [OF assms that]] class_of_target by metis
qed

subsection \<open>The middleware\<close>

text \<open>The status a scope is recorded with: the last one started before the first final body.\<close>

fun final_status :: "int \<Rightarrow> asgi_message list \<Rightarrow> int" where
  "final_status n [] = n"
| "final_status n (ResponseStart k # ms) = final_status k ms"
| "final_status n (ResponseBody unfinished # ms) = (if unfinished then final_status n ms else n)"
| "final_status n (OtherMessage # ms) = final_status n ms"

definition bump :: "scope \<Rightarrow> int \<Rightarrow> serving_metrics \<Rightarrow> serving_metrics" where
  "bump sc n m = m\<lparr>sm_http := (sm_http m)(metric_labels sc n := sm_http m (metric_labels sc n) + 1)\<rparr>"

lemma recorded_stays: "me_recorded s \<Longrightarrow> me_recorded (fold (measured_send sc) ms s)
    \<and> me_metrics (fold (measured_send sc) ms s) = me_metrics s"
proof (induction ms arbitrary: s)
  case (Cons x ms)
  then show ?case by (cases x) (auto simp: observe_def)
qed simp

lemma observe_fresh: "\<not> me_recorded s \<Longrightarrow>
    me_recorded (observe sc s) \<and> me_metrics (observe sc s) = bump sc (me_status s) (me_metrics s)"
  by (simp add: observe_def bump_def Let_def)

lemma fold_measured:
  "\<not> me_recorded s \<Longrightarrow>
    me_metrics (fold (measured_send sc) ms s) =
      (if ResponseBody False \<in> set ms then bump sc (final_status (me_status s) ms) (me_metrics s) else me_metrics s)
    \<and> me_recorded (fold (measured_send sc) ms s) = (ResponseBody False \<in> set ms)
    \<and> (ResponseBody False \<notin> set ms \<longrightarrow> me_status (fold (measured_send sc) ms s) = final_status (me_status s) ms)"
proof (induction ms arbitrary: s)
  case (Cons x ms)
  show ?case
  proof (cases x)
    case (ResponseBody unfinished)
    then show ?thesis using Cons recorded_stays [of "observe sc s" sc ms] observe_fresh [OF Cons.prems, of sc]
      by (cases unfinished) auto
  qed (use Cons in auto)
qed simp


section \<open>Properties\<close>

lemma load_returns: "load rv art a0 = (Inr (), a) \<Longrightarrow> \<exists>o' m c ns. art = Inr o' \<and> validate_artifact rv o' = Inr (m, c, ns)
    \<and> a = \<lparr>ad_model = Some m, ad_contract = Some c, ad_names = Some ns\<rparr>"
  by (cases art) (auto simp: load_def split: sum.splits)

text \<open>
  C10 (loading an artifact). Loading either returns, and then the adapter is ready, its contract is
  the supported one (feature names, batch bounds 1 to 100, a well-formed version, the class names of
  the ids 0, 1, 2, the scaler and the regression as steps) and the artifact was built with the
  sklearn version that is running; or it raises \<open>ModelLoadError\<close>, whatever was wrong with the file,
  and the adapter is not ready even if an earlier model had been loaded.
\<close>
theorem load_verified_or_unready:
  "case load rv art old of
     (Inr _, a) \<Rightarrow> adapter_is_ready a \<and> adapter_ok a
       \<and> ct_sklearn_version (the (ad_contract a)) = rv_sklearn rv
   | (Inl e, a) \<Rightarrow> e = ModelLoadError \<and> \<not> adapter_is_ready a \<and> adapter_predict a xs = Inl InferenceError"
proof (cases "load rv art old")
  case (Pair r a)
  show ?thesis
  proof (cases r)
    case (Inl e)
    then have "e = ModelLoadError \<and> a = new_adapter" using Pair
      by (cases rule: load_cases [of rv art old]) auto
    then show ?thesis using Inl Pair by (simp add: adapter_predict_def new_adapter_def adapter_is_ready_def)
  next
    case (Inr u)
    then have l: "load rv art old = (Inr (), a)" using Pair by simp
    from load_returns [OF this] have "ct_sklearn_version (the (ad_contract a)) = rv_sklearn rv"
      by (auto dest: validate_artifact_InrD(7))
    moreover have "adapter_is_ready a \<and> adapter_ok a" using l by (cases rule: load_cases [of rv art old]) auto
    ultimately show ?thesis using Pair Inr by simp
  qed
qed

lemma adapter_predict_schema:
  assumes ok: "adapter_ok a" and ready: "adapter_is_ready a" and xs: "predict_request body = Inr xs"
  shows "adapter_predict a xs =
    bindR (case pi_predict (the (ad_model a)) (map (map float_of_field) xs) of
             Inl _ \<Rightarrow> Inl InferenceError | Inr raw \<Rightarrow> jiter raw) (\<lambda>ps.
    bindR (requireR (length ps = length xs) InferenceError) (\<lambda>_.
      mapR (class_name (zip VERIFIED_CLASS_IDS VERIFIED_TARGET_NAMES)) ps))"
proof -
  from ready obtain m c ns where a: "ad_model a = Some m" "ad_contract a = Some c" "ad_names a = Some ns"
    by (auto simp: adapter_is_ready_def)
  with ok ready have "prepare_rows c xs = Inr (map (map float_of_field) xs)"
    and ns: "ns = zip VERIFIED_CLASS_IDS VERIFIED_TARGET_NAMES"
    by (auto simp: adapter_ok_def intro: schema_rows_accepted [OF xs])
  with a show ?thesis by (simp add: adapter_predict_def)
qed

text \<open>What the service can answer to a request the schema accepts.\<close>

lemma service_outcomes:
  assumes ok: "adapter_ok a" and xs: "predict_request body = Inr xs"
  obtains (not_ready) "\<not> adapter_is_ready a" "service_result a xs = Inl NotReadyError"
    | (failed) "adapter_is_ready a" "service_result a xs = Inl InferenceError"
    | (odd) p raw e where "ad_model a = Some p" "pi_predict p (map (map float_of_field) xs) = Inr raw"
        "jiter raw = Inl e" "e = TypeError ''not iterable''" "service_result a xs = Inl e"
    | (answered) p raw ps ns where "ad_model a = Some p"
        "pi_predict p (map (map float_of_field) xs) = Inr raw" "jiter raw = Inr ps" "length ps = length xs"
        "mapR (class_name (zip VERIFIED_CLASS_IDS VERIFIED_TARGET_NAMES)) ps = Inr ns"
        "service_result a xs = Inr ns"
proof (cases "adapter_is_ready a")
  case False
  then show thesis by (intro not_ready) (simp_all add: service_result_def requireR_def)
next
  case ready: True
  then obtain p where p: "ad_model a = Some p" by (auto simp: adapter_is_ready_def)
  have sr: "service_result a xs =
    bindR (bindR (case pi_predict p (map (map float_of_field) xs) of
             Inl _ \<Rightarrow> Inl InferenceError | Inr raw \<Rightarrow> jiter raw) (\<lambda>ps.
      bindR (requireR (length ps = length xs) InferenceError) (\<lambda>_.
        mapR (class_name (zip VERIFIED_CLASS_IDS VERIFIED_TARGET_NAMES)) ps)))
      (\<lambda>ns. bindR (requireR (length ns = length xs) InferenceError) (\<lambda>_. Inr ns))"
    using ready p by (simp add: service_result_def adapter_predict_schema [OF ok ready xs])
  show thesis
  proof (cases "pi_predict p (map (map float_of_field) xs)")
    case (Inl e)
    then show thesis using sr ready by (intro failed) simp_all
  next
    case raw: (Inr raw)
    show thesis
    proof (cases "jiter raw")
      case (Inl e)
      then have "e = TypeError ''not iterable''" by (cases raw) (auto simp: jiter_def)
      then show thesis using Inl raw p sr by (intro odd) simp_all
    next
      case ps: (Inr ps)
      let ?names = "mapR (class_name (zip VERIFIED_CLASS_IDS VERIFIED_TARGET_NAMES)) ps"
      show thesis
      proof (cases "length ps = length xs \<and> (\<exists>ns. ?names = Inr ns)")
        case True
        then obtain ns where ns: "?names = Inr ns" and len: "length ps = length xs" by blast
        with mapR_length [OF ns] show thesis using p raw ps sr by (intro answered) simp_all
      next
        case False
        have "e = InferenceError" if "?names = Inl e" for e
          using that by (induction ps) (auto simp: bindR_def class_name_def split: sum.splits option.splits)
        then show thesis using False raw ps sr ready
          by (intro failed) (cases ?names; simp add: requireR_def)+
      qed
    qed
  qed
qed

lemma answered_classes:
  assumes "mapR (class_name (zip VERIFIED_CLASS_IDS VERIFIED_TARGET_NAMES)) ps = Inr ns"
  shows "\<forall>n \<in> set ns. class_of_value n \<noteq> None"
    "list_all2 (\<lambda>c j. \<exists>k < 3. j = JInt (int k) \<and> c = iris_classes ! k) (map (\<lambda>n. the (class_of_value n)) ns) ps"
  using mapR_class_names [OF assms]
  by (auto simp: in_set_conv_nth list_all2_conv_all_nth) (metis option.distinct(1), metis option.sel)

lemma predict_route_reply:
  "predict_request body = Inr xs \<Longrightarrow> predict_route a body m =
     (case service_result a xs of Inl e \<Rightarrow> error_reply e | Inr ns \<Rightarrow> predict_response ns,
      record_inference (outcome_of (service_result a xs)) (length xs) m)"
  by (simp add: predict_route_def service_predict_def Let_def split: sum.split)

text \<open>
  C11 (answers of the prediction route). With an adapter that came out of loading, a 200 answers a
  request the schema accepts (1 to 100 instances) and its i-th class is the one the fitted pipeline
  returned for the i-th row, in order; 422 is answered exactly for bodies the schema rejects, so the
  adapter's own input check never fires after it; 503 only when the adapter is not ready.
\<close>
theorem predict_route_answers:
  assumes "load rv art old = (r, a)"
  shows "case fst (predict_route a body m) of
      Predictions cs \<Rightarrow>
        (\<exists>xs p raw ps. predict_request body = Inr xs \<and> ad_model a = Some p
          \<and> 1 \<le> length xs \<and> length xs \<le> 100 \<and> length cs = length xs
          \<and> pi_predict p (map (map float_of_field) xs) = Inr raw \<and> jiter raw = Inr ps
          \<and> list_all2 (\<lambda>c j. \<exists>k < 3. j = JInt (int k) \<and> c = iris_classes ! k) cs ps)
    | ApiError n tag \<Rightarrow>
        (n = 422 \<longleftrightarrow> (\<exists>e. predict_request body = Inl e)) \<and> (n = 503 \<longleftrightarrow> n \<noteq> 422 \<and> \<not> adapter_is_ready a)
        \<and> (n, tag) \<in> {(422, ''INVALID_REQUEST''), (503, ''NOT_READY''), (500, ''INFERENCE_FAILED'')}
    | Unhandled e \<Rightarrow>
        (\<exists>xs p raw. predict_request body = Inr xs \<and> ad_model a = Some p
          \<and> pi_predict p (map (map float_of_field) xs) = Inr raw \<and> jiter raw = Inl e)"
proof (cases "predict_request body")
  case (Inl e)
  then show ?thesis by (simp add: predict_route_def)
next
  case xs: (Inr xs)
  have ok: "adapter_ok a" using assms by (cases rule: load_cases [of rv art old]) auto
  note reply = predict_route_reply [OF xs]
  from ok xs show ?thesis
  proof (cases rule: service_outcomes)
    case (answered p raw ps ns)
    have "length ns = length xs" using answered(4) mapR_length [OF answered(5)] by simp
    then show ?thesis using xs answered(1-3) answered_classes [OF answered(5)] predict_request_InrD(1,2) [OF xs]
      by (simp add: reply answered(6) predict_response_def del: One_nat_def)
  qed (use xs in \<open>auto simp: reply error_reply_def\<close>)
qed

text \<open>
  One observation per exchange: the metrics middleware leaves the counters alone for probes and
  for traffic that is not HTTP. For every other exchange it increments exactly one counter, once,
  when the final body was sent or the application raised, labelled with the last status started
  before that point (500 when none was); an unfinished response is not counted.
\<close>
theorem middleware_observes_once:
  "middleware sc ms raised m =
     (if sc_http sc \<and> rstrip_by (\<lambda>c. c = CHR ''/'') (sc_path sc) \<notin> set EXCLUDED_PATHS
         \<and> (raised \<or> ResponseBody False \<in> set ms)
      then bump sc (final_status 500 ms) m else m)"
proof -
  define s where "s = fold (measured_send sc) ms \<lparr>me_status = 500, me_recorded = False, me_metrics = m\<rparr>"
  have s: "me_metrics s = (if ResponseBody False \<in> set ms then bump sc (final_status 500 ms) m else m)"
    "me_recorded s = (ResponseBody False \<in> set ms)"
    "ResponseBody False \<notin> set ms \<longrightarrow> me_status s = final_status 500 ms"
    using fold_measured [of "\<lparr>me_status = 500, me_recorded = False, me_metrics = m\<rparr>" sc ms]
    unfolding s_def by simp_all
  then have "me_metrics (if raised then observe sc s else s) =
      (if raised \<or> ResponseBody False \<in> set ms then bump sc (final_status 500 ms) m else m)"
    using observe_fresh [of s sc] by (cases raised) (auto simp: observe_def)
  then show ?thesis by (auto simp: middleware_def s_def [symmetric] Let_def)
qed

text \<open>
  Accounting of inference calls: every request the schema accepts is accounted as exactly one
  call and as many items as the batch has, under the outcome its status reports: success for 200,
  not ready for 503, an error for the rest; a rejected body is not accounted.
\<close>
theorem predict_route_accounting:
  assumes "load rv art old = (r, a)" and "predict_route a body m = (reply, m')"
  shows "m' = (case predict_request body of
      Inl _ \<Rightarrow> m
    | Inr xs \<Rightarrow> record_inference
        (if reply_status reply = 200 then Success else if reply_status reply = 503 then NotReady else Failure)
        (length xs) m)"
proof (cases "predict_request body")
  case (Inl e)
  then show ?thesis using assms(2) by (simp add: predict_route_def)
next
  case xs: (Inr xs)
  have ok: "adapter_ok a" using assms(1) by (cases rule: load_cases [of rv art old]) auto
  let ?r = "service_result a xs"
  have m': "m' = record_inference (outcome_of ?r) (length xs) m"
    and reply: "reply = (case ?r of Inl e \<Rightarrow> error_reply e | Inr ns \<Rightarrow> predict_response ns)"
    using assms(2) by (simp_all add: predict_route_reply [OF xs])
  from ok xs have "outcome_of ?r =
      (if reply_status reply = 200 then Success else if reply_status reply = 503 then NotReady else Failure)"
  proof (cases rule: service_outcomes)
    case (answered p raw ps ns)
    then show ?thesis using answered_classes(1) [OF answered(5)]
      by (simp add: reply outcome_of_def predict_response_def)
  qed (simp_all add: reply outcome_of_def error_reply_def)
  then show ?thesis using m' xs by simp
qed


section \<open>A concrete artifact\<close>

definition sample_pipeline :: pipeline where
  "sample_pipeline =
     \<lparr>pi_steps = [(''scaler'', StandardScaler), (''classifier'', LogisticRegression)],
      pi_n_features_in = Some (JInt 4), pi_classes = Some (JArr [JInt 0, JInt 1, JInt 2]),
      pi_predict = (\<lambda>rows. Inr (JArr (map (\<lambda>row. if flt_lt (hd row) (Fin 5) then JInt 0 else JInt 2) rows)))\<rparr>"

definition sample_metadata :: "(string \<times> artifact_object) list" where
  "sample_metadata =
     [(''feature_names'', Plain (JArr (map JStr VERIFIED_FEATURE_NAMES))),
      (''target_names'', Plain (JArr (map JStr VERIFIED_TARGET_NAMES))),
      (''feature_units'', Plain (JStr ''centimetres'')),
      (''model_version'', Plain (JStr ''iris-1'')),
      (''sklearn_version'', Plain (JStr ''1.7.2'')),
      (''python_version'', Plain (JStr ''3.12.14'')),
      (''signature'', Mapping
         [(''input'', Plain (JStr VERIFIED_SIGNATURE_INPUT)), (''output'', Plain (JStr VERIFIED_SIGNATURE_OUTPUT)),
          (''min_batch_size'', Plain (JInt 1)), (''max_batch_size'', Plain (JInt 100))])]"

definition sample_artifact :: artifact_object where
  "sample_artifact = Mapping [(''model'', Pipeline sample_pipeline), (''metadata'', Mapping sample_metadata)]"

definition sample_versions :: runtime_versions where
  "sample_versions = \<lparr>rv_python = ''3.12.14'', rv_sklearn = ''1.7.2''\<rparr>"

definition sample_adapter :: adapter where
  "sample_adapter = snd (load sample_versions (Inr sample_artifact) new_adapter)"

definition iris_body :: "rat list \<Rightarrow> json" where
  "iris_body ls = JObj [(''instances'', JArr (map (\<lambda>l. JObj (map (\<lambda>k. (k, jrat l)) VERIFIED_FEATURE_NAMES)) ls))]"

lemma sample_load: "load sample_versions (Inr sample_artifact) new_adapter = (Inr (), sample_adapter)"
proof -
  have "fst (load sample_versions (Inr sample_artifact) new_adapter) = Inr ()" by code_simp
  then show ?thesis unfolding sample_adapter_def by (metis prod.collapse)
qed

lemma sample_reply:
  "fst (predict_route sample_adapter (iris_body [4, 6]) new_metrics) = Predictions [Setosa, Virginica]"
  by code_simp

lemma predict_route_answers_witness:
  "\<exists>xs. predict_request (iris_body [4, 6]) = Inr xs \<and> length xs = 2"
  using predict_route_answers [OF sample_load, of "iris_body [4, 6]" new_metrics]
  by (auto simp: sample_reply)

lemma predict_route_accounting_witness:
  "sm_calls (snd (predict_route sample_adapter (JObj []) new_metrics)) Success = 0"
  using predict_route_accounting [OF sample_load, of "JObj []" new_metrics]
  by (cases "predict_route sample_adapter (JObj []) new_metrics")
    (simp add: predict_request_def keys_are_def requireR_def new_metrics_def)

end
