(* ===== verification/BuildTrigger.thy ===== *)
theory BuildTrigger
  imports KServe Scenario
begin

text \<open>
  The build trigger: \<open>scripts/runtime_build_trigger.py\<close>. A scheduled job reads the release state,
  asks the catalog for the fingerprint of the latest candidate that needs a runtime, reads the whole
  history of build runs page by page and dispatches a build only when neither knows the
  fingerprint. GitHub's HTTP endpoint, ECR and \<open>json.loads\<close> are parameters.
\<close>

section \<open>The candidate\<close>

definition RUN_PREFIX :: string where
  "RUN_PREFIX = ''Runtime build publish-true ''"

definition TRIGGER_WORKFLOW :: string where
  "TRIGGER_WORKFLOW = ''runtime-build.yml''"

definition latest_build_required :: "release_state \<Rightarrow> pending_item \<Rightarrow> bool res" where
  "latest_build_required s item =
     (if it_status item = BUILD_REQUIRED
      then bindR (py_int (ev_model_version (it_event item))) (\<lambda>v. Inr (v = st_highest_accepted s))
      else Inr False)"

definition technical_request :: "pylib \<Rightarrow> pending_item \<Rightarrow> json res" where
  "technical_request L item =
     bindR (requireR (it_pair item = None \<and> (it_authorization item = None \<or> it_authorization item = Some JNull))
              (ValueError ''BUILD_REQUIRED candidate already resolved or authorized'')) (\<lambda>_.
     let request = opt_json id (it_build_request item)
     in bindR (validate_request L request) (\<lambda>_.
        bindR (jget ''fingerprint'' request) (\<lambda>f.
        bindR (requireR (py_eq f (opt_json JStr (it_fingerprint item)))
                 (ValueError ''Candidate fingerprint does not match build contract'')) (\<lambda>_.
          Inr request))))"

definition canonical_request :: "pylib \<Rightarrow> release_state \<Rightarrow> string option res" where
  "canonical_request L s =
     bindR (validate L s) (\<lambda>_.
     bindR (filterR (latest_build_required s) (st_pending s)) (\<lambda>matches.
     bindR (requireR (length matches \<le> 1) (ValueError ''Ambiguous latest BUILD_REQUIRED candidate'')) (\<lambda>_.
       case matches of
         [] \<Rightarrow> Inr None
       | item # _ \<Rightarrow> bindR (technical_request L item) (\<lambda>request. Inr (Some (canonical_dumps L request))))))"

section \<open>Earlier runs\<close>

definition expected_title :: "string \<Rightarrow> string" where
  "expected_title fp = RUN_PREFIX @ fp"

datatype attempt = ACTIVE | SUCCEEDED_WAITING_FOR_CATALOG | BLOCKED_PREVIOUS_ATTEMPT

definition ACTIVE_STATES :: "string list" where
  "ACTIVE_STATES = [''queued'', ''in_progress'', ''pending'', ''requested'', ''waiting'']"

definition TERMINAL_FAILURE :: "string list" where
  "TERMINAL_FAILURE = [''failure'', ''cancelled'', ''timed_out'', ''action_required'', ''stale'', ''skipped'']"

text \<open>\<open>value in frozenset(...)\<close> of strings: lists and dicts cannot be hashed.\<close>

definition in_strings :: "json \<Rightarrow> string list \<Rightarrow> bool res" where
  "in_strings j ks =
     (if is_list j \<or> is_dict j then Inl (TypeError ''unhashable type'') else Inr (is_str j \<and> str_of j \<in> set ks))"

text \<open>The loop of \<open>previous_attempt\<close> returns or raises on its first run.\<close>

definition classify_run :: "json \<Rightarrow> attempt res" where
  "classify_run run =
     bindR (get_eq ''event'' (JStr ''workflow_dispatch'') run) (\<lambda>dispatched.
     bindR (requireR dispatched (ValueError ''Unexpected runtime build event'')) (\<lambda>_.
     bindR (get_eq ''head_branch'' (JStr ''main'') run) (\<lambda>on_main.
     bindR (requireR on_main (ValueError ''Runtime build attempt did not use main'')) (\<lambda>_.
     bindR (jget_or ''status'' JNull run) (\<lambda>status.
     bindR (jget_or ''conclusion'' JNull run) (\<lambda>conclusion.
     bindR (in_strings status ACTIVE_STATES) (\<lambda>running.
       if running then Inr ACTIVE
       else bindR (requireR (status = JStr ''completed'') (ValueError ''Unknown runtime build status'')) (\<lambda>_.
            if conclusion = JStr ''success'' then Inr SUCCEEDED_WAITING_FOR_CATALOG
            else bindR (in_strings conclusion TERMINAL_FAILURE) (\<lambda>failed.
                 bindR (requireR failed (ValueError ''Unknown runtime build conclusion'')) (\<lambda>_.
                   Inr BLOCKED_PREVIOUS_ATTEMPT))))))))))"

definition previous_attempt :: "json list \<Rightarrow> string \<Rightarrow> (attempt \<times> json) option res" where
  "previous_attempt runs fp =
     bindR (filterR (get_eq ''display_title'' (JStr (expected_title fp))) runs) (\<lambda>matches.
       case matches of
         [] \<Rightarrow> Inr None
       | run # _ \<Rightarrow> bindR (classify_run run) (\<lambda>a. Inr (Some (a, run))))"

section \<open>The decision\<close>

datatype build_decision =
    NO_BUILD_REQUIRED
  | CATALOG_HIT string string
  | PREVIOUS_RUN attempt string string
  | DISPATCH string string

definition fingerprint_of :: "json \<Rightarrow> string res" where
  "fingerprint_of request =
     bindR (jget ''fingerprint'' request) (\<lambda>f.
       if is_str f then Inr (str_of f) else Inl (TypeError ''expected string or bytes-like object''))"

definition run_reference :: "(json \<Rightarrow> string) \<Rightarrow> json \<Rightarrow> string res" where
  "run_reference to_str run = bindR (jget ''id'' run) (\<lambda>i. Inr (to_str i))"

definition decide_from ::
  "(json \<Rightarrow> string) \<Rightarrow> 'w ecr \<Rightarrow> json list \<Rightarrow> string \<Rightarrow> string \<Rightarrow> ('w, build_decision) prog" where
  "decide_from to_str E runs fp contract =
     bindP (lookup E fp) (\<lambda>found.
       case found of
         Some img \<Rightarrow> retP (CATALOG_HIT fp img)
       | None \<Rightarrow>
           liftP (bindR (previous_attempt runs fp) (\<lambda>earlier.
             case earlier of
               None \<Rightarrow> Inr (DISPATCH fp contract)
             | Some (outcome, run) \<Rightarrow>
                 bindR (run_reference to_str run) (\<lambda>i. Inr (PREVIOUS_RUN outcome fp i)))))"

definition decide_build ::
  "pylib \<Rightarrow> (string \<Rightarrow> json option) \<Rightarrow> (json \<Rightarrow> string) \<Rightarrow> 'w ecr \<Rightarrow> release_state \<Rightarrow> json list
    \<Rightarrow> ('w, build_decision) prog" where
  "decide_build L loads to_str E s runs =
     bindP (liftP (canonical_request L s)) (\<lambda>contract.
       case contract of
         None \<Rightarrow> retP NO_BUILD_REQUIRED
       | Some text \<Rightarrow>
           bindP (liftP (case loads text of Some r \<Rightarrow> fingerprint_of r | None \<Rightarrow> Inl (ValueError ''JSONDecodeError'')))
             (\<lambda>fp. decide_from to_str E runs fp text))"

section \<open>The GitHub API\<close>

text \<open>The HTTP exchange: URL, method, token and body give the bytes of the answer.\<close>

type_synonym 'w http = "string \<Rightarrow> string \<Rightarrow> string \<Rightarrow> string option \<Rightarrow> ('w, string) prog"

definition github_request ::
  "pylib \<Rightarrow> (string \<Rightarrow> json option) \<Rightarrow> env \<Rightarrow> 'w http \<Rightarrow> string \<Rightarrow> string \<Rightarrow> json option \<Rightarrow> ('w, json) prog" where
  "github_request L loads e http path verb data =
     bindP (liftP (requireR (e ''GITHUB_REPOSITORY'' = Some RELEASE_REPOSITORY) (ValueError ''Unexpected GitHub repository''))) (\<lambda>_.
       case (e ''GITHUB_API_URL'', e ''GH_TOKEN'') of
         (Some api, Some token) \<Rightarrow>
           if api = ''https://api.github.com'' \<and> token \<noteq> [] then
             bindP (http (api @ ''/repos/'' @ RELEASE_REPOSITORY @ ''/'' @ path) verb token
                      (map_option (dump (lib_float_repr L) '','' '':'') data)) (\<lambda>answer.
               let raw = take 1048577 answer
               in if length raw > 1048576 then raiseP (ValueError ''GitHub response exceeds bound'')
                  else if raw = [] then retP JNull
                  else liftP (case loads raw of Some v \<Rightarrow> Inr v | None \<Rightarrow> Inl (ValueError ''JSONDecodeError'')))
           else raiseP (ValueError ''Trusted GitHub API context required'')
       | _ \<Rightarrow> raiseP (ValueError ''Trusted GitHub API context required''))"

section \<open>The history of runs\<close>

abbreviation HISTORY_PAGE_SIZE :: nat where
  "HISTORY_PAGE_SIZE \<equiv> 100"

abbreviation MAX_HISTORY_RUNS :: int where
  "MAX_HISTORY_RUNS \<equiv> 10000"

text \<open>One run of a page: its id is present and not among the ids seen before.\<close>

definition run_id :: "json \<Rightarrow> json" where
  "run_id run = (case run of JObj kvs \<Rightarrow> (case map_of kvs ''id'' of Some i \<Rightarrow> i | None \<Rightarrow> JNull) | _ \<Rightarrow> JNull)"

definition take_run :: "json \<Rightarrow> json list \<Rightarrow> json list res" where
  "take_run run runs =
     (let i = run_id run
      in if i = JNull then Inl (ValueError ''Invalid or duplicate GitHub workflow run'')
         else if is_list i \<or> is_dict i then Inl (TypeError ''unhashable type'')
         else if list_ex (\<lambda>r. py_eq i (run_id r)) runs then Inl (ValueError ''Invalid or duplicate GitHub workflow run'')
         else Inr (runs @ [run]))"

definition page_runs :: "json \<Rightarrow> json list res" where
  "page_runs result =
     (case result of
        JObj kvs \<Rightarrow> (case map_of kvs ''workflow_runs'' of
                       Some (JArr batch) \<Rightarrow> Inr batch
                     | _ \<Rightarrow> Inl (ValueError ''Malformed GitHub workflow history''))
      | _ \<Rightarrow> Inl (ValueError ''Malformed GitHub workflow history''))"

definition page_total :: "json \<Rightarrow> int res" where
  "page_total result =
     bindR (jget_or ''total_count'' JNull result) (\<lambda>t.
       case t of
         JInt n \<Rightarrow> if 0 \<le> n \<and> n \<le> MAX_HISTORY_RUNS then Inr n
                   else Inl (ValueError ''Runtime build history exceeds bounded automatic dedup window'')
       | _ \<Rightarrow> Inl (ValueError ''Runtime build history exceeds bounded automatic dedup window''))"

definition take_page :: "int option \<Rightarrow> json list \<Rightarrow> json \<Rightarrow> (int \<times> json list) res" where
  "take_page known runs result =
     bindR (page_runs result) (\<lambda>batch.
     bindR (page_total result) (\<lambda>observed.
     let tot = (case known of None \<Rightarrow> observed | Some t \<Rightarrow> t)
     in bindR (requireR (observed = tot) (ValueError ''GitHub workflow history changed during pagination'')) (\<lambda>_.
        bindR (requireR (length batch \<le> HISTORY_PAGE_SIZE) (ValueError ''GitHub workflow history page exceeds bound'')) (\<lambda>_.
        bindR (requireR (batch \<noteq> [] \<or> int (length runs) = tot) (ValueError ''Incomplete GitHub workflow history'')) (\<lambda>_.
        bindR (foldR take_run batch runs) (\<lambda>runs'.
        bindR (requireR (int (length runs') \<le> tot) (ValueError ''GitHub workflow history exceeds reported total'')) (\<lambda>_.
          Inr (tot, runs'))))))))"

lemma take_run_InrD:
  "take_run run runs = Inr runs' \<Longrightarrow>
     runs' = runs @ [run] \<and> run_id run \<noteq> JNull \<and> list_all (\<lambda>r. \<not> py_eq (run_id run) (run_id r)) runs"
  by (auto simp: take_run_def Let_def list_ex_iff list_all_iff split: if_splits)

lemma foldR_take_run: "foldR take_run batch runs = Inr runs' \<Longrightarrow> runs' = runs @ batch"
proof (induction batch arbitrary: runs)
  case (Cons run batch)
  then obtain r where "take_run run runs = Inr r" "foldR take_run batch r = Inr runs'"
    by (auto simp: bindR_Inr_iff)
  then show ?case using take_run_InrD [of run runs r] Cons.IH [of r] by simp
qed simp

lemma page_total_le:
  assumes "page_total result = Inr t"
  shows "t \<le> MAX_HISTORY_RUNS"
proof -
  obtain j where "(case j of JInt n \<Rightarrow> if 0 \<le> n \<and> n \<le> MAX_HISTORY_RUNS then Inr n
        else Inl (ValueError ''Runtime build history exceeds bounded automatic dedup window'')
      | _ \<Rightarrow> Inl (ValueError ''Runtime build history exceeds bounded automatic dedup window'')) = Inr t"
    using assms by (auto simp: page_total_def bindR_Inr_iff)
  then show ?thesis by (cases j) (auto split: if_splits)
qed

lemma take_page_InrD:
  assumes "take_page known runs result = Inr (tot, runs')"
  shows "\<exists>batch. runs' = runs @ batch \<and> foldR take_run batch runs = Inr runs'
      \<and> length batch \<le> HISTORY_PAGE_SIZE \<and> (batch \<noteq> [] \<or> int (length runs) = tot)"
    "int (length runs') \<le> tot" "tot \<le> MAX_HISTORY_RUNS" "known = None \<or> known = Some tot"
proof -
  obtain batch observed where batch: "page_total result = Inr observed" "known = None \<or> known = Some observed"
      "tot = observed" "length batch \<le> HISTORY_PAGE_SIZE" "batch \<noteq> [] \<or> int (length runs) = tot"
      "foldR take_run batch runs = Inr runs'" "int (length runs') \<le> tot"
    using assms unfolding take_page_def Let_def bindR_Inr_iff requireR_iff by (cases known) auto
  then show "int (length runs') \<le> tot" "tot \<le> MAX_HISTORY_RUNS" "known = None \<or> known = Some tot"
    using page_total_le by simp_all
  show "\<exists>batch. runs' = runs @ batch \<and> foldR take_run batch runs = Inr runs'
      \<and> length batch \<le> HISTORY_PAGE_SIZE \<and> (batch \<noteq> [] \<or> int (length runs) = tot)"
    using batch foldR_take_run by blast
qed

text \<open>
  The loop. It ends because a page that adds nothing is refused: the number of runs still missing
  decreases, and the total is bounded on the first page.
\<close>

lemma take_page_progress:
  assumes "take_page known runs result = Inr (tot, runs')"
    and "\<not> (case known of None \<Rightarrow> False | Some t \<Rightarrow> t \<le> int (length runs))"
  shows "nat tot - length runs' < (case known of None \<Rightarrow> 10001 | Some t \<Rightarrow> nat t - length runs)"
proof -
  obtain batch where "runs' = runs @ batch" "batch \<noteq> [] \<or> int (length runs) = tot"
    using take_page_InrD(1) [OF assms(1)] by blast
  then show ?thesis using take_page_InrD(2-) [OF assms(1)] assms(2)
    by (cases known; cases batch) auto
qed

function history_from ::
  "(int \<Rightarrow> ('w, json) prog) \<Rightarrow> int option \<Rightarrow> json list \<Rightarrow> int \<Rightarrow> ('w, json list) prog" where
  "history_from fetch known runs page w =
     (if (case known of None \<Rightarrow> False | Some t \<Rightarrow> t \<le> int (length runs)) then (Inr runs, w)
      else case fetch page w of
             (Inl e, w') \<Rightarrow> (Inl e, w')
           | (Inr result, w') \<Rightarrow>
               (case take_page known runs result of
                  Inl e \<Rightarrow> (Inl e, w')
                | Inr (tot, runs') \<Rightarrow> history_from fetch (Some tot) runs' (page + 1) w'))"
  by pat_completeness auto

termination
  by (relation "measure (\<lambda>(fetch, known, runs, page, w). case known of None \<Rightarrow> 10001 | Some t \<Rightarrow> nat t - length runs)")
    (simp_all add: take_page_progress)

declare history_from.simps [simp del]

definition runs_page :: "int \<Rightarrow> string" where
  "runs_page page =
     ''actions/workflows/'' @ TRIGGER_WORKFLOW @ ''/runs?event=workflow_dispatch&branch=main&per_page=100&page='' @ int_str page"

definition workflow_runs :: "pylib \<Rightarrow> (string \<Rightarrow> json option) \<Rightarrow> env \<Rightarrow> 'w http \<Rightarrow> ('w, json list) prog" where
  "workflow_runs L loads e http = history_from (\<lambda>page. github_request L loads e http (runs_page page) ''GET'' None) None [] 1"

section \<open>The job\<close>

definition dispatch :: "pylib \<Rightarrow> (string \<Rightarrow> json option) \<Rightarrow> env \<Rightarrow> 'w http \<Rightarrow> string \<Rightarrow> ('w, unit) prog" where
  "dispatch L loads e http contract =
     bindP (github_request L loads e http (''actions/workflows/'' @ TRIGGER_WORKFLOW @ ''/dispatches'') ''POST''
              (Some (JObj [(''ref'', JStr ''main''),
                 (''inputs'', JObj [(''technical_contract'', JStr contract), (''publish'', JBool True)])])))
       (\<lambda>_. retP ())"

text \<open>\<open>main\<close>: \<open>report\<close> writes the decision, without the contract, to the evidence file.\<close>

definition trigger_main ::
  "pylib \<Rightarrow> (string \<Rightarrow> json option) \<Rightarrow> (json \<Rightarrow> string) \<Rightarrow> env \<Rightarrow> ('w, release_state) prog \<Rightarrow> 'w ecr \<Rightarrow> 'w http
    \<Rightarrow> (build_decision \<Rightarrow> ('w, unit) prog) \<Rightarrow> ('w, build_decision) prog" where
  "trigger_main L loads to_str e read_snapshot E http report =
     bindP (liftP (guards
       [(e ''GITHUB_EVENT_NAME'' = Some ''schedule'', ValueError ''Only scheduled main workflow may auto-dispatch''),
        (e ''GITHUB_REF'' = Some ''refs/heads/main'', ValueError ''Runtime trigger requires main'')])) (\<lambda>_.
     bindP read_snapshot (\<lambda>s.
     bindP (liftP (requireR (case e ''AWS_SESSION_TOKEN'' of Some t \<Rightarrow> t \<noteq> [] | None \<Rightarrow> False)
              (ValueError ''Short-lived OIDC credentials required''))) (\<lambda>_.
     bindP (workflow_runs L loads e http) (\<lambda>runs.
     bindP (decide_build L loads to_str E s runs) (\<lambda>decision.
     thenP (case decision of DISPATCH fp contract \<Rightarrow> dispatch L loads e http contract | _ \<Rightarrow> retP ())
       (bindP (report decision) (\<lambda>_. retP decision)))))))"

section \<open>What a complete history is\<close>

definition distinct_runs :: "json list \<Rightarrow> bool" where
  "distinct_runs runs \<longleftrightarrow> sorted_wrt (\<lambda>a b. \<not> py_eq (run_id b) (run_id a)) runs"

lemma foldR_take_run_distinct:
  "foldR take_run batch runs = Inr runs' \<Longrightarrow> distinct_runs runs \<Longrightarrow> distinct_runs runs'"
proof (induction batch arbitrary: runs)
  case (Cons run batch)
  then obtain r where r: "take_run run runs = Inr r" "foldR take_run batch r = Inr runs'"
    by (auto simp: bindR_Inr_iff)
  have "distinct_runs r"
    using take_run_InrD [OF r(1)] Cons.prems(2)
    by (auto simp: distinct_runs_def sorted_wrt_append list_all_iff)
  then show ?case using Cons.IH r(2) by blast
qed simp

lemma history_from_complete:
  assumes "history_from fetch known runs page w = (Inr runs', w')" and "distinct_runs runs"
    and "\<And>t. known = Some t \<Longrightarrow> int (length runs) \<le> t \<and> t \<le> MAX_HISTORY_RUNS"
  shows "distinct_runs runs' \<and> int (length runs') \<le> MAX_HISTORY_RUNS"
  using assms
proof (induction fetch known runs page w rule: history_from.induct)
  case (1 fetch known runs page w)
  show ?case
  proof (cases "case known of None \<Rightarrow> False | Some t \<Rightarrow> t \<le> int (length runs)")
    case True
    with 1(2) have "runs' = runs" by (subst (asm) history_from.simps) simp
    with True 1(3,4) show ?thesis by (auto split: option.splits)
  next
    case False
    with 1(2) obtain result w1 tot r where step: "fetch page w = (Inr result, w1)"
        "take_page known runs result = Inr (tot, r)"
      and rest: "history_from fetch (Some tot) r (page + 1) w1 = (Inr runs', w')"
      by (subst (asm) history_from.simps) (auto split: prod.splits sum.splits)
    have "distinct_runs r" using take_page_InrD(1) [OF step(2)] foldR_take_run_distinct 1(3) by blast
    then show ?thesis
      using 1(1) [OF False step(1) [symmetric] refl step(2) refl rest] take_page_InrD(2,3) [OF step(2)] by auto
  qed
qed

text \<open>
  \<open>counted\<close> runs the requests in a world that also counts them.
\<close>

definition counted :: "(int \<Rightarrow> ('w, json) prog) \<Rightarrow> int \<Rightarrow> (nat \<times> 'w, json) prog" where
  "counted fetch page = (\<lambda>(n, w). case fetch page w of (r, w') \<Rightarrow> (r, (Suc n, w')))"

lemma history_from_requests:
  "known = Some t \<Longrightarrow> fst (snd (history_from (counted fetch) known runs page (n, w))) \<le> n + (nat t - length runs)"
proof (induction "nat t - length runs" arbitrary: runs page n w known rule: less_induct)
  case less
  show ?case
  proof (cases "t \<le> int (length runs)")
    case True
    then show ?thesis using less.prems by (subst history_from.simps) simp
  next
    case False
    obtain r w1 where fetch: "fetch page w = (r, w1)" by (cases "fetch page w")
    show ?thesis
    proof (cases "\<exists>result tot runs'. r = Inr result \<and> take_page (Some t) runs result = Inr (tot, runs')")
      case True
      then obtain result tot runs' where step: "r = Inr result" "take_page (Some t) runs result = Inr (tot, runs')"
        by blast
      then have "tot = t" using take_page_InrD(4) by blast
      then have shrink: "nat t - length runs' < nat t - length runs"
        using take_page_progress [OF step(2)] False by simp
      from less.hyps [OF this refl, of "page + 1" "Suc n" w1] shrink
      show ?thesis using False less.prems step \<open>tot = t\<close>
        by (subst history_from.simps) (simp add: counted_def fetch)
    next
      case none: False
      then show ?thesis using False less.prems
        by (subst history_from.simps) (cases r, auto simp: counted_def fetch split: sum.splits)
    qed
  qed
qed

section \<open>Properties\<close>

text \<open>
  Termination of the history scan: whatever pages GitHub answers with, reading the history of
  build runs returns or raises after at most 10000 requests: a page that brings nothing new is
  refused, and so is a total above the bound or one that changes between pages.
\<close>
theorem history_request_bound:
  "fst (snd (history_from (counted fetch) None [] 1 (0, w))) \<le> 10000"
proof -
  obtain r w1 where fetch: "fetch 1 w = (r, w1)" by (cases "fetch 1 w")
  show ?thesis
  proof (cases "\<exists>result tot runs. r = Inr result \<and> take_page None [] result = Inr (tot, runs)")
    case True
    then obtain result tot runs where step: "r = Inr result" "take_page None [] result = Inr (tot, runs)" by blast
    have "Suc 0 + (nat tot - length runs) \<le> 10000"
      using take_page_InrD(1-3) [OF step(2)] by (cases runs) auto
    then show ?thesis
      using history_from_requests [OF refl, of fetch tot runs 2 "Suc 0" w1] step
      by (subst history_from.simps) (simp add: counted_def fetch)
  next
    case False
    then show ?thesis
      by (subst history_from.simps) (cases r, auto simp: counted_def fetch split: sum.splits)
  qed
qed

text \<open>
  C17 (a complete history). When the scan returns, it returns pairwise different runs, at most 10000,
  so no build run was counted twice and none was invented to reach the reported total.
\<close>
theorem history_is_complete:
  assumes "workflow_runs L loads e http w = (Inr runs, w')"
  shows "distinct_runs runs \<and> int (length runs) \<le> MAX_HISTORY_RUNS"
  using history_from_complete [OF assms [unfolded workflow_runs_def]] by (simp add: distinct_runs_def)

lemma decide_from_DISPATCH:
  assumes "decide_from to_str E runs fp t w = (Inr (DISPATCH fp' contract), w')"
  shows "fp' = fp \<and> contract = t \<and> lookup E fp w = (Inr None, w') \<and> previous_attempt runs fp = Inr None"
proof -
  obtain found v where found: "lookup E fp w = (Inr found, v)"
    "(case found of Some img \<Rightarrow> retP (CATALOG_HIT fp img)
       | None \<Rightarrow> liftP (bindR (previous_attempt runs fp) (\<lambda>earlier.
             case earlier of None \<Rightarrow> Inr (DISPATCH fp t)
             | Some (outcome, run) \<Rightarrow>
                 bindR (run_reference to_str run) (\<lambda>i. Inr (PREVIOUS_RUN outcome fp i))))) v = (Inr (DISPATCH fp' contract), w')"
    using assms unfolding decide_from_def bindP_Inr_iff by blast
  then show ?thesis
    by (cases found; cases "previous_attempt runs fp")
      (auto simp: run_retP run_liftP bindR_Inr_iff split: option.splits)
qed

lemma canonical_request_SomeD:
  assumes "canonical_request L s = Inr (Some text)"
  shows "validate L s = Inr ()"
    "\<exists>item c. filterR (latest_build_required s) (st_pending s) = Inr [item] \<and> it_pair item = None
       \<and> validate_request L (opt_json id (it_build_request item)) = Inr c
       \<and> text = canonical_dumps L (opt_json id (it_build_request item))"
proof -
  obtain matches where m: "validate L s = Inr ()" "filterR (latest_build_required s) (st_pending s) = Inr matches"
    "length matches \<le> 1"
    "(case matches of [] \<Rightarrow> Inr None
      | item # _ \<Rightarrow> bindR (technical_request L item) (\<lambda>request. Inr (Some (canonical_dumps L request)))) = Inr (Some text)"
    using assms unfolding canonical_request_def bindR_Inr_iff requireR_iff by auto
  then show "validate L s = Inr ()" by simp
  from m(3,4) obtain item where "matches = [item]" by (cases matches) auto
  moreover have "it_pair item = None \<and> (\<exists>c. validate_request L (opt_json id (it_build_request item)) = Inr c)
      \<and> text = canonical_dumps L (opt_json id (it_build_request item))"
    using m(4) \<open>matches = [item]\<close> by (auto simp: technical_request_def bindR_Inr_iff Let_def)
  ultimately show "\<exists>item c. filterR (latest_build_required s) (st_pending s) = Inr [item] \<and> it_pair item = None
       \<and> validate_request L (opt_json id (it_build_request item)) = Inr c
       \<and> text = canonical_dumps L (opt_json id (it_build_request item))"
    using m(2) by blast
qed

text \<open>
  C16 (a build is dispatched only for an unknown runtime). A dispatch is decided only on a valid
  state, for the single queued candidate of the highest accepted version that waits for a build;
  its contract is the canonical text of that candidate's valid build request, the catalog answered
  that it does not know the fingerprint, and no run of the history carries it.
\<close>
theorem dispatch_only_unknown:
  assumes "decide_build L loads to_str E s runs w = (Inr (DISPATCH fp contract), w')"
  shows "validate L s = Inr ()
    \<and> (\<exists>item c. filterR (latest_build_required s) (st_pending s) = Inr [item] \<and> it_pair item = None
         \<and> validate_request L (opt_json id (it_build_request item)) = Inr c
         \<and> contract = canonical_dumps L (opt_json id (it_build_request item)))
    \<and> (\<exists>r. loads contract = Some r \<and> fingerprint_of r = Inr fp) \<and> lookup E fp w = (Inr None, w')
    \<and> (\<forall>run \<in> set runs. get_eq ''display_title'' (JStr (expected_title fp)) run = Inr False)"
proof -
  obtain c where c: "canonical_request L s = Inr c" and
    rest: "(case c of None \<Rightarrow> retP NO_BUILD_REQUIRED
      | Some t \<Rightarrow> bindP (liftP (case loads t of Some r \<Rightarrow> fingerprint_of r | None \<Rightarrow> Inl (ValueError ''JSONDecodeError'')))
             (\<lambda>fp. decide_from to_str E runs fp t)) w = (Inr (DISPATCH fp contract), w')"
    using assms unfolding decide_build_def bindP_Inr_iff run_liftP by auto
  then obtain t where t: "c = Some t" by (cases c) (auto simp: run_retP)
  have run: "(case loads t of Some r \<Rightarrow> fingerprint_of r | None \<Rightarrow> Inl (ValueError ''JSONDecodeError'')) = Inr fp
      \<and> t = contract \<and> lookup E fp w = (Inr None, w') \<and> previous_attempt runs fp = Inr None"
    using rest unfolding t option.case bindP_Inr_iff run_liftP by (auto dest: decide_from_DISPATCH)
  from run have "filterR (get_eq ''display_title'' (JStr (expected_title fp))) runs = Inr []"
    by (cases "filterR (get_eq ''display_title'' (JStr (expected_title fp))) runs")
      (auto simp: previous_attempt_def bindR_Inr_iff split: list.splits)
  then have "\<forall>run \<in> set runs. get_eq ''display_title'' (JStr (expected_title fp)) run = Inr False"
    by (induction runs) (auto simp: bindR_Inr_iff split: if_splits)
  moreover have "\<exists>r. loads contract = Some r \<and> fingerprint_of r = Inr fp"
    using run by (auto split: option.splits)
  ultimately show ?thesis using canonical_request_SomeD [OF c [unfolded t]] run by auto
qed

section \<open>Witnesses\<close>

definition building_state :: release_state where
  "building_state = resolved_state\<lparr>st_pending := [resolved_item\<lparr>it_status := BUILD_REQUIRED, it_pair := None\<rparr>]\<rparr>"

text \<open>A catalog that holds nothing.\<close>

definition empty_catalog :: "unit ecr" where
  "empty_catalog =
     \<lparr>ec_describe_repositories = retP (JObj [(''repositories'',
        JArr [JObj [(''repositoryUri'', JStr REPOSITORY), (''imageTagMutability'', JStr ''IMMUTABLE'')]])]),
      ec_describe_images = (\<lambda>_. raiseP (OtherError ''ImageNotFoundException'')),
      ec_batch_get_image = (\<lambda>_. retP JNull), ec_put_image = (\<lambda>_ _ _. retP ()),
      ec_code = (\<lambda>e. Some (exn_name e))\<rparr>"

definition sample_decision :: "json list \<Rightarrow> build_decision res \<times> unit" where
  "sample_decision runs = decide_build sample_lib (\<lambda>_. Some sample_request) (\<lambda>_. ''run'') empty_catalog building_state runs ()"

definition sample_build_run :: "string \<Rightarrow> json" where
  "sample_build_run fp = JObj
     [(''id'', JInt 1), (''display_title'', JStr (RUN_PREFIX @ fp)), (''event'', JStr ''workflow_dispatch''),
      (''head_branch'', JStr ''main''), (''status'', JStr ''completed''), (''conclusion'', JStr ''failure'')]"

lemma sample_dispatch:
  "case fst (sample_decision [sample_build_run ''other'']) of
     Inr (DISPATCH fp _) \<Rightarrow> fp = sample_digest (CHR ''c'') | _ \<Rightarrow> False"
  by code_simp

text \<open>The same candidate after a build of it failed: it is not dispatched again.\<close>

lemma sample_blocked:
  "case fst (sample_decision [sample_build_run (sample_digest (CHR ''c''))]) of
     Inr (PREVIOUS_RUN BLOCKED_PREVIOUS_ATTEMPT fp _) \<Rightarrow> fp = sample_digest (CHR ''c'') | _ \<Rightarrow> False"
  by code_simp

lemma dispatch_only_unknown_witness:
  "lookup empty_catalog (sample_digest (CHR ''c'')) () = (Inr None, ())
     \<and> get_eq ''display_title'' (JStr (expected_title (sample_digest (CHR ''c'')))) (sample_build_run ''other'') = Inr False"
proof -
  obtain contract where
    "sample_decision [sample_build_run ''other''] = (Inr (DISPATCH (sample_digest (CHR ''c'')) contract), ())"
    using sample_dispatch
    by (cases "sample_decision [sample_build_run ''other'']") (auto split: sum.splits build_decision.splits)
  from dispatch_only_unknown [OF this [unfolded sample_decision_def]] show ?thesis by simp
qed

definition sample_github :: "unit http" where
  "sample_github url verb token body = retP ''page''"

definition sample_env :: env where
  "sample_env = [''GITHUB_REPOSITORY'' \<mapsto> RELEASE_REPOSITORY, ''GITHUB_API_URL'' \<mapsto> ''https://api.github.com'',
                 ''GH_TOKEN'' \<mapsto> ''t'']"

definition sample_page :: json where
  "sample_page = JObj [(''total_count'', JInt 1), (''workflow_runs'', JArr [sample_build_run ''other''])]"

lemma sample_fetch:
  "github_request sample_lib (\<lambda>_. Some sample_page) sample_env sample_github (runs_page page) ''GET'' None ()
     = (Inr sample_page, ())"
  by (simp add: github_request_def run_simps sample_env_def sample_github_def)

lemma sample_take_page: "take_page None [] sample_page = Inr (1, [sample_build_run ''other''])"
  by (simp add: take_page_def sample_page_def page_runs_def page_total_def sample_build_run_def take_run_def run_id_def)

lemma sample_history:
  "workflow_runs sample_lib (\<lambda>_. Some sample_page) sample_env sample_github () = (Inr [sample_build_run ''other''], ())"
  unfolding workflow_runs_def
  by (subst history_from.simps, simp add: sample_fetch sample_take_page, subst history_from.simps, simp)

lemma history_is_complete_witness: "distinct_runs [sample_build_run ''other'']"
  using history_is_complete [OF sample_history] by simp

end
