(* ===== verification/ReleaseIdentity.thy ===== *)
theory ReleaseIdentity
  imports BuildTrigger
begin

text \<open>
  The release job of the first generation: \<open>scripts/release.py\<close>. A release is an identity of two
  image digests, a source commit and a ticket, written to \<open>release.json\<close> and checked again by every
  later job before it builds, validates or deploys. This theory holds the identity and its checks;
  ReleaseDeploy holds the jobs.
\<close>

section \<open>Names\<close>

datatype image_kind = Runtime | Artifact

fun kind_name :: "image_kind \<Rightarrow> string" where
  "kind_name Runtime = ''runtime''"
| "kind_name Artifact = ''artifact''"

fun kind_upper :: "image_kind \<Rightarrow> string" where
  "kind_upper Runtime = ''RUNTIME''"
| "kind_upper Artifact = ''ARTIFACT''"

definition digest_key :: "image_kind \<Rightarrow> string" where
  "digest_key k = kind_name k @ ''_digest''"

definition image_name_key :: "image_kind \<Rightarrow> string" where
  "image_name_key k = kind_name k @ ''_image_name''"

definition exact_key :: "image_kind \<Rightarrow> string" where
  "exact_key k = ''exact_'' @ kind_name k @ ''_image''"

definition STRING_IDENTITY_KEYS :: "string list" where
  "STRING_IDENTITY_KEYS =
     [''git_sha'', ''git_short_sha'', ''release_version'',
      ''runtime_image_name'', ''runtime_digest'', ''exact_runtime_image'',
      ''artifact_image_name'', ''artifact_tag'', ''artifact_digest'', ''exact_artifact_image'',
      ''workflow_run'', ''ticket_reference'']"

definition IDENTITY_KEYS :: "string list" where
  "IDENTITY_KEYS = ''schema_version'' # STRING_IDENTITY_KEYS @ [''security_policy'']"

text \<open>\<open>VERSION\<close>, \<open>IMAGE_NAME\<close> and the expressions for regions and namespaces.\<close>

definition rx_version :: "string \<Rightarrow> bool" where
  "rx_version s \<longleftrightarrow>
     starts_with ''v'' s \<and> (let parts = split_on (CHR ''.'') (drop 1 s) in length parts = 3 \<and> list_all canonical_number parts)"

definition lower_alnum :: "char \<Rightarrow> bool" where
  "lower_alnum c \<longleftrightarrow> lower c \<or> digit c"

definition rx_image_path :: "string \<Rightarrow> bool" where
  "rx_image_path s \<longleftrightarrow>
     list_all (\<lambda>p. p \<noteq> [] \<and> list_all lower_alnum p)
       (split_on (CHR ''/'') (map (\<lambda>c. if c \<in> set ''._-'' then CHR ''/'' else c) s))"

definition rx_image_name :: "string \<Rightarrow> bool" where
  "rx_image_name s \<longleftrightarrow>
     (let host_char = (\<lambda>c. lower_alnum c \<or> c \<in> set ''.-'');
          host = takeWhile host_char s; rest = dropWhile host_char s;
          port = takeWhile digit (drop 1 rest);
          path = (if starts_with '':'' rest then dropWhile digit (drop 1 rest) else rest)
      in host \<noteq> [] \<and> (starts_with '':'' rest \<longrightarrow> port \<noteq> []) \<and> starts_with ''/'' path \<and> rx_image_path (drop 1 path))"

definition rx_image_reference :: "string \<Rightarrow> bool" where
  "rx_image_reference s \<longleftrightarrow>
     CHR ''@'' \<in> set s \<and> rx_image_name (before (CHR ''@'') s) \<and> rx_digest (after (CHR ''@'') s)"

definition rx_region :: "string \<Rightarrow> bool" where
  "rx_region s \<longleftrightarrow>
     (let parts = split_on (CHR ''-'') s
      in length parts \<ge> 3 \<and> rx_chars 2 2 lower (hd parts)
         \<and> list_all (\<lambda>p. p \<noteq> [] \<and> list_all lower p) (butlast (tl parts))
         \<and> last parts \<noteq> [] \<and> list_all digit (last parts))"

definition rx_namespace :: "string \<Rightarrow> bool" where
  "rx_namespace s \<longleftrightarrow>
     s \<noteq> [] \<and> list_all (\<lambda>c. lower_alnum c \<or> c = CHR ''-'') s \<and> hd s \<noteq> CHR ''-'' \<and> last s \<noteq> CHR ''-''"

section \<open>The environment\<close>

definition getenv :: "env \<Rightarrow> string \<Rightarrow> string res" where
  "getenv e name =
     (let v = strip (case e name of Some s \<Rightarrow> s | None \<Rightarrow> [])
      in if v = [] then Inl (ValueError (name @ '' is required'')) else Inr v)"

definition env_is :: "env \<Rightarrow> string \<Rightarrow> string \<Rightarrow> string \<Rightarrow> unit res" where
  "env_is e name v msg = bindR (getenv e name) (\<lambda>x. requireR (x = v) (ValueError msg))"

definition first_attempt :: "env \<Rightarrow> unit res" where
  "first_attempt e =
     env_is e ''GITHUB_RUN_ATTEMPT'' ''1''
       ''Release reruns are disabled; use a new source commit and release version''"

definition repository_name :: "env \<Rightarrow> image_kind \<Rightarrow> string res" where
  "repository_name e k = getenv e (''ECR_'' @ kind_upper k @ ''_REPOSITORY'')"

definition image_name :: "env \<Rightarrow> image_kind \<Rightarrow> string res" where
  "image_name e k =
     bindR (getenv e ''AWS_ACCOUNT_ID'') (\<lambda>account.
     bindR (getenv e ''AWS_REGION'') (\<lambda>region.
     bindR (guards [(rx_chars 12 12 digit account, ValueError ''Invalid AWS account ID''),
                    (rx_region region, ValueError ''Invalid AWS region'')]) (\<lambda>_.
     bindR (repository_name e k) (\<lambda>repo.
       Inr (account @ ''.dkr.ecr.'' @ region @ ''.amazonaws.com/'' @ repo)))))"

definition run_url :: "env \<Rightarrow> string res" where
  "run_url e =
     bindR (getenv e ''GITHUB_SERVER_URL'') (\<lambda>server.
     bindR (getenv e ''GITHUB_REPOSITORY'') (\<lambda>repo.
     bindR (getenv e ''GITHUB_RUN_ID'') (\<lambda>run.
       Inr (server @ ''/'' @ repo @ ''/actions/runs/'' @ run))))"

section \<open>The identity\<close>

text \<open>The value of a key that the checks before have shown to be a string.\<close>

definition identity_text :: "json \<Rightarrow> string \<Rightarrow> string" where
  "identity_text data k = (case jget k data of Inr (JStr s) \<Rightarrow> s | _ \<Rightarrow> [])"

definition string_key :: "json \<Rightarrow> string \<Rightarrow> unit res" where
  "string_key data k =
     bindR (jget_or k JNull data) (\<lambda>v.
       requireR (is_str v \<and> strip (str_of v) \<noteq> []) (ValueError (''Missing release identity: '' @ k)))"

definition PINNED_KEYS :: "string list" where
  "PINNED_KEYS = [''artifact_digest'', ''exact_artifact_image'']"

definition image_identity :: "json \<Rightarrow> bool \<Rightarrow> image_kind \<Rightarrow> (bool \<times> exn) list" where
  "image_identity data unpinned k =
     (rx_image_name (identity_text data (image_name_key k)), ValueError (''Invalid '' @ kind_name k @ '' image name'')) #
     (if k = Artifact \<and> unpinned then []
      else [(rx_digest (identity_text data (digest_key k)), ValueError (''Missing/invalid '' @ kind_name k @ '' digest'')),
            (identity_text data (exact_key k) = identity_text data (image_name_key k) @ ''@'' @ identity_text data (digest_key k),
             ValueError (kind_name k @ '' deployment identity mismatch''))])"

definition validate_policy :: "json \<Rightarrow> unit res" where
  "validate_policy data =
     bindR (jget_or ''security_policy'' JNull data) (\<lambda>policy.
     bindR (requireR (is_dict policy) (ValueError ''Missing security policy'')) (\<lambda>_.
     bindR (jget_or ''blocking_severities'' JNull policy) (\<lambda>severity.
     bindR (requireR (is_str severity \<and> str_of severity \<noteq> []
          \<and> set (split_on (CHR '','') (str_of severity)) \<subseteq> set [''UNKNOWN'', ''LOW'', ''MEDIUM'', ''HIGH'', ''CRITICAL''])
        (ValueError ''Configure a non-empty comma-separated Trivy severity list'')) (\<lambda>_.
     bindR (jget_or ''ignore_unfixed'' JNull policy) (\<lambda>unfixed.
     bindR (in_strings unfixed [''true'', ''false'']) (\<lambda>ok.
       requireR ok (ValueError ''TRIVY_IGNORE_UNFIXED must be true or false'')))))))"

definition unpinned_identity :: "json \<Rightarrow> bool \<Rightarrow> bool res" where
  "unpinned_identity data allow_unpinned =
     (if \<not> allow_unpinned then Inr False
      else andR (map (\<lambda>k. get_eq k (JStr []) data) PINNED_KEYS))"

definition validate_identity :: "json \<Rightarrow> bool \<Rightarrow> unit res" where
  "validate_identity data allow_unpinned =
     bindR (get_eq ''schema_version'' (JInt 2) data) (\<lambda>schema.
     bindR (requireR schema (ValueError ''Unsupported release schema'')) (\<lambda>_.
     bindR (unpinned_identity data allow_unpinned) (\<lambda>unpinned.
     bindR (forR (string_key data)
              (filter (\<lambda>k. \<not> (unpinned \<and> k \<in> set PINNED_KEYS)) STRING_IDENTITY_KEYS)) (\<lambda>_.
     bindR (guards
       ([(rx_chars 40 40 hex_digit (identity_text data ''git_sha''), ValueError ''Invalid SHA''),
         (identity_text data ''git_short_sha'' = take 12 (identity_text data ''git_sha''), ValueError ''Short SHA mismatch''),
         (rx_version (identity_text data ''release_version''), ValueError ''Invalid version'')]
        @ image_identity data unpinned Runtime @ image_identity data unpinned Artifact
        @ [(identity_text data ''artifact_tag'' = ''m-'' @ identity_text data ''git_short_sha'', ValueError ''Build tag mismatch''),
           (length (identity_text data ''ticket_reference'') \<le> 256
              \<and> list_all (\<lambda>c. 32 \<le> code c \<and> code c \<noteq> 127) (identity_text data ''ticket_reference''),
            ValueError ''Ticket must be a short non-sensitive single-line reference'')])) (\<lambda>_.
       validate_policy data)))))"

section \<open>Checks of the evidence\<close>

definition verify_run_identity :: "env \<Rightarrow> json \<Rightarrow> unit res" where
  "verify_run_identity e data =
     bindR (first_attempt e) (\<lambda>_.
     bindR (jget ''git_sha'' data) (\<lambda>sha. bindR (getenv e ''GITHUB_SHA'') (\<lambda>expected.
     bindR (requireR (sha = JStr expected) (ValueError ''Evidence/source SHA mismatch'')) (\<lambda>_.
     bindR (jget ''release_version'' data) (\<lambda>v. bindR (getenv e ''GITHUB_REF_NAME'') (\<lambda>name.
     bindR (if v = JStr name then bindR (getenv e ''GITHUB_REF'') (\<lambda>ref. Inr (ref = ''refs/tags/'' @ name)) else Inr False) (\<lambda>same.
     bindR (requireR same (ValueError ''Evidence/release version mismatch'')) (\<lambda>_.
     bindR (jget ''ticket_reference'' data) (\<lambda>t. bindR (getenv e ''TICKET_REFERENCE'') (\<lambda>ticket_ref.
     bindR (requireR (t = JStr ticket_ref) (ValueError ''Evidence/ticket mismatch'')) (\<lambda>_.
     bindR (jget ''workflow_run'' data) (\<lambda>run. bindR (run_url e) (\<lambda>url.
       requireR (run = JStr url) (ValueError ''Evidence belongs to a different release run''))))))))))))))"

definition reviewer_rule :: "json \<Rightarrow> bool res" where
  "reviewer_rule rule =
     andR [get_truthy rule ''reviewers'',
           bindR (jget_or ''prevent_self_review'' JNull rule) (\<lambda>v. Inr (v = JBool True))]"

definition verify_protection :: "json \<Rightarrow> json \<Rightarrow> unit res" where
  "verify_protection protection policies =
     bindR (jget_or ''protection_rules'' (JArr []) protection) (\<lambda>rj. bindR (jiter rj) (\<lambda>rs.
     bindR (filterR (get_eq ''type'' (JStr ''required_reviewers'')) rs) (\<lambda>reviewers.
     bindR (orR (map reviewer_rule reviewers)) (\<lambda>reviewed.
     bindR (requireR reviewed (ValueError ''Production requires reviewers and prevent self-review'')) (\<lambda>_.
     bindR (jget_or ''deployment_branch_policy'' JNull protection) (\<lambda>pol.
     bindR (requireR (py_eq pol (JObj [(''protected_branches'', JBool False), (''custom_branch_policies'', JBool True)]))
              (ValueError ''Production must use selected deployment policies'')) (\<lambda>_.
     bindR (jget_or ''branch_policies'' (JArr []) policies) (\<lambda>rules.
     bindR (andR [get_eq ''total_count'' (JInt 1) policies, bindR (jlen rules) (\<lambda>n. Inr (n = 1)),
                  bindR (jnth 0 rules) (get_eq ''name'' (JStr ''v*''))]) (\<lambda>single.
       requireR single (ValueError ''Production must allow only the v* release policy''))))))))))"

definition CHECKS :: "string list" where
  "CHECKS = [''apply'', ''rollout'', ''readiness'', ''image'', ''smoke'']"

definition same_identity :: "json \<Rightarrow> json \<Rightarrow> bool res" where
  "same_identity other data =
     andR (map (\<lambda>k. bindR (jget_or k JNull other) (\<lambda>v. bindR (jget k data) (\<lambda>w. Inr (py_eq v w)))) IDENTITY_KEYS)"

definition checks_passed :: "json \<Rightarrow> bool res" where
  "checks_passed report =
     andR (map (\<lambda>k. bindR (jget_or ''checks'' (JObj []) report) (\<lambda>c. get_eq k (JStr ''success'') c)) CHECKS)"

definition verify_validation :: "json \<Rightarrow> json \<Rightarrow> string \<Rightarrow> unit res" where
  "verify_validation data validation expected_environment =
     bindR (same_identity validation data) (\<lambda>same.
     bindR (requireR same (ValueError ''Validation used a different release identity'')) (\<lambda>_.
     bindR (andR [get_eq ''deployment_environment'' (JStr expected_environment) validation,
                  get_eq ''deployment_result'' (JStr ''success'') validation, checks_passed validation]) (\<lambda>ok.
       requireR ok (ValueError ''Validation evidence is incomplete or failed''))))"

section \<open>Images and pods\<close>

definition named :: "json \<Rightarrow> string \<Rightarrow> json res" where
  "named items name =
     bindR (jiter items) (\<lambda>xs. bindR (filterR (get_eq ''name'' (JStr name)) xs) (\<lambda>matches.
       case matches of [x] \<Rightarrow> Inr x | _ \<Rightarrow> Inl (ValueError (''Missing or ambiguous container: '' @ name))))"

fun spec_group :: "image_kind \<Rightarrow> string" where
  "spec_group Runtime = ''containers''"
| "spec_group Artifact = ''initContainers''"

fun status_group :: "image_kind \<Rightarrow> string" where
  "status_group Runtime = ''containerStatuses''"
| "status_group Artifact = ''initContainerStatuses''"

fun container_name :: "image_kind \<Rightarrow> string" where
  "container_name Runtime = ''model-service''"
| "container_name Artifact = ''model-artifact''"

definition named_in :: "json \<Rightarrow> string \<Rightarrow> string \<Rightarrow> json res" where
  "named_in j grp name = bindR (jget_or grp (JArr []) j) (\<lambda>items. named items name)"

definition verify_image :: "json \<Rightarrow> json \<Rightarrow> image_kind \<Rightarrow> unit res" where
  "verify_image data spec k =
     bindR (named_in spec (spec_group k) (container_name k)) (\<lambda>c.
     bindR (jget_or ''image'' JNull c) (\<lambda>img. bindR (jget (exact_key k) data) (\<lambda>exact.
       requireR (py_eq img exact) (ValueError (kind_name k @ '' image changed'')))))"

definition rendered_group :: "json \<Rightarrow> image_kind \<Rightarrow> bool res" where
  "rendered_group spec k =
     bindR (jget_or (spec_group k) (JArr []) spec) (\<lambda>items. bindR (jiter items) (\<lambda>xs.
       andR (map (\<lambda>c. bindR (jget_or ''image'' JNull c) (\<lambda>img.
         bindR (in_strings img [''RUNTIME_IMAGE_REQUIRED'', ''ARTIFACT_IMAGE_REQUIRED'']) (\<lambda>b. Inr (\<not> b)))) xs)))"

definition verify_images :: "json \<Rightarrow> json \<Rightarrow> unit res" where
  "verify_images data spec =
     bindR (forR (verify_image data spec) [Runtime, Artifact]) (\<lambda>_.
     bindR (andR (map (rendered_group spec) [Runtime, Artifact])) (\<lambda>rendered.
       requireR rendered (ValueError ''Unrendered image placeholder'')))"

definition IMAGE_ID_PREFIXES :: "string list" where
  "IMAGE_ID_PREFIXES = [''docker-pullable://'', ''docker://'', ''containerd://'']"

definition strip_prefix :: "string \<Rightarrow> string" where
  "strip_prefix s = (case first_such (\<lambda>p. starts_with p s) IMAGE_ID_PREFIXES of Some p \<Rightarrow> drop (length p) s | None \<Rightarrow> s)"

definition container_done :: "image_kind \<Rightarrow> json \<Rightarrow> unit res" where
  "container_done k state =
     (case k of
        Runtime \<Rightarrow> bindR (jget_or ''ready'' JNull state) (\<lambda>r.
          requireR (r = JBool True) (ValueError ''Runtime container is not Ready''))
      | Artifact \<Rightarrow> bindR (jpath [''state'', ''terminated''] state) (\<lambda>t. bindR (get_eq ''exitCode'' (JInt 0) t) (\<lambda>ok.
          requireR ok (ValueError ''Artifact init container did not complete successfully''))))"

definition verify_container :: "json \<Rightarrow> json \<Rightarrow> image_kind \<Rightarrow> unit res" where
  "verify_container data status k =
     bindR (named_in status (status_group k) (container_name k)) (\<lambda>state.
     bindR (jget_or ''imageID'' (JStr []) state) (\<lambda>ij.
     bindR (if is_str ij then Inr (JStr (strip_prefix (str_of ij))) else Inl AttributeError) (\<lambda>image_id.
     bindR (jget (digest_key k) data) (\<lambda>d. bindR (orR [Inr (image_id = d), bindR (jget (exact_key k) data) (\<lambda>x. Inr (image_id = x))]) (\<lambda>same.
     bindR (requireR same (ValueError (''Running '' @ kind_name k @ '' imageID does not match approved digest''))) (\<lambda>_.
       container_done k state))))))"

definition pod_live :: "json \<Rightarrow> bool res" where
  "pod_live p =
     bindR (jget_or ''metadata'' (JObj []) p) (\<lambda>m. bindR (get_truthy m ''deletionTimestamp'') (\<lambda>gone. Inr (\<not> gone)))"

definition condition_true :: "json \<Rightarrow> bool res" where
  "condition_true c = andR [get_eq ''type'' (JStr ''Ready'') c, get_eq ''status'' (JStr ''True'') c]"

definition verify_pod :: "json \<Rightarrow> json \<Rightarrow> unit res" where
  "verify_pod data p =
     bindR (jget ''spec'' p) (\<lambda>spec. bindR (verify_images data spec) (\<lambda>_.
     bindR (jget_or ''status'' (JObj []) p) (\<lambda>status.
     bindR (andR [get_eq ''phase'' (JStr ''Running'') status,
                  bindR (jget_or ''conditions'' (JArr []) status) (\<lambda>cs. bindR (jiter cs) (\<lambda>xs. orR (map condition_true xs)))]) (\<lambda>ready.
     bindR (requireR ready (ValueError ''Release pod is not Ready'')) (\<lambda>_.
       forR (verify_container data status) [Runtime, Artifact])))))"

definition verify_pods :: "json \<Rightarrow> json \<Rightarrow> unit res" where
  "verify_pods data items =
     bindR (jiter items) (\<lambda>xs. bindR (filterR pod_live xs) (\<lambda>live.
     bindR (requireR (live \<noteq> []) (ValueError ''No running release pods'')) (\<lambda>_.
       forR (verify_pod data) live)))"

end
