(* ===== verification/ReleaseDeploy.thy ===== *)
theory ReleaseDeploy
  imports ReleaseIdentity
begin

text \<open>
  The jobs of \<open>scripts/release.py\<close>: \<open>prepare\<close>, \<open>registry-check\<close>, \<open>pin\<close>, \<open>finalize-build\<close>,
  \<open>candidate\<close>, \<open>deploy\<close> and \<open>summary\<close>. A job runs in a workspace: the evidence files, the report
  under construction, the outputs of the step and the outside world. Subprocesses, the AWS command,
  the HTTP requests, the clock and the test report parser are programs on the outside world. An
  evidence file holds the value that was written to it.
\<close>

section \<open>The workspace\<close>

record 'w workspace =
  ws_world :: 'w
  ws_files :: "string \<rightharpoonup> json"
  ws_report :: json
  ws_outputs :: "(string \<times> string) list"

text \<open>
  \<open>rj_aws\<close> gives the return code, stdout and stderr; \<open>rj_suites\<close> the attributes of the test suites
  of \<open>tests.xml\<close>; \<open>rj_install_kubeconfig\<close> decodes the credentials into a temporary file and points
  \<open>KUBECONFIG\<close> to it, \<open>rj_remove_kubeconfig\<close> deletes that file if there is one. The port forward
  is a process: started with its arguments, polled, connected to and terminated.
\<close>

record 'w release_job =
  rj_lib :: pylib
  rj_env :: env
  rj_loads :: "string \<Rightarrow> json option"
  rj_command :: "string list \<Rightarrow> string option \<Rightarrow> ('w, string) prog"
  rj_aws :: "string list \<Rightarrow> ('w, int \<times> string \<times> string) prog"
  rj_http :: "string \<Rightarrow> string \<Rightarrow> ('w, json) prog"
  rj_suites :: "('w, (string \<rightharpoonup> string) list) prog"
  rj_install_kubeconfig :: "string \<Rightarrow> ('w, unit) prog"
  rj_remove_kubeconfig :: "('w, unit) prog"
  rj_python :: string
  rj_free_port :: "('w, nat) prog"
  rj_forward :: "string list \<Rightarrow> ('w, unit) prog"
  rj_running :: "('w, bool) prog"
  rj_connect :: "nat \<Rightarrow> ('w, unit) prog"
  rj_sleep :: "('w, unit) prog"
  rj_terminate :: "('w, unit) prog"
  rj_timestamp :: "('w, string) prog"

type_synonym ('w, 'a) step = "('w workspace, 'a) prog"

definition external :: "('w, 'a) prog \<Rightarrow> ('w, 'a) step" where
  "external m = (\<lambda>w. case m (ws_world w) of (r, v) \<Rightarrow> (r, w\<lparr>ws_world := v\<rparr>))"

definition FileNotFound :: exn where
  "FileNotFound = OtherError ''FileNotFoundError''"

definition read_evidence :: "string \<Rightarrow> ('w, json) step" where
  "read_evidence name = (\<lambda>w. case ws_files w name of Some j \<Rightarrow> (Inr j, w) | None \<Rightarrow> (Inl FileNotFound, w))"

definition write_file :: "string \<Rightarrow> json \<Rightarrow> ('w, unit) step" where
  "write_file name j = (\<lambda>w. (Inr (), w\<lparr>ws_files := (ws_files w)(name \<mapsto> j)\<rparr>))"

definition file_exists :: "string \<Rightarrow> ('w, bool) step" where
  "file_exists name = (\<lambda>w. (Inr (ws_files w name \<noteq> None), w))"

text \<open>\<open>d[k] = v\<close> and \<open>d.update(...)\<close>.\<close>

definition jput :: "string \<Rightarrow> json \<Rightarrow> (string \<times> json) list \<Rightarrow> (string \<times> json) list" where
  "jput k v kvs =
     (if k \<in> fst ` set kvs then map (\<lambda>(k', v'). (k', if k' = k then v else v')) kvs else kvs @ [(k, v)])"

definition jupdate :: "(string \<times> json) list \<Rightarrow> json \<Rightarrow> json res" where
  "jupdate kvs j =
     (case j of JObj old \<Rightarrow> Inr (JObj (fold (\<lambda>(k, v). jput k v) kvs old)) | _ \<Rightarrow> Inl AttributeError)"

text \<open>\<open>d[k1][k2] = f(...)\<close>: the value at a path is replaced.\<close>

fun jmodify :: "string list \<Rightarrow> (json \<Rightarrow> json res) \<Rightarrow> json \<Rightarrow> json res" where
  "jmodify [] f j = f j"
| "jmodify (k # ks) f j =
     bindR (jget k j) (\<lambda>v. bindR (jmodify ks f v) (\<lambda>v'. jupdate [(k, v')] j))"

definition loads_res :: "'w release_job \<Rightarrow> string \<Rightarrow> json res" where
  "loads_res J s = (case rj_loads J s of Some v \<Rightarrow> Inr v | None \<Rightarrow> Inl (ValueError ''JSONDecodeError''))"

definition single_line :: "string \<Rightarrow> bool" where
  "single_line s \<longleftrightarrow> list_all (\<lambda>c. code c \<noteq> 10 \<and> code c \<noteq> 13) s"

fun write_outputs :: "(string \<times> string) list \<Rightarrow> ('w, unit) step" where
  "write_outputs [] = retP ()"
| "write_outputs ((k, v) # kvs) =
     (if single_line v
      then thenP (\<lambda>w. (Inr (), w\<lparr>ws_outputs := ws_outputs w @ [(k, v)]\<rparr>)) (write_outputs kvs)
      else raiseP (ValueError ''Invalid output''))"

definition write_output :: "env \<Rightarrow> (string \<times> string) list \<Rightarrow> ('w, unit) step" where
  "write_output e kvs = bindP (liftP (getenv e ''GITHUB_OUTPUT'')) (\<lambda>_. write_outputs kvs)"

section \<open>Preparing an identity\<close>

definition head_commit :: "'w release_job \<Rightarrow> ('w, string) step" where
  "head_commit J =
     bindP (external (rj_command J [''git'', ''rev-parse'', ''HEAD''] None)) (\<lambda>sha.
     bindP (liftP (env_is (rj_env J) ''GITHUB_SHA'' sha ''Checkout does not match release SHA'')) (\<lambda>_.
     bindP (external (rj_command J [''git'', ''merge-base'', ''--is-ancestor'', sha, ''origin/main''] None)) (\<lambda>_.
       retP sha)))"

definition release_tag :: "env \<Rightarrow> string res" where
  "release_tag e =
     bindR (first_attempt e) (\<lambda>_.
     bindR (env_is e ''GITHUB_EVENT_NAME'' ''workflow_dispatch'' ''Disallowed release trigger'') (\<lambda>_.
     bindR (getenv e ''GITHUB_REF_NAME'') (\<lambda>version.
     bindR (getenv e ''GITHUB_REF'') (\<lambda>ref.
     bindR (requireR (ref = ''refs/tags/'' @ version \<and> rx_version version) (ValueError ''Select a vX.Y.Z release tag'')) (\<lambda>_.
       Inr version)))))"

definition new_identity :: "env \<Rightarrow> string \<Rightarrow> string \<Rightarrow> string \<Rightarrow> json res" where
  "new_identity e version sha stamp =
     bindR (image_name e Runtime) (\<lambda>runtime. bindR (image_name e Artifact) (\<lambda>artifact.
     bindR (getenv e ''RUNTIME_IMAGE_DIGEST'') (\<lambda>d. bindR (run_url e) (\<lambda>url.
     bindR (getenv e ''TICKET_REFERENCE'') (\<lambda>ticket_ref.
     bindR (getenv e ''TRIVY_BLOCKING_SEVERITIES'') (\<lambda>severities. bindR (getenv e ''TRIVY_IGNORE_UNFIXED'') (\<lambda>unfixed.
       Inr (JObj
         [(''schema_version'', JInt 2), (''git_sha'', JStr sha), (''git_short_sha'', JStr (take 12 sha)),
          (''release_version'', JStr version),
          (''runtime_image_name'', JStr runtime), (''runtime_digest'', JStr d),
          (''exact_runtime_image'', JStr (runtime @ ''@'' @ d)),
          (''artifact_image_name'', JStr artifact), (''artifact_tag'', JStr (''m-'' @ take 12 sha)),
          (''artifact_digest'', JStr []), (''exact_artifact_image'', JStr []),
          (''workflow_run'', JStr url), (''ticket_reference'', JStr ticket_ref),
          (''security_policy'', JObj [(''blocking_severities'', JStr severities), (''ignore_unfixed'', JStr unfixed)]),
          (''timestamp'', JStr stamp)]))))))))"

definition prepare :: "'w release_job \<Rightarrow> ('w, unit) step" where
  "prepare J =
     bindP (liftP (release_tag (rj_env J))) (\<lambda>version.
     bindP (head_commit J) (\<lambda>sha.
     bindP (external (rj_timestamp J)) (\<lambda>stamp.
     bindP (liftP (new_identity (rj_env J) version sha stamp)) (\<lambda>data.
     bindP (liftP (validate_identity data True)) (\<lambda>_.
     thenP (write_file ''release.json'' data)
       (write_output (rj_env J)
          [(''artifact_image_name'', identity_text data ''artifact_image_name''), (''artifact_tag'', identity_text data ''artifact_tag''),
           (''exact_runtime_image'', identity_text data ''exact_runtime_image''), (''release_version'', version)]))))))"

section \<open>The registry\<close>

definition describe :: "'w release_job \<Rightarrow> image_kind \<Rightarrow> string \<Rightarrow> ('w, int \<times> string \<times> string) step" where
  "describe J k image_id =
     bindP (liftP (getenv (rj_env J) ''AWS_REGION'')) (\<lambda>region.
     bindP (liftP (getenv (rj_env J) ''AWS_ACCOUNT_ID'')) (\<lambda>account.
     bindP (liftP (repository_name (rj_env J) k)) (\<lambda>repo.
       catchP (external (rj_aws J
           [''aws'', ''ecr'', ''describe-images'', ''--region'', region, ''--registry-id'', account,
            ''--repository-name'', repo, ''--image-ids'', image_id, ''--output'', ''json'']))
         (\<lambda>_. raiseP (ValueError ''ECR identity check failed'')))))"

definition not_found_message :: string where
  "not_found_message = ''An error occurred (ImageNotFoundException) when calling the DescribeImages operation:''"

definition unused_tag :: "'w release_job \<Rightarrow> string \<Rightarrow> ('w, unit) step" where
  "unused_tag J tag =
     bindP (describe J Artifact (''imageTag='' @ tag)) (\<lambda>(status, out, err).
       liftP (guards
         [(status \<noteq> 0, ValueError ''Image tag already exists; release identities cannot be reused''),
          (starts_with not_found_message (strip err), ValueError ''ECR identity check failed'')]))"

definition runtime_row :: "env \<Rightarrow> json \<Rightarrow> json \<Rightarrow> unit res" where
  "runtime_row e data answer =
     bindR (jget_or ''imageDetails'' (JArr []) answer) (\<lambda>details.
     bindR (andR
        [bindR (jlen details) (\<lambda>n. Inr (n = 1)),
         bindR (jnth 0 details) (\<lambda>d. bindR (jget ''runtime_digest'' data) (\<lambda>v. get_eq ''imageDigest'' v d)),
         bindR (jnth 0 details) (\<lambda>d. bindR (repository_name e Runtime) (\<lambda>v. get_eq ''repositoryName'' (JStr v) d)),
         bindR (jnth 0 details) (\<lambda>d. bindR (getenv e ''AWS_ACCOUNT_ID'') (\<lambda>v. get_eq ''registryId'' (JStr v) d))]) (\<lambda>same.
       requireR same (ValueError ''ECR runtime digest/repository identity mismatch'')))"

definition registry_check :: "'w release_job \<Rightarrow> ('w, unit) step" where
  "registry_check J =
     bindP (read_evidence ''release.json'') (\<lambda>data.
     bindP (liftP (validate_identity data True)) (\<lambda>_.
     bindP (liftP (verify_run_identity (rj_env J) data)) (\<lambda>_.
     bindP (liftP (forR (\<lambda>k. bindR (image_name (rj_env J) k) (\<lambda>n.
              requireR (identity_text data (image_name_key k) = n) (ValueError ''ECR repository identity changed'')))
              [Runtime, Artifact])) (\<lambda>_.
     bindP (liftP (env_is (rj_env J) ''RUNTIME_IMAGE_DIGEST'' (identity_text data ''runtime_digest'') ''Runtime digest changed'')) (\<lambda>_.
     bindP (unused_tag J (identity_text data ''release_version'')) (\<lambda>_.
     bindP (unused_tag J (identity_text data ''artifact_tag'')) (\<lambda>_.
     bindP (describe J Runtime (''imageDigest='' @ identity_text data ''runtime_digest'')) (\<lambda>(status, out, err).
     bindP (liftP (requireR (status = 0) (ValueError ''ECR runtime digest lookup failed''))) (\<lambda>_.
       liftP (bindR (loads_res J out) (runtime_row (rj_env J) data)))))))))))"

definition pin :: "'w release_job \<Rightarrow> ('w, unit) step" where
  "pin J =
     bindP (read_evidence ''release.json'') (\<lambda>data.
     bindP (liftP (validate_identity data True)) (\<lambda>_.
     bindP (liftP (verify_run_identity (rj_env J) data)) (\<lambda>_.
     bindP (liftP (bindR (jget ''artifact_digest'' data) (\<lambda>d. bindR (jget ''exact_artifact_image'' data) (\<lambda>x.
              requireR (d = JStr [] \<and> x = JStr []) (ValueError ''Artifact digest is already pinned''))))) (\<lambda>_.
     bindP (liftP (getenv (rj_env J) ''ARTIFACT_IMAGE_DIGEST'')) (\<lambda>d.
     bindP (liftP (jupdate [(''artifact_digest'', JStr d),
              (''exact_artifact_image'', JStr (identity_text data ''artifact_image_name'' @ ''@'' @ d))] data)) (\<lambda>pinned.
     bindP (liftP (validate_identity pinned False)) (\<lambda>_.
     thenP (write_file ''release.json'' pinned)
       (write_output (rj_env J)
          [(''exact_runtime_image'', identity_text pinned ''exact_runtime_image''),
           (''exact_artifact_image'', identity_text pinned ''exact_artifact_image'')]))))))))"

section \<open>The build evidence\<close>

definition scan_evidence :: "json \<Rightarrow> image_kind \<Rightarrow> ('w, unit) step" where
  "scan_evidence data k =
     bindP (read_evidence (''trivy-'' @ kind_name k @ ''.json'')) (\<lambda>scan.
       liftP (bindR (andR
         [bindR (jget_or ''ArtifactName'' JNull scan) (\<lambda>n. bindR (jget (exact_key k) data) (\<lambda>x. Inr (py_eq n x))),
          bindR (jget_or ''Results'' JNull scan) (\<lambda>r. Inr (is_list r)),
          bindR (jget ''Results'' scan) (\<lambda>r. Inr (truthy r))]) (\<lambda>ok.
         requireR ok (ValueError (''Missing '' @ kind_name k @ '' scan evidence for the exact image'')))))"

definition suite_count :: "(string \<rightharpoonup> string) \<Rightarrow> string \<Rightarrow> int res" where
  "suite_count s k = py_int (case s k of Some v \<Rightarrow> v | None \<Rightarrow> ''0'')"

definition test_evidence :: "(string \<rightharpoonup> string) list \<Rightarrow> unit res" where
  "test_evidence suites =
     bindR (mapR (\<lambda>s. suite_count s ''tests'') suites) (\<lambda>counts.
     bindR (requireR (sum_list counts > 0) (ValueError ''Missing test evidence'')) (\<lambda>_.
     bindR (andR (map (\<lambda>s. bindR (suite_count s ''failures'') (\<lambda>f.
         if f = 0 then bindR (suite_count s ''errors'') (\<lambda>n. Inr (n = 0)) else Inr False)) suites)) (\<lambda>clean.
       requireR clean (ValueError ''Test evidence contains failures''))))"

definition RESULT_KEYS :: "string list" where
  "RESULT_KEYS = [''tests_result'', ''artifact_push_result'', ''runtime_scan_result'', ''artifact_scan_result'']"

definition verify_build :: "'w release_job \<Rightarrow> json \<Rightarrow> ('w, unit) step" where
  "verify_build J data =
     bindP (liftP (validate_identity data False)) (\<lambda>_.
     bindP (liftP (bindR (andR (map (\<lambda>k. get_eq k (JStr ''success'') data) RESULT_KEYS)) (\<lambda>ok.
              requireR ok (ValueError ''Release prerequisites did not pass'')))) (\<lambda>_.
     bindP (scan_evidence data Runtime) (\<lambda>_.
     bindP (scan_evidence data Artifact) (\<lambda>_.
     bindP (external (rj_suites J)) (\<lambda>suites. liftP (test_evidence suites))))))"

definition env_default :: "env \<Rightarrow> string \<Rightarrow> string" where
  "env_default e k = (case e k of Some v \<Rightarrow> v | None \<Rightarrow> ''not_run'')"

definition finalize_build :: "'w release_job \<Rightarrow> ('w, unit) step" where
  "finalize_build J =
     bindP (read_evidence ''release.json'') (\<lambda>data.
     bindP (external (rj_timestamp J)) (\<lambda>stamp.
     bindP (liftP (jupdate
        [(''tests_result'', JStr (env_default (rj_env J) ''TEST_RESULT'')),
         (''artifact_push_result'', JStr (env_default (rj_env J) ''ARTIFACT_PUSH_RESULT'')),
         (''runtime_scan_result'', JStr (env_default (rj_env J) ''RUNTIME_SCAN_RESULT'')),
         (''artifact_scan_result'', JStr (env_default (rj_env J) ''ARTIFACT_SCAN_RESULT'')),
         (''timestamp'', JStr stamp)] data)) (\<lambda>updated.
     thenP (write_file ''release.json'' updated) (verify_build J updated))))"

definition bound_release :: "'w release_job \<Rightarrow> ('w, json) step" where
  "bound_release J =
     bindP (read_evidence ''release.json'') (\<lambda>data.
     bindP (verify_build J data) (\<lambda>_.
     bindP (liftP (verify_run_identity (rj_env J) data)) (\<lambda>_.
     bindP (liftP (forR (\<lambda>k. bindR (getenv (rj_env J) (''EXACT_'' @ kind_upper k @ ''_IMAGE'')) (\<lambda>x.
              requireR (identity_text data (exact_key k) = x) (ValueError (kind_name k @ '' digest changed between jobs''))))
              [Runtime, Artifact])) (\<lambda>_.
       retP data))))"

definition github_json :: "'w release_job \<Rightarrow> string \<Rightarrow> ('w, json) step" where
  "github_json J endpoint =
     bindP (liftP (getenv (rj_env J) ''GITHUB_API_URL'')) (\<lambda>api.
     bindP (liftP (getenv (rj_env J) ''GITHUB_REPOSITORY'')) (\<lambda>repo.
     bindP (liftP (getenv (rj_env J) ''GH_TOKEN'')) (\<lambda>token.
       external (rj_http J (api @ ''/repos/'' @ repo @ ''/'' @ endpoint) token))))"

definition candidate_release :: "'w release_job \<Rightarrow> ('w, unit) step" where
  "candidate_release J =
     bindP (bound_release J) (\<lambda>data.
     bindP (read_evidence ''eks-dev.json'') (\<lambda>validation.
     bindP (liftP (verify_validation data validation ''eks-dev'')) (\<lambda>_.
     bindP (github_json J ''environments/production'') (\<lambda>protection.
     bindP (github_json J ''environments/production/deployment-branch-policies'') (\<lambda>policies.
     bindP (liftP (verify_protection protection policies)) (\<lambda>_.
     bindP (external (rj_timestamp J)) (\<lambda>stamp.
     bindP (liftP (jupdate
        [(''approval_state'', JStr ''pending_human_review''), (''validation_result'', JStr ''success''),
         (''ticket_validation'', JStr ''reference_present; approval must be verified by human''),
         (''deployment_environment'', JStr ''production''), (''deployment_result'', JStr ''not_started''),
         (''timestamp'', JStr stamp)] data)) (\<lambda>updated.
       write_file ''candidate.json'' updated))))))))"

section \<open>Deploying\<close>

definition update_report :: "(string \<times> json) list \<Rightarrow> ('w, unit) step" where
  "update_report kvs = (\<lambda>w. case jupdate kvs (ws_report w) of
     Inr r \<Rightarrow> (Inr (), w\<lparr>ws_report := r\<rparr>) | Inl e \<Rightarrow> (Inl e, w))"

definition pass_check :: "string \<Rightarrow> ('w, unit) step" where
  "pass_check k = (\<lambda>w. case jmodify [''checks''] (jupdate [(k, JStr ''success'')]) (ws_report w) of
     Inr r \<Rightarrow> (Inr (), w\<lparr>ws_report := r\<rparr>) | Inl e \<Rightarrow> (Inl e, w))"

definition TARGETS :: "string list" where
  "TARGETS = [''validation'', ''eks-dev'', ''production'']"

definition deployment_image :: "json \<Rightarrow> image_kind \<Rightarrow> unit res" where
  "deployment_image data k =
     bindR (jget_or (digest_key k) JNull data) (\<lambda>d. bindR (jget_or (exact_key k) JNull data) (\<lambda>x.
       requireR (is_str d \<and> rx_digest (str_of d) \<and> is_str x \<and> rx_image_reference (str_of x)
           \<and> ends_with (''@'' @ str_of d) (str_of x))
         (ValueError (''Invalid exact '' @ kind_name k @ '' deployment identity''))))"

definition deploy_arguments :: "json \<Rightarrow> string \<Rightarrow> string \<Rightarrow> string \<Rightarrow> unit res" where
  "deploy_arguments data kube_context namespace target =
     bindR (guards
       [(target \<in> set TARGETS, ValueError ''Unknown deployment environment''),
        ((target = ''validation'' \<and> kube_context = ''docker-desktop'')
           \<or> (target \<in> {''eks-dev'', ''production''} \<and> kube_context \<noteq> ''docker-desktop''),
         ValueError ''Docker Desktop is only for local validation''),
        (kube_context \<noteq> [], ValueError ''Explicit Kubernetes context is required''),
        (rx_namespace namespace, ValueError ''Invalid namespace'')]) (\<lambda>_.
       forR (deployment_image data) [Runtime, Artifact])"

text \<open>The rendered Deployment with the annotations of the release.\<close>

definition annotate :: "(string \<times> json) list \<Rightarrow> json \<Rightarrow> json res" where
  "annotate notes meta =
     bindR (jget_or ''annotations'' (JObj []) meta) (\<lambda>old. bindR (jupdate notes old) (\<lambda>new.
       jupdate [(''annotations'', new)] meta))"

definition drop_key :: "string \<Rightarrow> json \<Rightarrow> json res" where
  "drop_key k j = (case j of JObj kvs \<Rightarrow> Inr (JObj (filter (\<lambda>(k', _). k' \<noteq> k) kvs)) | _ \<Rightarrow> Inl AttributeError)"

definition pod_spec :: "json \<Rightarrow> json res" where
  "pod_spec obj = jdeep [''spec'', ''template'', ''spec''] obj"

definition render_deployment :: "json \<Rightarrow> string \<Rightarrow> (string \<times> json) list \<Rightarrow> json \<Rightarrow> json res" where
  "render_deployment data target notes rendered =
     bindR (pod_spec rendered) (\<lambda>spec. bindR (verify_images data spec) (\<lambda>_.
     bindR (jget ''spec'' rendered) (\<lambda>s.
     bindR (requireR (\<not> jhas ''replicas'' s) (ValueError ''Deployment must preserve HPA replica ownership'')) (\<lambda>_.
     bindR (jmodify [''spec'', ''template'', ''metadata''] (annotate notes) rendered) (\<lambda>annotated.
       if target = ''eks-dev'' then jmodify [''spec'', ''template'', ''spec''] (drop_key ''imagePullSecrets'') annotated
       else Inr annotated)))))"

text \<open>The port forward: at most 60 attempts to connect, half a second apart.\<close>

fun await_forward :: "'w release_job \<Rightarrow> nat \<Rightarrow> nat \<Rightarrow> ('w, unit) step" where
  "await_forward J port 0 = raiseP (ValueError ''Port-forward did not become ready'')"
| "await_forward J port (Suc n) =
     bindP (external (rj_running J)) (\<lambda>running.
     bindP (liftP (requireR running (ValueError ''Port-forward exited unexpectedly''))) (\<lambda>_.
       catchP (external (rj_connect J port))
         (\<lambda>e. if is_transport_error e then thenP (external (rj_sleep J)) (await_forward J port n) else raiseP e)))"

definition smoke_test :: "'w release_job \<Rightarrow> string list \<Rightarrow> ('w, unit) step" where
  "smoke_test J kubectl =
     bindP (external (rj_free_port J)) (\<lambda>port.
     bindP (external (rj_forward J (kubectl @
        [''port-forward'', ''service/model-service'', nat_digits port @ '':8000'', ''--address=127.0.0.1'']))) (\<lambda>_.
     attemptP
       (thenP (await_forward J port 60)
       (bindP (external (rj_command J
            [rj_python J, ''scripts/smoke_test.py'', ''--base-url'', ''http://127.0.0.1:'' @ nat_digits port] None)) (\<lambda>_.
          pass_check ''smoke'')))
       (\<lambda>r. bindP (external (rj_terminate J)) (\<lambda>_. liftP r))))"

definition deploy_workload ::
  "'w release_job \<Rightarrow> json \<Rightarrow> string \<Rightarrow> string \<Rightarrow> string \<Rightarrow> (string \<times> json) list \<Rightarrow> ('w, unit) step" where
  "deploy_workload J data kube_context namespace target notes =
     (let kubectl = [''kubectl'', ''--context'', kube_context, ''--namespace'', namespace, ''--request-timeout=30s''];
          kube = (\<lambda>args input. external (rj_command J (kubectl @ args) input))
      in thenP (update_report [(''deployment_result'', JStr ''failure''), (''checks'', JObj [])])
        (bindP (liftP (deploy_arguments data kube_context namespace target)) (\<lambda>_.
         thenP (update_report [(''deployment_environment'', JStr target), (''kubernetes_context'', JStr kube_context),
                  (''kubernetes_namespace'', JStr namespace)])
        (bindP (external (rj_command J
             [''kubectl'', ''set'', ''image'', ''--local'', ''-f'', ''k8s/deployment.yaml'',
              ''model-service='' @ identity_text data ''exact_runtime_image'',
              ''model-artifact='' @ identity_text data ''exact_artifact_image'', ''-o'', ''json''] None)) (\<lambda>template.
         bindP (liftP (bindR (loads_res J template) (render_deployment data target notes))) (\<lambda>rendered.
         bindP (kube [''apply'', ''-f'', ''k8s/configmap.yaml'', ''-f'', ''k8s/service.yaml''] None) (\<lambda>_.
         bindP (kube [''apply'', ''-f'', ''-''] (Some (plain_dumps (rj_lib J) rendered))) (\<lambda>_.
         thenP (pass_check ''apply'')
        (bindP (kube [''rollout'', ''status'', ''deployment/model-service'', ''--timeout=120s''] None) (\<lambda>_.
         thenP (pass_check ''rollout'')
        (bindP (kube [''wait'', ''--for=condition=Available'', ''deployment/model-service'', ''--timeout=120s''] None) (\<lambda>_.
         bindP (kube [''wait'', ''--for=condition=Ready'', ''pod'', ''-l'', ''app.kubernetes.io/name=model-service'',
                      ''--timeout=120s''] None) (\<lambda>_.
         thenP (pass_check ''readiness'')
        (bindP (kube [''get'', ''deployment'', ''model-service'', ''-o'', ''json''] None) (\<lambda>live.
         bindP (liftP (bindR (loads_res J live) (\<lambda>d. bindR (pod_spec d) (verify_images data)))) (\<lambda>_.
         bindP (kube [''get'', ''pods'', ''-l'', ''app.kubernetes.io/name=model-service'', ''-o'', ''json''] None) (\<lambda>listing.
         bindP (liftP (bindR (loads_res J listing) (\<lambda>d. bindR (jget ''items'' d) (verify_pods data)))) (\<lambda>_.
         thenP (pass_check ''image'')
        (thenP (smoke_test J kubectl)
           (update_report [(''deployment_result'', JStr ''success'')]))))))))))))))))))))"

definition release_notes :: "json \<Rightarrow> (string \<times> json) list" where
  "release_notes data =
     [(''release.model-service/version'', JStr (identity_text data ''release_version'')),
      (''release.model-service/git-sha'', JStr (identity_text data ''git_sha'')),
      (''release.model-service/workflow-run'', JStr (identity_text data ''workflow_run''))]"

definition production_gate :: "'w release_job \<Rightarrow> json \<Rightarrow> ('w, unit) step" where
  "production_gate J data =
     bindP (read_evidence ''candidate.json'') (\<lambda>approved.
     bindP (liftP (bindR (same_identity approved data) (\<lambda>same.
              requireR same (ValueError ''Production candidate identity mismatch'')))) (\<lambda>_.
     bindP (liftP (bindR (get_eq ''approval_state'' (JStr ''pending_human_review'') approved) (\<lambda>pending.
              requireR pending (ValueError ''Missing production candidate'')))) (\<lambda>_.
     bindP (read_evidence ''eks-dev.json'') (\<lambda>validation.
     bindP (liftP (verify_validation data validation ''eks-dev'')) (\<lambda>_.
     thenP (update_report [(''approval_state'', JStr ''environment_gate_passed'')])
    (bindP (liftP (getenv (rj_env J) ''KUBECONFIG_B64'')) (\<lambda>raw. external (rj_install_kubeconfig J raw))))))))"

definition deploy_body :: "'w release_job \<Rightarrow> string \<Rightarrow> ('w, unit) step" where
  "deploy_body J target =
     bindP (bound_release J) (\<lambda>data.
     thenP (update_report (entries data))
    (thenP (if target = ''production'' then production_gate J data
            else update_report [(''approval_state'', JStr ''not_applicable'')])
    (bindP (liftP (getenv (rj_env J) ''KUBE_CONTEXT'')) (\<lambda>kube_context.
     bindP (liftP (getenv (rj_env J) ''KUBE_NAMESPACE'')) (\<lambda>namespace.
       deploy_workload J data kube_context namespace target (release_notes data))))))"

text \<open>The report is written whatever happened, after the credentials are removed.\<close>

definition save_report :: "'w release_job \<Rightarrow> string \<Rightarrow> ('w, unit) step" where
  "save_report J target =
     bindP (external (rj_timestamp J)) (\<lambda>stamp.
     thenP (update_report [(''timestamp'', JStr stamp)])
       (\<lambda>w. write_file (target @ ''.json'') (ws_report w) w))"

definition deploy :: "'w release_job \<Rightarrow> ('w, unit) step" where
  "deploy J =
     bindP (liftP (getenv (rj_env J) ''DEPLOYMENT_ENVIRONMENT'')) (\<lambda>target.
     bindP (liftP (requireR (target \<in> set TARGETS) (ValueError ''Unknown deployment environment''))) (\<lambda>_.
     thenP (\<lambda>w. (Inr (), w\<lparr>ws_report := JObj
              [(''deployment_environment'', JStr target), (''deployment_result'', JStr ''failure''), (''checks'', JObj [])]\<rparr>))
    (attemptP (deploy_body J target) (\<lambda>r.
     attemptP (external (rj_remove_kubeconfig J)) (\<lambda>removed.
     bindP (save_report J target) (\<lambda>_.
       case removed of Inl e \<Rightarrow> raiseP e | Inr _ \<Rightarrow> liftP r))))))"

section \<open>The summary\<close>

definition job_results :: "json \<Rightarrow> (string \<times> json) list res" where
  "job_results needs =
     (case needs of
        JObj kvs \<Rightarrow> mapR (\<lambda>(name, j). bindR (jget ''result'' j) (\<lambda>r. Inr (name, r))) kvs
      | _ \<Rightarrow> Inl AttributeError)"

definition SUMMARY_KEYS :: "string list" where
  "SUMMARY_KEYS = IDENTITY_KEYS @ [''runtime_scan_result'', ''artifact_scan_result'', ''approval_state'']"

definition merge_key :: "json \<Rightarrow> string \<Rightarrow> (string \<times> json) list \<Rightarrow> (string \<times> json) list res" where
  "merge_key found k data =
     bindR (jmember k found) (\<lambda>present. if present then bindR (jget k found) (\<lambda>v. Inr (jput k v data)) else Inr data)"

definition merge_file :: "string \<Rightarrow> (string \<times> json) list \<Rightarrow> ('w, (string \<times> json) list) step" where
  "merge_file name data =
     bindP (file_exists name) (\<lambda>present.
       if present then bindP (read_evidence name) (\<lambda>found. liftP (foldR (merge_key found) SUMMARY_KEYS data)) else retP data)"

definition successful_jobs :: "(string \<times> json) list \<Rightarrow> bool" where
  "successful_jobs results \<longleftrightarrow>
     list_all (\<lambda>j. map_of results j = Some (JStr ''success'')) [''build'', ''eks_dev'', ''candidate'', ''production'']"

definition production_passed :: "json \<Rightarrow> bool res" where
  "production_passed deployed =
     andR [get_eq ''deployment_result'' (JStr ''success'') deployed,
           get_eq ''deployment_environment'' (JStr ''production'') deployed,
           get_eq ''approval_state'' (JStr ''environment_gate_passed'') deployed, checks_passed deployed]"

definition final_identity :: "json \<Rightarrow> json \<Rightarrow> json \<Rightarrow> bool res" where
  "final_identity deployed built approved =
     andR (map (\<lambda>k. bindR (jget_or k JNull deployed) (\<lambda>v. bindR (jget k built) (\<lambda>w.
       if py_eq v w then bindR (jget_or k JNull approved) (\<lambda>a. Inr (py_eq w a)) else Inr False))) IDENTITY_KEYS)"

definition final_audit :: "'w release_job \<Rightarrow> ('w, unit) step" where
  "final_audit J =
     bindP (bound_release J) (\<lambda>built.
     bindP (read_evidence ''production.json'') (\<lambda>deployed.
     bindP (read_evidence ''eks-dev.json'') (\<lambda>validation.
     bindP (liftP (verify_validation built validation ''eks-dev'')) (\<lambda>_.
     bindP (read_evidence ''candidate.json'') (\<lambda>approved.
     bindP (liftP (bindR (final_identity deployed built approved) (\<lambda>same.
              requireR same (ValueError ''Final audit identity mismatch'')))) (\<lambda>_.
     bindP (liftP (bindR (get_eq ''approval_state'' (JStr ''pending_human_review'') approved) (\<lambda>pending.
              requireR pending (ValueError ''Missing eligible candidate'')))) (\<lambda>_.
       liftP (bindR (production_passed deployed) (\<lambda>ok.
         requireR ok (ValueError ''Missing successful production evidence''))))))))))"

definition is_audit_error :: "exn \<Rightarrow> bool" where
  "is_audit_error e \<longleftrightarrow> is_transport_error e \<or> e = FileNotFound \<or> is_value_error e \<or> is_key_error e
     \<or> e = OtherError ''ParseError''"

definition summary_base :: "env \<Rightarrow> (string \<times> json) list \<Rightarrow> string \<Rightarrow> (string \<times> json) list res" where
  "summary_base e results stamp =
     bindR (getenv e ''GITHUB_SHA'') (\<lambda>sha. bindR (getenv e ''GITHUB_REF_NAME'') (\<lambda>name. bindR (run_url e) (\<lambda>url.
       Inr [(''git_sha'', JStr sha), (''release_version'', JStr name),
            (''ticket_reference'', JStr (strip (case e ''TICKET_REFERENCE'' of Some t \<Rightarrow> t | None \<Rightarrow> []))),
            (''workflow_run'', JStr url), (''job_results'', JObj results),
            (''deployment_environment'', JStr ''production''),
            (''deployment_result'', (case map_of results ''production'' of Some r \<Rightarrow> r | None \<Rightarrow> JStr ''not_started'')),
            (''release_result'', JStr ''not_successful''),
            (''approval_state'', JStr ''see_github_environment_history''), (''timestamp'', JStr stamp)])))"

definition summary_result :: "'w release_job \<Rightarrow> (string \<times> json) list \<Rightarrow> (string \<times> json) list \<Rightarrow> ('w, (string \<times> json) list) step" where
  "summary_result J results data =
     (if \<not> successful_jobs results then retP data
      else attemptP (final_audit J) (\<lambda>r.
        case r of
          Inr _ \<Rightarrow> retP (jput ''release_result'' (JStr ''success'') data)
        | Inl e \<Rightarrow> if is_audit_error e
                   then retP (jput ''audit_result'' (JStr ''required_evidence_missing_or_invalid'') data) else raiseP e))"

definition summary :: "'w release_job \<Rightarrow> ('w, unit) step" where
  "summary J =
     bindP (liftP (bindR (getenv (rj_env J) ''NEEDS_JSON'') (loads_res J))) (\<lambda>needs.
     bindP (liftP (job_results needs)) (\<lambda>results.
     bindP (external (rj_timestamp J)) (\<lambda>stamp.
     bindP (liftP (summary_base (rj_env J) results stamp)) (\<lambda>base.
     bindP (merge_file ''release.json'' base) (\<lambda>d1.
     bindP (merge_file ''production.json'' d1) (\<lambda>d2.
     bindP (summary_result J results d2) (\<lambda>final.
     thenP (write_file ''summary.json'' (JObj final))
       (liftP (requireR (map_of final ''audit_result'' = None) (ValueError ''Final audit evidence is incomplete''))))))))))"

end
