(* ===== verification/ReleaseJobSafety.thy ===== *)
theory ReleaseJobSafety
  imports ReleaseDeploy
begin

text \<open>
  What the checks of the release job establish: an identity that validates names its images by
  digest, pods that pass run exactly these images, and a production deployment or a successful
  summary is backed by the evidence of every job before it.
\<close>

section \<open>Identities\<close>

lemma string_key_text:
  assumes "string_key data k = Inr u"
  shows "jget k data = Inr (JStr (identity_text data k)) \<and> strip (identity_text data k) \<noteq> []"
  using assms
  by (cases data)
    (auto simp: string_key_def bindR_Inr_iff jget_or_def jget_def identity_text_def is_str_iff split: option.splits)

lemma unpinned_identity_False [simp]: "unpinned_identity data False = Inr False"
  by (simp add: unpinned_identity_def)

lemma validate_identity_InrD:
  assumes "validate_identity data False = Inr u"
  shows "k \<in> set STRING_IDENTITY_KEYS \<Longrightarrow> jget k data = Inr (JStr (identity_text data k))"
    "rx_chars 40 40 hex_digit (identity_text data ''git_sha'')" "identity_text data ''git_short_sha'' = take 12 (identity_text data ''git_sha'')"
    "rx_version (identity_text data ''release_version'')" "identity_text data ''artifact_tag'' = ''m-'' @ identity_text data ''git_short_sha''"
    "rx_image_name (identity_text data (image_name_key i))" "rx_digest (identity_text data (digest_key i))"
    "identity_text data (exact_key i) = identity_text data (image_name_key i) @ ''@'' @ identity_text data (digest_key i)"
proof -
  have *: "forR (string_key data) STRING_IDENTITY_KEYS = Inr ()"
    and g: "\<forall>g \<in> set ([(rx_chars 40 40 hex_digit (identity_text data ''git_sha''), ValueError ''Invalid SHA''),
         (identity_text data ''git_short_sha'' = take 12 (identity_text data ''git_sha''), ValueError ''Short SHA mismatch''),
         (rx_version (identity_text data ''release_version''), ValueError ''Invalid version'')]
        @ image_identity data False Runtime @ image_identity data False Artifact
        @ [(identity_text data ''artifact_tag'' = ''m-'' @ identity_text data ''git_short_sha'', ValueError ''Build tag mismatch''),
           (length (identity_text data ''ticket_reference'') \<le> 256
              \<and> list_all (\<lambda>c. 32 \<le> code c \<and> code c \<noteq> 127) (identity_text data ''ticket_reference''),
            ValueError ''Ticket must be a short non-sensitive single-line reference'')]). fst g"
    using assms unfolding validate_identity_def bindR_Inr_iff requireR_iff guards_Inr_iff by auto
  show "k \<in> set STRING_IDENTITY_KEYS \<Longrightarrow> jget k data = Inr (JStr (identity_text data k))"
    using * string_key_text by (auto simp: forR_Inr_iff)
  show "rx_chars 40 40 hex_digit (identity_text data ''git_sha'')" "identity_text data ''git_short_sha'' = take 12 (identity_text data ''git_sha'')"
    "rx_version (identity_text data ''release_version'')" "identity_text data ''artifact_tag'' = ''m-'' @ identity_text data ''git_short_sha''"
    using g by simp_all
  show "rx_image_name (identity_text data (image_name_key i))" "rx_digest (identity_text data (digest_key i))"
    "identity_text data (exact_key i) = identity_text data (image_name_key i) @ ''@'' @ identity_text data (digest_key i)"
    using g by (cases i; simp add: image_identity_def)+
qed

lemma identity_key_members:
  "digest_key i \<in> set STRING_IDENTITY_KEYS" "exact_key i \<in> set STRING_IDENTITY_KEYS"
  "image_name_key i \<in> set STRING_IDENTITY_KEYS"
  by (cases i; simp add: digest_key_def exact_key_def image_name_key_def STRING_IDENTITY_KEYS_def)+

text \<open>
  C15 (an identity is immutable). A release identity that validates names each of its two images by
  its repository and digest, the deployed reference is exactly that pair, and the build tag is
  derived from the full source commit.
\<close>
theorem validate_identity_pins:
  assumes "validate_identity data False = Inr u"
  shows "\<exists>name d sha. jget (image_name_key i) data = Inr (JStr name) \<and> jget (digest_key i) data = Inr (JStr d)
    \<and> jget (exact_key i) data = Inr (JStr (name @ ''@'' @ d)) \<and> rx_image_name name \<and> rx_digest d
    \<and> jget ''git_sha'' data = Inr (JStr sha) \<and> rx_chars 40 40 hex_digit sha
    \<and> jget ''artifact_tag'' data = Inr (JStr (''m-'' @ take 12 sha))"
proof -
  have "''git_sha'' \<in> set STRING_IDENTITY_KEYS" "''artifact_tag'' \<in> set STRING_IDENTITY_KEYS"
    by (simp_all add: STRING_IDENTITY_KEYS_def)
  then show ?thesis
    using validate_identity_InrD [OF assms] identity_key_members by (metis (no_types))
qed

section \<open>Pods\<close>

definition runs_image :: "json \<Rightarrow> json \<Rightarrow> image_kind \<Rightarrow> bool" where
  "runs_image data p k \<longleftrightarrow>
     (\<exists>spec status c img exact state i.
        jget ''spec'' p = Inr spec \<and> named_in spec (spec_group k) (container_name k) = Inr c
        \<and> jget_or ''image'' JNull c = Inr img \<and> jget (exact_key k) data = Inr exact \<and> py_eq img exact
        \<and> jget_or ''status'' (JObj []) p = Inr status
        \<and> named_in status (status_group k) (container_name k) = Inr state
        \<and> jget_or ''imageID'' (JStr []) state = Inr (JStr i)
        \<and> (jget (digest_key k) data = Inr (JStr (strip_prefix i)) \<or> exact = JStr (strip_prefix i)))"

lemma verify_image_InrD:
  assumes "verify_images data spec = Inr u"
  shows "\<exists>c img exact. named_in spec (spec_group k) (container_name k) = Inr c
    \<and> jget_or ''image'' JNull c = Inr img \<and> jget (exact_key k) data = Inr exact \<and> py_eq img exact"
proof -
  have "verify_image data spec k = Inr ()"
    using assms by (cases k) (auto simp: verify_images_def bindR_Inr_iff)
  then show ?thesis by (auto simp: verify_image_def bindR_Inr_iff)
qed

lemma verify_container_InrD:
  assumes "verify_container data status k = Inr u" and "jget (exact_key k) data = Inr exact"
  shows "\<exists>state i. named_in status (status_group k) (container_name k) = Inr state
    \<and> jget_or ''imageID'' (JStr []) state = Inr (JStr i)
    \<and> (jget (digest_key k) data = Inr (JStr (strip_prefix i)) \<or> exact = JStr (strip_prefix i))"
proof -
  obtain state ij d where s: "named_in status (status_group k) (container_name k) = Inr state"
    "jget_or ''imageID'' (JStr []) state = Inr ij" "is_str ij" "jget (digest_key k) data = Inr d"
    "orR [Inr (JStr (strip_prefix (str_of ij)) = d),
          bindR (jget (exact_key k) data) (\<lambda>x. Inr (JStr (strip_prefix (str_of ij)) = x))] = Inr True"
    using assms(1) unfolding verify_container_def bindR_Inr_iff requireR_iff by (auto split: if_splits)
  then show ?thesis using assms(2) by (auto simp: is_str_iff split: if_splits)
qed

lemma verify_pod_runs:
  assumes "verify_pod data p = Inr u"
  shows "runs_image data p k"
proof -
  obtain spec status where p: "jget ''spec'' p = Inr spec" "verify_images data spec = Inr ()"
    "jget_or ''status'' (JObj []) p = Inr status" "forR (verify_container data status) [Runtime, Artifact] = Inr ()"
    using assms unfolding verify_pod_def bindR_Inr_iff requireR_iff by auto
  have "verify_container data status k = Inr ()" using p(4) by (cases k) (auto simp: bindR_Inr_iff)
  moreover from verify_image_InrD [OF p(2)] obtain c img exact where
    "named_in spec (spec_group k) (container_name k) = Inr c" "jget_or ''image'' JNull c = Inr img"
    "jget (exact_key k) data = Inr exact" "py_eq img exact" by blast
  ultimately show ?thesis
    using verify_container_InrD [of data status k "()" exact] p unfolding runs_image_def by blast
qed

text \<open>
  C14 (what runs is what was approved). When the pods pass the check, at least one pod is not being
  deleted, and in every such pod both containers are specified with the exact image references of
  the release and run an image whose id is the approved digest or reference.
\<close>
theorem verify_pods_exact:
  assumes "verify_pods data items = Inr u"
  shows "\<exists>xs. jiter items = Inr xs \<and> (\<exists>p \<in> set xs. pod_live p = Inr True)
    \<and> (\<forall>p \<in> set xs. pod_live p = Inr True \<longrightarrow> runs_image data p k)"
proof -
  obtain xs live where xs: "jiter items = Inr xs" "filterR pod_live xs = Inr live" "live \<noteq> []"
    "forR (verify_pod data) live = Inr ()"
    using assms unfolding verify_pods_def bindR_Inr_iff requireR_iff by auto
  have live: "set live = {p \<in> set xs. pod_live p = Inr True}" using filterR_set [OF xs(2)] .
  moreover have "\<forall>p \<in> set live. runs_image data p k"
    using xs(4) verify_pod_runs by (auto simp: forR_Inr_iff)
  moreover have "\<exists>p. p \<in> set live" using xs(3) by (cases live) auto
  ultimately show ?thesis using xs(1) by blast
qed

section \<open>What the jobs leave alone\<close>

definition same_files :: "'w workspace \<Rightarrow> 'w workspace \<Rightarrow> bool" where
  "same_files w w' \<longleftrightarrow> ws_files w' = ws_files w \<and> ws_outputs w' = ws_outputs w"

lemma same_files_order: "reflp same_files" "transp same_files"
  by (auto simp: reflp_def transp_def same_files_def)

lemma same_files_primitive:
  "keeps same_files (external m)" "keeps same_files (read_evidence name)" "keeps same_files (update_report kvs)"
  "keeps same_files (pass_check k)" "keeps same_files (file_exists name)"
  by (auto simp: keeps_def same_files_def external_def read_evidence_def update_report_def pass_check_def file_exists_def
      split: prod.splits option.splits sum.splits)

lemmas same_files_intros =
  same_files_primitive keeps_pure [OF same_files_order(1)] keeps_bindP [OF same_files_order]
  keeps_thenP [OF same_files_order] keeps_catchP [OF same_files_order] keeps_attemptP [OF same_files_order(2)]

lemma same_files_verify_build [intro]: "keeps same_files (verify_build J data)"
  unfolding verify_build_def scan_evidence_def by (intro same_files_intros)

lemma same_files_bound_release [intro]: "keeps same_files (bound_release J)"
  unfolding bound_release_def by (intro same_files_intros same_files_verify_build)

lemma same_files_await: "keeps same_files (await_forward J port n)"
  by (induction n) (auto intro!: same_files_intros)

lemma same_files_deploy_workload [intro]: "keeps same_files (deploy_workload J data c n target notes)"
  unfolding deploy_workload_def smoke_test_def Let_def by (intro same_files_intros same_files_await)

lemma same_files_production_gate [intro]: "keeps same_files (production_gate J data)"
  unfolding production_gate_def by (intro same_files_intros)

lemma same_files_deploy_body [intro]: "keeps same_files (deploy_body J target)"
  unfolding deploy_body_def by (auto intro!: same_files_intros)

lemma read_evidence_Inr: "read_evidence name w = (Inr j, w') \<longleftrightarrow> ws_files w name = Some j \<and> w' = w"
  by (auto simp: read_evidence_def split: option.splits)

text \<open>
  What a bound release is: the evidence of the build of this very run.
\<close>

lemma bound_release_InrD:
  assumes "bound_release J w = (Inr data, w')"
  shows "ws_files w ''release.json'' = Some data" "validate_identity data False = Inr ()"
    "verify_run_identity (rj_env J) data = Inr ()" "same_files w w'"
  using assms keepsD [OF same_files_bound_release assms]
  by (auto simp: bound_release_def verify_build_def bindP_Inr_iff read_evidence_Inr run_liftP run_retP)

section \<open>Production\<close>

lemma production_gate_InrD:
  assumes "production_gate J data w = (Inr u, w')"
  shows "\<exists>approved validation. ws_files w ''candidate.json'' = Some approved
    \<and> same_identity approved data = Inr True
    \<and> get_eq ''approval_state'' (JStr ''pending_human_review'') approved = Inr True
    \<and> ws_files w ''eks-dev.json'' = Some validation \<and> verify_validation data validation ''eks-dev'' = Inr ()"
  using assms unfolding production_gate_def
  by (auto simp: bindP_Inr_iff thenP_def read_evidence_Inr run_liftP bindR_Inr_iff)

lemma save_report_InrD:
  assumes "save_report J target w = (Inr v, w')"
  shows "\<exists>report. ws_files w' = (ws_files w)(target @ ''.json'' \<mapsto> report)"
proof -
  obtain stamp w1 w2 where "external (rj_timestamp J) w = (Inr stamp, w1)"
    "update_report [(''timestamp'', JStr stamp)] w1 = (Inr (), w2)"
    "write_file (target @ ''.json'') (ws_report w2) w2 = (Inr v, w')"
    using assms unfolding save_report_def thenP_def bindP_Inr_iff by auto
  then show ?thesis
    using keepsD [OF same_files_primitive(1), of "rj_timestamp J" w] keepsD [OF same_files_primitive(3), of _ w1]
    by (auto simp: write_file_def same_files_def)
qed

text \<open>
  C12 (production is gated). A production deployment that succeeds was run in the first attempt of a
  run on the commit, tag and ticket of a valid identity, after the same identity had been deployed
  and checked on \<open>eks-dev\<close> and proposed as the candidate under review; the arguments were valid, and
  the only file it wrote is its report.
\<close>
theorem deploy_production_gated:
  assumes "deploy J w = (Inr u, w')" and "getenv (rj_env J) ''DEPLOYMENT_ENVIRONMENT'' = Inr ''production''"
  shows "\<exists>data approved validation report. ws_files w ''release.json'' = Some data
    \<and> validate_identity data False = Inr () \<and> verify_run_identity (rj_env J) data = Inr ()
    \<and> ws_files w ''candidate.json'' = Some approved \<and> same_identity approved data = Inr True
    \<and> get_eq ''approval_state'' (JStr ''pending_human_review'') approved = Inr True
    \<and> ws_files w ''eks-dev.json'' = Some validation \<and> verify_validation data validation ''eks-dev'' = Inr ()
    \<and> ws_files w' = (ws_files w)(''production.json'' \<mapsto> report)"
proof -
  define w0 where "w0 = w\<lparr>ws_report := JObj
    [(''deployment_environment'', JStr ''production''), (''deployment_result'', JStr ''failure''), (''checks'', JObj [])]\<rparr>"
  obtain r w1 where body: "deploy_body J ''production'' w0 = (r, w1)" by (cases "deploy_body J ''production'' w0")
  obtain rr w2 where removed: "external (rj_remove_kubeconfig J) w1 = (rr, w2)"
    by (cases "external (rj_remove_kubeconfig J) w1")
  have "deploy J w = bindP (save_report J ''production'') (\<lambda>_. case rr of Inl e \<Rightarrow> raiseP e | Inr _ \<Rightarrow> liftP r) w2"
    by (simp add: deploy_def assms(2) run_bindP run_thenP run_liftP run_attemptP TARGETS_def body removed
        flip: w0_def)
  with assms(1) have "bindP (save_report J ''production'') (\<lambda>_. case rr of Inl e \<Rightarrow> raiseP e | Inr _ \<Rightarrow> liftP r) w2
      = (Inr u, w')" by simp
  then obtain v w3 where save: "save_report J ''production'' w2 = (Inr v, w3)"
    and "(case rr of Inl e \<Rightarrow> raiseP e | Inr _ \<Rightarrow> liftP r) w3 = (Inr u, w')"
    unfolding bindP_Inr_iff by blast
  then have ok: "r = Inr u" and w3: "w3 = w'" by (cases rr; simp add: run_raiseP run_liftP)+
  have files: "ws_files w2 = ws_files w"
    using keepsD [OF same_files_deploy_body body] keepsD [OF same_files_primitive(1) removed]
    by (simp add: same_files_def w0_def)
  obtain report where w': "ws_files w' = (ws_files w2)(''production.json'' \<mapsto> report)"
    using save_report_InrD [OF save] w3 by auto
  obtain data wb wc wd where bound: "bound_release J w0 = (Inr data, wb)"
    and gate: "production_gate J data wc = (Inr (), wd)" and wc: "update_report (entries data) wb = (Inr (), wc)"
    using body ok unfolding deploy_body_def by (auto simp: bindP_Inr_iff thenP_def)
  have "ws_files wc = ws_files w"
    using bound_release_InrD(4) [OF bound] keepsD [OF same_files_primitive(3) wc] by (simp add: same_files_def w0_def)
  then show ?thesis
    using bound_release_InrD(1-3) [OF bound] production_gate_InrD [OF gate] w' files
    by (simp add: w0_def) blast
qed

section \<open>Pinning and the summary\<close>

lemma map_of_jput [simp]: "map_of (jput k v kvs) k' = (if k' = k then Some v else map_of kvs k')"
proof (cases "k \<in> fst ` set kvs")
  case True
  have "map_of (map (\<lambda>(k', v'). (k', if k' = k then v else v')) kvs) k'
      = (if k' = k then (if k \<in> fst ` set kvs then Some v else None) else map_of kvs k')" for kvs
    by (induction kvs) (auto, metis fst_conv image_eqI)
  with True show ?thesis by (simp add: jput_def)
next
  case False
  then have "map_of kvs k = None" by (simp add: map_of_eq_None_iff)
  then show ?thesis using False by (auto simp: jput_def map_add_def split: option.splits)
qed

text \<open>
  Pinning: pinning replaces exactly the two empty artifact fields of a valid, unpinned identity
  of this run by the digest of the environment; the result validates as a complete identity and
  every other field is unchanged.
\<close>
theorem pin_completes:
  assumes "pin J w = (Inr u, w')"
  shows "\<exists>data pinned d. ws_files w ''release.json'' = Some data \<and> validate_identity data True = Inr ()
    \<and> verify_run_identity (rj_env J) data = Inr () \<and> jget ''artifact_digest'' data = Inr (JStr [])
    \<and> getenv (rj_env J) ''ARTIFACT_IMAGE_DIGEST'' = Inr d \<and> ws_files w' = (ws_files w)(''release.json'' \<mapsto> pinned)
    \<and> validate_identity pinned False = Inr () \<and> jget ''artifact_digest'' pinned = Inr (JStr d)
    \<and> (\<forall>k. k \<notin> set PINNED_KEYS \<longrightarrow> jget k pinned = jget k data)"
proof -
  obtain data d pinned w1 w2 where p: "ws_files w ''release.json'' = Some data" "validate_identity data True = Inr ()"
    "verify_run_identity (rj_env J) data = Inr ()" "jget ''artifact_digest'' data = Inr (JStr [])"
    "getenv (rj_env J) ''ARTIFACT_IMAGE_DIGEST'' = Inr d"
    "jupdate [(''artifact_digest'', JStr d),
        (''exact_artifact_image'', JStr (identity_text data ''artifact_image_name'' @ ''@'' @ d))] data = Inr pinned"
    "validate_identity pinned False = Inr ()" "write_file ''release.json'' pinned w = (Inr (), w1)"
    "write_output (rj_env J) w2 w1 = (Inr u, w')"
    using assms unfolding pin_def
    by (auto simp: bindP_Inr_iff thenP_def read_evidence_Inr run_liftP bindR_Inr_iff)
  obtain kvs where data: "data = JObj kvs" using p(6) by (cases data) (auto simp: jupdate_def)
  have fields: "jget k pinned = (if k = ''exact_artifact_image'' then Inr (JStr (identity_text data ''artifact_image_name'' @ ''@'' @ d))
      else if k = ''artifact_digest'' then Inr (JStr d) else jget k data)" for k
    using p(6) by (auto simp: data jupdate_def split: option.splits)
  have "keeps same_files' (write_outputs kvs)" if "same_files' = (\<lambda>w w'. ws_files w' = ws_files w)"
    for kvs and same_files' :: "'a workspace \<Rightarrow> 'a workspace \<Rightarrow> bool"
    unfolding that by (induction kvs) (auto simp: keeps_def run_simps)
  then have "ws_files w' = ws_files w1"
    using p(9) unfolding write_output_def bindP_Inr_iff run_liftP by (auto dest!: keepsD [rotated])
  then have "ws_files w' = (ws_files w)(''release.json'' \<mapsto> pinned)" using p(8) by (auto simp: write_file_def)
  then show ?thesis using p fields by (auto simp: PINNED_KEYS_def)
qed

lemma merge_key_other: "merge_key found k data = Inr data' \<Longrightarrow> k \<noteq> k' \<Longrightarrow> map_of data' k' = map_of data k'"
  by (auto simp: merge_key_def bindR_Inr_iff split: if_splits)

lemma foldR_merge_key:
  "foldR (merge_key found) ks data = Inr data' \<Longrightarrow> k' \<notin> set ks \<Longrightarrow> map_of data' k' = map_of data k'"
proof (induction ks arbitrary: data)
  case (Cons k ks)
  then obtain d where "merge_key found k data = Inr d" "foldR (merge_key found) ks d = Inr data'"
    by (auto simp: bindR_Inr_iff)
  with Cons merge_key_other [of found k data d k'] show ?case by auto
qed simp

lemma merge_file_result:
  assumes "merge_file name data w = (Inr data', w')"
  shows "map_of data' ''release_result'' = map_of data ''release_result''" "ws_files w' = ws_files w"
proof -
  have "''release_result'' \<notin> set SUMMARY_KEYS" by (simp add: SUMMARY_KEYS_def IDENTITY_KEYS_def STRING_IDENTITY_KEYS_def)
  then show "map_of data' ''release_result'' = map_of data ''release_result''" "ws_files w' = ws_files w"
    using assms foldR_merge_key
    by (auto simp: merge_file_def bindP_Inr_iff file_exists_def read_evidence_Inr run_liftP run_retP split: if_splits)
qed

lemma final_audit_InrD:
  assumes "final_audit J w = (Inr u, w')"
  shows "\<exists>built deployed validation approved. ws_files w ''release.json'' = Some built
    \<and> validate_identity built False = Inr () \<and> verify_run_identity (rj_env J) built = Inr ()
    \<and> ws_files w ''production.json'' = Some deployed \<and> ws_files w ''eks-dev.json'' = Some validation
    \<and> verify_validation built validation ''eks-dev'' = Inr () \<and> ws_files w ''candidate.json'' = Some approved
    \<and> final_identity deployed built approved = Inr True \<and> production_passed deployed = Inr True"
proof -
  obtain built w1 where b: "bound_release J w = (Inr built, w1)" and
    rest: "\<exists>deployed validation approved. ws_files w1 ''production.json'' = Some deployed
      \<and> ws_files w1 ''eks-dev.json'' = Some validation
      \<and> verify_validation built validation ''eks-dev'' = Inr () \<and> ws_files w1 ''candidate.json'' = Some approved
      \<and> final_identity deployed built approved = Inr True \<and> production_passed deployed = Inr True"
    using assms unfolding final_audit_def
    by (auto simp: bindP_Inr_iff read_evidence_Inr run_liftP bindR_Inr_iff)
  then show ?thesis using bound_release_InrD [OF b] by (auto simp: same_files_def)
qed

text \<open>
  C13 (success is audited). The summary reports a successful release only when every job succeeded
  and the evidence files hold the complete chain: the identity of this run, its validation on
  \<open>eks-dev\<close>, the reviewed candidate and a production report with every check, all with the same identity.
\<close>
theorem summary_success_audited:
  assumes "summary J w = (Inr u, w')" and "ws_files w' ''summary.json'' = Some (JObj final)"
    and "map_of final ''release_result'' = Some (JStr ''success'')"
  shows "\<exists>needs results built deployed validation approved.
    bindR (getenv (rj_env J) ''NEEDS_JSON'') (loads_res J) = Inr needs \<and> job_results needs = Inr results
    \<and> successful_jobs results \<and> ws_files w ''release.json'' = Some built
    \<and> validate_identity built False = Inr () \<and> verify_run_identity (rj_env J) built = Inr ()
    \<and> ws_files w ''production.json'' = Some deployed \<and> ws_files w ''eks-dev.json'' = Some validation
    \<and> verify_validation built validation ''eks-dev'' = Inr () \<and> ws_files w ''candidate.json'' = Some approved
    \<and> final_identity deployed built approved = Inr True \<and> production_passed deployed = Inr True"
proof -
  obtain needs results base d1 d2 fin w1 w2 w3 w4 where s:
    "bindR (getenv (rj_env J) ''NEEDS_JSON'') (loads_res J) = Inr needs" "job_results needs = Inr results"
    "\<exists>stamp. external (rj_timestamp J) w = (Inr stamp, w1) \<and> summary_base (rj_env J) results stamp = Inr base"
    "merge_file ''release.json'' base w1 = (Inr d1, w2)" "merge_file ''production.json'' d1 w2 = (Inr d2, w3)"
    "summary_result J results d2 w3 = (Inr fin, w4)" "ws_files w' = (ws_files w4)(''summary.json'' \<mapsto> JObj fin)"
    using assms(1) unfolding summary_def
    by (auto simp: bindP_Inr_iff thenP_def run_liftP write_file_def)
  have files: "ws_files w3 = ws_files w"
    using s(3) merge_file_result(2) [OF s(4)] merge_file_result(2) [OF s(5)] keepsD [OF same_files_primitive(1)]
    by (fastforce simp: same_files_def)
  have "map_of base ''release_result'' = Some (JStr ''not_successful'')"
    using s(3) by (auto simp: summary_base_def bindR_Inr_iff)
  then have "map_of d2 ''release_result'' = Some (JStr ''not_successful'')"
    using merge_file_result(1) [OF s(4)] merge_file_result(1) [OF s(5)] by simp
  moreover have "map_of fin ''release_result'' = Some (JStr ''success'')" using assms(2,3) s(7) by simp
  ultimately have "successful_jobs results \<and> (\<exists>v x. final_audit J w3 = (Inr v, x))"
    using s(6)
    by (cases "final_audit J w3")
      (auto simp: summary_result_def run_attemptP run_retP run_raiseP split: if_splits sum.splits)
  then show ?thesis using final_audit_InrD [of J w3] s(1,2) files by auto
qed

section \<open>A release\<close>

definition runtime_repo :: string where
  "runtime_repo = ''596432515999.dkr.ecr.ap-southeast-1.amazonaws.com/runtime''"

definition artifact_repo :: string where
  "artifact_repo = ''596432515999.dkr.ecr.ap-southeast-1.amazonaws.com/artifact''"

definition sample_sha :: string where
  "sample_sha = replicate 40 (CHR ''a'')"

definition sample_job_env :: env where
  "sample_job_env = map_of
     [(''GITHUB_RUN_ATTEMPT'', ''1''), (''GITHUB_SHA'', sample_sha), (''GITHUB_REF_NAME'', ''v1.2.3''),
      (''GITHUB_REF'', ''refs/tags/v1.2.3''), (''TICKET_REFERENCE'', ''T-1''), (''GITHUB_SERVER_URL'', ''https://github.com''),
      (''GITHUB_REPOSITORY'', RELEASE_REPOSITORY), (''GITHUB_RUN_ID'', ''11''), (''GITHUB_OUTPUT'', ''out''),
      (''ARTIFACT_IMAGE_DIGEST'', sample_digest (CHR ''d'')),
      (''EXACT_RUNTIME_IMAGE'', runtime_repo @ ''@'' @ sample_digest (CHR ''a'')),
      (''EXACT_ARTIFACT_IMAGE'', artifact_repo @ ''@'' @ sample_digest (CHR ''d'')),
      (''DEPLOYMENT_ENVIRONMENT'', ''production''), (''KUBECONFIG_B64'', ''e30=''), (''KUBE_CONTEXT'', ''prod''),
      (''KUBE_NAMESPACE'', ''production''), (''NEEDS_JSON'', ''needs'')]"

definition identity_fields :: "string \<Rightarrow> string \<Rightarrow> (string \<times> json) list" where
  "identity_fields d exact =
     [(''schema_version'', JInt 2), (''git_sha'', JStr sample_sha), (''git_short_sha'', JStr (take 12 sample_sha)),
      (''release_version'', JStr ''v1.2.3''), (''runtime_image_name'', JStr runtime_repo),
      (''runtime_digest'', JStr (sample_digest (CHR ''a''))),
      (''exact_runtime_image'', JStr (runtime_repo @ ''@'' @ sample_digest (CHR ''a''))),
      (''artifact_image_name'', JStr artifact_repo), (''artifact_tag'', JStr (''m-'' @ take 12 sample_sha)),
      (''artifact_digest'', JStr d), (''exact_artifact_image'', JStr exact),
      (''workflow_run'', JStr (''https://github.com/'' @ RELEASE_REPOSITORY @ ''/actions/runs/11'')),
      (''ticket_reference'', JStr ''T-1''),
      (''security_policy'', JObj [(''blocking_severities'', JStr ''HIGH,CRITICAL''), (''ignore_unfixed'', JStr ''false'')])]"

definition unpinned_release :: json where
  "unpinned_release = JObj (identity_fields [] [])"

definition built_fields :: "(string \<times> json) list" where
  "built_fields = identity_fields (sample_digest (CHR ''d'')) (artifact_repo @ ''@'' @ sample_digest (CHR ''d''))"

definition built_release :: json where
  "built_release = JObj (built_fields @ map (\<lambda>k. (k, JStr ''success'')) RESULT_KEYS)"

definition scan_of :: "image_kind \<Rightarrow> json" where
  "scan_of k = JObj [(''ArtifactName'', JStr (identity_text built_release (exact_key k))), (''Results'', JArr [JNull])]"

definition sample_containers :: "(string \<times> json) list" where
  "sample_containers =
     [(''containers'', JArr [JObj [(''name'', JStr ''model-service''), (''image'', JStr (identity_text built_release (exact_key Runtime)))]]),
      (''initContainers'', JArr [JObj [(''name'', JStr ''model-artifact''), (''image'', JStr (identity_text built_release (exact_key Artifact)))]])]"

definition sample_deployment :: json where
  "sample_deployment = JObj [(''spec'', JObj [(''template'', JObj
     [(''metadata'', JObj []), (''spec'', JObj sample_containers)])])]"

definition sample_pod :: json where
  "sample_pod = JObj
     [(''metadata'', JObj []), (''spec'', JObj sample_containers),
      (''status'', JObj
         [(''phase'', JStr ''Running''), (''conditions'', JArr [JObj [(''type'', JStr ''Ready''), (''status'', JStr ''True'')]]),
          (''containerStatuses'', JArr [JObj [(''name'', JStr ''model-service''), (''ready'', JBool True),
             (''imageID'', JStr (''containerd://'' @ sample_digest (CHR ''a'')))]]),
          (''initContainerStatuses'', JArr [JObj [(''name'', JStr ''model-artifact''),
             (''state'', JObj [(''terminated'', JObj [(''exitCode'', JInt 0)])]),
             (''imageID'', JStr (identity_text built_release (exact_key Artifact)))]])])]"

definition sample_job :: "unit release_job" where
  "sample_job =
     \<lparr>rj_lib = sample_lib, rj_env = sample_job_env,
      rj_loads = (\<lambda>s. if s = ''pods'' then Some (JObj [(''items'', JArr [sample_pod])])
                  else if s = ''needs'' then Some (JObj (map (\<lambda>k. (k, JObj [(''result'', JStr ''success'')]))
                         [''build'', ''eks_dev'', ''candidate'', ''production'']))
                  else Some sample_deployment),
      rj_command = (\<lambda>args _. retP (if ''pods'' \<in> set args then ''pods'' else ''object'')),
      rj_aws = (\<lambda>_. retP (0, [], [])), rj_http = (\<lambda>_ _. retP JNull), rj_suites = retP [[''tests'' \<mapsto> ''9'']],
      rj_install_kubeconfig = (\<lambda>_. retP ()), rj_remove_kubeconfig = retP (), rj_python = ''python'',
      rj_free_port = retP 8, rj_forward = (\<lambda>_. retP ()), rj_running = retP True, rj_connect = (\<lambda>_. retP ()),
      rj_sleep = retP (), rj_terminate = retP (), rj_timestamp = retP ''now''\<rparr>"

definition sample_workspace :: "json \<Rightarrow> unit workspace" where
  "sample_workspace release =
     \<lparr>ws_world = (),
      ws_files = map_of
        [(''release.json'', release), (''trivy-runtime.json'', scan_of Runtime), (''trivy-artifact.json'', scan_of Artifact),
         (''eks-dev.json'', JObj (built_fields @
            [(''deployment_environment'', JStr ''eks-dev''), (''deployment_result'', JStr ''success''),
             (''checks'', JObj (map (\<lambda>k. (k, JStr ''success'')) CHECKS))])),
         (''candidate.json'', JObj (built_fields @ [(''approval_state'', JStr ''pending_human_review'')]))],
      ws_report = JNull, ws_outputs = []\<rparr>"

lemma sample_identity_valid: "validate_identity built_release False = Inr ()"
  by code_simp

lemma validate_identity_pins_witness:
  "\<exists>name d. jget (exact_key Artifact) built_release = Inr (JStr (name @ ''@'' @ d)) \<and> rx_digest d"
  using validate_identity_pins [OF sample_identity_valid, of Artifact] by blast

lemma sample_pods_pass: "verify_pods built_release (JArr [sample_pod]) = Inr ()"
  by code_simp

lemma verify_pods_exact_witness: "runs_image built_release sample_pod Runtime"
  using verify_pods_exact [OF sample_pods_pass, of Runtime] by (simp add: jiter_def)

lemma sample_pin: "fst (pin sample_job (sample_workspace unpinned_release)) = Inr ()"
  by code_simp

lemma pin_completes_witness:
  "\<exists>pinned. ws_files (snd (pin sample_job (sample_workspace unpinned_release))) ''release.json'' = Some pinned
     \<and> validate_identity pinned False = Inr ()"
proof -
  have "pin sample_job (sample_workspace unpinned_release)
      = (Inr (), snd (pin sample_job (sample_workspace unpinned_release)))" using sample_pin by (simp add: prod_eq_iff)
  from pin_completes [OF this] show ?thesis by auto
qed

definition released_workspace :: "unit workspace" where
  "released_workspace = snd (deploy sample_job (sample_workspace built_release))"

lemma sample_deploy: "fst (deploy sample_job (sample_workspace built_release)) = Inr ()"
  by code_simp

lemma deploy_production_gated_witness:
  "\<exists>report. ws_files released_workspace = (ws_files (sample_workspace built_release))(''production.json'' \<mapsto> report)"
proof -
  have "deploy sample_job (sample_workspace built_release) = (Inr (), released_workspace)"
    using sample_deploy by (simp add: prod_eq_iff released_workspace_def)
  moreover have "getenv (rj_env sample_job) ''DEPLOYMENT_ENVIRONMENT'' = Inr ''production''" by code_simp
  ultimately show ?thesis using deploy_production_gated by blast
qed

text \<open>The summary of a run with a successful production report.\<close>

definition finished_workspace :: "unit workspace" where
  "finished_workspace = (sample_workspace built_release)\<lparr>ws_files :=
     (ws_files (sample_workspace built_release))(''production.json'' \<mapsto> JObj (built_fields @
        [(''deployment_environment'', JStr ''production''), (''deployment_result'', JStr ''success''),
         (''approval_state'', JStr ''environment_gate_passed''),
         (''checks'', JObj (map (\<lambda>k. (k, JStr ''success'')) CHECKS))]))\<rparr>"

lemma sample_summary:
  "fst (summary sample_job finished_workspace) = Inr ()"
  "case ws_files (snd (summary sample_job finished_workspace)) ''summary.json'' of
     Some (JObj final) \<Rightarrow> map_of final ''release_result'' = Some (JStr ''success'') | _ \<Rightarrow> False"
  subgoal by code_simp
  subgoal by code_simp
  done

lemma summary_success_audited_witness:
  "\<exists>deployed. ws_files finished_workspace ''production.json'' = Some deployed \<and> production_passed deployed = Inr True"
proof -
  have run: "summary sample_job finished_workspace = (Inr (), snd (summary sample_job finished_workspace))"
    using sample_summary(1) by (simp add: prod_eq_iff)
  obtain final where "ws_files (snd (summary sample_job finished_workspace)) ''summary.json'' = Some (JObj final)"
    "map_of final ''release_result'' = Some (JStr ''success'')"
    using sample_summary(2) by (auto split: option.splits json.splits)
  from summary_success_audited [OF run this] show ?thesis by blast
qed

end
