(* ===== verification/WorkerProperties.thy ===== *)
theory WorkerProperties
  imports Processor Scenario
begin

text \<open>
  Properties of the workers that fill the queue: events and their ingestion, the consumer, the
  processor and the operator recovery, and that all of them keep the discipline the controller
  relies on.
\<close>

section \<open>Events\<close>

text \<open>
  C21 (events round trip). An event that was parsed, written to the state and parsed again is the
  same event; its version is a canonical decimal between 1 and 2147483647 above the previous one and
  its artifact lies in the artifact store.
\<close>
theorem parse_event_round_trip:
  assumes "parse_event L loads body = Inr e"
  shows "parse_event L loads (event_json e) = Inr e
    \<and> 1 \<le> digits_value (ev_model_version e) \<and> digits_value (ev_model_version e) < 2 ^ 31
    \<and> storage_uri (JStr (ev_artifact_uri e)) = Inr (ev_artifact_uri e)
    \<and> (\<forall>p. ev_previous_version e = Some p \<longrightarrow> digits_value p < digits_value (ev_model_version e))"
  using parse_event_well_formed [OF assms] parse_event_event_json [of L e loads]
    version_string_pos [of "ev_model_version e"]
  by (auto simp: well_formed_event_def artifact_uri_def)

section \<open>Ingestion\<close>

lemma ingest_highest:
  "ingest L loads body now origin s = Inr (outcome, s') \<Longrightarrow> st_highest_accepted s \<le> st_highest_accepted s'"
  by (erule ingest_cases) (auto simp: accept_def)

lemma ingest_duplicate:
  assumes "parse_event L loads body = Inr e"
    and "first_such (\<lambda>x. id_model_version x = ev_model_version e) (st_identities s) = Some (identity e)"
  shows "ingest L loads body now origin s = Inr (''duplicate'',
    audit ''duplicate'' now [(''model_version'', JStr (ev_model_version e)), (''source'', JStr origin)] s)"
  using assms by (simp add: ingest_def)

lemma first_such_snoc: "\<forall>x \<in> set xs. \<not> p x \<Longrightarrow> p y \<Longrightarrow> first_such p (xs @ [y]) = Some y"
  by (induction xs) auto

text \<open>
  C20 (ingestion is idempotent). An accepted event is appended to the queue as the newest version and
  becomes the highest accepted one; ingesting the same message again, from whatever source and at
  whatever time, is recognised as a duplicate and changes nothing but the audit trail.
\<close>
theorem ingest_idempotent:
  assumes "ingest L loads body now origin s = Inr (''accepted'', s')"
  shows "\<exists>e. parse_event L loads body = Inr e \<and> st_pending s' = st_pending s @ [new_item e]
    \<and> st_highest_accepted s < st_highest_accepted s' \<and> st_highest_accepted s' = int (digits_value (ev_model_version e))
    \<and> (\<exists>s''. ingest L loads body later from s' = Inr (''duplicate'', s'') \<and> s'' = s'\<lparr>st_audit := st_audit s''\<rparr>)"
  using assms
proof (cases rule: ingest_cases)
  case (1 e)
  then have s': "s' = audit ''accepted'' now [(''model_version'', JStr (ev_model_version e)), (''source'', JStr origin)] (accept e s)"
    and new: "ev_model_version e \<notin> id_model_version ` set (st_identities s)"
    and up: "st_highest_accepted s < int (digits_value (ev_model_version e))" by auto
  obtain ids where ids: "st_identities s' = ids @ [identity e]" "set ids \<subseteq> set (st_identities s)"
    using set_last_n [of "HISTORY - 1" "st_identities s"] by (simp add: s' accept_def last_n_snoc)
  have "id_model_version x \<noteq> ev_model_version e" if "x \<in> set ids" for x
    using that new ids(2) by (metis image_eqI subsetD)
  then have "first_such (\<lambda>x. id_model_version x = ev_model_version e) (st_identities s') = Some (identity e)"
    unfolding ids(1) by (intro first_such_snoc) (simp_all add: identity_def)
  from ingest_duplicate [OF 1(1) this, of later "from"] show ?thesis
    using 1(1) up by (auto simp: s' accept_def audit_def)
qed

section \<open>The consumer\<close>

text \<open>
  C18 (no message is lost). The consumer deletes a message only on a world in which its decision is
  durable: its event was parsed and ingested in one atomic step on a stored state, the state with the
  decision was stored by that step, and the decision was not an identity conflict.
\<close>
theorem consumer_deletes_durable:
  assumes "configmap_server api obj drift" and "keeps drift clock"
    and "handle_message L loads q (kube_backend (validate L) name ns api) clock m w = (Inr outcome, w')"
  shows "\<exists>e s s' now v. parse_event L loads (mg_body m) = Inr e
    \<and> ingest L loads (event_json e) now ''sqs'' s = Inr (outcome, s') \<and> validate L s' = Inr ()
    \<and> cm_state (obj v) = s' \<and> sq_delete q QUEUE (mg_receipt_handle m) v = (Inr (), w')
    \<and> outcome \<in> {''accepted'', ''duplicate'', ''stale''}"
proof -
  note cas = configmap_server.kube_contract [OF assms(1)]
  let ?be = "kube_backend (validate L) name ns api"
  obtain v where enq: "enqueue L loads ?be clock (mg_body m) ''sqs'' w = (Inr outcome, v)"
    and ok: "outcome \<noteq> ''identity_conflict''"
    and del: "sq_delete q QUEUE (mg_receipt_handle m) v = (Inr (), w')"
    using assms(3) by (auto simp: handle_message_def bindP_Inr_iff thenP_def run_raiseP run_retP split: if_splits)
  obtain e where e: "parse_event L loads (mg_body m) = Inr e"
    and upd: "update L ?be (\<lambda>s. bindP clock (\<lambda>now. liftP (ingest L loads (event_json e) now ''sqs'' s))) w = (Inr outcome, v)"
    using enq by (auto simp: enqueue_def bindP_Inr_iff run_liftP)
  have "keeps drift (bindP clock (\<lambda>now. liftP (ingest L loads (event_json e) now ''sqs'' s)))" for s
    using assms(2) cas_backend.drift_reflp [OF cas] cas_backend.drift_transp [OF cas]
    by (intro keeps_bindP keeps_pure)
  from cas_backend.update_commits [OF cas this upd [unfolded update_def]] obtain s s' u u' x where
    "bindP clock (\<lambda>now. liftP (ingest L loads (event_json e) now ''sqs'' s)) u = (Inr (outcome, s'), u')"
    "cm_state (obj v) = s'" "validate L s' = Inr ()"
    unfolding cas_backend.commits_def [OF cas] stored_simps by auto
  moreover from this(1) obtain now where "ingest L loads (event_json e) now ''sqs'' s = Inr (outcome, s')"
    by (auto simp: bindP_Inr_iff run_liftP)
  moreover from this have "outcome \<in> {''accepted'', ''duplicate'', ''identity_conflict'', ''stale''}"
    by (rule ingest_cases)
  ultimately show ?thesis using e del ok by blast
qed

section \<open>The processor\<close>

lemma apply_result_event [simp]: "it_event (apply_result r it) = it_event it"
  by (cases r) simp_all

lemma commit_result_cases:
  assumes "commit_result P it r s w = (Inr (out, s'), w')"
  obtains "s' = s" "out = ''superseded''"
  | now where "first_such (\<lambda>x. it_event x = it_event it) (st_pending s) = Some it"
      "out = status_name (result_status r)"
      "s' = audit out now [(''model_version'', JStr (ev_model_version (it_event it)))]
        (s\<lparr>st_pending := update_first (\<lambda>x. it_event x = it_event it) (apply_result r) (st_pending s)\<rparr>)"
  using assms by (auto simp: commit_result_def bindP_Inr_iff run_retP split: if_splits)

lemma commit_result_worker_writes:
  assumes "commit_result P it r s w = (Inr (out, s'), w')"
  shows "worker_writes s s'"
  using assms
proof (cases rule: commit_result_cases)
  case (2 now)
  have "map it_event (st_pending s') = map it_event (st_pending s)"
    unfolding 2(3) by (simp add: map_update_first)
  then have "queue_ok s \<longrightarrow> queue_ok s'" using queue_ok_events [of s s'] 2(3) by simp
  then show ?thesis by (simp add: worker_writes_def core_eq_iff 2(3))
qed (simp add: worker_writes_def)

lemma recover_worker_writes:
  assumes "recover_mutator clock version operator note s w = (Inr (out, s'), w')"
  shows "worker_writes s s'"
proof -
  obtain now fields where s': "s' = audit ''operator_resolution_retry'' now fields
      (s\<lparr>st_pending := update_first (\<lambda>x. ev_model_version (it_event x) = version) (recover_item now) (st_pending s)\<rparr>)"
    using assms
    by (auto simp: recover_mutator_def bindP_Inr_iff run_retP run_raiseP split: list.splits if_splits)
  have "map it_event (st_pending s') = map it_event (st_pending s)"
    unfolding s' by (simp add: map_update_first recover_item_def)
  then have "queue_ok s \<longrightarrow> queue_ok s'" using queue_ok_events [of s s'] s' by simp
  then show ?thesis by (simp add: worker_writes_def core_eq_iff s')
qed

lemma ingest_worker_writes:
  assumes "ingest L loads body now origin s = Inr (outcome, s')"
  shows "worker_writes s s'"
  using assms
proof (cases rule: ingest_cases)
  case (1 e)
  then show ?thesis
    using ingest_queue_ok [OF assms]
    by (cases "outcome = ''accepted''") (simp_all add: worker_writes_def core_eq_iff accept_def)
qed

text \<open>
  C19 (the discipline of the writers). Ingestion, the processor's commit, the operator's recovery and
  the authorization leave the active release, the stable pair, the route and the lease alone and keep
  the queue in order. This is the discipline under which the properties of the controller hold, so the
  system of all writers satisfies them.
\<close>
theorem workers_keep_discipline:
  "(ingest L loads body now origin s = Inr (outcome, s') \<longrightarrow> worker_writes s s')
   \<and> (commit_result P it r s w = (Inr (out, s'), w') \<longrightarrow> worker_writes s s')
   \<and> (recover_mutator clock version operator note s w = (Inr (doc, s'), w') \<longrightarrow> worker_writes s s')
   \<and> (authorize L expected now s = Inr (auth, s') \<longrightarrow> worker_writes s s')"
proof (intro conjI impI)
  assume "authorize L expected now s = Inr (auth, s')"
  then show "worker_writes s s'" unfolding worker_writes_def by (rule authorize_frame)
qed (blast intro: ingest_worker_writes commit_result_worker_writes recover_worker_writes)+

text \<open>
  Retries are bounded: a resolution that fails schedules its next attempt between 30 seconds and
  15 minutes later, counts the attempt, and blocks the item exactly when the configured number of
  attempts is reached.
\<close>
theorem failed_result_bounds:
  assumes "failed_result P it e w = (Inr r, w')" and "0 \<le> it_attempts it"
  shows "\<exists>st n t now. r = Failed st n t (exn_name e) \<and> n = it_attempts it + 1
    \<and> (st = RESOLUTION_BLOCKED \<longleftrightarrow> pr_max_attempts P \<le> n) \<and> (st = RESOLUTION_BLOCKED \<or> st = RESOLUTION_RETRY)
    \<and> pr_clock P w = (Inr now, w') \<and> now + 30 \<le> t \<and> t \<le> now + 900"
proof -
  let ?n = "it_attempts it + 1"
  obtain now where now: "pr_clock P w = (Inr now, w')"
    and r: "r = Failed (if pr_max_attempts P \<le> ?n then RESOLUTION_BLOCKED else RESOLUTION_RETRY) ?n
      (now + of_int (backoff ?n)) (exn_name e)"
    using assms(1) by (auto simp: failed_result_def Let_def bindP_Inr_iff run_retP)
  have "(2::int) ^ 1 \<le> 2 ^ nat ?n" using assms(2) by (intro power_increasing) auto
  then have "30 \<le> backoff ?n" "backoff ?n \<le> 900" by (auto simp: backoff_def)
  then have "(30::rat) \<le> of_int (backoff ?n)" "of_int (backoff ?n) \<le> (900::rat)" by linarith+
  then show ?thesis using r now by auto
qed

section \<open>Witnesses\<close>

lemma sample_parse: "parse_event sample_lib (\<lambda>_. None) (event_json sample_event) = Inr sample_event"
  by code_simp

lemma parse_event_round_trip_witness: "digits_value (ev_model_version sample_event) < 2 ^ 31"
  using parse_event_round_trip [OF sample_parse] by blast

lemma sample_ingest:
  "ingest sample_lib (\<lambda>_. None) (event_json sample_event) 1 ''sqs'' sample_state
     = Inr (''accepted'', audit ''accepted'' 1 [(''model_version'', JStr ''8''), (''source'', JStr ''sqs'')]
         (accept sample_event sample_state))"
proof -
  have "ev_model_version sample_event = ''8''" "digits_value ''8'' = 8" "st_identities sample_state = []"
    "st_pending sample_state = []" "st_highest_accepted sample_state = 7"
    by (simp_all add: sample_event_def sample_state_def digits_value_def digit_value_def code_def)
  then show ?thesis by (simp add: ingest_def sample_parse accept_def)
qed

lemma ingest_idempotent_witness:
  "\<exists>s''. ingest sample_lib (\<lambda>_. None) (event_json sample_event) 2 ''champion''
     (audit ''accepted'' 1 [(''model_version'', JStr ''8''), (''source'', JStr ''sqs'')] (accept sample_event sample_state))
     = Inr (''duplicate'', s'')"
  using ingest_idempotent [OF sample_ingest, of 2 "''champion''"] by blast

definition sample_sqs :: "release_state server sqs" where
  "sample_sqs = \<lparr>sq_receive = retP [], sq_delete = (\<lambda>_ _. retP ())\<rparr>"

definition sample_handling :: "string res \<times> release_state server" where
  "sample_handling = handle_message sample_lib (\<lambda>_. None) sample_sqs
     (kube_backend (validate sample_lib) STATE_NAME ''production'' (server_api worker_writes)) server_clock
     \<lparr>mg_body = event_json sample_event, mg_receipt_handle = ''h''\<rparr> (sample_server\<lparr>sv_script := []\<rparr>)"

lemma sample_handled: "fst sample_handling = Inr ''accepted''"
  by code_simp

lemma consumer_deletes_durable_witness:
  "\<exists>s now. ingest sample_lib (\<lambda>_. None) (event_json sample_event) now ''sqs'' s
     = Inr (''accepted'', cm_state (server_object (snd sample_handling)))"
proof -
  have run: "handle_message sample_lib (\<lambda>_. None) sample_sqs
      (kube_backend (validate sample_lib) STATE_NAME ''production'' (server_api worker_writes)) server_clock
      \<lparr>mg_body = event_json sample_event, mg_receipt_handle = ''h''\<rparr> (sample_server\<lparr>sv_script := []\<rparr>)
      = (Inr ''accepted'', snd sample_handling)"
    using sample_handled by (simp add: sample_handling_def prod_eq_iff)
  have "keeps (server_drift worker_writes) server_clock"
    by (auto simp: keeps_def server_clock_def server_drift_def worker_writes_def)
  from consumer_deletes_durable [OF working.configmap_server_axioms this run] sample_parse
  show ?thesis by (auto simp: sample_sqs_def run_retP)
qed

lemma workers_keep_discipline_witness: "worker_writes resolved_state authorized_state"
  by (rule workers_keep_discipline [THEN conjunct2, THEN conjunct2, THEN conjunct2, THEN mp, OF sample_authorize])

definition sample_processor :: "unit processor" where
  "sample_processor =
     \<lparr>pr_lib = sample_lib,
      pr_backend = \<lparr>be_read = raiseP URLError, be_write = (\<lambda>_ _. raiseP URLError)\<rparr>,
      pr_source = (\<lambda>_. raiseP URLError), pr_lookup = (\<lambda>_. retP None), pr_clock = retP 100, pr_max_attempts = 5\<rparr>"

lemma sample_failure:
  "failed_result sample_processor resolved_item URLError ()
     = (Inr (Failed RESOLUTION_RETRY 1 130 ''URLError''), ())"
  by (simp add: failed_result_def sample_processor_def run_bindP run_retP resolved_item_def new_item_def backoff_def)

lemma failed_result_bounds_witness: "(100 :: rat) + 30 \<le> 130 \<and> (130 :: rat) \<le> 100 + 900"
  using failed_result_bounds [OF sample_failure]
  by (auto simp: sample_processor_def run_retP resolved_item_def new_item_def)

end
