(* ===== verification/RoutingProperties.thy ===== *)
theory RoutingProperties
  imports Routing
begin

text \<open>
  Properties of the request routing: the exact share of the canary, that nothing is forwarded on a
  state that is missing, old or without an owner, and the bounds of a reply.
\<close>

section \<open>The share of the canary\<close>

text \<open>
  C22 (the canary gets exactly its share). For every weight between 0 and 100 the first \<open>n\<close> requests
  after a change of the route send exactly \<open>n * weight div 100\<close> of them to the canary, and every
  window of 100 consecutive requests sends exactly \<open>weight\<close>: the weighted choice is equivalent to
  the ideal distribution at every point of time.
\<close>
theorem canary_share_exact:
  assumes "0 \<le> p" and "p \<le> 100"
  shows "int (canary_count p n) = int n * p div 100
    \<and> int (canary_count p (n + 100)) = int (canary_count p n) + p"
proof -
  have "int (n + 100) * p = int n * p + p * 100" by (simp add: algebra_simps)
  then have "int (n + 100) * p div 100 = int n * p div 100 + p" by simp
  then show ?thesis using canary_count_eq [OF assms] by simp
qed

section \<open>Failing closed\<close>

lemma routing_status_ready:
  assumes "routing_status clock ro w = (Inr st, w')" and "rs_ready st"
  obtains v now w1 where "ro_state ro = Some v" "clock w = (Inr now, w1)" "now - ro_updated ro \<le> 10"
    "rs_weight st = rv_weight v"
    "rv_active v \<Longrightarrow> \<exists>t later. rv_lease_until v = Some t \<and> clock w1 = (Inr later, w') \<and> later < t"
proof -
  obtain now w1 where now: "clock w = (Inr now, w1)" and
    rest: "(case ro_state ro of
         None \<Rightarrow> retP \<lparr>rs_ready = False, rs_weight = 0, rs_revision = -1\<rparr>
       | Some v \<Rightarrow>
           bindP
             (if now - ro_updated ro > 10 then retP False
              else if \<not> rv_active v then retP True
              else case rv_lease_until v of
                     None \<Rightarrow> retP False
                   | Some t \<Rightarrow> bindP clock (\<lambda>later. retP (t > later)))
             (\<lambda>ok. retP \<lparr>rs_ready = ok, rs_weight = (if ok then rv_weight v else 0), rs_revision = ro_revision ro\<rparr>)) w1
       = (Inr st, w')"
    using assms(1) by (auto simp: routing_status_def bindP_Inr_iff)
  obtain v where v: "ro_state ro = Some v"
    using rest assms(2) by (cases "ro_state ro") (auto simp: run_retP)
  show thesis
  proof (cases "now - ro_updated ro > 10 \<or> rv_active v \<and> rv_lease_until v = None")
    case True
    then show thesis using rest assms(2) v by (auto simp: bindP_Inr_iff run_retP split: if_splits)
  next
    case False
    then have "now - ro_updated ro \<le> 10" by simp
    then show thesis
      using rest assms(2) v False
      by (intro that [OF v now])
        (auto simp: bindP_Inr_iff run_retP split: if_splits option.splits)
  qed
qed

lemma choose_route_Some:
  assumes "choose_route clock ro w = (Inr (Some t, ro'), w')"
  shows "\<exists>st. routing_status clock ro w = (Inr st, w') \<and> rs_ready st \<and> t = choose_track (ro_sequence ro) (rs_weight st)"
  using assms by (auto simp: choose_route_def bindP_Inr_iff run_retP split: if_splits)

lemma v2_body_answer: "v2_body r = Inr (Answer x) \<Longrightarrow> re_track x = None"
  by (auto simp: v2_body_def bindR_Inr_iff json_reply_def split: if_splits)

text \<open>
  C23 (failing closed). The V2 proxy forwards a request only when it has an address for the chosen
  lane and a release state that was refreshed at most ten seconds ago, and, while a release is in
  progress, the lease of its controller has not expired; the lane is then the weighted choice for
  the weight of that state. In every other case it answers without contacting a backend.
\<close>
theorem forwards_only_fresh:
  assumes "v2_post clock opener addresses r ro w = (Inr (a, ro'), w')" and "re_track a = Some t"
  shows "\<exists>v now w1. ro_state ro = Some v \<and> clock w = (Inr now, w1) \<and> now - ro_updated ro \<le> 10
    \<and> (rv_active v \<longrightarrow> (\<exists>u later w2. rv_lease_until v = Some u \<and> clock w1 = (Inr later, w2) \<and> later < u))
    \<and> t = choose_track (ro_sequence ro) (rv_weight v) \<and> addresses t \<noteq> None
    \<and> rq_path r = infer_path MODEL \<and> (\<exists>b. v2_body r = Inr (Body b))"
proof -
  have untracked: "re_track (json_reply n s) = None" for n s by (simp add: json_reply_def)
  have path: "rq_path r = infer_path MODEL"
    using assms untracked by (auto simp: v2_post_def run_retP split: if_splits)
  have "\<exists>b. v2_body r = Inr (Body b)"
  proof (cases "v2_body r")
    case (Inl e)
    with assms untracked path show ?thesis by (auto simp: v2_post_def run_retP run_raiseP split: if_splits)
  next
    case (Inr c)
    show ?thesis
    proof (cases c)
      case (Answer x)
      with Inr have "re_track x = None" using v2_body_answer by simp
      with assms path Inr Answer show ?thesis by (auto simp: v2_post_def run_retP)
    qed (use Inr in simp)
  qed
  then obtain b where b: "v2_body r = Inr (Body b)" by blast
  obtain tr ro1 w2 where choice: "choose_route clock ro w = (Inr (tr, ro1), w2)" and
    rest: "(case (tr, Option.bind tr addresses) of
              (Some t, Some base) \<Rightarrow>
                bindP (forward opener base t b (or_json (rq_content_type r)))
                  (\<lambda>a. retP (a\<lparr>re_track := Some t\<rparr>, ro1))
            | _ \<Rightarrow> retP (json_reply 503 (error_body ''release_state_unavailable''), ro1)) w2 = (Inr (a, ro'), w')"
    using assms(1) path b by (auto simp: v2_post_def bindP_Inr_iff)
  obtain base where tr: "tr = Some t" "addresses t = Some base"
    using rest assms(2) untracked
    by (cases tr; cases "Option.bind tr addresses") (auto simp: run_retP bindP_Inr_iff)
  from choose_route_Some [OF choice [unfolded tr]] obtain st where
    st: "routing_status clock ro w = (Inr st, w2)" "rs_ready st" "t = choose_track (ro_sequence ro) (rs_weight st)" by blast
  from st(1,2) show ?thesis
    by (rule routing_status_ready) (use st(3) tr path b in auto)
qed

section \<open>Bounds\<close>

lemma error_body_short:
  "length (error_body ''response_too_large'') < 100" "length (error_body ''backend_unavailable'') < 100"
  by code_simp+

text \<open>
  Bounded replies: whatever the backend answers, a reply of the proxy to a forwarded request
  carries at most one MiB; a longer answer and a failing transport become a 502.
\<close>
theorem forward_bounded:
  assumes "forward opener base lane body content_type w = (Inr a, w')"
  shows "int (length (re_body a)) \<le> MAX_BODY"
proof -
  obtain out w1 where out: "opener (base @ infer_path (lane_service lane)) body content_type w = (out, w1)" by fastforce
  have "re_body a = error_body ''response_too_large'' \<or> re_body a = error_body ''backend_unavailable''
      \<or> int (length (re_body a)) \<le> MAX_BODY"
  proof (cases out)
    case (Inl e)
    with assms out show ?thesis
      by (auto simp: forward_def run_attemptP run_retP run_raiseP json_reply_def split: if_splits)
  next
    case (Inr o')
    define h where "h = (case o' of Opened h \<Rightarrow> h | ErrorStatus h \<Rightarrow> h)"
    have "(if int (length (take (nat MAX_BODY + 1) (hr_body h))) > MAX_BODY
           then retP (json_reply 502 (error_body ''response_too_large''))
           else retP \<lparr>re_status = hr_status h, re_body = take (nat MAX_BODY + 1) (hr_body h),
             re_kind = or_json (hr_content_type h), re_track = None\<rparr>) w1 = (Inr a, w')"
      using assms out Inr unfolding forward_def run_attemptP h_def Let_def by simp
    then show ?thesis
      by (cases "int (length (take (nat MAX_BODY + 1) (hr_body h))) > MAX_BODY") (auto simp only: run_retP json_reply_def
          if_True if_False prod.inject sum.inject reply.simps not_less)
  qed
  then show ?thesis using error_body_short by auto
qed

text \<open>
  C24 (refreshing the router). A round of the synchronisation never raises. Either it leaves the
  addresses and the state as they were, so that the state keeps growing older, or it replaces both,
  and then the new state has a stable pair whose lane has an internal address.
\<close>
theorem sync_keeps_or_replaces:
  "\<exists>new w'. sync_once clock get read_state old w = (Inr new, w')
    \<and> (new = old \<or> (\<exists>s u v x. read_state u = (Inr s, v) \<and> st_stable s \<noteq> None \<and> fst new Stable \<noteq> None
         \<and> routing_set clock (view_v2 s) (snd old) v = (Inr (snd new), x)))"
proof -
  let ?m = "bindP (discover get Stable Map.empty) (\<lambda>d1.
        bindP (discover get Canary d1) (\<lambda>d2.
        bindP read_state (\<lambda>s.
          if st_stable s = None \<or> d2 Stable = None then raiseP (ValueError ''Stable baseline unavailable'')
          else bindP (routing_set clock (view_v2 s) (snd old)) (\<lambda>r. retP (d2, r)))))"
  obtain r w' where run: "?m w = (r, w')" by fastforce
  show ?thesis
  proof (cases r)
    case (Inl e)
    with run show ?thesis by (simp add: sync_once_def run_catchP run_retP)
  next
    case (Inr new)
    with run have "\<exists>u s v d2 ro x. read_state u = (Inr s, v) \<and> st_stable s \<noteq> None \<and> d2 Stable \<noteq> None
      \<and> routing_set clock (view_v2 s) (snd old) v = (Inr ro, x) \<and> new = (d2, ro)"
      by (auto simp: bindP_Inr_iff run_retP run_raiseP split: if_splits) blast
    moreover have "sync_once clock get read_state old w = (Inr new, w')"
      using run Inr by (simp add: sync_once_def run_catchP)
    ultimately show ?thesis by (metis fst_conv snd_conv)
  qed
qed

section \<open>Witnesses\<close>

lemma canary_share_exact_witness: "int (canary_count 25 7) = 7 * 25 div 100 \<and> int (canary_count 25 107) = 1 + 25"
  using canary_share_exact [of 25 7] by simp

definition fresh_routing :: routing where
  "fresh_routing = \<lparr>ro_state = Some \<lparr>rv_weight = 100, rv_revision = 1, rv_active = True, rv_lease_until = Some 20\<rparr>,
     ro_updated = 5, ro_sequence = 0, ro_revision = 1\<rparr>"

definition infer_request :: request where
  "infer_request = \<lparr>rq_path = infer_path MODEL, rq_content_length = Some ''2'', rq_transfer_encoding = None,
     rq_content_type = None, rq_body = Inr ''{}''\<rparr>"

definition sample_opener :: "string \<Rightarrow> string \<Rightarrow> string \<Rightarrow> (unit, opened) prog" where
  "sample_opener _ _ _ = retP (Opened \<lparr>hr_status = 200, hr_body = ''ok'', hr_content_type = None\<rparr>)"

lemma sample_forward:
  "forward sample_opener ''http://c'' Canary ''{}'' ''application/json'' ()
     = (Inr \<lparr>re_status = 200, re_body = ''ok'', re_kind = ''application/json'', re_track = None\<rparr>, ())"
  by (simp add: forward_def run_attemptP sample_opener_def run_retP or_json_def)

lemma forward_bounded_witness: "int (length ''ok'') \<le> MAX_BODY"
  using forward_bounded [OF sample_forward] by simp

lemma sample_v2_post:
  "v2_post (retP 10) sample_opener [Canary \<mapsto> ''http://c''] infer_request fresh_routing ()
     = (Inr (\<lparr>re_status = 200, re_body = ''ok'', re_kind = ''application/json'', re_track = Some Canary\<rparr>,
          fresh_routing\<lparr>ro_sequence := 1\<rparr>), ())"
proof -
  have "body_size infer_request = Inr 2" by code_simp
  then have "v2_body infer_request = Inr (Body ''{}'')"
    by (simp add: v2_body_def read_body_def infer_request_def)
  moreover have "or_json (rq_content_type infer_request) = ''application/json''" "rq_path infer_request = infer_path MODEL"
    by (simp_all add: infer_request_def or_json_def)
  moreover have "choose_route (retP 10) fresh_routing () = (Inr (Some Canary, fresh_routing\<lparr>ro_sequence := 1\<rparr>), ())"
    by (simp add: choose_route_def routing_status_def fresh_routing_def run_bindP run_retP choose_track_def)
  ultimately show ?thesis by (simp add: v2_post_def run_bindP run_retP sample_forward)
qed

lemma forwards_only_fresh_witness:
  "\<exists>v. ro_state fresh_routing = Some v \<and> Canary = choose_track (ro_sequence fresh_routing) (rv_weight v)"
  using forwards_only_fresh [OF sample_v2_post, of Canary] by auto

end
