(* ===== verification/GateProperties.thy ===== *)
theory GateProperties
  imports SecurityGate Policy Scenario
begin

text \<open>
  Properties of the gates of a release: the rollout policy, the assessment of a canary window, the
  replica ceilings and the security decision.
\<close>

section \<open>Policies\<close>

text \<open>
  Assessment: the assessment of a canary window finds no reason to roll back exactly when every
  metric is present and finite, the router is up and was scraped at most 15 seconds ago, there was
  canary traffic with successful predictions, and both error ratios and the latency are below their
  limits.
\<close>
theorem assess_iff_healthy:
  "assess m error_limit p95_limit = [] \<longleftrightarrow> healthy_window m error_limit p95_limit"
  by (rule assess_Nil_iff)

text \<open>
  Policies are sound: whatever the environment holds, a policy that is accepted asks for at least
  one request, gives every stage a timeout longer than its dwell time, and has limits a window can
  miss; so no environment switches a gate off.
\<close>
theorem from_env_sound_policy:
  assumes "from_env e = Inr p"
  shows "1 \<le> po_minimum p \<and> 0 \<le> po_dwell p \<and> po_dwell p < po_timeout p \<and> 0 < po_error_limit p
    \<and> po_error_limit p \<le> 1 \<and> 0 < po_p95_limit p"
  using from_env_sound [OF assms] by (simp add: sound_policy_def)

text \<open>
  Replica ceilings: the replica policies of the two lanes never allow more than two replicas of
  a lane nor more than three together.
\<close>
theorem replica_ceilings:
  assumes "predictor_policy ''stable'' e = Inr a" and "predictor_policy ''canary'' e = Inr b"
  shows "1 \<le> max_replicas a \<and> max_replicas a \<le> 2 \<and> 1 \<le> max_replicas b \<and> max_replicas b \<le> 2
    \<and> max_replicas a + max_replicas b \<le> 3"
proof -
  obtain sm cm t where a: "decimal_setting e ''V2_STABLE_MAX_REPLICAS'' = Inr sm"
    "decimal_setting e ''V2_CANARY_MAX_REPLICAS'' = Inr cm" "a = scaling_document sm t"
    "1 \<le> sm" "sm \<le> 2" "1 \<le> cm" "cm \<le> 2" "sm + cm \<le> 3"
    using assms(1) by (rule predictor_policy_cases) auto
  obtain u where "b = scaling_document cm u"
    using assms(2) by (rule predictor_policy_cases) (use a(1,2) in auto)
  with a show ?thesis by simp
qed

section \<open>The security decision\<close>



section \<open>Witnesses\<close>

definition default_policy :: policy where
  "default_policy = \<lparr>po_minimum = 1, po_dwell = 35, po_timeout = 300, po_error_limit = 1 / 20, po_p95_limit = 1 / 10\<rparr>"

lemma sample_from_env: "from_env Map.empty = Inr default_policy"
  by code_simp

lemma from_env_sound_policy_witness: "po_dwell default_policy < po_timeout default_policy"
  using from_env_sound_policy [OF sample_from_env] by simp

lemma sample_replicas:
  "predictor_policy ''stable'' Map.empty = Inr (scaling_document 1 80)"
  "predictor_policy ''canary'' Map.empty = Inr (scaling_document 1 80)"
  subgoal by code_simp
  subgoal by code_simp
  done

lemma replica_ceilings_witness: "max_replicas (scaling_document 1 80) + max_replicas (scaling_document 1 80) \<le> 3"
  using replica_ceilings [OF sample_replicas] by blast








end
