(* ===== verification/StateReader.thy ===== *)
theory StateReader
  imports ReleaseStore Policy
begin

text \<open>
  The read path of the release jobs: \<open>control_plane/oidc_eks_reader.py\<close> and the credential checks of
  \<open>control_plane/authorization_backend.py\<close>. A job with temporary AWS credentials proves its identity,
  reads the release state once from the cluster and writes a snapshot file; later jobs read the file
  and get a read-only store over it. STS, EKS, request signing, base64 and the resolution of paths are
  parameters; the printed progress lines are left out.
\<close>

section \<open>The identity of the reader\<close>

definition ACCOUNT :: string where
  "ACCOUNT = ''596432515999''"

definition REGION :: string where
  "REGION = ''ap-southeast-1''"

definition CLUSTER_NAME :: string where
  "CLUSTER_NAME = ''ml-template-dev-sg''"

definition CLUSTER_ARN :: string where
  "CLUSTER_ARN = ''arn:aws:eks:'' @ REGION @ '':'' @ ACCOUNT @ '':cluster/'' @ CLUSTER_NAME"

definition ROLE_NAME :: string where
  "ROLE_NAME = ''ml-template-v2-k8s-reader''"

definition ROLE_ARN :: string where
  "ROLE_ARN = ''arn:aws:iam::'' @ ACCOUNT @ '':role/'' @ ROLE_NAME"

definition READER_NAMESPACE :: string where
  "READER_NAMESPACE = ''production''"

definition rx_assumed_role :: "string \<Rightarrow> bool" where
  "rx_assumed_role s \<longleftrightarrow>
     (let role = ''arn:aws:sts::'' @ ACCOUNT @ '':assumed-role/'' @ ROLE_NAME @ ''/''
      in starts_with role s \<and> rx_chars 1 128 (\<lambda>c. alnum c \<or> c \<in> set ''+=,.@_-'') (drop (length role) s))"

definition assumed_role :: "json \<Rightarrow> bool res" where
  "assumed_role arn = (case arn of JStr s \<Rightarrow> Inr (rx_assumed_role s) | _ \<Rightarrow> Inl (TypeError ''expected string''))"

text \<open>What STS answers is a dict.\<close>

definition verify_identity :: "json \<Rightarrow> json res" where
  "verify_identity caller =
     bindR (requireR (jhas ''Account'' caller \<and> jhas ''Arn'' caller) (ValueError ''Malformed STS identity'')) (\<lambda>_.
     bindR (jget ''Account'' caller) (\<lambda>account.
     bindR (if py_eq account (JStr ACCOUNT) then bindR (jget ''Arn'' caller) assumed_role else Inr False) (\<lambda>ok.
     bindR (requireR ok (ValueError ''Unexpected Kubernetes Reader identity'')) (\<lambda>_. Inr caller))))"

definition eks_endpoint :: "string \<Rightarrow> bool res" where
  "eks_endpoint endpoint =
     bindR (urlsplit endpoint) (\<lambda>u. Inr
       (u_scheme u = ''https'' \<and> hostname u \<noteq> [] \<and> ends_with ''.eks.amazonaws.com'' (hostname u)
        \<and> (u_path u = [] \<or> u_path u = ''/'') \<and> username u = [] \<and> password u = [] \<and> u_query u = [] \<and> u_fragment u = []))"

definition cluster_metadata :: "(string \<Rightarrow> string option) \<Rightarrow> json \<Rightarrow> (string \<times> string) res" where
  "cluster_metadata b64decode response =
     bindR (if is_dict response then jget_or ''cluster'' JNull response else Inr JNull) (\<lambda>cluster.
     bindR (requireR (is_dict cluster) (ValueError ''Malformed EKS cluster metadata'')) (\<lambda>_.
     bindR (jget_or ''name'' JNull cluster) (\<lambda>name. bindR (jget_or ''arn'' JNull cluster) (\<lambda>arn.
     bindR (requireR (name = JStr CLUSTER_NAME \<and> arn = JStr CLUSTER_ARN) (ValueError ''Unexpected EKS cluster identity'')) (\<lambda>_.
     bindR (jget_or ''status'' JNull cluster) (\<lambda>status.
     bindR (requireR (status = JStr ''ACTIVE'') (ValueError ''EKS cluster is not ACTIVE'')) (\<lambda>_.
     bindR (jget_or ''endpoint'' JNull cluster) (\<lambda>endpoint.
     bindR (jget_or ''certificateAuthority'' (JObj []) cluster) (\<lambda>authority. bindR (jget_or ''data'' JNull authority) (\<lambda>ca.
     bindR (requireR (is_str endpoint \<and> is_str ca) (ValueError ''Incomplete EKS cluster metadata'')) (\<lambda>_.
     bindR (eks_endpoint (str_of endpoint)) (\<lambda>trusted.
     bindR (requireR trusted (ValueError ''Unexpected EKS API endpoint'')) (\<lambda>_.
     bindR (requireR (b64decode (str_of ca) \<noteq> None) (ValueError ''Invalid EKS certificate authority'')) (\<lambda>_.
       Inr (str_of endpoint, str_of ca)))))))))))))))"

text \<open>
  An AWS session. \<open>as_credentials\<close> gives the frozen access key, secret key and session token; \<open>as_sign\<close>
  the presigned URL of the caller identity for the cluster, \<open>as_b64url\<close> its base64 text.
\<close>

record 'w aws_session =
  as_env :: env
  as_caller :: "('w, json) prog"
  as_cluster :: "('w, json) prog"
  as_credentials :: "('w, (string \<times> string \<times> string) option) prog"
  as_sign :: "string \<times> string \<times> string \<Rightarrow> string \<Rightarrow> ('w, string) prog"
  as_b64url :: "string \<Rightarrow> string"
  as_b64decode :: "string \<Rightarrow> string option"

definition token_url :: string where
  "token_url = ''https://sts.'' @ REGION @ ''.amazonaws.com/?Action=GetCallerIdentity&Version=2011-06-15''"

definition eks_token :: "'w aws_session \<Rightarrow> ('w, string) prog" where
  "eks_token S =
     bindP (as_credentials S) (\<lambda>c.
       case c of
         None \<Rightarrow> raiseP (ValueError ''AWS credentials are unavailable'')
       | Some (access, secret, token) \<Rightarrow>
           if access = [] \<or> secret = [] \<or> token = []
           then raiseP (ValueError ''Temporary GitHub OIDC credentials required'')
           else bindP (as_sign S (access, secret, token) token_url) (\<lambda>url.
                retP (''k8s-aws-v1.'' @ rstrip_by (\<lambda>c. c = CHR ''='') (as_b64url S url))))"

definition verify_aws_path :: "'w aws_session \<Rightarrow> ('w, json \<times> string \<times> string \<times> string) prog" where
  "verify_aws_path S =
     bindP (liftP (requireR (case as_env S ''AWS_REGION'' of None \<Rightarrow> True | Some r \<Rightarrow> r = REGION)
              (ValueError ''Unexpected AWS region''))) (\<lambda>_.
     bindP (as_caller S) (\<lambda>caller. bindP (liftP (verify_identity caller)) (\<lambda>who.
     bindP (as_cluster S) (\<lambda>response. bindP (liftP (cluster_metadata (as_b64decode S) response)) (\<lambda>(endpoint, ca).
     bindP (eks_token S) (\<lambda>token. retP (who, endpoint, ca, token)))))))"

section \<open>The credential\<close>

definition credential_fields :: "string list" where
  "credential_fields = [''server'', ''certificate_authority_data'', ''token'', ''namespace'', ''state_name'']"

definition api_endpoint :: "json \<Rightarrow> bool res" where
  "api_endpoint server =
     (if \<not> is_str server then Inl (TypeError ''expected string'')
      else bindR (urlsplit (str_of server)) (\<lambda>u. Inr
        (u_scheme u = ''https'' \<and> hostname u \<noteq> [] \<and> username u = [] \<and> password u = [] \<and> u_query u = []
         \<and> u_fragment u = [] \<and> (u_path u = [] \<or> u_path u = ''/''))))"

text \<open>
  \<open>AuthorizationBackend.__init__\<close>: the URL of the one object and the token, or the exception. The
  certificate authority is base64 of the certificates the TLS context trusts.
\<close>

definition open_credential :: "(string \<Rightarrow> string option) \<Rightarrow> json \<Rightarrow> (string \<times> string) res" where
  "open_credential b64decode config =
     bindR (requireR (keys_are credential_fields config) (ValueError ''Unexpected release credential fields'')) (\<lambda>_.
     bindR (jget ''namespace'' config) (\<lambda>ns. bindR (jget ''state_name'' config) (\<lambda>name.
     bindR (requireR (ns = JStr ''production'' \<and> name = JStr STATE_NAME) (ValueError ''Legacy or other state access prohibited'')) (\<lambda>_.
     bindR (jget ''server'' config) (\<lambda>server. bindR (api_endpoint server) (\<lambda>trusted.
     bindR (requireR trusted (ValueError ''TLS Kubernetes endpoint required'')) (\<lambda>_.
     bindR (jget ''certificate_authority_data'' config) (\<lambda>ca.
     bindR (requireR (is_str ca \<and> b64decode (str_of ca) \<noteq> None) (ValueError ''Invalid base64-encoded string'')) (\<lambda>_.
     bindR (jget ''token'' config) (\<lambda>token.
     bindR (requireR (is_str token \<and> strip (str_of token) \<noteq> []) (ValueError ''Missing scoped token'')) (\<lambda>_.
       Inr (rstrip_by (\<lambda>c. c = CHR ''/'') (str_of server)
              @ ''/api/v1/namespaces/production/configmaps/'' @ STATE_NAME, str_of token))))))))))))"

section \<open>Snapshots\<close>

text \<open>A snapshot document: its entries apart from the state, and the state.\<close>

record state_snapshot =
  sn_header :: "(string \<times> json) list"
  sn_state :: release_state

definition snapshot_source :: json where
  "snapshot_source = JObj [(''account'', JStr ACCOUNT), (''role_arn'', JStr ROLE_ARN), (''cluster_arn'', JStr CLUSTER_ARN)]"

definition header_fields :: "string list" where
  "header_fields = [''schema_version'', ''source'', ''namespace'', ''state_name'', ''resource_version'', ''created_at'']"

text \<open>\<open>int(x)\<close> of a float.\<close>

definition py_trunc :: "rat \<Rightarrow> int" where
  "py_trunc r = (if r < 0 then - \<lfloor>- r\<rfloor> else \<lfloor>r\<rfloor>)"

definition reader_config :: "string \<Rightarrow> string \<Rightarrow> string \<Rightarrow> json" where
  "reader_config endpoint ca token = JObj
     [(''server'', JStr endpoint), (''certificate_authority_data'', JStr ca), (''token'', JStr token),
      (''namespace'', JStr READER_NAMESPACE), (''state_name'', JStr STATE_NAME)]"

text \<open>\<open>connect\<close> is \<open>backend_cls(config).read_state\<close>.\<close>

definition fetch_snapshot ::
  "pylib \<Rightarrow> 'w aws_session \<Rightarrow> (json \<Rightarrow> ('w, string \<times> release_state) prog) \<Rightarrow> ('w, rat) prog
    \<Rightarrow> ('w, state_snapshot) prog" where
  "fetch_snapshot L S connect clock =
     bindP (verify_aws_path S) (\<lambda>(who, endpoint, ca, token).
     bindP (connect (reader_config endpoint ca token)) (\<lambda>(revision, s).
     bindP (liftP (validate L s)) (\<lambda>_.
     bindP (liftP (jget ''Account'' who)) (\<lambda>account.
     bindP clock (\<lambda>now. retP
       \<lparr>sn_header =
          [(''schema_version'', JInt 1),
           (''source'', JObj [(''account'', account), (''role_arn'', JStr ROLE_ARN), (''cluster_arn'', JStr CLUSTER_ARN)]),
           (''namespace'', JStr READER_NAMESPACE), (''state_name'', JStr STATE_NAME),
           (''resource_version'', JStr revision), (''created_at'', JInt (py_trunc now))],
        sn_state = s\<rparr>)))))"

subsection \<open>Paths\<close>

record path =
  pa_absolute :: bool
  pa_parts :: "string list"

definition path_of :: "string \<Rightarrow> path" where
  "path_of s =
     \<lparr>pa_absolute = starts_with ''/'' s, pa_parts = filter (\<lambda>p. p \<noteq> [] \<and> p \<noteq> ''.'') (split_on (CHR ''/'') s)\<rparr>"

definition parent :: "path \<Rightarrow> path" where
  "parent p = p\<lparr>pa_parts := butlast (pa_parts p)\<rparr>"

text \<open>\<open>root in p.parents\<close>.\<close>

definition below :: "path \<Rightarrow> path \<Rightarrow> bool" where
  "below base_dir p \<longleftrightarrow> pa_absolute base_dir = pa_absolute p \<and> strict_prefix (pa_parts base_dir) (pa_parts p)"

text \<open>
  A file: a regular file with a snapshot, a regular file with other content, which has a size and
  raises when it is read as a snapshot, a symbolic link, or anything else. The host has files and the
  outside world; \<open>ho_resolve\<close> resolves the links of a path.
\<close>

datatype entry = Snapshot_File state_snapshot | Foreign_File nat exn | Link | Special

record 'w host =
  ho_world :: 'w
  ho_files :: "path \<rightharpoonup> entry"

record 'w reader =
  rd_lib :: pylib
  rd_env :: env
  rd_clock :: "('w, rat) prog"
  rd_resolve :: "path \<Rightarrow> bool \<Rightarrow> (path \<rightharpoonup> entry) \<Rightarrow> path res"

definition on_host :: "('w, 'a) prog \<Rightarrow> ('w host, 'a) prog" where
  "on_host m = (\<lambda>h. case m (ho_world h) of (r, w) \<Rightarrow> (r, h\<lparr>ho_world := w\<rparr>))"

definition file_at :: "path \<Rightarrow> ('w host, entry option) prog" where
  "file_at p = (\<lambda>h. (Inr (ho_files h p), h))"

definition resolve :: "'w reader \<Rightarrow> path \<Rightarrow> bool \<Rightarrow> ('w host, path) prog" where
  "resolve R p strict = (\<lambda>h. (rd_resolve R p strict (ho_files h), h))"

definition store_file :: "path \<Rightarrow> entry \<Rightarrow> ('w host, unit) prog" where
  "store_file p e = (\<lambda>h. (Inr (), h\<lparr>ho_files := (ho_files h)(p \<mapsto> e)\<rparr>))"

definition safe_snapshot_path :: "'w reader \<Rightarrow> string \<Rightarrow> ('w host, path) prog" where
  "safe_snapshot_path R s =
     (let base = (case rd_env R ''RUNNER_TEMP'' of Some v \<Rightarrow> v | None \<Rightarrow> []); candidate = path_of s
      in bindP (liftP (requireR (base \<noteq> []) (ValueError ''RUNNER_TEMP is required''))) (\<lambda>_.
         bindP (resolve R (path_of base) True) (\<lambda>base_dir.
         bindP (liftP (requireR (pa_absolute candidate) (ValueError ''Snapshot path must be absolute''))) (\<lambda>_.
         bindP (resolve R (parent candidate) True) (\<lambda>resolved.
         bindP (liftP (requireR (resolved = base_dir \<or> below base_dir resolved)
                  (ValueError ''Snapshot path must remain under RUNNER_TEMP''))) (\<lambda>_.
         bindP (file_at candidate) (\<lambda>found.
           case found of
             None \<Rightarrow> retP candidate
           | Some e \<Rightarrow>
               bindP (if e = Link then retP False
                      else bindP (resolve R candidate False) (\<lambda>p. retP (parent p = resolved))) (\<lambda>ok.
               bindP (liftP (requireR ok (ValueError ''Unsafe snapshot path''))) (\<lambda>_. retP candidate)))))))))"

definition payload_length :: "pylib \<Rightarrow> state_snapshot \<Rightarrow> nat" where
  "payload_length L n = length (canonical_dumps L (JObj (sn_header n @ [(''state'', state_json (sn_state n))]))) + 1"

text \<open>\<open>write_snapshot\<close> with \<open>O_NOFOLLOW\<close>; an existing regular file is replaced.\<close>

definition write_snapshot :: "'w reader \<Rightarrow> string \<Rightarrow> state_snapshot \<Rightarrow> ('w host, unit) prog" where
  "write_snapshot R s n =
     bindP (safe_snapshot_path R s) (\<lambda>target.
     bindP (liftP (requireR (int (payload_length (rd_lib R) n) \<le> 600000) (ValueError ''Release state snapshot exceeds bound''))) (\<lambda>_.
     bindP (file_at target) (\<lambda>found.
       case found of
         Some Link \<Rightarrow> raiseP (OtherError ''OSError'')
       | Some Special \<Rightarrow> raiseP (OtherError ''OSError'')
       | _ \<Rightarrow> store_file target (Snapshot_File n))))"

definition check_header :: "state_snapshot \<Rightarrow> unit res" where
  "check_header n =
     (let h = JObj (sn_header n)
      in bindR (requireR (keys_are header_fields h) (ValueError ''Invalid release state snapshot contract'')) (\<lambda>_.
         bindR (jget ''schema_version'' h) (\<lambda>sv. bindR (jget ''source'' h) (\<lambda>src.
         bindR (requireR (py_eq sv (JInt 1) \<and> py_eq src snapshot_source) (ValueError ''Unexpected release state snapshot source'')) (\<lambda>_.
         bindR (jget ''namespace'' h) (\<lambda>ns. bindR (jget ''state_name'' h) (\<lambda>name.
         bindR (requireR (ns = JStr READER_NAMESPACE \<and> name = JStr STATE_NAME) (ValueError ''Unexpected release state snapshot target'')) (\<lambda>_.
         bindR (jget ''resource_version'' h) (\<lambda>rv.
           requireR (is_str rv \<and> 1 \<le> length (str_of rv) \<and> length (str_of rv) \<le> 128)
             (ValueError ''Invalid release state resourceVersion''))))))))))"

definition fresh_snapshot :: "rat \<Rightarrow> state_snapshot \<Rightarrow> unit res" where
  "fresh_snapshot now n =
     bindR (jget ''created_at'' (JObj (sn_header n))) (\<lambda>created.
       requireR (case created of JInt t \<Rightarrow> py_trunc now - 300 \<le> t \<and> t \<le> py_trunc now + 30 | _ \<Rightarrow> False)
         (ValueError ''Expired release state snapshot''))"

definition entry_size :: "pylib \<Rightarrow> entry \<Rightarrow> int option" where
  "entry_size L e =
     (case e of Snapshot_File n \<Rightarrow> Some (int (payload_length L n)) | Foreign_File k _ \<Rightarrow> Some (int k) | _ \<Rightarrow> None)"

definition read_snapshot :: "'w reader \<Rightarrow> string option \<Rightarrow> ('w host, state_snapshot) prog" where
  "read_snapshot R path =
     (let s = (case path of
                 Some p \<Rightarrow> if p \<noteq> [] then p else (case rd_env R ''RELEASE_STATE_READER_SNAPSHOT'' of Some v \<Rightarrow> v | None \<Rightarrow> [])
               | None \<Rightarrow> (case rd_env R ''RELEASE_STATE_READER_SNAPSHOT'' of Some v \<Rightarrow> v | None \<Rightarrow> []))
      in bindP (safe_snapshot_path R s) (\<lambda>target.
         bindP (file_at target) (\<lambda>found.
           case found of
             None \<Rightarrow> raiseP (OtherError ''FileNotFoundError'')
           | Some e \<Rightarrow>
               bindP (liftP (requireR (case entry_size (rd_lib R) e of Some k \<Rightarrow> k \<le> 600000 | None \<Rightarrow> False)
                        (ValueError ''Invalid release state snapshot file''))) (\<lambda>_.
               case e of
                 Snapshot_File n \<Rightarrow>
                   bindP (liftP (check_header n)) (\<lambda>_. bindP (on_host (rd_clock R)) (\<lambda>now.
                   bindP (liftP (fresh_snapshot now n)) (\<lambda>_. bindP (liftP (validate (rd_lib R) (sn_state n))) (\<lambda>_. retP n))))
               | Foreign_File _ x \<Rightarrow> raiseP x
               | _ \<Rightarrow> raiseP (OtherError ''OSError'')))))"

definition snapshot_revision :: "state_snapshot \<Rightarrow> string" where
  "snapshot_revision n = (case map_of (sn_header n) ''resource_version'' of Some (JStr r) \<Rightarrow> r | _ \<Rightarrow> [])"

definition snapshot_store :: "'w reader \<Rightarrow> string option \<Rightarrow> ('w host, ('v, string, release_state) backend) prog" where
  "snapshot_store R path =
     bindP (read_snapshot R path) (\<lambda>n. retP (snapshot_backend (snapshot_revision n) (sn_state n)))"

datatype reader_mode = Output string | Verify_Only

text \<open>\<open>main\<close>: every exception becomes one message.\<close>

definition reader_main ::
  "'w reader \<Rightarrow> 'w aws_session \<Rightarrow> (json \<Rightarrow> ('w, string \<times> release_state) prog) \<Rightarrow> reader_mode \<Rightarrow> ('w host, unit) prog" where
  "reader_main R S connect mode =
     catchP
       (case mode of
          Verify_Only \<Rightarrow> bindP (on_host (verify_aws_path S)) (\<lambda>_. retP ())
        | Output p \<Rightarrow> bindP (on_host (fetch_snapshot (rd_lib R) S connect (rd_clock R))) (write_snapshot R p))
       (\<lambda>_. raiseP (OtherError ''OIDC_EKS_RELEASE_STATE_READ_FAILED''))"

end
