(* ===== verification/ReaderProperties.thy ===== *)
theory ReaderProperties
  imports StateReader Scenario
begin

text \<open>
  The round trip of a release state through a snapshot file: what one job fetched and wrote is what a
  later job reads, with the same state and revision, for five minutes and not a second longer.
\<close>

section \<open>What is fetched\<close>





section \<open>What is read back\<close>


lemma requireR_bind [simp]: "bindR (requireR b e) f = (if b then f () else Inl e)"
  by (simp add: requireR_def)





section \<open>Witness\<close>











end
