(* ===== verification/RuntimeCi.thy ===== *)
theory RuntimeCi
  imports BuildTrigger SecurityGate
begin

text \<open>
  The runtime pipeline: \<open>scripts/runtime_ci.py\<close> and \<open>scripts/runtime_ci_publish.py\<close>. A build request
  becomes a build context; the image built from it is published in the catalog only after the scan
  of its archive passes the security gate again and the registry serves exactly the scanned image.
  Files, the waiver document, the clock, Docker and ECR are programs; a tar archive is the map from
  its members to their bytes.
\<close>

section \<open>Requests and build contexts\<close>

record 'w runtime_ci =
  ci_lib :: pylib
  ci_loads :: "string \<Rightarrow> json option"
  ci_isoformat :: "rat \<Rightarrow> string"
  ci_env :: env
  ci_ecr :: "'w ecr"
  ci_waivers :: "('w, json) prog"
  ci_clock :: "('w, rat) prog"

definition decode_json :: "(string \<Rightarrow> json option) \<Rightarrow> string \<Rightarrow> json res" where
  "decode_json loads s = (case loads s of Some v \<Rightarrow> Inr v | None \<Rightarrow> Inl (ValueError ''JSONDecodeError''))"

definition reviewed_recipe :: "pylib \<Rightarrow> json \<Rightarrow> (artifact_contract \<times> runtime_profile) res" where
  "reviewed_recipe L data =
     bindR (validate_request L data) (\<lambda>(contract, profile).
     bindR (requireR (profile = RUNTIME_CI_V2 \<and> ac_python_version contract = ''3.12.14'')
              (ValueError ''No reviewed recipe for this Python/profile'')) (\<lambda>_.
       Inr (contract, profile)))"

definition read_request :: "pylib \<Rightarrow> (string \<Rightarrow> json option) \<Rightarrow> string \<Rightarrow> json res" where
  "read_request L loads raw =
     bindR (requireR (int (length raw) \<le> 65536) (ValueError ''Request too large'')) (\<lambda>_.
     bindR (decode_json loads raw) (\<lambda>data.
     bindR (reviewed_recipe L data) (\<lambda>_. Inr data)))"

text \<open>\<open>dict(x.split("==") for x in requirements)\<close>: more than two parts do not make an entry.\<close>

definition pin_entry :: "string \<Rightarrow> (string \<times> string) res" where
  "pin_entry r =
     (case split_pin r of
        Some (a, b) \<Rightarrow> if split_pin b = None then Inr (a, b) else Inl (ValueError ''dictionary update sequence'')
      | None \<Rightarrow> Inl (ValueError ''dictionary update sequence''))"

definition assign :: "string \<Rightarrow> 'a \<Rightarrow> (string \<times> 'a) list \<Rightarrow> (string \<times> 'a) list" where
  "assign k v kvs = filter (\<lambda>p. fst p \<noteq> k) kvs @ [(k, v)]"

definition pin_table :: "string list \<Rightarrow> (string \<times> string) list res" where
  "pin_table reqs = bindR (mapR pin_entry reqs) (\<lambda>ps. Inr (fold (\<lambda>(k, v). assign k v) ps []))"

definition serving_pin :: "string \<times> string \<Rightarrow> (string \<times> string) list \<Rightarrow> (string \<times> string) list res" where
  "serving_pin p pins =
     (case map_of pins (fst p) of
        Some v \<Rightarrow> if v \<noteq> snd p then Inl (ValueError ''Serving dependency conflict'') else Inr (assign (fst p) (snd p) pins)
      | None \<Rightarrow> Inr (assign (fst p) (snd p) pins))"

definition all_pins :: "artifact_contract \<Rightarrow> runtime_profile \<Rightarrow> (string \<times> string) list res" where
  "all_pins contract profile =
     bindR (pin_table (ac_requirements contract)) (\<lambda>pins.
     bindR (requireR ({''mlflow'', ''scikit-learn'', ''skops''} \<subseteq> fst ` set pins)
              (ValueError ''Unsupported model loader contract'')) (\<lambda>_.
       foldR serving_pin
         [(''mlserver'', rp_mlserver_version profile), (''mlserver-mlflow'', rp_mlserver_mlflow_version profile)] pins))"

definition newline :: string where
  "newline = [char_of (10 :: nat)]"

definition requirement_file :: "(string \<times> string) list \<Rightarrow> string" where
  "requirement_file pins = concat (map (\<lambda>p. pin_text p @ newline) (sort_key fst pins))"

definition dockerignore :: string where
  "dockerignore = concat (map (\<lambda>l. l @ newline) [''**'', ''!Dockerfile'', ''!requirements.txt'', ''!request.json''])"

text \<open>
  \<open>prepare\<close>: the directory is \<open>None\<close> when it does not exist, otherwise the map of its files. The
  keys of the pins are distinct, so sorting the items is sorting by name.
\<close>

definition prepare_context ::
  "pylib \<Rightarrow> string \<Rightarrow> json \<Rightarrow> (string \<rightharpoonup> string) option \<Rightarrow> (string \<rightharpoonup> string) res" where
  "prepare_context L dockerfile data dir =
     bindR (reviewed_recipe L data) (\<lambda>(contract, profile).
     bindR (all_pins contract profile) (\<lambda>pins.
     bindR (requireR (case dir of None \<Rightarrow> True | Some d \<Rightarrow> d = Map.empty) (ValueError ''Build context must be empty'')) (\<lambda>_.
       Inr [''requirements.txt'' \<mapsto> requirement_file pins, ''request.json'' \<mapsto> plain_dumps L (sort_keys data),
            ''Dockerfile'' \<mapsto> dockerfile, ''.dockerignore'' \<mapsto> dockerignore])))"

section \<open>The gate\<close>

text \<open>
  \<open>require_clean_scan\<close>: the document of the waivers is read first, then the clock. The message of a
  failure lists the errors, whose texts a decision does not keep, or the kinds of remediation.
\<close>

definition gate_message :: "scan_decision \<Rightarrow> string" where
  "gate_message d = ''Security gate failed: '' @
     join '', '' (if sd_errors d \<noteq> [] then map exn_name (sd_errors d) else map fst (sd_remediation d))"

definition require_clean_scan :: "'w runtime_ci \<Rightarrow> json \<Rightarrow> json \<Rightarrow> ('w, scan_decision) prog" where
  "require_clean_scan J report request =
     bindP (ci_waivers J) (\<lambda>ws. bindP (ci_clock J) (\<lambda>now.
     bindP (liftP (evaluate_scan (ci_lib J) (ci_isoformat J) report request ws (Some now))) (\<lambda>d.
     bindP (liftP (requireR (sd_pass d) (ValueError (gate_message d)))) (\<lambda>_. retP d))))"

section \<open>The image in the registry\<close>

text \<open>The manifest of the single row of an answer that names the digest.\<close>

definition registry_manifest :: "(string \<Rightarrow> json option) \<Rightarrow> string \<Rightarrow> string \<Rightarrow> json \<Rightarrow> json res" where
  "registry_manifest loads message d answer =
     bindR (jget_or ''images'' (JArr []) answer) (\<lambda>rows.
     bindR (orR
        [get_truthy answer ''failures'', bindR (jlen rows) (\<lambda>n. Inr (n \<noteq> 1)),
         bindR (jnth 0 rows) (\<lambda>row. bindR (jdeep [''imageId'', ''imageDigest''] row) (\<lambda>x. Inr (x \<noteq> JStr d)))]) (\<lambda>bad.
     bindR (requireR (\<not> bad) (ValueError message)) (\<lambda>_.
     bindR (jnth 0 rows) (\<lambda>row. bindR (jget ''imageManifest'' row) (\<lambda>m.
       if is_str m then decode_json loads (str_of m) else Inl (TypeError ''the JSON object must be str''))))))"

definition linux_amd64 :: "json \<Rightarrow> bool res" where
  "linux_amd64 x =
     andR [bindR (jget_or ''platform'' (JObj []) x) (get_eq ''os'' (JStr ''linux'')),
           bindR (jget_or ''platform'' (JObj []) x) (get_eq ''architecture'' (JStr ''amd64''))]"

definition single_variant :: "string \<Rightarrow> json \<Rightarrow> json res" where
  "single_variant message index =
     bindR (jget ''manifests'' index) (\<lambda>ms. bindR (jiter ms) (\<lambda>xs. bindR (filterR linux_amd64 xs) (\<lambda>variants.
       case variants of [x] \<Rightarrow> Inr x | _ \<Rightarrow> Inl (ValueError message))))"

definition text_param :: "json \<Rightarrow> string res" where
  "text_param j = (if is_str j then Inr (str_of j) else Inl (OtherError ''ParamValidationError''))"

text \<open>An index is followed to its only linux/amd64 variant.\<close>

definition platform_manifest :: "'w runtime_ci \<Rightarrow> json \<Rightarrow> ('w, json) prog" where
  "platform_manifest J manifest =
     bindP (liftP (jmember ''manifests'' manifest)) (\<lambda>index.
       if \<not> index then retP manifest
       else bindP (liftP (bindR (single_variant ''Ambiguous platform manifest'' manifest) (\<lambda>v.
                bindR (jget ''digest'' v) text_param))) (\<lambda>d.
            bindP (ec_batch_get_image (ci_ecr J) d) (\<lambda>answer.
              liftP (registry_manifest (ci_loads J) ''Platform manifest unavailable'' d answer))))"

definition scanned_config :: "json \<Rightarrow> json \<Rightarrow> unit res" where
  "scanned_config report manifest =
     bindR (jget_or ''config'' (JObj []) manifest) (\<lambda>c. bindR (jget_or ''digest'' JNull c) (\<lambda>d.
     bindR (jdeep [''Metadata'', ''ImageID''] report) (\<lambda>i.
       requireR (py_eq d i) (ValueError ''Registry image does not match scanned image config''))))"

text \<open>After \<open>runtime_image\<close> there is one \<open>@\<close> only, so \<open>split\<close> gives the rest behind it.\<close>

definition verify_registry_image :: "'w runtime_ci \<Rightarrow> string \<Rightarrow> json \<Rightarrow> ('w, unit) prog" where
  "verify_registry_image J img report =
     bindP (liftP (runtime_image (JStr img))) (\<lambda>_.
     let d = after (CHR ''@'') img
     in bindP (ec_batch_get_image (ci_ecr J) d) (\<lambda>answer.
        bindP (liftP (registry_manifest (ci_loads J) ''Registry identity unavailable'' d answer)) (\<lambda>manifest.
        bindP (platform_manifest J manifest) (\<lambda>final. liftP (scanned_config report final)))))"

section \<open>Publication\<close>

definition publish_scanned :: "'w runtime_ci \<Rightarrow> json \<Rightarrow> string \<Rightarrow> json \<Rightarrow> ('w, string) prog" where
  "publish_scanned J data img report =
     bindP (liftP (validate_request (ci_lib J) data)) (\<lambda>_.
     bindP (require_clean_scan J report data) (\<lambda>_.
     bindP (verify_registry_image J img report) (\<lambda>_.
     bindP (liftP (fingerprint_of data)) (\<lambda>fp.
     bindP (lookup (ci_ecr J) fp) (\<lambda>existing.
       case existing of
         Some x \<Rightarrow> if x \<noteq> img then raiseP (ValueError ''Fingerprint digest conflict'') else retP x
       | None \<Rightarrow> publish (ci_loads J) (ci_ecr J) fp img)))))"

definition short_lived :: "env \<Rightarrow> unit res" where
  "short_lived e =
     requireR (case e ''AWS_SESSION_TOKEN'' of Some t \<Rightarrow> t \<noteq> [] | None \<Rightarrow> False) (ValueError ''Short-lived credentials required'')"

text \<open>The commands of \<open>runtime_ci.main\<close>; \<open>p.error\<close> exits.\<close>

datatype ci_command = Lookup | Publish "string option" "json option"

definition runtime_ci_main :: "'w runtime_ci \<Rightarrow> string \<Rightarrow> ci_command \<Rightarrow> ('w, string option) prog" where
  "runtime_ci_main J raw command =
     bindP (liftP (read_request (ci_lib J) (ci_loads J) raw)) (\<lambda>data.
     bindP (liftP (short_lived (ci_env J))) (\<lambda>_.
       case command of
         Lookup \<Rightarrow> bindP (liftP (fingerprint_of data)) (lookup (ci_ecr J))
       | Publish (Some img) (Some report) \<Rightarrow> bindP (publish_scanned J data img report) (\<lambda>x. retP (Some x))
       | Publish _ _ \<Rightarrow> raiseP (OtherError ''SystemExit'')))"

section \<open>The archive\<close>

type_synonym archive = "string \<rightharpoonup> string"

definition member :: "archive \<Rightarrow> string \<Rightarrow> string res" where
  "member tar name = (case tar name of Some bytes \<Rightarrow> Inr bytes | None \<Rightarrow> Inl (KeyError name))"

definition member_json :: "(string \<Rightarrow> json option) \<Rightarrow> archive \<Rightarrow> string \<Rightarrow> json res" where
  "member_json loads tar name = bindR (member tar name) (decode_json loads)"

definition archive_blob :: "(string \<Rightarrow> json option) \<Rightarrow> archive \<Rightarrow> json \<Rightarrow> json res" where
  "archive_blob loads tar d =
     bindR (digest_match d) (\<lambda>ok. bindR (requireR ok (ValueError ''Invalid blob digest'')) (\<lambda>_.
       member_json loads tar (''blobs/sha256/'' @ drop 7 (str_of d))))"

text \<open>The Docker layout: the digest of the configuration's bytes.\<close>

definition docker_config :: "pylib \<Rightarrow> (string \<Rightarrow> json option) \<Rightarrow> archive \<Rightarrow> json res" where
  "docker_config L loads tar =
     bindR (member_json loads tar ''manifest.json'') (\<lambda>rows. bindR (jlen rows) (\<lambda>n.
     bindR (requireR (n = 1) (ValueError ''Expected one archived runtime'')) (\<lambda>_.
     bindR (jnth 0 rows) (\<lambda>row. bindR (jget ''Config'' row) (\<lambda>c.
     bindR (if is_str c then member tar (str_of c) else Inl (KeyError ''filename'')) (\<lambda>bytes.
       Inr (JStr (''sha256:'' @ lib_sha256 L bytes))))))))"

text \<open>The OCI layout: the configuration named by the single manifest, through an index if there is one.\<close>

definition oci_config :: "(string \<Rightarrow> json option) \<Rightarrow> archive \<Rightarrow> json res" where
  "oci_config loads tar =
     bindR (member_json loads tar ''index.json'') (\<lambda>index.
     bindR (jget ''manifests'' index) (\<lambda>ms. bindR (jlen ms) (\<lambda>n.
     bindR (requireR (n = 1) (ValueError ''Expected one archived image'')) (\<lambda>_.
     bindR (jnth 0 ms) (\<lambda>m. bindR (jget ''digest'' m) (\<lambda>d. bindR (archive_blob loads tar d) (\<lambda>obj.
     bindR (jmember ''manifests'' obj) (\<lambda>nested.
     bindR (if nested then bindR (single_variant ''Expected one linux/amd64 image'' obj) (\<lambda>v.
              bindR (jget ''digest'' v) (archive_blob loads tar)) else Inr obj) (\<lambda>final.
       jdeep [''config'', ''digest''] final)))))))))"

definition archive_config :: "pylib \<Rightarrow> (string \<Rightarrow> json option) \<Rightarrow> archive \<Rightarrow> json res" where
  "archive_config L loads tar =
     (if tar ''manifest.json'' \<noteq> None then docker_config L loads tar else oci_config loads tar)"

section \<open>Publication of the tested archive\<close>

text \<open>\<open>pb_token\<close> is the decoded authorization token; \<open>pb_run\<close> a subprocess with its input.\<close>

record 'w publisher =
  pb_ci :: "'w runtime_ci"
  pb_token :: "('w, string) prog"
  pb_run :: "string list \<Rightarrow> string option \<Rightarrow> ('w, string) prog"

definition rx_candidate_tag :: "string \<Rightarrow> bool" where
  "rx_candidate_tag s \<longleftrightarrow>
     starts_with ''runtime-ci-'' s
     \<and> (let parts = split_on (CHR ''-'') (drop 11 s) in length parts = 2 \<and> list_all (\<lambda>p. p \<noteq> [] \<and> list_all digit p) parts)"

definition loaded_layers :: "(string \<Rightarrow> json option) \<Rightarrow> json \<Rightarrow> string \<Rightarrow> unit res" where
  "loaded_layers loads report inspected =
     bindR (decode_json loads inspected) (\<lambda>j. bindR (jnth 0 j) (\<lambda>image_doc.
     bindR (jdeep [''RootFS'', ''Layers''] image_doc) (\<lambda>layers.
     bindR (jget ''Metadata'' report) (\<lambda>m. bindR (jget_or ''DiffIDs'' JNull m) (\<lambda>ids.
       requireR (py_eq layers ids) (ValueError ''Loaded layers differ from scan''))))))"

definition docker_login :: "'w publisher \<Rightarrow> ('w, unit) prog" where
  "docker_login P =
     bindP (pb_token P) (\<lambda>token.
       if CHR '':'' \<notin> set token then raiseP (ValueError ''not enough values to unpack'')
       else bindP (pb_run P
              [''docker'', ''login'', ''--username'', before (CHR '':'') token, ''--password-stdin'',
               before (CHR ''/'') REPOSITORY] (Some (after (CHR '':'') token))) (\<lambda>_. retP ()))"

definition pushed_image :: "json \<Rightarrow> string res" where
  "pushed_image answer =
     bindR (jget ''imageDetails'' answer) (\<lambda>rows. bindR (jlen rows) (\<lambda>n.
     bindR (requireR (n = 1) (ValueError ''Ambiguous registry response'')) (\<lambda>_.
     bindR (jnth 0 rows) (\<lambda>row. bindR (jget ''imageDigest'' row) (\<lambda>d.
       if is_str d then Inr (REPOSITORY @ ''@'' @ str_of d) else Inl (TypeError ''can only concatenate str''))))))"

definition push_candidate :: "'w publisher \<Rightarrow> string \<Rightarrow> json \<Rightarrow> string \<Rightarrow> ('w, string) prog" where
  "push_candidate P path report tag =
     (let candidate = REPOSITORY @ '':'' @ tag
      in bindP (pb_run P [''docker'', ''load'', ''--input'', path] None) (\<lambda>_.
         bindP (pb_run P [''docker'', ''image'', ''inspect'', ''runtime-ci:candidate''] None) (\<lambda>inspected.
         bindP (liftP (loaded_layers (ci_loads (pb_ci P)) report inspected)) (\<lambda>_.
         bindP (docker_login P) (\<lambda>_.
         bindP (pb_run P [''docker'', ''tag'', ''runtime-ci:candidate'', candidate] None) (\<lambda>_.
         bindP (pb_run P [''docker'', ''push'', candidate] None) (\<lambda>_.
         bindP (ec_describe_images (ci_ecr (pb_ci P)) tag) (\<lambda>answer. liftP (pushed_image answer)))))))))"

datatype publication = REUSED string | PUBLISHED string

definition publish_archive :: "'w publisher \<Rightarrow> string \<Rightarrow> string \<Rightarrow> archive \<Rightarrow> string \<Rightarrow> ('w, publication) prog" where
  "publish_archive P raw path tar scan =
     (let J = pb_ci P
      in bindP (liftP (read_request (ci_lib J) (ci_loads J) raw)) (\<lambda>data.
         bindP (liftP (decode_json (ci_loads J) scan)) (\<lambda>report.
         bindP (require_clean_scan J report data) (\<lambda>_.
         bindP (liftP (bindR (archive_config (ci_lib J) (ci_loads J) tar) (\<lambda>c.
                  bindR (jdeep [''Metadata'', ''ImageID''] report) (\<lambda>i.
                    requireR (py_eq c i) (ValueError ''Scanned archive identity mismatch''))))) (\<lambda>_.
         bindP (liftP (short_lived (ci_env J))) (\<lambda>_.
         bindP (liftP (fingerprint_of data)) (\<lambda>fp.
         bindP (lookup (ci_ecr J) fp) (\<lambda>existing.
           case existing of
             Some x \<Rightarrow> bindP (publish_scanned J data x report) (\<lambda>img. retP (REUSED img))
           | None \<Rightarrow>
               bindP (liftP (case ci_env J ''CANDIDATE_TAG'' of Some t \<Rightarrow> Inr t | None \<Rightarrow> Inl (KeyError ''CANDIDATE_TAG''))) (\<lambda>tag.
               bindP (liftP (requireR (rx_candidate_tag tag) (ValueError ''Invalid candidate tag''))) (\<lambda>_.
               bindP (push_candidate P path report tag) (\<lambda>img.
               bindP (publish_scanned J data img report) (\<lambda>x. retP (PUBLISHED x)))))))))))))"

end
