(* ===== verification/ReleaseV2.thy ===== *)
theory ReleaseV2
  imports ReleaseDeploy RuntimeCi StateReader
begin

text \<open>
  The release job of the second generation: \<open>scripts/release_v2.py\<close>. It never changes serving or
  traffic: \<open>preflight\<close> proves that the latest candidate is eligible and writes its evidence,
  \<open>authorize\<close> proves it again after a human approved the run and stores the authorization,
  \<open>observe\<close> and \<open>summary\<close> report what the durable state shows. The jobs run in the workspace of
  ReleaseDeploy; state stores, the clock, downloads, archives and the protected provenance files are
  programs on the outside world.
\<close>

section \<open>The job\<close>

text \<open>The part of \<open>os.stat_result\<close> the code looks at; \<open>fs_writable\<close> is \<open>st_mode & 0o022\<close>.\<close>

record file_stat =
  fs_uid :: int
  fs_writable :: bool
  fs_link :: bool
  fs_regular :: bool
  fs_size :: int

text \<open>A download without redirections: the bytes, or an error status with its \<open>Location\<close>.\<close>

datatype download = Content string | Refused int "string option"

text \<open>
  \<open>rv_store\<close> is \<open>state_store\<close>: the backend over the snapshot, or over the write credential.
  \<open>rv_euid\<close> is the effective user on POSIX. \<open>rv_load\<close> is \<open>load_json\<close> of an absolute path, given by
  its parts.
\<close>

record 'w release_v2 =
  rv_job :: "'w release_job"
  rv_ci :: "'w runtime_ci"
  rv_store :: "bool \<Rightarrow> ('w, 'w release_backend) prog"
  rv_time :: "('w, rat) prog"
  rv_str :: "json \<Rightarrow> string"
  rv_download :: "string \<Rightarrow> string option \<Rightarrow> ('w, download) prog"
  rv_unzip :: "string \<Rightarrow> (string \<times> string) list res"
  rv_euid :: "int option"
  rv_lstat :: "string list \<Rightarrow> ('w, file_stat) prog"
  rv_stat :: "string list \<Rightarrow> ('w, file_stat) prog"
  rv_load :: "string list \<Rightarrow> ('w, json) prog"

definition rv_lib :: "'w release_v2 \<Rightarrow> pylib" where
  "rv_lib V = rj_lib (rv_job V)"

definition rv_getenv :: "'w release_v2 \<Rightarrow> string \<Rightarrow> ('w, string) step" where
  "rv_getenv V name = liftP (getenv (rj_env (rv_job V)) name)"

definition requireP :: "bool \<Rightarrow> string \<Rightarrow> ('w, unit) prog" where
  "requireP ok message = liftP (requireR ok (ValueError message))"

definition command :: "'w release_v2 \<Rightarrow> string list \<Rightarrow> ('w, string) step" where
  "command V args = external (rj_command (rv_job V) args None)"

section \<open>The source of a release\<close>

text \<open>\<open>s.split()\<close>.\<close>

definition words :: "string \<Rightarrow> string list" where
  "words s = filter (\<lambda>w. w \<noteq> []) (split_on (CHR '' '') (map (\<lambda>c. if space c then CHR '' '' else c) s))"

definition tag_entry :: "string \<Rightarrow> (string \<times> string) res" where
  "tag_entry line = (case words line of [sha, ref] \<Rightarrow> Inr (ref, sha) | _ \<Rightarrow> Inl (ValueError ''dictionary update sequence''))"

definition remote_tags :: "string \<Rightarrow> (string \<rightharpoonup> string) res" where
  "remote_tags listing = bindR (mapR tag_entry (splitlines listing)) (\<lambda>es. Inr (map_of (rev es)))"

text \<open>\<open>tags.get(ref + "^{}", tags.get(ref))\<close>: an annotated tag is dereferenced.\<close>

definition tag_commit :: "(string \<rightharpoonup> string) \<Rightarrow> string \<Rightarrow> string option" where
  "tag_commit tags ref = (case tags (ref @ ''^{}'') of Some s \<Rightarrow> Some s | None \<Rightarrow> tags ref)"

definition source_value :: "env \<Rightarrow> (json \<times> string \<times> string) res" where
  "source_value e =
     bindR (getenv e ''GITHUB_REPOSITORY'') (\<lambda>repo. bindR (getenv e ''GITHUB_RUN_ID'') (\<lambda>run.
     bindR (getenv e ''GITHUB_RUN_ATTEMPT'') (\<lambda>attempt. bindR (getenv e ''GITHUB_SHA'') (\<lambda>sha.
     bindR (getenv e ''GITHUB_REF'') (\<lambda>ref.
       Inr (JObj [(''repository'', JStr repo), (''workflow'', JStr WORKFLOW), (''run_id'', JStr run),
                  (''run_attempt'', JStr attempt), (''sha'', JStr sha), (''ref'', JStr ref)], sha, ref))))))"

definition source_checks :: "env \<Rightarrow> json \<Rightarrow> string \<Rightarrow> unit res" where
  "source_checks e value ref =
     bindR (source value) (\<lambda>_.
     bindR (getenv e ''TICKET_REFERENCE'') (\<lambda>t. bindR (ticket (JStr t)) (\<lambda>_.
     bindR (env_is e ''GITHUB_EVENT_NAME'' ''workflow_dispatch'' ''Disallowed release trigger'') (\<lambda>_.
       env_is e ''GITHUB_WORKFLOW_REF'' (RELEASE_REPOSITORY @ ''/'' @ WORKFLOW @ ''@'' @ ref) ''Unexpected workflow ref''))))"

definition release_source :: "'w release_v2 \<Rightarrow> ('w, json) step" where
  "release_source V =
     bindP (liftP (source_value (rj_env (rv_job V)))) (\<lambda>(value, sha, ref).
     bindP (liftP (source_checks (rj_env (rv_job V)) value ref)) (\<lambda>_.
     bindP (command V [''git'', ''rev-parse'', ''HEAD'']) (\<lambda>head.
     bindP (requireP (head = sha) ''Checkout/source SHA mismatch'') (\<lambda>_.
     bindP (command V [''git'', ''fetch'', ''--no-tags'', ''origin'', ''main'']) (\<lambda>_.
     bindP (command V [''git'', ''merge-base'', ''--is-ancestor'', sha, ''origin/main'']) (\<lambda>_.
     bindP (command V [''git'', ''ls-remote'', ''origin'', ref, ref @ ''^{}'']) (\<lambda>listing.
     bindP (liftP (remote_tags listing)) (\<lambda>tags.
     bindP (requireP (tag_commit tags ref = Some sha) ''Release tag moved or missing'') (\<lambda>_. retP value)))))))))"

section \<open>The settings of the environment\<close>

definition optional_setting :: "string \<Rightarrow> json \<Rightarrow> json \<Rightarrow> string \<Rightarrow> unit res" where
  "optional_setting k v j message =
     bindR (jmember k j) (\<lambda>present.
       if present then bindR (jget k j) (\<lambda>x. requireR (x = v) (ValueError message)) else Inr ())"

definition protections :: "'w release_v2 \<Rightarrow> ('w, json) step" where
  "protections V =
     bindP (github_json (rv_job V) ''environments/production'') (\<lambda>protection.
     bindP (github_json (rv_job V) ''environments/production/deployment-branch-policies'') (\<lambda>policies.
     bindP (liftP (verify_protection protection policies)) (\<lambda>_.
     bindP (liftP (optional_setting ''can_admins_bypass'' (JBool False) protection ''Admin bypass must be disabled'')) (\<lambda>_.
     bindP (liftP (bindR (jget ''branch_policies'' policies) (\<lambda>ps. bindR (jnth 0 ps) (\<lambda>p.
              optional_setting ''type'' (JStr ''tag'') p ''Only release tags may deploy'')))) (\<lambda>_.
       retP (strings [(''admin_bypass'', ''REQUIRES_SETTINGS_VERIFICATION''),
                      (''policy_type'', ''REQUIRES_SETTINGS_VERIFICATION''), (''native_review'', ''REQUIRED'')]))))))"

section \<open>The human review\<close>

definition source_text :: "string \<Rightarrow> json \<Rightarrow> string" where
  "source_text k expected = (case jget k expected of Inr (JStr s) \<Rightarrow> s | _ \<Rightarrow> [])"

definition current_run :: "(json \<Rightarrow> string) \<Rightarrow> json \<Rightarrow> json \<Rightarrow> bool res" where
  "current_run to_str run expected =
     andR
       [bindR (jget_or ''id'' JNull run) (\<lambda>i. Inr (to_str i = source_text ''run_id'' expected)),
        get_eq ''head_sha'' (JStr (source_text ''sha'' expected)) run,
        get_eq ''head_branch'' (JStr (let ref = source_text ''ref'' expected
                                       in if starts_with ''refs/tags/'' ref then drop 10 ref else ref)) run,
        get_eq ''path'' (JStr WORKFLOW) run, get_eq ''event'' (JStr ''workflow_dispatch'') run,
        get_eq ''run_attempt'' (JInt 1) run, get_eq ''status'' (JStr ''in_progress'') run,
        get_eq ''conclusion'' JNull run,
        bindR (jget_or ''repository'' (JObj []) run) (get_eq ''full_name'' (JStr RELEASE_REPOSITORY))]"

definition production_review :: "json \<Rightarrow> bool res" where
  "production_review r =
     bindR (jget_or ''environments'' (JArr []) r) (\<lambda>es. bindR (jiter es) (\<lambda>xs.
       orR (map (get_eq ''name'' (JStr ''production'')) xs)))"

definition reviewed_by_other :: "json \<Rightarrow> json \<Rightarrow> bool res" where
  "reviewed_by_other actor r =
     bindR (jget_or ''user'' (JObj []) r) (\<lambda>u. bindR (jget_or ''login'' JNull u) (\<lambda>l. Inr (truthy l \<and> \<not> py_eq l actor)))"

definition verify_human_review :: "(json \<Rightarrow> string) \<Rightarrow> json \<Rightarrow> json \<Rightarrow> json \<Rightarrow> unit res" where
  "verify_human_review to_str run reviews expected =
     bindR (source expected) (\<lambda>_.
     bindR (current_run to_str run expected) (\<lambda>current.
     bindR (requireR current (ValueError ''Release run is stale, canceled or mismatched'')) (\<lambda>_.
     bindR (jiter reviews) (\<lambda>rs. bindR (filterR production_review rs) (\<lambda>selected.
     bindR (if selected = [] then Inr False else andR (map (get_eq ''state'' (JStr ''approved'')) selected)) (\<lambda>approved.
     bindR (requireR approved (ValueError ''Native production review missing or rejected'')) (\<lambda>_.
     bindR (jget_or ''actor'' (JObj []) run) (\<lambda>a. bindR (jget_or ''login'' JNull a) (\<lambda>actor.
     bindR (if truthy actor then andR (map (reviewed_by_other actor) selected) else Inr False) (\<lambda>independent.
       requireR independent (ValueError ''Independent human review required'')))))))))))"

section \<open>Evidence of a workflow run\<close>

text \<open>\<open>response.read(n + 1)\<close>: at most one byte more than the bound.\<close>

definition read_bounded :: "int \<Rightarrow> string \<Rightarrow> string" where
  "read_bounded n s = (if int (length s) \<le> n then s else take (nat n + 1) s)"

abbreviation MAX_ARCHIVE :: int where
  "MAX_ARCHIVE \<equiv> 33554432"

definition unexpired :: "string \<Rightarrow> json \<Rightarrow> bool res" where
  "unexpired name r =
     bindR (jget ''name'' r) (\<lambda>n. if n \<noteq> JStr name then Inr False
       else bindR (jget ''expired'' r) (\<lambda>x. Inr (\<not> truthy x)))"

definition select_artifact :: "string \<Rightarrow> json \<Rightarrow> json res" where
  "select_artifact name rows =
     bindR (jget_or ''total_count'' (JInt 0) rows) (\<lambda>n. bindR (jle n (JInt 100)) (\<lambda>bounded.
     bindR (requireR bounded (ValueError ''Artifact list exceeds bound'')) (\<lambda>_.
     bindR (jget_or ''artifacts'' (JArr []) rows) (\<lambda>xs. bindR (jiter xs) (\<lambda>items.
     bindR (filterR (unexpired name) items) (\<lambda>hits.
       case hits of
         [obj] \<Rightarrow>
           bindR (jget ''size_in_bytes'' obj) (\<lambda>k. bindR (jle k (JInt MAX_ARCHIVE)) (\<lambda>small.
           bindR (requireR small (ValueError ''Evidence archive too large'')) (\<lambda>_. Inr obj)))
       | _ \<Rightarrow> Inl (ValueError ''Required runtime evidence absent or ambiguous'')))))))"

text \<open>The token is never sent to the host a redirection names.\<close>

definition download_archive :: "'w release_v2 \<Rightarrow> string \<Rightarrow> string \<Rightarrow> ('w, string) step" where
  "download_archive V url token =
     bindP (external (rv_download V url (Some token))) (\<lambda>answer.
       case answer of
         Content bytes \<Rightarrow> retP (read_bounded MAX_ARCHIVE bytes)
       | Refused status location \<Rightarrow>
           bindP (requireP (status \<in> {301, 302, 303, 307, 308}) ''Evidence download failed'') (\<lambda>_.
           let target = (case location of Some l \<Rightarrow> l | None \<Rightarrow> [])
           in bindP (requireP (starts_with ''https://'' target) ''Evidence redirect requires TLS'') (\<lambda>_.
              bindP (external (rv_download V target None)) (\<lambda>second.
                case second of
                  Content bytes \<Rightarrow> retP (read_bounded MAX_ARCHIVE bytes)
                | Refused status2 _ \<Rightarrow> raiseP (HTTPError status2)))))"

definition archive_member :: "(string \<Rightarrow> json option) \<Rightarrow> (string \<times> string) list \<Rightarrow> string \<Rightarrow> json res" where
  "archive_member loads members name =
     (case filter (\<lambda>m. fst m = name) members of
        [m] \<Rightarrow> if int (length (snd m)) \<le> 16777216 then decode_json loads (snd m)
               else Inl (ValueError ''Invalid evidence member'')
      | _ \<Rightarrow> Inl (ValueError ''Invalid evidence member''))"

definition artifact_files :: "'w release_v2 \<Rightarrow> string \<Rightarrow> string \<Rightarrow> string list \<Rightarrow> ('w, json list) step" where
  "artifact_files V run name filenames =
     bindP (github_json (rv_job V) (''actions/runs/'' @ run @ ''/artifacts?per_page=100'')) (\<lambda>rows.
     bindP (liftP (select_artifact name rows)) (\<lambda>obj.
     bindP (liftP (jget ''id'' obj)) (\<lambda>i.
     bindP (rv_getenv V ''GH_TOKEN'') (\<lambda>token.
     bindP (download_archive V
              (''https://api.github.com/repos/'' @ RELEASE_REPOSITORY @ ''/actions/artifacts/'' @ rv_str V i @ ''/zip'') token) (\<lambda>raw.
     bindP (liftP (bindR (jget_or ''digest'' JNull obj) (\<lambda>d.
              requireR (int (length raw) \<le> MAX_ARCHIVE \<and> d = JStr (''sha256:'' @ lib_sha256 (rv_lib V) raw))
                (ValueError ''Evidence archive identity mismatch'')))) (\<lambda>_.
     bindP (liftP (rv_unzip V raw)) (\<lambda>members.
       liftP (mapR (archive_member (rj_loads (rv_job V)) members) filenames))))))))"

section \<open>Retained provenance\<close>

definition PROVENANCE_ROOT :: "string list" where
  "PROVENANCE_ROOT = [''etc'', ''mlops'', ''release'', ''runtime-provenance'']"

definition APPROVAL_FIELDS :: "string list" where
  "APPROVAL_FIELDS = [''record_digest'', ''authority'', ''approval_reference'', ''approved_at'', ''expires_at'',
                      ''risk_acceptance_expires_at'', ''status'']"

definition E2E_EXCEPTION_FIELDS :: "string list" where
  "E2E_EXCEPTION_FIELDS = [''kind'', ''model_version'', ''runtime_digest'', ''fingerprint'', ''release_reference'', ''status'']"

definition V11_E2E_IMAGE :: string where
  "V11_E2E_IMAGE = REPOSITORY @ ''@sha256:f1ae0d6c95d19b73adbfa72ae183ef6f207a2dc647bc2d4a1a36386a02ba5ae0''"

definition V11_E2E_FINGERPRINT :: string where
  "V11_E2E_FINGERPRINT = ''sha256:700096f6d55f8aa9b56c9049e1c4171633f403a8d3e2a2de2df1ff544eab63fc''"

text \<open>\<open>(path, *path.parents)\<close>.\<close>

definition ancestry :: "string list \<Rightarrow> string list list" where
  "ancestry p = rev (prefixes p)"

definition trusted_part :: "'w release_v2 \<Rightarrow> string list \<Rightarrow> ('w, unit) prog" where
  "trusted_part V p =
     bindP (rv_lstat V p) (\<lambda>info.
       requireP (fs_uid info = 0 \<and> \<not> fs_writable info \<and> \<not> fs_link info)
         ''Provenance authority path must be root-owned and not group/world writable'')"

fun trusted_parts :: "'w release_v2 \<Rightarrow> string list list \<Rightarrow> ('w, unit) prog" where
  "trusted_parts V [] = retP ()"
| "trusted_parts V (p # ps) = thenP (trusted_part V p) (trusted_parts V ps)"

definition provenance_file :: "'w release_v2 \<Rightarrow> string list \<Rightarrow> int \<Rightarrow> ('w, json) prog" where
  "provenance_file V p limit =
     bindP (requireP (case rv_euid V of Some u \<Rightarrow> u \<noteq> 0 | None \<Rightarrow> False)
              ''Provenance requires a non-root isolated Linux runner'') (\<lambda>_.
     bindP (trusted_parts V (ancestry p)) (\<lambda>_.
     bindP (rv_stat V p) (\<lambda>kind.
     bindP (if fs_regular kind then bindP (rv_stat V p) (\<lambda>info. retP (fs_size info \<le> limit)) else retP False) (\<lambda>ok.
     bindP (requireP ok ''Invalid provenance file'') (\<lambda>_. rv_load V p)))))"

text \<open>The approval of a record in the index of the authority.\<close>

definition select_approval :: "string \<Rightarrow> json \<Rightarrow> json res" where
  "select_approval record_digest index =
     bindR (requireR (keys_are [''schema_version'', ''records''] index) (ValueError ''Invalid provenance authority index'')) (\<lambda>_.
     bindR (jget ''schema_version'' index) (\<lambda>sv. bindR (jget ''records'' index) (\<lambda>rs.
     bindR (requireR (py_eq sv (JInt 1) \<and> is_list rs \<and> length (list_of rs) \<le> 100)
              (ValueError ''Invalid provenance authority index'')) (\<lambda>_.
     bindR (filterR (get_eq ''record_digest'' (JStr record_digest)) (list_of rs)) (\<lambda>hits.
       case hits of [approval] \<Rightarrow> Inr approval | _ \<Rightarrow> Inl (ValueError ''Runtime provenance absent or ambiguous''))))))"

definition before_time :: "pylib \<Rightarrow> rat \<Rightarrow> json \<Rightarrow> bool res" where
  "before_time L now j = bindR (time_of L j) (\<lambda>t. Inr (now < t))"

definition check_approval :: "pylib \<Rightarrow> rat \<Rightarrow> json \<Rightarrow> unit res" where
  "check_approval L now approval =
     bindR (requireR (keys_are APPROVAL_FIELDS approval \<or> keys_are (APPROVAL_FIELDS @ [''e2e_exception'']) approval)
              (ValueError ''Invalid provenance approval'')) (\<lambda>_.
     bindR (jget ''status'' approval) (\<lambda>status.
     bindR (requireR (status = JStr ''approved'') (ValueError ''Runtime provenance revoked or unapproved'')) (\<lambda>_.
     bindR (jget ''authority'' approval) (\<lambda>a. bindR (ticket a) (\<lambda>_.
     bindR (jget ''approval_reference'' approval) (\<lambda>r. bindR (ticket r) (\<lambda>_.
     bindR (jget ''approved_at'' approval) (\<lambda>aj. bindR (time_of L aj) (\<lambda>approved.
     bindR (if approved \<le> now then bindR (jget ''expires_at'' approval) (before_time L now) else Inr False) (\<lambda>valid.
     bindR (requireR valid (ValueError ''Runtime provenance not yet valid or expired'')) (\<lambda>_.
     bindR (jget ''risk_acceptance_expires_at'' approval) (\<lambda>risk.
       if risk = JNull then Inr ()
       else bindR (before_time L now risk) (\<lambda>ok. requireR ok (ValueError ''Runtime risk acceptance expired''))))))))))))))"

definition retained_provenance :: "'w release_v2 \<Rightarrow> string \<Rightarrow> rat \<Rightarrow> ('w, json \<times> json) prog" where
  "retained_provenance V record_digest now =
     bindP (requireP (rx_digest record_digest) ''Invalid provenance digest'') (\<lambda>_.
     bindP (provenance_file V (PROVENANCE_ROOT @ [''approvals.json'']) 65536) (\<lambda>index.
     bindP (liftP (select_approval record_digest index)) (\<lambda>approval.
     bindP (liftP (check_approval (rv_lib V) now approval)) (\<lambda>_.
     bindP (provenance_file V (PROVENANCE_ROOT @ [drop 7 record_digest @ ''.json'']) 16777216) (\<lambda>record.
     bindP (liftP (digest (rv_lib V) record)) (\<lambda>d.
     bindP (requireP (d = record_digest) ''Runtime provenance content mismatch'') (\<lambda>_. retP (record, approval))))))))"

definition current_security_decision :: "'w release_v2 \<Rightarrow> json \<Rightarrow> json \<Rightarrow> rat \<Rightarrow> ('w, scan_decision) prog" where
  "current_security_decision V scan request now =
     bindP (ci_waivers (rv_ci V)) (\<lambda>ws.
       liftP (evaluate_scan (rv_lib V) (ci_isoformat (rv_ci V)) scan request ws (Some now)))"

section \<open>The exception for the end-to-end test\<close>

definition e2e_exception :: "string \<Rightarrow> string \<Rightarrow> string \<Rightarrow> json \<Rightarrow> json" where
  "e2e_exception version img fp release_reference = JObj
     [(''kind'', JStr ''E2E_ONLY_SECURITY_EXCEPTION''), (''model_version'', JStr version), (''runtime_digest'', JStr img),
      (''fingerprint'', JStr fp), (''release_reference'', release_reference), (''status'', JStr ''approved'')]"

definition copied_fields :: "string list" where
  "copied_fields = [''authority'', ''approval_reference'', ''approved_at'', ''expires_at'', ''risk_acceptance_expires_at'']"

definition validate_e2e_exception :: "json \<Rightarrow> string \<Rightarrow> string \<Rightarrow> json \<Rightarrow> json \<Rightarrow> json res" where
  "validate_e2e_exception approval version img request release_reference =
     bindR (jget_or ''e2e_exception'' JNull approval) (\<lambda>exception.
     bindR (requireR (keys_are E2E_EXCEPTION_FIELDS exception) (ValueError ''Explicit E2E security exception required'')) (\<lambda>_.
     bindR (jget ''risk_acceptance_expires_at'' approval) (\<lambda>risk.
     bindR (requireR (risk \<noteq> JNull) (ValueError ''E2E security exception requires bounded risk acceptance'')) (\<lambda>_.
     bindR (ticket release_reference) (\<lambda>_.
     bindR (if version = ''11'' \<and> img = V11_E2E_IMAGE then bindR (jget ''fingerprint'' request) (\<lambda>f. Inr (f = JStr V11_E2E_FINGERPRINT)) else Inr False) (\<lambda>exact.
     bindR (requireR exact (ValueError ''E2E security exception limited to exact model v11 runtime'')) (\<lambda>_.
     bindR (fingerprint_of request) (\<lambda>fp.
     bindR (requireR (py_eq exception (e2e_exception version img fp release_reference))
              (ValueError ''E2E security exception scope mismatch'')) (\<lambda>_.
     bindR (project copied_fields approval) (\<lambda>copied.
       jupdate (entries copied) exception))))))))))"

section \<open>The runtime evidence\<close>

text \<open>
  A decision as the document that is written and hashed, without the time of the evaluation. Only
  decisions without errors are hashed.
\<close>

definition findings_json :: "finding list \<Rightarrow> json" where
  "findings_json fs = JArr (map finding_json fs)"

definition decision_json :: "scan_decision \<Rightarrow> json" where
  "decision_json d = JObj
     [(''decision'', JStr (if sd_pass d then ''PASS'' else ''BLOCK'')),
      (''errors'', JArr (map (\<lambda>e. JStr (exn_name e)) (sd_errors d))),
      (''image_id'', opt_json JStr (sd_image_id d)), (''fingerprint'', opt_json id (sd_fingerprint d)),
      (''counts'', JObj [(''raw'', JObj (map (\<lambda>(s, n). (s, JInt (int n))) (sd_raw_counts d))),
                        (''unique_vulnerabilities'', JInt (int (sd_unique_vulnerabilities d)))]),
      (''blocking_findings'', findings_json (sd_blocking d)), (''waived_findings'', findings_json (sd_waived d)),
      (''non_blocking_findings'', findings_json (sd_non_blocking d)),
      (''remediation'', JObj (map (\<lambda>(k, fs). (k, findings_json fs)) (sd_remediation d)))]"

text \<open>What a verification of the runtime returns: the decision, and the exception that overrides a block.\<close>

record eligibility =
  el_decision :: scan_decision
  el_exception :: "json option"

definition enforcement_fields :: "eligibility \<Rightarrow> (string \<times> json) list" where
  "enforcement_fields el =
     (case el_exception el of
        None \<Rightarrow> []
      | Some x \<Rightarrow> [(''enforcement'', JStr ''E2E_ONLY_SECURITY_EXCEPTION''), (''security_exception'', x),
                    (''security_pass'', JBool False)])"

definition eligibility_json :: "eligibility \<Rightarrow> json res" where
  "eligibility_json el = jupdate (enforcement_fields el) (decision_json (el_decision el))"

definition enforcement :: "eligibility \<Rightarrow> string" where
  "enforcement el = (case el_exception el of None \<Rightarrow> ''SECURITY_PASS'' | Some _ \<Rightarrow> ''E2E_ONLY_SECURITY_EXCEPTION'')"

definition RECORD_FIELDS :: "string list" where
  "RECORD_FIELDS = [''schema_version'', ''request'', ''image'', ''scan'', ''security_decision'', ''build_evidence'', ''smoke_evidence'']"

definition check_record :: "json \<Rightarrow> string \<Rightarrow> json \<Rightarrow> (json \<times> json) res" where
  "check_record request img record =
     bindR (requireR (keys_are RECORD_FIELDS record) (ValueError ''Invalid retained runtime record'')) (\<lambda>_.
     bindR (jget ''schema_version'' record) (\<lambda>sv.
     bindR (requireR (py_eq sv (JInt 1)) (ValueError ''Invalid retained runtime record'')) (\<lambda>_.
     bindR (jget ''request'' record) (\<lambda>r. bindR (jget ''image'' record) (\<lambda>i.
     bindR (requireR (py_eq r request \<and> i = JStr img) (ValueError ''Retained runtime contract/digest mismatch'')) (\<lambda>_.
     bindR (forR (\<lambda>k. bindR (jget k record) (\<lambda>v.
              requireR (is_str v \<and> rx_digest (str_of v)) (ValueError ''Missing reviewed build/smoke evidence'')))
              [''build_evidence'', ''smoke_evidence'']) (\<lambda>_.
     bindR (jget ''scan'' record) (\<lambda>scan. bindR (jget ''security_decision'' record) (\<lambda>old. Inr (scan, old))))))))))"

text \<open>The earlier decision is about the same fingerprint and the same image as the scan.\<close>

definition same_scan :: "json \<Rightarrow> json \<Rightarrow> json \<Rightarrow> bool res" where
  "same_scan request scan old =
     andR [bindR (jget_or ''fingerprint'' JNull old) (\<lambda>f. bindR (jget ''fingerprint'' request) (\<lambda>g. Inr (py_eq f g))),
           bindR (jget_or ''image_id'' JNull old) (\<lambda>i. bindR (jget_or ''Metadata'' (JObj []) scan) (\<lambda>m.
             bindR (jget_or ''ImageID'' JNull m) (\<lambda>j. Inr (py_eq i j))))]"

definition retained_decision ::
  "json \<Rightarrow> string \<Rightarrow> string \<Rightarrow> json \<Rightarrow> json \<Rightarrow> json \<Rightarrow> scan_decision \<Rightarrow> eligibility res" where
  "retained_decision approval version img request release_reference old d =
     (if sd_pass d
      then bindR (get_eq ''decision'' (JStr ''PASS'') old) (\<lambda>passed.
           bindR (requireR (passed \<and> \<not> jhas ''e2e_exception'' approval)
                    (ValueError ''Retained security decision mismatched/unnecessary exception'')) (\<lambda>_.
             Inr \<lparr>el_decision = d, el_exception = None\<rparr>))
      else bindR (if sd_errors d = [] \<and> sd_blocking d \<noteq> [] then get_eq ''decision'' (JStr ''BLOCK'') old else Inr False) (\<lambda>reviewed.
           bindR (requireR reviewed (ValueError ''Malformed or unreviewed blocked security evidence'')) (\<lambda>_.
           bindR (validate_e2e_exception approval version img request release_reference) (\<lambda>x.
             Inr \<lparr>el_decision = d, el_exception = Some x\<rparr>))))"

definition catalog_serves :: "'w release_v2 \<Rightarrow> json \<Rightarrow> string \<Rightarrow> ('w, unit) prog" where
  "catalog_serves V request img =
     bindP (liftP (fingerprint_of request)) (\<lambda>fp.
     bindP (lookup (ci_ecr (rv_ci V)) fp) (\<lambda>found.
       requireP (found = Some img) ''Runtime catalog MISS/mismatch''))"

definition retained_proof :: "pylib \<Rightarrow> string \<Rightarrow> json \<Rightarrow> eligibility \<Rightarrow> string res" where
  "retained_proof L record_digest approval el =
     bindR (eligibility_json el) (\<lambda>stable_decision. bindR (digest L stable_decision) (\<lambda>d.
       digest L (JObj [(''record_digest'', JStr record_digest), (''approval'', approval),
                       (''enforcement'', JStr (enforcement el)), (''current_security_decision'', JStr d)])))"

definition verify_retained_runtime ::
  "'w release_v2 \<Rightarrow> json \<Rightarrow> string \<Rightarrow> string \<Rightarrow> string \<Rightarrow> json \<Rightarrow> ('w, string \<times> eligibility) prog" where
  "verify_retained_runtime V request img record_digest version release_reference =
     bindP (rv_time V) (\<lambda>now.
     bindP (retained_provenance V record_digest now) (\<lambda>(record, approval).
     bindP (liftP (check_record request img record)) (\<lambda>(scan, old).
     bindP (liftP (same_scan request scan old)) (\<lambda>same.
     bindP (requireP same ''Retained security decision identity mismatch'') (\<lambda>_.
     bindP (current_security_decision V scan request now) (\<lambda>d.
     bindP (liftP (retained_decision approval version img request release_reference old d)) (\<lambda>el.
     bindP (catalog_serves V request img) (\<lambda>_.
     bindP (verify_registry_image (rv_ci V) img scan) (\<lambda>_.
     bindP (liftP (retained_proof (rv_lib V) record_digest approval el)) (\<lambda>proof.
       retP (proof, el)))))))))))"

text \<open>The evidence of a successful build workflow, bound without the time of the evaluation.\<close>

definition build_succeeded :: "json \<Rightarrow> bool res" where
  "build_succeeded run =
     andR [get_eq ''path'' (JStr ''.github/workflows/runtime-build.yml'') run, get_eq ''conclusion'' (JStr ''success'') run,
           get_eq ''status'' (JStr ''completed'') run,
           bindR (jget_or ''repository'' (JObj []) run) (get_eq ''full_name'' (JStr RELEASE_REPOSITORY))]"

definition build_commit :: "json \<Rightarrow> string res" where
  "build_commit run =
     bindR (jget_or ''head_sha'' (JStr []) run) (\<lambda>j.
       case j of
         JStr sha \<Rightarrow> if rx_chars 40 40 hex_digit sha then Inr sha else Inl (ValueError ''Invalid runtime source'')
       | _ \<Rightarrow> Inl (TypeError ''expected string''))"

definition reports_match :: "json \<Rightarrow> json \<Rightarrow> json \<Rightarrow> bool res" where
  "reports_match request report old =
     bindR (get_eq ''decision'' (JStr ''PASS'') old) (\<lambda>passed. if passed then same_scan request report old else Inr False)"

definition verify_workflow_runtime :: "'w release_v2 \<Rightarrow> json \<Rightarrow> string \<Rightarrow> string \<Rightarrow> ('w, string \<times> eligibility) step" where
  "verify_workflow_runtime V request img run_number =
     bindP (requireP (rx_first nonzero_digit digit 19 run_number) ''Invalid runtime workflow run'') (\<lambda>_.
     bindP (github_json (rv_job V) (''actions/runs/'' @ run_number)) (\<lambda>run.
     bindP (liftP (build_succeeded run)) (\<lambda>ok.
     bindP (requireP ok ''Runtime build/test/security workflow not successful'') (\<lambda>_.
     bindP (liftP (build_commit run)) (\<lambda>sha.
     bindP (command V [''git'', ''merge-base'', ''--is-ancestor'', sha, ''origin/main'']) (\<lambda>_.
     bindP (artifact_files V run_number ''runtime-context'' [''request.json'']) (\<lambda>contexts.
     bindP (requireP (py_eq (hd contexts) request) ''Runtime build contract mismatch'') (\<lambda>_.
     bindP (liftP (jget ''run_attempt'' run)) (\<lambda>attempt.
     bindP (artifact_files V run_number (''runtime-security-'' @ run_number @ ''-'' @ rv_str V attempt)
              [''trivy.json'', ''security-decision.json'']) (\<lambda>reports.
     let report = reports ! 0; old = reports ! 1
     in bindP (liftP (reports_match request report old)) (\<lambda>same.
        bindP (requireP same ''Runtime security evidence blocked/mismatched'') (\<lambda>_.
        bindP (external (require_clean_scan (rv_ci V) report request)) (\<lambda>d.
        bindP (external (catalog_serves V request img)) (\<lambda>_.
        bindP (external (verify_registry_image (rv_ci V) img report)) (\<lambda>_.
        bindP (liftP (digest (rv_lib V) report)) (\<lambda>scan_hash.
        bindP (liftP (digest (rv_lib V) (JObj
                 [(''runtime_run'', JStr run_number), (''source_sha'', JStr sha), (''request'', request),
                  (''scan_hash'', JStr scan_hash), (''image'', JStr img)]))) (\<lambda>proof.
          retP (proof, \<lparr>el_decision = d, el_exception = None\<rparr>))))))))))))))))))"

text \<open>The single candidate of the snapshot with its request, fingerprint and image.\<close>

definition candidate_request :: "pylib \<Rightarrow> release_state \<Rightarrow> string \<Rightarrow> (json \<times> string) res" where
  "candidate_request L s version =
     bindR (snapshot L s (JStr version)) (\<lambda>current.
     bindR (case items_for (JStr version) s of [] \<Rightarrow> Inl (OtherError ''StopIteration'') | it # _ \<Rightarrow> Inr it) (\<lambda>it.
     bindR (case it_build_request it of None \<Rightarrow> Inl (KeyError ''build_request'') | Some r \<Rightarrow> Inr r) (\<lambda>request.
     bindR (validate_request L request) (\<lambda>_.
     bindR (jget ''fingerprint'' request) (\<lambda>f. bindR (jdeep [''candidate'', ''fingerprint''] current) (\<lambda>g.
     bindR (requireR (py_eq f g) (ValueError ''Candidate technical request mismatch'')) (\<lambda>_.
     bindR (jdeep [''candidate'', ''pair'', ''runtime_digest''] current) (\<lambda>img.
       if is_str img then Inr (request, str_of img) else Inl (TypeError ''expected string'')))))))))"

datatype evidence_kind = Workflow_Run | Retained_Provenance

definition verify_runtime ::
  "'w release_v2 \<Rightarrow> release_state \<Rightarrow> string \<Rightarrow> evidence_kind \<Rightarrow> string \<Rightarrow> ('w, string \<times> eligibility) step" where
  "verify_runtime V s version kind reference =
     bindP (liftP (candidate_request (rv_lib V) s version)) (\<lambda>(request, img).
       case kind of
         Retained_Provenance \<Rightarrow>
           external (verify_retained_runtime V request img reference version
                       (opt_json JStr (rj_env (rv_job V) ''TICKET_REFERENCE'')))
       | Workflow_Run \<Rightarrow> verify_workflow_runtime V request img reference)"

definition optional_env :: "env \<Rightarrow> string \<Rightarrow> string" where
  "optional_env e k = (case e k of Some v \<Rightarrow> v | None \<Rightarrow> [])"

definition evidence_selection :: "env \<Rightarrow> (evidence_kind \<times> string) res" where
  "evidence_selection e =
     bindR (getenv e ''RUNTIME_EVIDENCE_SOURCE'') (\<lambda>kind.
     let run = optional_env e ''RUNTIME_EVIDENCE_RUN_ID''; record = optional_env e ''RUNTIME_PROVENANCE_DIGEST''
     in if kind = ''workflow_run''
        then bindR (requireR (rx_first nonzero_digit digit 19 run \<and> record = [])
                     (ValueError ''Workflow evidence requires only a run ID'')) (\<lambda>_. Inr (Workflow_Run, run))
        else if kind = ''retained_provenance''
        then bindR (requireR (run = [] \<and> rx_digest record)
                     (ValueError ''Retained evidence requires only a provenance digest'')) (\<lambda>_. Inr (Retained_Provenance, record))
        else Inl (ValueError ''Select an explicit runtime evidence source''))"

definition kind_text :: "evidence_kind \<Rightarrow> string" where
  "kind_text k = (case k of Workflow_Run \<Rightarrow> ''workflow_run'' | Retained_Provenance \<Rightarrow> ''retained_provenance'')"

definition catalog_access :: "'w release_v2 \<Rightarrow> ('w, unit) step" where
  "catalog_access V =
     requireP (case rj_env (rv_job V) ''AWS_SESSION_TOKEN'' of Some t \<Rightarrow> t \<noteq> [] | None \<Rightarrow> False)
       ''Temporary catalog reader credentials required''"

section \<open>Preflight\<close>

text \<open>\<open>decision.get("enforcement", decision["decision"])\<close>.\<close>

definition security_enforcement :: "eligibility \<Rightarrow> string" where
  "security_enforcement el =
     (case el_exception el of
        None \<Rightarrow> if sd_pass (el_decision el) then ''PASS'' else ''BLOCK''
      | Some _ \<Rightarrow> ''E2E_ONLY_SECURITY_EXCEPTION'')"

definition security_report :: "eligibility \<Rightarrow> json res" where
  "security_report el =
     bindR (eligibility_json el) (jupdate [(''evaluated_at'', opt_json JStr (sd_evaluated_at (el_decision el)))])"

definition preflight :: "'w release_v2 \<Rightarrow> ('w, unit) step" where
  "preflight V =
     bindP (release_source V) (\<lambda>src. bindP (protections V) (\<lambda>settings.
     bindP (external (bindP (rv_store V False) (read (rv_lib V)))) (\<lambda>s.
     bindP (rv_getenv V ''MODEL_VERSION'') (\<lambda>version.
     bindP (liftP (evidence_selection (rj_env (rv_job V)))) (\<lambda>(kind, reference).
     bindP (catalog_access V) (\<lambda>_.
     bindP (verify_runtime V s version kind reference) (\<lambda>(proof, el).
     bindP (rv_getenv V ''TICKET_REFERENCE'') (\<lambda>t.
     bindP (external (rv_time V)) (\<lambda>now.
     bindP (liftP (evidence (rv_lib V) s version (JStr t) src (JStr proof) (jrat now))) (\<lambda>candidate.
     thenP (write_file ''candidate.json'' candidate)
    (bindP (liftP (security_report el)) (\<lambda>report.
     thenP (write_file ''security-decision.json'' report)
    (bindP (liftP (digest (rv_lib V) candidate)) (\<lambda>h.
       write_file ''preflight.json'' (JObj
          [(''outcome'', JStr ''AWAITING_HUMAN_APPROVAL''),
           (''ticket_validation'', JStr ''reference_only_human_must_verify''),
           (''staging_inference'', JStr ''NOT_PERFORMED''), (''settings'', settings),
           (''runtime_evidence_source'', JStr (kind_text kind)),
           (''security_enforcement'', JStr (security_enforcement el)),
           (''checks'', JStr ''canonical candidate, idle durable stable baseline, runtime build/smoke/security evidence, immutable catalog identity''),
           (''evidence_hash'', JStr h)])))))))))))))))"

section \<open>Authorization\<close>

definition same_evidence :: "env \<Rightarrow> json \<Rightarrow> json \<Rightarrow> bool res" where
  "same_evidence e src expected =
     bindR (jget ''source'' expected) (\<lambda>s. if \<not> py_eq s src then Inr False
       else bindR (jget ''ticket_reference'' expected) (\<lambda>t. bindR (getenv e ''TICKET_REFERENCE'') (\<lambda>t'.
            if t \<noteq> JStr t' then Inr False
            else bindR (jdeep [''candidate'', ''pair'', ''model_version''] expected) (\<lambda>v.
                 bindR (getenv e ''MODEL_VERSION'') (\<lambda>version. Inr (v = JStr version))))))"

text \<open>A second authorization belongs to a run that was created after the first one expired.\<close>

definition renewal_allowed :: "pylib \<Rightarrow> release_state \<Rightarrow> string \<Rightarrow> json \<Rightarrow> json \<Rightarrow> unit res" where
  "renewal_allowed L s version expected run =
     bindR (jget_or ''supersedes'' JNull expected) (\<lambda>sup.
       if \<not> truthy sup then Inr ()
       else bindR (case items_for (JStr version) s of [] \<Rightarrow> Inl (OtherError ''StopIteration'') | it # _ \<Rightarrow> Inr it) (\<lambda>it.
            bindR (case it_authorization it of None \<Rightarrow> Inl (KeyError ''authorization'') | Some p \<Rightarrow> Inr p) (\<lambda>previous.
            bindR (jget ''evidence'' previous) (\<lambda>pe.
            bindR (if py_eq pe expected then Inr True
                   else bindR (jget_or ''created_at'' JNull run) (\<lambda>c. bindR (time_of L c) (\<lambda>t.
                        bindR (jget ''expires_at'' previous) (\<lambda>x. jle x (jrat t))))) (\<lambda>ok.
              requireR ok (ValueError ''Reauthorization requires a new run created after expiry''))))))"

definition authorize_release :: "'w release_v2 \<Rightarrow> ('w, unit) step" where
  "authorize_release V =
     (let L = rv_lib V; e = rj_env (rv_job V)
      in bindP (release_source V) (\<lambda>src. bindP (protections V) (\<lambda>_.
         bindP (read_evidence ''candidate.json'') (\<lambda>expected.
         bindP (liftP (same_evidence e src expected)) (\<lambda>same.
         bindP (requireP same ''Pre-approval evidence mismatch'') (\<lambda>_.
         bindP (external (rv_store V True)) (\<lambda>be.
         bindP (external (read L be)) (\<lambda>s.
         bindP (liftP (evidence_selection e)) (\<lambda>(kind, reference).
         bindP (rv_getenv V ''MODEL_VERSION'') (\<lambda>version.
         bindP (catalog_access V) (\<lambda>_.
         bindP (verify_runtime V s version kind reference) (\<lambda>(proof, el).
         bindP (liftP (jget ''security_hash'' expected)) (\<lambda>hash.
         bindP (requireP (hash = JStr proof) ''Runtime eligibility evidence changed'') (\<lambda>_.
         bindP (github_json (rv_job V) (''actions/runs/'' @ source_text ''run_id'' src)) (\<lambda>run.
         bindP (github_json (rv_job V) (''actions/runs/'' @ source_text ''run_id'' src @ ''/approvals'')) (\<lambda>reviews.
         bindP (liftP (verify_human_review (rv_str V) run reviews src)) (\<lambda>_.
         bindP (liftP (renewal_allowed L s version expected run)) (\<lambda>_.
         bindP (external (rv_time V)) (\<lambda>now.
         bindP (external (update L be (\<lambda>st. liftP (authorize L expected now st)))) (\<lambda>auth.
           write_file ''authorization.json'' (JObj
             [(''outcome'', JStr ''AUTHORIZED''), (''authorization'', auth),
              (''rollout'', JStr ''PENDING_UNVERIFIED'')])))))))))))))))))))))"

section \<open>What the durable state shows\<close>

definition audit_outcome :: "string \<Rightarrow> string option" where
  "audit_outcome reason =
     (if reason = ''release_completed'' then Some ''PROMOTED''
      else if reason = ''rollback_completed'' then Some ''ROLLED_BACK''
      else if reason = ''release_started'' then Some ''ROLLOUT_STARTED'' else None)"

definition row_authorization :: "audit_row \<Rightarrow> json" where
  "row_authorization r = (case map_of (au_fields r) ''authorization_id'' of Some j \<Rightarrow> j | None \<Rightarrow> JNull)"

fun terminal_row :: "json \<Rightarrow> audit_row list \<Rightarrow> string option" where
  "terminal_row h [] = None"
| "terminal_row h (r # rs) =
     (if \<not> py_eq (row_authorization r) h then terminal_row h rs
      else case audit_outcome (au_reason r) of Some o' \<Rightarrow> Some o' | None \<Rightarrow> terminal_row h rs)"

definition terminal :: "release_state \<Rightarrow> json \<Rightarrow> string res" where
  "terminal s h =
     (let past = (case terminal_row h (rev (st_audit s)) of Some o' \<Rightarrow> o' | None \<Rightarrow> ''AUTHORIZED'')
      in case st_active s of
           None \<Rightarrow> Inr past
         | Some a \<Rightarrow>
             bindR (authorization_id a) (\<lambda>i.
               if py_eq i h then Inr (if ac_phase a = BLOCKED then ''RELEASE_BLOCKED'' else ''ROLLOUT_STARTED'') else Inr past))"

definition observe :: "'w release_v2 \<Rightarrow> ('w, unit) step" where
  "observe V =
     bindP (read_evidence ''authorization.json'') (\<lambda>doc.
     bindP (liftP (jget ''authorization'' doc)) (\<lambda>auth.
     bindP (external (bindP (rv_store V True) (read (rv_lib V)))) (\<lambda>s.
     bindP (liftP (jget ''evidence_hash'' auth)) (\<lambda>h.
     bindP (liftP (terminal s h)) (\<lambda>outcome.
       write_file ''outcome.json'' (JObj
         [(''outcome'', JStr outcome), (''authorization_id'', h),
          (''note'', JStr ''Only durable identity-bound audit proves rollout; bounded history may leave outcome unverified'')]))))))"

section \<open>The summary\<close>

definition rejected_review :: "json \<Rightarrow> bool res" where
  "rejected_review r =
     bindR (get_eq ''state'' (JStr ''rejected'') r) (\<lambda>b. if b then production_review r else Inr False)"

text \<open>A rejection is reported only when GitHub shows one; an unavailable answer keeps the outcome.\<close>

definition review_outcome :: "'w release_v2 \<Rightarrow> string \<Rightarrow> ('w, string) step" where
  "review_outcome V outcome =
     catchP
       (bindP (rv_getenv V ''GITHUB_RUN_ID'') (\<lambda>run.
        bindP (github_json (rv_job V) (''actions/runs/'' @ run @ ''/approvals'')) (\<lambda>reviews.
        bindP (liftP (bindR (jiter reviews) (\<lambda>rs. orR (map rejected_review rs)))) (\<lambda>rejected.
          retP (if rejected then ''APPROVAL_REJECTED'' else outcome)))))
       (\<lambda>_. retP outcome)"

definition OBSERVED :: "string list" where
  "OBSERVED = [''PROMOTED'', ''ROLLED_BACK'', ''ROLLOUT_STARTED'', ''RELEASE_BLOCKED'']"

text \<open>\<open>outcome.json\<close> is believed only when it is about the authorization of this run.\<close>

definition observed_outcome :: "json \<Rightarrow> json \<Rightarrow> string res" where
  "observed_outcome h observed =
     bindR (jget_or ''authorization_id'' JNull observed) (\<lambda>i.
       if \<not> py_eq i h then Inr ''AUTHORIZED''
       else bindR (jget_or ''outcome'' JNull observed) (\<lambda>o'.
            Inr (if is_str o' \<and> str_of o' \<in> set OBSERVED then str_of o' else ''AUTHORIZED'')))"

definition audit_identity :: "env \<Rightarrow> json \<Rightarrow> json \<Rightarrow> bool res" where
  "audit_identity e auth expected =
     bindR (jdeep [''authorization'', ''evidence''] auth) (\<lambda>ev.
       if \<not> py_eq ev expected then Inr False
       else bindR (jdeep [''source'', ''run_id''] expected) (\<lambda>run. bindR (getenv e ''GITHUB_RUN_ID'') (\<lambda>r.
            if run \<noteq> JStr r then Inr False
            else bindR (jdeep [''source'', ''sha''] expected) (\<lambda>sha. bindR (getenv e ''GITHUB_SHA'') (\<lambda>s. Inr (sha = JStr s))))))"

definition authorized_outcome :: "'w release_v2 \<Rightarrow> json \<Rightarrow> ('w, string) step" where
  "authorized_outcome V auth =
     bindP (read_evidence ''candidate.json'') (\<lambda>expected.
     bindP (liftP (audit_identity (rj_env (rv_job V)) auth expected)) (\<lambda>same.
     bindP (requireP same ''Audit identity mismatch'') (\<lambda>_.
     bindP (file_exists ''outcome.json'') (\<lambda>present.
       if \<not> present then retP ''AUTHORIZED''
       else bindP (read_evidence ''outcome.json'') (\<lambda>observed.
            liftP (bindR (jdeep [''authorization'', ''evidence_hash''] auth) (\<lambda>h. observed_outcome h observed)))))))"

definition stage_outcome :: "(string \<times> json) list \<Rightarrow> string" where
  "stage_outcome results =
     (let is = (\<lambda>job r. map_of results job = Some (JStr r))
      in if is ''production'' ''cancelled'' then ''CANCELED''
         else if is ''preflight'' ''success'' then ''AUTHORIZATION_FAILED''
         else if is ''validation'' ''success'' then ''NOT_ELIGIBLE'' else ''VALIDATION_FAILED'')"

definition summarize :: "'w release_v2 \<Rightarrow> ('w, unit) step" where
  "summarize V =
     bindP (liftP (bindR (getenv (rj_env (rv_job V)) ''NEEDS_JSON'') (loads_res (rv_job V)))) (\<lambda>needs.
     bindP (liftP (job_results needs)) (\<lambda>results.
     let production = (case map_of results ''production'' of Some (JStr r) \<Rightarrow> r | _ \<Rightarrow> [])
     in bindP (if production = ''failure'' then review_outcome V (stage_outcome results) else retP (stage_outcome results)) (\<lambda>early.
        bindP (file_exists ''authorization.json'') (\<lambda>present.
        bindP (if production \<in> {''success'', ''failure'', ''cancelled''} \<and> present
               then bindP (read_evidence ''authorization.json'') (\<lambda>auth.
                    bindP (liftP (get_eq ''outcome'' (JStr ''AUTHORIZED'') auth)) (\<lambda>authorized.
                      if authorized then authorized_outcome V auth else retP early))
               else retP early) (\<lambda>outcome.
          write_file ''summary.json'' (JObj
            [(''outcome'', JStr outcome), (''jobs'', JObj results),
             (''human_review'', JStr ''See native GitHub production deployment review''),
             (''deployment_success'', JBool (outcome = ''PROMOTED''))]))))))"

section \<open>The actions\<close>

datatype action = Source | Preflight | Authorize | Observe | Summary

fun action_name :: "action \<Rightarrow> string" where
  "action_name Source = ''source''"
| "action_name Preflight = ''preflight''"
| "action_name Authorize = ''authorize''"
| "action_name Observe = ''observe''"
| "action_name Summary = ''summary''"

fun run_action :: "'w release_v2 \<Rightarrow> action \<Rightarrow> ('w, unit) step" where
  "run_action V Source = bindP (release_source V) (write_file ''source.json'')"
| "run_action V Preflight = preflight V"
| "run_action V Authorize = authorize_release V"
| "run_action V Observe = observe V"
| "run_action V Summary = summarize V"

fun failure_outcome :: "action \<Rightarrow> string" where
  "failure_outcome Authorize = ''AUTHORIZATION_FAILED''"
| "failure_outcome Preflight = ''NOT_ELIGIBLE''"
| "failure_outcome _ = ''VALIDATION_FAILED''"

definition release_main :: "'w release_v2 \<Rightarrow> action \<Rightarrow> ('w, unit) step" where
  "release_main V act =
     catchP (run_action V act) (\<lambda>e.
       thenP (write_file (action_name act @ ''-failure.json'') (JObj
                [(''outcome'', JStr (failure_outcome act)), (''error_type'', JStr (exn_name e))]))
         (raiseP (OtherError ''SystemExit'')))"

end
