(* ===== verification/AutoTraffic.thy ===== *)
theory AutoTraffic
  imports ReleaseDeploy
begin

text \<open>
  The automatic synthetic traffic: \<open>control_plane/automatic_traffic_v2.py\<close>, the renderer of its Job
  \<open>scripts/e2e_v2/render.py\<close> and the checks of a runner's configuration from
  \<open>scripts/e2e_v2/runner.py\<close>. While a release ramps, one Job per authorization sends traffic to it; the
  Job's name is derived from the authorization, so that a second one collides. The API server, the
  readiness of the lanes, the payload file and the source of the runner are parameters; log lines are
  left out. The proposed RBAC objects, constant documents, are not modelled.
\<close>

section \<open>The configuration of a run\<close>

definition rx_name :: "nat \<Rightarrow> string \<Rightarrow> bool" where
  "rx_name n s \<longleftrightarrow> rx_first (\<lambda>c. lower c \<or> digit c) (\<lambda>c. lower c \<or> digit c \<or> c = CHR ''-'') n s"

definition name_setting :: "nat \<Rightarrow> string \<Rightarrow> json \<Rightarrow> string \<Rightarrow> unit res" where
  "name_setting n k config message =
     bindR (jget k config) (\<lambda>j. case j of
         JStr s \<Rightarrow> requireR (rx_name n s) (ValueError message)
       | _ \<Rightarrow> Inl (TypeError ''expected string or bytes-like object''))"

definition bounded_setting :: "json \<Rightarrow> string \<times> int \<times> int \<Rightarrow> unit res" where
  "bounded_setting config b =
     (case b of (k, low, high) \<Rightarrow>
        bindR (jget k config) (\<lambda>j.
          requireR (case j of JInt i \<Rightarrow> low \<le> i \<and> i \<le> high | _ \<Rightarrow> False) (ValueError (''invalid_'' @ k))))"

definition config_bounds :: "(string \<times> int \<times> int) list" where
  "config_bounds = [(''rps'', 0, 20), (''concurrency'', 1, 8), (''requests'', 1, 2000), (''duration'', 1, 900), (''api_retries'', 0, 3)]"

definition int_setting :: "string \<Rightarrow> json \<Rightarrow> int" where
  "int_setting k config = (case jget k config of Inr (JInt i) \<Rightarrow> i | _ \<Rightarrow> 0)"

definition text_setting :: "string \<Rightarrow> json \<Rightarrow> string" where
  "text_setting k config = (case jget k config of Inr (JStr s) \<Rightarrow> s | _ \<Rightarrow> [])"

definition validate_config :: "json \<Rightarrow> unit res" where
  "validate_config config =
     bindR (jget ''version'' config) (\<lambda>v. bindR (numeric_version v) (\<lambda>_.
     bindR (jget ''mode'' config) (\<lambda>mode.
     bindR (requireR (mode \<in> {JStr ''observe'', JStr ''baseline'', JStr ''policy-test''}) (ValueError ''invalid_mode'')) (\<lambda>_.
     bindR (name_setting 39 ''run_id'' config ''invalid_run_id'') (\<lambda>_.
     bindR (name_setting 62 ''namespace'' config ''invalid_namespace'') (\<lambda>_.
     bindR (forR (bounded_setting config) config_bounds) (\<lambda>_.
     bindR (requireR (mode = JStr ''observe'' \<longrightarrow> int_setting ''rps'' config = 0) (ValueError ''observe_has_no_traffic'')) (\<lambda>_.
     bindR (requireR (mode \<noteq> JStr ''observe'' \<longrightarrow> int_setting ''rps'' config \<noteq> 0) (ValueError ''traffic_rate_required'')) (\<lambda>_.
     bindR (jget_or ''allow_synthetic_gate_traffic'' JNull config) (\<lambda>allow.
       requireR (mode = JStr ''policy-test'' \<longrightarrow> allow = JBool True)
         (ValueError ''synthetic_quality_gate_opt_in_required'')))))))))))"

definition automatic_fields :: "string list" where
  "automatic_fields = [''version'', ''mode'', ''run_id'', ''namespace'', ''rps'', ''concurrency'', ''requests'', ''duration'',
     ''api_retries'', ''allow_synthetic_gate_traffic'', ''expected_release'', ''operator_approval'']"

definition automatic_limits :: "(string \<times> json) list" where
  "automatic_limits = [(''mode'', JStr ''policy-test''), (''namespace'', JStr ''production''), (''rps'', JInt 2),
     (''concurrency'', JInt 1), (''requests'', JInt 2000), (''duration'', JInt 900), (''api_retries'', JInt 0),
     (''allow_synthetic_gate_traffic'', JBool True)]"

definition validate_automatic_policy :: "json \<Rightarrow> unit res" where
  "validate_automatic_policy config =
     bindR (requireR (keys_are automatic_fields config) (ValueError ''automatic_traffic_policy_mismatch'')) (\<lambda>_.
     bindR (andR (map (\<lambda>(k, v). get_eq k v config) automatic_limits)) (\<lambda>same.
       requireR same (ValueError ''automatic_traffic_policy_mismatch'')))"

section \<open>The release a run is bound to\<close>

record release_binding =
  rb_pair :: serving_pair
  rb_fingerprint :: string
  rb_authorization_id :: json
  rb_previous_stable :: serving_pair

definition binding :: "pylib \<Rightarrow> active_release \<Rightarrow> release_binding res" where
  "binding L a =
     bindR (case ac_authorization a of None \<Rightarrow> Inl (KeyError ''authorization'') | Some auth \<Rightarrow> Inr auth) (\<lambda>auth.
     bindR (jdeep [''evidence'', ''candidate'', ''event''] auth) (\<lambda>ev.
     bindR (validate_authorization L auth (Some (ac_pair a)) (Some (ac_fingerprint a)) ev) (\<lambda>_.
     bindR (jdeep [''evidence'', ''stable''] auth) (\<lambda>stable.
     bindR (if py_eq (pair_json (ac_previous_stable a)) stable
            then bindR (jdeep [''evidence'', ''stable_fingerprint''] auth) (\<lambda>f. Inr (f = JStr (ac_previous_fingerprint a)))
            else Inr False) (\<lambda>same.
     bindR (requireR same (ValueError ''Authorization baseline mismatch'')) (\<lambda>_.
     bindR (jget ''evidence_hash'' auth) (\<lambda>h.
       Inr \<lparr>rb_pair = ac_pair a, rb_fingerprint = ac_fingerprint a, rb_authorization_id = h,
            rb_previous_stable = ac_previous_stable a\<rparr>)))))))"

definition binding_json :: "release_binding \<Rightarrow> json" where
  "binding_json b = JObj
     [(''pair'', pair_json (rb_pair b)), (''fingerprint'', JStr (rb_fingerprint b)),
      (''authorization_id'', rb_authorization_id b), (''previous_stable'', pair_json (rb_previous_stable b))]"

section \<open>The objects of a run\<close>

definition rx_immutable_image :: "string \<Rightarrow> bool" where
  "rx_immutable_image s \<longleftrightarrow>
     CHR ''@'' \<in> set s \<and> before (CHR ''@'') s \<noteq> []
     \<and> list_all (\<lambda>c. alnum c \<or> c \<in> set ''./_-'') (before (CHR ''@'') s) \<and> rx_digest (after (CHR ''@'') s)"

definition run_identity :: "pylib \<Rightarrow> string \<Rightarrow> json \<Rightarrow> json \<Rightarrow> string \<Rightarrow> string" where
  "run_identity L script config payload img =
     lib_sha256 L (plain_dumps L (sort_keys (JObj
       [(''config'', config), (''payload'', payload), (''image'', JStr img), (''source'', JStr script)])))"

definition runner_labels :: json where
  "runner_labels = strings [(''app.kubernetes.io/name'', ''v2-e2e-runner'')]"

definition run_metadata :: "pylib \<Rightarrow> string \<Rightarrow> json \<Rightarrow> json \<Rightarrow> string \<Rightarrow> json" where
  "run_metadata L script config payload img = JObj
     [(''name'', JStr (''v2-e2e-'' @ text_setting ''run_id'' config)),
      (''namespace'', JStr (text_setting ''namespace'' config)), (''labels'', runner_labels),
      (''annotations'', strings
         [(''ml-template.io/e2e-identity'', run_identity L script config payload img),
          (''ml-template.io/synthetic-policy-test'', if text_setting ''mode'' config = ''policy-test'' then ''true'' else ''false'')])]"

definition runner_rules :: json where
  "runner_rules = JArr
     [JObj [(''apiGroups'', JArr [JStr []]), (''resources'', JArr [JStr ''configmaps'']),
            (''resourceNames'', JArr [JStr ''model-release-state-v2'']), (''verbs'', JArr [JStr ''get''])],
      JObj [(''apiGroups'', JArr [JStr ''apps'']), (''resources'', JArr [JStr ''deployments'']),
            (''resourceNames'', JArr [JStr ''credit-risk-stable-v2-predictor'', JStr ''credit-risk-canary-v2-predictor'']),
            (''verbs'', JArr [JStr ''get''])]]"

definition runner_container :: "string \<Rightarrow> json" where
  "runner_container img = JObj
     [(''name'', JStr ''runner''), (''image'', JStr img),
      (''command'', JArr (map JStr [''python'', ''/runner/runner.py'', ''--config'', ''/runner/config.json'', ''--payload'', ''/runner/payload.json''])),
      (''env'', JArr [strings [(''name'', ''AWS_EC2_METADATA_DISABLED''), (''value'', ''true'')]]),
      (''resources'', JObj [(''requests'', strings [(''cpu'', ''50m''), (''memory'', ''64Mi'')]),
                           (''limits'', strings [(''cpu'', ''500m''), (''memory'', ''256Mi'')])]),
      (''securityContext'', JObj [(''allowPrivilegeEscalation'', JBool False), (''readOnlyRootFilesystem'', JBool True),
                                 (''capabilities'', JObj [(''drop'', JArr [JStr ''ALL''])])]),
      (''volumeMounts'', JArr
         [JObj [(''name'', JStr ''runner''), (''mountPath'', JStr ''/runner''), (''readOnly'', JBool True)],
          strings [(''name'', ''evidence''), (''mountPath'', ''/evidence'')]])]"

definition runner_pod :: "string \<Rightarrow> string \<Rightarrow> json" where
  "runner_pod name img = JObj
     [(''serviceAccountName'', JStr name), (''restartPolicy'', JStr ''Never''),
      (''securityContext'', JObj
         [(''runAsNonRoot'', JBool True), (''runAsUser'', JInt 10001), (''runAsGroup'', JInt 10001), (''fsGroup'', JInt 10001),
          (''seccompProfile'', strings [(''type'', ''RuntimeDefault'')])]),
      (''containers'', JArr [runner_container img]),
      (''volumes'', JArr
         [JObj [(''name'', JStr ''runner''), (''configMap'', strings [(''name'', name)])],
          JObj [(''name'', JStr ''evidence''), (''emptyDir'', strings [(''sizeLimit'', ''32Mi'')])]])]"

definition run_job :: "json \<Rightarrow> string \<Rightarrow> string \<Rightarrow> int \<Rightarrow> json" where
  "run_job meta name img duration = JObj
     [(''apiVersion'', JStr ''batch/v1''), (''kind'', JStr ''Job''), (''metadata'', meta),
      (''spec'', JObj
         [(''backoffLimit'', JInt 0), (''activeDeadlineSeconds'', JInt (duration + 30)), (''ttlSecondsAfterFinished'', JInt 86400),
          (''template'', JObj [(''metadata'', JObj [(''labels'', runner_labels)]), (''spec'', runner_pod name img)])])]"

text \<open>\<open>render\<close>: the objects of the List, the Job last.\<close>

definition render_run :: "pylib \<Rightarrow> string \<Rightarrow> json \<Rightarrow> json \<Rightarrow> string \<Rightarrow> json list res" where
  "render_run L script config payload img =
     bindR (validate_config config) (\<lambda>_.
     bindR (requireR (rx_immutable_image img) (ValueError ''Immutable image required'')) (\<lambda>_.
     let meta = run_metadata L script config payload img; name = ''v2-e2e-'' @ text_setting ''run_id'' config;
         ns = text_setting ''namespace'' config
     in Inr
       [JObj [(''apiVersion'', JStr ''v1''), (''kind'', JStr ''ServiceAccount''), (''metadata'', meta)],
        JObj [(''apiVersion'', JStr ''rbac.authorization.k8s.io/v1''), (''kind'', JStr ''Role''), (''metadata'', meta),
              (''rules'', runner_rules)],
        JObj [(''apiVersion'', JStr ''rbac.authorization.k8s.io/v1''), (''kind'', JStr ''RoleBinding''), (''metadata'', meta),
              (''roleRef'', strings [(''apiGroup'', ''rbac.authorization.k8s.io''), (''kind'', ''Role''), (''name'', name)]),
              (''subjects'', JArr [strings [(''kind'', ''ServiceAccount''), (''name'', name), (''namespace'', ns)]])],
        JObj [(''apiVersion'', JStr ''v1''), (''kind'', JStr ''ConfigMap''), (''metadata'', meta), (''immutable'', JBool True),
              (''data'', strings [(''runner.py'', script), (''config.json'', plain_dumps L config), (''payload.json'', plain_dumps L payload)])],
        run_job meta name img (int_setting ''duration'' config)]))"

section \<open>The Job of an authorization\<close>

definition TRAFFIC_ACCOUNT :: string where
  "TRAFFIC_ACCOUNT = ''model-release-traffic-v2''"

definition JOB_PATH :: string where
  "JOB_PATH = ''/apis/batch/v1/namespaces/production/jobs''"

definition PAYLOAD_PATH :: string where
  "PAYLOAD_PATH = ''/app/scripts/e2e_v2/synthetic_credit_risk.json''"

definition traffic_run_id :: "release_binding \<Rightarrow> string" where
  "traffic_run_id b = ''auto-'' @ take 32 (drop 7 (str_of (rb_authorization_id b)))"

definition traffic_config :: "release_binding \<Rightarrow> string \<Rightarrow> json" where
  "traffic_config b approval = JObj
     [(''version'', JStr (sp_model_version (rb_pair b))), (''mode'', JStr ''policy-test''), (''run_id'', JStr (traffic_run_id b)),
      (''namespace'', JStr ''production''), (''rps'', JInt 2), (''concurrency'', JInt 1), (''requests'', JInt 2000),
      (''duration'', JInt 900), (''api_retries'', JInt 0), (''allow_synthetic_gate_traffic'', JBool True),
      (''expected_release'', binding_json b), (''operator_approval'', JStr approval)]"

definition only_evidence :: "json \<Rightarrow> json res" where
  "only_evidence items =
     bindR (jiter items) (\<lambda>xs. bindR (filterR (\<lambda>x. bindR (jget ''name'' x) (\<lambda>n. Inr (n = JStr ''evidence''))) xs) (\<lambda>ys.
       Inr (JArr ys)))"

definition traffic_container :: "pylib \<Rightarrow> json \<Rightarrow> json \<Rightarrow> json res" where
  "traffic_container L config c =
     bindR (jupdate
       [(''command'', JArr (map JStr [''python'', ''-m'', ''scripts.e2e_v2.runner''])),
        (''args'', JArr (map JStr [''--config-json'', plain_dumps L (sort_keys config), ''--payload'', PAYLOAD_PATH]))] c)
       (jmodify [''volumeMounts''] only_evidence)"

definition traffic_containers :: "pylib \<Rightarrow> json \<Rightarrow> json \<Rightarrow> json res" where
  "traffic_containers L config cs =
     (case cs of
        JArr (c # rest) \<Rightarrow> bindR (traffic_container L config c) (\<lambda>c'. Inr (JArr (c' # rest)))
      | _ \<Rightarrow> Inl IndexError)"

definition traffic_pod :: "pylib \<Rightarrow> json \<Rightarrow> json \<Rightarrow> json res" where
  "traffic_pod L config pod =
     bindR (jupdate [(''serviceAccountName'', JStr TRAFFIC_ACCOUNT), (''automountServiceAccountToken'', JBool True)] pod) (\<lambda>p.
     bindR (jmodify [''containers''] (traffic_containers L config) p) (jmodify [''volumes''] only_evidence))"

text \<open>The identifier of the authorization is a digest, which \<open>binding\<close> has checked.\<close>

definition render_job :: "pylib \<Rightarrow> string \<Rightarrow> json \<Rightarrow> active_release \<Rightarrow> string \<Rightarrow> string \<Rightarrow> json res" where
  "render_job L script payload a img approval =
     bindR (runtime_image (JStr img)) (\<lambda>_. bindR (ticket (JStr approval)) (\<lambda>_.
     bindR (binding L a) (\<lambda>b.
     let config = traffic_config b approval
     in bindR (render_run L script config payload img) (\<lambda>objects.
        bindR (jmodify [''spec''] (drop_key ''ttlSecondsAfterFinished'') (last objects)) (\<lambda>job.
        bindR (jmodify [''spec''] (jupdate [(''parallelism'', JInt 1), (''completions'', JInt 1)]) job) (\<lambda>job.
        bindR (jmodify [''spec'', ''template'', ''spec''] (traffic_pod L config) job) (\<lambda>job.
          jmodify [''metadata'', ''annotations'']
            (jupdate [(''ml-template.io/authorization-id'', rb_authorization_id b),
                      (''ml-template.io/operator-approval'', JStr approval)]) job)))))))"

section \<open>One tick\<close>

record 'w traffic =
  tr_enabled :: bool
  tr_image :: string
  tr_approval :: string
  tr_lib :: pylib
  tr_code :: string
  tr_payload :: json
  tr_request :: "'w kube_request"
  tr_effects :: "'w effects"

definition traffic_settings :: "env \<Rightarrow> (bool \<times> string \<times> string) res" where
  "traffic_settings e =
     (let flag = (case e ''V2_AUTOMATIC_TRAFFIC'' of Some v \<Rightarrow> v | None \<Rightarrow> ''false'');
          img = opt_json JStr (e ''V2_TRAFFIC_IMAGE''); approval = opt_json JStr (e ''V2_SYNTHETIC_GATE_APPROVAL'')
      in bindR (requireR (flag = ''true'' \<or> flag = ''false'') (ValueError ''Invalid automatic traffic opt-in'')) (\<lambda>_.
         if flag = ''true'' then bindR (runtime_image img) (\<lambda>_. bindR (ticket approval) (\<lambda>_. Inr (True, str_of img, str_of approval)))
         else Inr (False, str_of img, str_of approval)))"

datatype traffic_outcome = DISABLED | INERT | WAIT_READY | EXISTS

definition ramping :: "release_state \<Rightarrow> active_release option" where
  "ramping s =
     (case st_active s of
        None \<Rightarrow> None
      | Some a \<Rightarrow> if ac_phase a = RAMP \<and> rt_weight (st_route s) \<in> {10, 25, 50, 100} then Some a else None)"

text \<open>The annotations of the existing Job include those of the Job that would be created.\<close>

definition annotations_of :: "json \<Rightarrow> (string \<times> json) list res" where
  "annotations_of obj = bindR (jdeep [''metadata'', ''annotations''] obj) (\<lambda>a. Inr (entries a))"

definition job_matches :: "json \<Rightarrow> json option \<Rightarrow> bool res" where
  "job_matches job existing =
     (case existing of
        None \<Rightarrow> Inr False
      | Some obj \<Rightarrow>
          if \<not> truthy obj then Inr False
          else bindR (annotations_of job) (\<lambda>wanted.
               andR (map (\<lambda>(k, v). bindR (jget ''metadata'' obj) (\<lambda>m. bindR (jget_or ''annotations'' (JObj []) m) (\<lambda>found.
                 bindR (jget_or k JNull found) (\<lambda>x. Inr (py_eq x v))))) wanted)))"

definition create_job :: "'w traffic \<Rightarrow> json \<Rightarrow> ('w, unit) prog" where
  "create_job T job =
     catchP (bindP (tr_request T JOB_PATH ''POST'' (Some job)) (\<lambda>_. retP ()))
       (\<lambda>e. if e = Conflict then retP () else raiseP e)"

definition confirm_job :: "json \<Rightarrow> json option \<Rightarrow> ('w, traffic_outcome) prog" where
  "confirm_job job existing =
     bindP (liftP (job_matches job existing)) (\<lambda>same.
       if same then retP EXISTS else raiseP (ValueError ''Automatic traffic Job identity conflict''))"

definition start_traffic :: "'w traffic \<Rightarrow> active_release \<Rightarrow> json \<Rightarrow> string \<Rightarrow> ('w, traffic_outcome) prog" where
  "start_traffic T a job path =
     bindP (ef_ready (tr_effects T) ''canary'' (Some (ac_pair a)) (Some (ac_fingerprint a))) (\<lambda>canary.
       if \<not> canary then retP WAIT_READY
       else bindP (ef_ready (tr_effects T) ''stable'' (Some (ac_previous_stable a)) (Some (ac_previous_fingerprint a))) (\<lambda>stable.
         if \<not> stable then retP WAIT_READY
         else bindP (create_job T job) (\<lambda>_.
              bindP (tr_request T path ''GET'' None) (confirm_job job))))"

definition traffic_tick :: "'w traffic \<Rightarrow> release_state \<Rightarrow> ('w, traffic_outcome) prog" where
  "traffic_tick T s =
     (if \<not> tr_enabled T then retP DISABLED
      else case ramping s of
        None \<Rightarrow> retP INERT
      | Some a \<Rightarrow>
          bindP (liftP (binding (tr_lib T) a)) (\<lambda>b.
          bindP (liftP (requireR (st_stable s = Some (rb_previous_stable b)) (ValueError ''Stable baseline mismatch''))) (\<lambda>_.
          bindP (liftP (render_job (tr_lib T) (tr_code T) (tr_payload T) a (tr_image T) (tr_approval T))) (\<lambda>job.
          bindP (liftP (object_name job)) (\<lambda>name.
          let path = JOB_PATH @ ''/'' @ name
          in bindP (tr_request T path ''GET'' None) (\<lambda>existing.
               if existing = None then start_traffic T a job path else confirm_job job existing))))))"

end
