(* ===== verification/EndToEnd.thy ===== *)
theory EndToEnd
  imports AutoTraffic
begin

text \<open>
  The end-to-end runner: \<open>scripts/e2e_v2/runner.py\<close>. It observes one release in the durable state until
  the state proves how it ended and, when its configuration allows it, sends bounded synthetic
  traffic through the router. The cluster, the thread pool, the clock and the signal that cancels a
  run are programs; the event lines it prints are left out, and its summary is the result.
\<close>

section \<open>Observing one authorization\<close>

datatype verdict = Pending | Pass string | Fail string | Blocked string

definition row_get :: "string \<Rightarrow> audit_row \<Rightarrow> json" where
  "row_get k r = (case map_of (au_fields r) k of Some j \<Rightarrow> j | None \<Rightarrow> JNull)"

definition row_item :: "string \<Rightarrow> audit_row \<Rightarrow> json res" where
  "row_item k r = (case map_of (au_fields r) k of Some j \<Rightarrow> Inr j | None \<Rightarrow> Inl (KeyError k))"

text \<open>The rows from the last start of a release on; empty without one.\<close>

fun release_segment :: "audit_row list \<Rightarrow> audit_row list" where
  "release_segment [] = []"
| "release_segment (r # rs) =
     (case release_segment rs of
        [] \<Rightarrow> if au_reason r = ''release_started'' then r # rs else []
      | seg \<Rightarrow> seg)"

text \<open>
  The loop over the rows behind the start: the stages seen, the row that ended the release, and
  whether a row contradicts that end, which stops the loop.
\<close>

fun scan_segment :: "audit_row list \<Rightarrow> json list \<Rightarrow> audit_row option \<Rightarrow> (json list \<times> audit_row option \<times> bool) res" where
  "scan_segment [] stages ended = Inr (stages, ended, False)"
| "scan_segment (r # rs) stages (Some t) =
     (if au_reason r \<in> {''stage_promoted'', ''release_completed'', ''rollback_completed''} then Inr (stages, Some t, True)
      else scan_segment rs stages (Some t))"
| "scan_segment (r # rs) stages None =
     (if au_reason r = ''stage_promoted''
      then bindR (row_item ''previous_weight'' r) (\<lambda>w. scan_segment rs (stages @ [w]) None)
      else if au_reason r \<in> {''release_completed'', ''rollback_completed''} then scan_segment rs stages (Some r)
      else scan_segment rs stages None)"

definition stable_is :: "release_state \<Rightarrow> json \<Rightarrow> bool" where
  "stable_is s j = py_eq (opt_json pair_json (st_stable s)) j"

definition expected_run :: "pylib \<Rightarrow> json \<Rightarrow> release_state \<Rightarrow> json \<Rightarrow> unit res" where
  "expected_run L config s expected =
     bindR (jget ''mode'' config) (\<lambda>mode.
     bindR (if mode \<noteq> JStr ''policy-test'' then Inr False
            else bindR (jget ''version'' config) (\<lambda>v. bindR (jdeep [''pair'', ''model_version''] expected) (\<lambda>w.
                 Inr (py_eq v w \<and> st_schema_version s = 2 \<and> st_model_name s = ''credit-risk-classifier'')))) (\<lambda>ok.
     bindR (requireR ok (ValueError ''unexpected_automatic_release'')) (\<lambda>_.
       case st_active s of
         None \<Rightarrow> Inr ()
       | Some a \<Rightarrow> bindR (binding L a) (\<lambda>b.
           requireR (py_eq (binding_json b) expected) (ValueError ''automatic_release_identity_changed'')))))"

text \<open>A release under way: the stable pair is the one its phase calls for.\<close>

definition observe_active :: "release_state \<Rightarrow> active_release \<Rightarrow> json \<Rightarrow> audit_row option \<Rightarrow> verdict res" where
  "observe_active s a expected ended =
     (if ended \<noteq> None then Inr (Blocked ''conflicting_terminal_evidence'')
      else if ac_phase a = BLOCKED then Inr (Blocked ''controller_blocked'')
      else bindR (jget ''previous_stable'' expected) (\<lambda>before_pair. bindR (jget ''pair'' expected) (\<lambda>after_pair.
        bindR (requireR
          (case ac_phase a of
             DRAINING \<Rightarrow> stable_is s after_pair
           | ROLLBACK \<Rightarrow> stable_is s before_pair \<or> stable_is s after_pair
           | _ \<Rightarrow> stable_is s before_pair) (ValueError ''automatic_stable_changed'')) (\<lambda>_. Inr Pending))))"

definition observe_completed :: "release_state \<Rightarrow> json \<Rightarrow> json list \<Rightarrow> audit_row \<Rightarrow> verdict res" where
  "observe_completed s expected stages t =
     bindR (jget ''pair'' expected) (\<lambda>p.
       Inr (if \<not> py_eq (row_get ''pair'' t) p \<or> \<not> stable_is s p then Blocked ''terminal_pair_mismatch''
            else if \<not> py_eq (JArr stages) (JArr [JInt 10, JInt 25, JInt 50, JInt 100]) then Blocked ''incomplete_stage_evidence''
            else Pass ''release_completed''))"

definition failures_of :: "release_state \<Rightarrow> json \<Rightarrow> failure list" where
  "failures_of s p = filter (\<lambda>x. py_eq (pair_json (fl_pair x)) p) (st_failed s)"

definition rollback_details :: "audit_row list \<Rightarrow> json list" where
  "rollback_details rows = map (row_get ''detail'') (filter (\<lambda>r. au_reason r = ''rollback_requested'') rows)"

definition observe_rolled_back :: "release_state \<Rightarrow> json \<Rightarrow> audit_row list \<Rightarrow> audit_row \<Rightarrow> verdict res" where
  "observe_rolled_back s expected rows t =
     bindR (jget ''pair'' expected) (\<lambda>p. bindR (jget ''previous_stable'' expected) (\<lambda>q.
       case failures_of s p of
         [f] \<Rightarrow>
           if \<not> py_eq (row_get ''previous_stable'' t) q \<or> \<not> stable_is s q then Inr (Blocked ''rollback_identity_mismatch'')
           else let reasons = rollback_details rows
                in if reasons = [] \<or> last reasons \<noteq> JStr (fl_reason f) then Inr (Blocked ''rollback_reason_mismatch'')
                   else Inr (Fail (fl_reason f))
       | _ \<Rightarrow> Inr (Blocked ''rollback_identity_mismatch'')))"

definition observe_ended :: "release_state \<Rightarrow> json \<Rightarrow> audit_row list \<Rightarrow> json list \<Rightarrow> audit_row option \<Rightarrow> verdict res" where
  "observe_ended s expected rows stages ended =
     (case ended of
        None \<Rightarrow> Inr (Blocked ''missing_exact_terminal_evidence'')
      | Some t \<Rightarrow>
          bindR (jget ''authorization_id'' expected) (\<lambda>h.
            if \<not> py_eq (row_get ''authorization_id'' t) h \<or> rt_weight (st_route s) \<noteq> 0
            then Inr (Blocked ''missing_exact_terminal_evidence'')
            else if au_reason t = ''release_completed'' then observe_completed s expected stages t
            else observe_rolled_back s expected rows t))"

definition observe_segment :: "release_state \<Rightarrow> json \<Rightarrow> audit_row list \<Rightarrow> (verdict \<times> json list) res" where
  "observe_segment s expected rows =
     bindR (scan_segment (tl rows) [] None) (\<lambda>(stages, ended, conflict).
       if conflict then Inr (Blocked ''conflicting_terminal_evidence'', stages)
       else bindR (case st_active s of
                     Some a \<Rightarrow> observe_active s a expected ended
                   | None \<Rightarrow> observe_ended s expected rows stages ended) (\<lambda>v. Inr (v, stages)))"

definition automatic_observation :: "pylib \<Rightarrow> json \<Rightarrow> release_state \<Rightarrow> (verdict \<times> json list) res" where
  "automatic_observation L config s =
     bindR (jget ''expected_release'' config) (\<lambda>expected.
     bindR (expected_run L config s expected) (\<lambda>_.
       case release_segment (st_audit s) of
         [] \<Rightarrow> Inr (Blocked ''missing_exact_release_evidence'', [])
       | start # rest \<Rightarrow>
           bindR (jget ''pair'' expected) (\<lambda>p.
           bindR (if py_eq (row_get ''pair'' start) p
                  then bindR (jget ''authorization_id'' expected) (\<lambda>h. Inr (py_eq (row_get ''authorization_id'' start) h))
                  else Inr False) (\<lambda>same.
             if \<not> same then Inr (Blocked ''conflicting_release_evidence'', [])
             else observe_segment s expected (start # rest)))))"

text \<open>A run may send only while the release it is bound to ramps.\<close>

definition exact_ramp :: "pylib \<Rightarrow> json \<Rightarrow> release_state \<Rightarrow> unit res" where
  "exact_ramp L config s =
     (if \<not> jhas ''expected_release'' config then Inr ()
      else bindR (jget ''expected_release'' config) (\<lambda>expected.
           bindR (jget ''mode'' config) (\<lambda>mode.
           bindR (case st_active s of
                    None \<Rightarrow> Inr False
                  | Some a \<Rightarrow>
                      if mode \<noteq> JStr ''policy-test'' \<or> ac_phase a \<noteq> RAMP \<or> rt_weight (st_route s) \<notin> {10, 25, 50, 100} then Inr False
                      else bindR (binding L a) (\<lambda>b. if \<not> py_eq (binding_json b) expected then Inr False
                           else bindR (jget ''previous_stable'' expected) (\<lambda>q. Inr (stable_is s q)))) (\<lambda>exact.
             requireR exact (ValueError ''automatic_release_identity_or_phase_changed'')))))"

section \<open>Observing a version\<close>

definition has_version :: "string \<Rightarrow> serving_pair \<Rightarrow> bool" where
  "has_version target p \<longleftrightarrow> sp_model_version p = target"

definition admit_baseline :: "release_state \<Rightarrow> string \<Rightarrow> unit res" where
  "admit_baseline s target =
     requireR (st_active s = None \<and> (case st_stable s of Some p \<Rightarrow> has_version target p | None \<Rightarrow> False) \<and> rt_weight (st_route s) = 0)
       (ValueError ''baseline_not_idle_or_wrong_version'')"

definition admit_release :: "release_state \<Rightarrow> string \<Rightarrow> unit res" where
  "admit_release s target =
     bindR (requireR (\<not> (list_ex (has_version target) (st_processed s) \<or> list_ex (\<lambda>x. has_version target (fl_pair x)) (st_failed s)))
              (ValueError ''replay_rejected'')) (\<lambda>_.
     bindR (requireR (case st_active s of Some a \<Rightarrow> has_version target (ac_pair a) | None \<Rightarrow> True)
              (ValueError ''conflicting_release'')) (\<lambda>_.
     if st_active s \<noteq> None \<or> list_ex (\<lambda>x. ev_model_version (it_event x) = target) (st_pending s) then Inr ()
     else bindR (py_int target) (\<lambda>v. requireR (\<not> v \<le> st_highest_accepted s) (ValueError ''stale_target''))))"

definition admit :: "release_state \<Rightarrow> string \<Rightarrow> string \<Rightarrow> unit res" where
  "admit s target mode =
     bindR (requireR (st_schema_version s = 2 \<and> st_model_name s = ''credit-risk-classifier'') (ValueError ''unexpected_state'')) (\<lambda>_.
       if mode = ''baseline'' then admit_baseline s target else admit_release s target)"

definition KNOWN_FAILURES :: "string list" where
  "KNOWN_FAILURES = [''insufficient_canary_traffic'', ''invalid_canary_metrics'', ''backend_unhealthy'', ''errors'', ''latency'']"

text \<open>\<open>row.get("pair", {}).get("model_version") == target\<close>.\<close>

definition row_version :: "string \<Rightarrow> audit_row \<Rightarrow> bool res" where
  "row_version target r =
     (case map_of (au_fields r) ''pair'' of None \<Rightarrow> Inr False | Some p \<Rightarrow> get_eq ''model_version'' (JStr target) p)"

fun collect_rows :: "string \<Rightarrow> audit_row list \<Rightarrow> bool \<Rightarrow> json list \<Rightarrow> bool \<Rightarrow> (json list \<times> bool) res" where
  "collect_rows target [] collecting stages completed = Inr (stages, completed)"
| "collect_rows target (r # rs) collecting stages completed =
     bindR (if au_reason r = ''release_started'' then row_version target r else Inr collecting) (\<lambda>now.
     bindR (if now \<and> au_reason r = ''stage_promoted'' then bindR (row_item ''previous_weight'' r) (\<lambda>w. Inr (stages @ [w]))
            else Inr stages) (\<lambda>seen.
     bindR (if now \<and> au_reason r = ''release_completed'' then row_version target r else Inr False) (\<lambda>done.
       collect_rows target rs (now \<and> \<not> done) seen (completed \<or> done))))"

definition all_stages :: "json list \<Rightarrow> bool" where
  "all_stages stages = list_all (\<lambda>w. list_ex (\<lambda>x. py_eq x (JInt w)) stages) [10, 25, 50, 100]"

definition observation :: "release_state \<Rightarrow> string \<Rightarrow> (verdict \<times> json list) res" where
  "observation s target =
     (case first_such (\<lambda>x. has_version target (fl_pair x)) (st_failed s) of
        Some f \<Rightarrow> Inr (Fail (if fl_reason f \<in> set KNOWN_FAILURES then fl_reason f else ''controller_rollback''), [])
      | None \<Rightarrow>
          bindR (collect_rows target (st_audit s) False [] False) (\<lambda>(stages, completed).
            case st_active s of
              Some a \<Rightarrow>
                Inr (if \<not> has_version target (ac_pair a) then Blocked ''conflicting_release''
                     else if ac_phase a = BLOCKED then Blocked ''controller_blocked'' else Pending, stages)
            | None \<Rightarrow>
                if \<not> completed then Inr (Pending, stages)
                else (case st_stable s of
                        None \<Rightarrow> Inl (TypeError ''not subscriptable'')
                      | Some p \<Rightarrow>
                          Inr (if has_version target p \<and> rt_weight (st_route s) = 0
                               then (if all_stages stages then Pass ''release_completed'' else Blocked ''incomplete_stage_evidence'')
                               else Pending, stages))))"

section \<open>Payloads and deployments\<close>

definition positive_int :: "json \<Rightarrow> bool" where
  "positive_int j = (case j of JInt i \<Rightarrow> 1 \<le> i | _ \<Rightarrow> False)"

definition int_value :: "json \<Rightarrow> int" where
  "int_value j = (case j of JInt i \<Rightarrow> i | _ \<Rightarrow> 0)"

definition shape_accepts :: "json list \<Rightarrow> json list \<Rightarrow> bool" where
  "shape_accepts expected shape =
     (length expected = length shape
      \<and> list_all (\<lambda>(a, b). a = JNull \<or> py_eq a (JInt (-1)) \<or> py_eq a b) (zip expected shape))"

text \<open>\<open>{x["name"]: x for x in inputs}[name]\<close>: the last entry of the name.\<close>

definition field_named :: "json list \<Rightarrow> json \<Rightarrow> json res" where
  "field_named columns name =
     (case first_such (\<lambda>f. jget ''name'' f = Inr name) (rev columns) of
        Some f \<Rightarrow> Inr f | None \<Rightarrow> Inl (KeyError ''name''))"

definition payload_input :: "json list \<Rightarrow> json \<Rightarrow> unit res" where
  "payload_input columns item =
     bindR (jget ''name'' item) (\<lambda>name. bindR (field_named columns name) (\<lambda>field.
     bindR (jget_or ''datatype'' JNull item) (\<lambda>t. bindR (jget ''datatype'' field) (\<lambda>u.
     bindR (jget_or ''data'' JNull item) (\<lambda>data. bindR (jget_or ''shape'' JNull item) (\<lambda>shape.
     bindR (requireR (py_eq t u \<and> truthy data \<and> truthy shape) (ValueError ''model_input_contract_mismatch'')) (\<lambda>_.
     bindR (jiter shape) (\<lambda>dims. bindR (jlen data) (\<lambda>n.
     bindR (requireR (list_all positive_int dims \<and> prod_list (map int_value dims) = int n)
              (ValueError ''model_input_shape_mismatch'')) (\<lambda>_.
     bindR (jget_or ''shape'' JNull field) (\<lambda>want.
     bindR (if truthy want then bindR (jiter want) (\<lambda>es.
              requireR (shape_accepts es dims) (ValueError ''model_input_shape_mismatch'')) else Inr ()) (\<lambda>_.
     bindR (jiter data) (\<lambda>xs.
       requireR (list_all (\<lambda>x. case x of JFlt f \<Rightarrow> flt_finite f | _ \<Rightarrow> True) xs) (ValueError ''nonfinite_input''))))))))))))))"

definition validate_payload :: "pylib \<Rightarrow> json \<Rightarrow> json \<Rightarrow> unit res" where
  "validate_payload L payload metadata =
     bindR (jget_or ''inputs'' JNull payload) (\<lambda>inputs.
     bindR (requireR (set (map fst (entries payload)) \<subseteq> {''inputs'', ''parameters'', ''id''} \<and> is_list inputs)
              (ValueError ''invalid_v2_payload'')) (\<lambda>_.
     bindR (jget ''inputs'' metadata) (\<lambda>ms. bindR (jiter ms) (\<lambda>columns.
     bindR (mapR (jget ''name'') columns) (\<lambda>names.
     bindR (mapR (jget_or ''name'' JNull) (list_of inputs)) (\<lambda>given.
     bindR (requireR (length given = length (remdups names) \<and> set given = set names) (ValueError ''model_signature_mismatch'')) (\<lambda>_.
     bindR (forR (payload_input columns) (list_of inputs)) (\<lambda>_.
       requireR (int (length (plain_dumps L payload)) \<le> 65536) (ValueError ''payload_too_large'')))))))))"

definition deployment_matches :: "json \<Rightarrow> serving_pair \<Rightarrow> bool \<Rightarrow> bool res" where
  "deployment_matches obj p allow_scaling =
     bindR (jget_or ''spec'' (JObj []) obj) (\<lambda>spec. bindR (jget_or ''status'' (JObj []) obj) (\<lambda>status.
     bindR (get_number ''replicas'' spec) (\<lambda>desired.
     bindR (jget_or ''template'' (JObj []) spec) (\<lambda>template.
     bindR (jpath [''metadata'', ''annotations''] template) (\<lambda>ann.
     bindR (jget_or ''spec'' (JObj []) template) (\<lambda>pod. bindR (jget_or ''containers'' (JArr []) pod) (\<lambda>cs.
     bindR (get_number ''replicas'' status) (\<lambda>actual.
     let minimum = (if allow_scaling then JInt 1 else desired)
     in andR
       [jlt (JInt 0) desired, jlt (JInt 0) actual,
        bindR (get_number ''observedGeneration'' status) (\<lambda>seen. bindR (jdeep [''metadata'', ''generation''] obj) (\<lambda>g. jle g seen)),
        bindR (get_number ''updatedReplicas'' status) (\<lambda>u. Inr (py_eq u actual)),
        Inr (allow_scaling \<or> py_eq actual desired),
        bindR (get_number ''readyReplicas'' status) (\<lambda>r. jle minimum r),
        bindR (get_number ''availableReplicas'' status) (\<lambda>r. jle minimum r),
        get_eq VERSION_ANNOTATION (JStr (sp_model_version p)) ann,
        get_eq ''internal.serving.kserve.io/storage-initializer-sourceuri'' (JStr (sp_storage_uri p)) ann,
        bindR (jiter cs) (\<lambda>xs. orR (map (serving_container (sp_runtime_digest p)) xs))]))))))))"
end
