(* ===== verification/Runner.thy ===== *)
theory Runner
  imports EndToEnd
begin

text \<open>
  The loop of the end-to-end runner: \<open>Live\<close>, \<open>execute\<close> and \<open>main\<close> of \<open>scripts/e2e_v2/runner.py\<close>. A
  session holds the counters, the clock marks and the requests in flight of one run; each turn of
  the loop is a program that says whether the loop goes on. The client (the API server, the router,
  the thread pool, the clock, the signals) is a parameter. The loop gets fuel; without fuel left it
  returns \<open>None\<close>, and \<open>RunnerProperties\<close> shows how much fuel is enough.
\<close>

section \<open>The client\<close>

record sample =
  sa_status :: int
  sa_track :: string

record ('w, 'f) client =
  cl_state :: "('w, release_state) prog"
  cl_ready :: "('w, bool) prog"
  cl_metadata :: "string \<Rightarrow> ('w, json) prog"
  cl_deployment :: "string \<Rightarrow> ('w, json) prog"
  cl_submit :: "string \<Rightarrow> string \<Rightarrow> ('w, 'f) prog"
  cl_done :: "'f \<Rightarrow> ('w, bool) prog"
  cl_result :: "'f \<Rightarrow> ('w, sample) prog"
  cl_join :: "('w, unit) prog"
  cl_clock :: "('w, rat) prog"
  cl_sleep :: "rat \<Rightarrow> ('w, unit) prog"
  cl_cancelled :: "('w, bool) prog"

definition verify_pair :: "('w, 'f) client \<Rightarrow> string \<Rightarrow> serving_pair \<Rightarrow> bool \<Rightarrow> ('w, bool) prog" where
  "verify_pair C lane p allow_scaling =
     bindP (cl_deployment C lane) (\<lambda>obj. liftP (deployment_matches obj p allow_scaling))"

text \<open>
  What \<open>send\<close> makes of a response: its status, the number of bytes read of the body (at most one more
  than a MiB), the body as JSON where it is some, and the track header.
\<close>

datatype response = Response int nat "json res" "string option" | NoResponse

definition has_data :: "json \<Rightarrow> bool res" where
  "has_data x =
     (case x of
        JObj kvs \<Rightarrow> Inr (''data'' \<in> set (map fst kvs))
      | JArr xs \<Rightarrow> Inr (list_ex (py_eq (JStr ''data'')) xs)
      | JStr s \<Rightarrow> Inr (contains ''data'' s)
      | _ \<Rightarrow> Inl (TypeError ''argument is not iterable''))"

definition complete_answer :: "json \<Rightarrow> bool res" where
  "complete_answer obj =
     bindR (jget_or ''outputs'' JNull obj) (\<lambda>outputs.
       if \<not> truthy outputs then Inr False
       else bindR (jiter outputs) (\<lambda>xs. andR (map has_data xs)))"

definition answer_status :: "int \<Rightarrow> nat \<Rightarrow> json res \<Rightarrow> int" where
  "answer_status status n body =
     (if 200 \<le> status \<and> status < 300 \<and> \<not> (n \<le> 1048576 \<and> bindR body complete_answer = Inr True) then 502 else status)"

definition send_outcome :: "response \<Rightarrow> sample" where
  "send_outcome r =
     (case r of
        NoResponse \<Rightarrow> \<lparr>sa_status = 0, sa_track = ''unknown''\<rparr>
      | Response status n body track \<Rightarrow>
          \<lparr>sa_status = answer_status status n body,
           sa_track = (if track \<in> {Some ''stable'', Some ''canary''} then the track else ''unknown'')\<rparr>)"

section \<open>The session\<close>

record counts =
  cn_requests :: nat
  cn_errors :: nat
  cn_stable :: nat
  cn_canary :: nat

record ('w, 'f) session =
  se_world :: 'w
  se_state :: release_state
  se_counts :: counts
  se_stages :: "json list"
  se_outcome :: string
  se_reason :: string
  se_futures :: "'f list"
  se_next_send :: rat
  se_next_poll :: rat
  se_failures :: int

datatype flow = GoOn | Again | Stop

definition outside :: "('w, 'a) prog \<Rightarrow> (('w, 'f) session, 'a) prog" where
  "outside m = (\<lambda>u. case m (se_world u) of (r, w) \<Rightarrow> (r, u\<lparr>se_world := w\<rparr>))"

definition changed :: "(('w, 'f) session \<Rightarrow> ('w, 'f) session) \<Rightarrow> (('w, 'f) session, unit) prog" where
  "changed f = (\<lambda>u. (Inr (), f u))"

definition seen :: "(('w, 'f) session \<Rightarrow> 'a) \<Rightarrow> (('w, 'f) session, 'a) prog" where
  "seen f = (\<lambda>u. (Inr (f u), u))"

definition ended :: "string \<Rightarrow> string \<Rightarrow> (('w, 'f) session, flow) prog" where
  "ended outcome reason = (\<lambda>u. (Inr Stop, u\<lparr>se_outcome := outcome, se_reason := reason\<rparr>))"

fun verdict_parts :: "verdict \<Rightarrow> (string \<times> string) option" where
  "verdict_parts Pending = None"
| "verdict_parts (Pass d) = Some (''PASS'', d)"
| "verdict_parts (Fail d) = Some (''FAIL'', d)"
| "verdict_parts (Blocked d) = Some (''BLOCKED'', d)"

text \<open>\<open>stages.update(seen)\<close> on a set, kept without repetitions, and \<open>sorted(stages)\<close>.\<close>

fun add_stages :: "json list \<Rightarrow> json list \<Rightarrow> json list res" where
  "add_stages known [] = Inr known"
| "add_stages known (x # xs) =
     (if is_list x \<or> is_dict x then Inl (TypeError ''unhashable type'')
      else add_stages (if list_ex (py_eq x) known then known else known @ [x]) xs)"

fun insert_json :: "json \<Rightarrow> json list \<Rightarrow> json list res" where
  "insert_json x [] = Inr [x]"
| "insert_json x (y # ys) = bindR (jlt y x) (\<lambda>b. if b then bindR (insert_json x ys) (\<lambda>zs. Inr (y # zs)) else Inr (x # y # ys))"

definition sorted_stages :: "json list \<Rightarrow> json list res" where
  "sorted_stages xs = foldR insert_json xs []"

definition record_stages :: "json list \<Rightarrow> (('w, 'f) session, unit) prog" where
  "record_stages xs =
     bindP (seen se_stages) (\<lambda>known. bindP (liftP (add_stages known xs)) (\<lambda>all. changed (se_stages_update (\<lambda>_. all))))"

definition is_success :: "int \<Rightarrow> bool" where
  "is_success status \<longleftrightarrow> 200 \<le> status \<and> status < 300"

definition count_sample :: "sample \<Rightarrow> counts \<Rightarrow> counts" where
  "count_sample x c =
     (let ok = is_success (sa_status x); known = sa_track x \<in> {''stable'', ''canary''}
      in \<lparr>cn_requests = cn_requests c + 1,
          cn_errors = cn_errors c + (if ok then 0 else 1) + (if \<not> known \<and> ok then 1 else 0),
          cn_stable = cn_stable c + (if sa_track x = ''stable'' then 1 else 0),
          cn_canary = cn_canary c + (if sa_track x = ''canary'' then 1 else 0)\<rparr>)"

definition collect :: "('w, 'f) client \<Rightarrow> 'f \<Rightarrow> (('w, 'f) session, unit) prog" where
  "collect C f = bindP (outside (cl_result C f)) (\<lambda>x. changed (se_counts_update (count_sample x)))"

fun collect_done :: "('w, 'f) client \<Rightarrow> 'f list \<Rightarrow> (('w, 'f) session, unit) prog" where
  "collect_done C [] = retP ()"
| "collect_done C (f # fs) =
     bindP (outside (cl_done C f)) (\<lambda>finished.
     thenP (whenP finished (thenP (collect C f) (changed (se_futures_update (remove1 f)))))
       (collect_done C fs))"

fun collect_all :: "('w, 'f) client \<Rightarrow> 'f list \<Rightarrow> (('w, 'f) session, unit) prog" where
  "collect_all C [] = retP ()"
| "collect_all C (f # fs) = thenP (collect C f) (collect_all C fs)"

section \<open>One turn of the loop\<close>

text \<open>\<open>time.sleep\<close> rejects a negative duration.\<close>

definition nap :: "('w, 'f) client \<Rightarrow> rat \<Rightarrow> (('w, 'f) session, unit) prog" where
  "nap C d = (if d < 0 then raiseP (ValueError ''sleep length must be non-negative'') else outside (cl_sleep C d))"

definition clock :: "('w, 'f) client \<Rightarrow> (('w, 'f) session, rat) prog" where
  "clock C = outside (cl_clock C)"

definition stable_pair :: "(('w, 'f) session, serving_pair) prog" where
  "stable_pair =
     bindP (seen se_state) (\<lambda>s. case st_stable s of Some p \<Rightarrow> retP p | None \<Rightarrow> raiseP (TypeError ''not subscriptable''))"

definition is_mode :: "string \<Rightarrow> json \<Rightarrow> bool" where
  "is_mode m config \<longleftrightarrow> text_setting ''mode'' config = m"

definition automatic :: "json \<Rightarrow> bool" where
  "automatic config \<longleftrightarrow> jhas ''expected_release'' config"

definition observed :: "pylib \<Rightarrow> json \<Rightarrow> release_state \<Rightarrow> (verdict \<times> json list) res" where
  "observed L config s =
     (if automatic config then automatic_observation L config s else observation s (text_setting ''version'' config))"

text \<open>Reading the state, with its retries.\<close>

definition failed_poll :: "('w, 'f) client \<Rightarrow> json \<Rightarrow> rat \<Rightarrow> (('w, 'f) session, flow) prog" where
  "failed_poll C config started =
     thenP (changed (se_failures_update (\<lambda>n. n + 1))) (bindP (seen se_failures) (\<lambda>n.
       if n > int_setting ''api_retries'' config then ended ''BLOCKED'' ''kubernetes_unavailable''
       else bindP (clock C) (\<lambda>t.
              thenP (nap C (min 1 (of_int (int_setting ''duration'' config) - (t - started)))) (retP Again))))"

definition poll_release :: "pylib \<Rightarrow> ('w, 'f) client \<Rightarrow> json \<Rightarrow> (('w, 'f) session, flow) prog" where
  "poll_release L C config =
     bindP (seen se_state) (\<lambda>s. bindP (liftP (observed L config s)) (\<lambda>(v, stages).
     thenP (record_stages stages)
       (case verdict_parts v of
          Some (outcome, reason) \<Rightarrow> ended outcome reason
        | None \<Rightarrow> bindP (seen se_stages) (\<lambda>xs. bindP (liftP (sorted_stages xs)) (\<lambda>_. retP GoOn)))))"

definition poll_baseline :: "('w, 'f) client \<Rightarrow> json \<Rightarrow> (('w, 'f) session, flow) prog" where
  "poll_baseline C config =
     bindP (seen se_state) (\<lambda>s. bindP (liftP (admit s (text_setting ''version'' config) ''baseline'')) (\<lambda>_.
     bindP stable_pair (\<lambda>p. bindP (outside (verify_pair C ''stable'' p True)) (\<lambda>ok.
       if ok then retP GoOn
       else thenP (nap C (1 / 10)) (bindP (clock C) (\<lambda>t. thenP (changed (se_next_poll_update (\<lambda>_. t))) (retP Again)))))))"

definition take_state :: "release_state \<Rightarrow> (('w, 'f) session, unit) prog" where
  "take_state s = changed (\<lambda>u. u\<lparr>se_state := s, se_failures := 0\<rparr>)"

definition poll_state :: "pylib \<Rightarrow> ('w, 'f) client \<Rightarrow> json \<Rightarrow> rat \<Rightarrow> (('w, 'f) session, flow) prog" where
  "poll_state L C config started =
     attemptP (outside (cl_state C)) (\<lambda>r. case r of
         Inl e \<Rightarrow> if is_transport_error e then failed_poll C config started else raiseP e
       | Inr s \<Rightarrow>
           thenP (take_state s) (bindP (clock C) (\<lambda>t.
           thenP (changed (se_next_poll_update (\<lambda>_. t + 1)))
             (if is_mode ''baseline'' config then poll_baseline C config else poll_release L C config))))"

definition poll :: "pylib \<Rightarrow> ('w, 'f) client \<Rightarrow> json \<Rightarrow> rat \<Rightarrow> (('w, 'f) session, flow) prog" where
  "poll L C config started =
     bindP (clock C) (\<lambda>t. bindP (seen se_next_poll) (\<lambda>due.
       if t \<ge> due then poll_state L C config started else retP GoOn))"

text \<open>The checks in front of a request.\<close>

definition must :: "bool \<Rightarrow> string \<Rightarrow> (('w, 'f) session, unit) prog" where
  "must ok reason = liftP (requireR ok (ValueError reason))"

definition same_ramp :: "pylib \<Rightarrow> ('w, 'f) client \<Rightarrow> json \<Rightarrow> (('w, 'f) session, flow) prog" where
  "same_ramp L C config =
     bindP (outside (cl_state C)) (\<lambda>s. thenP (changed (se_state_update (\<lambda>_. s)))
     (bindP (liftP (automatic_observation L config s)) (\<lambda>(v, _).
       if v \<noteq> Pending \<or> (case st_active s of Some a \<Rightarrow> ac_phase a \<noteq> RAMP | None \<Rightarrow> True)
       then bindP (clock C) (\<lambda>t. thenP (changed (se_next_poll_update (\<lambda>_. t))) (retP Again))
       else bindP (liftP (exact_ramp L config s)) (\<lambda>_. retP GoOn))))"

definition check_candidate :: "pylib \<Rightarrow> ('w, 'f) client \<Rightarrow> json \<Rightarrow> (('w, 'f) session, unit) prog" where
  "check_candidate L C payload =
     bindP (seen se_state) (\<lambda>s. case st_active s of
         None \<Rightarrow> raiseP (TypeError ''not subscriptable'')
       | Some a \<Rightarrow>
           bindP (outside (verify_pair C ''canary'' (ac_pair a) False)) (\<lambda>ok.
           thenP (must ok ''backend_identity_not_ready'')
           (bindP (outside (cl_metadata C ''canary'')) (\<lambda>m. bindP (liftP (validate_payload L payload m)) (\<lambda>_.
            bindP (outside (cl_metadata C ''stable'')) (\<lambda>m. liftP (validate_payload L payload m)))))))"

definition check_stable :: "('w, 'f) client \<Rightarrow> (('w, 'f) session, unit) prog" where
  "check_stable C =
     bindP (outside (cl_ready C)) (\<lambda>ready. thenP (must ready ''router_not_ready'')
     (bindP stable_pair (\<lambda>p. bindP (outside (verify_pair C ''stable'' p False)) (\<lambda>ok. must ok ''stable_identity_not_ready''))))"

definition before_policy_send :: "pylib \<Rightarrow> ('w, 'f) client \<Rightarrow> json \<Rightarrow> json \<Rightarrow> (('w, 'f) session, flow) prog" where
  "before_policy_send L C config payload =
     (if \<not> automatic config then thenP (check_candidate L C payload) (retP GoOn)
      else bindP (same_ramp L C config) (\<lambda>fl.
           if fl \<noteq> GoOn then retP fl
           else thenP (check_stable C) (thenP (check_candidate L C payload) (retP GoOn))))"

definition before_automatic_send :: "pylib \<Rightarrow> ('w, 'f) client \<Rightarrow> json \<Rightarrow> (('w, 'f) session, flow) prog" where
  "before_automatic_send L C config =
     bindP (same_ramp L C config) (\<lambda>fl.
       if fl \<noteq> GoOn then retP fl
       else bindP (outside (cl_cancelled C)) (\<lambda>cancelled.
            if cancelled then ended ''BLOCKED'' ''cancelled'' else retP GoOn))"

definition submit :: "('w, 'f) client \<Rightarrow> json \<Rightarrow> string \<Rightarrow> (('w, 'f) session, unit) prog" where
  "submit C config body =
     bindP (outside (cl_submit C body (text_setting ''run_id'' config))) (\<lambda>f.
     thenP (changed (se_futures_update (\<lambda>fs. fs @ [f])))
     (bindP (clock C) (\<lambda>t. changed (se_next_send_update (\<lambda>_. t + 1 / of_int (int_setting ''rps'' config))))))"

definition send_one :: "pylib \<Rightarrow> ('w, 'f) client \<Rightarrow> json \<Rightarrow> json \<Rightarrow> string \<Rightarrow> (('w, 'f) session, flow) prog" where
  "send_one L C config payload body =
     bindP (if is_mode ''policy-test'' config then before_policy_send L C config payload else retP GoOn) (\<lambda>fl.
       if fl \<noteq> GoOn then retP fl
       else bindP (if automatic config then before_automatic_send L C config else retP GoOn) (\<lambda>fl.
            if fl \<noteq> GoOn then retP fl else thenP (submit C config body) (retP GoOn)))"

definition wants_traffic :: "json \<Rightarrow> release_state \<Rightarrow> bool" where
  "wants_traffic config s \<longleftrightarrow>
     is_mode ''baseline'' config \<or>
     is_mode ''policy-test'' config \<and>
       (case st_active s of
          Some a \<Rightarrow> has_version (text_setting ''version'' config) (ac_pair a) \<and> ac_phase a = RAMP
        | None \<Rightarrow> False)"

definition budget_left :: "json \<Rightarrow> ('w, 'f) session \<Rightarrow> bool" where
  "budget_left config u \<longleftrightarrow>
     int (cn_requests (se_counts u) + length (se_futures u)) < int_setting ''requests'' config"

definition dispatch :: "pylib \<Rightarrow> ('w, 'f) client \<Rightarrow> json \<Rightarrow> json \<Rightarrow> string \<Rightarrow> (('w, 'f) session, flow) prog" where
  "dispatch L C config payload body =
     bindP (seen (\<lambda>u. u)) (\<lambda>u.
       if \<not> wants_traffic config (se_state u) then retP GoOn
       else bindP (clock C) (\<lambda>t.
            if t \<ge> se_next_send u \<and> int (length (se_futures u)) < int_setting ''concurrency'' config \<and> budget_left config u
            then send_one L C config payload body else retP GoOn))"

definition exhausted :: "json \<Rightarrow> ('w, 'f) session \<Rightarrow> bool" where
  "exhausted config u \<longleftrightarrow> \<not> budget_left config u \<and> se_futures u = [] \<and> \<not> automatic config"

definition spend :: "pylib \<Rightarrow> ('w, 'f) client \<Rightarrow> json \<Rightarrow> json \<Rightarrow> string \<Rightarrow> (('w, 'f) session, flow) prog" where
  "spend L C config payload body =
     bindP (seen (\<lambda>u. u)) (\<lambda>u.
       if exhausted config u
       then (if is_mode ''baseline'' config then ended ''PASS'' ''baseline_smoke'' else ended ''BLOCKED'' ''request_budget_exhausted'')
       else bindP (dispatch L C config payload body) (\<lambda>fl.
            if fl \<noteq> GoOn then retP fl else thenP (nap C (1 / 20)) (retP GoOn)))"

definition turn :: "pylib \<Rightarrow> ('w, 'f) client \<Rightarrow> json \<Rightarrow> json \<Rightarrow> string \<Rightarrow> rat \<Rightarrow> (('w, 'f) session, flow) prog" where
  "turn L C config payload body started =
     bindP (outside (cl_cancelled C)) (\<lambda>cancelled.
       if cancelled then ended ''BLOCKED'' ''cancelled''
       else bindP (seen se_futures) (\<lambda>fs. thenP (collect_done C fs)
            (bindP (poll L C config started) (\<lambda>fl.
               if fl \<noteq> GoOn then retP fl else spend L C config payload body))))"

section \<open>The run\<close>

fun run_loop ::
  "nat \<Rightarrow> pylib \<Rightarrow> ('w, 'f) client \<Rightarrow> json \<Rightarrow> json \<Rightarrow> string \<Rightarrow> rat \<Rightarrow> ('w, 'f) session \<Rightarrow> (unit res \<times> ('w, 'f) session) option"
where
  "run_loop 0 L C config payload body started u = None"
| "run_loop (Suc n) L C config payload body started u =
     (case clock C u of
        (Inl e, v) \<Rightarrow> Some (Inl e, v)
      | (Inr t, v) \<Rightarrow>
          if \<not> t - started < of_int (int_setting ''duration'' config) then Some (Inr (), v)
          else (case turn L C config payload body started v of
                  (Inl e, v') \<Rightarrow> Some (Inl e, v')
                | (Inr Stop, v') \<Rightarrow> Some (Inr (), v')
                | (Inr _, v') \<Rightarrow> run_loop n L C config payload body started v'))"

record run_result =
  rs_outcome :: string
  rs_reason :: string
  rs_target :: string
  rs_mode :: string
  rs_synthetic :: bool
  rs_stages :: "json list"
  rs_counts :: counts

definition run_result_of :: "json \<Rightarrow> string \<Rightarrow> string \<Rightarrow> json list \<Rightarrow> counts \<Rightarrow> run_result" where
  "run_result_of config outcome reason stages c =
     \<lparr>rs_outcome = outcome, rs_reason = reason, rs_target = text_setting ''version'' config,
      rs_mode = text_setting ''mode'' config, rs_synthetic = (\<not> is_mode ''observe'' config), rs_stages = stages, rs_counts = c\<rparr>"

definition session_result :: "json \<Rightarrow> ('w, 'f) session \<Rightarrow> run_result res" where
  "session_result config u =
     bindR (sorted_stages (se_stages u)) (\<lambda>xs. Inr (run_result_of config (se_outcome u) (se_reason u) xs (se_counts u)))"

text \<open>What the handlers of \<open>execute\<close> make of an exception; others leave it.\<close>

definition exception_reason :: "exn \<Rightarrow> string option" where
  "exception_reason e =
     (if is_value_error e \<or> is_key_error e \<or> is_type_error e then Some ''admission_or_contract_rejected''
      else if is_transport_error e then Some ''backend_or_api_unavailable'' else None)"

definition conclude :: "json \<Rightarrow> unit res \<Rightarrow> ('w, 'f) session \<Rightarrow> run_result res" where
  "conclude config r u =
     (case r of
        Inr _ \<Rightarrow> session_result config u
      | Inl e \<Rightarrow>
          (case exception_reason e of
             None \<Rightarrow> Inl e
           | Some reason \<Rightarrow> session_result config (u\<lparr>se_outcome := ''BLOCKED'', se_reason := reason\<rparr>)))"

definition no_counts :: counts where
  "no_counts = \<lparr>cn_requests = 0, cn_errors = 0, cn_stable = 0, cn_canary = 0\<rparr>"

definition new_session :: "'w \<Rightarrow> rat \<Rightarrow> release_state \<Rightarrow> ('w, 'f) session" where
  "new_session w started s =
     \<lparr>se_world = w, se_state = s, se_counts = no_counts, se_stages = [], se_outcome = ''BLOCKED'', se_reason = ''timeout'',
      se_futures = [], se_next_send = started, se_next_poll = started, se_failures = 0\<rparr>"

text \<open>Before the loop; an automatic run may end here.\<close>

definition start_session :: "pylib \<Rightarrow> ('w, 'f) client \<Rightarrow> json \<Rightarrow> (('w, 'f) session, flow) prog" where
  "start_session L C config =
     bindP (seen se_state) (\<lambda>s.
       if automatic config
       then bindP (liftP (automatic_observation L config s)) (\<lambda>(v, stages). thenP (record_stages stages)
              (case verdict_parts v of Some (outcome, reason) \<Rightarrow> ended outcome reason | None \<Rightarrow> retP GoOn))
       else bindP (liftP (admit s (text_setting ''version'' config) (text_setting ''mode'' config))) (\<lambda>_.
            bindP (outside (cl_ready C)) (\<lambda>ready. thenP (must ready ''router_not_ready'') (retP GoOn))))"

definition check_baseline :: "pylib \<Rightarrow> ('w, 'f) client \<Rightarrow> json \<Rightarrow> json \<Rightarrow> (('w, 'f) session, unit) prog" where
  "check_baseline L C config payload =
     whenP (is_mode ''baseline'' config)
       (bindP stable_pair (\<lambda>p. bindP (outside (verify_pair C ''stable'' p False)) (\<lambda>ok.
        thenP (must ok ''backend_identity_not_ready'')
        (bindP (outside (cl_metadata C ''stable'')) (\<lambda>m. liftP (validate_payload L payload m))))))"

definition request_body :: "pylib \<Rightarrow> json \<Rightarrow> string res" where
  "request_body L payload =
     bindR (requireR (all_finite payload) (ValueError ''Out of range float values are not JSON compliant'')) (\<lambda>_.
       Inr (plain_dumps L payload))"

text \<open>Leaving the pool waits for the requests in flight, whatever ended the loop.\<close>

definition pool_loop ::
  "nat \<Rightarrow> pylib \<Rightarrow> ('w, 'f) client \<Rightarrow> json \<Rightarrow> json \<Rightarrow> string \<Rightarrow> rat \<Rightarrow> ('w, 'f) session \<Rightarrow> (unit res \<times> ('w, 'f) session) option"
where
  "pool_loop n L C config payload body started u =
     (case run_loop n L C config payload body started u of
        None \<Rightarrow> None
      | Some (r, v) \<Rightarrow>
          (case thenP (liftP r) (bindP (seen se_futures) (collect_all C)) v of
             (r', v') \<Rightarrow> Some (thenP (outside (cl_join C)) (liftP r') v')))"

definition note_errors :: "json \<Rightarrow> ('w, 'f) session \<Rightarrow> ('w, 'f) session" where
  "note_errors config u =
     (if cn_errors (se_counts u) > 0 \<and> \<not> automatic config
      then u\<lparr>se_outcome := ''FAIL'', se_reason := ''http_or_track_errors''\<rparr> else u)"

definition run_session ::
  "nat \<Rightarrow> pylib \<Rightarrow> ('w, 'f) client \<Rightarrow> json \<Rightarrow> json \<Rightarrow> rat \<Rightarrow> ('w, 'f) session \<Rightarrow> (unit res \<times> ('w, 'f) session) option"
where
  "run_session n L C config payload started u =
     (case start_session L C config u of
        (Inl e, v) \<Rightarrow> Some (Inl e, v)
      | (Inr fl, v) \<Rightarrow>
          if fl = Stop then Some (Inr (), v)
          else (case thenP (check_baseline L C config payload) (liftP (request_body L payload)) v of
                  (Inl e, v') \<Rightarrow> Some (Inl e, v')
                | (Inr body, v') \<Rightarrow>
                    (case pool_loop n L C config payload body started v' of
                       None \<Rightarrow> None
                     | Some (Inl e, x) \<Rightarrow> Some (Inl e, x)
                     | Some (Inr _, x) \<Rightarrow> Some (Inr (), note_errors config x))))"

definition execute ::
  "nat \<Rightarrow> pylib \<Rightarrow> ('w, 'f) client \<Rightarrow> json \<Rightarrow> json \<Rightarrow> 'w \<Rightarrow> (run_result res \<times> 'w) option"
where
  "execute n L C config payload w =
     (case thenP (liftP (validate_config config)) (cl_clock C) w of
        (Inl e, w') \<Rightarrow> Some (Inl e, w')
      | (Inr started, w') \<Rightarrow>
          (case cl_state C w' of
             (Inl e, v) \<Rightarrow>
               Some (case exception_reason e of
                       None \<Rightarrow> Inl e
                     | Some reason \<Rightarrow> Inr (run_result_of config ''BLOCKED'' reason [] no_counts), v)
           | (Inr s, v) \<Rightarrow>
               (case run_session n L C config payload started (new_session v started s) of
                  None \<Rightarrow> None
                | Some (r, u) \<Rightarrow> Some (conclude config r u, se_world u))))"

text \<open>\<open>main\<close>: a configuration given on the command line must be the one of an automatic run.\<close>

definition accepted_config :: "bool \<Rightarrow> json \<Rightarrow> json res" where
  "accepted_config inline config =
     bindR (if inline then validate_automatic_policy config else Inr ()) (\<lambda>_. Inr config)"

definition exit_code :: "run_result \<Rightarrow> int res" where
  "exit_code r =
     (if rs_outcome r = ''PASS'' then Inr 0 else if rs_outcome r = ''FAIL'' then Inr 1
      else if rs_outcome r = ''BLOCKED'' then Inr 2 else Inl (KeyError (rs_outcome r)))"

definition runner_main ::
  "nat \<Rightarrow> pylib \<Rightarrow> (string \<Rightarrow> ('w, 'f) client res) \<Rightarrow> bool \<Rightarrow> json \<Rightarrow> json \<Rightarrow> 'w \<Rightarrow> (int res \<times> 'w) option"
where
  "runner_main n L live inline config payload w =
     (case bindR (accepted_config inline config) (\<lambda>c. bindR (jget ''namespace'' c) (\<lambda>ns. live (str_of ns))) of
        Inl e \<Rightarrow> Some (Inl e, w)
      | Inr C \<Rightarrow>
          (case execute n L C config payload w of
             None \<Rightarrow> None
           | Some (r, w') \<Rightarrow> Some (bindR r exit_code, w')))"

end
