(* ===== verification/RunnerProperties.thy ===== *)
theory RunnerProperties
  imports Runner Scenario "HOL-Library.Multiset"
begin

text \<open>
  What a run of the end-to-end runner may do. The client is arbitrary: it is wrapped so that its
  world also keeps the events that matter, newest first (a state that was read, an answer of the
  cancellation flag, a request handed to the pool), and the theorems speak about these traces.
\<close>

section \<open>Recording clients\<close>

datatype runner_event = Read release_state | Asked bool | Sent string string

type_synonym 'w tworld = "'w \<times> runner_event list"

definition silent :: "('w, 'a) prog \<Rightarrow> ('w tworld, 'a) prog" where
  "silent m = (\<lambda>(w, tr). case m w of (r, w') \<Rightarrow> (r, w', tr))"

definition noting :: "('a \<Rightarrow> runner_event) \<Rightarrow> ('w, 'a) prog \<Rightarrow> ('w tworld, 'a) prog" where
  "noting ev m = (\<lambda>(w, tr). case m w of (Inr a, w') \<Rightarrow> (Inr a, w', ev a # tr) | (Inl e, w') \<Rightarrow> (Inl e, w', tr))"

definition sending :: "string \<Rightarrow> string \<Rightarrow> ('w, 'a) prog \<Rightarrow> ('w tworld, 'a) prog" where
  "sending body run m = (\<lambda>(w, tr). case m w of (r, w') \<Rightarrow> (r, w', Sent body run # tr))"

definition recorded :: "('w, 'f) client \<Rightarrow> ('w tworld, 'f) client" where
  "recorded C =
     \<lparr>cl_state = noting Read (cl_state C), cl_ready = silent (cl_ready C),
      cl_metadata = (\<lambda>l. silent (cl_metadata C l)), cl_deployment = (\<lambda>l. silent (cl_deployment C l)),
      cl_submit = (\<lambda>b i. sending b i (cl_submit C b i)), cl_done = (\<lambda>f. silent (cl_done C f)),
      cl_result = (\<lambda>f. silent (cl_result C f)), cl_join = silent (cl_join C), cl_clock = silent (cl_clock C),
      cl_sleep = (\<lambda>d. silent (cl_sleep C d)), cl_cancelled = noting Asked (cl_cancelled C)\<rparr>"

fun is_sent :: "runner_event \<Rightarrow> bool" where
  "is_sent (Sent _ _) = True"
| "is_sent _ = False"

definition sent :: "runner_event list \<Rightarrow> nat" where
  "sent tr = length (filter is_sent tr)"

lemma sent_simps [simp]: "sent [] = 0" "sent (e # tr) = (if is_sent e then 1 else 0) + sent tr"
  "sent (a @ b) = sent a + sent b"
  by (simp_all add: sent_def)

abbreviation trace :: "('w tworld, 'f) session \<Rightarrow> runner_event list" where
  "trace u \<equiv> snd (se_world u)"


text \<open>The relation of everything a run does that is neither a request nor a collection.\<close>

definition calm :: "('w tworld, 'f) session \<Rightarrow> ('w tworld, 'f) session \<Rightarrow> bool" where
  "calm u v \<longleftrightarrow> (\<exists>evs. trace v = evs @ trace u \<and> sent evs = 0) \<and> se_counts v = se_counts u \<and> se_futures v = se_futures u"

lemma calm_reflp [simp, intro]: "reflp calm"
  by (auto simp: calm_def reflp_def intro: exI [of _ "[]"])

lemma calm_transp [simp, intro]: "transp calm"
  unfolding transp_def calm_def
proof (intro allI impI; elim conjE exE)
  fix u v x :: "('w tworld, 'f) session" and a b
  assume "trace v = a @ trace u" "sent a = 0" "trace x = b @ trace v" "sent b = 0"
    "se_counts v = se_counts u" "se_futures v = se_futures u" "se_counts x = se_counts v" "se_futures x = se_futures v"
  then show "(\<exists>evs. trace x = evs @ trace u \<and> sent evs = 0) \<and> se_counts x = se_counts u \<and> se_futures x = se_futures u"
    by (intro conjI exI [of _ "b @ a"]) auto
qed

lemma calm_refl [simp]: "calm u u"
  by (rule reflpD [OF calm_reflp])

lemma calm_trans: "calm u v \<Longrightarrow> calm v x \<Longrightarrow> calm u x"
  by (rule transpD [OF calm_transp])

lemma calm_outside_silent [intro]: "keeps calm (outside (silent m))"
  unfolding keeps_def
  by (auto simp: outside_def silent_def calm_def split: prod.splits intro!: exI [of _ "[]"])

lemma calm_outside_noting [intro]: "(\<And>a. \<not> is_sent (ev a)) \<Longrightarrow> keeps calm (outside (noting ev m))"
  unfolding keeps_def
proof
  fix u :: "('b tworld, 'c) session"
  assume "\<And>a. \<not> is_sent (ev a)"
  then show "calm u (snd (outside (noting ev m) u))"
    by (cases "se_world u"; cases "m (fst (se_world u))"; cases "fst (m (fst (se_world u)))")
      (auto simp: outside_def noting_def calm_def)
qed

lemma calm_changed [intro]:
  "(\<And>u. se_world (f u) = se_world u) \<Longrightarrow> (\<And>u. se_counts (f u) = se_counts u) \<Longrightarrow>
    (\<And>u. se_futures (f u) = se_futures u) \<Longrightarrow> keeps calm (changed f)"
  by (auto simp: keeps_def changed_def calm_def intro: exI [of _ "[]"])

lemma recorded_sel [simp]:
  "cl_state (recorded C) = noting Read (cl_state C)" "cl_ready (recorded C) = silent (cl_ready C)"
  "cl_metadata (recorded C) l = silent (cl_metadata C l)" "cl_deployment (recorded C) l = silent (cl_deployment C l)"
  "cl_submit (recorded C) b i = sending b i (cl_submit C b i)" "cl_done (recorded C) f = silent (cl_done C f)"
  "cl_result (recorded C) f = silent (cl_result C f)" "cl_join (recorded C) = silent (cl_join C)"
  "cl_clock (recorded C) = silent (cl_clock C)" "cl_sleep (recorded C) d = silent (cl_sleep C d)"
  "cl_cancelled (recorded C) = noting Asked (cl_cancelled C)"
  by (simp_all add: recorded_def)


text \<open>
  A relation on sessions that every operation of the client but the handing over of a request keeps,
  and every update that leaves the world, the counters and the requests in flight alone.
\<close>

lemma outside_liftP [simp]: "outside (liftP r) = liftP r"
  by (simp add: fun_eq_iff outside_def liftP_def)

lemma outside_bindP: "outside (bindP m f) = bindP (outside m) (\<lambda>a. outside (f a))"
  by (auto simp: fun_eq_iff outside_def run_bindP split: prod.split sum.split)

locale session_relation =
  fixes C :: "('w, 'f) client" and R :: "('w, 'f) session \<Rightarrow> ('w, 'f) session \<Rightarrow> bool"
  assumes order: "reflp R" "transp R"
    and ops: "keeps R (outside (cl_state C))" "keeps R (outside (cl_ready C))" "keeps R (outside (cl_metadata C l))"
      "keeps R (outside (cl_deployment C l))" "keeps R (outside (cl_done C f))" "keeps R (outside (cl_join C))"
      "keeps R (outside (cl_clock C))" "0 \<le> d \<Longrightarrow> keeps R (outside (cl_sleep C d))" "keeps R (outside (cl_cancelled C))"
    and update: "(\<And>u. se_world (g u) = se_world u) \<Longrightarrow> (\<And>u. se_counts (g u) = se_counts u) \<Longrightarrow>
      (\<And>u. se_futures (g u) = se_futures u) \<Longrightarrow> keeps R (changed g)"
begin

lemma reading: "keeps R (seen g)"
  using order(1) by (simp add: keeps_def seen_def reflp_def)

lemma ending: "keeps R (ended p q)"
proof -
  have "keeps R (changed (\<lambda>u. u\<lparr>se_outcome := p, se_reason := q\<rparr>))" by (rule update) simp_all
  then show ?thesis by (simp add: keeps_def ended_def changed_def)
qed

lemmas intros = ops update reading ending keeps_pure [OF order(1)] keeps_bindP [OF order] keeps_thenP [OF order]
  keeps_attemptP [OF order(2)] keeps_whenP [OF order(1)]

lemma pair: "keeps R (outside (verify_pair C lane p b))"
  unfolding verify_pair_def outside_bindP by (auto intro!: intros)

lemma basic:
  "keeps R (nap C d)" "keeps R (clock C)" "keeps R stable_pair" "keeps R (must ok r)"
  "keeps R (take_state s)" "keeps R (record_stages xs)"
  unfolding nap_def clock_def stable_pair_def must_def take_state_def record_stages_def
  by (auto intro!: intros split: option.split)

lemma ramp: "keeps R (same_ramp L C config)"
  unfolding same_ramp_def by (auto intro!: intros basic split: prod.split)

lemma checks: "keeps R (check_candidate L C payload)" "keeps R (check_stable C)"
  unfolding check_candidate_def check_stable_def by (auto intro!: intros basic pair split: option.split)

lemma before_send:
  "keeps R (before_policy_send L C config payload)" "keeps R (before_automatic_send L C config)"
  unfolding before_policy_send_def before_automatic_send_def by (auto intro!: intros checks ramp)

lemma polling: "keeps R (poll_state L C config started)" "keeps R (poll L C config started)"
  unfolding poll_def poll_state_def failed_poll_def poll_baseline_def poll_release_def
  by (auto intro!: intros basic pair split: option.split sum.split prod.split)

lemma starting: "keeps R (start_session L C config)" "keeps R (check_baseline L C config payload)"
  unfolding start_session_def check_baseline_def
  by (auto intro!: intros basic pair split: option.split prod.split)

end

interpretation quiet: session_relation "recorded C" calm
  by unfold_locales (auto intro: calm_outside_silent calm_outside_noting calm_changed)

section \<open>The discipline of a run\<close>










lemma seen_run [simp]: "seen f u = (Inr (f u), u)"
  by (simp add: seen_def)

lemma changed_run [simp]: "changed f u = (Inr (), f u)"
  by (simp add: changed_def)

lemma wpp_seen [simp]: "wpp (seen f) Q E = (\<lambda>u. Q (f u) u)"
  by (simp add: fun_eq_iff wpp_def)


















section \<open>Whole runs\<close>









text \<open>
  A baseline run of one request on the sample state, whose stable version is 7. The world is the
  clock; a request is answered at once.
\<close>

definition smoke_config :: json where
  "smoke_config = JObj
     [(''version'', JStr ''7''), (''mode'', JStr ''baseline''), (''run_id'', JStr ''r-1''), (''namespace'', JStr ''production''),
      (''rps'', JInt 20), (''concurrency'', JInt 1), (''requests'', JInt 1), (''duration'', JInt 5), (''api_retries'', JInt 0)]"

definition smoke_payload :: json where
  "smoke_payload = JObj [(''inputs'', JArr [JObj
     [(''name'', JStr ''x''), (''datatype'', JStr ''INT64''), (''shape'', JArr [JInt 1, JInt 2]), (''data'', JArr [JInt 3, JInt 4])]])]"

definition smoke_metadata :: json where
  "smoke_metadata = JObj [(''inputs'', JArr [JObj
     [(''name'', JStr ''x''), (''datatype'', JStr ''INT64''), (''shape'', JArr [JInt (-1), JInt 2])]])]"

definition smoke_deployment :: json where
  "smoke_deployment = JObj
     [(''metadata'', JObj [(''generation'', JInt 1)]),
      (''spec'', JObj [(''replicas'', JInt 1), (''template'', JObj
         [(''metadata'', JObj [(''annotations'', JObj
            [(VERSION_ANNOTATION, JStr ''7''),
             (''internal.serving.kserve.io/storage-initializer-sourceuri'', JStr (sp_storage_uri (sample_pair ''7'')))])]),
          (''spec'', JObj [(''containers'', JArr [JObj
             [(''name'', JStr ''kserve-container''), (''image'', JStr (sp_runtime_digest (sample_pair ''7'')))]])])])]),
      (''status'', JObj [(''observedGeneration'', JInt 1), (''replicas'', JInt 1), (''updatedReplicas'', JInt 1),
         (''readyReplicas'', JInt 1), (''availableReplicas'', JInt 1)])]"

definition smoke_client :: "(rat, unit) client" where
  "smoke_client =
     \<lparr>cl_state = retP sample_state, cl_ready = retP True, cl_metadata = (\<lambda>_. retP smoke_metadata),
      cl_deployment = (\<lambda>_. retP smoke_deployment), cl_submit = (\<lambda>_ _. retP ()), cl_done = (\<lambda>_. retP True),
      cl_result = (\<lambda>_. retP \<lparr>sa_status = 200, sa_track = ''stable''\<rparr>), cl_join = retP (),
      cl_clock = (\<lambda>w. (Inr w, w)), cl_sleep = (\<lambda>d w. (Inr (), w + d)), cl_cancelled = retP False\<rparr>"





section \<open>Every run ends\<close>

text \<open>
  A clock that does not run backwards, on which a sleep lasts at least its time and reading the state
  from the API server takes some time.
\<close>

definition on_time :: "('w \<Rightarrow> rat) \<Rightarrow> ('w, 'a) prog \<Rightarrow> bool" where
  "on_time now m \<longleftrightarrow> keeps (\<lambda>w w'. now w \<le> now w') m"

definition timely :: "('w, 'f) client \<Rightarrow> ('w \<Rightarrow> rat) \<Rightarrow> rat \<Rightarrow> bool" where
  "timely C now d \<longleftrightarrow>
     0 < d \<and> d \<le> 1 / 20
     \<and> (\<forall>w. fst (cl_clock C w) = Inr (now (snd (cl_clock C w))))
     \<and> (\<forall>w. now w + d \<le> now (snd (cl_state C w)))
     \<and> (\<forall>t w. now w + t \<le> now (snd (cl_sleep C t w)))
     \<and> on_time now (cl_ready C) \<and> (\<forall>l. on_time now (cl_metadata C l)) \<and> (\<forall>l. on_time now (cl_deployment C l))
     \<and> (\<forall>b i. on_time now (cl_submit C b i)) \<and> (\<forall>f. on_time now (cl_done C f)) \<and> (\<forall>f. on_time now (cl_result C f))
     \<and> on_time now (cl_join C) \<and> on_time now (cl_clock C) \<and> on_time now (cl_cancelled C)"

definition later :: "('w \<Rightarrow> rat) \<Rightarrow> ('w, 'f) session \<Rightarrow> ('w, 'f) session \<Rightarrow> bool" where
  "later now u v \<longleftrightarrow> now (se_world u) \<le> now (se_world v)"

lemma later_outside: "on_time now m \<Longrightarrow> keeps (later now) (outside m)"
  by (auto simp: on_time_def later_def keeps_def outside_def split: prod.split) (metis snd_conv)

lemma later_changed: "(\<And>u. se_world (f u) = se_world u) \<Longrightarrow> keeps (later now) (changed f)"
  by (simp add: keeps_def later_def)

lemma timely_relation:
  assumes "timely C now d"
  shows "session_relation C (later now)"
proof
  have state: "on_time now (cl_state C)" unfolding on_time_def keeps_def
    using assms by (auto simp: timely_def) (meson add_increasing2 less_imp_le order_trans order_refl)
  have sleep: "on_time now (cl_sleep C t)" if "0 \<le> t" for t
    unfolding on_time_def keeps_def
  proof
    fix w
    have "now w + t \<le> now (snd (cl_sleep C t w))" using assms by (simp add: timely_def)
    with that show "now w \<le> now (snd (cl_sleep C t w))" by simp
  qed
  show "reflp (later now)" "transp (later now)" by (auto simp: reflp_def transp_def later_def)
  show "keeps (later now) (outside (cl_state C))" by (rule later_outside [OF state])
  show "keeps (later now) (outside (cl_sleep C t))" if "0 \<le> t" for t by (rule later_outside [OF sleep [OF that]])
  show "keeps (later now) (outside (cl_ready C))" "keeps (later now) (outside (cl_metadata C l))"
    "keeps (later now) (outside (cl_deployment C l))" "keeps (later now) (outside (cl_done C f))"
    "keeps (later now) (outside (cl_join C))" "keeps (later now) (outside (cl_clock C))"
    "keeps (later now) (outside (cl_cancelled C))" for l f
    using assms by (auto simp: timely_def intro!: later_outside)
  show "keeps (later now) (changed g)" if "\<And>u. se_world (g u) = se_world u" for g
    using that by (rule later_changed)
qed


text \<open>
  \<open>waits P m\<close>: when \<open>m\<close> returns a flow in \<open>P\<close>, at least \<open>d\<close> has passed.
\<close>

definition advances :: "('w \<Rightarrow> rat) \<Rightarrow> rat \<Rightarrow> ('w, 'f) session \<Rightarrow> ('w, 'f) session \<Rightarrow> bool" where
  "advances now d u v \<longleftrightarrow> now (se_world u) + d \<le> now (se_world v)"

definition waits :: "('w \<Rightarrow> rat) \<Rightarrow> rat \<Rightarrow> (flow \<Rightarrow> bool) \<Rightarrow> (('w, 'f) session, flow) prog \<Rightarrow> bool" where
  "waits now d P m \<longleftrightarrow> (\<forall>u fl v. m u = (Inr fl, v) \<longrightarrow> P fl \<longrightarrow> advances now d u v)"

lemma waitsD: "waits now d P m \<Longrightarrow> m u = (Inr fl, v) \<Longrightarrow> P fl \<Longrightarrow> advances now d u v"
  by (simp add: waits_def)

lemma later_advances: "later now u v \<Longrightarrow> advances now d v x \<Longrightarrow> advances now d u x"
  "advances now d u v \<Longrightarrow> later now v x \<Longrightarrow> advances now d u x"
  by (auto simp: later_def advances_def)

lemma advances_attemptP:
  assumes "keeps (advances now d) m" and "\<And>r. keeps (later now) (k r)"
  shows "keeps (advances now d) (attemptP m k)"
  unfolding keeps_def attemptP_def
proof
  fix u
  obtain r v where m: "m u = (r, v)" by fastforce
  have "advances now d u v" using keepsD [OF assms(1) m] .
  moreover have "later now v (snd (k r v))" using assms(2) by (simp add: keeps_def)
  ultimately show "advances now d u (snd (case m u of (r, w) \<Rightarrow> k r w))" using m later_advances(2) by simp
qed

lemma waits_advances: "keeps (advances now d) m \<Longrightarrow> waits now d P m"
  unfolding waits_def by (intro allI impI) (rule keepsD)

lemma waits_ret: "\<not> P fl \<Longrightarrow> waits now d P (retP fl)"
  by (simp add: waits_def run_retP)

lemma waits_raise: "waits now d P (raiseP e)"
  by (simp add: waits_def run_raiseP)

lemma waits_ended: "\<not> P Stop \<Longrightarrow> waits now d P (ended p q)"
  by (simp add: waits_def ended_def)

lemma waits_bindP:
  assumes "keeps (later now) m" and "\<And>a. waits now d P (f a)"
  shows "waits now d P (bindP m f)"
  unfolding waits_def
proof (intro allI impI)
  fix u fl v
  assume "bindP m f u = (Inr fl, v)" and "P fl"
  then obtain a x where a: "m u = (Inr a, x)" "f a x = (Inr fl, v)" by (auto simp: bindP_Inr_iff)
  show "advances now d u v"
    using later_advances(1) [OF keepsD [OF assms(1) a(1)] waitsD [OF assms(2) a(2) \<open>P fl\<close>]] .
qed

lemma waits_chain:
  assumes "keeps (later now) m" and "waits now d (\<lambda>fl. fl = Again) m" and "waits now d P n" and "\<not> P Stop"
  shows "waits now d P (bindP m (\<lambda>fl. if fl \<noteq> GoOn then retP fl else n))"
  unfolding waits_def
proof (intro allI impI)
  fix u fl v
  assume run: "bindP m (\<lambda>fl. if fl \<noteq> GoOn then retP fl else n) u = (Inr fl, v)" and P: "P fl"
  then obtain a x where a: "m u = (Inr a, x)" "(if a \<noteq> GoOn then retP a else n) x = (Inr fl, v)"
    by (auto simp: bindP_Inr_iff)
  have l: "later now u x" using keepsD [OF assms(1) a(1)] .
  show "advances now d u v"
  proof (cases "a = GoOn")
    case True
    then show ?thesis using a(2) waitsD [OF assms(3) _ P] later_advances(1) [OF l] by simp
  next
    case False
    then have "a = fl" "x = v" using a(2) by (simp_all add: run_retP)
    moreover from this have "a = Again" using P False assms(4) by (cases a) auto
    ultimately show ?thesis using waitsD [OF assms(2) a(1)] by simp
  qed
qed

lemma waits_if: "waits now d P m \<Longrightarrow> waits now d P n \<Longrightarrow> waits now d P (if b then m else n)"
  by simp

lemma later_collect:
  assumes "timely C now d"
  shows "keeps (later now) (collect_done C fs)" and "keeps (later now) (submit C config body)"
proof -
  note r = timely_relation [OF assms]
  note intros = session_relation.intros [OF r] session_relation.basic [OF r] later_outside later_changed
  have collect: "keeps (later now) (collect C f)" for f
    unfolding collect_def using assms by (auto simp: timely_def intro!: intros)
  then show "keeps (later now) (collect_done C fs)"
    by (induction fs) (auto intro!: intros)
  show "keeps (later now) (submit C config body)"
    unfolding submit_def using assms by (auto simp: timely_def intro!: intros)
qed

lemma later_sending:
  assumes "timely C now d"
  shows "keeps (later now) (send_one L C config payload body)" and "keeps (later now) (dispatch L C config payload body)"
proof -
  note r = timely_relation [OF assms]
  note intros = session_relation.intros [OF r] session_relation.basic [OF r] session_relation.before_send [OF r]
    later_collect [OF assms]
  show one: "keeps (later now) (send_one L C config payload body)"
    unfolding send_one_def by (auto intro!: intros)
  show "keeps (later now) (dispatch L C config payload body)"
    unfolding dispatch_def by (auto intro!: intros one)
qed

lemma clock_timely:
  assumes "timely C now d"
  shows "\<exists>t v. clock C u = (Inr t, v) \<and> t = now (se_world v) \<and> later now u v"
proof -
  obtain x v where x: "clock C u = (x, v)" by fastforce
  have "fst (cl_clock C (se_world u)) = Inr (now (snd (cl_clock C (se_world u))))"
    using assms by (simp add: timely_def)
  then have "x = Inr (now (se_world v))" using x by (auto simp: clock_def outside_def split: prod.splits)
  moreover have "later now u v"
    using keepsD [OF session_relation.basic(2) [OF timely_relation [OF assms]] x] .
  ultimately show ?thesis using x by blast
qed

text \<open>A turn that does not end the loop has read the state or has slept.\<close>

lemma advances_outside: "(\<And>w. now w + d \<le> now (snd (m w))) \<Longrightarrow> keeps (advances now d) (outside m)"
  by (auto simp: keeps_def advances_def outside_def split: prod.split) (metis snd_conv)

lemma reading_takes_time:
  assumes "timely C now d" and "\<And>r. keeps (later now) (k r)"
  shows "keeps (advances now d) (attemptP (outside (cl_state C)) k)"
  using assms by (intro advances_attemptP advances_outside) (simp_all add: timely_def)

lemma turn_takes_time:
  fixes C :: "('w, 'f) client"
  assumes "timely C now d"
  shows "waits now d (\<lambda>fl. fl \<noteq> Stop) (turn L C config payload body started)"
proof -
  note r = timely_relation [OF assms]
  note intros = session_relation.intros [OF r] session_relation.basic [OF r] session_relation.before_send [OF r]
    session_relation.checks [OF r] session_relation.ramp [OF r] session_relation.pair [OF r] session_relation.polling [OF r]
    later_collect [OF assms] later_sending [OF assms]
  let ?again = "\<lambda>fl. fl = Again"
  have ramp: "waits now d P (same_ramp L C config)" for P
    unfolding same_ramp_def bindP_def [of "outside (cl_state C)"]
    by (intro waits_advances reading_takes_time [OF assms]) (auto intro!: intros split: sum.split prod.split)
  have policy: "waits now d ?again (before_policy_send L C config payload)"
    unfolding before_policy_send_def thenP_def
  proof (intro waits_if waits_chain ramp)
    show "waits now d ?again (bindP (check_candidate L C payload) (\<lambda>_. retP GoOn))"
      "waits now d ?again (bindP (check_stable C) (\<lambda>_. bindP (check_candidate L C payload) (\<lambda>_. retP GoOn)))"
      by (auto intro!: waits_bindP waits_ret intros)
  qed (auto intro!: intros)
  have auto: "waits now d ?again (before_automatic_send L C config)"
    unfolding before_automatic_send_def
  proof (intro waits_chain ramp)
    show "waits now d ?again ((bindP (outside (cl_cancelled C)) (\<lambda>cancelled.
        if cancelled then ended ''BLOCKED'' ''cancelled'' else retP GoOn)) :: (('w, 'f) session, flow) prog)"
      by (auto intro!: waits_bindP waits_ended waits_ret intros)
  qed (auto intro!: intros)
  have send: "waits now d ?again (send_one L C config payload body)"
    unfolding send_one_def thenP_def
  proof (intro waits_chain waits_if policy auto)
    show "waits now d ?again (bindP (submit C config body) (\<lambda>_. retP GoOn))"
      by (auto intro!: waits_bindP waits_ret intros)
  qed (auto intro!: waits_ret intros)
  have dispatch: "waits now d ?again (dispatch L C config payload body)"
    unfolding dispatch_def by (auto intro!: waits_bindP waits_ret send intros)
  have "now w + d \<le> now (snd (cl_sleep C (1 / 20) w))" for w
  proof -
    have "now w + 1 / 20 \<le> now (snd (cl_sleep C (1 / 20) w))" "d \<le> 1 / 20" using assms by (simp_all add: timely_def)
    then show ?thesis by simp
  qed
  then have nap: "keeps (advances now d) (nap C (1 / 20))"
    unfolding nap_def by (simp add: advances_outside)
  have spend: "waits now d (\<lambda>fl. fl \<noteq> Stop) (spend L C config payload body)"
    unfolding spend_def
  proof (intro waits_bindP)
    show "keeps (later now) (seen (\<lambda>u. u) :: (('w, 'f) session, ('w, 'f) session) prog)" by (auto intro: intros)
    have "keeps (advances now d) (thenP (nap C (1 / 20)) (retP GoOn))"
      unfolding thenP_def bindP_def by (intro advances_attemptP nap) (auto intro!: intros split: sum.split)
    then have nap: "waits now d (\<lambda>fl. fl \<noteq> Stop) (thenP (nap C (1 / 20)) (retP GoOn))"
      by (rule waits_advances)
    show "waits now d (\<lambda>fl. fl \<noteq> Stop) (if exhausted config u
        then if is_mode ''baseline'' config then ended ''PASS'' ''baseline_smoke'' else ended ''BLOCKED'' ''request_budget_exhausted''
        else bindP (dispatch L C config payload body) (\<lambda>fl. if fl \<noteq> GoOn then retP fl else thenP (nap C (1 / 20)) (retP GoOn)))" for u
      by (intro waits_if waits_ended waits_chain later_sending [OF assms] dispatch nap) simp_all
  qed
  have reading: "keeps (advances now d) (poll_state L C config started)"
    unfolding poll_state_def failed_poll_def poll_baseline_def poll_release_def
    by (intro reading_takes_time [OF assms]) (auto intro!: intros split: sum.split option.split prod.split)
  have poll: "waits now d ?again (poll L C config started)"
    unfolding poll_def
  proof (intro waits_bindP waits_if waits_ret)
    show "waits now d ?again (poll_state L C config started)" by (rule waits_advances [OF reading])
  qed (auto intro!: intros)
  have rest: "waits now d (\<lambda>fl. fl \<noteq> Stop) (bindP (poll L C config started) (\<lambda>fl.
      if fl \<noteq> GoOn then retP fl else spend L C config payload body))"
    by (intro waits_chain poll spend intros) simp
  show ?thesis unfolding turn_def thenP_def
    by (auto intro!: waits_bindP waits_ended rest intros)
qed


lemma run_loop_returns:
  assumes "timely C now d" and "started + of_int (int_setting ''duration'' config) \<le> now (se_world u) + of_nat n * d"
  shows "\<exists>x. \<forall>m > n. run_loop m L C config payload body started u = Some x"
  using assms(2)
proof (induction n arbitrary: u)
  case 0
  obtain t v where t: "clock C u = (Inr t, v)" "t = now (se_world v)" "later now u v"
    using clock_timely [OF assms(1)] by blast
  with 0 have "\<not> t - started < of_int (int_setting ''duration'' config)" by (simp add: later_def)
  then have "run_loop m L C config payload body started u = Some (Inr (), v)" if "0 < m" for m
    using that t(1) by (cases m) auto
  then show ?case by blast
next
  case (Suc n)
  obtain t v where t: "clock C u = (Inr t, v)" "later now u v"
    using clock_timely [OF assms(1)] by blast
  obtain y z where y: "turn L C config payload body started v = (y, z)" by fastforce
  have step: "run_loop (Suc m) L C config payload body started u =
      (if \<not> t - started < of_int (int_setting ''duration'' config) then Some (Inr (), v)
       else case y of Inl e \<Rightarrow> Some (Inl e, z) | Inr Stop \<Rightarrow> Some (Inr (), z)
         | Inr _ \<Rightarrow> run_loop m L C config payload body started z)" for m
    using t y by (auto split: sum.split flow.split)
  have "\<exists>x. \<forall>m > n. run_loop (Suc m) L C config payload body started u = Some x"
  proof (cases "\<exists>fl. y = Inr fl \<and> fl \<noteq> Stop")
    case False
    then show ?thesis using step by (cases y; cases "t - started < of_int (int_setting ''duration'' config)") auto
  next
    case True
    then obtain fl where fl: "y = Inr fl" "fl \<noteq> Stop" by blast
    have "advances now d u z"
      using waitsD [OF turn_takes_time [OF assms(1)] y [unfolded fl(1)] fl(2)] t(2) by (rule later_advances(1) [rotated])
    then have "started + of_int (int_setting ''duration'' config) \<le> now (se_world z) + of_nat n * d"
      using Suc.prems by (simp add: advances_def algebra_simps)
    from Suc.IH [OF this] obtain x where x: "\<forall>m > n. run_loop m L C config payload body started z = Some x" ..
    show ?thesis
    proof (cases "t - started < of_int (int_setting ''duration'' config)")
      case True
      then have "\<forall>m > n. run_loop (Suc m) L C config payload body started u = Some x"
        using step fl x by (cases fl) auto
      then show ?thesis by blast
    qed (use step in auto)
  qed
  then obtain x where x: "\<forall>m > n. run_loop (Suc m) L C config payload body started u = Some x" ..
  have "run_loop m L C config payload body started u = Some x" if "Suc n < m" for m
    using x that by (cases m) auto
  then show ?case by blast
qed

lemma run_session_returns:
  assumes "timely C now d" and "started + of_int (int_setting ''duration'' config) \<le> now (se_world u) + of_nat n * d"
  shows "\<exists>x. \<forall>m > n. run_session m L C config payload started u = Some x"
proof -
  note r = timely_relation [OF assms(1)]
  obtain x v where x: "start_session L C config u = (x, v)" by fastforce
  obtain y z where y: "thenP (check_baseline L C config payload) (liftP (request_body L payload)) v = (y, z)" by fastforce
  have quiet: "keeps (later now) (thenP (check_baseline L C config payload) (liftP (request_body L payload)))"
    by (auto intro!: session_relation.intros [OF r] session_relation.starting [OF r])
  have "later now u v" "later now v z"
    using keepsD [OF session_relation.starting(1) [OF r] x] keepsD [OF quiet y] .
  then have "started + of_int (int_setting ''duration'' config) \<le> now (se_world z) + of_nat n * d"
    using assms(2) by (simp add: later_def)
  from run_loop_returns [OF assms(1) this]
  have loop: "\<exists>q. \<forall>m > n. pool_loop m L C config payload body started z = Some q" for body
    unfolding pool_loop_def by (metis (no_types, lifting) option.simps(5) prod.exhaust prod.simps(2))
  show ?thesis
  proof (cases "\<exists>fl body. x = Inr fl \<and> fl \<noteq> Stop \<and> y = Inr body")
    case False
    then show ?thesis using x y by (cases x; cases y) (auto simp: run_session_def)
  next
    case True
    then obtain fl body where b: "x = Inr fl" "fl \<noteq> Stop" "y = Inr body" by blast
    obtain q where "\<forall>m > n. pool_loop m L C config payload body started z = Some q" using loop by blast
    then have "\<forall>m > n. run_session m L C config payload started u =
        Some (case q of (Inl e, w) \<Rightarrow> (Inl e, w) | (Inr _, w) \<Rightarrow> (Inr (), note_errors config w))"
      using x y b by (auto simp: run_session_def split: prod.split sum.split)
    then show ?thesis by blast
  qed
qed

text \<open>
  C28 (every run ends). On a clock that does not run backwards, when a sleep lasts its time and
  reading the state takes at least \<open>d\<close>, a run returns or raises after at most its duration divided
  by \<open>d\<close> turns, and no more fuel changes what it does.
\<close>
theorem run_returns:
  assumes "timely C now d" and "of_int (int_setting ''duration'' config) \<le> of_nat n * d"
  shows "\<exists>x. \<forall>m > n. execute m L C config payload w = Some x"
proof -
  obtain x w1 where x: "thenP (liftP (validate_config config)) (cl_clock C) w = (x, w1)" by fastforce
  show ?thesis
  proof (cases x)
    case (Inl e)
    with x show ?thesis by (simp add: execute_def)
  next
    case (Inr started)
    have started: "started = now w1"
      using x Inr assms(1) by (auto simp: run_thenP run_liftP timely_def split: sum.splits) (metis fst_conv snd_conv sum.inject(2))
    obtain y v where y: "cl_state C w1 = (y, v)" by fastforce
    show ?thesis
    proof (cases y)
      case (Inl e)
      with x y \<open>x = Inr started\<close> show ?thesis by (simp add: execute_def)
    next
      case (Inr s)
      have "now w1 + d \<le> now (snd (cl_state C w1))" "0 < d" using assms(1) by (simp_all add: timely_def)
      then have "now w1 \<le> now v" using y by simp
      then have "\<exists>x. \<forall>m > n. run_session m L C config payload started (new_session v started s) = Some x"
        using assms started by (intro run_session_returns) (auto simp: new_session_def intro: add_mono)
      then obtain z where z: "\<forall>m > n. run_session m L C config payload started (new_session v started s) = Some z" ..
      then have "\<forall>m > n. execute m L C config payload w = Some (case z of (r, u) \<Rightarrow> (conclude config r u, se_world u))"
        using x y \<open>x = Inr started\<close> Inr by (simp add: execute_def split: prod.split)
      then show ?thesis by blast
    qed
  qed
qed


text \<open>C1 on the run above, on a client whose reads take a tenth of a second.\<close>

definition slow_client :: "(rat, unit) client" where
  "slow_client = smoke_client\<lparr>cl_state := (\<lambda>w. (Inr sample_state, w + 1 / 10))\<rparr>"

lemma slow_client_timely: "timely slow_client id (1 / 20)"
  by (auto simp: timely_def slow_client_def smoke_client_def on_time_def keeps_def retP_def)

lemma run_returns_witness:
  "timely slow_client id (1 / 20) \<and>
   (\<exists>x. execute 101 sample_lib slow_client smoke_config smoke_payload 0 = Some x)"
proof -
  have "of_int (int_setting ''duration'' smoke_config) \<le> of_nat 100 * (1 / 20 :: rat)"
    by (simp add: int_setting_def smoke_config_def)
  from run_returns [OF slow_client_timely this, of sample_lib smoke_payload 0] slow_client_timely
  show ?thesis by auto
qed

end
