(* ===== verification/Evaluator.thy ===== *)
theory Evaluator
  imports KServe
begin

text \<open>
  The evaluator of the first canary: \<open>canary/evaluator.py\<close> and its wrapper \<open>canary/controller.py\<close>. It
  reads nine Prometheus series, assesses them, climbs the ladder 10, 25, 50, 100 while they are
  healthy and sets the weight to zero at the first reason not to. The HTTP endpoints, the clocks and
  the text of an exception are parameters (a query is the expression and its time, before URL
  encoding). The rows it logs are kept without the metrics they quote. The loop gets fuel.
\<close>

section \<open>Metrics\<close>

definition SELECTOR :: string where
  "SELECTOR = ''job=\"model-service\",track=\"canary\",method=\"POST\",route=\"/api/v1/predict\"''"

definition requests_rate :: "string \<Rightarrow> string" where
  "requests_rate labels = ''sum(rate(model_service_http_requests_total{'' @ labels @ ''}[30s]))''"

definition QUERIES :: "(string \<times> string) list" where
  "QUERIES =
     [(''up'', ''min(up{job=\"model-service\",track=\"canary\"})''),
      (''stable_up'', ''min(up{job=\"model-service\",track=\"stable\"})''),
      (''age'', ''max(time() - timestamp(up{job=\"model-service\",track=\"canary\"}))''),
      (''stable_age'', ''max(time() - timestamp(up{job=\"model-service\",track=\"stable\"}))''),
      (''traffic'', ''sum(increase(model_service_http_requests_total{'' @ SELECTOR @ ''}[30s]))''),
      (''success'', ''sum(increase(model_service_inference_requests_total{job=\"model-service\",track=\"canary\",outcome=\"success\"}[30s]))''),
      (''error_ratio'', requests_rate (SELECTOR @ '',status=~\"5..\"'') @ '' / '' @ requests_rate SELECTOR),
      (''p95'', ''histogram_quantile(0.95, sum by (le) (rate(model_service_http_request_duration_seconds_bucket{'' @ SELECTOR @ ''}[30s])))''),
      (''proxy_error_ratio'', ''sum(rate(canary_router_requests_total{track=\"canary\",status=~\"5..\"}[30s])) / sum(rate(canary_router_requests_total{track=\"canary\"}[30s]))'')]"

record 'w canary_io =
  ci_query :: "string \<Rightarrow> rat \<Rightarrow> ('w, json) prog"
  ci_state :: "('w, json) prog"
  ci_set_weight :: "int \<Rightarrow> ('w, json) prog"
  ci_time :: "('w, rat) prog"
  ci_monotonic :: "('w, rat) prog"
  ci_sleep :: "rat \<Rightarrow> ('w, unit) prog"
  ci_text :: "exn \<Rightarrow> string"

text \<open>\<open>float(v)\<close> on a JSON value.\<close>

definition json_float :: "json \<Rightarrow> flt res" where
  "json_float j =
     (case j of
        JStr s \<Rightarrow> py_float s
      | _ \<Rightarrow> (case num_of j of Some f \<Rightarrow> Inr f | None \<Rightarrow> Inl (TypeError ''float() argument must be a string or a real number'')))"

definition series_value :: "string \<Rightarrow> json \<Rightarrow> flt res" where
  "series_value expr result =
     bindR (jget_or ''status'' JNull result) (\<lambda>status.
     bindR (requireR (status = JStr ''success'') (ValueError ''Prometheus query failed'')) (\<lambda>_.
     bindR (jdeep [''data'', ''result''] result) (\<lambda>rows. bindR (jlen rows) (\<lambda>n.
     bindR (requireR (n = 1) (ValueError (''Expected one series: '' @ expr))) (\<lambda>_.
     bindR (jnth 0 rows) (\<lambda>row. bindR (jget ''value'' row) (\<lambda>pair. bindR (jnth 1 pair) (\<lambda>v.
     bindR (json_float v) (\<lambda>f.
     bindR (requireR (flt_finite f) (ValueError (''Non-finite metric: '' @ expr))) (\<lambda>_. Inr f))))))))))"

text \<open>\<open>at or time.time()\<close>: a time of zero counts as none.\<close>

definition query :: "'w canary_io \<Rightarrow> string \<Rightarrow> rat option \<Rightarrow> ('w, flt) prog" where
  "query I expr moment =
     bindP (case moment of Some t \<Rightarrow> if t = 0 then ci_time I else retP t | None \<Rightarrow> ci_time I) (\<lambda>t.
     bindP (ci_query I expr t) (\<lambda>result. liftP (series_value expr result)))"

definition named_query :: "'w canary_io \<Rightarrow> rat option \<Rightarrow> string \<times> string \<Rightarrow> ('w, string \<times> flt) prog" where
  "named_query I moment q = bindP (query I (snd q) moment) (\<lambda>v. retP (fst q, v))"

definition observe :: "'w canary_io \<Rightarrow> ('w, metrics) prog" where
  "observe I =
     bindP (ci_time I) (\<lambda>moment. bindP (mapP (named_query I (Some moment)) QUERIES) (\<lambda>kvs. retP (map_of kvs)))"

definition below_limit :: "flt \<Rightarrow> rat \<Rightarrow> bool" where
  "below_limit f hi \<longleftrightarrow> flt_le (Fin 0) f \<and> flt_lt f (Fin hi)"

definition stale :: "flt \<Rightarrow> bool" where
  "stale f \<longleftrightarrow> \<not> (flt_le (Fin 0) f \<and> flt_le f (Fin 15))"

definition metric :: "metrics \<Rightarrow> string \<Rightarrow> flt" where
  "metric m k = (case m k of Some f \<Rightarrow> f | None \<Rightarrow> NaN)"

definition missing_metrics :: "metrics \<Rightarrow> string list" where
  "missing_metrics m =
     map (\<lambda>k. ''missing/nonfinite '' @ k) (filter (\<lambda>k. case m k of Some f \<Rightarrow> \<not> flt_finite f | None \<Rightarrow> True) (map fst QUERIES))"

definition assess_canary :: "metrics \<Rightarrow> string list" where
  "assess_canary m =
     (if missing_metrics m \<noteq> [] then missing_metrics m
      else map (\<lambda>k. k @ '' != 1'') (filter (\<lambda>k. \<not> flt_eq (metric m k) (Fin 1)) [''up'', ''stable_up''])
        @ map (\<lambda>k. k @ '' stale'') (filter (\<lambda>k. stale (metric m k)) [''age'', ''stable_age''])
        @ (if flt_le (metric m ''traffic'') (Fin 0) then [''zero canary traffic''] else [])
        @ (if flt_le (metric m ''success'') (Fin 0) then [''zero successful inference''] else [])
        @ map (\<lambda>k. k @ '' >= 5%'') (filter (\<lambda>k. \<not> below_limit (metric m k) (5 / 100)) [''error_ratio'', ''proxy_error_ratio''])
        @ (if \<not> below_limit (metric m ''p95'') (1 / 10) then [''p95 >= 100ms''] else []))"

section \<open>One round\<close>

definition set_weight :: "'w canary_io \<Rightarrow> int \<Rightarrow> ('w, unit) prog" where
  "set_weight I value =
     bindP (ci_set_weight I value) (\<lambda>result. bindP (liftP (get_eq ''canary_weight'' (JInt value) result)) (\<lambda>ok.
     bindP (liftP (requireR ok (RuntimeError ''Router did not acknowledge update''))) (\<lambda>_.
     bindP (ci_state I) (\<lambda>s. bindP (liftP (jget ''canary_weight'' s)) (\<lambda>w.
       liftP (requireR (py_eq w (JInt value)) (RuntimeError ''Router readback mismatch'')))))))"

datatype canary_row =
    START int | ROLLED_BACK int "string list" | ROLLBACK_FAILED int string
  | PROMOTE int int | HEALTHY int | TIMED_OUT int

datatype judgement = Dwelling | Judged "string list"

definition quick_queries :: "(string \<times> string) list" where
  "quick_queries = filter (\<lambda>q. fst q \<in> {''up'', ''stable_up'', ''age'', ''stable_age''}) QUERIES"

definition quick_reasons :: "metrics \<Rightarrow> string list" where
  "quick_reasons m =
     map (\<lambda>k. k @ '' unavailable'') (filter (\<lambda>k. \<not> flt_eq (metric m k) (Fin 1)) [''up'', ''stable_up''])
     @ map (\<lambda>k. k @ '' stale'') (filter (\<lambda>k. stale (metric m k)) [''age'', ''stable_age''])"

definition judge_body :: "'w canary_io \<Rightarrow> rat \<Rightarrow> rat \<Rightarrow> ('w, judgement) prog" where
  "judge_body I dwell changed =
     bindP (mapP (named_query I None) quick_queries) (\<lambda>kvs.
     let reasons = quick_reasons (map_of kvs)
     in if reasons \<noteq> [] then retP (Judged reasons)
        else bindP (ci_monotonic I) (\<lambda>t.
             if t - changed < dwell then retP Dwelling
             else bindP (observe I) (\<lambda>m. retP (Judged (assess_canary m)))))"

definition is_metric_error :: "exn \<Rightarrow> bool" where
  "is_metric_error e \<longleftrightarrow> is_transport_error e \<or> is_value_error e \<or> is_key_error e \<or> is_type_error e"

definition judge :: "'w canary_io \<Rightarrow> rat \<Rightarrow> rat \<Rightarrow> ('w, judgement) prog" where
  "judge I dwell changed =
     catchP (judge_body I dwell changed)
       (\<lambda>e. if is_metric_error e then retP (Judged [''metrics unavailable: '' @ ci_text I e]) else raiseP e)"

text \<open>Three attempts at weight zero; the rows tell which one succeeded.\<close>

fun roll_back :: "'w canary_io \<Rightarrow> int \<Rightarrow> string list \<Rightarrow> int list \<Rightarrow> ('w, canary_row list \<times> bool) prog" where
  "roll_back I current reasons [] = retP ([], False)"
| "roll_back I current reasons (k # ks) =
     attemptP (set_weight I 0) (\<lambda>r. case r of
         Inr _ \<Rightarrow> retP ([ROLLED_BACK current reasons], True)
       | Inl e \<Rightarrow> bindP (ci_sleep I 1) (\<lambda>_. bindP (roll_back I current reasons ks) (\<lambda>(rows, ok).
           retP (ROLLBACK_FAILED k (ci_text I e) # rows, ok))))"

definition stage_after :: "int \<Rightarrow> int res" where
  "stage_after w = (if w = 10 then Inr 25 else if w = 25 then Inr 50 else if w = 50 then Inr 100 else Inl (KeyError ''stage''))"

record evaluation =
  el_current :: int
  el_changed :: rat
  el_rows :: "canary_row list"

datatype round_result = NextRound evaluation | Returned "canary_row list"

definition abandon :: "'w canary_io \<Rightarrow> evaluation \<Rightarrow> string list \<Rightarrow> ('w, round_result) prog" where
  "abandon I v reasons =
     bindP (roll_back I (el_current v) reasons [1, 2, 3]) (\<lambda>(rows, ok).
       if ok then retP (Returned (el_rows v @ rows))
       else raiseP (RuntimeError ''Rollback not acknowledged; operator action required''))"

definition go_up :: "'w canary_io \<Rightarrow> evaluation \<Rightarrow> ('w, round_result) prog" where
  "go_up I v =
     bindP (liftP (stage_after (el_current v))) (\<lambda>w. bindP (set_weight I w) (\<lambda>_. bindP (ci_monotonic I) (\<lambda>t.
       retP (NextRound (v\<lparr>el_current := w, el_changed := t, el_rows := el_rows v @ [PROMOTE (el_current v) w]\<rparr>)))))"

definition evaluation_round :: "'w canary_io \<Rightarrow> rat \<Rightarrow> rat \<Rightarrow> evaluation \<Rightarrow> ('w, round_result) prog" where
  "evaluation_round I dwell poll v =
     bindP (ci_sleep I poll) (\<lambda>_. bindP (judge I dwell (el_changed v)) (\<lambda>j. case j of
         Dwelling \<Rightarrow> retP (NextRound v)
       | Judged reasons \<Rightarrow>
           if reasons \<noteq> [] then abandon I v reasons
           else if el_current v < 100 then go_up I v
           else retP (NextRound (v\<lparr>el_rows := el_rows v @ [HEALTHY (el_current v)]\<rparr>))))"

section \<open>The run\<close>

fun evaluation_loop ::
  "nat \<Rightarrow> 'w canary_io \<Rightarrow> rat \<Rightarrow> rat \<Rightarrow> rat \<Rightarrow> rat \<Rightarrow> evaluation \<Rightarrow> 'w \<Rightarrow> (canary_row list res \<times> 'w) option"
where
  "evaluation_loop 0 I dwell poll duration started v w = None"
| "evaluation_loop (Suc n) I dwell poll duration started v w =
     (case ci_monotonic I w of
        (Inl e, w') \<Rightarrow> Some (Inl e, w')
      | (Inr t, w') \<Rightarrow>
          if \<not> t - started < duration then Some (Inr (el_rows v @ [TIMED_OUT (el_current v)]), w')
          else (case evaluation_round I dwell poll v w' of
                  (Inl e, x) \<Rightarrow> Some (Inl e, x)
                | (Inr (Returned rows), x) \<Rightarrow> Some (Inr rows, x)
                | (Inr (NextRound v'), x) \<Rightarrow> evaluation_loop n I dwell poll duration started v' x))"

definition start_evaluation :: "'w canary_io \<Rightarrow> ('w, rat) prog" where
  "start_evaluation I =
     bindP (ci_state I) (\<lambda>s. bindP (liftP (jget ''canary_weight'' s)) (\<lambda>w.
     bindP (liftP (requireR (py_eq w (JInt 10)) (RuntimeError ''Start a fresh demo at 10%''))) (\<lambda>_. ci_monotonic I)))"

definition evaluate :: "nat \<Rightarrow> 'w canary_io \<Rightarrow> rat \<Rightarrow> rat \<Rightarrow> rat \<Rightarrow> 'w \<Rightarrow> (canary_row list res \<times> 'w) option" where
  "evaluate n I dwell poll duration w =
     (case start_evaluation I w of
        (Inl e, w') \<Rightarrow> Some (Inl e, w')
      | (Inr t, w') \<Rightarrow>
          evaluation_loop n I dwell poll duration t \<lparr>el_current = 10, el_changed = t, el_rows = [START 10]\<rparr> w')"

text \<open>One turn of the wrapper: any exception of a run sets the weight to zero.\<close>

definition armed :: "'w canary_io \<Rightarrow> ('w, bool) prog" where
  "armed I = bindP (ci_state I) (\<lambda>s. bindP (liftP (jget ''canary_weight'' s)) (\<lambda>w. retP (py_eq w (JInt 10))))"

definition lifecycle_turn :: "nat \<Rightarrow> 'w canary_io \<Rightarrow> 'w \<Rightarrow> (unit res \<times> 'w) option" where
  "lifecycle_turn n I w =
     (let recover = attemptP (set_weight I 0) (\<lambda>_. ci_sleep I 3);
          rest = catchP (ci_sleep I 3) (\<lambda>_. recover)
      in case armed I w of
           (Inl _, w') \<Rightarrow> Some (recover w')
         | (Inr False, w') \<Rightarrow> Some (rest w')
         | (Inr True, w') \<Rightarrow>
             (case evaluate n I 35 3 86400 w' of
                None \<Rightarrow> None
              | Some (Inl _, x) \<Rightarrow> Some (recover x)
              | Some (Inr _, x) \<Rightarrow> Some (rest x)))"

end
