(* ===== verification/EvaluatorProperties.thy ===== *)
theory EvaluatorProperties
  imports Evaluator
begin

text \<open>
  The weights an evaluation sets. The HTTP endpoints are arbitrary; they are wrapped so that the
  world also keeps every weight that was posted, in order.
\<close>

section \<open>Watched endpoints\<close>
















section \<open>The ladder\<close>





















end
