(* ===== verification/Credentials.thy ===== *)
theory Credentials
  imports StateReader KServe
begin

text \<open>
  The rotation of the short-lived credentials of the release jobs:
  \<open>scripts/github/rotate_release_state_credential.py\<close>. A token is requested for one service account,
  its claims are checked, the credential reads the live state, the API server is asked what the token
  may do, and only then the credential may be stored as a secret. Subprocesses, base64, the JSON
  parser, the reading of the state and the access reviews are parameters.
\<close>

section \<open>Commands and tokens\<close>

definition KUBE_CONTEXT :: string where
  "KUBE_CONTEXT = ''ml-template-dev-sg''"

definition SECRET_REPOSITORY :: string where
  "SECRET_REPOSITORY = ''Ngducanh05/ml_template''"

definition role_config :: "string \<Rightarrow> (string \<times> string) res" where
  "role_config role =
     (if role = ''reader'' then Inr (''release-state-reader-v2'', ''RELEASE_STATE_READER_B64'')
      else if role = ''writer'' then Inr (''release-state-authorizer-v2'', ''RELEASE_STATE_WRITER_B64'')
      else Inl (KeyError role))"

record 'w rotation =
  ro_lib :: pylib
  ro_loads :: "string \<Rightarrow> json res"
  ro_segment :: "string \<Rightarrow> string option"
  ro_b64encode :: "string \<Rightarrow> string"
  ro_b64decode :: "string \<Rightarrow> string option"
  ro_command :: "string list \<Rightarrow> string option \<Rightarrow> ('w, int \<times> string) prog"
  ro_read :: "json \<Rightarrow> bool \<Rightarrow> ('w, string \<times> release_state) prog"
  ro_review :: "json \<Rightarrow> json \<Rightarrow> ('w, json) prog"
  ro_clock :: "('w, rat) prog"

definition run_command :: "'w rotation \<Rightarrow> string list \<Rightarrow> string option \<Rightarrow> ('w, string) prog" where
  "run_command R args input =
     bindP (ro_command R args input) (\<lambda>(exit, out).
       if exit \<noteq> 0 then raiseP (RuntimeError (''Command failed ('' @ hd args @ ''), exit='' @ int_str exit)) else retP (strip out))"

record token_claims =
  tc_subject :: string
  tc_expires_at :: int
  tc_remaining :: int

text \<open>\<open>ro_segment\<close> decodes URL-safe base64 to text; it and the parser may fail in any way.\<close>

definition decode_segment :: "'w rotation \<Rightarrow> string \<Rightarrow> json res" where
  "decode_segment R segment =
     (case ro_segment R segment of
        None \<Rightarrow> Inl (ValueError ''TokenRequest returned an invalid JWT'')
      | Some s \<Rightarrow>
          (case ro_loads R s of
             Inl _ \<Rightarrow> Inl (ValueError ''TokenRequest returned an invalid JWT'')
           | Inr v \<Rightarrow> bindR (requireR (is_dict v) (ValueError ''TokenRequest JWT payload must be an object'')) (\<lambda>_. Inr v)))"

definition API_AUDIENCE :: string where
  "API_AUDIENCE = ''https://kubernetes.default.svc''"

definition has_audience :: "json \<Rightarrow> bool res" where
  "has_audience aud =
     (case aud of
        JStr s \<Rightarrow> Inr (s = API_AUDIENCE)
      | JArr xs \<Rightarrow> Inr (list_ex (py_eq (JStr API_AUDIENCE)) xs)
      | JObj kvs \<Rightarrow> Inr (API_AUDIENCE \<in> set (map fst kvs))
      | _ \<Rightarrow> Inl (TypeError ''argument is not iterable''))"

text \<open>\<open>isinstance(v, int)\<close> holds of booleans as well.\<close>

definition as_int :: "json \<Rightarrow> int option" where
  "as_int j = (case j of JInt i \<Rightarrow> Some i | JBool b \<Rightarrow> Some (if b then 1 else 0) | _ \<Rightarrow> None)"

definition token_times :: "json \<Rightarrow> int \<Rightarrow> int res" where
  "token_times payload current =
     bindR (jget_or ''exp'' JNull payload) (\<lambda>e. bindR (jget_or ''iat'' JNull payload) (\<lambda>i.
       case (as_int e, as_int i) of
         (Some expires, Some issued) \<Rightarrow>
           if issued > current + 60 then Inl (ValueError ''TokenRequest JWT has invalid timestamps'') else Inr expires
       | _ \<Rightarrow> Inl (ValueError ''TokenRequest JWT has invalid timestamps'')))"

definition token_subject :: "string \<Rightarrow> string" where
  "token_subject account = ''system:serviceaccount:production:'' @ account"

definition validate_token :: "'w rotation \<Rightarrow> string \<Rightarrow> string \<Rightarrow> int \<Rightarrow> int \<Rightarrow> token_claims res" where
  "validate_token R token account minimum_ttl current =
     (case split_on (CHR ''.'') token of
        [_, segment, _] \<Rightarrow>
          bindR (decode_segment R segment) (\<lambda>payload.
          bindR (get_eq ''sub'' (JStr (token_subject account)) payload) (\<lambda>ok.
          bindR (requireR ok (ValueError ''TokenRequest JWT has the wrong service-account subject'')) (\<lambda>_.
          bindR (jget_or ''aud'' (JArr []) payload) (\<lambda>aud. bindR (has_audience aud) (\<lambda>ok.
          bindR (requireR ok (ValueError ''TokenRequest JWT has the wrong audience'')) (\<lambda>_.
          bindR (token_times payload current) (\<lambda>expires.
          bindR (requireR (\<not> expires - current < minimum_ttl)
                   (ValueError (''Token TTL is insufficient: '' @ int_str (expires - current) @ ''s remaining''))) (\<lambda>_.
            Inr \<lparr>tc_subject = token_subject account, tc_expires_at = expires, tc_remaining = expires - current\<rparr>))))))))
      | _ \<Rightarrow> Inl (ValueError ''TokenRequest did not return a JWT''))"

definition cluster_config :: "'w rotation \<Rightarrow> string \<Rightarrow> ('w, json \<times> json) prog" where
  "cluster_config R kube_context =
     bindP (run_command R [''kubectl'', ''--context'', kube_context, ''config'', ''view'', ''--raw'', ''--minify'', ''-o'', ''json''] None) (\<lambda>raw.
     liftP (bindR (ro_loads R raw) (\<lambda>j. bindR (jget ''clusters'' j) (\<lambda>cs. bindR (jnth 0 cs) (\<lambda>c. bindR (jget ''cluster'' c) (\<lambda>cluster.
       bindR (requireR (jhas ''certificate-authority-data'' cluster)
                (ValueError ''Kubernetes context must embed certificate-authority-data'')) (\<lambda>_.
       bindR (jget ''server'' cluster) (\<lambda>server. bindR (jget ''certificate-authority-data'' cluster) (\<lambda>ca. Inr (server, ca))))))))))"

definition credential :: "json \<Rightarrow> json \<Rightarrow> string \<Rightarrow> json" where
  "credential server ca token = JObj
     [(''server'', server), (''certificate_authority_data'', ca), (''token'', JStr token),
      (''namespace'', JStr ''production''), (''state_name'', JStr STATE_NAME)]"

section \<open>Permissions\<close>

record permission =
  pe_verb :: string
  pe_resource :: string
  pe_name :: string
  pe_group :: string
  pe_subresource :: "string option"

definition review_body :: "permission \<Rightarrow> json" where
  "review_body p = JObj
     [(''apiVersion'', JStr ''authorization.k8s.io/v1''), (''kind'', JStr ''SelfSubjectAccessReview''),
      (''spec'', JObj [(''resourceAttributes'', JObj
         ([(''namespace'', JStr ''production''), (''verb'', JStr (pe_verb p)), (''group'', JStr (pe_group p)),
           (''resource'', JStr (pe_resource p)), (''name'', JStr (pe_name p))]
          @ (case pe_subresource p of Some s \<Rightarrow> [(''subresource'', JStr s)] | None \<Rightarrow> [])))])]"

definition review_allowed :: "json \<Rightarrow> bool res" where
  "review_allowed answer =
     bindR (jget_or ''status'' (JObj []) answer) (\<lambda>status. bindR (jget_or ''allowed'' JNull status) (\<lambda>a. Inr (truthy a)))"

definition self_access :: "'w rotation \<Rightarrow> json \<Rightarrow> permission \<Rightarrow> ('w, bool) prog" where
  "self_access R config p =
     bindP (liftP (open_credential (ro_b64decode R) config)) (\<lambda>_.
     bindP (ro_review R config (review_body p)) (\<lambda>answer. liftP (review_allowed answer)))"

definition least_privileges :: "string \<Rightarrow> (permission \<times> bool) list" where
  "least_privileges role =
     (let p = (\<lambda>verb resource name gr sub. \<lparr>pe_verb = verb, pe_resource = resource, pe_name = name, pe_group = gr, pe_subresource = sub\<rparr>)
      in [(p ''get'' ''configmaps'' STATE_NAME [] None, True),
          (p ''update'' ''configmaps'' STATE_NAME [] None, role = ''writer''),
          (p ''get'' ''configmaps'' ''model-release-state'' [] None, False),
          (p ''get'' ''configmaps'' ''unrelated'' [] None, False),
          (p ''get'' ''secrets'' ''unrelated'' [] None, False),
          (p ''create'' ''jobs'' ''unrelated'' ''batch'' None, False),
          (p ''create'' ''pods'' ''unrelated'' [] (Some ''exec''), False)])"

fun verify_each :: "'w rotation \<Rightarrow> json \<Rightarrow> (permission \<times> bool) list \<Rightarrow> ('w, unit) prog" where
  "verify_each R config [] = retP ()"
| "verify_each R config ((p, allowed) # ps) =
     bindP (self_access R config p) (\<lambda>actual.
       if actual \<noteq> allowed then raiseP (OtherError ''PermissionError'') else verify_each R config ps)"

definition verify_permissions :: "'w rotation \<Rightarrow> json \<Rightarrow> string \<Rightarrow> ('w, unit) prog" where
  "verify_permissions R config role = verify_each R config (least_privileges role)"

section \<open>The rotation\<close>

definition encode_credential :: "'w rotation \<Rightarrow> json \<Rightarrow> string" where
  "encode_credential R config = ro_b64encode R (canonical_dumps (ro_lib R) config)"

definition store_secret :: "'w rotation \<Rightarrow> string \<Rightarrow> string \<Rightarrow> bool \<Rightarrow> ('w, unit) prog" where
  "store_secret R role encoded confirmed_writer =
     bindP (liftP (role_config role)) (\<lambda>(_, secret_name).
     bindP (liftP (requireR (role = ''writer'' \<longrightarrow> confirmed_writer)
              (ValueError ''Writer rotation requires --confirm-writer-rotation''))) (\<lambda>_.
     bindP (run_command R
       ([''gh'', ''secret'', ''set'', secret_name, ''--repo'', SECRET_REPOSITORY] @ (if role = ''writer'' then [''--env'', ''production''] else []))
       (Some encoded)) (\<lambda>_. retP ())))"

definition newest_candidate :: "release_state \<Rightarrow> pending_item option res" where
  "newest_candidate s =
     bindR (mapR (\<lambda>x. case it_pair x of
              Some p \<Rightarrow> bindR (py_int (sp_model_version p)) (\<lambda>v. Inr (v, x)) | None \<Rightarrow> Inl (TypeError ''no pair''))
            (filter (\<lambda>x. it_pair x \<noteq> None) (st_pending s))) (\<lambda>xs.
       case xs of [] \<Rightarrow> Inr None | x # rest \<Rightarrow> Inr (Some (snd (max_by (\<lambda>a b. fst a < fst b) x rest))))"

record state_summary =
  ss_stable :: string
  ss_candidate :: "(string \<times> string) option"
  ss_active :: bool
  ss_weight :: int

definition summarize_state :: "release_state \<Rightarrow> state_summary res" where
  "summarize_state s =
     bindR (newest_candidate s) (\<lambda>pending.
       case st_stable s of
         None \<Rightarrow> Inl (TypeError ''not subscriptable'')
       | Some p \<Rightarrow> Inr
           \<lparr>ss_stable = sp_model_version p,
            ss_candidate = (case pending of
               Some x \<Rightarrow> map_option (\<lambda>q. (sp_model_version q, status_name (it_status x))) (it_pair x) | None \<Rightarrow> None),
            ss_active = (st_active s \<noteq> None), ss_weight = rt_weight (st_route s)\<rparr>)"

record rotation_result =
  rr_stored :: bool
  rr_role :: string
  rr_secret_name :: string
  rr_claims :: token_claims
  rr_state :: state_summary

definition token_request :: "string \<Rightarrow> string \<Rightarrow> int \<Rightarrow> string list" where
  "token_request kube_context account duration =
     [''kubectl'', ''--context'', kube_context, ''-n'', ''production'', ''create'', ''token'', account,
      ''--duration='' @ int_str duration @ ''s'']"

text \<open>Up to the verified credential; the state read by it is summarised at the end.\<close>

definition verified_credential ::
  "'w rotation \<Rightarrow> string \<Rightarrow> string \<Rightarrow> int \<Rightarrow> int \<Rightarrow> ('w, json \<times> token_claims \<times> release_state) prog" where
  "verified_credential R role kube_context duration minimum_ttl =
     bindP (liftP (requireR (\<not> (duration < minimum_ttl \<or> minimum_ttl < 600 \<or> duration > 7200))
              (ValueError ''Require 600 <= minimum TTL <= requested duration <= 7200 seconds''))) (\<lambda>_.
     bindP (liftP (role_config role)) (\<lambda>(account, _).
     bindP (run_command R (token_request kube_context account duration) None) (\<lambda>token.
     bindP (ro_clock R) (\<lambda>now.
     bindP (liftP (validate_token R token account minimum_ttl (py_trunc now))) (\<lambda>claims.
     bindP (cluster_config R kube_context) (\<lambda>(server, ca).
     let config = credential server ca token
     in bindP (liftP (open_credential (ro_b64decode R) config)) (\<lambda>_.
        bindP (ro_read R config (role = ''writer'')) (\<lambda>(_, s).
        bindP (verify_permissions R config role) (\<lambda>_. retP (config, claims, s))))))))))"

definition rotate_credential ::
  "'w rotation \<Rightarrow> string \<Rightarrow> string \<Rightarrow> int \<Rightarrow> int \<Rightarrow> bool \<Rightarrow> bool \<Rightarrow> ('w, rotation_result) prog" where
  "rotate_credential R role kube_context duration minimum_ttl store confirmed_writer =
     bindP (verified_credential R role kube_context duration minimum_ttl) (\<lambda>(config, claims, s).
     bindP (whenP store (store_secret R role (encode_credential R config) confirmed_writer)) (\<lambda>_.
     bindP (liftP (role_config role)) (\<lambda>(_, secret_name). bindP (liftP (summarize_state s)) (\<lambda>summary.
       retP \<lparr>rr_stored = store, rr_role = role, rr_secret_name = secret_name, rr_claims = claims, rr_state = summary\<rparr>))))"

end
