(* ===== verification/CredentialProperties.thy ===== *)
theory CredentialProperties
  imports Credentials Scenario
begin

text \<open>
  When a credential may reach the secret store. The environment of a rotation is arbitrary; it is
  wrapped so that the world also lists the commands that were run, in order, with their input.
\<close>

type_synonym 'w listed = "'w \<times> (string list \<times> string option) list"

definition unlisted :: "('w, 'a) prog \<Rightarrow> ('w listed, 'a) prog" where
  "unlisted m = (\<lambda>(w, cmds). case m w of (r, w') \<Rightarrow> (r, w', cmds))"

definition listing :: "'w rotation \<Rightarrow> 'w listed rotation" where
  "listing R =
     \<lparr>ro_lib = ro_lib R, ro_loads = ro_loads R, ro_segment = ro_segment R, ro_b64encode = ro_b64encode R,
      ro_b64decode = ro_b64decode R,
      ro_command = (\<lambda>args input (w, cmds). case ro_command R args input w of (r, w') \<Rightarrow> (r, w', cmds @ [(args, input)])),
      ro_read = (\<lambda>config writable. unlisted (ro_read R config writable)),
      ro_review = (\<lambda>config body. unlisted (ro_review R config body)), ro_clock = unlisted (ro_clock R)\<rparr>"

definition secret_commands :: "(string list \<times> string option) list \<Rightarrow> (string list \<times> string option) list" where
  "secret_commands cmds = filter (\<lambda>c. hd (fst c) = ''gh'') cmds"

definition no_secrets :: "'w listed \<Rightarrow> 'w listed \<Rightarrow> bool" where
  "no_secrets x y \<longleftrightarrow> secret_commands (snd y) = secret_commands (snd x)"

lemma no_secrets_order [simp]: "reflp no_secrets" "transp no_secrets"
  by (auto simp: no_secrets_def reflp_def transp_def)

lemma no_secrets_unlisted: "keeps no_secrets (unlisted m)"
  by (auto simp: keeps_def no_secrets_def unlisted_def split: prod.splits)

lemma run_command_lists:
  assumes "run_command (listing R) args input x = (r, y)"
  shows "snd y = snd x @ [(args, input)]"
  using assms
  by (cases x) (auto simp: run_command_def listing_def run_bindP run_retP run_raiseP split: prod.splits sum.splits if_splits)

lemma no_secrets_command: "hd args \<noteq> ''gh'' \<Longrightarrow> keeps no_secrets (run_command (listing R) args input)"
  unfolding keeps_def
proof
  fix x :: "'a listed"
  assume "hd args \<noteq> ''gh''"
  obtain r y where y: "run_command (listing R) args input x = (r, y)" by (rule prod.exhaust)
  from run_command_lists [OF y] \<open>hd args \<noteq> ''gh''\<close>
  show "no_secrets x (snd (run_command (listing R) args input x))"
    by (simp add: y no_secrets_def secret_commands_def)
qed

lemma listing_sel [simp]:
  "ro_lib (listing R) = ro_lib R" "ro_loads (listing R) = ro_loads R" "ro_segment (listing R) = ro_segment R"
  "ro_b64encode (listing R) = ro_b64encode R" "ro_b64decode (listing R) = ro_b64decode R"
  "ro_read (listing R) config writable = unlisted (ro_read R config writable)"
  "ro_review (listing R) config body = unlisted (ro_review R config body)"
  "ro_clock (listing R) = unlisted (ro_clock R)"
  by (simp_all add: listing_def)

lemmas no_secrets_intros =
  no_secrets_unlisted no_secrets_command keeps_pure [OF no_secrets_order(1)] keeps_bindP [OF no_secrets_order]

lemma no_secrets_verify: "keeps no_secrets (verify_each (listing R) config ps)"
  by (induction ps) (auto simp: self_access_def intro!: no_secrets_intros)

lemma no_secrets_verified: "keeps no_secrets (verified_credential (listing R) role c duration ttl)"
  unfolding verified_credential_def cluster_config_def verify_permissions_def token_request_def Let_def
  by (auto intro!: no_secrets_intros no_secrets_verify split: prod.split)

section \<open>What a verified credential is\<close>

lemma verify_each_all:
  "verify_each R config ps x = (Inr u, y) \<Longrightarrow> (p, a) \<in> set ps \<Longrightarrow> \<exists>v v'. self_access R config p v = (Inr a, v')"
proof (induction ps arbitrary: x)
  case (Cons q ps)
  obtain q1 q2 where q: "q = (q1, q2)" by fastforce
  from Cons.prems(1) obtain b z where b: "self_access R config q1 x = (Inr b, z)"
    "(if b \<noteq> q2 then raiseP (OtherError ''PermissionError'') else verify_each R config ps) z = (Inr u, y)"
    unfolding q verify_each.simps bindP_Inr_iff by blast
  then have "b = q2" by (auto simp: run_raiseP split: if_splits)
  with b Cons q show ?case by auto
qed simp

definition proven_token :: "'w rotation \<Rightarrow> string \<Rightarrow> int \<Rightarrow> json \<Rightarrow> bool" where
  "proven_token R role ttl config \<longleftrightarrow>
     (\<exists>token account secret_name claims now.
        role_config role = Inr (account, secret_name) \<and> jget ''token'' config = Inr (JStr token)
        \<and> validate_token R token account ttl now = Inr claims \<and> ttl \<le> tc_remaining claims)"

lemma validate_token_ttl: "validate_token R token account ttl now = Inr claims \<Longrightarrow> ttl \<le> tc_remaining claims"
  by (auto simp: validate_token_def bindR_Inr_iff split: list.splits)

lemma validate_token_listing [simp]: "validate_token (listing R) = validate_token R"
proof -
  have "decode_segment (listing R) = decode_segment R" by (intro ext) (simp add: decode_segment_def split: option.split)
  then show ?thesis by (intro ext) (simp only: validate_token_def)
qed

lemma verified_credentialD:
  assumes "verified_credential (listing R) role c duration ttl x = (Inr (config, claims, s), y)"
  shows "600 \<le> ttl \<and> ttl \<le> duration \<and> duration \<le> 7200 \<and> proven_token R role ttl config
    \<and> (\<forall>(p, a) \<in> set (least_privileges role). \<exists>v v'. self_access (listing R) config p v = (Inr a, v'))"
proof -
  from assms obtain account name token now server ca x5 x6 x7 where
    bounds: "\<not> (duration < ttl \<or> ttl < 600 \<or> duration > 7200)" and account: "role_config role = Inr (account, name)"
    and valid: "validate_token R token account ttl (py_trunc now) = Inr claims"
    and config: "config = credential server ca token"
    and perms: "verify_permissions (listing R) config role x5 = (Inr x6, x7)"
    unfolding verified_credential_def bindP_Inr_iff Let_def by (auto simp: bindP_Inr_iff run_liftP run_retP split: prod.splits)
  have "proven_token R role ttl config"
    unfolding proven_token_def config using account valid validate_token_ttl [OF valid]
    by (auto simp: credential_def)
  then show ?thesis
    using bounds verify_each_all [OF perms [unfolded verify_permissions_def]] by auto
qed

text \<open>
  C30 (stored secrets are proven). A rotation sets a secret at most once, and only when storing was
  asked for and, for the writer, confirmed; then the lifetime lies within the bounds, the stored text
  encodes a credential whose token was issued to the account of the role for long enough, and the API
  server itself answered every access review of that credential exactly as the least privileges of
  the role demand.
\<close>
theorem stored_secret_proven:
  assumes "rotate_credential (listing R) role c duration ttl store confirmed (w, []) = (r, w', cmds)"
    and "secret_commands cmds \<noteq> []"
  shows "store \<and> (role = ''writer'' \<longrightarrow> confirmed) \<and> 600 \<le> ttl \<and> ttl \<le> duration \<and> duration \<le> 7200
    \<and> (\<exists>args config. secret_commands cmds = [(args, Some (encode_credential R config))] \<and> proven_token R role ttl config
         \<and> (\<forall>(p, a) \<in> set (least_privileges role). \<exists>v v'. self_access (listing R) config p v = (Inr a, v')))"
proof -
  obtain q x where q: "verified_credential (listing R) role c duration ttl (w, []) = (q, x)" by (rule prod.exhaust)
  have x: "secret_commands (snd x) = []"
    using keepsD [OF no_secrets_verified q] by (simp add: no_secrets_def secret_commands_def)
  show ?thesis
  proof (cases q)
    case (Inl e)
    then show ?thesis using assms q x by (simp add: rotate_credential_def run_bindP)
  next
    case (Inr v)
    obtain config claims s where v: "v = (config, claims, s)" by (cases v)
    let ?encoded = "encode_credential R config"
    have encoded: "encode_credential (listing R) config = ?encoded" by (simp add: encode_credential_def)
    obtain p y where p: "whenP store (store_secret (listing R) role ?encoded confirmed) x = (p, y)" by (rule prod.exhaust)
    have "snd (w', cmds) = snd y"
      using assms(1) q Inr v p encoded
      by (auto simp: rotate_credential_def run_bindP run_liftP run_retP split: sum.splits prod.splits)
    then have y: "secret_commands (snd y) \<noteq> []" "cmds = snd y" using assms(2) by simp_all
    have store: "store" using p x y by (auto simp: run_whenP split: if_splits)
    have "store_secret (listing R) role ?encoded confirmed x = (p, y)" using p store by (simp add: run_whenP)
    then have "(role = ''writer'' \<longrightarrow> confirmed) \<and> (\<exists>args. secret_commands (snd y) = [(args, Some ?encoded)])"
      using x y(1)
      by (auto simp: store_secret_def run_bindP run_liftP run_retP secret_commands_def
          split: sum.splits prod.splits dest!: run_command_lists)
    then show ?thesis
      using verified_credentialD [OF q [unfolded Inr v]] store y(2) by blast
  qed
qed


section \<open>A rotation\<close>

text \<open>The reader's token is rotated and stored at time 1000; the world is a unit.\<close>

definition rotation_sample :: "unit rotation" where
  "rotation_sample =
     \<lparr>ro_lib = sample_lib,
      ro_loads = (\<lambda>s. if s = ''claims'' then Inr (JObj
          [(''sub'', JStr ''system:serviceaccount:production:release-state-reader-v2''),
           (''aud'', JArr [JStr ''https://kubernetes.default.svc'']), (''exp'', JInt 2000), (''iat'', JInt 1000)])
        else Inr (JObj [(''clusters'', JArr [JObj [(''cluster'', JObj
          [(''server'', JStr ''https://api.example.com''), (''certificate-authority-data'', JStr ''Y2E='')])]])])),
      ro_segment = (\<lambda>_. Some ''claims''), ro_b64encode = (\<lambda>s. s), ro_b64decode = (\<lambda>s. Some s),
      ro_command = (\<lambda>args _. retP (0, if hd args = ''kubectl'' \<and> ''token'' \<in> set args then ''a.b.c'' else ''{}'')),
      ro_read = (\<lambda>_ _. retP (''41'', sample_state)),
      ro_review = (\<lambda>_ body. retP (JObj [(''status'', JObj [(''allowed'', JBool (body = review_body
        \<lparr>pe_verb = ''get'', pe_resource = ''configmaps'', pe_name = STATE_NAME, pe_group = [], pe_subresource = None\<rparr>))])])),
      ro_clock = retP 1000\<rparr>"

definition sample_rotation :: "rotation_result res \<times> unit listed" where
  "sample_rotation = rotate_credential (listing rotation_sample) ''reader'' KUBE_CONTEXT 900 600 True False ((), [])"

lemma sample_rotated:
  "(case sample_rotation of (Inr x, _, cmds) \<Rightarrow> rr_stored x \<and> length (secret_commands cmds) = 1 | _ \<Rightarrow> False)"
  by code_simp

text \<open>C1 on this rotation: one secret, of a proven credential.\<close>
lemma stored_secret_proven_witness:
  "\<exists>x cmds args config. sample_rotation = (Inr x, (), cmds)
     \<and> secret_commands cmds = [(args, Some (encode_credential rotation_sample config))]
     \<and> proven_token rotation_sample ''reader'' 600 config"
proof -
  obtain q cmds where x: "sample_rotation = (q, (), cmds)" by (cases sample_rotation) auto
  have len: "length (secret_commands cmds) = 1" and "\<exists>y. q = Inr y"
    using sample_rotated [unfolded x] by (cases q; simp)+
  moreover from len have "secret_commands cmds \<noteq> []" by auto
  from stored_secret_proven [OF x [unfolded sample_rotation_def] this]
  have "\<exists>args config. secret_commands cmds = [(args, Some (encode_credential rotation_sample config))]
      \<and> proven_token rotation_sample ''reader'' 600 config" by blast
  ultimately show ?thesis using x by blast
qed

end
