(* ===== verification/TrafficPolicy.thy ===== *)
theory TrafficPolicy
  imports AutoTraffic Scenario
begin

text \<open>
  The admission policy that \<open>control_plane/automatic_traffic_v2.py\<close> proposes for the Jobs of the automatic
  traffic, its CEL expressions translated into functions on the posted object, and the theorems on
  the driver: what it posts passes the policy, and one tick posts at most one Job. A CEL expression that
  reads a field that is missing is an error, and the policy then denies; \<open>quantity\<close> is a parameter.
\<close>

section \<open>The policy\<close>

definition cel_is :: "string list \<Rightarrow> json \<Rightarrow> json \<Rightarrow> bool res" where
  "cel_is path v obj = bindR (jdeep path obj) (\<lambda>x. Inr (x = v))"

definition cel_size :: "string list \<Rightarrow> nat \<Rightarrow> json \<Rightarrow> bool res" where
  "cel_size path n obj = bindR (jdeep path obj) (\<lambda>x. bindR (jlen x) (\<lambda>k. Inr (k = n)))"

definition cel_absent :: "string list \<Rightarrow> string \<Rightarrow> json \<Rightarrow> bool res" where
  "cel_absent path k obj = bindR (jdeep path obj) (\<lambda>x. Inr (\<not> jhas k x))"

definition cel_none :: "string list \<Rightarrow> string \<Rightarrow> json \<Rightarrow> bool res" where
  "cel_none path k obj = orR [cel_absent path k obj, cel_size (path @ [k]) 0 obj]"

definition cel_text :: "string list \<Rightarrow> (string \<Rightarrow> bool) \<Rightarrow> json \<Rightarrow> bool res" where
  "cel_text path p obj =
     bindR (jdeep path obj) (\<lambda>x. case x of JStr s \<Rightarrow> Inr (p s) | _ \<Rightarrow> Inl (TypeError ''no such overload''))"

definition cel_quantity :: "(string \<Rightarrow> 'q) \<Rightarrow> string list \<Rightarrow> string \<Rightarrow> json \<Rightarrow> bool res" where
  "cel_quantity quantity path v = cel_text path (\<lambda>s. quantity s = quantity v)"

definition item_of :: "string list \<Rightarrow> nat \<Rightarrow> (json \<Rightarrow> bool res) \<Rightarrow> json \<Rightarrow> bool res" where
  "item_of path i f obj = bindR (jdeep path obj) (\<lambda>x. bindR (jnth i x) f)"

definition POD :: "string list" where
  "POD = [''spec'', ''template'', ''spec'']"

definition on_container :: "(json \<Rightarrow> bool res) \<Rightarrow> json \<Rightarrow> bool res" where
  "on_container = item_of (POD @ [''containers'']) 0"

definition job_identity :: "json \<Rightarrow> bool res" where
  "job_identity obj = andR
     [cel_text [''metadata'', ''name''] (starts_with ''v2-e2e-auto-'') obj,
      cel_is [''metadata'', ''labels'', ''app.kubernetes.io/name''] (JStr ''v2-e2e-runner'') obj,
      cel_is [''metadata'', ''annotations'', ''ml-template.io/synthetic-policy-test''] (JStr ''true'') obj,
      cel_text [''metadata'', ''annotations'', ''ml-template.io/authorization-id''] rx_digest obj]"

definition job_lifecycle :: "json \<Rightarrow> bool res" where
  "job_lifecycle obj = andR
     [cel_is [''spec'', ''backoffLimit''] (JInt 0) obj, cel_is [''spec'', ''parallelism''] (JInt 1) obj,
      cel_is [''spec'', ''completions''] (JInt 1) obj, cel_is [''spec'', ''activeDeadlineSeconds''] (JInt 930) obj,
      cel_absent [''spec''] ''ttlSecondsAfterFinished'' obj]"

definition pod_identity :: "json \<Rightarrow> bool res" where
  "pod_identity obj = andR
     [cel_is (POD @ [''serviceAccountName'']) (JStr ''model-release-traffic-v2'') obj,
      cel_is (POD @ [''automountServiceAccountToken'']) (JBool True) obj, cel_is (POD @ [''restartPolicy'']) (JStr ''Never'') obj,
      cel_absent POD ''hostNetwork'' obj, cel_absent POD ''hostPID'' obj, cel_absent POD ''hostIPC'' obj,
      cel_none POD ''initContainers'' obj]"

definition job_executable :: "string \<Rightarrow> json \<Rightarrow> bool res" where
  "job_executable img obj = andR
     [cel_size (POD @ [''containers'']) 1 obj, on_container (cel_is [''name''] (JStr ''runner'')) obj,
      on_container (cel_is [''image''] (JStr img)) obj,
      on_container (cel_is [''command''] (JArr (map JStr [''python'', ''-m'', ''scripts.e2e_v2.runner'']))) obj,
      on_container (cel_size [''args''] 4) obj,
      on_container (item_of [''args''] 0 (\<lambda>x. Inr (x = JStr ''--config-json''))) obj,
      on_container (item_of [''args''] 2 (\<lambda>x. Inr (x = JStr ''--payload''))) obj,
      on_container (item_of [''args''] 3 (\<lambda>x. Inr (x = JStr ''/app/scripts/e2e_v2/synthetic_credit_risk.json''))) obj]"

definition job_security :: "json \<Rightarrow> bool res" where
  "job_security obj = andR
     [cel_is (POD @ [''securityContext'', ''runAsNonRoot'']) (JBool True) obj,
      cel_is (POD @ [''securityContext'', ''runAsUser'']) (JInt 10001) obj,
      cel_is (POD @ [''securityContext'', ''runAsGroup'']) (JInt 10001) obj,
      cel_is (POD @ [''securityContext'', ''fsGroup'']) (JInt 10001) obj,
      cel_is (POD @ [''securityContext'', ''seccompProfile'', ''type'']) (JStr ''RuntimeDefault'') obj,
      on_container (cel_is [''securityContext'', ''allowPrivilegeEscalation''] (JBool False)) obj,
      on_container (cel_is [''securityContext'', ''readOnlyRootFilesystem''] (JBool True)) obj,
      on_container (cel_is [''securityContext'', ''capabilities'', ''drop''] (JArr [JStr ''ALL''])) obj]"

definition job_environment :: "(string \<Rightarrow> 'q) \<Rightarrow> json \<Rightarrow> bool res" where
  "job_environment quantity obj = andR
     [on_container (cel_size [''env''] 1) obj,
      on_container (item_of [''env''] 0 (cel_is [''name''] (JStr ''AWS_EC2_METADATA_DISABLED''))) obj,
      on_container (item_of [''env''] 0 (cel_is [''value''] (JStr ''true''))) obj,
      on_container (cel_none [] ''envFrom'') obj, cel_none POD ''imagePullSecrets'' obj,
      on_container (cel_quantity quantity [''resources'', ''requests'', ''cpu''] ''50m'') obj,
      on_container (cel_quantity quantity [''resources'', ''requests'', ''memory''] ''64Mi'') obj,
      on_container (cel_quantity quantity [''resources'', ''limits'', ''cpu''] ''500m'') obj,
      on_container (cel_quantity quantity [''resources'', ''limits'', ''memory''] ''256Mi'') obj]"

definition job_volumes :: "(string \<Rightarrow> 'q) \<Rightarrow> json \<Rightarrow> bool res" where
  "job_volumes quantity obj = andR
     [cel_size (POD @ [''volumes'']) 1 obj,
      item_of (POD @ [''volumes'']) 0 (cel_is [''name''] (JStr ''evidence'')) obj,
      item_of (POD @ [''volumes'']) 0 (cel_quantity quantity [''emptyDir'', ''sizeLimit''] ''32Mi'') obj,
      on_container (cel_size [''volumeMounts''] 1) obj,
      on_container (item_of [''volumeMounts''] 0 (cel_is [''name''] (JStr ''evidence''))) obj,
      on_container (item_of [''volumeMounts''] 0 (cel_is [''mountPath''] (JStr ''/evidence''))) obj]"

text \<open>\<open>failurePolicy\<close> is \<open>Fail\<close>: an error denies.\<close>

definition admitted :: "(string \<Rightarrow> 'q) \<Rightarrow> string \<Rightarrow> json \<Rightarrow> bool" where
  "admitted quantity img obj \<longleftrightarrow>
     list_all (\<lambda>f. f obj = Inr True)
       [job_identity, job_lifecycle, pod_identity, job_executable img, job_security, job_environment quantity, job_volumes quantity]"

section \<open>What the driver posts is admitted\<close>

lemma binding_authorization:
  assumes "binding L a = Inr b"
  shows "\<exists>ev h. digest L ev = Inr h \<and> rb_authorization_id b = JStr h"
proof -
  obtain auth ev st same where auth: "validate_authorization L auth (Some (ac_pair a)) (Some (ac_fingerprint a)) ev = Inr ()"
    and h: "jget ''evidence_hash'' auth = Inr (rb_authorization_id b)"
    using assms unfolding binding_def bindR_Inr_iff by (auto split: option.splits)
  from auth obtain e eh h' where "jget ''evidence_hash'' auth = Inr eh" "digest L e = Inr h'" "eh = JStr h'"
    unfolding validate_authorization_def bindR_Inr_iff requireR_iff by blast
  with h show ?thesis by (metis sum.inject(2))
qed

lemma traffic_settings_of [simp]:
  "text_setting ''run_id'' (traffic_config b approval) = traffic_run_id b"
  "text_setting ''namespace'' (traffic_config b approval) = ''production''"
  "text_setting ''mode'' (traffic_config b approval) = ''policy-test''"
  "int_setting ''duration'' (traffic_config b approval) = 900"
  by (simp_all add: text_setting_def int_setting_def traffic_config_def)

lemmas patch_defs = jupdate_def jput_def drop_key_def only_evidence_def traffic_pod_def traffic_containers_def traffic_container_def

lemma render_job_run:
  assumes "render_job L script payload a img approval = Inr job"
  obtains b where "binding L a = Inr b"
    "bindR (jmodify [''spec''] (drop_key ''ttlSecondsAfterFinished'')
       (run_job (run_metadata L script (traffic_config b approval) payload img) (''v2-e2e-'' @ traffic_run_id b) img 900)) (\<lambda>job.
     bindR (jmodify [''spec''] (jupdate [(''parallelism'', JInt 1), (''completions'', JInt 1)]) job) (\<lambda>job.
     bindR (jmodify [''spec'', ''template'', ''spec''] (traffic_pod L (traffic_config b approval)) job) (\<lambda>job.
       jmodify [''metadata'', ''annotations'']
         (jupdate [(''ml-template.io/authorization-id'', rb_authorization_id b),
                   (''ml-template.io/operator-approval'', JStr approval)]) job))) = Inr job"
proof -
  obtain b objects where b: "binding L a = Inr b"
    and objects: "render_run L script (traffic_config b approval) payload img = Inr objects"
    and rest: "bindR (jmodify [''spec''] (drop_key ''ttlSecondsAfterFinished'') (last objects)) (\<lambda>job.
        bindR (jmodify [''spec''] (jupdate [(''parallelism'', JInt 1), (''completions'', JInt 1)]) job) (\<lambda>job.
        bindR (jmodify [''spec'', ''template'', ''spec''] (traffic_pod L (traffic_config b approval)) job) (\<lambda>job.
          jmodify [''metadata'', ''annotations'']
            (jupdate [(''ml-template.io/authorization-id'', rb_authorization_id b),
                      (''ml-template.io/operator-approval'', JStr approval)]) job))) = Inr job"
    using assms unfolding render_job_def Let_def bindR_Inr_iff by blast
  have "last objects = run_job (run_metadata L script (traffic_config b approval) payload img)
      (''v2-e2e-'' @ traffic_run_id b) img 900"
    using objects by (auto simp: render_run_def bindR_Inr_iff Let_def)
  with rest show thesis using that [OF b] by simp
qed

text \<open>The Job as it is posted, with its container.\<close>

definition posted_container :: "pylib \<Rightarrow> json \<Rightarrow> string \<Rightarrow> json" where
  "posted_container L config img = JObj
     [(''name'', JStr ''runner''), (''image'', JStr img),
      (''command'', JArr (map JStr [''python'', ''-m'', ''scripts.e2e_v2.runner''])),
      (''env'', JArr [strings [(''name'', ''AWS_EC2_METADATA_DISABLED''), (''value'', ''true'')]]),
      (''resources'', JObj [(''requests'', strings [(''cpu'', ''50m''), (''memory'', ''64Mi'')]),
                           (''limits'', strings [(''cpu'', ''500m''), (''memory'', ''256Mi'')])]),
      (''securityContext'', JObj [(''allowPrivilegeEscalation'', JBool False), (''readOnlyRootFilesystem'', JBool True),
                                 (''capabilities'', JObj [(''drop'', JArr [JStr ''ALL''])])]),
      (''volumeMounts'', JArr [strings [(''name'', ''evidence''), (''mountPath'', ''/evidence'')]]),
      (''args'', JArr (map JStr [''--config-json'', plain_dumps L (sort_keys config), ''--payload'', PAYLOAD_PATH]))]"

definition posted_pod :: "pylib \<Rightarrow> json \<Rightarrow> string \<Rightarrow> json" where
  "posted_pod L config img = JObj
     [(''serviceAccountName'', JStr TRAFFIC_ACCOUNT), (''restartPolicy'', JStr ''Never''),
      (''securityContext'', JObj
         [(''runAsNonRoot'', JBool True), (''runAsUser'', JInt 10001), (''runAsGroup'', JInt 10001), (''fsGroup'', JInt 10001),
          (''seccompProfile'', strings [(''type'', ''RuntimeDefault'')])]),
      (''containers'', JArr [posted_container L config img]),
      (''volumes'', JArr [JObj [(''name'', JStr ''evidence''), (''emptyDir'', strings [(''sizeLimit'', ''32Mi'')])]]),
      (''automountServiceAccountToken'', JBool True)]"

definition posted_job :: "pylib \<Rightarrow> string \<Rightarrow> json \<Rightarrow> release_binding \<Rightarrow> string \<Rightarrow> string \<Rightarrow> json" where
  "posted_job L script payload b img approval = JObj
     [(''apiVersion'', JStr ''batch/v1''), (''kind'', JStr ''Job''),
      (''metadata'', JObj
         [(''name'', JStr (''v2-e2e-'' @ traffic_run_id b)), (''namespace'', JStr ''production''), (''labels'', runner_labels),
          (''annotations'', JObj
             [(''ml-template.io/e2e-identity'', JStr (run_identity L script (traffic_config b approval) payload img)),
              (''ml-template.io/synthetic-policy-test'', JStr ''true''),
              (''ml-template.io/authorization-id'', rb_authorization_id b), (''ml-template.io/operator-approval'', JStr approval)])]),
      (''spec'', JObj
         [(''backoffLimit'', JInt 0), (''activeDeadlineSeconds'', JInt 930),
          (''template'', JObj [(''metadata'', JObj [(''labels'', runner_labels)]),
                              (''spec'', posted_pod L (traffic_config b approval) img)]),
          (''parallelism'', JInt 1), (''completions'', JInt 1)])]"

lemma render_job_posted:
  assumes "render_job L script payload a img approval = Inr job"
  obtains b where "binding L a = Inr b" "job = posted_job L script payload b img approval"
proof -
  from assms obtain b where b: "binding L a = Inr b"
    and run: "bindR (jmodify [''spec''] (drop_key ''ttlSecondsAfterFinished'')
       (run_job (run_metadata L script (traffic_config b approval) payload img) (''v2-e2e-'' @ traffic_run_id b) img 900)) (\<lambda>job.
     bindR (jmodify [''spec''] (jupdate [(''parallelism'', JInt 1), (''completions'', JInt 1)]) job) (\<lambda>job.
     bindR (jmodify [''spec'', ''template'', ''spec''] (traffic_pod L (traffic_config b approval)) job) (\<lambda>job.
       jmodify [''metadata'', ''annotations'']
         (jupdate [(''ml-template.io/authorization-id'', rb_authorization_id b),
                   (''ml-template.io/operator-approval'', JStr approval)]) job))) = Inr job"
    by (rule render_job_run)
  have "job = posted_job L script payload b img approval" using run
    by (simp add: run_job_def run_metadata_def runner_pod_def runner_container_def patch_defs jiter_def strings_def
        posted_job_def posted_pod_def posted_container_def)
  with that b show thesis by blast
qed

text \<open>Conversely, a valid authorization, image and ticket yield that Job.\<close>

lemma render_job_exact:
  assumes "runtime_image (JStr img) = Inr x" and "ticket (JStr approval) = Inr y" and "binding L a = Inr b"
    and "validate_config (traffic_config b approval) = Inr u" and "rx_immutable_image img"
  shows "render_job L script payload a img approval = Inr (posted_job L script payload b img approval)"
  using assms
  by (simp add: render_job_def render_run_def Let_def run_job_def run_metadata_def runner_pod_def runner_container_def
      patch_defs jiter_def strings_def posted_job_def posted_pod_def posted_container_def)

lemma jdeep_append: "jdeep (ks @ ls) j = bindR (jdeep ks j) (jdeep ls)"
proof (induction ks arbitrary: j)
  case (Cons k ks)
  then have "jdeep (ks @ ls) = (\<lambda>x. bindR (jdeep ks x) (jdeep ls))" by (intro ext)
  then show ?case by (simp add: bindR_assoc)
qed simp

lemma posted_paths:
  "jdeep [''spec''] (posted_job L script payload b img approval) = Inr (JObj
     [(''backoffLimit'', JInt 0), (''activeDeadlineSeconds'', JInt 930),
      (''template'', JObj [(''metadata'', JObj [(''labels'', runner_labels)]),
                          (''spec'', posted_pod L (traffic_config b approval) img)]),
      (''parallelism'', JInt 1), (''completions'', JInt 1)])"
  "jdeep POD (posted_job L script payload b img approval) = Inr (posted_pod L (traffic_config b approval) img)"
  by (simp_all add: posted_job_def POD_def)

lemma posted_containers:
  "jget ''containers'' (posted_pod L config img) = Inr (JArr [posted_container L config img])"
  by (simp add: posted_pod_def)

lemma on_container_posted:
  "on_container f (posted_job L script payload b img approval) = f (posted_container L (traffic_config b approval) img)"
  by (simp add: on_container_def item_of_def jdeep_append posted_paths posted_containers jnth_def)

lemma on_pod_posted:
  "cel_is (POD @ ks) v (posted_job L script payload b img approval) = cel_is ks v (posted_pod L (traffic_config b approval) img)"
  "cel_size (POD @ ks) n (posted_job L script payload b img approval) = cel_size ks n (posted_pod L (traffic_config b approval) img)"
  "cel_absent POD k (posted_job L script payload b img approval) = cel_absent [] k (posted_pod L (traffic_config b approval) img)"
  "cel_none POD k (posted_job L script payload b img approval) = cel_none [] k (posted_pod L (traffic_config b approval) img)"
  "item_of (POD @ ks) i f (posted_job L script payload b img approval) = item_of ks i f (posted_pod L (traffic_config b approval) img)"
  by (simp_all add: cel_is_def cel_size_def cel_absent_def cel_none_def item_of_def jdeep_append posted_paths)

lemmas cel_defs = cel_is_def cel_size_def cel_absent_def cel_none_def cel_text_def cel_quantity_def item_of_def
  jlen_def jiter_def jnth_def jhas_def strings_def

lemma posted_lifecycle: "job_lifecycle (posted_job L script payload b img approval) = Inr True"
  by (simp add: job_lifecycle_def cel_defs posted_job_def)

lemma posted_identity:
  assumes "rb_authorization_id b = JStr h" and "rx_digest h"
  shows "job_identity (posted_job L script payload b img approval) = Inr True"
  using assms by (simp add: job_identity_def cel_defs posted_job_def runner_labels_def traffic_run_id_def starts_with_def)

lemma posted_pod_identity: "pod_identity (posted_job L script payload b img approval) = Inr True"
  unfolding pod_identity_def on_pod_posted by (simp add: cel_defs posted_pod_def TRAFFIC_ACCOUNT_def)

lemma posted_executable: "job_executable img (posted_job L script payload b img approval) = Inr True"
  unfolding job_executable_def on_pod_posted on_container_posted
  by (simp add: cel_defs posted_pod_def posted_container_def PAYLOAD_PATH_def)

lemma posted_security: "job_security (posted_job L script payload b img approval) = Inr True"
  unfolding job_security_def on_pod_posted on_container_posted
  by (simp add: cel_defs posted_pod_def posted_container_def)

lemma posted_environment: "job_environment quantity (posted_job L script payload b img approval) = Inr True"
  unfolding job_environment_def on_pod_posted on_container_posted
  by (simp add: cel_defs posted_pod_def posted_container_def)

lemma posted_volumes: "job_volumes quantity (posted_job L script payload b img approval) = Inr True"
  unfolding job_volumes_def on_pod_posted on_container_posted
  by (simp add: cel_defs posted_pod_def posted_container_def)

text \<open>
  C31 (what is posted is admitted). When hashes are 64 hexadecimal digits, every Job that
  \<open>render_job\<close> produces passes each rule of the admission policy the program proposes for these Jobs,
  for every reading of quantities.
\<close>
theorem rendered_job_admitted:
  assumes "render_job L script payload a img approval = Inr job" and "\<And>s. rx_chars 64 64 hex_digit (lib_sha256 L s)"
  shows "admitted quantity img job"
proof -
  obtain b where b: "binding L a = Inr b" and job: "job = posted_job L script payload b img approval"
    using assms(1) by (rule render_job_posted)
  obtain ev h where h: "digest L ev = Inr h" "rb_authorization_id b = JStr h"
    using binding_authorization [OF b] by blast
  have digest: "rx_digest h"
    using h(1) assms(2) by (auto simp: digest_def rx_digest_def bindR_Inr_iff)
  show ?thesis
    unfolding admitted_def job
    by (simp add: posted_identity [OF h(2) digest] posted_lifecycle posted_pod_identity posted_executable posted_security
        posted_environment posted_volumes)
qed


section \<open>One Job per tick\<close>

text \<open>The API of a driver, wrapped so that the world also lists its requests in order.\<close>

type_synonym 'w requested = "'w \<times> (string \<times> string \<times> json option) list"

definition plainly :: "('w, 'a) prog \<Rightarrow> ('w requested, 'a) prog" where
  "plainly m = (\<lambda>(w, reqs). case m w of (r, w') \<Rightarrow> (r, w', reqs))"

definition logged :: "'w traffic \<Rightarrow> 'w requested traffic" where
  "logged T =
     \<lparr>tr_enabled = tr_enabled T, tr_image = tr_image T, tr_approval = tr_approval T, tr_lib = tr_lib T, tr_code = tr_code T,
      tr_payload = tr_payload T,
      tr_request = (\<lambda>path meth body (w, reqs). case tr_request T path meth body w of (r, w') \<Rightarrow> (r, w', reqs @ [(path, meth, body)])),
      tr_effects =
        \<lparr>ef_ensure = (\<lambda>l p f. plainly (ef_ensure (tr_effects T) l p f)),
         ef_ready = (\<lambda>l p f. plainly (ef_ready (tr_effects T) l p f)),
         ef_router = plainly (ef_router (tr_effects T)), ef_metrics = plainly (ef_metrics (tr_effects T))\<rparr>\<rparr>"

lemma logged_sel [simp]:
  "tr_enabled (logged T) = tr_enabled T" "tr_image (logged T) = tr_image T" "tr_approval (logged T) = tr_approval T"
  "tr_lib (logged T) = tr_lib T" "tr_code (logged T) = tr_code T" "tr_payload (logged T) = tr_payload T"
  "ef_ready (tr_effects (logged T)) l p f = plainly (ef_ready (tr_effects T) l p f)"
  by (simp_all add: logged_def)

definition posts_of :: "(string \<times> string \<times> json option) list \<Rightarrow> (string \<times> string \<times> json option) list" where
  "posts_of reqs = filter (\<lambda>(_, meth, _). meth = ''POST'') reqs"

lemma posts_of_simps [simp]:
  "posts_of [] = []" "posts_of (xs @ ys) = posts_of xs @ posts_of ys"
  "posts_of ((p, m, b) # xs) = (if m = ''POST'' then (p, m, b) # posts_of xs else posts_of xs)"
  by (simp_all add: posts_of_def)

lemma request_run:
  assumes "tr_request (logged T) path meth body x = (r, y)"
  shows "snd y = snd x @ [(path, meth, body)]"
  using assms by (cases x) (auto simp: logged_def split: prod.splits)

lemma plainly_run: "plainly m x = (r, y) \<Longrightarrow> snd y = snd x"
  by (cases x) (auto simp: plainly_def split: prod.splits)

lemma confirm_run: "confirm_job job e x = (r, y) \<Longrightarrow> y = x"
  by (auto simp: confirm_job_def run_bindP run_liftP run_retP run_raiseP split: sum.splits if_splits)

lemma start_traffic_requests:
  assumes "start_traffic (logged T) a job path x = (r, y)"
  shows "snd y = snd x \<or> snd y = snd x @ [(JOB_PATH, ''POST'', Some job)]
    \<or> snd y = snd x @ [(JOB_PATH, ''POST'', Some job), (path, ''GET'', None)]"
proof -
  obtain c x1 where c: "plainly (ef_ready (tr_effects T) ''canary'' (Some (ac_pair a)) (Some (ac_fingerprint a))) x = (c, x1)"
    by (rule prod.exhaust)
  obtain d x2 where d: "plainly (ef_ready (tr_effects T) ''stable'' (Some (ac_previous_stable a)) (Some (ac_previous_fingerprint a))) x1 = (d, x2)"
    by (rule prod.exhaust)
  have same: "snd x1 = snd x" "snd x2 = snd x" using plainly_run [OF c] plainly_run [OF d] by simp_all
  obtain q x3 where q: "tr_request (logged T) JOB_PATH ''POST'' (Some job) x2 = (q, x3)" by (rule prod.exhaust)
  obtain g x4 where g: "tr_request (logged T) path ''GET'' None x3 = (g, x4)" by (rule prod.exhaust)
  have lists: "snd x3 = snd x @ [(JOB_PATH, ''POST'', Some job)]"
    "snd x4 = snd x @ [(JOB_PATH, ''POST'', Some job), (path, ''GET'', None)]"
    using request_run [OF q] request_run [OF g] same by simp_all
  have created: "create_job (logged T) job x2 = (case q of Inr _ \<Rightarrow> Inr () | Inl e \<Rightarrow> if e = Conflict then Inr () else Inl e, x3)"
    using q by (simp add: create_job_def run_catchP run_bindP run_retP run_raiseP split: sum.split)
  consider "c \<noteq> Inr True" | "c = Inr True" "d \<noteq> Inr True"
    | (failed) e where "c = Inr True" "d = Inr True" "q = Inl e" "e \<noteq> Conflict"
    | (created) "c = Inr True" "d = Inr True" "(case q of Inr _ \<Rightarrow> Inr () | Inl e \<Rightarrow> if e = Conflict then Inr () else Inl e) = Inr ()"
    by (cases q; cases "projl q = Conflict") auto
  then show ?thesis
  proof cases
    case 1
    then have "y = x1" using assms c by (cases c) (auto simp: start_traffic_def run_bindP run_retP)
    then show ?thesis using same by simp
  next
    case 2
    then have "y = x2" using assms c d by (cases d) (auto simp: start_traffic_def run_bindP run_retP)
    then show ?thesis using same by simp
  next
    case failed
    then have "y = x3" using assms c d created by (simp add: start_traffic_def run_bindP)
    then show ?thesis using lists by simp
  next
    case created
    then have run: "bindP (tr_request (logged T) path ''GET'' None) (confirm_job job) x3 = (r, y)"
      using assms c d \<open>create_job (logged T) job x2 = _\<close> by (simp add: start_traffic_def run_bindP)
    have "y = x4" using run g by (cases g) (auto simp: run_bindP dest: confirm_run)
    then show ?thesis using lists by simp
  qed
qed

text \<open>
  C32 (at most one Job, for the release that ramps). A tick of the driver posts nothing, or it posts one
  Job: then the driver is enabled, a release ramps at a stage of the ladder under a valid
  authorization, the stable version is the one that authorization names, the Job bears the name and
  the annotation of the authorization, and the first request was a read of that very name.
\<close>
theorem tick_posts_once:
  assumes "traffic_tick (logged T) s (w, []) = (r, w', reqs)"
  shows "posts_of reqs = [] \<or>
    (\<exists>a b job rest. posts_of reqs = [(JOB_PATH, ''POST'', Some job)] \<and> tr_enabled T
       \<and> st_active s = Some a \<and> ac_phase a = RAMP \<and> rt_weight (st_route s) \<in> {10, 25, 50, 100}
       \<and> binding (tr_lib T) a = Inr b \<and> st_stable s = Some (rb_previous_stable b)
       \<and> job = posted_job (tr_lib T) (tr_code T) (tr_payload T) b (tr_image T) (tr_approval T)
       \<and> reqs = (JOB_PATH @ ''/v2-e2e-auto-'' @ take 32 (drop 7 (str_of (rb_authorization_id b))), ''GET'', None) # rest)"
proof (cases "tr_enabled T")
  case False
  then show ?thesis using assms by (auto simp: traffic_tick_def run_retP)
next
  case enabled: True
  show ?thesis
  proof (cases "ramping s")
    case None
    then show ?thesis using assms enabled by (auto simp: traffic_tick_def run_retP)
  next
    case (Some a)
    then have a: "st_active s = Some a" "ac_phase a = RAMP" "rt_weight (st_route s) \<in> {10, 25, 50, 100}"
      by (auto simp: ramping_def split: option.splits if_splits)
    define checked where "checked = bindR (binding (tr_lib T) a) (\<lambda>b.
      bindR (requireR (st_stable s = Some (rb_previous_stable b)) (ValueError ''Stable baseline mismatch'')) (\<lambda>_.
      bindR (render_job (tr_lib T) (tr_code T) (tr_payload T) a (tr_image T) (tr_approval T)) (\<lambda>job.
      bindR (object_name job) (\<lambda>name. Inr (job, name)))))"
    have run: "traffic_tick (logged T) s (w, []) = (case checked of Inl e \<Rightarrow> (Inl e, w, [])
      | Inr (job, name) \<Rightarrow> bindP (tr_request (logged T) (JOB_PATH @ ''/'' @ name) ''GET'' None) (\<lambda>existing.
          if existing = None then start_traffic (logged T) a job (JOB_PATH @ ''/'' @ name) else confirm_job job existing) (w, []))"
      using Some enabled unfolding checked_def traffic_tick_def
      by (auto simp: run_bindP run_liftP bindR_def Let_def simp del: append_Cons append_Nil split: sum.split)
    show ?thesis
    proof (cases checked)
      case (Inl e)
      then show ?thesis using assms run by simp
    next
      case (Inr v)
      obtain job name where v: "v = (job, name)" by (cases v)
      obtain b where b: "binding (tr_lib T) a = Inr b" "st_stable s = Some (rb_previous_stable b)"
        and job: "render_job (tr_lib T) (tr_code T) (tr_payload T) a (tr_image T) (tr_approval T) = Inr job"
        and name: "object_name job = Inr name"
        using Inr v unfolding checked_def bindR_Inr_iff by auto
      have jb: "job = posted_job (tr_lib T) (tr_code T) (tr_payload T) b (tr_image T) (tr_approval T)"
        using render_job_posted [OF job] b(1) by (metis sum.inject(2))
      then have "name = ''v2-e2e-'' @ traffic_run_id b" using name by (simp add: object_name_def posted_job_def)
      then have path: "JOB_PATH @ ''/'' @ name = JOB_PATH @ ''/v2-e2e-auto-'' @ take 32 (drop 7 (str_of (rb_authorization_id b)))"
        by (simp add: traffic_run_id_def)
      let ?path = "JOB_PATH @ ''/'' @ name"
      obtain g x where g: "tr_request (logged T) ?path ''GET'' None (w, []) = (g, x)" by (rule prod.exhaust)
      have x: "snd x = [(?path, ''GET'', None)]" using request_run [OF g] by simp
      show ?thesis
      proof (cases "g = Inr None")
        case False
        have "(w', reqs) = x"
        proof (cases g)
          case (Inl e)
          then show ?thesis using assms run \<open>checked = Inr v\<close> v g by (simp add: run_bindP)
        next
          case (Inr found)
          then have "confirm_job job found x = (r, w', reqs)"
            using assms run \<open>checked = Inr v\<close> v g False by (auto simp: run_bindP split: if_splits)
          then show ?thesis by (rule confirm_run)
        qed
        then show ?thesis using x by auto
      next
        case True
        then have "start_traffic (logged T) a job ?path x = (r, w', reqs)"
          using assms run Inr v g by (simp add: run_bindP)
        from start_traffic_requests [OF this] x have "posts_of reqs = [] \<or>
            posts_of reqs = [(JOB_PATH, ''POST'', Some job)] \<and> (\<exists>rest. reqs = (?path, ''GET'', None) # rest)"
          by auto
        then show ?thesis unfolding path using enabled a b jb by blast
      qed
    qed
  qed
qed


section \<open>A driver at work\<close>

definition ramp_release :: active_release where
  "ramp_release =
     \<lparr>ac_pair = sample_pair ''8'', ac_fingerprint = sample_digest (CHR ''c''), ac_phase = RAMP,
      ac_previous_stable = sample_pair ''7'', ac_previous_fingerprint = sample_digest (CHR ''b''), ac_deadline = 500,
      ac_stage_since = None, ac_authorization = Some sample_authorization, ac_reason = None\<rparr>"

definition ramp_state :: release_state where
  "ramp_state = sample_state\<lparr>st_active := Some ramp_release, st_route := (st_route sample_state)\<lparr>rt_weight := 25\<rparr>\<rparr>"

text \<open>The API has no Job yet and answers the second read with the Job that was posted.\<close>

definition sample_traffic :: "json option traffic" where
  "sample_traffic =
     \<lparr>tr_enabled = True, tr_image = sp_runtime_digest (sample_pair ''8''), tr_approval = ''T-1'', tr_lib = sample_lib,
      tr_code = ''runner'', tr_payload = JObj [],
      tr_request = (\<lambda>path meth body w. (Inr w, if meth = ''POST'' then body else w)),
      tr_effects = \<lparr>ef_ensure = (\<lambda>_ _ _. retP ()), ef_ready = (\<lambda>_ _ _. retP True), ef_router = retP JNull, ef_metrics = retP Map.empty\<rparr>\<rparr>"

definition sample_tick :: "traffic_outcome res \<times> json option requested" where
  "sample_tick = traffic_tick (logged sample_traffic) ramp_state (None, [])"

definition ramp_bound :: release_binding where
  "ramp_bound =
     \<lparr>rb_pair = sample_pair ''8'', rb_fingerprint = sample_digest (CHR ''c''),
      rb_authorization_id = JStr (sample_digest (CHR ''c'')), rb_previous_stable = sample_pair ''7''\<rparr>"

lemma ramp_binding: "binding sample_lib ramp_release = Inr ramp_bound"
  by code_simp

lemma ramp_checks:
  "runtime_image (JStr (sp_runtime_digest (sample_pair ''8''))) = Inr (sp_runtime_digest (sample_pair ''8''))"
  "ticket (JStr ''T-1'') = Inr ()"
  "validate_config (traffic_config ramp_bound ''T-1'') = Inr ()"
  "rx_immutable_image (sp_runtime_digest (sample_pair ''8''))"
  by code_simp+

lemmas ramp_rendered = render_job_exact [OF ramp_checks(1,2) ramp_binding ramp_checks(3,4)]

text \<open>C1 on the Job of the ramping release.\<close>
lemma rendered_job_admitted_witness:
  "\<exists>job. render_job sample_lib ''runner'' (JObj []) ramp_release (sp_runtime_digest (sample_pair ''8'')) ''T-1'' = Inr job
     \<and> admitted strip (sp_runtime_digest (sample_pair ''8'')) job"
proof -
  have "rx_chars 64 64 hex_digit (lib_sha256 sample_lib s)" for s
    by (simp add: sample_lib_def) code_simp
  from rendered_job_admitted [OF ramp_rendered this] ramp_rendered show ?thesis by blast
qed

lemma sample_traffic_sel:
  "tr_enabled sample_traffic" "tr_image sample_traffic = sp_runtime_digest (sample_pair ''8'')"
  "tr_approval sample_traffic = ''T-1''" "tr_lib sample_traffic = sample_lib" "tr_code sample_traffic = ''runner''"
  "tr_payload sample_traffic = JObj []"
  "ef_ready (tr_effects sample_traffic) l p f = retP True"
  "tr_request (logged sample_traffic) path meth body (v, reqs) = (Inr v, if meth = ''POST'' then body else v, reqs @ [(path, meth, body)])"
  by (simp_all add: sample_traffic_def logged_def)

lemma ramp_ready: "ramping ramp_state = Some ramp_release" "st_stable ramp_state = Some (rb_previous_stable ramp_bound)"
  by (simp_all add: ramping_def ramp_state_def ramp_release_def ramp_bound_def sample_state_def)

lemma sample_start:
  "start_traffic (logged sample_traffic) ramp_release job path (None, [x]) =
     confirm_job job (Some job) (Some job, [x, (JOB_PATH, ''POST'', Some job), (path, ''GET'', None)])"
  by (simp add: start_traffic_def create_job_def sample_traffic_sel plainly_def run_bindP run_catchP run_retP)

lemma sample_posted: "posts_of (snd (snd sample_tick)) \<noteq> []"
proof -
  let ?job = "posted_job sample_lib ''runner'' (JObj []) ramp_bound (sp_runtime_digest (sample_pair ''8'')) ''T-1''"
  have name: "object_name ?job = Inr (''v2-e2e-'' @ traffic_run_id ramp_bound)"
    by (simp add: object_name_def posted_job_def)
  let ?path = "JOB_PATH @ ''/'' @ ''v2-e2e-'' @ traffic_run_id ramp_bound"
  have "sample_tick = start_traffic (logged sample_traffic) ramp_release ?job ?path (None, [(?path, ''GET'', None)])"
    unfolding sample_tick_def traffic_tick_def
    by (simp add: sample_traffic_sel ramp_ready ramp_binding ramp_rendered name run_bindP run_liftP requireR_def Let_def
        del: append_Cons)
  also have "\<dots> = confirm_job ?job (Some ?job)
      (Some ?job, [(?path, ''GET'', None), (JOB_PATH, ''POST'', Some ?job), (?path, ''GET'', None)])"
    by (rule sample_start)
  finally have run: "sample_tick = \<dots>" .
  have "snd sample_tick = (Some ?job, [(?path, ''GET'', None), (JOB_PATH, ''POST'', Some ?job), (?path, ''GET'', None)])"
    unfolding run by (rule confirm_run [OF surjective_pairing])
  then show ?thesis by simp
qed

text \<open>C1 at work: the tick posts the Job of the ramping release.\<close>
lemma tick_posts_once_witness:
  "\<exists>job. posts_of (snd (snd sample_tick)) = [(JOB_PATH, ''POST'', Some job)]
     \<and> job = posted_job sample_lib ''runner'' (JObj []) ramp_bound (sp_runtime_digest (sample_pair ''8'')) ''T-1''"
proof -
  obtain r w reqs where t: "traffic_tick (logged sample_traffic) ramp_state (None, []) = (r, w, reqs)"
    by (metis prod.exhaust)
  then have "sample_tick = (r, w, reqs)" by (simp add: sample_tick_def)
  moreover from this obtain a b job where "posts_of reqs = [(JOB_PATH, ''POST'', Some job)]"
    "st_active ramp_state = Some a" "binding sample_lib a = Inr b"
    "job = posted_job sample_lib ''runner'' (JObj []) b (sp_runtime_digest (sample_pair ''8'')) ''T-1''"
    using tick_posts_once [OF t, unfolded sample_traffic_sel] sample_posted by (metis snd_conv)
  moreover have "st_active ramp_state = Some ramp_release" by (simp add: ramp_state_def)
  ultimately have "posts_of reqs = [(JOB_PATH, ''POST'', Some job)]"
    "job = posted_job sample_lib ''runner'' (JObj []) ramp_bound (sp_runtime_digest (sample_pair ''8'')) ''T-1''"
    "snd (snd sample_tick) = reqs"
    using ramp_binding by (metis option.inject sum.inject(2) snd_conv)+
  then show ?thesis by simp
qed

end
