(* ===== verification/ApprovalScenario.thy ===== *)
theory ApprovalScenario
  imports ReleaseV2 Scenario
begin

text \<open>
  A concrete run of the release job (V2): GitHub, the image registry and the state store as fixed
  answers around the resolved version 8 of Scenario.
\<close>

definition workflow_evidence :: json where
  "workflow_evidence = (case jupdate [(''security_hash'', JStr (sample_digest (CHR ''c'')))] sample_evidence of
     Inr j \<Rightarrow> j | Inl _ \<Rightarrow> JNull)"

definition clean_report :: json where
  "clean_report = JObj
     [(''ArtifactType'', JStr ''container_image''), (''Metadata'', JObj [(''ImageID'', JStr (sample_digest (CHR ''e'')))]),
      (''Results'', JArr [JObj [(''Target'', JStr ''image''), (''Class'', JStr ''os-pkgs''), (''Type'', JStr ''debian''),
         (''Vulnerabilities'', JArr [])]])]"

definition clean_decision :: json where
  "clean_decision = JObj
     [(''decision'', JStr ''PASS''), (''fingerprint'', JStr (sample_digest (CHR ''c''))),
      (''image_id'', JStr (sample_digest (CHR ''e'')))]"

definition our_repository :: json where
  "our_repository = JObj [(''full_name'', JStr RELEASE_REPOSITORY)]"

definition sample_artifact :: "int \<Rightarrow> string \<Rightarrow> json" where
  "sample_artifact i n = JObj
     [(''id'', JInt i), (''name'', JStr n), (''expired'', JBool False), (''size_in_bytes'', JInt 10),
      (''digest'', JStr (sample_digest (CHR ''c'')))]"

text \<open>What GitHub answers below the repository: run 21 built the runtime, run 11 is the release.\<close>

definition github_answers :: "(string \<times> json) list" where
  "github_answers =
     [(''environments/production'', JObj
        [(''protection_rules'', JArr [JObj [(''type'', JStr ''required_reviewers''), (''reviewers'', JArr [JInt 1]),
                                          (''prevent_self_review'', JBool True)]]),
         (''deployment_branch_policy'', JObj [(''protected_branches'', JBool False), (''custom_branch_policies'', JBool True)]),
         (''can_admins_bypass'', JBool False)]),
      (''environments/production/deployment-branch-policies'', JObj
        [(''total_count'', JInt 1), (''branch_policies'', JArr [JObj [(''name'', JStr ''v*''), (''type'', JStr ''tag'')]])]),
      (''actions/runs/21'', JObj
        [(''path'', JStr ''.github/workflows/runtime-build.yml''), (''conclusion'', JStr ''success''),
         (''status'', JStr ''completed''), (''repository'', our_repository), (''head_sha'', JStr (replicate 40 (CHR ''b''))),
         (''run_attempt'', JInt 1)]),
      (''actions/runs/21/artifacts?per_page=100'', JObj
        [(''total_count'', JInt 2),
         (''artifacts'', JArr [sample_artifact 1 ''runtime-context'', sample_artifact 1 ''runtime-security-21-1''])]),
      (''actions/runs/11'', JObj
        [(''id'', JInt 11), (''head_sha'', JStr (replicate 40 (CHR ''a''))), (''head_branch'', JStr ''v1.2.3''),
         (''path'', JStr WORKFLOW), (''event'', JStr ''workflow_dispatch''), (''run_attempt'', JInt 1),
         (''status'', JStr ''in_progress''), (''conclusion'', JNull), (''repository'', our_repository),
         (''actor'', JObj [(''login'', JStr ''author'')])]),
      (''actions/runs/11/approvals'', JArr [JObj
        [(''environments'', JArr [JObj [(''name'', JStr ''production'')]]), (''state'', JStr ''approved''),
         (''user'', JObj [(''login'', JStr ''reviewer'')])]])]"

definition release_environment :: env where
  "release_environment = map_of
     [(''GITHUB_API_URL'', ''api''), (''GITHUB_REPOSITORY'', RELEASE_REPOSITORY), (''GH_TOKEN'', ''t''),
      (''GITHUB_RUN_ID'', ''11''), (''GITHUB_RUN_ATTEMPT'', ''1''), (''GITHUB_SHA'', replicate 40 (CHR ''a'')),
      (''GITHUB_REF'', ''refs/tags/v1.2.3''), (''TICKET_REFERENCE'', ''T-1''), (''MODEL_VERSION'', ''8''),
      (''GITHUB_EVENT_NAME'', ''workflow_dispatch''),
      (''GITHUB_WORKFLOW_REF'', RELEASE_REPOSITORY @ ''/'' @ WORKFLOW @ ''@'' @ ''refs/tags/v1.2.3''),
      (''RUNTIME_EVIDENCE_SOURCE'', ''workflow_run''), (''RUNTIME_EVIDENCE_RUN_ID'', ''21''), (''AWS_SESSION_TOKEN'', ''t'')]"

definition answered :: "'a option \<Rightarrow> ('w, 'a) prog" where
  "answered x = (case x of Some a \<Rightarrow> retP a | None \<Rightarrow> raiseP URLError)"

definition release_loads :: "string \<Rightarrow> json option" where
  "release_loads = map_of
     [(''request'', sample_request), (''report'', clean_report), (''decision'', clean_decision),
      (''manifest'', JObj [(''config'', JObj [(''digest'', JStr (sample_digest (CHR ''e'')))])])]"

definition git_answer :: "string list \<Rightarrow> string" where
  "git_answer args = (case args of
     [_, c, _] \<Rightarrow> if c = ''rev-parse'' then replicate 40 (CHR ''a'') else []
   | [_, c, _, ref, _] \<Rightarrow> if c = ''ls-remote'' then replicate 40 (CHR ''a'') @ '' '' @ ref else []
   | _ \<Rightarrow> [])"

definition sample_job :: "'w release_job" where
  "sample_job =
     \<lparr>rj_lib = sample_lib, rj_env = release_environment, rj_loads = release_loads,
      rj_command = (\<lambda>args _. retP (git_answer args)), rj_aws = (\<lambda>_. raiseP URLError),
      rj_http = (\<lambda>url _. answered (map_of github_answers (drop (length (''api/repos/'' @ RELEASE_REPOSITORY @ ''/'')) url))),
      rj_suites = raiseP URLError, rj_install_kubeconfig = (\<lambda>_. raiseP URLError), rj_remove_kubeconfig = raiseP URLError,
      rj_python = ''python'', rj_free_port = raiseP URLError, rj_forward = (\<lambda>_. raiseP URLError),
      rj_running = raiseP URLError, rj_connect = (\<lambda>_. raiseP URLError), rj_sleep = raiseP URLError,
      rj_terminate = raiseP URLError, rj_timestamp = raiseP URLError\<rparr>"

definition sample_registry :: "'w ecr" where
  "sample_registry =
     \<lparr>ec_describe_repositories = retP (JObj [(''repositories'', JArr [JObj
        [(''repositoryUri'', JStr REPOSITORY), (''imageTagMutability'', JStr ''IMMUTABLE'')]])]),
      ec_describe_images = (\<lambda>tag. retP (JObj [(''imageDetails'', JArr [JObj
        [(''imageTags'', JArr [JStr tag]), (''imageDigest'', JStr (sample_digest (CHR ''a'')))]])])),
      ec_batch_get_image = (\<lambda>d. retP (JObj [(''images'', JArr [JObj
        [(''imageId'', JObj [(''imageDigest'', JStr d)]), (''imageManifest'', JStr ''manifest'')]])])),
      ec_put_image = (\<lambda>_ _ _. raiseP URLError), ec_code = (\<lambda>_. None)\<rparr>"

type_synonym release_world = "(release_state server, release_state) session"

definition sample_v2 :: "release_world release_v2" where
  "sample_v2 =
     \<lparr>rv_job = sample_job,
      rv_ci = \<lparr>ci_lib = sample_lib, ci_loads = release_loads, ci_isoformat = (\<lambda>_. ''now''), ci_env = release_environment,
               ci_ecr = sample_registry, ci_waivers = retP (JObj [(''schema_version'', JInt 1), (''waivers'', JArr [])]),
               ci_clock = retP 100\<rparr>,
      rv_store = (\<lambda>_. retP (authorization_backend (validate sample_lib) STATE_NAME True (server_api worker_writes))),
      rv_time = retP 100, rv_str = (\<lambda>j. if j = JInt 11 then ''11'' else ''1''),
      rv_download = (\<lambda>url _. retP (Content url)),
      rv_unzip = (\<lambda>_. Inr [(''request.json'', ''request''), (''trivy.json'', ''report''), (''security-decision.json'', ''decision'')]),
      rv_euid = None, rv_lstat = (\<lambda>_. raiseP URLError), rv_stat = (\<lambda>_. raiseP URLError), rv_load = (\<lambda>_. raiseP URLError)\<rparr>"

definition sample_workspace :: "release_world workspace" where
  "sample_workspace =
     \<lparr>ws_world = (sample_server\<lparr>sv_state := resolved_state, sv_script := []\<rparr>, None),
      ws_files = [''candidate.json'' \<mapsto> workflow_evidence], ws_report = JNull, ws_outputs = []\<rparr>"

section \<open>The steps of the run\<close>

text \<open>Nothing outside answers differently the second time: these steps leave the whole workspace alone.\<close>

lemma unmoved_external:
  assumes "keeps (=) m"
  shows "keeps (=) (external m)"
proof -
  have "snd (m v) = v" for v using assms unfolding keeps_def by metis
  then show ?thesis by (simp add: keeps_def external_def case_prod_beta)
qed

lemmas unmoved_intros =
  keeps_pure [OF reflp_on_equality] keeps_bindP [OF reflp_on_equality transp_on_equality]
  keeps_attemptP [OF transp_on_equality] unmoved_external

lemma sample_v2_simps [simp]:
  "rv_job sample_v2 = sample_job" "rv_lib sample_v2 = sample_lib" "rv_time sample_v2 = retP 100"
  "rj_env sample_job = release_environment" "rj_lib sample_job = sample_lib"
  "rj_command sample_job = (\<lambda>args _. retP (git_answer args))"
  "rj_http sample_job = (\<lambda>url _. answered (map_of github_answers (drop (length (''api/repos/'' @ RELEASE_REPOSITORY @ ''/'')) url)))"
  by (simp_all add: sample_v2_def sample_job_def rv_lib_def)

lemma unmoved_answered: "keeps (=) (answered x)"
  by (auto simp: answered_def intro: unmoved_intros split: option.split)

lemma unmoved_command: "keeps (=) (command sample_v2 args)" "keeps (=) (github_json sample_job endpoint)"
  unfolding command_def github_json_def sample_v2_simps by (auto intro!: unmoved_intros unmoved_answered)

lemma unmoved_getenv: "keeps (=) (rv_getenv V k)" "keeps (=) (requireP b m)"
  unfolding rv_getenv_def requireP_def by (auto intro!: unmoved_intros)

lemma unmoved_source: "keeps (=) (release_source sample_v2)" "keeps (=) (protections sample_v2)"
  unfolding release_source_def protections_def sample_v2_simps
  by (auto intro!: unmoved_intros unmoved_command unmoved_getenv split: prod.split)

lemma unmoved_artifacts: "keeps (=) (artifact_files sample_v2 run name files)"
  unfolding artifact_files_def download_archive_def Let_def sample_v2_simps
  by (auto simp: sample_v2_def intro!: unmoved_intros unmoved_command unmoved_getenv split: download.split)

lemma unmoved_catalog:
  "keeps (=) (catalog_serves sample_v2 request img)" "keeps (=) (verify_registry_image (rv_ci sample_v2) img report)"
  "keeps (=) (require_clean_scan (rv_ci sample_v2) report request)"
  unfolding catalog_serves_def lookup_def verify_registry_image_def platform_manifest_def require_clean_scan_def Let_def
  by (auto simp: sample_v2_def sample_registry_def intro!: unmoved_intros unmoved_getenv split: sum.split)

lemma unmoved_runtime: "keeps (=) (verify_workflow_runtime sample_v2 request img run)"
  unfolding verify_workflow_runtime_def Let_def sample_v2_simps
  by (auto intro!: unmoved_intros unmoved_command unmoved_getenv unmoved_artifacts unmoved_catalog)

lemma unmovedD: "keeps (=) m \<Longrightarrow> fst (m w) = r \<Longrightarrow> m w = (r, w)"
  by (metis keepsD prod.collapse)

text \<open>What each step of the authorization returns.\<close>

abbreviation sample_store :: "release_world release_backend" where
  "sample_store \<equiv> authorization_backend (validate sample_lib) STATE_NAME True (server_api worker_writes)"

abbreviation before_read :: release_world where
  "before_read \<equiv> (sample_server\<lparr>sv_state := resolved_state, sv_script := []\<rparr>, None)"

abbreviation after_read :: release_world where
  "after_read \<equiv> snd (read sample_lib sample_store before_read)"

lemma sample_source_step: "release_source sample_v2 w = (Inr sample_source, w)"
proof (rule unmovedD [OF unmoved_source(1)])
  obtain x f r out where w: "w = \<lparr>ws_world = x, ws_files = f, ws_report = r, ws_outputs = out\<rparr>" by (cases w)
  show "fst (release_source sample_v2 w) = Inr sample_source" unfolding w by code_simp
qed

lemma sample_protections_step:
  "protections sample_v2 w = (Inr (strings [(''admin_bypass'', ''REQUIRES_SETTINGS_VERIFICATION''),
     (''policy_type'', ''REQUIRES_SETTINGS_VERIFICATION''), (''native_review'', ''REQUIRED'')]), w)"
proof (rule unmovedD [OF unmoved_source(2)])
  obtain x f r out where w: "w = \<lparr>ws_world = x, ws_files = f, ws_report = r, ws_outputs = out\<rparr>" by (cases w)
  show "fst (protections sample_v2 w) = Inr (strings [(''admin_bypass'', ''REQUIRES_SETTINGS_VERIFICATION''),
     (''policy_type'', ''REQUIRES_SETTINGS_VERIFICATION''), (''native_review'', ''REQUIRED'')])"
    unfolding w by code_simp
qed

lemma sample_request_found:
  "candidate_request sample_lib resolved_state ''8'' = Inr (sample_request, sp_runtime_digest (sample_pair ''8''))"
  by code_simp

lemma sample_runtime_step:
  "\<exists>el. verify_runtime sample_v2 resolved_state ''8'' Workflow_Run ''21'' w = (Inr (sample_digest (CHR ''c''), el), w)"
proof -
  let ?m = "verify_workflow_runtime sample_v2 sample_request (sp_runtime_digest (sample_pair ''8'')) ''21''"
  obtain x f r out where w: "w = \<lparr>ws_world = x, ws_files = f, ws_report = r, ws_outputs = out\<rparr>" by (cases w)
  have "map_sum (\<lambda>_. ()) fst (fst (?m w)) = Inr (sample_digest (CHR ''c''))" unfolding w by code_simp
  then obtain el where "fst (?m w) = Inr (sample_digest (CHR ''c''), el)" by (cases "fst (?m w)") auto
  from unmovedD [OF unmoved_runtime this] show ?thesis
    by (auto simp: verify_runtime_def run_bindP run_liftP sample_request_found)
qed

lemma sample_read_step:
  "external (read sample_lib sample_store) sample_workspace
     = (Inr resolved_state, sample_workspace\<lparr>ws_world := after_read\<rparr>)"
proof -
  have "fst (read sample_lib sample_store before_read) = Inr resolved_state" by code_simp
  then show ?thesis by (simp add: external_def sample_workspace_def case_prod_beta)
qed

lemma sample_write_step:
  "case be_read sample_store after_read of
     (Inr (revision, t), x) \<Rightarrow> t = resolved_state \<and> (case be_write sample_store revision s x of (Inr _, _) \<Rightarrow> True | _ \<Rightarrow> False)
   | _ \<Rightarrow> False"
  by code_simp

lemma sample_state_valid: "validate sample_lib resolved_state = Inr ()"
  by code_simp

definition workflow_authorization :: json where
  "workflow_authorization = JObj
     [(''evidence'', workflow_evidence), (''evidence_hash'', JStr (sample_digest (CHR ''c''))),
      (''authorized_at'', jrat 100), (''expires_at'', jrat 1000)]"

definition workflow_state :: release_state where
  "workflow_state = authorized_state
     \<lparr>st_pending := [resolved_item\<lparr>it_status := APPROVED_FOR_RELEASE, it_authorization := Some workflow_authorization\<rparr>]\<rparr>"

lemma workflow_authorize:
  "authorize sample_lib workflow_evidence 100 resolved_state = Inr (workflow_authorization, workflow_state)"
  by code_simp

lemma workflow_state_valid: "validate sample_lib workflow_state = Inr ()"
  by code_simp

lemma sample_update_step:
  "\<exists>auth x. update sample_lib sample_store (\<lambda>s. liftP (authorize sample_lib workflow_evidence 100 s)) after_read = (Inr auth, x)"
proof -
  obtain q x where q: "be_read sample_store after_read = (q, x)" by (rule prod.exhaust)
  then obtain revision where read: "be_read sample_store after_read = (Inr (revision, resolved_state), x)"
    "case be_write sample_store revision workflow_state x of (Inr _, _) \<Rightarrow> True | _ \<Rightarrow> False"
    using sample_write_step [of workflow_state] by (cases q) auto
  obtain u y where "be_write sample_store revision workflow_state x = (Inr u, y)"
    using read(2) by (auto split: prod.splits sum.splits)
  then show ?thesis
    using read(1)
    by (simp add: sample_state_valid workflow_authorize workflow_state_valid update_def numeral_eq_Suc run_bindP run_liftP run_attemptP run_retP)
qed

lemma sample_answers:
  "github_json sample_job ''actions/runs/11'' w = (Inr (the (map_of github_answers ''actions/runs/11'')), w)"
  "github_json sample_job ''actions/runs/11/approvals'' w = (Inr (the (map_of github_answers ''actions/runs/11/approvals'')), w)"
proof -
  obtain x f r out where w: "w = \<lparr>ws_world = x, ws_files = f, ws_report = r, ws_outputs = out\<rparr>" by (cases w)
  show "github_json sample_job ''actions/runs/11'' w = (Inr (the (map_of github_answers ''actions/runs/11'')), w)"
    by (rule unmovedD [OF unmoved_command(2)], unfold w) code_simp
  show "github_json sample_job ''actions/runs/11/approvals'' w
      = (Inr (the (map_of github_answers ''actions/runs/11/approvals'')), w)"
    by (rule unmovedD [OF unmoved_command(2)], unfold w) code_simp
qed

lemma sample_checks:
  "same_evidence release_environment sample_source workflow_evidence = Inr True"
  "evidence_selection release_environment = Inr (Workflow_Run, ''21'')"
  "jget ''security_hash'' workflow_evidence = Inr (JStr (sample_digest (CHR ''c'')))"
  "verify_human_review (rv_str sample_v2) (the (map_of github_answers ''actions/runs/11''))
     (the (map_of github_answers ''actions/runs/11/approvals'')) sample_source = Inr ()"
  "renewal_allowed sample_lib resolved_state ''8'' workflow_evidence (the (map_of github_answers ''actions/runs/11'')) = Inr ()"
  "source_text ''run_id'' sample_source = ''11''"
  "getenv release_environment ''MODEL_VERSION'' = Inr ''8''"
  by code_simp+

lemma sample_catalog_access: "catalog_access sample_v2 w = (Inr (), w)"
proof -
  have "release_environment ''AWS_SESSION_TOKEN'' = Some ''t''" by (simp add: release_environment_def)
  then show ?thesis by (simp add: catalog_access_def requireP_def run_liftP requireR_def)
qed

lemma sample_release_authorized: "\<exists>w'. authorize_release sample_v2 sample_workspace = (Inr (), w')"
proof -
  let ?w = "sample_workspace\<lparr>ws_world := after_read\<rparr>"
  obtain el where runtime: "verify_runtime sample_v2 resolved_state ''8'' Workflow_Run ''21'' ?w
      = (Inr (sample_digest (CHR ''c''), el), ?w)" using sample_runtime_step by blast
  obtain auth x where auth:
    "update sample_lib sample_store (\<lambda>s. liftP (authorize sample_lib workflow_evidence 100 s)) after_read = (Inr auth, x)"
    using sample_update_step by blast
  have store: "external (rv_store sample_v2 True) sample_workspace = (Inr sample_store, sample_workspace)"
    by (simp add: sample_v2_def external_def run_retP sample_workspace_def)
  have found: "read_evidence ''candidate.json'' sample_workspace = (Inr workflow_evidence, sample_workspace)"
    by (simp add: read_evidence_def sample_workspace_def)
  have update: "external (update sample_lib sample_store (\<lambda>s. liftP (authorize sample_lib workflow_evidence 100 s))) ?w
      = (Inr auth, ?w\<lparr>ws_world := x\<rparr>)"
    using auth by (simp add: external_def sample_workspace_def)
  have version: "rv_getenv sample_v2 ''MODEL_VERSION'' v = (Inr ''8'', v)" for v
    by (simp add: rv_getenv_def run_liftP sample_checks)
  have now: "external (retP (100 :: rat)) v = (Inr 100, v)" for v :: "release_world workspace"
    by (simp add: external_def run_retP)
  show ?thesis
    unfolding authorize_release_def Let_def
    by (simp add: run_bindP run_liftP sample_source_step sample_protections_step found sample_checks requireP_def requireR_def
        store sample_read_step version sample_catalog_access runtime sample_answers now update write_file_def)
qed

end
