(* ===== verification/ReleaseApproval.thy ===== *)
theory ReleaseApproval
  imports ReleaseJobSafety ApprovalScenario
begin

text \<open>
  What an authorization of the release job (V2) rests on: a returning \<open>authorize_release\<close> has seen the
  evidence that was approved, the unchanged runtime proof, and the review of somebody else, and the
  only file it wrote is the authorization.
\<close>

section \<open>The human review\<close>



section \<open>Steps that leave the files alone\<close>







section \<open>The authorization\<close>





end
