(* ===== verification/LegacyWatcher.thy ===== *)
theory LegacyWatcher
  imports LegacyRelease Evaluator ReleaseDeploy
begin

text \<open>
  The cluster and the queue of the first generation: the deployments of \<open>control_plane/kube.py\<close>, the
  metrics of \<open>control_plane/controller.py\<close>, and \<open>control_plane/watcher.py\<close>, which moves queue messages
  and pushed images into the state. The API server, SQS, ECR and the clock are parameters; counters,
  gauges other than the health of the poll, log lines and the thread that extends the visibility of a
  message (it changes no state of the program) are left out.
\<close>

section \<open>Deployments\<close>

record 'w kube_client =
  kc_request :: "string \<Rightarrow> string \<Rightarrow> json option \<Rightarrow> ('w, json) prog"
  kc_namespace :: string

definition IMAGE_REPO :: string where
  "IMAGE_REPO = REGISTRY @ ''.dkr.ecr.'' @ REGION @ ''.amazonaws.com/'' @ LEGACY_REPOSITORY"

definition deployment_path :: "'w kube_client \<Rightarrow> string \<Rightarrow> string" where
  "deployment_path K track =
     ''/apis/apps/v1/namespaces/'' @ kc_namespace K @ ''/deployments/credit-risk-classifier-'' @ track"

definition track_deployment :: "'w kube_client \<Rightarrow> string \<Rightarrow> ('w, json) prog" where
  "track_deployment K track =
     (if track \<notin> {''stable'', ''canary''} then raiseP (ValueError ''Unknown track'')
      else kc_request K (deployment_path K track) ''GET'' None)"

definition pod_containers :: "json \<Rightarrow> json res" where
  "pod_containers obj = jdeep [''spec'', ''template'', ''spec'', ''containers''] obj"

definition deployed_image :: "json \<Rightarrow> json res" where
  "deployed_image obj = bindR (pod_containers obj) (\<lambda>cs. bindR (jnth 0 cs) (jget ''image''))"

definition image_of :: "string \<Rightarrow> json" where
  "image_of d = JStr (IMAGE_REPO @ ''@'' @ d)"

text \<open>\<open>containers[0]['image'] = image\<close>; by then the first container is known to be a dict.\<close>

definition with_image :: "json \<Rightarrow> json \<Rightarrow> json res" where
  "with_image img containers =
     (case containers of
        JArr (c # cs) \<Rightarrow> bindR (jupdate [(''image'', img)] c) (\<lambda>c'. Inr (JArr (c' # cs)))
      | _ \<Rightarrow> Inl (TypeError ''does not support item assignment''))"

definition image_patch :: "string \<Rightarrow> int \<Rightarrow> json \<Rightarrow> json res" where
  "image_patch d replicas obj =
     bindR (pod_containers obj) (\<lambda>cs. bindR (with_image (image_of d) cs) (\<lambda>containers.
     bindR (jdeep [''metadata'', ''resourceVersion''] obj) (\<lambda>v.
       Inr (JObj [(''metadata'', JObj [(''resourceVersion'', v)]),
                  (''spec'', JObj [(''replicas'', JInt replicas),
                     (''template'', JObj [(''spec'', JObj [(''containers'', containers)])])])]))))"

definition already_deployed :: "string \<Rightarrow> int \<Rightarrow> json \<Rightarrow> bool res" where
  "already_deployed d replicas obj =
     andR [bindR (deployed_image obj) (\<lambda>i. Inr (i = image_of d)),
           bindR (jdeep [''spec'', ''replicas''] obj) (\<lambda>r. Inr (py_eq r (JInt replicas)))]"

text \<open>The object when nothing had to be changed, \<open>None\<close> after a patch on the version that was read.\<close>

definition deployment_ensure :: "'w kube_client \<Rightarrow> string \<Rightarrow> string \<Rightarrow> int \<Rightarrow> ('w, json option) prog" where
  "deployment_ensure K track d replicas =
     (if \<not> rx_digest d then raiseP (ValueError ''Immutable digest required'')
      else bindP (track_deployment K track) (\<lambda>obj.
           bindP (liftP (already_deployed d replicas obj)) (\<lambda>same.
           if same then retP (Some obj)
           else bindP (liftP (image_patch d replicas obj)) (\<lambda>patch.
                bindP (kc_request K (deployment_path K track) ''PATCH'' (Some patch)) (\<lambda>_. retP None)))))"

definition at_least :: "string \<Rightarrow> int \<Rightarrow> json \<Rightarrow> bool res" where
  "at_least k n status = bindR (jget_or k (JInt 0) status) (jle (JInt n))"

definition single_rollout :: "string \<Rightarrow> json \<Rightarrow> json \<Rightarrow> bool res" where
  "single_rollout d obj status =
     andR [bindR (deployed_image obj) (\<lambda>i. Inr (i = image_of d)),
           bindR (jget_or ''observedGeneration'' (JInt 0) status) (\<lambda>seen.
             bindR (jdeep [''metadata'', ''generation''] obj) (\<lambda>g. jle g seen)),
           bindR (jget_or ''updatedReplicas'' (JInt 0) status) (\<lambda>u.
             bindR (jdeep [''spec'', ''replicas''] obj) (\<lambda>r. Inr (py_eq u r \<and> py_eq r (JInt 1)))),
           at_least ''readyReplicas'' 1 status, at_least ''availableReplicas'' 1 status,
           bindR (jget_or ''replicas'' (JInt 0) status) (\<lambda>n. Inr (py_eq n (JInt 1)))]"

definition deployment_ready :: "'w kube_client \<Rightarrow> string \<Rightarrow> string \<Rightarrow> ('w, bool) prog" where
  "deployment_ready K track d =
     bindP (track_deployment K track) (\<lambda>obj.
       liftP (bindR (jget_or ''status'' (JObj []) obj) (single_rollout d obj)))"

section \<open>Metrics\<close>

text \<open>
  One sample of a query, NaN when it is missing or malformed: shared by \<open>Effects.metrics\<close> and by
  \<open>Observations.metrics\<close>. An answer that is no document raises.
\<close>

definition sample_of :: "json \<Rightarrow> flt res" where
  "sample_of rows =
     bindR (jnth 0 rows) (\<lambda>row. bindR (jget ''value'' row) (\<lambda>v. bindR (jnth 1 v) json_float))"

definition undefined_sample :: "exn \<Rightarrow> bool" where
  "undefined_sample e \<longleftrightarrow> is_key_error e \<or> e = IndexError \<or> is_type_error e \<or> is_value_error e"

definition sample_or_nan :: "json \<Rightarrow> flt res" where
  "sample_or_nan response =
     bindR (jget_or ''data'' (JObj []) response) (\<lambda>d. bindR (jget_or ''result'' (JArr []) d) (\<lambda>rows.
     bindR (andR [get_eq ''status'' (JStr ''success'') response, bindR (jlen rows) (\<lambda>n. Inr (n = 1))]) (\<lambda>single.
       if \<not> single then Inr NaN
       else case sample_of rows of Inr f \<Rightarrow> Inr f | Inl e \<Rightarrow> if undefined_sample e then Inr NaN else Inl e)))"

definition sampled :: "(string \<Rightarrow> ('w, json) prog) \<Rightarrow> string \<times> string \<Rightarrow> ('w, string \<times> flt) prog" where
  "sampled ask q = bindP (ask (snd q)) (\<lambda>response. liftP (bindR (sample_or_nan response) (\<lambda>f. Inr (fst q, f))))"

definition sample_all :: "(string \<Rightarrow> ('w, json) prog) \<Rightarrow> (string \<times> string) list \<Rightarrow> ('w, metrics) prog" where
  "sample_all ask queries = bindP (mapP (sampled ask) queries) (\<lambda>kvs. retP (map_of kvs))"

definition LEGACY_QUERIES :: "(string \<times> string) list" where
  "LEGACY_QUERIES =
     [(''up'', ''min(up{job=\"credit-risk-router\"})''),
      (''age'', ''max(time()-timestamp(up{job=\"credit-risk-router\"}))''),
      (''traffic'', ''sum(increase(credit_risk_router_requests_total{track=\"canary\"}[30s]))''),
      (''success'', ''sum(increase(credit_risk_router_requests_total{track=\"canary\",status=~\"2..\"}[30s]))''),
      (''errors'', ''sum(rate(credit_risk_router_requests_total{track=\"canary\",status=~\"5..\"}[30s])) / clamp_min(sum(rate(credit_risk_router_requests_total{track=\"canary\"}[30s])),1e-12)''),
      (''p95'', ''histogram_quantile(0.95,sum by(le)(rate(credit_risk_router_request_duration_seconds_bucket{track=\"canary\"}[30s])))''),
      (''stable_errors'', ''sum(rate(credit_risk_router_requests_total{track=\"stable\",status=~\"5..\"}[30s])) / clamp_min(sum(rate(credit_risk_router_requests_total{track=\"stable\"}[30s])),0.001)'')]"

text \<open>The effects of the legacy controller on a cluster; \<open>ask\<close> queries Prometheus.\<close>

definition cluster_effects ::
  "'w kube_client \<Rightarrow> (string \<Rightarrow> ('w, json) prog) \<Rightarrow> (string \<Rightarrow> ('w, json) prog) \<Rightarrow> 'w legacy_effects" where
  "cluster_effects K api ask =
     \<lparr>le_ensure = (\<lambda>track d replicas. bindP (deployment_ensure K track d replicas) (\<lambda>_. retP ())),
      le_kube_ready = deployment_ready K, le_api = api, le_metrics = sample_all ask LEGACY_QUERIES\<rparr>"

section \<open>The watcher\<close>

definition WATCH_QUEUE :: string where
  "WATCH_QUEUE = ''https://sqs.'' @ REGION @ ''.amazonaws.com/'' @ REGISTRY @ ''/mlflow-models-image-pushed''"

definition WATCH_DLQ :: string where
  "WATCH_DLQ = WATCH_QUEUE @ ''-dlq''"

definition QUEUE_ARN :: string where
  "QUEUE_ARN = ''arn:aws:sqs:'' @ REGION @ '':'' @ REGISTRY @ '':mlflow-models-image-pushed''"

definition DLQ_ARN :: string where
  "DLQ_ARN = QUEUE_ARN @ ''-dlq''"

record queue_message =
  qm_body :: string
  qm_receipt :: string
  qm_id :: json

text \<open>
  \<open>wt_attributes\<close> gives the answer of \<open>get_queue_attributes\<close>, \<open>wt_images\<close> the described images of all
  pages, \<open>wt_delete\<close> deletes a receipt from the queue, \<open>wt_stamp\<close> is the clock of the audit rows.
\<close>

record 'w watcher =
  wt_lib :: pylib
  wt_loads :: "string \<Rightarrow> json option"
  wt_backend :: "'w legacy_backend"
  wt_stamp :: "('w, rat) prog"
  wt_attributes :: "string \<Rightarrow> ('w, json) prog"
  wt_images :: "('w, ecr_image list) prog"
  wt_receive :: "('w, queue_message list) prog"
  wt_delete :: "string \<Rightarrow> string \<Rightarrow> ('w, unit) prog"
  wt_time :: "('w, rat) prog"
  wt_sleep :: "rat \<Rightarrow> ('w, unit) prog"

definition split_candidate :: "string + candidate \<Rightarrow> candidate option \<times> string option" where
  "split_candidate x = (case x of Inl reason \<Rightarrow> (None, Some reason) | Inr c \<Rightarrow> (Some c, None))"

text \<open>The state is written before the message is deleted: a failed delete delivers it again.\<close>

definition watch_message :: "'w watcher \<Rightarrow> queue_message \<Rightarrow> ('w, string) prog" where
  "watch_message W m =
     bindP (liftP (event_candidate (wt_lib W) (wt_loads W) (qm_body m))) (\<lambda>x.
     let (cand, reason) = split_candidate x
     in bindP (legacy_enqueue (wt_lib W) (wt_backend W) (wt_stamp W) cand reason (qm_id m)) (\<lambda>outcome.
        thenP (wt_delete W WATCH_QUEUE (qm_receipt m)) (retP outcome)))"

fun enqueue_candidates :: "'w watcher \<Rightarrow> candidate list \<Rightarrow> ('w, (candidate \<times> string) list) prog" where
  "enqueue_candidates W [] = retP []"
| "enqueue_candidates W (c # cs) =
     bindP (legacy_enqueue (wt_lib W) (wt_backend W) (wt_stamp W) (Some c) None (JStr ''ecr-reconcile'')) (\<lambda>reason.
     bindP (enqueue_candidates W cs) (\<lambda>rest. retP ((c, reason) # rest)))"

definition watch_reconcile :: "'w watcher \<Rightarrow> ('w, (candidate \<times> string) list) prog" where
  "watch_reconcile W = bindP (wt_images W) (\<lambda>details. enqueue_candidates W (reconcile_candidates details))"

text \<open>\<open>int(x)\<close> of a value of a JSON document.\<close>

definition json_int :: "json \<Rightarrow> int res" where
  "json_int j =
     (case j of
        JStr s \<Rightarrow> py_int s
      | _ \<Rightarrow> (case num_of j of
               Some (Fin r) \<Rightarrow> Inr (if 0 \<le> r then floor r else ceiling r)
             | Some NaN \<Rightarrow> Inl (ValueError ''cannot convert float NaN to integer'')
             | Some _ \<Rightarrow> Inl OverflowError
             | None \<Rightarrow> Inl (TypeError ''int() argument must be a string or a number'')))"

definition attribute_is :: "string \<Rightarrow> int \<Rightarrow> json \<Rightarrow> bool res" where
  "attribute_is k n attrs = bindR (jget_or k (JInt 0) attrs) (\<lambda>v. bindR (json_int v) (\<lambda>i. Inr (i = n)))"

definition redrive_policy :: "(string \<Rightarrow> json option) \<Rightarrow> json \<Rightarrow> json res" where
  "redrive_policy loads attrs =
     bindR (jget_or ''RedrivePolicy'' (JStr ''{}'') attrs) (\<lambda>r.
       case r of
         JStr s \<Rightarrow> (case loads s of Some v \<Rightarrow> Inr v | None \<Rightarrow> Inl (ValueError ''JSONDecodeError''))
       | _ \<Rightarrow> Inl (TypeError ''the JSON object must be str''))"

definition check_source_queue :: "(string \<Rightarrow> json option) \<Rightarrow> json \<Rightarrow> unit res" where
  "check_source_queue loads attrs =
     bindR (redrive_policy loads attrs) (\<lambda>redrive.
     bindR (get_eq ''QueueArn'' (JStr QUEUE_ARN) attrs) (\<lambda>named.
     bindR (requireR named (ValueError ''Unexpected queue ARN'')) (\<lambda>_.
     bindR (attribute_is ''MessageRetentionPeriod'' 1209600 attrs) (\<lambda>kept.
     bindR (requireR kept (ValueError ''Source queue retention must be 14 days'')) (\<lambda>_.
     bindR (andR [get_eq ''deadLetterTargetArn'' (JStr DLQ_ARN) redrive, attribute_is ''maxReceiveCount'' 5 redrive]) (\<lambda>driven.
       requireR driven (ValueError ''Source redrive must target expected DLQ after 5 receives'')))))))"

definition check_dead_letters :: "json \<Rightarrow> int res" where
  "check_dead_letters dead =
     bindR (andR [get_eq ''QueueArn'' (JStr DLQ_ARN) dead, attribute_is ''MessageRetentionPeriod'' 1209600 dead]) (\<lambda>ok.
     bindR (requireR ok (ValueError ''Unexpected DLQ ARN or retention'')) (\<lambda>_.
     bindR (jget_or ''ApproximateNumberOfMessages'' (JInt 0) dead) json_int))"

definition check_queues :: "'w watcher \<Rightarrow> ('w, int) prog" where
  "check_queues W =
     bindP (wt_attributes W WATCH_QUEUE) (\<lambda>answer.
     bindP (liftP (bindR (jget ''Attributes'' answer) (check_source_queue (wt_loads W)))) (\<lambda>_.
     bindP (wt_attributes W WATCH_DLQ) (\<lambda>dead_answer.
       liftP (bindR (jget ''Attributes'' dead_answer) check_dead_letters))))"

text \<open>The variables of the endless loop; \<open>wv_last\<close> is the time of the last successful poll.\<close>

record watch_vars =
  wv_next_reconcile :: rat
  wv_next_attrs :: rat
  wv_last :: rat

definition initial_vars :: watch_vars where
  "initial_vars = \<lparr>wv_next_reconcile = 0, wv_next_attrs = 0, wv_last = 0\<rparr>"

text \<open>Each part raises, or returns the time at which it is due again.\<close>

definition attribute_round :: "'w watcher \<Rightarrow> rat \<Rightarrow> ('w, rat) prog" where
  "attribute_round W due =
     bindP (wt_time W) (\<lambda>now.
       if now < due then retP due
       else bindP (check_queues W) (\<lambda>_. bindP (wt_time W) (\<lambda>t. retP (t + 60))))"

definition reconcile_round :: "'w watcher \<Rightarrow> rat \<Rightarrow> ('w, rat) prog" where
  "reconcile_round W due =
     bindP (wt_time W) (\<lambda>now.
       if now < due then retP due
       else catchP (bindP (watch_reconcile W) (\<lambda>_. bindP (wt_time W) (\<lambda>t. retP (t + 3600))))
              (\<lambda>_. bindP (wt_time W) (\<lambda>t. retP (t + 300))))"

text \<open>A message that fails stays on the queue; the others are handled all the same.\<close>

fun watch_messages :: "'w watcher \<Rightarrow> queue_message list \<Rightarrow> ('w, unit) prog" where
  "watch_messages W [] = retP ()"
| "watch_messages W (m # ms) = attemptP (watch_message W m) (\<lambda>_. watch_messages W ms)"

definition receive_round :: "'w watcher \<Rightarrow> ('w, rat) prog" where
  "receive_round W =
     bindP (wt_receive W) (\<lambda>messages. bindP (wt_time W) (\<lambda>t. bindP (watch_messages W messages) (\<lambda>_. retP t)))"

definition poll_failed :: "'w watcher \<Rightarrow> watch_vars \<Rightarrow> ('w, watch_vars) prog" where
  "poll_failed W v = bindP (wt_sleep W 5) (\<lambda>_. retP v)"

text \<open>One turn of the loop: what was assigned before an exception stays assigned.\<close>

definition watch_turn :: "'w watcher \<Rightarrow> watch_vars \<Rightarrow> ('w, watch_vars) prog" where
  "watch_turn W v =
     attemptP (attribute_round W (wv_next_attrs v)) (\<lambda>r.
       case r of
         Inl _ \<Rightarrow> poll_failed W v
       | Inr attrs \<Rightarrow>
           let v1 = v\<lparr>wv_next_attrs := attrs\<rparr>
           in attemptP (reconcile_round W (wv_next_reconcile v)) (\<lambda>r.
                case r of
                  Inl _ \<Rightarrow> poll_failed W v1
                | Inr due \<Rightarrow>
                    let v2 = v1\<lparr>wv_next_reconcile := due\<rparr>
                    in attemptP (receive_round W) (\<lambda>r.
                         case r of Inl _ \<Rightarrow> poll_failed W v2 | Inr t \<Rightarrow> retP (v2\<lparr>wv_last := t\<rparr>))))"

text \<open>What \<open>/health/ready\<close> answers.\<close>

definition watcher_ready :: "'w watcher \<Rightarrow> watch_vars \<Rightarrow> ('w, bool) prog" where
  "watcher_ready W v = bindP (wt_time W) (\<lambda>now. retP (now - wv_last v < 90))"

definition pod_identity :: "env \<Rightarrow> unit res" where
  "pod_identity e =
     requireR (\<forall>k \<in> {''AWS_CONTAINER_CREDENTIALS_FULL_URI'', ''AWS_CONTAINER_AUTHORIZATION_TOKEN_FILE''}.
                 case e k of Some v \<Rightarrow> v \<noteq> [] | None \<Rightarrow> False)
       (RuntimeError ''EKS Pod Identity credentials are required'')"

end
