(* ===== verification/LegacyProperties.thy ===== *)
theory LegacyProperties
  imports LegacyWatcher
begin

text \<open>
  What the watcher of the first generation promises: a message is deleted only behind a decision that
  is stored, and what it stores never exceeds the bounds of the queue.
\<close>

section \<open>Ingestion\<close>





section \<open>The watcher\<close>





section \<open>A pushed image\<close>







end
