(* ===== verification/Telemetry.thy ===== *)
theory Telemetry
  imports LegacyWatcher ReleaseStore
begin

text \<open>
  What the control plane shows of itself: \<open>control_plane/observations_v2.py\<close> (the metrics the release
  controller judges by), \<open>control_plane/release_metrics_v2.py\<close> (gauges of the release state) and
  \<open>control_plane/exporters/model_state_exporter.py\<close> (the status of the KServe lanes and counters of
  audit rows). A metric family is its name with its samples, a sample the values of its labels and
  its value; help texts and the names of labels are left out. Locks are left out: each method runs as
  a whole.
\<close>

section \<open>Observations\<close>

text \<open>\<open>ob_query\<close> asks Prometheus at a base URL for an expression before its URL encoding.\<close>

record 'w observations =
  ob_prometheus :: string
  ob_router :: string
  ob_get :: "string \<Rightarrow> ('w, json) prog"
  ob_query :: "string \<Rightarrow> string \<Rightarrow> ('w, json) prog"

definition bare_url :: "string \<Rightarrow> string" where
  "bare_url u = rstrip_by (\<lambda>c. c = CHR ''/'') u"

definition observed_router :: "'w observations \<Rightarrow> ('w, json) prog" where
  "observed_router ob = ob_get ob (bare_url (ob_router ob) @ ''/state'')"

definition V2_LABELS :: string where
  "V2_LABELS = ''job=\"credit-risk-router-v2\",track=\"canary\"''"

definition v2_requests :: "string \<Rightarrow> string \<Rightarrow> string" where
  "v2_requests f labels = ''sum('' @ f @ ''(credit_risk_router_requests_total{'' @ labels @ ''}[30s]))''"

definition V2_QUERIES :: "(string \<times> string) list" where
  "V2_QUERIES =
     [(''up'', ''min(up{job=\"credit-risk-router-v2\"})''),
      (''age'', ''max(time()-timestamp(up{job=\"credit-risk-router-v2\"}))''),
      (''traffic'', v2_requests ''increase'' V2_LABELS),
      (''success'', v2_requests ''increase'' (V2_LABELS @ '',status=~\"2..\"'')),
      (''errors'', v2_requests ''rate'' (V2_LABELS @ '',status=~\"5..\"'') @ '' / clamp_min(''
          @ v2_requests ''rate'' V2_LABELS @ '',1e-12)''),
      (''p95'', ''histogram_quantile(0.95,sum by(le)(rate(credit_risk_router_request_duration_seconds_bucket{''
          @ V2_LABELS @ ''}[30s])))''),
      (''stable_errors'', v2_requests ''rate'' ''job=\"credit-risk-router-v2\",track=\"stable\",status=~\"5..\"''
          @ '' / clamp_min('' @ v2_requests ''rate'' ''job=\"credit-risk-router-v2\",track=\"stable\"'' @ '',1e-12)'')]"

definition observed_metrics :: "'w observations \<Rightarrow> ('w, metrics) prog" where
  "observed_metrics ob = sample_all (ob_query ob (bare_url (ob_prometheus ob))) V2_QUERIES"

section \<open>The gauges of the release state\<close>

type_synonym family = "string \<times> (string list \<times> json) list"

definition PHASES :: "string list" where
  "PHASES = [''IDLE'', ''PREPARING'', ''RAMP'', ''FINALIZING'', ''DRAINING'', ''ROLLBACK'', ''BLOCKED'']"

definition OUTCOMES :: "string \<Rightarrow> string option" where
  "OUTCOMES = map_of [(''release_completed'', ''success''), (''rollback_completed'', ''rollback''), (''release_blocked'', ''blocked'')]"

definition PENDING_STATUSES :: "status list" where
  "PENDING_STATUSES = [ACCEPTED, RESOLUTION_RETRY, RESOLUTION_BLOCKED, BUILD_REQUIRED, READY_FOR_RELEASE]"

record release_collector =
  rl_snapshot :: "release_state option"
  rl_updated :: "rat option"

definition new_collector :: release_collector where
  "new_collector = \<lparr>rl_snapshot = None, rl_updated = None\<rparr>"

definition collector_update ::
  "pylib \<Rightarrow> ('w, rat) prog \<Rightarrow> release_state \<Rightarrow> ('w, release_collector) prog" where
  "collector_update L clock s =
     bindP (liftP (validate L s)) (\<lambda>_. bindP clock (\<lambda>now. retP \<lparr>rl_snapshot = Some s, rl_updated = Some now\<rparr>))"

definition is_fresh :: "('w, rat) prog \<Rightarrow> rat \<Rightarrow> rat option \<Rightarrow> ('w, bool) prog" where
  "is_fresh clock max_age updated =
     (case updated of
        None \<Rightarrow> retP False
      | Some t \<Rightarrow> bindP clock (\<lambda>now. retP (0 \<le> now - t \<and> now - t \<le> max_age)))"

definition gauge :: "json \<Rightarrow> string list \<times> json" where
  "gauge v = ([], v)"

definition flag :: "bool \<Rightarrow> json" where
  "flag b = JInt (if b then 1 else 0)"

definition version_gauge :: "serving_pair option \<Rightarrow> (string list \<times> json) list res" where
  "version_gauge p =
     (case p of None \<Rightarrow> Inr [] | Some q \<Rightarrow> bindR (py_int (sp_model_version q)) (\<lambda>v. Inr [gauge (JInt v)]))"

definition current_phase :: "release_state \<Rightarrow> string" where
  "current_phase s = (case st_active s of None \<Rightarrow> ''IDLE'' | Some a \<Rightarrow> phase_name (ac_phase a))"

definition phase_gauge :: "release_state \<Rightarrow> (string list \<times> json) list" where
  "phase_gauge s = map (\<lambda>p. ([p], flag (current_phase s = p))) PHASES"

definition pending_gauge :: "release_state \<Rightarrow> (string list \<times> json) list" where
  "pending_gauge s =
     map (\<lambda>x. ([status_name x], JInt (int (length (filter (\<lambda>i. it_status i = x) (st_pending s)))))) PENDING_STATUSES"

definition last_row :: "(audit_row \<Rightarrow> bool) \<Rightarrow> release_state \<Rightarrow> audit_row option" where
  "last_row p s = first_such p (rev (st_audit s))"

definition row_field :: "string \<Rightarrow> audit_row \<Rightarrow> json" where
  "row_field k r = (case map_of (au_fields r) k of Some v \<Rightarrow> v | None \<Rightarrow> JNull)"

definition outcome_family :: "release_state \<Rightarrow> family list" where
  "outcome_family s =
     (case last_row (\<lambda>r. OUTCOMES (au_reason r) \<noteq> None) s of
        None \<Rightarrow> []
      | Some r \<Rightarrow> [(''mlops_v2_last_outcome_timestamp_seconds'', [([the (OUTCOMES (au_reason r))], jrat (au_time r))])])"

definition started_row :: "release_state \<Rightarrow> audit_row option" where
  "started_row s =
     (case st_active s of
        None \<Rightarrow> None
      | Some a \<Rightarrow> last_row (\<lambda>r. au_reason r = ''release_started'' \<and> py_eq (row_field ''pair'' r) (pair_json (ac_pair a))) s)"

definition elapsed_family :: "('w, rat) prog \<Rightarrow> release_state \<Rightarrow> ('w, family list) prog" where
  "elapsed_family clock s =
     (case started_row s of
        None \<Rightarrow> retP []
      | Some r \<Rightarrow> bindP clock (\<lambda>now. retP [(''mlops_v2_release_elapsed_seconds'', [gauge (jrat (max 0 (now - au_time r)))])]))"

definition stage_samples :: "release_state \<Rightarrow> (string list \<times> json) list" where
  "stage_samples s =
     List.map_filter (\<lambda>w. case last_row (\<lambda>r. au_reason r = ''stage_promoted'' \<and> py_eq (row_field ''previous_weight'' r) (JInt w)) s of
         None \<Rightarrow> None | Some r \<Rightarrow> Some ([int_str w], jrat (au_time r))) [10, 25, 50, 100]"

definition release_families :: "('w, rat) prog \<Rightarrow> release_state \<Rightarrow> ('w, family list) prog" where
  "release_families clock s =
     bindP (liftP (version_gauge (st_stable s))) (\<lambda>stable_version.
     bindP (liftP (version_gauge (map_option ac_pair (st_active s)))) (\<lambda>candidate_version.
     bindP (elapsed_family clock s) (\<lambda>elapsed.
       retP ([(''mlops_v2_stable_version'', stable_version), (''mlops_v2_candidate_version'', candidate_version),
              (''mlops_v2_release_phase'', phase_gauge s), (''mlops_v2_pending_releases'', pending_gauge s)]
             @ outcome_family s @ elapsed @ [(''mlops_v2_stage_promotion_timestamp_seconds'', stage_samples s)]))))"

definition collect_release :: "('w, rat) prog \<Rightarrow> rat \<Rightarrow> release_collector \<Rightarrow> ('w, family list) prog" where
  "collect_release clock max_age c =
     bindP (is_fresh clock max_age (rl_updated c)) (\<lambda>fresh.
     let health = (''mlops_v2_release_snapshot_fresh'', [gauge (flag fresh)])
     in case (fresh, rl_snapshot c) of
          (True, Some s) \<Rightarrow> bindP (release_families clock s) (\<lambda>fs. retP (health # fs))
        | _ \<Rightarrow> retP [health])"

section \<open>The exporter of the model state\<close>

definition REASONS :: "string list" where
  "REASONS = [''release_started'', ''stage_promoted'', ''stable_committed'', ''release_completed'',
              ''rollback_completed'', ''release_blocked'']"

definition STAGES :: "string list" where
  "STAGES = [''10'', ''25'', ''50'', ''100'']"

record lane_row =
  lr_lane :: string
  lr_name :: string
  lr_ready :: "int option"
  lr_generation :: json
  lr_observed :: json
  lr_revision :: string
  lr_mode :: string

type_synonym event_counter = "string \<times> string \<Rightarrow> int"

text \<open>\<open>mc_updated\<close> and \<open>mc_watermark\<close> are \<open>None\<close> before the first poll.\<close>

record model_collector =
  mc_rows :: "lane_row list"
  mc_updated :: "rat option"
  mc_ok :: bool
  mc_watermark :: "rat option"
  mc_events :: event_counter

definition new_model_collector :: model_collector where
  "new_model_collector = \<lparr>mc_rows = [], mc_updated = None, mc_ok = False, mc_watermark = None, mc_events = (\<lambda>_. 0)\<rparr>"

record 'w state_reader =
  sr_get :: "string \<Rightarrow> string \<Rightarrow> ('w, json option) prog"
  sr_state :: "('w, json) prog"
  sr_clock :: "('w, rat) prog"

text \<open>\<open>next((x.get(field) for x in conditions if x.get('type') == 'Ready'), None)\<close>.\<close>

fun ready_condition :: "json list \<Rightarrow> json res" where
  "ready_condition [] = Inr JNull"
| "ready_condition (x # xs) =
     bindR (get_eq ''type'' (JStr ''Ready'') x) (\<lambda>b. if b then jget_or ''status'' JNull x else ready_condition xs)"

text \<open>\<open>{'True': 1, 'False': 0}.get(ready)\<close>: a list or a dict cannot be hashed.\<close>

definition ready_value :: "json \<Rightarrow> int option res" where
  "ready_value j =
     (if is_list j \<or> is_dict j then Inl (TypeError ''unhashable type'')
      else Inr (if j = JStr ''True'' then Some 1 else if j = JStr ''False'' then Some 0 else None))"

definition revision_char :: "char \<Rightarrow> bool" where
  "revision_char c \<longleftrightarrow> alnum c \<or> c \<in> {CHR ''.'', CHR ''/'', CHR ''_'', CHR ''-''}"

definition bounded_revision :: "json \<Rightarrow> string" where
  "bounded_revision j = (if is_str j \<and> rx_chars 1 128 revision_char (str_of j) then str_of j else ''N/A'')"

definition latest_revision :: "json \<Rightarrow> string res" where
  "latest_revision status =
     bindR (jget_or ''latestReadyRevision'' JNull status) (\<lambda>r.
       if truthy r then Inr (bounded_revision r)
       else bindR (jpath [''components'', ''predictor''] status) (\<lambda>p.
            bindR (jget_or ''latestReadyRevision'' JNull p) (\<lambda>q.
              Inr (if truthy q then bounded_revision q else ''N/A''))))"

text \<open>\<open>mode not in ('Standard', ...)\<close> compares, so any value is allowed.\<close>

definition deployment_mode :: "json \<Rightarrow> string res" where
  "deployment_mode obj =
     bindR (jpath [''metadata'', ''annotations''] obj) (\<lambda>a.
     bindR (jget_or ''serving.kserve.io/deploymentMode'' (JStr ''Unknown'') a) (\<lambda>m.
       Inr (if is_str m \<and> str_of m \<in> {''Standard'', ''Knative'', ''RawDeployment''} then str_of m else ''Unknown'')))"

definition lane_status :: "string \<Rightarrow> string \<Rightarrow> json \<Rightarrow> lane_row res" where
  "lane_status lane name obj =
     bindR (jget_or ''status'' (JObj []) obj) (\<lambda>status.
     bindR (jget_or ''conditions'' (JArr []) status) (\<lambda>cs. bindR (jiter cs) (\<lambda>conditions.
     bindR (ready_condition conditions) (\<lambda>condition.
     bindR (latest_revision status) (\<lambda>revision.
     bindR (deployment_mode obj) (\<lambda>mode.
     bindR (ready_value condition) (\<lambda>ready.
     bindR (jdeep [''metadata'', ''generation''] obj) (\<lambda>generation.
     bindR (jget_or ''observedGeneration'' JNull status) (\<lambda>observed.
       Inr \<lparr>lr_lane = lane, lr_name = name, lr_ready = ready, lr_generation = generation,
            lr_observed = observed, lr_revision = revision, lr_mode = mode\<rparr>)))))))))"

fun lane_rows :: "'w state_reader \<Rightarrow> string list \<Rightarrow> ('w, lane_row list) prog" where
  "lane_rows R [] = retP []"
| "lane_rows R (lane # lanes) =
     (let name = ''credit-risk-'' @ lane @ ''-v2''
      in bindP (sr_get R ''inferenceservices'' name) (\<lambda>found.
           case found of
             None \<Rightarrow> lane_rows R lanes
           | Some obj \<Rightarrow> bindP (liftP (lane_status lane name obj)) (\<lambda>row.
               bindP (lane_rows R lanes) (\<lambda>rows. retP (row # rows)))))"

subsection \<open>The audit rows\<close>

text \<open>The time of a row that has one: a finite number that is not negative.\<close>

definition row_time :: "json \<Rightarrow> rat option res" where
  "row_time x =
     bindR (jget_or ''time'' JNull x) (\<lambda>t.
       Inr (case num_of t of Some (Fin r) \<Rightarrow> if 0 \<le> r then Some r else None | _ \<Rightarrow> None))"

definition timed :: "json \<Rightarrow> (rat \<times> json) option res" where
  "timed x = bindR (row_time x) (\<lambda>t. Inr (map_option (\<lambda>r. (r, x)) t))"

definition timed_rows :: "json \<Rightarrow> (rat \<times> json) list res" where
  "timed_rows state =
     bindR (jget_or ''audit'' (JArr []) state) (\<lambda>a. bindR (jiter a) (\<lambda>xs.
     bindR (mapR timed xs) (\<lambda>ts. Inr (List.map_filter id ts))))"

definition event_reason :: "json \<Rightarrow> string res" where
  "event_reason row =
     bindR (jget_or ''reason'' JNull row) (\<lambda>r.
       if is_list r \<or> is_dict r then Inl (TypeError ''unhashable type'')
       else Inr (if is_str r \<and> str_of r \<in> set REASONS then str_of r else ''other''))"

text \<open>\<open>str(weight)\<close> is a stage only for an integer or a string.\<close>

definition event_stage :: "string \<Rightarrow> json \<Rightarrow> string res" where
  "event_stage reason row =
     (if reason \<noteq> ''stage_promoted'' then Inr ''none''
      else bindR (jget_or ''previous_weight'' JNull row) (\<lambda>w.
             let s = (case w of JInt i \<Rightarrow> int_str i | JStr t \<Rightarrow> t | _ \<Rightarrow> [])
             in Inr (if s \<in> set STAGES then s else ''none'')))"

definition event_key :: "json \<Rightarrow> (string \<times> string) res" where
  "event_key row = bindR (event_reason row) (\<lambda>reason. bindR (event_stage reason row) (\<lambda>stage. Inr (reason, stage)))"

text \<open>Rows newer than the watermark are counted; a row that raises stops the count where it is.\<close>

fun count_rows :: "rat \<Rightarrow> (rat \<times> json) list \<Rightarrow> event_counter \<Rightarrow> unit res \<times> event_counter" where
  "count_rows watermark [] ev = (Inr (), ev)"
| "count_rows watermark ((t, row) # rows) ev =
     (if t \<le> watermark then count_rows watermark rows ev
      else case event_key row of
             Inl e \<Rightarrow> (Inl e, ev)
           | Inr k \<Rightarrow> count_rows watermark rows (ev(k := ev k + 1)))"

definition latest_time :: "rat option \<Rightarrow> (rat \<times> json) list \<Rightarrow> rat" where
  "latest_time watermark rows =
     fold max (map fst rows) (case watermark of Some w \<Rightarrow> w | None \<Rightarrow> 0)"

definition poll_inputs :: "'w state_reader \<Rightarrow> ('w, lane_row list \<times> (rat \<times> json) list) prog" where
  "poll_inputs R =
     bindP (lane_rows R [''stable'', ''canary'']) (\<lambda>rows.
     bindP (sr_state R) (\<lambda>state. bindP (liftP (timed_rows state)) (\<lambda>trail. retP (rows, trail))))"

definition counted :: "model_collector \<Rightarrow> (rat \<times> json) list \<Rightarrow> unit res \<times> event_counter" where
  "counted c trail =
     (case mc_watermark c of None \<Rightarrow> (Inr (), mc_events c) | Some w \<Rightarrow> count_rows w trail (mc_events c))"

definition poll :: "'w state_reader \<Rightarrow> model_collector \<Rightarrow> ('w, model_collector) prog" where
  "poll R c =
     attemptP (poll_inputs R) (\<lambda>inputs.
       case inputs of
         Inl _ \<Rightarrow> retP (c\<lparr>mc_ok := False\<rparr>)
       | Inr (rows, trail) \<Rightarrow>
           (case counted c trail of
              (Inl _, ev) \<Rightarrow> retP (c\<lparr>mc_events := ev, mc_ok := False\<rparr>)
            | (Inr _, ev) \<Rightarrow>
                let c' = c\<lparr>mc_events := ev, mc_watermark := Some (latest_time (mc_watermark c) trail),
                          mc_rows := rows, mc_ok := True\<rparr>
                in attemptP (sr_clock R) (\<lambda>t.
                     case t of Inl _ \<Rightarrow> retP (c'\<lparr>mc_ok := False\<rparr>) | Inr now \<Rightarrow> retP (c'\<lparr>mc_updated := Some now\<rparr>))))"

subsection \<open>The exported families\<close>

definition lane_labels :: "lane_row \<Rightarrow> string list" where
  "lane_labels r = [''production'', lr_lane r, lr_name r]"

definition lane_family :: "string \<Rightarrow> (lane_row \<Rightarrow> json) \<Rightarrow> lane_row list \<Rightarrow> family" where
  "lane_family name value rows =
     (''mlops_v2_kserve_isvc_'' @ name, map (\<lambda>r. (lane_labels r, value r)) (filter (\<lambda>r. value r \<noteq> JNull) rows))"

definition info_family :: "lane_row list \<Rightarrow> family" where
  "info_family rows =
     (''mlops_v2_kserve_isvc_info'', map (\<lambda>r. (lane_labels r @ [lr_revision r, lr_mode r], JInt 1)) rows)"

text \<open>The finite domain of the labels, in the order of \<open>sorted\<close>.\<close>

definition EVENT_LABELS :: "(string \<times> string) list" where
  "EVENT_LABELS =
     [(''other'', ''none''), (''release_blocked'', ''none''), (''release_completed'', ''none''), (''release_started'', ''none''),
      (''rollback_completed'', ''none''), (''stable_committed'', ''none''), (''stage_promoted'', ''10''),
      (''stage_promoted'', ''100''), (''stage_promoted'', ''25''), (''stage_promoted'', ''50''), (''stage_promoted'', ''none'')]"

definition event_family :: "event_counter \<Rightarrow> family" where
  "event_family ev = (''mlops_v2_release_event'', map (\<lambda>(r, s). ([r, s], JInt (ev (r, s)))) EVENT_LABELS)"

definition collect_models :: "'w state_reader \<Rightarrow> rat \<Rightarrow> model_collector \<Rightarrow> ('w, family list) prog" where
  "collect_models R max_age c =
     bindP (if mc_ok c then is_fresh (sr_clock R) max_age (mc_updated c) else retP False) (\<lambda>fresh.
     let up = (''mlops_v2_state_exporter_up'', [gauge (flag fresh)])
     in retP (if \<not> fresh then [up]
              else [up, lane_family ''ready'' (\<lambda>r. opt_json JInt (lr_ready r)) (mc_rows c),
                    lane_family ''generation'' lr_generation (mc_rows c),
                    lane_family ''observed_generation'' lr_observed (mc_rows c),
                    info_family (mc_rows c), event_family (mc_events c)]))"

section \<open>The endpoints\<close>

text \<open>
  What the server of \<open>control_plane/telemetry.py\<close> answers to a GET: status and body. \<open>metrics_text\<close> renders
  the metrics of the process; only the readiness of the process decides between 200 and 503.
\<close>

definition telemetry_get :: "('w, string) prog \<Rightarrow> ('w, bool) prog \<Rightarrow> string \<Rightarrow> ('w, int \<times> string) prog" where
  "telemetry_get metrics_text is_ready path =
     (if path = ''/metrics'' then bindP metrics_text (\<lambda>t. retP (200, t))
      else if path = ''/health/live'' then retP (200, ''{\"status\":\"ok\"}'')
      else if path = ''/health/ready''
      then bindP is_ready (\<lambda>r. retP (if r then (200, ''{\"status\":\"ok\"}'') else (503, ''{\"status\":\"not_ready\"}'')))
      else retP (404, ''{}''))"

text \<open>The exporter has no readiness; \<open>None\<close> stands for the error page of the server.\<close>

definition exporter_get :: "('w, string) prog \<Rightarrow> string \<Rightarrow> ('w, int \<times> string option) prog" where
  "exporter_get metrics_text path =
     (if path = ''/metrics'' then bindP metrics_text (\<lambda>t. retP (200, Some t))
      else if path = ''/health/live'' then retP (200, Some ''{}'') else retP (404, None))"

end
