(* ===== verification/TelemetryProperties.thy ===== *)
theory TelemetryProperties
  imports Telemetry
begin

text \<open>
  What the telemetry can be trusted with: the exporter counts an audit row in at most one poll, the
  phase gauge shows one phase, and the gauge of pending releases accounts for every item that is not
  approved yet.
\<close>

section \<open>Counting audit rows\<close>

definition event_count :: "event_counter \<Rightarrow> int" where
  "event_count ev = sum_list (map ev EVENT_LABELS)"

definition newer :: "rat \<Rightarrow> (rat \<times> json) list \<Rightarrow> (rat \<times> json) list" where
  "newer m rows = filter (\<lambda>r. m < fst r) rows"

lemma sum_bump:
  fixes f :: "'a \<Rightarrow> int"
  assumes "distinct ks" and "k \<in> set ks"
  shows "sum_list (map (f(k := f k + 1)) ks) = sum_list (map f ks) + 1"
  using assms by (induction ks) (auto simp: fun_upd_def intro: arg_cong [where f = sum_list])

lemma event_labels_distinct: "distinct EVENT_LABELS"
  by (simp add: EVENT_LABELS_def)

lemma event_labels_complete:
  "\<forall>reason \<in> set (''other'' # REASONS). (reason, ''none'') \<in> set EVENT_LABELS"
  "\<forall>stage \<in> set (''none'' # STAGES). (''stage_promoted'', stage) \<in> set EVENT_LABELS"
  by code_simp+

lemma event_key_label:
  assumes "event_key row = Inr k"
  shows "k \<in> set EVENT_LABELS"
proof -
  obtain reason stage where k: "k = (reason, stage)" and reason: "event_reason row = Inr reason"
    and stage: "event_stage reason row = Inr stage"
    using assms by (auto simp: event_key_def bindR_Inr_iff)
  have known: "reason \<in> set (''other'' # REASONS)"
    using reason by (auto simp: event_reason_def bindR_Inr_iff split: if_splits)
  show ?thesis
  proof (cases "reason = ''stage_promoted''")
    case True
    then have "stage \<in> set (''none'' # STAGES)"
      using stage by (auto simp: event_stage_def bindR_Inr_iff Let_def split: if_splits)
    then show ?thesis using event_labels_complete(2) True k by blast
  next
    case False
    then have "stage = ''none''" using stage by (simp add: event_stage_def)
    then show ?thesis using event_labels_complete(1) known k by blast
  qed
qed

lemma event_count_bump: "event_key row = Inr k \<Longrightarrow> event_count (ev(k := ev k + 1)) = event_count ev + 1"
  unfolding event_count_def by (rule sum_bump [OF event_labels_distinct event_key_label])

lemma count_rows_counts:
  assumes "count_rows m rows ev = (Inr u, ev')"
  shows "event_count ev' = event_count ev + int (length (newer m rows))"
  using assms
proof (induction m rows ev rule: count_rows.induct)
  case (2 m t row rows ev)
  show ?case
  proof (cases "t \<le> m")
    case True
    then show ?thesis using 2 by (simp add: newer_def)
  next
    case False
    then obtain k where k: "event_key row = Inr k" and rest: "count_rows m rows (ev(k := ev k + 1)) = (Inr u, ev')"
      using 2(3) by (auto split: sum.splits)
    have "event_count ev' = event_count (ev(k := ev k + 1)) + int (length (newer m rows))"
      by (rule 2(2) [OF False k rest])
    then show ?thesis using event_count_bump [OF k] False by (simp add: newer_def)
  qed
qed (simp add: newer_def)

lemma latest_time_bound:
  "(\<forall>r \<in> set rows. fst r \<le> latest_time w rows) \<and> (\<forall>m. w = Some m \<longrightarrow> m \<le> latest_time w rows)"
proof -
  have fold_max: "x \<le> fold max ts x \<and> (\<forall>t \<in> set ts. t \<le> fold max ts x)" for ts :: "rat list" and x
    by (induction ts arbitrary: x) (auto, (meson max.cobounded1 max.cobounded2 order_trans)+)
  show ?thesis using fold_max [where ts = "map fst rows"] by (auto simp: latest_time_def)
qed

text \<open>
  C35 (an audit row is counted once). A successful poll counts exactly the rows of the state it has read
  that are newer than its watermark, each under one of the finitely many label pairs it exports, and
  moves the watermark up to the newest of them: so every row it has seen is older than what a later
  poll counts. The first poll counts nothing.
\<close>
theorem poll_counts_once:
  assumes "poll R c w = (Inr c', w')" and "mc_ok c'"
  shows "\<exists>rows trail v m'. poll_inputs R w = (Inr (rows, trail), v) \<and> mc_rows c' = rows
    \<and> mc_watermark c' = Some m' \<and> (\<forall>r \<in> set trail. fst r \<le> m')
    \<and> (case mc_watermark c of
         None \<Rightarrow> mc_events c' = mc_events c
       | Some m \<Rightarrow> m \<le> m' \<and> event_count (mc_events c') = event_count (mc_events c) + int (length (newer m trail)))"
proof -
  obtain q v where q: "poll_inputs R w = (q, v)" by (rule prod.exhaust)
  with assms obtain rows trail where inputs: "q = Inr (rows, trail)"
    by (cases q) (auto simp: poll_def run_attemptP run_retP)
  obtain p ev where ev: "counted c trail = (p, ev)" by (rule prod.exhaust)
  with assms q inputs obtain u where p: "p = Inr u"
    by (cases p) (auto simp: poll_def run_attemptP run_retP)
  obtain t x where t: "sr_clock R v = (t, x)" by (rule prod.exhaust)
  with assms q inputs ev p obtain now where now: "t = Inr now"
    by (cases t) (auto simp: poll_def run_attemptP run_retP Let_def)
  have c': "mc_rows c' = rows" "mc_watermark c' = Some (latest_time (mc_watermark c) trail)" "mc_events c' = ev"
    using assms q inputs ev p t now by (auto simp: poll_def run_attemptP run_retP Let_def)
  moreover have "case mc_watermark c of None \<Rightarrow> ev = mc_events c
      | Some m \<Rightarrow> event_count ev = event_count (mc_events c) + int (length (newer m trail))"
    using ev p by (auto simp: counted_def dest: count_rows_counts split: option.splits)
  ultimately show ?thesis
    using latest_time_bound [of trail "mc_watermark c"] q inputs by (auto split: option.splits)
qed

definition sample_audit :: json where
  "sample_audit = JObj [(''audit'', JArr
     [JObj [(''time'', JInt 2), (''reason'', JStr ''release_started'')],
      JObj [(''time'', JInt 4), (''reason'', JStr ''stage_promoted''), (''previous_weight'', JInt 25)]])]"

definition sample_reader :: "unit state_reader" where
  "sample_reader = \<lparr>sr_get = (\<lambda>_ _. retP None), sr_state = retP sample_audit, sr_clock = retP 5\<rparr>"

definition watching :: model_collector where
  "watching = new_model_collector\<lparr>mc_watermark := Some 3\<rparr>"

lemma sample_poll:
  "case poll sample_reader watching () of (Inr c, _) \<Rightarrow> mc_ok c | _ \<Rightarrow> False"
  "case poll_inputs sample_reader () of (Inr (_, trail), _) \<Rightarrow> length (newer 3 trail) = 1 | _ \<Rightarrow> False"
  by code_simp+

lemma poll_counts_once_witness:
  "\<exists>c. poll sample_reader watching () = (Inr c, ()) \<and> event_count (mc_events c) = 1"
proof -
  obtain c where run: "poll sample_reader watching () = (Inr c, ())" "mc_ok c"
    using sample_poll(1) by (auto split: prod.splits sum.splits)
  from poll_counts_once [OF run] obtain rows trail where "fst (poll_inputs sample_reader ()) = Inr (rows, trail)"
    "event_count (mc_events c) = event_count (mc_events watching) + int (length (newer 3 trail))"
    by (auto simp: watching_def)
  moreover from this(1) sample_poll(2) have "length (newer 3 trail) = 1" by (auto split: prod.splits)
  ultimately show ?thesis using run(1) by (simp add: watching_def new_model_collector_def event_count_def EVENT_LABELS_def)
qed

section \<open>The gauges of the release state\<close>

lemma filter_self: "q \<in> set ps \<Longrightarrow> distinct ps \<Longrightarrow> filter (\<lambda>p. q = p) ps = [q]"
  by (induction ps) (auto simp: filter_empty_conv)

text \<open>The phase gauge is 1 for the current phase and 0 for the six others.\<close>

lemma phase_gauge_one_hot: "filter (\<lambda>x. snd x = JInt 1) (phase_gauge s) = [([current_phase s], JInt 1)]"
proof -
  have "phase_name x \<in> set PHASES" for x by (cases x) (simp_all add: PHASES_def)
  moreover have "''IDLE'' \<in> set PHASES" by (simp add: PHASES_def)
  ultimately have "current_phase s \<in> set PHASES" by (simp add: current_phase_def split: option.split)
  moreover have "distinct PHASES" by (simp add: PHASES_def)
  ultimately have "filter (\<lambda>p. current_phase s = p) PHASES = [current_phase s]" by (rule filter_self)
  then show ?thesis by (simp add: phase_gauge_def filter_map o_def flag_def)
qed

definition gauge_total :: "(string list \<times> json) list \<Rightarrow> int" where
  "gauge_total xs = sum_list (map (\<lambda>x. case snd x of JInt i \<Rightarrow> i | _ \<Rightarrow> 0) xs)"

text \<open>What the gauge of pending releases leaves out are exactly the approved items.\<close>

lemma pending_gauge_accounts:
  "gauge_total (pending_gauge s)
     = int (length (st_pending s)) - int (length (filter (\<lambda>i. it_status i = APPROVED_FOR_RELEASE) (st_pending s)))"
proof -
  have "int (length (filter (\<lambda>i. it_status i = ACCEPTED) xs)) + int (length (filter (\<lambda>i. it_status i = RESOLUTION_RETRY) xs))
      + int (length (filter (\<lambda>i. it_status i = RESOLUTION_BLOCKED) xs)) + int (length (filter (\<lambda>i. it_status i = BUILD_REQUIRED) xs))
      + int (length (filter (\<lambda>i. it_status i = READY_FOR_RELEASE) xs))
      + int (length (filter (\<lambda>i. it_status i = APPROVED_FOR_RELEASE) xs)) = int (length xs)" for xs
  proof (induction xs)
    case (Cons x xs)
    then show ?case by (cases "it_status x") simp_all
  qed simp
  from this [of "st_pending s"] show ?thesis by (simp add: gauge_total_def pending_gauge_def PENDING_STATUSES_def)
qed

end
