(* ===== verification/Bootstrap.thy ===== *)
theory Bootstrap
  imports KServe Scenario
begin

text \<open>
  The operator's bootstrap of the stable lane: \<open>scripts/bootstrap_v2.py\<close>. It talks to the cluster by
  \<open>kubectl\<close> and enters an identity into the release state only when the live backend serves it. Running
  \<open>kubectl\<close>, temporary files, the JSON parser and the typed reading of the state are parameters.
\<close>

section \<open>kubectl\<close>

text \<open>
  \<open>kt_run\<close> gives return code, stdout and stderr; \<open>kt_with_file\<close> writes a text to a temporary file and
  runs the rest on its path; \<open>kt_decode\<close> reads the text of the state.
\<close>

record 'w kubectl =
  kt_lib :: pylib
  kt_loads :: "string \<Rightarrow> json option"
  kt_decode :: "string \<Rightarrow> release_state res"
  kt_run :: "string list \<Rightarrow> ('w, int \<times> string \<times> string) prog"
  kt_with_file :: "string \<Rightarrow> (string \<Rightarrow> ('w, string) prog) \<Rightarrow> ('w, string) prog"

definition KUBECTL :: "string list" where
  "KUBECTL = [''kubectl'', ''--context'', ''ml-template-dev-sg'', ''--request-timeout=15s'', ''-n'', ''production'']"

definition kubectl_conflict :: "string \<Rightarrow> bool" where
  "kubectl_conflict err \<longleftrightarrow> contains ''Conflict'' err \<or> contains ''test failed'' err \<or> contains ''test operation'' err"

definition kubectl_command :: "'w kubectl \<Rightarrow> string list \<Rightarrow> ('w, string) prog" where
  "kubectl_command K args =
     bindP (kt_run K (KUBECTL @ args)) (\<lambda>(returned, out, err).
       if returned = 0 then retP out
       else if kubectl_conflict err then raiseP Conflict
       else raiseP (RuntimeError (''kubectl operation failed: '' @ take 1000 err)))"

definition kubectl_json :: "'w kubectl \<Rightarrow> string list \<Rightarrow> ('w, json) prog" where
  "kubectl_json K args =
     bindP (kubectl_command K args) (\<lambda>out.
       liftP (case kt_loads K out of Some v \<Rightarrow> Inr v | None \<Rightarrow> Inl (ValueError ''JSONDecodeError'')))"

definition string_value :: "json \<Rightarrow> string res" where
  "string_value j = (if is_str j then Inr (str_of j) else Inl (TypeError ''the JSON object must be str''))"

definition kubectl_read :: "'w kubectl \<Rightarrow> ('w, string \<times> release_state) prog" where
  "kubectl_read K =
     bindP (kubectl_json K [''get'', ''configmap'', STATE_NAME, ''-o'', ''json'']) (\<lambda>obj.
     bindP (liftP (bindR (jdeep [''metadata'', ''resourceVersion''] obj) string_value)) (\<lambda>v.
     bindP (liftP (bindR (jdeep [''data'', ''state.json''] obj) string_value)) (\<lambda>text_value.
     bindP (liftP (kt_decode K text_value)) (\<lambda>s. retP (v, s)))))"

text \<open>A JSON Patch that first tests the version: the other data of the object stay.\<close>

definition state_patch :: "pylib \<Rightarrow> string \<Rightarrow> release_state \<Rightarrow> json res" where
  "state_patch L revision s =
     bindR (requireR (all_finite (state_json s)) (ValueError ''Out of range float values are not JSON compliant'')) (\<lambda>_.
       Inr (JArr
         [JObj [(''op'', JStr ''test''), (''path'', JStr ''/metadata/resourceVersion''), (''value'', JStr revision)],
          JObj [(''op'', JStr ''replace''), (''path'', JStr ''/data/state.json''),
                (''value'', JStr (plain_dumps L (state_json s)))]]))"

definition kubectl_write :: "'w kubectl \<Rightarrow> string \<Rightarrow> release_state \<Rightarrow> ('w, unit) prog" where
  "kubectl_write K revision s =
     bindP (liftP (state_patch (kt_lib K) revision s)) (\<lambda>patch.
     bindP (kt_with_file K (plain_dumps (kt_lib K) patch) (\<lambda>path.
              kubectl_command K [''patch'', ''configmap'', STATE_NAME, ''--type=json'', ''--patch-file='' @ path])) (\<lambda>_.
       retP ()))"

definition kubectl_backend :: "'w kubectl \<Rightarrow> 'w release_backend" where
  "kubectl_backend K = \<lparr>be_read = kubectl_read K, be_write = kubectl_write K\<rparr>"

definition kubectl_get :: "'w kubectl \<Rightarrow> string \<Rightarrow> string \<Rightarrow> ('w, json option) prog" where
  "kubectl_get K kind name =
     (if kind \<notin> {''inferenceservices'', ''servingruntimes''}
         \<or> \<not> (if kind = ''inferenceservices'' then name \<in> {''credit-risk-stable-v2'', ''credit-risk-canary-v2''}
              else starts_with ''runtime-'' name)
      then raiseP (ValueError ''Resource outside v2'')
      else bindP (kubectl_command K [''get'', kind, name, ''--ignore-not-found'', ''-o'', ''json'']) (\<lambda>raw.
           if strip raw = [] then retP None
           else liftP (case kt_loads K raw of Some v \<Rightarrow> Inr (Some v) | None \<Rightarrow> Inl (ValueError ''JSONDecodeError''))))"

definition kubectl_deployment :: "'w kubectl \<Rightarrow> string \<Rightarrow> ('w, json option) prog" where
  "kubectl_deployment K lane =
     bindP (liftP (LANES lane)) (\<lambda>name.
     bindP (kubectl_json K [''get'', ''deployment'', name @ ''-predictor'', ''-o'', ''json'']) (\<lambda>d. retP (Some d)))"

definition PROBE_CODE :: string where
  "PROBE_CODE = ''import json,sys;from urllib.request import urlopen; r=urlopen(sys.argv[1],timeout=5); b=r.read(1048577); assert len(b)<=1048576; print(json.dumps(json.loads(b) if b else {}))''"

definition in_container :: "string list" where
  "in_container = [''exec'', ''deployment/credit-risk-stable-v2-predictor'', ''-c'', ''kserve-container'', ''--'', ''python'', ''-c'']"

definition kubectl_probe :: "'w kubectl \<Rightarrow> string \<Rightarrow> ('w, json) prog" where
  "kubectl_probe K url = kubectl_json K (in_container @ [PROBE_CODE, url])"

text \<open>\<open>script\<close> is the text that runs the input example of the model through the live backend.\<close>

definition kubectl_inference :: "'w kubectl \<Rightarrow> string \<Rightarrow> ('w, json) prog" where
  "kubectl_inference K script = kubectl_json K (in_container @ [script])"

text \<open>\<open>KServeEffects(api, None, None, probe=api.probe)\<close>: only its readiness is used.\<close>

definition kubectl_kserve :: "'w kubectl \<Rightarrow> env \<Rightarrow> 'w kserve" where
  "kubectl_kserve K e =
     \<lparr>ks_get = kubectl_get K, ks_create = (\<lambda>_ _. raiseP AttributeError), ks_replace = (\<lambda>_ _. raiseP AttributeError),
      ks_deployment = kubectl_deployment K, ks_probe = kubectl_probe K, ks_env = e\<rparr>"

section \<open>The bootstrap\<close>

definition idle_state :: "release_state \<Rightarrow> bool" where
  "idle_state s \<longleftrightarrow> st_active s = None \<and> st_pending s = [] \<and> st_lease s = None \<and> rt_weight (st_route s) = 0"

definition expected_prediction :: "json \<Rightarrow> bool res" where
  "expected_prediction prediction =
     bindR (get_eq ''model_name'' (JStr ''credit-risk-stable-v2'') prediction) (\<lambda>named.
       if \<not> named then Inr False
       else bindR (jget_or ''outputs'' (JArr [JObj []]) prediction) (\<lambda>os. bindR (jnth 0 os) (\<lambda>out.
            bindR (jget_or ''data'' JNull out) (\<lambda>d. Inr (py_eq d (JArr [JInt 0, JInt 0, JInt 0]))))))"

definition bootstrap_guards :: "serving_pair \<Rightarrow> string \<Rightarrow> release_state \<Rightarrow> unit res" where
  "bootstrap_guards p fp s =
     bindR (requireR (idle_state s) (ValueError ''Bootstrap requires idle state'')) (\<lambda>_.
     bindR (requireR (st_stable s = None \<or> st_stable s = Some p \<and> st_stable_fingerprint s = Some fp)
              (ValueError ''Conflicting stable identity'')) (\<lambda>_.
     bindR (numeric_version (JStr (sp_model_version p))) (\<lambda>v.
       requireR (\<not> st_highest_accepted s > v) (ValueError ''Bootstrap would regress version''))))"

definition enter_stable :: "serving_pair \<Rightarrow> string \<Rightarrow> string \<Rightarrow> rat \<Rightarrow> int \<Rightarrow> release_state \<Rightarrow> release_state" where
  "enter_stable p fp operator now v s =
     audit ''operator_bootstrap'' now
       [(''operator'', JStr operator), (''pair'', pair_json p), (''fingerprint'', JStr fp)]
       (s\<lparr>st_stable := Some p, st_stable_fingerprint := Some fp, st_highest_accepted := max (st_highest_accepted s) v\<rparr>)"

definition bootstrap_mutator ::
  "(string \<Rightarrow> serving_pair option \<Rightarrow> string option \<Rightarrow> ('w, bool) prog) \<Rightarrow> ('w, json) prog \<Rightarrow> ('w, rat) prog
    \<Rightarrow> string \<Rightarrow> serving_pair \<Rightarrow> string \<Rightarrow> ('w, string) mutator" where
  "bootstrap_mutator is_ready infer clock operator p fp s =
     bindP (liftP (bootstrap_guards p fp s)) (\<lambda>_.
     bindP (is_ready ''stable'' (Some p) (Some fp)) (\<lambda>serves.
     if \<not> serves then raiseP (ValueError ''Stable backend not verified'')
     else bindP infer (\<lambda>prediction. bindP (liftP (expected_prediction prediction)) (\<lambda>ok.
          if \<not> ok then raiseP (ValueError ''Stable native inference mismatch'')
          else if st_stable s \<noteq> None then retP (''already_bootstrapped'', s)
          else bindP (liftP (numeric_version (JStr (sp_model_version p)))) (\<lambda>v.
               bindP clock (\<lambda>now. retP (''bootstrapped'', enter_stable p fp operator now v s)))))))"

definition valid_operator :: "string \<Rightarrow> bool" where
  "valid_operator operator \<longleftrightarrow> operator \<noteq> [] \<and> length operator \<le> 128 \<and> (\<forall>c \<in> set operator. 32 \<le> code c)"

definition bootstrap_release ::
  "pylib \<Rightarrow> 'w release_backend \<Rightarrow> (string \<Rightarrow> serving_pair option \<Rightarrow> string option \<Rightarrow> ('w, bool) prog)
    \<Rightarrow> ('w, json) prog \<Rightarrow> ('w, rat) prog \<Rightarrow> string \<Rightarrow> json \<Rightarrow> string \<Rightarrow> ('w, string) prog" where
  "bootstrap_release L be is_ready infer clock operator pair_value fp =
     bindP (liftP (pair_of_json pair_value)) (\<lambda>p.
     bindP (liftP (runtime_name fp)) (\<lambda>_.
     if \<not> valid_operator operator then raiseP (ValueError ''Invalid operator'')
     else update L be (bootstrap_mutator is_ready infer clock operator p fp)))"

text \<open>\<open>main\<close> behind its arguments: the state is read again for the report.\<close>

definition bootstrap_main ::
  "'w kubectl \<Rightarrow> env \<Rightarrow> string \<Rightarrow> ('w, rat) prog \<Rightarrow> string \<Rightarrow> json \<Rightarrow> string \<Rightarrow> ('w, json) prog" where
  "bootstrap_main K e script clock operator pair_value fp =
     bindP (bootstrap_release (kt_lib K) (kubectl_backend K) (kserve_ready (kubectl_kserve K e))
              (kubectl_inference K script) clock operator pair_value fp) (\<lambda>outcome.
     bindP (read (kt_lib K) (kubectl_backend K)) (\<lambda>s.
       retP (JObj [(''result'', JStr outcome), (''state'', state_json s)])))"

section \<open>What a bootstrap does to the state\<close>


lemma enter_stable_simps [simp]:
  "st_stable (enter_stable p fp operator now v s) = Some p"
  "st_stable_fingerprint (enter_stable p fp operator now v s) = Some fp"
  "st_active (enter_stable p fp operator now v s) = st_active s" "st_pending (enter_stable p fp operator now v s) = st_pending s"
  "st_route (enter_stable p fp operator now v s) = st_route s" "st_lease (enter_stable p fp operator now v s) = st_lease s"
  "st_identities (enter_stable p fp operator now v s) = st_identities s"
  "st_highest_accepted (enter_stable p fp operator now v s) = max (st_highest_accepted s) v"
  by (simp_all add: enter_stable_def)



section \<open>A first bootstrap\<close>





end
