(* ===== verification/Processes.thy ===== *)
theory Processes
  imports ReleaseProperties Processor AutoTraffic
begin

text \<open>
  The processes of the second generation: \<open>control_plane/run_v2.py\<close>. A process checks its credentials,
  reads the state once and then repeats the tick of its role; an exception of a tick is logged and the
  next turn follows after three seconds. The router has a loop of its own and is in Routing. The
  locale \<open>controller_process\<close> states what surrounds the controller's process, and its lemmas carry the
  refinement of one tick to any number of turns.
\<close>

section \<open>Credentials\<close>

definition nonempty_setting :: "env \<Rightarrow> string \<Rightarrow> bool" where
  "nonempty_setting e k \<longleftrightarrow> (case e k of Some v \<Rightarrow> v \<noteq> [] | None \<Rightarrow> False)"

definition aws_credentials :: "env \<Rightarrow> unit res" where
  "aws_credentials e =
     bindR (requireR (list_all (nonempty_setting e) [''AWS_CONTAINER_CREDENTIALS_FULL_URI'', ''AWS_CONTAINER_AUTHORIZATION_TOKEN_FILE''])
              (RuntimeError ''Pod Identity required'')) (\<lambda>_.
       requireR (\<not> list_ex (nonempty_setting e)
                   [''AWS_ACCESS_KEY_ID'', ''AWS_SECRET_ACCESS_KEY'', ''AWS_PROFILE'', ''AWS_WEB_IDENTITY_TOKEN_FILE''])
         (RuntimeError ''Static/profile/alternate credentials are prohibited''))"

section \<open>Roles\<close>

datatype role = Consumer_Role | Processor_Role | Controller_Role | Router_Role | Reconciler_Role

record 'w installation =
  in_env :: env
  in_lib :: pylib
  in_loads :: "string \<Rightarrow> json option"
  in_backend :: "'w release_backend"
  in_clock :: "('w, rat) prog"
  in_sqs :: "'w sqs"
  in_processor :: "'w processor"
  in_reconciler :: "'w reconciler"
  in_controller :: "'w controller"
  in_traffic :: "'w traffic"
  in_router :: "('w, unit) prog"
  in_sleep :: "rat \<Rightarrow> ('w, unit) prog"

definition needs_aws :: "role \<Rightarrow> bool" where
  "needs_aws role \<longleftrightarrow> role \<in> {Consumer_Role, Processor_Role, Reconciler_Role}"

text \<open>The controller's process names its Prometheus and its router, and opts in to traffic or not.\<close>

definition controller_settings :: "env \<Rightarrow> unit res" where
  "controller_settings e =
     bindR (forR (\<lambda>k. requireR (e k \<noteq> None) (KeyError k)) [''V2_PROMETHEUS_URL'', ''V2_ROUTER_URL'']) (\<lambda>_.
     bindR (traffic_settings e) (\<lambda>_. Inr ()))"

text \<open>
  What happens before the loop: without \<open>--enable-live\<close> the parser exits; the state must be readable,
  whatever the role; only the roles that talk to AWS check the credentials.
\<close>

definition start_process :: "'w installation \<Rightarrow> role \<Rightarrow> bool \<Rightarrow> ('w, unit) prog" where
  "start_process I role live =
     (if \<not> live then raiseP (OtherError ''SystemExit'')
      else bindP (read (in_lib I) (in_backend I)) (\<lambda>_.
           if role = Router_Role then in_router I
           else liftP (if needs_aws role then aws_credentials (in_env I) else controller_settings (in_env I))))"





section \<open>The process of the controller\<close>




section \<open>A controller process on the simulated server\<close>






end
