(* ===== verification/SourceTree.thy ===== *)
theory SourceTree
  imports Json
begin

text \<open>
  The source tree a Dev runtime is built from (\<open>snapshot\<close> in \<open>scripts/dev_runtime.py\<close>): the
  working tree as the build sees it, the walk that collects its Python sources and refuses links,
  and the order of paths. \<open>source_file\<close> says what a visible source is without walking;
  \<open>walk_source_exact\<close> shows that the walk collects these files and no other.
\<close>

section \<open>The working tree\<close>

text \<open>
  A link (symbolic, or a junction) shows what it leads to, \<open>None\<close> when it is broken. Entries
  stand in the order in which the directory lists them. A directory that cannot be listed is
  skipped by \<open>os.walk\<close>; it counts as empty.
\<close>

datatype node =
    SourceFile string
  | SourceDir "(string \<times> node) list"
  | Linked "node option"

type_synonym entries = "(string \<times> node) list"

definition linked :: "node \<Rightarrow> bool" where
  "linked n = (case n of Linked _ \<Rightarrow> True | _ \<Rightarrow> False)"

fun resolved :: "node \<Rightarrow> node option" where
  "resolved (Linked None) = None"
| "resolved (Linked (Some n)) = resolved n"
| "resolved n = Some n"

text \<open>The node at a path below a directory, following links on the way but not at the end.\<close>

fun node_at :: "string list \<Rightarrow> entries \<Rightarrow> node option" where
  "node_at [] es = Some (SourceDir es)"
| "node_at [name] es = map_of es name"
| "node_at (name # rest) es =
     (case map_of es name of None \<Rightarrow> None
      | Some n \<Rightarrow> (case resolved n of Some (SourceDir ds) \<Rightarrow> node_at rest ds | _ \<Rightarrow> None))"

section \<open>Paths\<close>

text \<open>Paths compare by their parts, as \<open>sorted\<close> orders \<open>PosixPath\<close> objects.\<close>

datatype source_path = SourcePath (parts: "string list")

instantiation source_path :: linorder
begin

definition less_eq_source_path :: "source_path \<Rightarrow> source_path \<Rightarrow> bool" where
  "less_eq_source_path p q \<longleftrightarrow> parts p \<le> parts q"

definition less_source_path :: "source_path \<Rightarrow> source_path \<Rightarrow> bool" where
  "less_source_path p q \<longleftrightarrow> parts p < parts q"

instance
  by standard (auto simp: less_eq_source_path_def less_source_path_def intro: source_path.expand)

end

definition as_posix :: "source_path \<Rightarrow> string" where
  "as_posix p = join ''/'' (parts p)"

section \<open>Walking the tree\<close>

definition hidden :: "string \<Rightarrow> bool" where
  "hidden name \<longleftrightarrow> starts_with ''.'' name"

text \<open>
  \<open>path.suffix == ".py" and not name.startswith(".")\<close>: a name that does not start with a dot has
  this suffix exactly when it ends with it.
\<close>

definition python_source :: "string \<Rightarrow> bool" where
  "python_source name \<longleftrightarrow> ends_with ''.py'' name \<and> \<not> hidden name"

definition pruned :: "string \<Rightarrow> bool" where
  "pruned name \<longleftrightarrow> hidden name \<or> name = ''__pycache__''"

definition link_error :: exn where
  "link_error = ValueError ''Source symlinks/junctions are not build inputs''"

lemma mapR_cong [fundef_cong]:
  "xs = ys \<Longrightarrow> (\<And>x. x \<in> set ys \<Longrightarrow> f x = g x) \<Longrightarrow> mapR f xs = mapR g ys"
  by (induction xs arbitrary: ys) auto

text \<open>
  One directory of \<open>os.walk\<close>: its links are refused, its Python sources collected, and the walk
  goes on into the directories that are not pruned. \<open>base\<close> is the path of the directory.
\<close>

function walk_source :: "string list \<Rightarrow> entries \<Rightarrow> (source_path \<times> string) list res" where
  "walk_source base es =
     bindR (requireR (list_all (\<lambda>(_, n). \<not> linked n) es) link_error) (\<lambda>_.
     bindR (mapR (\<lambda>e. case snd e of
              SourceDir ds \<Rightarrow> if pruned (fst e) then Inr [] else walk_source (base @ [fst e]) ds
            | _ \<Rightarrow> Inr []) es) (\<lambda>below.
       Inr (concat (map (\<lambda>e. case snd e of
              SourceFile c \<Rightarrow> if python_source (fst e) then [(SourcePath (base @ [fst e]), c)] else []
            | _ \<Rightarrow> []) es) @ concat below)))"
  by pat_completeness auto
termination
proof (relation "measure (\<lambda>(_, es). size_list (\<lambda>e. size (snd e)) es)")
  fix base es and u :: unit and e :: "string \<times> node" and ds
  assume e: "e \<in> set es" and ds: "snd e = SourceDir ds"
  have "size_list (\<lambda>e. size (snd e)) ds < size (snd e)"
    unfolding ds by (induction ds) (auto simp: split_beta)
  also have "\<dots> \<le> size_list (\<lambda>e. size (snd e)) es"
    using e by (simp add: size_list_estimation')
  finally show "((base @ [fst e], ds), (base, es)) \<in> measure (\<lambda>(_, es). size_list (\<lambda>e. size (snd e)) es)"
    by simp
qed simp

declare walk_source.simps [simp del]

section \<open>What a visible source is\<close>

inductive source_file :: "entries \<Rightarrow> string list \<Rightarrow> string \<Rightarrow> bool" where
  here: "(name, SourceFile c) \<in> set es \<Longrightarrow> python_source name \<Longrightarrow> source_file es [name] c"
| below: "(name, SourceDir ds) \<in> set es \<Longrightarrow> \<not> pruned name \<Longrightarrow> source_file ds p c \<Longrightarrow>
    source_file es (name # p) c"

inductive reaches_link :: "entries \<Rightarrow> bool" where
  linked_here: "(name, Linked n) \<in> set es \<Longrightarrow> reaches_link es"
| linked_below: "(name, SourceDir ds) \<in> set es \<Longrightarrow> \<not> pruned name \<Longrightarrow> reaches_link ds \<Longrightarrow> reaches_link es"

inductive_simps source_file_iff: "source_file es p c"
inductive_simps reaches_link_iff: "reaches_link es"
inductive_cases source_file_in: "source_file es (name # p) c"


section \<open>The walk collects exactly the visible sources\<close>

abbreviation below_entry :: "string list \<Rightarrow> string \<times> node \<Rightarrow> (source_path \<times> string) list res" where
  "below_entry base e \<equiv> (case snd e of
     SourceDir ds \<Rightarrow> if pruned (fst e) then Inr [] else walk_source (base @ [fst e]) ds | _ \<Rightarrow> Inr [])"

abbreviation entry_source :: "string list \<Rightarrow> string \<times> node \<Rightarrow> (source_path \<times> string) list" where
  "entry_source base e \<equiv> (case snd e of
     SourceFile c \<Rightarrow> if python_source (fst e) then [(SourcePath (base @ [fst e]), c)] else [] | _ \<Rightarrow> [])"

lemma mapR_Inl: "mapR f xs = Inl e \<Longrightarrow> \<exists>x \<in> set xs. f x = Inl e"
proof (induction xs)
  case (Cons x xs)
  then show ?case by (cases "f x"; cases "mapR f xs") auto
qed simp

lemma mapR_defined: "mapR f xs = Inr ys \<Longrightarrow> x \<in> set xs \<Longrightarrow> \<exists>y \<in> set ys. f x = Inr y"
  by (induction xs arbitrary: ys) (auto simp: bindR_Inr_iff)

lemma walk_source_Inr:
  "walk_source base es = Inr ps \<longleftrightarrow>
     (\<forall>e \<in> set es. \<not> linked (snd e)) \<and>
     (\<exists>pss. mapR (below_entry base) es = Inr pss \<and> ps = concat (map (entry_source base) es) @ concat pss)"
  by (subst walk_source.simps) (auto simp: bindR_Inr_iff list_all_iff split_beta)

lemma walk_source_descends:
  assumes "walk_source base es = Inr ps" and "(name, SourceDir ds) \<in> set es" and "\<not> pruned name"
  shows "\<exists>rs. walk_source (base @ [name]) ds = Inr rs \<and> set rs \<subseteq> set ps"
  using assms mapR_defined by (fastforce simp: walk_source_Inr)

lemma walk_source_members:
  assumes "walk_source base es = Inr ps"
  shows "(q, c) \<in> set ps \<longleftrightarrow>
      (\<exists>name. q = SourcePath (base @ [name]) \<and> (name, SourceFile c) \<in> set es \<and> python_source name)
    \<or> (\<exists>name ds rs. (name, SourceDir ds) \<in> set es \<and> \<not> pruned name
          \<and> walk_source (base @ [name]) ds = Inr rs \<and> (q, c) \<in> set rs)" (is "_ \<longleftrightarrow> ?F \<or> ?D")
proof -
  from assms obtain pss where pss: "mapR (below_entry base) es = Inr pss"
    and ps: "ps = concat (map (entry_source base) es) @ concat pss" by (auto simp: walk_source_Inr)
  have files: "(q, c) \<in> set (concat (map (entry_source base) es)) \<longleftrightarrow> ?F"
    by (force split: node.splits if_splits)
  have dirs: ?D if "(q, c) \<in> set (concat pss)"
  proof -
    from that obtain rs where "rs \<in> set pss" and q: "(q, c) \<in> set rs" by auto
    with mapR_set [OF pss] obtain e where "e \<in> set es" "below_entry base e = Inr rs" by blast
    with q show ?thesis by (cases e) (fastforce split: node.splits if_splits)
  qed
  have "?D \<Longrightarrow> (q, c) \<in> set ps"
    using walk_source_descends [OF assms] by fastforce
  with files dirs show ?thesis unfolding ps by auto
qed

lemma walk_source_exact:
  "walk_source base es = Inr ps \<Longrightarrow>
    (SourcePath q, c) \<in> set ps \<longleftrightarrow> (\<exists>p. q = base @ p \<and> source_file es p c)"
proof (induction base es arbitrary: ps q rule: walk_source.induct)
  case (1 base es)
  have below: "(SourcePath q, c) \<in> set rs \<longleftrightarrow> (\<exists>p. q = base @ name # p \<and> source_file ds p c)"
    if "(name, SourceDir ds) \<in> set es" "\<not> pruned name" "walk_source (base @ [name]) ds = Inr rs" for name ds rs
    using "1.IH" [of "(name, SourceDir ds)" ds rs q] that "1.prems"
    by (auto simp: walk_source_Inr list_all_iff split_beta)
  have dirs: "(\<exists>rs. walk_source (base @ [name]) ds = Inr rs \<and> (SourcePath q, c) \<in> set rs)
      \<longleftrightarrow> (\<exists>p. q = base @ name # p \<and> source_file ds p c)"
    if "(name, SourceDir ds) \<in> set es" "\<not> pruned name" for name ds
    using below [OF that] walk_source_descends [OF "1.prems" that] by metis
  have all_dirs: "(\<exists>name ds rs. (name, SourceDir ds) \<in> set es \<and> \<not> pruned name
          \<and> walk_source (base @ [name]) ds = Inr rs \<and> (SourcePath q, c) \<in> set rs)
    \<longleftrightarrow> (\<exists>name ds. (name, SourceDir ds) \<in> set es \<and> \<not> pruned name
          \<and> (\<exists>p. q = base @ name # p \<and> source_file ds p c))"
    by (intro ex_cong1) (use dirs in blast)
  have "(SourcePath q, c) \<in> set ps \<longleftrightarrow>
      (\<exists>name. q = base @ [name] \<and> (name, SourceFile c) \<in> set es \<and> python_source name)
    \<or> (\<exists>name ds. (name, SourceDir ds) \<in> set es \<and> \<not> pruned name
          \<and> (\<exists>p. q = base @ name # p \<and> source_file ds p c))"
    unfolding walk_source_members [OF "1.prems"] all_dirs source_path.inject by (rule refl)
  then show ?case unfolding source_file_iff [of es] by auto
qed

lemma walk_source_Inl: "walk_source base es = Inl e \<Longrightarrow> e = link_error \<and> reaches_link es"
proof (induction base es rule: walk_source.induct)
  case (1 base es)
  consider x where "x \<in> set es" "linked (snd x)" "e = link_error"
    | x where "x \<in> set es" "below_entry base x = Inl e"
    using "1.prems" mapR_Inl [of "below_entry base" es e]
    by (subst (asm) walk_source.simps) (auto simp: requireR_def list_all_iff split_beta bindR_def split: sum.splits if_splits)
  then show ?case
  proof cases
    case (1 x)
    from 1(2) obtain n where "x = (fst x, Linked n)" by (cases "snd x") (auto simp: linked_def prod_eq_iff)
    with 1 show ?thesis using linked_here [of "fst x" n es] by simp
  next
    case (2 x)
    then obtain ds where ds: "snd x = SourceDir ds" "\<not> pruned (fst x)" "walk_source (base @ [fst x]) ds = Inl e"
      by (auto split: node.splits if_splits)
    have "(fst x, SourceDir ds) \<in> set es" using 2(1) ds(1) by (metis prod.collapse)
    moreover have "e = link_error \<and> reaches_link ds" using "1.IH" [OF 2(1) ds] .
    ultimately show ?thesis using ds(2) linked_below by blast
  qed
qed

lemma walk_source_no_link: "reaches_link es \<Longrightarrow> walk_source base es \<noteq> Inr ps"
proof (induction es arbitrary: base ps rule: reaches_link.induct)
  case (linked_here name n es)
  then show ?case by (force simp: walk_source_Inr linked_def)
next
  case (linked_below name ds es)
  then show ?case using walk_source_descends by blast
qed

text \<open>Every link outside a pruned directory is refused, and nothing else.\<close>

lemma walk_source_raises: "walk_source base es = Inl e \<longleftrightarrow> reaches_link es \<and> e = link_error"
  using walk_source_Inl walk_source_no_link by (cases "walk_source base es") auto


section \<open>Every source is collected once\<close>

text \<open>The names in a directory are pairwise different and hold no slash.\<close>

fun well_named :: "node \<Rightarrow> bool" where
  "well_named (SourceDir es) \<longleftrightarrow>
     distinct (map fst es) \<and> list_all (\<lambda>e. CHR ''/'' \<notin> set (fst e) \<and> well_named (snd e)) es"
| "well_named _ \<longleftrightarrow> True"

lemma source_file_nonempty: "\<not> source_file es [] c"
  by (auto elim: source_file.cases)

lemma distinct_concat_keys:
  assumes "list_all2 (\<lambda>x ys. distinct ys \<and> (\<forall>y \<in> set ys. key y = name x)) xs yss" and "distinct (map name xs)"
  shows "distinct (concat yss)"
  using assms
proof (induction rule: list_all2_induct)
  case (Cons x xs ys yss)
  have "\<forall>y \<in> set (concat yss). key y \<in> name ` set xs"
    using Cons.hyps(2) by (auto simp: list_all2_conv_all_nth in_set_conv_nth) (metis image_eqI nth_mem)
  with Cons show ?case by fastforce
qed simp

lemma mapR_all2: "mapR f xs = Inr ys \<Longrightarrow> list_all2 (\<lambda>x y. f x = Inr y) xs ys"
  by (induction xs arbitrary: ys) (auto simp: bindR_Inr_iff)

lemma walk_source_distinct:
  "walk_source base es = Inr ps \<Longrightarrow> well_named (SourceDir es) \<Longrightarrow> distinct (map fst ps)"
proof (induction base es arbitrary: ps rule: walk_source.induct)
  case (1 base es)
  let ?key = "\<lambda>q. parts q ! length base"
  from "1.prems"(1) obtain pss where pss: "mapR (below_entry base) es = Inr pss"
    and ps: "ps = concat (map (entry_source base) es) @ concat pss" by (auto simp: walk_source_Inr)
  have names: "distinct (map fst es)" using "1.prems"(2) by simp
  have files: "distinct (concat (map (map fst \<circ> entry_source base) es))"
    by (rule distinct_concat_keys [where key = ?key and name = fst, OF _ names])
       (auto simp: list_all2_conv_all_nth split: node.splits)
  have sub: "distinct (map fst rs) \<and> (\<forall>q \<in> fst ` set rs. ?key q = fst e \<and> Suc (length base) < length (parts q))"
    if e: "e \<in> set es" and rs: "below_entry base e = Inr rs" for e rs
  proof (cases "snd e")
    case (SourceDir ds)
    show ?thesis
    proof (cases "pruned (fst e)")
      case False
      with SourceDir rs have walk: "walk_source (base @ [fst e]) ds = Inr rs" by simp
      have "well_named (snd e)" using "1.prems"(2) e by (simp add: list_all_iff)
      then have "well_named (SourceDir ds)" unfolding SourceDir .
      with "1.IH" [OF e SourceDir False walk] have "distinct (map fst rs)" by blast
      moreover have "?key q = fst e \<and> Suc (length base) < length (parts q)" if q: "(q, c) \<in> set rs" for q c
      proof -
        obtain p where p: "parts q = base @ fst e # p" "source_file ds p c"
          using walk_source_exact [OF walk, of "parts q" c] q by auto
        with source_file_nonempty have "p \<noteq> []" by blast
        with p show ?thesis by simp
      qed
      ultimately show ?thesis by auto
    qed (use SourceDir rs in simp)
  qed (use rs in simp_all)
  have "list_all2 (\<lambda>e qs. distinct qs \<and> (\<forall>q \<in> set qs. ?key q = fst e)) es (map (map fst) pss)"
    unfolding list.rel_map
    by (rule list.rel_mono_strong [OF mapR_all2 [OF pss]]) (use sub in \<open>simp add: image_iff Ball_def\<close>)
  then have below: "distinct (concat (map (map fst) pss))" by (rule distinct_concat_keys [OF _ names])
  have deep: "Suc (length base) < length (parts q)" if q: "q \<in> fst ` set (concat pss)" for q
  proof -
    from q obtain rs where "rs \<in> set pss" "q \<in> fst ` set rs" by auto
    with mapR_set [OF pss] sub show ?thesis by blast
  qed
  have flat: "length (parts q) = Suc (length base)"
    if q: "q \<in> fst ` set (concat (map (entry_source base) es))" for q
  proof -
    from q obtain e where "q \<in> fst ` set (entry_source base e)" by auto
    then show ?thesis by (cases "snd e") (auto split: if_splits)
  qed
  have "fst ` set (concat (map (entry_source base) es)) \<inter> fst ` set (concat pss) = {}"
  proof (rule equals0I, elim IntE)
    fix q
    assume "q \<in> fst ` set (concat (map (entry_source base) es))" and "q \<in> fst ` set (concat pss)"
    from flat [OF this(1)] deep [OF this(2)] show False by linarith
  qed
  then show ?case
    using files below unfolding ps map_append distinct_append map_concat [of fst, symmetric] set_map
    by (simp only: map_concat map_map simp_thms)
qed


lemma well_named_entry:
  assumes "well_named (SourceDir es)" and "(name, n) \<in> set es"
  shows "map_of es name = Some n" and "CHR ''/'' \<notin> set name" and "well_named n"
  using assms by (auto simp: list_all_iff)

lemma source_file_python: "source_file es p c \<Longrightarrow> python_source (last p)"
  by (induction rule: source_file.induct) (auto simp: source_file_nonempty)

lemma source_file_plain:
  "source_file es p c \<Longrightarrow> well_named (SourceDir es) \<Longrightarrow> \<forall>name \<in> set p. CHR ''/'' \<notin> set name"
proof (induction rule: source_file.induct)
  case (here name c es)
  then show ?case using well_named_entry(2) by auto
next
  case (below name ds es p c)
  from well_named_entry(2,3) [OF below.prems below.hyps(1)] below.IH show ?case by simp
qed

text \<open>Reading a visible source by its path gives its content.\<close>

lemma node_at_below:
  "map_of es name = Some (SourceDir ds) \<Longrightarrow> p \<noteq> [] \<Longrightarrow> node_at (name # p) es = node_at p ds"
  by (cases p) simp_all

lemma node_at_source:
  "source_file es p c \<Longrightarrow> well_named (SourceDir es) \<Longrightarrow> node_at p es = Some (SourceFile c)"
proof (induction rule: source_file.induct)
  case (here name c es)
  then show ?case using well_named_entry(1) by auto
next
  case (below name ds es p c)
  note entry = well_named_entry(1,3) [OF below.prems below.hyps(1)]
  have "p \<noteq> []" using below.hyps(3) source_file_nonempty by blast
  with entry below.IH show ?case by (simp add: node_at_below)
qed

text \<open>The text of a path determines its parts.\<close>

lemma split_on_append:
  "c \<notin> set s \<Longrightarrow> split_on c (s @ c # t) = s # split_on c t" "c \<notin> set s \<Longrightarrow> split_on c s = [s]"
  by (induction s) auto

lemma split_on_join:
  "xs \<noteq> [] \<Longrightarrow> \<forall>x \<in> set xs. c \<notin> set x \<Longrightarrow> split_on c (join [c] xs) = xs"
proof (induction xs)
  case (Cons x xs)
  show ?case
  proof (cases xs)
    case Nil
    with Cons.prems show ?thesis by (simp add: join_def split_on_append)
  next
    case (Cons y ys)
    have "join [c] (x # xs) = x @ c # join [c] xs" by (simp add: join_def Cons)
    with Cons Cons.prems Cons.IH show ?thesis by (simp add: split_on_append)
  qed
qed simp

end
