(* ===== verification/DevBuild.thy ===== *)
theory DevBuild
  imports SourceTree ReleaseDeploy Serving
begin

text \<open>
  The Dev builds: \<open>scripts/dev_runtime.py\<close>, which builds a runtime image from a snapshot of the
  sources, publishes it and has the exact images scanned, and \<open>scripts/dev_artifact.py\<close>, which
  publishes the trusted model bundle. A build works in a new evidence directory. \<open>ws_files\<close>
  holds what the program itself writes there, by the path below the directory: a JSON file holds
  its value, a copied source its content as a \<open>JStr\<close>. What other programs leave there is read
  through \<open>bd_read\<close>. \<open>ws_report\<close> is the report under construction.
\<close>

section \<open>The outside world\<close>

text \<open>
  A subprocess call: arguments, timeout in seconds, environment and working directory; an
  environment or a directory that is not given is inherited.
\<close>

record subprocess_call =
  call_args :: "string list"
  call_limit :: nat
  call_env :: "(string \<times> string) list option"
  call_cwd :: "string option"

text \<open>
  \<open>bd_run\<close> runs a subprocess and returns its exit code, stdout and stderr. \<open>bd_tree\<close> is the
  working tree, which the build takes not to change while it runs; \<open>bd_repo\<close>,
  \<open>bd_directory\<close> and \<open>bd_src\<close> are the parts of the resolved paths of the repository, of the
  evidence directory and of the repository's \<open>src\<close>. \<open>bd_resolve\<close> resolves a path given as a text.
\<close>

record 'w builder =
  bd_lib :: pylib
  bd_loads :: "string \<Rightarrow> json option"
  bd_environ :: "(string \<times> string) list"
  bd_run :: "subprocess_call \<Rightarrow> ('w, int \<times> string \<times> string) prog"
  bd_resolve :: "string \<Rightarrow> string list"
  bd_repo :: "string list"
  bd_directory :: "string list"
  bd_src :: "string list"
  bd_tree :: entries
  bd_exists :: "string \<Rightarrow> ('w, bool) prog"
  bd_is_file :: "string \<Rightarrow> ('w, bool) prog"
  bd_read :: "string \<Rightarrow> ('w, string) prog"
  bd_mkdir :: "string \<Rightarrow> ('w, unit) prog"
  bd_cache :: string
  bd_uuid :: "('w, string) prog"
  bd_now :: "('w, string) prog"

definition path_text :: "string list \<Rightarrow> string" where
  "path_text p = ''/'' @ join ''/'' p"

definition evidence_path :: "'w builder \<Rightarrow> string list \<Rightarrow> string" where
  "evidence_path B p = path_text (bd_directory B @ p)"

definition needs :: "bool \<Rightarrow> string \<Rightarrow> ('w, unit) step" where
  "needs ok message = liftP (requireR ok (ValueError message))"

definition parsed :: "'w builder \<Rightarrow> string \<Rightarrow> json res" where
  "parsed B s = (case bd_loads B s of Some j \<Rightarrow> Inr j | None \<Rightarrow> Inl (ValueError ''JSONDecodeError''))"

text \<open>\<open>Path(args[0]).name\<close> of a program that is given without a directory is the program.\<close>

definition run_call :: "'w builder \<Rightarrow> bool \<Rightarrow> subprocess_call \<Rightarrow> ('w, int \<times> string \<times> string) step" where
  "run_call B check c =
     bindP (external (bd_run B c)) (\<lambda>(status, out, err).
     thenP (needs (\<not> check \<or> status = 0)
              (hd (call_args c) @ '' failed (exit '' @ int_str status @ ''); no success evidence recorded''))
       (retP (status, out, err)))"

definition output_of :: "'w builder \<Rightarrow> subprocess_call \<Rightarrow> ('w, string) step" where
  "output_of B c = bindP (run_call B True c) (\<lambda>(_, out, _). retP out)"

definition docker_call :: "nat \<Rightarrow> string list \<Rightarrow> subprocess_call" where
  "docker_call limit args = \<lparr>call_args = args, call_limit = limit, call_env = None, call_cwd = None\<rparr>"

definition git_call :: "'w builder \<Rightarrow> string list \<Rightarrow> subprocess_call" where
  "git_call B args =
     \<lparr>call_args = ''git'' # args, call_limit = 180, call_env = None, call_cwd = Some (path_text (bd_repo B))\<rparr>"

section \<open>The identity of the sources\<close>

record checkout =
  co_commit :: string
  co_dirty :: bool

definition rx_commit :: "string \<Rightarrow> bool" where
  "rx_commit = rx_chars 40 40 hex_digit"

definition source_identity :: "'w builder \<Rightarrow> string \<Rightarrow> ('w, checkout) step" where
  "source_identity B mismatch =
     bindP (output_of B (git_call B [''rev-parse'', ''--show-toplevel''])) (\<lambda>top.
     thenP (needs (bd_resolve B (strip top) = bd_repo B) mismatch)
     (bindP (output_of B (git_call B [''rev-parse'', ''HEAD''])) (\<lambda>head.
      thenP (needs (rx_commit (strip head)) ''Invalid source commit'')
      (bindP (output_of B (git_call B [''status'', ''--porcelain=v1'', ''--untracked-files=all''])) (\<lambda>changes.
        retP \<lparr>co_commit = strip head, co_dirty = strip changes \<noteq> []\<rparr>)))))"

section \<open>The snapshot\<close>

record build_source = checkout +
  bs_digest :: string
  bs_files :: "(string \<times> string) list"
  bs_created :: string

definition IDENTITY_PATH :: "string list" where
  "IDENTITY_PATH = [''src'', ''model_service'', ''build-identity.json'']"

definition root_inputs :: "source_path list" where
  "root_inputs = [SourcePath [''Dockerfile.runtime''], SourcePath [''requirements-runtime.txt'']]"

text \<open>\<open>(repo / p).exists() or linked(repo / p)\<close>.\<close>

definition present :: "entries \<Rightarrow> string list \<Rightarrow> bool" where
  "present es p = (case node_at p es of None \<Rightarrow> False | Some n \<Rightarrow> linked n \<or> resolved n \<noteq> None)"

text \<open>\<open>os.walk\<close> of something that is not a directory yields nothing.\<close>

definition source_inputs :: "entries \<Rightarrow> source_path list res" where
  "source_inputs es =
     bindR (requireR (case map_of es ''src'' of Some n \<Rightarrow> \<not> linked n | None \<Rightarrow> True) link_error) (\<lambda>_.
     bindR (case map_of es ''src'' of Some (SourceDir ds) \<Rightarrow> walk_source [''src''] ds | _ \<Rightarrow> Inr []) (\<lambda>ps.
       Inr (root_inputs @ map fst ps)))"

text \<open>
  \<open>read_bytes\<close> of an input. An input that is no link and has no link above it lies inside the
  repository, so the second half of the escape check repeats the first.
\<close>

definition read_input :: "entries \<Rightarrow> source_path \<Rightarrow> string res" where
  "read_input es p =
     (case node_at (parts p) es of
        Some (Linked _) \<Rightarrow> Inl (ValueError ''Build input escapes source root'')
      | Some (SourceFile c) \<Rightarrow> Inr c
      | Some (SourceDir _) \<Rightarrow> Inl (OtherError ''IsADirectoryError'')
      | None \<Rightarrow> Inl (OtherError ''FileNotFoundError''))"

definition context_file :: "source_path \<Rightarrow> string" where
  "context_file p = join ''/'' (''context'' # parts p)"

definition copy_input :: "'w builder \<Rightarrow> source_path \<Rightarrow> ('w, string \<times> string) step" where
  "copy_input B p =
     bindP (liftP (read_input (bd_tree B) p)) (\<lambda>content.
     thenP (write_file (context_file p) (JStr content))
       (retP (as_posix p, lib_sha256 (bd_lib B) content)))"

definition file_row :: "string \<times> string \<Rightarrow> json" where
  "file_row f = JObj [(''path'', JStr (fst f)), (''sha256'', JStr (snd f))]"

definition files_digest :: "pylib \<Rightarrow> (string \<times> string) list \<Rightarrow> string" where
  "files_digest L fs = ''sha256:'' @ lib_sha256 L (canonical_dumps L (JArr (map file_row fs)))"

definition source_json :: "build_source \<Rightarrow> (string \<times> json) list" where
  "source_json s =
     [(''schema_version'', JInt 1), (''build_kind'', JStr ''p0-dev-runtime''), (''production_eligible'', JBool False),
      (''source_commit'', JStr (co_commit s)), (''source_dirty'', JBool (co_dirty s)),
      (''source_digest'', JStr (bs_digest s)), (''source_files'', JArr (map file_row (bs_files s))),
      (''created_at'', JStr (bs_created s))]"

definition is_relative_to :: "string list \<Rightarrow> string list \<Rightarrow> bool" where
  "is_relative_to p q \<longleftrightarrow> take (length q) p = q"

definition snapshot :: "'w builder \<Rightarrow> checkout \<Rightarrow> ('w, build_source) step" where
  "snapshot B co =
     thenP (needs (\<not> present (bd_tree B) IDENTITY_PATH)
              ''Build identity must be generated, not supplied by repository source'')
     (thenP (needs (\<not> is_relative_to (bd_directory B @ [''context'']) (bd_src B)) ''Build context cannot be inside src'')
     (bindP (liftP (source_inputs (bd_tree B))) (\<lambda>inputs.
      thenP (needs (list_ex (\<lambda>p. as_posix p = ''src/model_service/main.py'') inputs) ''Missing serving application source'')
     (thenP (external (bd_mkdir B (evidence_path B [''context''])))
     (bindP (mapP (copy_input B) (sort inputs)) (\<lambda>fs.
      bindP (external (bd_now B)) (\<lambda>stamp.
      let s = \<lparr>co_commit = co_commit co, co_dirty = co_dirty co, bs_digest = files_digest (bd_lib B) fs,
               bs_files = fs, bs_created = stamp\<rparr>
      in thenP (write_file (context_file (SourcePath IDENTITY_PATH)) (JObj (source_json s))) (retP s))))))))"

section \<open>Exact images and the scan policy\<close>

text \<open>The path of an ECR repository: \<open>[a-z0-9]+(?:[._/-][a-z0-9]+)*\<close>.\<close>

fun rx_repository_path :: "bool \<Rightarrow> string \<Rightarrow> bool" where
  "rx_repository_path start [] = (\<not> start)"
| "rx_repository_path start (c # cs) =
     (if lower c \<or> digit c then rx_repository_path False cs
      else \<not> start \<and> c \<in> set ''._/-'' \<and> rx_repository_path True cs)"

text \<open>\<open>[a-z]{2}(?:-[a-z]+)+-[0-9]+\<close>.\<close>

definition rx_ecr_region :: "string \<Rightarrow> bool" where
  "rx_ecr_region s =
     (case split_on CHR ''-'' s of
        area # rest \<Rightarrow> rx_chars 2 2 lower area \<and> 2 \<le> length rest
          \<and> list_all (\<lambda>w. w \<noteq> [] \<and> list_all lower w) (butlast rest)
          \<and> last rest \<noteq> [] \<and> list_all digit (last rest)
      | [] \<Rightarrow> False)"

definition rx_registry_host :: "string \<Rightarrow> bool" where
  "rx_registry_host s =
     (case split_on CHR ''.'' s of
        [account, dkr, ecr, region, amazon, com] \<Rightarrow>
          rx_chars 12 12 digit account \<and> dkr = ''dkr'' \<and> ecr = ''ecr'' \<and> rx_ecr_region region
          \<and> amazon = ''amazonaws'' \<and> com = ''com''
      | _ \<Rightarrow> False)"

definition ECR_REPOSITORY :: "string \<Rightarrow> bool" where
  "ECR_REPOSITORY s \<longleftrightarrow>
     CHR ''/'' \<in> set s \<and> rx_registry_host (before CHR ''/'' s) \<and> rx_repository_path True (after CHR ''/'' s)"

definition rx_exact_image :: "string \<Rightarrow> bool" where
  "rx_exact_image s \<longleftrightarrow> CHR ''@'' \<in> set s \<and> ECR_REPOSITORY (before CHR ''@'' s) \<and> rx_digest (after CHR ''@'' s)"

definition exact_image :: "string \<Rightarrow> ('w, unit) step" where
  "exact_image s = needs (rx_exact_image s) ''Expected an exact ECR repository@sha256 image, without credentials or tags''"

record scan_policy =
  sp_severities :: string
  sp_ignore_unfixed :: string

definition TRIVY_SEVERITIES :: "string list" where
  "TRIVY_SEVERITIES = [''UNKNOWN'', ''LOW'', ''MEDIUM'', ''HIGH'', ''CRITICAL'']"

definition security_policy :: "string option \<Rightarrow> string option \<Rightarrow> scan_policy res" where
  "security_policy severities ignore_unfixed =
     (case severities of
        Some s \<Rightarrow>
          if s \<noteq> [] \<and> set (split_on CHR '','' s) \<subseteq> set TRIVY_SEVERITIES
          then (case ignore_unfixed of
                  Some i \<Rightarrow> if i \<in> {''true'', ''false''} then Inr \<lparr>sp_severities = s, sp_ignore_unfixed = i\<rparr>
                    else Inl (ValueError ''Explicit existing Trivy ignore-unfixed=true or false policy is required'')
                | None \<Rightarrow> Inl (ValueError ''Explicit existing Trivy ignore-unfixed=true or false policy is required''))
          else Inl (ValueError ''Explicit existing Trivy blocking severities are required'')
      | None \<Rightarrow> Inl (ValueError ''Explicit existing Trivy blocking severities are required''))"

definition policy_json :: "scan_policy \<Rightarrow> json" where
  "policy_json p =
     JObj [(''blocking_severities'', JStr (sp_severities p)), (''ignore_unfixed'', JStr (sp_ignore_unfixed p))]"


section \<open>Inspecting a published image\<close>

definition MANIFEST_TYPES :: "string list" where
  "MANIFEST_TYPES =
     [''application/vnd.oci.image.manifest.v1+json'', ''application/vnd.docker.distribution.manifest.v2+json'']"

text \<open>\<open>v in MANIFEST_TYPES\<close>, a set: a list or a dict has no hash.\<close>

definition known_media :: "json \<Rightarrow> bool res" where
  "known_media v =
     (if is_list v \<or> is_dict v then Inl (TypeError ''unhashable type'') else Inr (v \<in> set (map JStr MANIFEST_TYPES)))"

definition validate_manifest :: "json \<Rightarrow> json \<Rightarrow> unit res" where
  "validate_manifest manifest config =
     bindR (andR [Inr (is_dict manifest), get_eq ''schemaVersion'' (JInt 2) manifest,
              bindR (jget_or ''mediaType'' JNull manifest) known_media, Inr (\<not> jhas ''manifests'' manifest),
              bindR (jget_or ''config'' JNull manifest) (\<lambda>c. Inr (is_dict c))]) (\<lambda>single.
     bindR (requireR single (ValueError ''Image must be a single platform manifest; indexes are not accepted'')) (\<lambda>_.
     bindR (andR [Inr (is_dict config), get_eq ''os'' (JStr ''linux'') config,
              get_eq ''architecture'' (JStr ''amd64'') config]) (\<lambda>platform.
       requireR platform (ValueError ''Image must use linux/amd64''))))"

definition inspect_call :: "string \<Rightarrow> string list \<Rightarrow> subprocess_call" where
  "inspect_call img options = docker_call 180 ([''docker'', ''buildx'', ''imagetools'', ''inspect'', img] @ options)"

text \<open>The manifest and the configuration of an image, both checked.\<close>

definition inspected :: "'w builder \<Rightarrow> string \<Rightarrow> ('w, json \<times> json) step" where
  "inspected B img =
     bindP (bindP (output_of B (inspect_call img [''--raw''])) (\<lambda>out. liftP (parsed B out))) (\<lambda>manifest.
     bindP (bindP (output_of B (inspect_call img [''--format'', ''{{json .Image}}''])) (\<lambda>out. liftP (parsed B out))) (\<lambda>config.
     thenP (liftP (validate_manifest manifest config)) (retP (manifest, config))))"

definition inspect_remote :: "'w builder \<Rightarrow> string \<Rightarrow> ('w, json) step" where
  "inspect_remote B img =
     thenP (exact_image img) (bindP (inspected B img) (\<lambda>(_, config). retP config))"

definition bool_text :: "bool \<Rightarrow> string" where
  "bool_text b = (if b then ''true'' else ''false'')"

definition source_labels :: "build_source \<Rightarrow> (string \<times> string) list" where
  "source_labels s =
     [(''org.opencontainers.image.revision'', co_commit s), (''io.model-service.source-digest'', bs_digest s),
      (''io.model-service.source-dirty'', bool_text (co_dirty s)), (''io.model-service.production-eligible'', ''false'')]"

definition has_labels :: "(string \<times> string) list \<Rightarrow> json \<Rightarrow> bool" where
  "has_labels expected actual = list_all (\<lambda>(k, v). get_eq k (JStr v) actual = Inr True) expected"

definition or_empty :: "json \<Rightarrow> json" where
  "or_empty v = (if truthy v then v else JObj [])"

definition verify_labels :: "json \<Rightarrow> build_source \<Rightarrow> unit res" where
  "verify_labels config s =
     bindR (requireR (is_dict config) (ValueError ''Missing built image configuration'')) (\<lambda>_.
     bindR (jget_or ''Labels'' JNull config) (\<lambda>v.
       requireR (is_dict (or_empty v) \<and> has_labels (source_labels s) (or_empty v))
         (ValueError ''Built image source labels do not match the snapshot'')))"

section \<open>Scanning the exact images\<close>

definition TRIVY_VERSION :: string where
  "TRIVY_VERSION = ''0.70.0''"

definition scanner_environment :: "'w builder \<Rightarrow> (string \<times> string) list" where
  "scanner_environment B = filter (\<lambda>(k, _). \<not> starts_with ''TRIVY_'' (ascii_upper k)) (bd_environ B)"

definition scanner_call :: "'w builder \<Rightarrow> nat \<Rightarrow> string list \<Rightarrow> subprocess_call" where
  "scanner_call B limit args =
     \<lparr>call_args = args, call_limit = limit, call_env = Some (scanner_environment B), call_cwd = None\<rparr>"

text \<open>
  \<open>^Version: 0\.70\.0\s*$\<close>, searched with \<open>MULTILINE\<close>: a line that holds the version and white
  space only. A match whose white space runs over several lines also matches on its first line.
\<close>

definition version_line :: "string \<Rightarrow> bool" where
  "version_line l \<longleftrightarrow>
     (let expected = ''Version: '' @ TRIVY_VERSION in starts_with expected l \<and> list_all space (drop (length expected) l))"

definition check_scanner :: "'w builder \<Rightarrow> ('w, unit) step" where
  "check_scanner B =
     bindP (output_of B (scanner_call B 180 [''trivy'', ''--version''])) (\<lambda>out.
       needs (list_ex version_line (split_on (CHR 0x0A) out)) (''Trivy '' @ TRIVY_VERSION @ '' is required''))"

definition SCAN_ERRORS :: "(string list \<times> string) list" where
  "SCAN_ERRORS =
     [([''not enough space on the disk'', ''no space left on device''], ''Insufficient disk space''),
      ([''access is denied'', ''permission denied''], ''Filesystem access denied''),
      ([''unauthorized'', ''authentication required'', ''no basic auth credentials'', ''expiredtoken''],
       ''Registry authentication failed''),
      ([''failed to download vulnerability db''], ''Vulnerability database download failed''),
      ([''certificate signed by unknown authority''], ''TLS certificate verification failed''),
      ([''timeout'', ''timed out''], ''Operation timed out'')]"

definition scan_error :: "string \<Rightarrow> string option" where
  "scan_error err =
     (case first_such (\<lambda>(fragments, _). list_ex (\<lambda>f. contains f (str_lower err)) fragments) SCAN_ERRORS of
        Some (_, message) \<Rightarrow> Some message
      | None \<Rightarrow> if strip err \<noteq> [] then Some ''Unclassified scanner error (raw logs withheld)'' else None)"

definition OS_ERRORS :: "string list" where
  "OS_ERRORS =
     [''OSError'', ''FileNotFoundError'', ''FileExistsError'', ''PermissionError'', ''IsADirectoryError'',
      ''NotADirectoryError'', ''BlockingIOError'', ''InterruptedError'', ''ProcessLookupError'', ''ChildProcessError'']"

definition is_os_error :: "exn \<Rightarrow> bool" where
  "is_os_error e \<longleftrightarrow> is_transport_error e \<or> (case e of OtherError n \<Rightarrow> n \<in> set OS_ERRORS | _ \<Rightarrow> False)"

definition scan_file :: "'w builder \<Rightarrow> string \<Rightarrow> string" where
  "scan_file B kind = evidence_path B [''trivy-'' @ kind @ ''.json'']"

definition scan_call :: "'w builder \<Rightarrow> scan_policy \<Rightarrow> string \<Rightarrow> string \<Rightarrow> subprocess_call" where
  "scan_call B p kind img = scanner_call B 1800
     [''trivy'', ''--cache-dir'', bd_cache B, ''--config'', ''/dev/null'',
      ''image'', ''--image-src'', ''remote'', ''--scanners'', ''vuln'', ''--format'', ''json'', ''--output'', scan_file B kind,
      ''--severity'', sp_severities p, ''--ignore-unfixed='' @ sp_ignore_unfixed p, ''--ignorefile'', ''/dev/null'',
      ''--exit-code'', ''1'', img]"

definition valid_report :: "string \<Rightarrow> json \<Rightarrow> bool" where
  "valid_report img report \<longleftrightarrow>
     get_eq ''ArtifactName'' (JStr img) report = Inr True
     \<and> (case jget_or ''Results'' JNull report of Inr (JArr rs) \<Rightarrow> rs \<noteq> [] | _ \<Rightarrow> False)"

definition report_validation :: "'w builder \<Rightarrow> string \<Rightarrow> string \<Rightarrow> ('w, string) step" where
  "report_validation B kind img =
     attemptP (bindP (external (bd_read B (scan_file B kind))) (\<lambda>text. liftP (parsed B text))) (\<lambda>r.
       case r of
         Inr report \<Rightarrow> retP (if valid_report img report then ''PASS'' else ''INVALID_REPORT_IDENTITY_OR_RESULTS'')
       | Inl e \<Rightarrow> if is_os_error e then retP ''REPORT_UNAVAILABLE''
           else if is_value_error e then retP ''INVALID_JSON'' else raiseP e)"

definition scan_image :: "'w builder \<Rightarrow> scan_policy \<Rightarrow> string \<times> string \<Rightarrow> ('w, string \<times> json) step" where
  "scan_image B p = (\<lambda>(kind, img).
     bindP (external (bd_exists B (scan_file B kind))) (\<lambda>old.
     thenP (needs (\<not> old) ''Refusing to reuse previous scan evidence'')
     (thenP (external (bd_mkdir B (bd_cache B)))
     (bindP (run_call B False (scan_call B p kind img)) (\<lambda>(status, _, err).
      bindP (report_validation B kind img) (\<lambda>outcome.
      bindP (external (bd_now B)) (\<lambda>stamp.
      bindP (external (bd_is_file B (scan_file B kind))) (\<lambda>there.
        retP (if status = 0 \<and> outcome = ''PASS'' then ''PASS'' else ''FAIL'',
          JObj [(''timestamp_utc'', JStr stamp), (''exit_code'', JInt status), (''report_exists'', JBool there),
                (''report_validation'', JStr outcome),
                (''error'', if status \<noteq> 0 \<and> outcome \<noteq> ''PASS'' then opt_json JStr (scan_error err) else JNull)])))))))))"

definition scan_pair :: "'w builder \<Rightarrow> string \<Rightarrow> string \<Rightarrow> scan_policy \<Rightarrow> ('w, unit) step" where
  "scan_pair B runtime artifact p =
     thenP (exact_image runtime) (thenP (exact_image artifact)
     (bindP (liftP (security_policy (Some (sp_severities p)) (Some (sp_ignore_unfixed p)))) (\<lambda>_.
      thenP (check_scanner B)
     (bindP (mapP (scan_image B p) [(''runtime'', runtime), (''artifact'', artifact)]) (\<lambda>rs.
      let results = zip [''runtime'', ''artifact''] (map fst rs)
      in thenP (write_file ''scans.json'' (JObj
           [(''trivy_version'', JStr TRIVY_VERSION), (''security_policy'', policy_json p),
            (''results'', JObj (map (\<lambda>(k, v). (k, JStr v)) results)),
            (''exact_runtime_image'', JStr runtime), (''exact_artifact_image'', JStr artifact),
            (''diagnostics'', JObj (zip [''runtime'', ''artifact''] (map snd rs)))]))
         (needs (list_all (\<lambda>(_, v). v = ''PASS'') results)
            ''Exact-image scan gate failed; images are not validated for deployment''))))))"


section \<open>Building an image\<close>

definition label_arguments :: "(string \<times> string) list \<Rightarrow> string list" where
  "label_arguments kvs = concat (map (\<lambda>(k, v). [''--label'', k @ ''='' @ v]) kvs)"

definition build_call :: "'w builder \<Rightarrow> string \<Rightarrow> string \<Rightarrow> (string \<times> string) list \<Rightarrow> string list \<Rightarrow> subprocess_call" where
  "build_call B recipe tagged kvs target = docker_call 3600
     ([''docker'', ''buildx'', ''build'', ''--platform'', ''linux/amd64'', ''--provenance=false'', ''--sbom=false'',
       ''--metadata-file'', evidence_path B [''build-metadata.json''], ''--file'', recipe, ''--tag'', tagged]
      @ label_arguments kvs @ target)"

definition read_json_file :: "'w builder \<Rightarrow> string \<Rightarrow> ('w, json) step" where
  "read_json_file B path = bindP (external (bd_read B path)) (\<lambda>t. liftP (parsed B t))"

definition registry_digest :: "'w builder \<Rightarrow> string \<Rightarrow> ('w, string) step" where
  "registry_digest B message =
     bindP (read_json_file B (evidence_path B [''build-metadata.json''])) (\<lambda>metadata.
     bindP (liftP (jget_or ''containerimage.digest'' (JStr []) metadata)) (\<lambda>d.
     thenP (needs (is_str d \<and> rx_digest (str_of d)) message) (retP (str_of d))))"

definition optional_text :: "string option \<Rightarrow> string" where
  "optional_text r = (case r of Some s \<Rightarrow> s | None \<Rightarrow> ''None'')"

definition publish_built :: "'w builder \<Rightarrow> build_source \<Rightarrow> string \<Rightarrow> ('w, string) step" where
  "publish_built B s repository =
     bindP (registry_digest B ''Build did not return a valid registry digest'') (\<lambda>d.
     thenP (exact_image (repository @ ''@'' @ d))
     (bindP (inspect_remote B (repository @ ''@'' @ d)) (\<lambda>config.
      bindP (liftP (jget_or ''config'' (JObj []) config)) (\<lambda>c.
      thenP (liftP (verify_labels c s)) (retP (repository @ ''@'' @ d))))))"

definition local_built :: "'w builder \<Rightarrow> build_source \<Rightarrow> string \<Rightarrow> ('w, string) step" where
  "local_built B s tagged =
     bindP (output_of B (docker_call 180 [''docker'', ''image'', ''inspect'', tagged, ''--format'', ''{{json .}}''])) (\<lambda>out.
     bindP (liftP (parsed B out)) (\<lambda>config.
     bindP (liftP (andR [get_eq ''Os'' (JStr ''linux'') config, get_eq ''Architecture'' (JStr ''amd64'') config])) (\<lambda>platform.
     thenP (needs platform ''Local image must use linux/amd64'')
     (bindP (liftP (jget_or ''Config'' (JObj []) config)) (\<lambda>c.
      thenP (liftP (verify_labels c s))
     (bindP (liftP (jget ''Id'' config)) (\<lambda>i.
      thenP (write_file ''local-image.json'' (JObj [(''image'', JStr tagged), (''local_image_id'', i)])) (retP tagged))))))))"

definition build_image :: "'w builder \<Rightarrow> build_source \<Rightarrow> string option \<Rightarrow> bool \<Rightarrow> ('w, string) step" where
  "build_image B s repository push =
     bindP (external (bd_uuid B)) (\<lambda>u.
     let tagged = (if push then optional_text repository else ''model-service-runtime'') @ '':p0-dev-''
           @ take 12 (co_commit s) @ ''-'' @ take 12 u
     in bindP (run_call B True (build_call B (evidence_path B [''context'', ''Dockerfile.runtime'']) tagged (source_labels s)
              [if push then ''--push'' else ''--load'', evidence_path B [''context'']])) (\<lambda>_.
          if push then publish_built B s (optional_text repository) else local_built B s tagged))"

section \<open>The command\<close>

text \<open>The parsed arguments; \<open>argparse\<close> refuses \<open>--snapshot-only\<close> together with \<open>--publish\<close>.\<close>

record dev_args =
  da_snapshot_only :: bool
  da_publish :: bool
  da_repository :: "string option"
  da_artifact :: "string option"
  da_severities :: "string option"
  da_ignore_unfixed :: "string option"

text \<open>
  The classes the commands catch: \<open>ValueError\<close>, \<open>OSError\<close>, \<open>KeyError\<close> and \<open>SubprocessError\<close>.
  Only the \<open>ValueError\<close> of \<open>require\<close> leaves its message in the report; the errors of the
  decoders, subclasses of it, carry the name of their class as their message here.
\<close>

definition tool_failure :: "exn \<Rightarrow> bool" where
  "tool_failure e \<longleftrightarrow> is_value_error e \<or> is_os_error e \<or> is_key_error e
     \<or> (case e of OtherError n \<Rightarrow> n \<in> {''TimeoutExpired'', ''CalledProcessError'', ''SubprocessError''} | _ \<Rightarrow> False)"

definition failure_text :: "exn \<Rightarrow> string" where
  "failure_text e = (case e of ValueError m \<Rightarrow> m | _ \<Rightarrow> exn_name e)"

text \<open>The \<open>finally\<close> clause: the report is written when the run created its directory.\<close>

definition write_report :: "string \<Rightarrow> ('w, unit) step" where
  "write_report name = (\<lambda>w. (Inr (), w\<lparr>ws_files := (ws_files w)(name \<mapsto> ws_report w)\<rparr>))"

definition conclude_run :: "string \<Rightarrow> bool \<Rightarrow> unit res \<Rightarrow> ('w, int) step" where
  "conclude_run name owned r =
     (case r of
        Inr _ \<Rightarrow> thenP (whenP owned (write_report name)) (retP 0)
      | Inl e \<Rightarrow>
          if tool_failure e
          then thenP (update_report [(''failure'', JStr (failure_text e))])
                 (thenP (whenP owned (write_report name)) (retP 1))
          else thenP (whenP owned (write_report name)) (raiseP e))"

text \<open>A run that first opens its directory and then works in it, under one \<open>try\<close>.\<close>

definition guarded_run :: "string \<Rightarrow> (string \<times> json) list \<Rightarrow> ('w, 'a) step \<Rightarrow> ('a \<Rightarrow> ('w, unit) step) \<Rightarrow> ('w, int) step" where
  "guarded_run name report entry work =
     thenP (\<lambda>w. (Inr (), w\<lparr>ws_report := JObj report\<rparr>))
       (attemptP entry (\<lambda>r. case r of
            Inl e \<Rightarrow> conclude_run name False (Inl e)
          | Inr a \<Rightarrow> attemptP (work a) (conclude_run name True)))"

definition publish_arguments :: "dev_args \<Rightarrow> scan_policy option res" where
  "publish_arguments a =
     (if da_publish a
      then bindR (requireR (case da_repository a of Some r \<Rightarrow> ECR_REPOSITORY r | None \<Rightarrow> False)
               (ValueError ''--publish requires an explicit ECR runtime repository'')) (\<lambda>_.
           bindR (requireR (rx_exact_image (case da_artifact a of Some i \<Rightarrow> i | None \<Rightarrow> []))
               (ValueError ''Expected an exact ECR repository@sha256 image, without credentials or tags'')) (\<lambda>_.
           bindR (security_policy (da_severities a) (da_ignore_unfixed a)) (\<lambda>p. Inr (Some p))))
      else Inr None)"

definition open_build :: "'w builder \<Rightarrow> dev_args \<Rightarrow> ('w, scan_policy option \<times> checkout) step" where
  "open_build B a =
     bindP (liftP (publish_arguments a)) (\<lambda>p.
     bindP (external (bd_exists B (evidence_path B []))) (\<lambda>old.
     thenP (needs (\<not> old) ''Use a new output directory; prior evidence is immutable'')
     (bindP (source_identity B ''--repo must be the existing Git working-tree root'') (\<lambda>co.
      thenP (external (bd_mkdir B (evidence_path B []))) (retP (p, co))))))"

definition dev_publish :: "'w builder \<Rightarrow> build_source \<Rightarrow> string option \<Rightarrow> string \<Rightarrow> scan_policy \<Rightarrow> ('w, unit) step" where
  "dev_publish B s repository artifact p =
     thenP (check_scanner B)
     (bindP (inspect_remote B artifact) (\<lambda>_.
      thenP (update_report [(''exact_artifact_image'', JStr artifact), (''security_policy'', policy_json p)])
     (bindP (build_image B s repository True) (\<lambda>img.
      thenP (update_report [(''exact_runtime_image'', JStr img)])
     (thenP (update_report [(''build_status'', JStr ''PASS'')])
     (thenP (update_report [(''scan_status'', JStr ''FAIL'')])
     (thenP (scan_pair B img artifact p)
       (update_report [(''scan_status'', JStr ''PASS'')]))))))))"

definition dev_local :: "'w builder \<Rightarrow> build_source \<Rightarrow> string option \<Rightarrow> ('w, unit) step" where
  "dev_local B s repository =
     bindP (build_image B s repository False) (\<lambda>img.
     thenP (update_report [(''local_runtime_image'', JStr img)])
       (update_report [(''build_status'', JStr ''PASS'')]))"

definition dev_work :: "'w builder \<Rightarrow> dev_args \<Rightarrow> scan_policy option \<times> checkout \<Rightarrow> ('w, unit) step" where
  "dev_work B a = (\<lambda>(p, co).
     bindP (snapshot B co) (\<lambda>s.
     thenP (update_report (source_json s))
     (thenP (write_file ''source.json'' (JObj (source_json s)))
     (thenP (if da_snapshot_only a then retP ()
        else case (p, da_artifact a) of
          (Some q, Some artifact) \<Rightarrow> dev_publish B s (da_repository a) artifact q
        | _ \<Rightarrow> dev_local B s (da_repository a))
       (update_report [(''status'', JStr ''PASS'')])))))"

definition dev_main :: "'w builder \<Rightarrow> dev_args \<Rightarrow> ('w, int) step" where
  "dev_main B a =
     guarded_run ''dev-runtime.json''
       [(''production_eligible'', JBool False), (''status'', JStr ''FAIL''), (''scan_status'', JStr ''NOT_RUN'')]
       (open_build B a) (dev_work B a)"


section \<open>The trusted model artifact\<close>

record model_source = checkout +
  ms_sha256 :: string
  ms_bytes :: nat

definition model_json :: "model_source \<Rightarrow> (string \<times> json) list" where
  "model_json m =
     [(''source_commit'', JStr (co_commit m)), (''source_dirty'', JBool (co_dirty m)),
      (''artifact_sha256'', JStr (ms_sha256 m)), (''artifact_bytes'', JInt (int (ms_bytes m))),
      (''artifact_model_version'', JStr ''iris-demo-v1''), (''production_eligible'', JBool False)]"

definition model_identity :: "'w builder \<Rightarrow> ('w, model_source) step" where
  "model_identity B =
     bindP (source_identity B ''Repository root mismatch'') (\<lambda>co.
       case node_at [''artifacts'', ''model.joblib''] (bd_tree B) of
         Some (SourceFile c) \<Rightarrow> retP \<lparr>co_commit = co_commit co, co_dirty = co_dirty co,
           ms_sha256 = lib_sha256 (bd_lib B) c, ms_bytes = length c\<rparr>
       | _ \<Rightarrow> raiseP (ValueError ''Trusted model artifact is missing or linked''))"

definition model_labels :: "model_source \<Rightarrow> (string \<times> string) list" where
  "model_labels m =
     [(''org.opencontainers.image.revision'', co_commit m), (''io.model-service.artifact-sha256'', ms_sha256 m),
      (''io.model-service.production-eligible'', ''false'')]"

definition published_labels :: "(string \<times> string) list \<Rightarrow> json \<Rightarrow> bool res" where
  "published_labels expected config =
     bindR (jget_or ''config'' (JObj []) config) (\<lambda>c. bindR (jget_or ''Labels'' JNull c) (\<lambda>v.
       andR (map (\<lambda>(k, x). get_eq k (JStr x) (or_empty v)) expected)))"

definition publish_artifact :: "'w builder \<Rightarrow> string \<Rightarrow> model_source \<Rightarrow> ('w, (string \<times> json) list) step" where
  "publish_artifact B repository m =
     thenP (needs (ECR_REPOSITORY repository) ''Expected an explicit ECR repository URI without credentials/tag'')
     (bindP (external (bd_uuid B)) (\<lambda>u.
      let tag = ''p0-dev-artifact-'' @ take 12 (co_commit m) @ ''-'' @ take 12 u
      in bindP (run_call B True (build_call B (path_text (bd_repo B @ [''Dockerfile.artifact''])) (repository @ '':'' @ tag)
                  (model_labels m) [''--push'', path_text (bd_repo B)])) (\<lambda>_.
         bindP (registry_digest B ''Artifact build returned no immutable digest'') (\<lambda>d.
         bindP (inspected B (repository @ ''@'' @ d)) (\<lambda>(manifest, config).
         bindP (liftP (published_labels (model_labels m) config)) (\<lambda>same.
         thenP (needs same ''Published model artifact identity labels do not match source bundle'')
        (bindP (external (bd_now B)) (\<lambda>stamp.
         bindP (liftP (jget_or ''mediaType'' JNull manifest)) (\<lambda>media.
           retP (model_json m @
             [(''build_timestamp'', JStr stamp), (''tag'', JStr tag), (''exact_artifact_image'', JStr (repository @ ''@'' @ d)),
              (''manifest_media_type'', media), (''platform'', JStr ''linux/amd64''), (''build_status'', JStr ''PASS''),
              (''production_eligible'', JBool False)]))))))))))"

definition open_artifact :: "'w builder \<Rightarrow> bool \<Rightarrow> string option \<Rightarrow> ('w, string) step" where
  "open_artifact B push repository =
     thenP (needs (push \<and> (case repository of Some r \<Rightarrow> r \<noteq> [] | None \<Rightarrow> False))
              ''Explicit --publish and --repository are required'')
     (bindP (external (bd_exists B (evidence_path B []))) (\<lambda>old.
      thenP (needs (\<not> old) ''Use a new evidence directory'')
     (thenP (external (bd_mkdir B (evidence_path B []))) (retP (optional_text repository)))))"

definition artifact_work :: "'w builder \<Rightarrow> string \<Rightarrow> ('w, unit) step" where
  "artifact_work B repository =
     bindP (model_identity B) (\<lambda>m.
     thenP (update_report (model_json m))
     (thenP (update_report [(''exact_artifact_image'', JStr [])])
     (bindP (publish_artifact B repository m) (\<lambda>result.
        update_report (result @ [(''status'', JStr ''PASS'')])))))"

definition artifact_main :: "'w builder \<Rightarrow> bool \<Rightarrow> string option \<Rightarrow> ('w, int) step" where
  "artifact_main B push repository =
     guarded_run ''artifact-build.json''
       [(''status'', JStr ''FAIL''), (''build_status'', JStr ''NOT_RUN''), (''production_eligible'', JBool False)]
       (open_artifact B push repository) (artifact_work B)"

end
