(* ===== verification/DevProperties.thy ===== *)
theory DevProperties
  imports DevBuild ReleaseJobSafety
begin

text \<open>
  What the Dev builds promise. \<open>reported_run\<close> is the contract of a command that reports on itself:
  its report says PASS exactly when the command returns 0, and it never claims eligibility for
  production; both commands are instances. A published Dev runtime is one whose exact image, with
  the labels of its snapshot, and whose artifact were scanned without a finding; the snapshot holds
  exactly the visible Python sources.
\<close>

section \<open>Reports\<close>

definition report_says :: "string \<Rightarrow> json \<Rightarrow> bool" where
  "report_says s j \<longleftrightarrow> jget ''status'' j = Inr (JStr s) \<and> jget ''production_eligible'' j = Inr (JBool False)"

lemma map_of_jputs:
  "map_of (fold (\<lambda>(k, v). jput k v) kvs old) key =
     (case map_of (rev kvs) key of Some v \<Rightarrow> Some v | None \<Rightarrow> map_of old key)"
  by (induction kvs arbitrary: old) (auto simp: map_add_def split: option.splits)

lemma jget_Inr_dict: "jget k j = Inr v \<Longrightarrow> \<exists>kvs. j = JObj kvs"
  by (simp add: jget_Inr_iff) blast

text \<open>An update of a report leaves its status alone, and may only deny its eligibility.\<close>

definition discreet :: "(string \<times> json) list \<Rightarrow> bool" where
  "discreet kvs \<longleftrightarrow> (\<forall>(k, v) \<in> set kvs. k \<noteq> ''status'' \<and> (k = ''production_eligible'' \<longrightarrow> v = JBool False))"

lemma discreet_lookup:
  assumes "discreet kvs"
  shows "map_of (rev kvs) ''status'' = None" and "map_of (rev kvs) ''production_eligible'' \<in> {None, Some (JBool False)}"
proof -
  show "map_of (rev kvs) ''status'' = None" using assms by (fastforce simp: discreet_def map_of_eq_None_iff)
  show "map_of (rev kvs) ''production_eligible'' \<in> {None, Some (JBool False)}"
    using assms by (cases "map_of (rev kvs) ''production_eligible''") (auto simp: discreet_def dest!: map_of_SomeD)
qed

lemma report_says_jputs:
  assumes "report_says s (JObj old)" and "discreet kvs"
  shows "report_says s (JObj (fold (\<lambda>(k, v). jput k v) kvs old))"
  using assms discreet_lookup [OF assms(2)]
  by (auto simp: report_says_def map_of_jputs split: option.splits)

definition quiet :: "string \<Rightarrow> 'w workspace \<Rightarrow> 'w workspace \<Rightarrow> bool" where
  "quiet name w w' \<longleftrightarrow>
     ws_files w' name = ws_files w name \<and> (\<forall>s. report_says s (ws_report w) \<longrightarrow> report_says s (ws_report w'))"

lemma quiet_refl: "reflp (quiet name)" and quiet_trans: "transp (quiet name)"
  by (auto simp: quiet_def reflp_def transp_def)

lemmas quiet_intros =
  keeps_pure [OF quiet_refl] keeps_bindP [OF quiet_refl quiet_trans] keeps_thenP [OF quiet_refl quiet_trans]
  keeps_whenP [OF quiet_refl] keeps_attemptP [OF quiet_trans]

lemma quiet_external: "keeps (quiet name) (external m)"
  by (auto simp: keeps_def quiet_def external_def split: prod.split)

lemma quiet_write: "n \<noteq> name \<Longrightarrow> keeps (quiet name) (write_file n j)"
  by (auto simp: keeps_def quiet_def write_file_def)

lemma quiet_update: "discreet kvs \<Longrightarrow> keeps (quiet name) (update_report kvs)"
  by (auto simp: keeps_def quiet_def update_report_def jupdate_def report_says_jputs
      dest: jget_Inr_dict split: json.splits)

lemma quiet_mapP: "(\<And>x. keeps (quiet name) (f x)) \<Longrightarrow> keeps (quiet name) (mapP f xs)"
  by (induction xs) (auto intro!: quiet_intros)

text \<open>
  What the report file of a command says about its outcome: PASS for 0; for anything else FAIL, or
  nothing new when the run did not own its directory.
\<close>

definition truthful :: "string \<Rightarrow> 'w workspace \<Rightarrow> int res \<Rightarrow> 'w workspace \<Rightarrow> bool" where
  "truthful name w r w' \<longleftrightarrow>
     (if r = Inr 0 then \<exists>rep. ws_files w' name = Some rep \<and> report_says ''PASS'' rep
      else ws_files w' name = ws_files w name \<or> (\<exists>rep. ws_files w' name = Some rep \<and> report_says ''FAIL'' rep))"

section \<open>Commands that report on themselves\<close>

locale reported_run =
  fixes name :: string and report :: "(string \<times> json) list"
    and entry :: "('w, 'a) step" and work :: "'a \<Rightarrow> ('w, unit) step"
  assumes initial: "report_says ''FAIL'' (JObj report)"
    and entry_quiet: "keeps (quiet name) entry"
    and work_outcome: "report_says ''FAIL'' (ws_report w) \<Longrightarrow>
      wpp (work a) (\<lambda>_ w'. report_says ''PASS'' (ws_report w')) (\<lambda>_ w'. report_says ''FAIL'' (ws_report w')) w"
begin

lemma conclude_unowned:
  "conclude_run name False (Inl e) w = (r, w') \<Longrightarrow> ws_files w' = ws_files w \<and> r \<noteq> Inr 0"
  by (auto simp: conclude_run_def run_simps update_report_def split: if_splits sum.splits prod.splits)

lemma conclude_passed:
  "conclude_run name True (Inr u) w = (r, w') \<Longrightarrow> r = Inr 0 \<and> ws_files w' name = Some (ws_report w)"
  by (auto simp: conclude_run_def run_simps write_report_def)

lemma conclude_failed:
  assumes "conclude_run name True (Inl e) w = (r, w')" and "report_says ''FAIL'' (ws_report w)"
  shows "r \<noteq> Inr 0 \<and> (\<exists>rep. ws_files w' name = Some rep \<and> report_says ''FAIL'' rep)"
proof -
  from assms(2) obtain kvs where kvs: "ws_report w = JObj kvs"
    by (auto simp: report_says_def dest: jget_Inr_dict)
  with assms(2) have "report_says ''FAIL'' (JObj (jput ''failure'' (JStr (failure_text e)) kvs))"
    by (simp add: report_says_def)
  with assms kvs show ?thesis
    by (auto simp: conclude_run_def run_simps write_report_def update_report_def jupdate_def split: if_splits)
qed

theorem run_reports:
  assumes "guarded_run name report entry work w = (r, w')"
  shows "truthful name w r w'"
proof -
  let ?start = "w\<lparr>ws_report := JObj report\<rparr>"
  obtain q v where open_run: "entry ?start = (q, v)" by (rule prod.exhaust)
  from keepsD [OF entry_quiet this]
  have kept: "ws_files v name = ws_files w name" and says: "report_says ''FAIL'' (ws_report v)"
    using initial by (auto simp: quiet_def)
  show ?thesis
  proof (cases q)
    case (Inl e)
    with assms open_run have "conclude_run name False (Inl e) v = (r, w')" by (simp add: guarded_run_def run_simps)
    from conclude_unowned [OF this] kept show ?thesis by (simp add: truthful_def)
  next
    case (Inr a)
    obtain p u where worked: "work a v = (p, u)" by (rule prod.exhaust)
    with assms open_run Inr have last: "conclude_run name True p u = (r, w')" by (simp add: guarded_run_def run_simps)
    show ?thesis
    proof (cases p)
      case (Inl e)
      with wpp_InlD [OF work_outcome [OF says]] worked have "report_says ''FAIL'' (ws_report u)" by metis
      with conclude_failed last Inl show ?thesis unfolding truthful_def by metis
    next
      case (Inr x)
      with wpp_InrD [OF work_outcome [OF says]] worked have "report_says ''PASS'' (ws_report u)" by metis
      with conclude_passed last Inr show ?thesis unfolding truthful_def by metis
    qed
  qed
qed

end


subsection \<open>The steps of the builds\<close>

lemma quiet_run: "keeps (quiet n) (run_call B check c)" "keeps (quiet n) (needs ok m)"
  unfolding run_call_def needs_def by (auto intro!: quiet_intros quiet_external split: prod.split)

lemma quiet_output: "keeps (quiet n) (output_of B c)"
  unfolding output_of_def by (auto intro!: quiet_intros quiet_run)

lemma quiet_source_identity: "keeps (quiet n) (source_identity B m)"
  unfolding source_identity_def by (auto intro!: quiet_intros quiet_run quiet_output)

lemma quiet_exact: "keeps (quiet n) (exact_image img)"
  unfolding exact_image_def by (rule quiet_run)

lemma quiet_read: "keeps (quiet n) (read_json_file B path)" "keeps (quiet n) (registry_digest B m)"
  unfolding read_json_file_def registry_digest_def by (auto intro!: quiet_intros quiet_run quiet_external)

lemma quiet_inspected: "keeps (quiet n) (inspected B img)"
  unfolding inspected_def by (auto intro!: quiet_intros quiet_output)

lemma quiet_inspect_remote: "keeps (quiet n) (inspect_remote B img)"
  unfolding inspect_remote_def by (auto intro!: quiet_intros quiet_inspected quiet_exact split: prod.split)

lemmas quiet_steps = quiet_intros quiet_external quiet_run quiet_output quiet_exact quiet_read quiet_inspected
  quiet_inspect_remote quiet_source_identity

lemma context_file_name: "context_file p = CHR ''c'' # tl (context_file p)"
  by (simp add: context_file_def join_def)

lemma quiet_snapshot: "keeps (quiet ''dev-runtime.json'') (snapshot B co)"
proof -
  have "context_file q \<noteq> ''dev-runtime.json''" for q by (subst context_file_name) simp
  then show ?thesis
    unfolding snapshot_def copy_input_def Let_def
    by (auto intro!: quiet_steps quiet_mapP quiet_write)
qed

lemma quiet_check_scanner: "keeps (quiet n) (check_scanner B)"
  unfolding check_scanner_def by (auto intro!: quiet_steps)

lemma quiet_validation: "keeps (quiet n) (report_validation B kind img)"
  unfolding report_validation_def by (auto intro!: quiet_steps split: sum.split)

lemma quiet_scan_image: "keeps (quiet n) (scan_image B p x)"
  unfolding scan_image_def by (auto intro!: quiet_steps quiet_validation split: prod.split)

lemma quiet_scan_pair: "keeps (quiet ''dev-runtime.json'') (scan_pair B r a p)"
  unfolding scan_pair_def Let_def by (auto intro!: quiet_steps quiet_check_scanner quiet_scan_image quiet_mapP quiet_write)

lemma quiet_build: "keeps (quiet ''dev-runtime.json'') (build_image B s repository push)"
  unfolding build_image_def publish_built_def local_built_def Let_def by (auto intro!: quiet_steps quiet_write)

lemma quiet_open_build: "keeps (quiet n) (open_build B a)"
  unfolding open_build_def by (auto intro!: quiet_steps)

lemma discreet_source: "discreet (source_json s)"
  by (simp add: discreet_def source_json_def)

lemma discreet_single: "k \<noteq> ''status'' \<Longrightarrow> k \<noteq> ''production_eligible'' \<Longrightarrow> discreet [(k, v)]"
  by (simp add: discreet_def)

lemma quiet_dev_publish: "keeps (quiet ''dev-runtime.json'') (dev_publish B s repository artifact p)"
  unfolding dev_publish_def
  by (auto intro!: quiet_steps quiet_check_scanner quiet_build quiet_scan_pair quiet_update simp: discreet_def)

lemma quiet_dev_local: "keeps (quiet ''dev-runtime.json'') (dev_local B s repository)"
  unfolding dev_local_def by (auto intro!: quiet_steps quiet_build quiet_update simp: discreet_def)

text \<open>The last step of a command sets its status.\<close>

lemma passing_update:
  assumes "report_says s (ws_report w)" and "discreet kvs"
  shows "wpp (update_report (kvs @ [(''status'', JStr ''PASS'')]))
    (\<lambda>_ w'. report_says ''PASS'' (ws_report w')) (\<lambda>_ w'. report_says ''FAIL'' (ws_report w')) w"
proof -
  from assms(1) obtain old where old: "ws_report w = JObj old" by (auto simp: report_says_def dest: jget_Inr_dict)
  with report_says_jputs [of s old kvs] assms
  have "report_says s (JObj (fold (\<lambda>(k, v). jput k v) kvs old))" by simp
  then show ?thesis
    by (simp add: wpp_def update_report_def jupdate_def old report_says_def)
qed

lemma quiet_then:
  assumes "report_says ''FAIL'' (ws_report w)" and "keeps (quiet n) m"
    and "\<And>a w'. report_says ''FAIL'' (ws_report w') \<Longrightarrow> wpp (f a) Q (\<lambda>_ w'. report_says ''FAIL'' (ws_report w')) w'"
  shows "wpp (bindP m f) Q (\<lambda>_ w'. report_says ''FAIL'' (ws_report w')) w"
proof (simp, rule wpp_mono [OF wpp_keeps [OF assms(2)]])
  show "report_says ''FAIL'' (ws_report w')" if "quiet n w w'" for e w'
    using that assms(1) by (simp add: quiet_def)
  then show "wpp (f a) Q (\<lambda>_ w'. report_says ''FAIL'' (ws_report w')) w'" if "quiet n w w'" for a w'
    using that assms(3) by blast
qed

lemma dev_work_outcome:
  assumes "report_says ''FAIL'' (ws_report w)"
  shows "wpp (dev_work B a pc) (\<lambda>_ w'. report_says ''PASS'' (ws_report w')) (\<lambda>_ w'. report_says ''FAIL'' (ws_report w')) w"
  unfolding dev_work_def thenP_def split_beta
proof (rule quiet_then [where n = "''dev-runtime.json''"], rule assms, rule quiet_snapshot,
    rule quiet_then [where n = "''dev-runtime.json''"], assumption, rule quiet_update [OF discreet_source],
    rule quiet_then [where n = "''dev-runtime.json''"], assumption, rule quiet_write, simp,
    rule quiet_then [where n = "''dev-runtime.json''"], assumption)
qed (auto intro!: quiet_intros quiet_dev_publish quiet_dev_local passing_update [where kvs = "[]", simplified]
      simp: discreet_def split: option.split)

interpretation dev: reported_run "''dev-runtime.json''"
  "[(''production_eligible'', JBool False), (''status'', JStr ''FAIL''), (''scan_status'', JStr ''NOT_RUN'')]"
  "open_build B a" "dev_work B a" for B a
  by unfold_locales (simp add: report_says_def, rule quiet_open_build, rule dev_work_outcome)


lemma quiet_model_identity: "keeps (quiet n) (model_identity B)"
  unfolding model_identity_def by (auto intro!: quiet_steps split: option.split node.split)

lemma quiet_publish_artifact: "keeps (quiet n) (publish_artifact B r m)"
  unfolding publish_artifact_def Let_def by (auto intro!: quiet_steps split: prod.split)

lemma quiet_open_artifact: "keeps (quiet n) (open_artifact B push r)"
  unfolding open_artifact_def by (auto intro!: quiet_steps)

lemma discreet_model: "discreet (model_json m)"
  by (simp add: discreet_def model_json_def)

lemma publish_artifact_discreet: "publish_artifact B r m w = (Inr result, w') \<Longrightarrow> discreet result"
  unfolding publish_artifact_def thenP_def Let_def split_beta bindP_Inr_iff run_retP
  by (elim exE conjE, unfold prod.inject sum.inject, elim conjE, hypsubst) (simp add: discreet_def model_json_def)

lemma artifact_work_outcome:
  assumes "report_says ''FAIL'' (ws_report w)"
  shows "wpp (artifact_work B r) (\<lambda>_ w'. report_says ''PASS'' (ws_report w')) (\<lambda>_ w'. report_says ''FAIL'' (ws_report w')) w"
  unfolding artifact_work_def thenP_def
proof (rule quiet_then [where n = "[]"], rule assms, rule quiet_model_identity,
    rule quiet_then [where n = "[]"], assumption, rule quiet_update [OF discreet_model],
    rule quiet_then [where n = "[]"], assumption, rule quiet_update)
  fix m and v :: "'a workspace"
  assume v: "report_says ''FAIL'' (ws_report v)"
  have "wpp (publish_artifact B r m) (\<lambda>result w'. discreet result \<and> report_says ''FAIL'' (ws_report w'))
      (\<lambda>_ w'. report_says ''FAIL'' (ws_report w')) v"
    using v by (intro wpp_I)
      (auto simp: quiet_def dest: publish_artifact_discreet keepsD [OF quiet_publish_artifact [of "[]"]])
  then show "wpp (bindP (publish_artifact B r m) (\<lambda>result. update_report (result @ [(''status'', JStr ''PASS'')])))
      (\<lambda>_ w'. report_says ''PASS'' (ws_report w')) (\<lambda>_ w'. report_says ''FAIL'' (ws_report w')) v"
    unfolding wpp_bindP by (rule wpp_mono) (auto intro: passing_update)
qed (simp add: discreet_def)

interpretation artifact: reported_run "''artifact-build.json''"
  "[(''status'', JStr ''FAIL''), (''build_status'', JStr ''NOT_RUN''), (''production_eligible'', JBool False)]"
  "open_artifact B push r" "artifact_work B" for B push r
  by unfold_locales (simp add: report_says_def, rule quiet_open_artifact, rule artifact_work_outcome)

text \<open>
  C39 (a Dev build tells the truth about itself). Of a run of either command, the report that is left
  in the new directory says PASS when the command returns 0 and FAIL when it returns another code or
  raises, and it denies eligibility for production in both cases. A run that fails before it owns its
  directory leaves the file as it was.
\<close>
theorem dev_builds_report:
  assumes "(name, run) \<in> {(''dev-runtime.json'', dev_main B a), (''artifact-build.json'', artifact_main B push repository)}"
    and "run w = (r, w')"
  shows "truthful name w r w'"
proof -
  consider "name = ''dev-runtime.json''" "run = dev_main B a"
    | "name = ''artifact-build.json''" "run = artifact_main B push repository"
    using assms(1) by blast
  then show ?thesis
  proof cases
    case 1
    with assms(2) show ?thesis by (simp only: dev_main_def dev.run_reports)
  next
    case 2
    with assms(2) show ?thesis by (simp only: artifact_main_def artifact.run_reports)
  qed
qed


section \<open>The snapshot is the visible sources\<close>

definition snapshot_input :: "entries \<Rightarrow> source_path \<Rightarrow> bool" where
  "snapshot_input es q \<longleftrightarrow> q \<in> set root_inputs
     \<or> (\<exists>ds p c. map_of es ''src'' = Some (SourceDir ds) \<and> parts q = ''src'' # p \<and> source_file ds p c)"

lemma source_inputs_exact:
  assumes "source_inputs es = Inr qs"
  shows "q \<in> set qs \<longleftrightarrow> snapshot_input es q"
proof -
  obtain ps where qs: "qs = root_inputs @ map fst ps"
    and ps: "(case map_of es ''src'' of Some (SourceDir ds) \<Rightarrow> walk_source [''src''] ds | _ \<Rightarrow> Inr []) = Inr ps"
    using assms by (auto simp: source_inputs_def bindR_Inr_iff)
  show ?thesis
  proof (cases "\<exists>ds. map_of es ''src'' = Some (SourceDir ds)")
    case True
    then obtain ds where ds: "map_of es ''src'' = Some (SourceDir ds)" ..
    with ps have "walk_source [''src''] ds = Inr ps" by simp
    from walk_source_exact [OF this, of "parts q"] have "q \<in> fst ` set ps \<longleftrightarrow> (\<exists>p c. parts q = ''src'' # p \<and> source_file ds p c)"
      by (force simp: image_iff)
    with ds show ?thesis by (auto simp: qs snapshot_input_def)
  next
    case False
    with ps have "ps = []" by (auto split: option.splits node.splits)
    with False show ?thesis by (auto simp: qs snapshot_input_def)
  qed
qed

lemma source_inputs_distinct:
  assumes "source_inputs es = Inr qs" and "well_named (SourceDir es)"
  shows "distinct qs"
proof -
  obtain ps where qs: "qs = root_inputs @ map fst ps"
    and ps: "(case map_of es ''src'' of Some (SourceDir ds) \<Rightarrow> walk_source [''src''] ds | _ \<Rightarrow> Inr []) = Inr ps"
    using assms(1) by (auto simp: source_inputs_def bindR_Inr_iff)
  show ?thesis
  proof (cases "\<exists>ds. map_of es ''src'' = Some (SourceDir ds)")
    case True
    then obtain ds where ds: "map_of es ''src'' = Some (SourceDir ds)" ..
    with ps have walk: "walk_source [''src''] ds = Inr ps" by simp
    have "well_named (SourceDir ds)" using well_named_entry(3) [OF assms(2) map_of_SomeD [OF ds]] .
    with walk_source_distinct walk have "distinct (map fst ps)" by blast
    moreover have "q \<notin> fst ` set ps" if "q \<in> set root_inputs" for q
      using walk_source_exact [OF walk, of "parts q"] that by (auto simp: root_inputs_def)
    ultimately show ?thesis by (auto simp: qs) (simp_all add: root_inputs_def)
  next
    case False
    with ps have "ps = []" by (auto split: option.splits node.splits)
    then show ?thesis by (simp add: qs root_inputs_def)
  qed
qed

lemma snapshot_input_plain:
  assumes "snapshot_input es q" and "well_named (SourceDir es)"
  shows "parts q \<noteq> []" and "\<forall>name \<in> set (parts q). CHR ''/'' \<notin> set name" and "q \<noteq> SourcePath IDENTITY_PATH"
proof -
  consider "q \<in> set root_inputs"
    | ds p c where "(''src'', SourceDir ds) \<in> set es" "parts q = ''src'' # p" "source_file ds p c"
    using assms(1) by (auto simp: snapshot_input_def dest: map_of_SomeD)
  then have "parts q \<noteq> [] \<and> (\<forall>name \<in> set (parts q). CHR ''/'' \<notin> set name) \<and> q \<noteq> SourcePath IDENTITY_PATH"
  proof cases
    case 1
    then show ?thesis by (auto simp: root_inputs_def IDENTITY_PATH_def)
  next
    case 2
    have "\<not> python_source ''build-identity.json''" by code_simp
    with source_file_python [OF 2(3)] have "p \<noteq> tl IDENTITY_PATH" by (auto simp: IDENTITY_PATH_def)
    with 2(2) have "q \<noteq> SourcePath IDENTITY_PATH" by (auto simp: IDENTITY_PATH_def)
    with 2 source_file_plain [OF 2(3) well_named_entry(3) [OF assms(2) 2(1)]] show ?thesis by auto
  qed
  then show "parts q \<noteq> []" and "\<forall>name \<in> set (parts q). CHR ''/'' \<notin> set name" and "q \<noteq> SourcePath IDENTITY_PATH"
    by blast+
qed

lemma context_file_inject:
  assumes "context_file p = context_file q"
    and "\<forall>name \<in> set (parts p). CHR ''/'' \<notin> set name" and "\<forall>name \<in> set (parts q). CHR ''/'' \<notin> set name"
  shows "p = q"
proof -
  have "split_on CHR ''/'' (context_file r) = ''context'' # parts r"
    if "\<forall>name \<in> set (parts r). CHR ''/'' \<notin> set name" for r
    unfolding context_file_def using that by (intro split_on_join) auto
  with assms have "parts p = parts q" by (metis list.inject)
  then show ?thesis by (rule source_path.expand)
qed

lemma external_Inr: "external m w = (Inr a, v) \<longleftrightarrow> (\<exists>x. m (ws_world w) = (Inr a, x) \<and> v = w\<lparr>ws_world := x\<rparr>)"
  by (auto simp: external_def split: prod.splits)

lemma needs_Inr: "needs ok m w = (Inr u, v) \<longleftrightarrow> ok \<and> v = w"
  by (auto simp: needs_def run_liftP)

lemma write_file_Inr: "write_file n j w = (Inr u, v) \<longleftrightarrow> v = w\<lparr>ws_files := (ws_files w)(n \<mapsto> j)\<rparr>"
  by (auto simp: write_file_def)

lemma retP_Inr: "retP a w = (Inr b, v) \<longleftrightarrow> b = a \<and> v = w"
  by (auto simp: run_retP)

lemma liftP_Inr: "liftP r w = (Inr b, v) \<longleftrightarrow> r = Inr b \<and> v = w"
  by (auto simp: run_liftP)

lemmas run_Inr = bindP_Inr_iff thenP_def external_Inr needs_Inr write_file_Inr retP_Inr liftP_Inr

text \<open>Copying the inputs one after the other.\<close>

definition copied :: "'w builder \<Rightarrow> 'w workspace \<Rightarrow> source_path \<Rightarrow> string \<times> string \<Rightarrow> bool" where
  "copied B w q f \<longleftrightarrow> (\<exists>c. read_input (bd_tree B) q = Inr c \<and> f = (as_posix q, lib_sha256 (bd_lib B) c)
     \<and> ws_files w (context_file q) = Some (JStr c))"

lemma copy_input_run:
  "copy_input B q w = (Inr f, v) \<longleftrightarrow> (\<exists>c. read_input (bd_tree B) q = Inr c
     \<and> f = (as_posix q, lib_sha256 (bd_lib B) c) \<and> v = w\<lparr>ws_files := (ws_files w)(context_file q \<mapsto> JStr c)\<rparr>)"
  by (auto simp: copy_input_def bindP_Inr_iff thenP_def run_retP run_liftP write_file_def)

lemma copy_inputs:
  assumes "mapP (copy_input B) qs w = (Inr fs, w')" and "distinct (map context_file qs)"
  shows "list_all2 (copied B w') qs fs \<and> (\<forall>n. n \<notin> context_file ` set qs \<longrightarrow> ws_files w' n = ws_files w n)"
  using assms
proof (induction qs arbitrary: w fs)
  case (Cons q qs)
  then obtain c fs' where c: "read_input (bd_tree B) q = Inr c" and fs: "fs = (as_posix q, lib_sha256 (bd_lib B) c) # fs'"
    and rest: "mapP (copy_input B) qs (w\<lparr>ws_files := (ws_files w)(context_file q \<mapsto> JStr c)\<rparr>) = (Inr fs', w')"
    by (auto simp: bindP_Inr_iff run_retP copy_input_run)
  from Cons.IH [OF rest] Cons.prems(2) show ?case
    unfolding fs using c by (auto simp: copied_def)
qed (simp add: run_retP)

text \<open>
  C38 (a snapshot is the visible sources). A snapshot that returns has copied the two root files and
  every Python file below \<open>src\<close> that is neither hidden nor in a hidden or cache directory, and
  nothing else: the manifest lists each of them once, in the order of paths, with the digest of the
  content that stands in the build context, and the source digest is that of the manifest.
\<close>
theorem snapshot_exact:
  assumes "snapshot B co w = (Inr s, w')" and "well_named (SourceDir (bd_tree B))"
  shows "\<exists>inputs. sorted_wrt (<) inputs \<and> (\<forall>q. q \<in> set inputs \<longleftrightarrow> snapshot_input (bd_tree B) q)
    \<and> list_all2 (copied B w') inputs (bs_files s)
    \<and> bs_digest s = files_digest (bd_lib B) (bs_files s)
    \<and> (\<forall>n. n \<notin> context_file ` insert (SourcePath IDENTITY_PATH) (set inputs) \<longrightarrow> ws_files w' n = ws_files w n)"
proof -
  obtain qs x fs w2 where qs: "source_inputs (bd_tree B) = Inr qs"
    and copies: "mapP (copy_input B) (sort qs) (w\<lparr>ws_world := x\<rparr>) = (Inr fs, w2)"
    and s: "bs_files s = fs" "bs_digest s = files_digest (bd_lib B) fs"
    and w': "ws_files w' = (ws_files w2)(context_file (SourcePath IDENTITY_PATH) \<mapsto> JObj (source_json s))"
    using assms(1) unfolding snapshot_def run_Inr Let_def by (elim exE conjE) (erule that, simp_all)
  have inputs: "q \<in> set (sort qs) \<longleftrightarrow> snapshot_input (bd_tree B) q" for q
    using source_inputs_exact [OF qs] by simp
  note plain = snapshot_input_plain [OF _ assms(2), folded inputs]
  have one: "distinct (sort qs)" using source_inputs_distinct [OF qs assms(2)] by simp
  have "inj_on context_file (set (sort qs))" using context_file_inject plain(2) by (meson inj_onI)
  with one have "distinct (map context_file (sort qs))" by (simp add: distinct_map)
  from copy_inputs [OF copies this] have
    fs: "list_all2 (copied B w2) (sort qs) fs" and rest: "\<forall>n. n \<notin> context_file ` set (sort qs) \<longrightarrow> ws_files w2 n = ws_files w n"
    by auto
  have "context_file q \<noteq> context_file (SourcePath IDENTITY_PATH)" if "q \<in> set (sort qs)" for q
  proof
    assume "context_file q = context_file (SourcePath IDENTITY_PATH)"
    from context_file_inject [OF this plain(2) [OF that]] plain(3) [OF that] show False
      by (simp add: IDENTITY_PATH_def)
  qed
  with fs have "list_all2 (copied B w') (sort qs) fs"
    by (elim list.rel_mono_strong) (simp add: copied_def w')
  moreover have "sorted_wrt (<) (sort qs)" using one by (simp add: strict_sorted_iff)
  ultimately show ?thesis using inputs rest by (intro exI [of _ "sort qs"]) (simp add: s w')
qed


section \<open>A published runtime was scanned\<close>

text \<open>
  A clean scan of an image: Trivy, called with the policy and with none of its own environment
  variables, exited with 0, and the report it left names the image and has results.
\<close>

definition clean_scan :: "'w builder \<Rightarrow> scan_policy \<Rightarrow> string \<Rightarrow> string \<Rightarrow> bool" where
  "clean_scan B p kind img \<longleftrightarrow>
     (\<exists>w out err w' v t v' report.
        bd_run B (scan_call B p kind img) w = (Inr (0, out, err), w')
      \<and> bd_read B (scan_file B kind) v = (Inr t, v') \<and> bd_loads B t = Some report \<and> valid_report img report)"

text \<open>The registry serves a single linux/amd64 image under this name, and it carries the labels of the snapshot.\<close>

definition published_image :: "'w builder \<Rightarrow> build_source \<Rightarrow> string \<Rightarrow> bool" where
  "published_image B s img \<longleftrightarrow>
     (\<exists>w config w' c. rx_exact_image img \<and> inspect_remote B img w = (Inr config, w')
        \<and> jget_or ''config'' (JObj []) config = Inr c \<and> verify_labels c s = Inr ())"

lemma run_unchecked: "run_call B False c w = (Inr r, v) \<Longrightarrow> \<exists>x. bd_run B c (ws_world w) = (Inr r, x)"
  by (auto simp: run_call_def run_Inr split: prod.splits)

lemma report_validation_pass:
  assumes "report_validation B kind img w = (Inr ''PASS'', v)"
  shows "\<exists>x t x' report. bd_read B (scan_file B kind) x = (Inr t, x') \<and> bd_loads B t = Some report \<and> valid_report img report"
proof -
  obtain r u where body: "bindP (external (bd_read B (scan_file B kind))) (\<lambda>text. liftP (parsed B text)) w = (r, u)"
    by (rule prod.exhaust)
  with assms obtain report where "r = Inr report" and valid: "valid_report img report"
    by (auto simp: report_validation_def run_attemptP run_simps split: sum.splits if_splits)
  with body obtain t x where "bd_read B (scan_file B kind) (ws_world w) = (Inr t, x)" "parsed B t = Inr report"
    by (auto simp: run_Inr)
  with valid show ?thesis by (auto simp: parsed_def split: option.splits)
qed

lemma scan_image_pass:
  assumes "scan_image B p (kind, img) w = (Inr (''PASS'', d), v)"
  shows "clean_scan B p kind img"
proof -
  obtain st out err w1 w2 outcome w3 where run: "run_call B False (scan_call B p kind img) w1 = (Inr (st, out, err), w2)"
    and judged: "report_validation B kind img w2 = (Inr outcome, w3)" and pass: "st = 0" "outcome = ''PASS''"
    using assms unfolding scan_image_def prod.case run_Inr split_beta
    by (elim exE conjE) (force split: if_splits)
  from run_unchecked [OF run] report_validation_pass [OF judged [unfolded pass]] show ?thesis
    unfolding clean_scan_def pass by metis
qed

lemma scan_pair_clean:
  assumes "scan_pair B r a p w = (Inr u, v)"
  shows "rx_exact_image r \<and> rx_exact_image a \<and> clean_scan B p ''runtime'' r \<and> clean_scan B p ''artifact'' a
    \<and> (\<exists>scans. ws_files v ''scans.json'' = Some scans \<and> jget ''exact_runtime_image'' scans = Inr (JStr r)
        \<and> jget ''exact_artifact_image'' scans = Inr (JStr a))"
proof -
  obtain w1 rs w2 where exact: "rx_exact_image r" "rx_exact_image a"
    and scans: "mapP (scan_image B p) [(''runtime'', r), (''artifact'', a)] w1 = (Inr rs, w2)"
    and ok: "list_all (\<lambda>(_, x). x = ''PASS'') (zip [''runtime'', ''artifact''] (map fst rs))"
    and v: "\<exists>rest. ws_files v ''scans.json'' = Some (JObj ((''trivy_version'', JStr TRIVY_VERSION) # rest))
      \<and> map_of rest ''exact_runtime_image'' = Some (JStr r) \<and> map_of rest ''exact_artifact_image'' = Some (JStr a)"
    using assms unfolding scan_pair_def exact_image_def run_Inr Let_def
    by (elim exE conjE) (erule (1) that, simp_all)
  from scans obtain k1 d1 w3 k2 d2 w4 where rs: "rs = [(k1, d1), (k2, d2)]"
    and "scan_image B p (''runtime'', r) w1 = (Inr (k1, d1), w3)" "scan_image B p (''artifact'', a) w3 = (Inr (k2, d2), w4)"
    by (auto simp: run_Inr)
  moreover from ok rs have "k1 = ''PASS''" "k2 = ''PASS''" by simp_all
  ultimately show ?thesis using exact v scan_image_pass by (fastforce simp: jget_def)
qed

lemma build_published:
  assumes "build_image B s repository True w = (Inr img, v)"
  shows "\<exists>d. img = optional_text repository @ ''@'' @ d \<and> rx_digest d \<and> published_image B s img"
  using assms unfolding build_image_def publish_built_def registry_digest_def exact_image_def run_Inr Let_def if_True
  by (fastforce simp: published_image_def)


lemma frame_files:
  "update_report kvs w = (r, v) \<Longrightarrow> ws_files v = ws_files w"
  by (auto simp: update_report_def split: sum.splits)

lemma dev_publish_scanned:
  assumes "dev_publish B s repository artifact p w = (Inr u, v)"
  shows "\<exists>d scans. let img = optional_text repository @ ''@'' @ d in
      rx_digest d \<and> published_image B s img \<and> rx_exact_image artifact
    \<and> clean_scan B p ''runtime'' img \<and> clean_scan B p ''artifact'' artifact
    \<and> ws_files v ''scans.json'' = Some scans \<and> jget ''exact_runtime_image'' scans = Inr (JStr img)
    \<and> jget ''exact_artifact_image'' scans = Inr (JStr artifact)"
proof -
  obtain img w1 w2 w3 w4 where built: "build_image B s repository True w1 = (Inr img, w2)"
    and scanned: "scan_pair B img artifact p w3 = (Inr (), w4)" and last: "update_report [(''scan_status'', JStr ''PASS'')] w4 = (Inr u, v)"
    using assms unfolding dev_publish_def run_Inr by (elim exE conjE) (erule that, simp_all)
  from build_published [OF built] scan_pair_clean [OF scanned] frame_files [OF last] show ?thesis
    unfolding Let_def by metis
qed

lemma guarded_run_passed:
  assumes "guarded_run name report entry work w = (Inr 0, w')"
  shows "\<exists>x a w1 u w2. entry x = (Inr a, w1) \<and> work a w1 = (Inr u, w2) \<and> ws_files w' = (ws_files w2)(name \<mapsto> ws_report w2)"
proof -
  obtain x a w1 u w2 where runs: "entry x = (Inr a, w1)" "work a w1 = (Inr u, w2)"
    and "w' = w2\<lparr>ws_files := (ws_files w2)(name \<mapsto> ws_report w2)\<rparr>"
    using assms
    by (auto simp: guarded_run_def conclude_run_def write_report_def run_simps split: prod.splits sum.splits if_splits)
  then have "ws_files w' = (ws_files w2)(name \<mapsto> ws_report w2)" by simp
  with runs show ?thesis by blast
qed

lemma open_build_publish:
  assumes "open_build B a w = (Inr pc, v)" and "da_publish a"
  shows "\<exists>repository artifact p. da_repository a = Some repository \<and> ECR_REPOSITORY repository
    \<and> da_artifact a = Some artifact \<and> rx_exact_image artifact
    \<and> security_policy (da_severities a) (da_ignore_unfixed a) = Inr p \<and> fst pc = Some p"
proof -
  have "\<not> rx_exact_image []" by (simp add: rx_exact_image_def)
  with assms show ?thesis
    by (auto simp: open_build_def publish_arguments_def run_Inr bindR_Inr_iff split: option.splits)
qed

lemma dev_work_publish:
  assumes "dev_work B a (Some p, co) w = (Inr u, v)" and "da_artifact a = Some artifact" and "\<not> da_snapshot_only a"
  shows "\<exists>s x y y'. snapshot B co w = (Inr s, x) \<and> dev_publish B s (da_repository a) artifact p y = (Inr (), y')
    \<and> ws_files v = ws_files y'"
proof -
  obtain s x y y' where "snapshot B co w = (Inr s, x)" "dev_publish B s (da_repository a) artifact p y = (Inr (), y')"
    and last: "update_report [(''status'', JStr ''PASS'')] y' = (Inr u, v)"
    using assms by (auto simp: dev_work_def run_Inr)
  with frame_files [OF last] show ?thesis by blast
qed

text \<open>
  C37 (published means scanned). When a publishing run returns 0, the arguments named an ECR
  repository, an exact artifact image and a valid policy; a snapshot was taken; the registry serves
  an image of that repository with the labels of this snapshot under an exact digest; and Trivy,
  under this policy, found nothing to block in exactly this image and exactly the given artifact. The
  file of the scans names both.
\<close>
theorem publish_needs_clean_scans:
  assumes "dev_main B a w = (Inr 0, w')" and "da_publish a" and "\<not> da_snapshot_only a"
  shows "\<exists>repository artifact p co x s x' d scans. let img = repository @ ''@'' @ d in
      da_repository a = Some repository \<and> ECR_REPOSITORY repository
    \<and> da_artifact a = Some artifact \<and> rx_exact_image artifact
    \<and> security_policy (da_severities a) (da_ignore_unfixed a) = Inr p
    \<and> snapshot B co x = (Inr s, x') \<and> rx_digest d \<and> published_image B s img
    \<and> clean_scan B p ''runtime'' img \<and> clean_scan B p ''artifact'' artifact
    \<and> ws_files w' ''scans.json'' = Some scans \<and> jget ''exact_runtime_image'' scans = Inr (JStr img)
    \<and> jget ''exact_artifact_image'' scans = Inr (JStr artifact)"
proof -
  obtain x0 pc w1 u w2 where opened: "open_build B a x0 = (Inr pc, w1)" and worked: "dev_work B a pc w1 = (Inr u, w2)"
    and w': "ws_files w' = (ws_files w2)(''dev-runtime.json'' \<mapsto> ws_report w2)"
    using guarded_run_passed [OF assms(1) [unfolded dev_main_def]] by blast
  obtain repository artifact p where args: "da_repository a = Some repository" "ECR_REPOSITORY repository"
    "da_artifact a = Some artifact" "rx_exact_image artifact"
    "security_policy (da_severities a) (da_ignore_unfixed a) = Inr p" "fst pc = Some p"
    using open_build_publish [OF opened assms(2)] by blast
  obtain co where "pc = (Some p, co)" using args(6) by (cases pc) simp
  with worked obtain s x y y' where snap: "snapshot B co w1 = (Inr s, x)"
    and sent: "dev_publish B s (da_repository a) artifact p y = (Inr (), y')" and "ws_files w2 = ws_files y'"
    using dev_work_publish [OF _ args(3) assms(3)] by blast
  then have "ws_files w' ''scans.json'' = ws_files y' ''scans.json''" by (simp add: w')
  with dev_publish_scanned [OF sent] args snap show ?thesis
    unfolding Let_def args(1) optional_text_def option.case by metis
qed


section \<open>A run of both commands\<close>

text \<open>
  A small repository with one visible source, a hidden directory and a cache, built, published and
  scanned without a finding.
\<close>

definition sample_sum :: string where
  "sample_sum = ''00000000000000000000000000000000'' @ ''00000000000000000000000000000000''"

definition sample_commit :: string where
  "sample_commit = ''aaaaaaaaaaaaaaaaaaaaaaaaaaaaaaaaaaaaaaaa''"

definition sample_repository :: string where
  "sample_repository = ''123456789012.dkr.ecr.ap-southeast-1.amazonaws.com/model/runtime''"

definition dev_sample_artifact :: string where
  "dev_sample_artifact = ''123456789012.dkr.ecr.ap-southeast-1.amazonaws.com/model/artifact@sha256:'' @ sample_sum"

definition sample_published :: string where
  "sample_published = sample_repository @ ''@sha256:'' @ sample_sum"

definition sample_tree :: entries where
  "sample_tree =
     [(''requirements-runtime.txt'', SourceFile ''r''), (''Dockerfile.runtime'', SourceFile ''d''),
      (''artifacts'', SourceDir [(''model.joblib'', SourceFile ''m'')]),
      (''src'', SourceDir [(''.git'', SourceDir [(''x.py'', SourceFile ''x'')]),
         (''model_service'', SourceDir [(''main.py'', SourceFile ''p''), (''key.pem'', SourceFile ''k''),
            (''__pycache__'', SourceDir [(''main.py'', SourceFile ''c'')])])])]"

definition dev_sample_run :: "subprocess_call \<Rightarrow> (unit, int \<times> string \<times> string) prog" where
  "dev_sample_run c = retP (0,
     case call_args c of
       program # verb # rest \<Rightarrow>
         if program = ''git'' then (if rest = [''--show-toplevel''] then ''/repo'' else if verb = ''rev-parse'' then sample_commit else [])
         else if verb = ''--version'' then ''Version: 0.70.0''
         else if rest \<noteq> [] \<and> last rest = ''--raw'' then ''M'' else ''C''
     | _ \<Rightarrow> [], [])"

definition sample_config :: json where
  "sample_config = JObj [(''os'', JStr ''linux''), (''architecture'', JStr ''amd64''),
     (''config'', JObj [(''Labels'', JObj
       [(''org.opencontainers.image.revision'', JStr sample_commit),
        (''io.model-service.source-digest'', JStr (''sha256:'' @ sample_sum)),
        (''io.model-service.source-dirty'', JStr ''false''), (''io.model-service.artifact-sha256'', JStr sample_sum),
        (''io.model-service.production-eligible'', JStr ''false'')])])]"

definition dev_sample_scan :: "string \<Rightarrow> json" where
  "dev_sample_scan img = JObj [(''ArtifactName'', JStr img), (''Results'', JArr [JNull])]"

definition sample_documents :: "string \<Rightarrow> json option" where
  "sample_documents = map_of
     [(''M'', JObj [(''schemaVersion'', JInt 2), (''mediaType'', JStr (hd MANIFEST_TYPES)), (''config'', JObj [])]),
      (''C'', sample_config), (''B'', JObj [(''containerimage.digest'', JStr (''sha256:'' @ sample_sum))]),
      (''R'', dev_sample_scan sample_published), (''A'', dev_sample_scan dev_sample_artifact)]"

definition sample_builder :: "unit builder" where
  "sample_builder =
     \<lparr>bd_lib = \<lparr>lib_sha256 = (\<lambda>_. sample_sum), lib_float_repr = (\<lambda>_. []), lib_fromiso = (\<lambda>_. None)\<rparr>,
      bd_loads = sample_documents, bd_environ = [(''PATH'', ''/bin''), (''Trivy_Skip_Dirs'', ''/'')],
      bd_run = dev_sample_run, bd_resolve = (\<lambda>_. [''repo'']), bd_repo = [''repo''], bd_directory = [''out''],
      bd_src = [''repo'', ''src''], bd_tree = sample_tree, bd_exists = (\<lambda>_. retP False), bd_is_file = (\<lambda>_. retP True),
      bd_read = (\<lambda>path. retP (if path = ''/out/trivy-runtime.json'' then ''R''
                    else if path = ''/out/trivy-artifact.json'' then ''A'' else ''B'')),
      bd_mkdir = (\<lambda>_. retP ()), bd_cache = ''/cache'', bd_uuid = retP ''0123456789abcdef'', bd_now = retP ''now''\<rparr>"

definition sample_args :: dev_args where
  "sample_args = \<lparr>da_snapshot_only = False, da_publish = True, da_repository = Some sample_repository,
     da_artifact = Some dev_sample_artifact, da_severities = Some ''HIGH,CRITICAL'', da_ignore_unfixed = Some ''true''\<rparr>"

definition sample_space :: "unit workspace" where
  "sample_space = \<lparr>ws_world = (), ws_files = Map.empty, ws_report = JNull, ws_outputs = []\<rparr>"

lemma external_retP: "external (retP x) = retP x"
  by (simp add: external_def retP_def fun_eq_iff)

lemma bindP_retP: "bindP (retP x) f = f x" "thenP (retP u) m = m" "liftP (Inr x) = retP x" "attemptP (retP x) k = k (Inr x)"
  by (simp_all add: bindP_def thenP_def attemptP_def retP_def liftP_def fun_eq_iff)

lemmas dev_sample_simps = external_retP bindP_retP needs_def run_call_def output_of_def dev_sample_run_def requireR_True
  docker_call_def git_call_def scanner_call_def inspect_call_def

lemma dev_sample_checks:
  "rx_exact_image dev_sample_artifact" "rx_exact_image sample_published" "ECR_REPOSITORY sample_repository"
  "rx_digest (''sha256:'' @ sample_sum)" "rx_commit sample_commit" "strip [] = []"
  "version_line ''Version: 0.70.0''" "strip sample_commit = sample_commit"
  by code_simp+

lemma dev_sample_run_call:
  "bd_run sample_builder = dev_sample_run"
  by (simp add: sample_builder_def)

lemma sample_check_scanner: "check_scanner sample_builder = retP ()"
  unfolding check_scanner_def output_of_def run_call_def dev_sample_run_call
  by (simp add: dev_sample_simps dev_sample_checks)

lemma sample_inspected:
  "inspected sample_builder img = retP (the (sample_documents ''M''), sample_config)"
proof -
  have "validate_manifest (the (sample_documents ''M'')) sample_config = Inr ()" by code_simp
  moreover have "parsed sample_builder ''M'' = Inr (the (sample_documents ''M''))" "parsed sample_builder ''C'' = Inr sample_config"
    by (simp_all add: parsed_def sample_builder_def sample_documents_def)
  ultimately show ?thesis
    unfolding inspected_def output_of_def run_call_def dev_sample_run_call
    by (simp add: dev_sample_simps)
qed


definition sample_checkout :: checkout where
  "sample_checkout = \<lparr>co_commit = sample_commit, co_dirty = False\<rparr>"

definition dev_sample_source :: build_source where
  "dev_sample_source = \<lparr>co_commit = sample_commit, co_dirty = False, bs_digest = ''sha256:'' @ sample_sum,
     bs_files = map (\<lambda>n. (n, sample_sum)) [''Dockerfile.runtime'', ''requirements-runtime.txt'', ''src/model_service/main.py''],
     bs_created = ''now''\<rparr>"

lemma sample_identity: "source_identity sample_builder m = retP sample_checkout"
proof -
  have "bd_resolve sample_builder x = bd_repo sample_builder" for x by (simp add: sample_builder_def)
  then show ?thesis
    unfolding source_identity_def output_of_def run_call_def dev_sample_run_call
    by (simp add: dev_sample_simps dev_sample_checks sample_checkout_def)
qed

definition sample_paths :: "source_path list" where
  "sample_paths = root_inputs @ [SourcePath [''src'', ''model_service'', ''main.py'']]"

lemma sample_inputs:
  "source_inputs (bd_tree sample_builder) = Inr sample_paths" "sort sample_paths = sample_paths"
  "\<not> present (bd_tree sample_builder) IDENTITY_PATH"
  "\<not> is_relative_to (bd_directory sample_builder @ [''context'']) (bd_src sample_builder)"
  "list_ex (\<lambda>p. as_posix p = ''src/model_service/main.py'') sample_paths"
  by code_simp+

lemma sample_copies:
  "\<exists>fs. mapP (copy_input sample_builder) sample_paths w = (Inr (bs_files dev_sample_source), w\<lparr>ws_files := fs\<rparr>)"
proof -
  have "list_all (\<lambda>p. case read_input (bd_tree sample_builder) p of Inr _ \<Rightarrow> True | Inl _ \<Rightarrow> False) sample_paths"
    by code_simp
  moreover have "lib_sha256 (bd_lib sample_builder) x = sample_sum" for x by (simp add: sample_builder_def)
  ultimately show ?thesis
    by (auto simp: sample_paths_def root_inputs_def copy_input_run as_posix_def join_def dev_sample_source_def
        run_Inr split: sum.splits)
qed

lemma dev_sample_snapshot: "\<exists>fs. snapshot sample_builder sample_checkout w = (Inr dev_sample_source, w\<lparr>ws_files := fs\<rparr>)"
proof -
  have "lib_sha256 (bd_lib sample_builder) x = sample_sum" "bd_mkdir sample_builder p = retP ()"
    "bd_now sample_builder = retP ''now''" for p x
    by (simp_all add: sample_builder_def)
  moreover obtain fs where "mapP (copy_input sample_builder) sample_paths w = (Inr (bs_files dev_sample_source), w\<lparr>ws_files := fs\<rparr>)"
    using sample_copies by blast
  ultimately show ?thesis
    by (simp add: snapshot_def sample_inputs dev_sample_simps Let_def run_simps write_file_def files_digest_def
        dev_sample_source_def sample_checkout_def) blast
qed


definition dev_sample_policy :: scan_policy where
  "dev_sample_policy = \<lparr>sp_severities = ''HIGH,CRITICAL'', sp_ignore_unfixed = ''true''\<rparr>"

lemma sample_fields:
  "bd_exists sample_builder p = retP False" "bd_is_file sample_builder p = retP True" "bd_mkdir sample_builder p = retP ()"
  "bd_uuid sample_builder = retP ''0123456789abcdef''" "bd_now sample_builder = retP ''now''"
  by (simp_all add: sample_builder_def)

lemma sample_validation:
  "report_validation sample_builder ''runtime'' sample_published = retP ''PASS''"
  "report_validation sample_builder ''artifact'' dev_sample_artifact = retP ''PASS''"
proof -
  have "valid_report img (dev_sample_scan img)" for img
    by (simp add: valid_report_def dev_sample_scan_def get_eq_def)
  moreover have "bd_read sample_builder (scan_file sample_builder ''runtime'') = retP ''R''"
    "bd_read sample_builder (scan_file sample_builder ''artifact'') = retP ''A''"
    by (simp_all add: sample_builder_def scan_file_def evidence_path_def path_text_def join_def)
  moreover have "parsed sample_builder ''R'' = Inr (dev_sample_scan sample_published)"
    "parsed sample_builder ''A'' = Inr (dev_sample_scan dev_sample_artifact)"
    by (simp_all add: parsed_def sample_builder_def sample_documents_def)
  ultimately show "report_validation sample_builder ''runtime'' sample_published = retP ''PASS''"
    "report_validation sample_builder ''artifact'' dev_sample_artifact = retP ''PASS''"
    by (simp_all add: report_validation_def dev_sample_simps)
qed

lemma sample_scanned:
  "\<exists>d. scan_image sample_builder p (''runtime'', sample_published) = retP (''PASS'', d)"
  "\<exists>d. scan_image sample_builder p (''artifact'', dev_sample_artifact) = retP (''PASS'', d)"
  unfolding scan_image_def run_call_def dev_sample_run_call
  by (simp_all add: dev_sample_simps sample_fields sample_validation) blast+

lemma sample_scan_pair:
  "\<exists>fs. scan_pair sample_builder sample_published dev_sample_artifact dev_sample_policy w = (Inr (), w\<lparr>ws_files := fs\<rparr>)"
proof -
  obtain d1 d2 where "scan_image sample_builder dev_sample_policy (''runtime'', sample_published) = retP (''PASS'', d1)"
    "scan_image sample_builder dev_sample_policy (''artifact'', dev_sample_artifact) = retP (''PASS'', d2)"
    using sample_scanned by blast
  moreover have "security_policy (Some (sp_severities dev_sample_policy)) (Some (sp_ignore_unfixed dev_sample_policy)) = Inr dev_sample_policy"
    by code_simp
  ultimately show ?thesis
    by (auto simp: scan_pair_def exact_image_def dev_sample_simps dev_sample_checks sample_check_scanner write_file_def
        run_simps Let_def)
qed

lemma sample_build: "build_image sample_builder dev_sample_source (Some sample_repository) True = retP sample_published"
proof -
  have "bd_read sample_builder (evidence_path sample_builder [''build-metadata.json'']) = retP ''B''"
    by (simp add: sample_builder_def evidence_path_def path_text_def join_def)
  moreover have "parsed sample_builder ''B'' = Inr (JObj [(''containerimage.digest'', JStr (''sha256:'' @ sample_sum))])"
    by (simp add: parsed_def sample_builder_def sample_documents_def)
  moreover have "bindR (jget_or ''config'' (JObj []) sample_config) (\<lambda>c. verify_labels c dev_sample_source) = Inr ()"
    by code_simp
  then obtain c where "jget_or ''config'' (JObj []) sample_config = Inr c" "verify_labels c dev_sample_source = Inr ()"
    by (auto simp: bindR_Inr_iff)
  moreover have "sample_repository @ CHR ''@'' # ''sha256:'' @ sample_sum = sample_published" by (simp add: sample_published_def)
  ultimately show ?thesis
    using dev_sample_checks(2,4)
    unfolding build_image_def publish_built_def registry_digest_def read_json_file_def inspect_remote_def exact_image_def
      run_call_def dev_sample_run_call
    by (simp add: dev_sample_simps sample_inspected sample_fields optional_text_def Let_def)
qed

lemma sample_open: "open_build sample_builder sample_args = retP (Some dev_sample_policy, sample_checkout)"
proof -
  have "publish_arguments sample_args = Inr (Some dev_sample_policy)" by code_simp
  then show ?thesis by (simp add: open_build_def dev_sample_simps sample_fields sample_identity)
qed


text \<open>Steps that return, and that leave the report a dict.\<close>

definition smooth :: "('w, unit) step \<Rightarrow> bool" where
  "smooth m \<longleftrightarrow> (\<forall>w kvs. ws_report w = JObj kvs \<longrightarrow> (\<exists>v kvs'. m w = (Inr (), v) \<and> ws_report v = JObj kvs'))"

lemma smooth_thenP: "smooth m \<Longrightarrow> smooth n \<Longrightarrow> smooth (thenP m n)"
  unfolding smooth_def run_thenP by (metis (no_types, lifting) case_prod_conv sum.case(2))

lemma smooth_update: "smooth (update_report kvs)" and smooth_write: "smooth (write_file n j)"
  by (simp_all add: smooth_def update_report_def jupdate_def write_file_def)

lemma smooth_scan: "smooth (scan_pair sample_builder sample_published dev_sample_artifact dev_sample_policy)"
  unfolding smooth_def using sample_scan_pair by fastforce

lemma smooth_publish:
  "smooth (dev_publish sample_builder dev_sample_source (Some sample_repository) dev_sample_artifact dev_sample_policy)"
  unfolding dev_publish_def inspect_remote_def exact_image_def
  by (simp add: dev_sample_simps dev_sample_checks sample_check_scanner sample_inspected sample_build)
     (intro smooth_thenP smooth_update smooth_scan)

lemma smooth_work: "smooth (dev_work sample_builder sample_args (Some dev_sample_policy, sample_checkout))"
  unfolding smooth_def
proof (intro allI impI)
  fix w :: "unit workspace" and kvs
  assume w: "ws_report w = JObj kvs"
  let ?rest = "thenP (update_report (source_json dev_sample_source))
      (thenP (write_file ''source.json'' (JObj (source_json dev_sample_source)))
      (thenP (dev_publish sample_builder dev_sample_source (Some sample_repository) dev_sample_artifact dev_sample_policy)
        (update_report [(''status'', JStr ''PASS'')])))"
  obtain fs where snap: "snapshot sample_builder sample_checkout w = (Inr dev_sample_source, w\<lparr>ws_files := fs\<rparr>)"
    using dev_sample_snapshot by blast
  have "smooth ?rest" by (intro smooth_thenP smooth_update smooth_write smooth_publish)
  moreover have "ws_report (w\<lparr>ws_files := fs\<rparr>) = JObj kvs" using w by simp
  ultimately obtain v kvs' where "?rest (w\<lparr>ws_files := fs\<rparr>) = (Inr (), v)" "ws_report v = JObj kvs'"
    unfolding smooth_def by blast
  then show "\<exists>v kvs'. dev_work sample_builder sample_args (Some dev_sample_policy, sample_checkout) w = (Inr (), v)
      \<and> ws_report v = JObj kvs'"
    using snap by (simp add: dev_work_def run_bindP sample_args_def)
qed

lemma sample_main: "\<exists>v. dev_main sample_builder sample_args sample_space = (Inr 0, v)"
proof -
  let ?report = "[(''production_eligible'', JBool False), (''status'', JStr ''FAIL''), (''scan_status'', JStr ''NOT_RUN'')]"
  obtain v where "dev_work sample_builder sample_args (Some dev_sample_policy, sample_checkout)
      (sample_space\<lparr>ws_report := JObj ?report\<rparr>) = (Inr (), v)"
    using smooth_work [unfolded smooth_def, rule_format, of "sample_space\<lparr>ws_report := JObj ?report\<rparr>" ?report] by auto
  then show ?thesis
    by (simp add: dev_main_def guarded_run_def run_simps sample_open conclude_run_def write_report_def)
qed


section \<open>The properties at this run\<close>

lemma dev_builds_report_witness:
  "\<exists>rep. ws_files (snd (dev_main sample_builder sample_args sample_space)) ''dev-runtime.json'' = Some rep
     \<and> report_says ''PASS'' rep"
proof -
  obtain v where run: "dev_main sample_builder sample_args sample_space = (Inr 0, v)" using sample_main ..
  from dev_builds_report [OF insertI1 run] have "truthful ''dev-runtime.json'' sample_space (Inr 0) v" .
  then show ?thesis by (simp add: truthful_def run)
qed

lemma snapshot_exact_witness:
  "\<exists>s w' inputs. snapshot sample_builder sample_checkout sample_space = (Inr s, w') \<and> sorted_wrt (<) inputs
     \<and> SourcePath [''src'', ''model_service'', ''main.py''] \<in> set inputs
     \<and> SourcePath [''src'', ''model_service'', ''key.pem''] \<notin> set inputs
     \<and> list_all2 (copied sample_builder w') inputs (bs_files s)"
proof -
  obtain fs where run: "snapshot sample_builder sample_checkout sample_space = (Inr dev_sample_source, sample_space\<lparr>ws_files := fs\<rparr>)"
    using dev_sample_snapshot by blast
  have "well_named (SourceDir (bd_tree sample_builder))" by code_simp
  from snapshot_exact [OF run this] obtain inputs where inputs: "sorted_wrt (<) inputs"
    "\<forall>q. q \<in> set inputs \<longleftrightarrow> snapshot_input (bd_tree sample_builder) q"
    "list_all2 (copied sample_builder (sample_space\<lparr>ws_files := fs\<rparr>)) inputs (bs_files dev_sample_source)" by blast
  have "snapshot_input (bd_tree sample_builder) q \<longleftrightarrow> q \<in> set sample_paths" for q
    using source_inputs_exact [OF sample_inputs(1)] by simp
  with inputs(2) have "SourcePath [''src'', ''model_service'', ''main.py''] \<in> set inputs"
    "SourcePath [''src'', ''model_service'', ''key.pem''] \<notin> set inputs"
    by (simp_all add: sample_paths_def root_inputs_def)
  with run inputs show ?thesis by blast
qed

lemma publish_needs_clean_scans_witness:
  "\<exists>p. clean_scan sample_builder p ''artifact'' dev_sample_artifact
     \<and> security_policy (da_severities sample_args) (da_ignore_unfixed sample_args) = Inr p"
proof -
  obtain v where run: "dev_main sample_builder sample_args sample_space = (Inr 0, v)" using sample_main ..
  have "da_publish sample_args" "\<not> da_snapshot_only sample_args" by (simp_all add: sample_args_def)
  from publish_needs_clean_scans [OF run this] show ?thesis
    unfolding Let_def by (auto simp: sample_args_def)
qed

end
