(* ===== verification/Installer.thy ===== *)
theory Installer
  imports KServe "HOL-Library.Word"
begin

unbundle bit_operations_syntax

text \<open>
  The pinned installation of Prometheus and Grafana for the local canary demonstration
  (\<open>canary/bootstrap.py\<close>): the executable check, the search of an installation, its verification
  against the receipt, and \<open>ensure\<close>, which downloads, verifies, unpacks and records a release.
  The demonstration runs on Windows: paths compare without regard to case. Words have the width of
  the formats: 32 bits for the offset in an executable and for the attributes of an archive member.
  The guard of \<open>ensure\<close> on the parent of its target holds of every release and is left out; a download
  that breaks off leaves no file.
\<close>

section \<open>Files\<close>

text \<open>
  The host: files with their contents and directories, in the order in which they are listed, by
  the parts of their paths. A directory also exists where something lies below it.
\<close>

type_synonym host_path = "string list"

record 'w demo_host =
  dh_world :: 'w
  dh_files :: "(host_path \<times> string) list"
  dh_dirs :: "host_path list"

type_synonym ('w, 'a) on_demo = "('w demo_host, 'a) prog"

definition folded :: "host_path \<Rightarrow> host_path" where
  "folded p = map str_lower p"

definition strictly_below :: "host_path \<Rightarrow> host_path \<Rightarrow> bool" where
  "strictly_below p q \<longleftrightarrow> length p < length q \<and> folded (take (length p) q) = folded p"

definition relative_to :: "host_path \<Rightarrow> host_path \<Rightarrow> bool" where
  "relative_to q p \<longleftrightarrow> folded (take (length p) q) = folded p"

definition content_at :: "host_path \<Rightarrow> 'w demo_host \<Rightarrow> string option" where
  "content_at p h = map_option snd (first_such (\<lambda>(q, _). folded q = folded p) (dh_files h))"

definition is_file :: "host_path \<Rightarrow> 'w demo_host \<Rightarrow> bool" where
  "is_file p h \<longleftrightarrow> content_at p h \<noteq> None"

definition is_dir :: "host_path \<Rightarrow> 'w demo_host \<Rightarrow> bool" where
  "is_dir p h \<longleftrightarrow>
     list_ex (\<lambda>q. folded q = folded p \<or> strictly_below p q) (dh_dirs h) \<or> list_ex (\<lambda>(q, _). strictly_below p q) (dh_files h)"

definition path_exists :: "host_path \<Rightarrow> 'w demo_host \<Rightarrow> bool" where
  "path_exists p h \<longleftrightarrow> is_file p h \<or> is_dir p h"

definition beyond_host :: "('w, 'a) prog \<Rightarrow> ('w, 'a) on_demo" where
  "beyond_host m = (\<lambda>h. case m (dh_world h) of (r, v) \<Rightarrow> (r, h\<lparr>dh_world := v\<rparr>))"

definition asked :: "('w demo_host \<Rightarrow> 'a) \<Rightarrow> ('w, 'a) on_demo" where
  "asked f = (\<lambda>h. (Inr (f h), h))"

definition read_bytes :: "host_path \<Rightarrow> ('w, string) on_demo" where
  "read_bytes p = (\<lambda>h. case content_at p h of Some c \<Rightarrow> (Inr c, h) | None \<Rightarrow> (Inl (OtherError ''FileNotFoundError''), h))"

fun put_file :: "host_path \<Rightarrow> string \<Rightarrow> (host_path \<times> string) list \<Rightarrow> (host_path \<times> string) list" where
  "put_file p c [] = [(p, c)]"
| "put_file p c ((q, d) # fs) = (if folded q = folded p then (q, c) # fs else (q, d) # put_file p c fs)"

definition write_bytes :: "host_path \<Rightarrow> string \<Rightarrow> ('w, unit) on_demo" where
  "write_bytes p c = (\<lambda>h. (Inr (), h\<lparr>dh_files := put_file p c (dh_files h)\<rparr>))"

definition unlink :: "host_path \<Rightarrow> ('w, unit) on_demo" where
  "unlink p = (\<lambda>h. (Inr (), h\<lparr>dh_files := filter (\<lambda>(q, _). folded q \<noteq> folded p) (dh_files h)\<rparr>))"

definition make_dir :: "host_path \<Rightarrow> ('w, unit) on_demo" where
  "make_dir p = (\<lambda>h. (Inr (), h\<lparr>dh_dirs := dh_dirs h @ [p]\<rparr>))"

definition remove_tree :: "host_path \<Rightarrow> ('w, unit) on_demo" where
  "remove_tree p = (\<lambda>h. (Inr (),
     h\<lparr>dh_files := filter (\<lambda>(q, _). \<not> strictly_below p q) (dh_files h),
       dh_dirs := filter (\<lambda>q. \<not> relative_to q p) (dh_dirs h)\<rparr>))"

text \<open>\<open>p.replace(q)\<close>: the file takes the place of \<open>q\<close>.\<close>

definition replace_file :: "host_path \<Rightarrow> host_path \<Rightarrow> ('w, unit) on_demo" where
  "replace_file p q = bindP (read_bytes p) (\<lambda>c. thenP (unlink p) (write_bytes q c))"

section \<open>Releases\<close>

datatype product = Prometheus | Grafana

record release =
  re_version :: string
  re_url :: string
  re_sha256 :: string
  re_names :: "string list"

fun product_name :: "product \<Rightarrow> string" where
  "product_name Prometheus = ''prometheus''"
| "product_name Grafana = ''grafana''"

fun RELEASES :: "product \<Rightarrow> release" where
  "RELEASES Prometheus = \<lparr>re_version = ''3.15.0'',
     re_url = ''https://github.com/prometheus/prometheus/releases/download/v3.15.0/prometheus-3.15.0.windows-amd64.zip'',
     re_sha256 = ''5d333b385557d9adc2ff015d13da9809baccc52fb800a82d1e5c94b79258f87e'',
     re_names = [''prometheus.exe'']\<rparr>"
| "RELEASES Grafana = \<lparr>re_version = ''12.2.0'',
     re_url = ''https://dl.grafana.com/oss/release/grafana-12.2.0.windows-amd64.zip'',
     re_sha256 = ''e5d1bde97dd6f0920398c5cc3f03eebe314dcb6f20f04b0a94dcdea744b76780'',
     re_names = [''grafana-server.exe'', ''grafana.exe'']\<rparr>"

text \<open>
  The outside world: the platform, SHA-256, JSON, the program that is asked for its version (exit
  code, stdout, stderr), the download, the archive library (its members, and the files and
  directories \<open>extractall\<close> makes, relative to its target), and \<open>resolve\<close> of a host_path strictly_below a base.
\<close>

record zip_member =
  zm_name :: string
  zm_attributes :: "32 word"

record 'w installer =
  is_here :: host_path
  is_windows :: bool
  is_machine :: string
  is_sha256 :: "string \<Rightarrow> string"
  is_loads :: "string \<Rightarrow> json option"
  is_render :: "json \<Rightarrow> string"
  is_run :: "host_path \<Rightarrow> ('w, int \<times> string \<times> string) prog"
  is_download :: "string \<Rightarrow> ('w, string) prog"
  is_members :: "string \<Rightarrow> zip_member list option"
  is_unpacked :: "string \<Rightarrow> (host_path \<times> string) list \<times> host_path list"
  is_resolve :: "host_path \<Rightarrow> string \<Rightarrow> host_path"

definition cache_of :: "'w installer \<Rightarrow> product \<Rightarrow> host_path" where
  "cache_of I n = is_here I @ [''.cache'', product_name n]"

definition local_of :: "'w installer \<Rightarrow> product \<Rightarrow> host_path" where
  "local_of I n = is_here I @ [''.local'', product_name n]"

definition require_windows :: "'w installer \<Rightarrow> unit res" where
  "require_windows I =
     requireR (is_windows I \<and> str_lower (is_machine I) \<in> {''amd64'', ''x86_64''})
       (RuntimeError ''This demo requires Windows amd64 and the existing repository Python environment.'')"

section \<open>The executable\<close>

definition word_of_bytes :: "string \<Rightarrow> 32 word" where
  "word_of_bytes bs = foldr (\<lambda>c w. push_bit 8 w OR of_nat (code c)) bs 0"

definition exe_name :: "string \<Rightarrow> bool" where
  "exe_name n \<longleftrightarrow> ends_with ''.exe'' (str_lower n) \<and> 4 < length n"

definition read_at :: "nat \<Rightarrow> nat \<Rightarrow> string \<Rightarrow> string" where
  "read_at offset n content = take n (drop offset content)"

text \<open>A short read gives fewer bytes; \<open>struct.unpack\<close> of fewer than four raises.\<close>

definition check_pe :: "string \<Rightarrow> unit res" where
  "check_pe content =
     bindR (requireR (read_at 0 2 content = ''MZ'') (RuntimeError ''Not a Windows executable'')) (\<lambda>_.
     let field = read_at 0x3C 4 content
     in bindR (requireR (length field = 4) (OtherError ''struct.error'')) (\<lambda>_.
        let offset = unat (word_of_bytes field)
        in requireR (read_at offset 4 content = ''PE'' @ [CHR 0x00, CHR 0x00]
               \<and> read_at (offset + 4) 2 content = [CHR 0x64, CHR 0x86])
             (RuntimeError ''Expected Windows amd64 PE executable'')))"

definition validate_pe :: "host_path \<Rightarrow> ('w, unit) on_demo" where
  "validate_pe p =
     thenP (liftP (requireR (exe_name (last p)) (RuntimeError ''Expected Windows .exe'')))
       (bindP (read_bytes p) (\<lambda>c. liftP (check_pe c)))"

section \<open>Finding an installation\<close>

definition rglob :: "host_path \<Rightarrow> string \<Rightarrow> 'w demo_host \<Rightarrow> host_path list" where
  "rglob base filename h =
     filter (\<lambda>q. strictly_below base q \<and> str_lower (last q) = str_lower filename) (map fst (dh_files h) @ dh_dirs h)"

definition in_bin :: "host_path \<Rightarrow> bool" where
  "in_bin q \<longleftrightarrow> 2 \<le> length q \<and> str_lower (last (butlast q)) = ''bin''"

definition matches :: "product \<Rightarrow> host_path \<Rightarrow> string \<Rightarrow> 'w demo_host \<Rightarrow> host_path list" where
  "matches n base filename h =
     (let found = rglob base filename h in if n = Grafana then filter in_bin found else found)"

fun pick :: "product \<Rightarrow> host_path \<Rightarrow> string list \<Rightarrow> ('w, host_path) on_demo" where
  "pick n base [] = raiseP (RuntimeError ''Windows server executable is missing'')"
| "pick n base (filename # rest) =
     bindP (asked (matches n base filename)) (\<lambda>found.
       if length found > 1 then raiseP (RuntimeError ''Multiple installations'')
       else case found of q # _ \<Rightarrow> retP q | [] \<Rightarrow> pick n base rest)"

definition check_home :: "host_path \<Rightarrow> ('w, unit) on_demo" where
  "check_home home =
     bindP (asked (\<lambda>h. is_file (home @ [''conf'', ''defaults.ini'']) h \<and> is_dir (home @ [''public'', ''build'']) h)) (\<lambda>ok.
     thenP (liftP (requireR ok (RuntimeError ''Invalid Grafana home: conf/defaults.ini and public/build are required'')))
     (bindP (asked (path_exists (home @ [''bin'', ''grafana.exe'']))) (\<lambda>unified.
        if unified then validate_pe (home @ [''bin'', ''grafana.exe'']) else retP ())))"

definition OS_CLASSES :: "string list" where
  "OS_CLASSES = [''OSError'', ''FileNotFoundError'', ''PermissionError'', ''IsADirectoryError'', ''NotADirectoryError'']"

definition os_class :: "exn \<Rightarrow> bool" where
  "os_class e \<longleftrightarrow> is_transport_error e \<or> (case e of OtherError n \<Rightarrow> n \<in> set OS_CLASSES | _ \<Rightarrow> False)"

text \<open>The caught classes: \<open>OSError\<close>, \<open>ValueError\<close>, \<open>struct.error\<close> and \<open>RuntimeError\<close>.\<close>

definition locate_error :: "exn \<Rightarrow> bool" where
  "locate_error e \<longleftrightarrow> os_class e \<or> is_value_error e
     \<or> (case e of RuntimeError _ \<Rightarrow> True | OtherError n \<Rightarrow> n = ''struct.error'' | _ \<Rightarrow> False)"

definition located :: "product \<Rightarrow> host_path \<Rightarrow> ('w, host_path \<times> host_path) on_demo" where
  "located n base =
     bindP (pick n base (re_names (RELEASES n))) (\<lambda>executable.
     thenP (validate_pe executable)
       (if n = Grafana
        then thenP (check_home (butlast (butlast executable))) (retP (executable, butlast (butlast executable)))
        else retP (executable, butlast executable)))"

text \<open>The messages of the failures are left out, here and below: nothing tests them.\<close>

definition locate :: "'w installer \<Rightarrow> product \<Rightarrow> host_path option \<Rightarrow> ('w, host_path \<times> host_path) on_demo" where
  "locate I n base =
     catchP (located n (case base of Some p \<Rightarrow> p | None \<Rightarrow> local_of I n))
       (\<lambda>e. if locate_error e then raiseP (RuntimeError (product_name n @ '' bootstrap validation failed'')) else raiseP e)"

section \<open>The version\<close>

text \<open>\<open>(?<![\d.])version(?![\d.])\<close>, searched in the output.\<close>

definition dotted :: "char \<Rightarrow> bool" where
  "dotted c \<longleftrightarrow> digit c \<or> c = CHR ''.''"

fun version_found :: "string \<Rightarrow> bool \<Rightarrow> string \<Rightarrow> bool" where
  "version_found v free [] = (free \<and> v = [])"
| "version_found v free (c # s) =
     (free \<and> starts_with v (c # s)
        \<and> (case drop (length v) (c # s) of [] \<Rightarrow> True | d # _ \<Rightarrow> \<not> dotted d)
      \<or> version_found v (\<not> dotted c) s)"

definition check_version :: "'w installer \<Rightarrow> product \<Rightarrow> host_path \<Rightarrow> ('w, string) on_demo" where
  "check_version I n executable =
     bindP (beyond_host (is_run I executable)) (\<lambda>(status, out, err).
     thenP (liftP (requireR (status = 0 \<and> version_found (re_version (RELEASES n)) True (out @ err))
              (RuntimeError (product_name n @ '' version check failed''))))
       (retP (strip (out @ err))))"

section \<open>Verifying an installation\<close>

definition digest_of :: "'w installer \<Rightarrow> host_path \<Rightarrow> ('w, string) on_demo" where
  "digest_of I p = bindP (read_bytes p) (\<lambda>c. retP (is_sha256 I c))"

definition path_key :: "host_path \<Rightarrow> string" where
  "path_key p = join [CHR 0x5C] p"

definition receipt_matches :: "product \<Rightarrow> json \<Rightarrow> bool res" where
  "receipt_matches n receipt =
     andR [get_eq ''version'' (JStr (re_version (RELEASES n))) receipt,
           get_eq ''url'' (JStr (re_url (RELEASES n))) receipt, get_eq ''sha256'' (JStr (re_sha256 (RELEASES n))) receipt]"

fun check_files :: "'w installer \<Rightarrow> host_path \<Rightarrow> (string \<times> json) list \<Rightarrow> ('w, unit) on_demo" where
  "check_files I target [] = retP ()"
| "check_files I target ((rel, expected) # rest) =
     (let p = is_resolve I target rel
      in if \<not> relative_to p target then raiseP (ValueError ''installed file hash mismatch'')
         else bindP (digest_of I p) (\<lambda>d.
                if py_eq expected (JStr d) then check_files I target rest
                else raiseP (ValueError ''installed file hash mismatch'')))"

definition loaded :: "'w installer \<Rightarrow> string \<Rightarrow> json res" where
  "loaded I t = (case is_loads I t of Some j \<Rightarrow> Inr j | None \<Rightarrow> Inl (ValueError ''JSONDecodeError''))"

definition items :: "json \<Rightarrow> (string \<times> json) list res" where
  "items j = (case j of JObj kvs \<Rightarrow> Inr kvs | _ \<Rightarrow> Inl AttributeError)"

definition check_receipt :: "'w installer \<Rightarrow> product \<Rightarrow> host_path \<Rightarrow> ('w, unit) on_demo" where
  "check_receipt I n executable =
     bindP (read_bytes (local_of I n @ [''installation.json''])) (\<lambda>t.
     bindP (liftP (loaded I t)) (\<lambda>receipt.
     bindP (liftP (receipt_matches n receipt)) (\<lambda>same.
     thenP (liftP (requireR same (ValueError ''release mismatch'')))
     (bindP (liftP (bindR (jget ''files'' receipt) items)) (\<lambda>recorded.
      thenP (check_files I (local_of I n) recorded)
       (liftP (requireR (path_key (drop (length (local_of I n)) executable) \<in> fst ` set recorded)
          (ValueError ''executable not recorded''))))))))"

definition validate_installation :: "'w installer \<Rightarrow> product \<Rightarrow> ('w, host_path \<times> host_path) on_demo" where
  "validate_installation I n =
     bindP (locate I n None) (\<lambda>(executable, home).
     thenP (catchP (check_receipt I n executable)
              (\<lambda>e. if os_class e \<or> is_value_error e \<or> is_key_error e
                   then raiseP (RuntimeError (product_name n @ '' installation is not verified'')) else raiseP e))
     (bindP (check_version I n executable) (\<lambda>_. retP (executable, home))))"

section \<open>Installing\<close>

text \<open>\<open>rsplit("/", 1)[1]\<close>, and \<open>with_suffix\<close> for an archive, whose name ends in \<open>.zip\<close>.\<close>

definition archive_of :: "'w installer \<Rightarrow> product \<Rightarrow> host_path" where
  "archive_of I n = cache_of I n @ [last (split_on CHR ''/'' (re_url (RELEASES n)))]"

definition partial_of :: "'w installer \<Rightarrow> product \<Rightarrow> host_path" where
  "partial_of I n = butlast (archive_of I n) @ [last (archive_of I n) @ ''.partial'']"

definition fetch :: "'w installer \<Rightarrow> product \<Rightarrow> ('w, unit) on_demo" where
  "fetch I n =
     bindP (beyond_host (is_download I (re_url (RELEASES n)))) (\<lambda>c.
     thenP (write_bytes (partial_of I n) c)
     (bindP (digest_of I (partial_of I n)) (\<lambda>d.
        if d \<noteq> re_sha256 (RELEASES n)
        then thenP (unlink (partial_of I n)) (raiseP (RuntimeError ''Checksum mismatch''))
        else replace_file (partial_of I n) (archive_of I n))))"

text \<open>A member must stay below the target, name no drive or stream, and be no symbolic link.\<close>

definition safe_member :: "'w installer \<Rightarrow> host_path \<Rightarrow> zip_member \<Rightarrow> bool" where
  "safe_member I target m \<longleftrightarrow>
     relative_to (is_resolve I target (zm_name m)) target \<and> CHR '':'' \<notin> set (zm_name m)
     \<and> drop_bit 16 (zm_attributes m) AND 0xF000 \<noteq> 0xA000"

definition unpack :: "'w installer \<Rightarrow> product \<Rightarrow> string \<Rightarrow> ('w, unit) on_demo" where
  "unpack I n archive =
     (let target = local_of I n
      in bindP (liftP (case is_members I archive of Some ms \<Rightarrow> Inr ms | None \<Rightarrow> Inl (OtherError ''BadZipFile''))) (\<lambda>ms.
         thenP (liftP (requireR (list_all (safe_member I target) ms) (RuntimeError ''Unsafe archive member'')))
        (bindP (asked (path_exists target)) (\<lambda>old.
         thenP (whenP old (remove_tree target))
        (thenP (make_dir target)
           (\<lambda>h. (Inr (),
              h\<lparr>dh_files := fold (\<lambda>(q, c). put_file (target @ q) c) (fst (is_unpacked I archive)) (dh_files h),
                dh_dirs := dh_dirs h @ map (\<lambda>q. target @ q) (snd (is_unpacked I archive))\<rparr>)))))))"

definition recorded_files :: "product \<Rightarrow> host_path \<times> host_path \<Rightarrow> 'w demo_host \<Rightarrow> host_path list" where
  "recorded_files n = (\<lambda>(executable, home) h.
     executable # (if n = Grafana
       then (home @ [''conf'', ''defaults.ini''])
         # (if is_file (home @ [''bin'', ''grafana.exe'']) h then [home @ [''bin'', ''grafana.exe'']] else [])
       else []))"

text \<open>A dict comprehension: a later file with the same key replaces the digest of an earlier one.\<close>

fun set_entry :: "string \<Rightarrow> json \<Rightarrow> (string \<times> json) list \<Rightarrow> (string \<times> json) list" where
  "set_entry k v [] = [(k, v)]"
| "set_entry k v ((k', v') # kvs) = (if k' = k then (k, v) # kvs else (k', v') # set_entry k v kvs)"

definition file_digests :: "'w installer \<Rightarrow> host_path \<Rightarrow> host_path list \<Rightarrow> ('w, (string \<times> json) list) on_demo" where
  "file_digests I target ps =
     bindP (mapP (\<lambda>p. bindP (digest_of I p) (\<lambda>d. retP (path_key (drop (length target) p), JStr d))) ps) (\<lambda>kvs.
       retP (fold (\<lambda>(k, v). set_entry k v) kvs []))"

definition receipt_json :: "product \<Rightarrow> string \<Rightarrow> (string \<times> json) list \<Rightarrow> json" where
  "receipt_json n output files =
     JObj [(''version'', JStr (re_version (RELEASES n))), (''url'', JStr (re_url (RELEASES n))),
           (''sha256'', JStr (re_sha256 (RELEASES n))), (''platform'', JStr ''windows''), (''architecture'', JStr ''amd64''),
           (''archive_type'', JStr ''zip''), (''version_output'', JStr output), (''files'', JObj files)]"

definition record_installation :: "'w installer \<Rightarrow> product \<Rightarrow> ('w, host_path \<times> host_path) on_demo" where
  "record_installation I n =
     bindP (locate I n None) (\<lambda>(executable, home).
     bindP (check_version I n executable) (\<lambda>output.
     bindP (asked (recorded_files n (executable, home))) (\<lambda>ps.
     bindP (file_digests I (local_of I n) ps) (\<lambda>files.
     thenP (write_bytes (local_of I n @ [''installation.json'']) (is_render I (receipt_json n output files)))
       (retP (executable, home))))))"

definition install :: "'w installer \<Rightarrow> product \<Rightarrow> ('w, host_path \<times> host_path) on_demo" where
  "install I n =
     thenP (make_dir (cache_of I n))
     (bindP (asked (path_exists (archive_of I n))) (\<lambda>cached.
      thenP (whenP (\<not> cached) (fetch I n))
     (bindP (read_bytes (archive_of I n)) (\<lambda>archive.
      thenP (liftP (requireR (is_sha256 I archive = re_sha256 (RELEASES n)) (RuntimeError ''Cached archive checksum mismatch'')))
     (thenP (unpack I n archive) (record_installation I n))))))"

definition ensure_installed :: "'w installer \<Rightarrow> product \<Rightarrow> ('w, host_path \<times> host_path) on_demo" where
  "ensure_installed I n =
     thenP (liftP (require_windows I))
       (catchP (validate_installation I n)
         (\<lambda>e. case e of RuntimeError _ \<Rightarrow> install I n | _ \<Rightarrow> raiseP e))"

definition install_all :: "'w installer \<Rightarrow> ('w, unit) on_demo" where
  "install_all I =
     thenP (liftP (require_windows I))
       (bindP (ensure_installed I Prometheus) (\<lambda>_. bindP (ensure_installed I Grafana) (\<lambda>_. retP ())))"

end
