(* ===== verification/InstallerProperties.thy ===== *)
theory InstallerProperties
  imports Installer SourceTree
begin

text \<open>
  What the installation of the demonstration promises: an installation that \<open>ensure\<close> returns is one
  that the verification accepts, and when it was not accepted before, it came from an archive with
  the pinned digest whose members all stay strictly_below the target.
\<close>

section \<open>Steps that only look at the disk\<close>

definition disk :: "'w demo_host \<Rightarrow> (host_path \<times> string) list \<times> host_path list" where
  "disk h = (dh_files h, dh_dirs h)"

text \<open>The outcome of a steady step depends on the disk alone, and it leaves the disk as it is.\<close>

definition steady :: "('w, 'a) on_demo \<Rightarrow> bool" where
  "steady m \<longleftrightarrow> (\<forall>h1 h2. disk h1 = disk h2 \<longrightarrow> fst (m h1) = fst (m h2)) \<and> (\<forall>h. disk (snd (m h)) = disk h)"

lemma steadyD:
  "steady m \<Longrightarrow> disk h1 = disk h2 \<Longrightarrow> fst (m h1) = fst (m h2)" "steady m \<Longrightarrow> disk (snd (m h)) = disk h"
  unfolding steady_def by blast+

lemma steadyI:
  assumes "\<And>h1 h2. disk h1 = disk h2 \<Longrightarrow> fst (m h1) = fst (m h2) \<and> disk (snd (m h1)) = disk h1"
  shows "steady m"
  unfolding steady_def using assms by blast

lemma steady_pure: "steady (retP a)" "steady (raiseP e)" "steady (liftP r)"
  by (simp_all add: steady_def run_simps)

lemma steady_attemptP:
  assumes "steady m" and "\<And>r. steady (k r)"
  shows "steady (attemptP m k)"
proof (rule steadyI)
  fix h1 h2 :: "'a demo_host"
  assume same: "disk h1 = disk h2"
  obtain r1 v1 r2 v2 where m: "m h1 = (r1, v1)" "m h2 = (r2, v2)" by (meson prod.exhaust)
  with steadyD(1) [OF assms(1) same] have "r2 = r1" by simp
  moreover have v: "disk v1 = disk h1" "disk v2 = disk h2"
    using steadyD(2) [OF assms(1), of h1] steadyD(2) [OF assms(1), of h2] m by simp_all
  ultimately show "fst (attemptP m k h1) = fst (attemptP m k h2) \<and> disk (snd (attemptP m k h1)) = disk h1"
    using steadyD(1) [OF assms(2) [of r1], of v1 v2] steadyD(2) [OF assms(2) [of r1], of v1] same m
    by (simp add: run_attemptP)
qed

lemma steady_bindP: "steady m \<Longrightarrow> (\<And>a. steady (f a)) \<Longrightarrow> steady (bindP m f)"
  unfolding bindP_def by (rule steady_attemptP) (auto intro!: steady_pure split: sum.split)

lemma steady_thenP: "steady m \<Longrightarrow> steady n \<Longrightarrow> steady (thenP m n)"
  unfolding thenP_def by (rule steady_bindP)

lemma steady_catchP: "steady m \<Longrightarrow> (\<And>e. steady (f e)) \<Longrightarrow> steady (catchP m f)"
  unfolding catchP_def by (rule steady_attemptP) (auto intro!: steady_pure split: sum.split)

lemma steady_if: "(b \<Longrightarrow> steady m) \<Longrightarrow> (\<not> b \<Longrightarrow> steady n) \<Longrightarrow> steady (if b then m else n)"
  by simp

lemmas steady_intros = steady_pure steady_bindP steady_thenP steady_catchP steady_if

lemma content_at_disk: "disk h1 = disk h2 \<Longrightarrow> content_at p h1 = content_at p h2"
  by (simp add: disk_def content_at_def)

lemma steady_asked:
  assumes "\<And>h1 h2. disk h1 = disk h2 \<Longrightarrow> f h1 = f h2"
  shows "steady (asked f)"
proof (rule steadyI)
  fix h1 h2 :: "'a demo_host"
  assume "disk h1 = disk h2"
  from assms [OF this] show "fst (asked f h1) = fst (asked f h2) \<and> disk (snd (asked f h1)) = disk h1"
    by (simp add: asked_def)
qed

lemma steady_read: "steady (read_bytes p)"
proof (rule steadyI)
  fix h1 h2 :: "'a demo_host"
  assume "disk h1 = disk h2"
  from content_at_disk [OF this, of p]
  show "fst (read_bytes p h1) = fst (read_bytes p h2) \<and> disk (snd (read_bytes p h1)) = disk h1"
    by (simp add: read_bytes_def split: option.split)
qed

lemma steady_validate_pe: "steady (validate_pe p)"
  unfolding validate_pe_def by (intro steady_thenP steady_bindP steady_pure steady_read)

lemma steady_pick: "steady (pick n base names)"
proof (induction names)
  case (Cons filename names)
  have "steady (asked (matches n base filename))"
    by (rule steady_asked) (simp add: matches_def rglob_def disk_def)
  with Cons show ?case by (auto intro!: steady_intros split: list.split)
qed (auto intro: steady_intros)

lemma steady_check_home: "steady (check_home home)"
proof -
  have "steady (asked (path_exists p))" "steady (asked (\<lambda>h. is_file p h \<and> is_dir q h))" for p q
    by (rule steady_asked, simp add: is_file_def is_dir_def path_exists_def content_at_def disk_def)+
  then show ?thesis unfolding check_home_def by (intro steady_intros steady_validate_pe)
qed

lemma steady_locate: "steady (locate I n base)"
  unfolding locate_def located_def
  by (intro steady_intros steady_pick steady_validate_pe steady_check_home)

lemma steady_digest: "steady (digest_of I p)"
  unfolding digest_of_def by (intro steady_bindP steady_pure steady_read)

lemma steady_check_files: "steady (check_files I target kvs)"
proof (induction kvs)
  case (Cons kv kvs)
  then show ?case by (cases kv) (auto simp: Let_def intro!: steady_intros steady_digest)
qed (auto intro: steady_intros)

lemma steady_check_receipt: "steady (check_receipt I n executable)"
  unfolding check_receipt_def by (intro steady_intros steady_read steady_check_files)

text \<open>The program that is asked for its version gives the same answer every time.\<close>

definition settled_version :: "'w installer \<Rightarrow> bool" where
  "settled_version I \<longleftrightarrow> (\<forall>p w w'. fst (is_run I p w) = fst (is_run I p w'))"

lemma steady_check_version:
  assumes "settled_version I"
  shows "steady (check_version I n p)"
proof -
  have "steady (beyond_host (is_run I p))"
    using assms by (auto simp: steady_def beyond_host_def settled_version_def disk_def split_beta)
  then show ?thesis unfolding check_version_def by (auto intro!: steady_intros split: prod.split)
qed

lemma steady_validate: "settled_version I \<Longrightarrow> steady (validate_installation I n)"
  unfolding validate_installation_def
  by (auto intro!: steady_intros steady_locate steady_check_receipt steady_check_version split: prod.split)


section \<open>What the steps establish\<close>

lemma asked_Inr: "asked f h = (Inr a, h') \<longleftrightarrow> a = f h \<and> h' = h"
  by (auto simp: asked_def)

lemma read_bytes_Inr: "read_bytes p h = (Inr c, h') \<longleftrightarrow> content_at p h = Some c \<and> h' = h"
  by (auto simp: read_bytes_def split: option.split)

lemma host_retP_Inr: "retP a w = (Inr b, v) \<longleftrightarrow> b = a \<and> v = w"
  by (auto simp: run_retP)

lemma host_liftP_Inr: "liftP r w = (Inr b, v) \<longleftrightarrow> r = Inr b \<and> v = w"
  by (auto simp: run_liftP)

lemma host_raiseP_Inr: "raiseP e w = (Inr a, v) \<longleftrightarrow> False"
  by (auto simp: run_raiseP)

lemmas host_Inr = host_raiseP_Inr bindP_Inr_iff thenP_def asked_Inr read_bytes_Inr host_retP_Inr host_liftP_Inr requireR_iff

definition valid_pe :: "host_path \<Rightarrow> 'w demo_host \<Rightarrow> bool" where
  "valid_pe p h \<longleftrightarrow> exe_name (last p) \<and> (\<exists>c. content_at p h = Some c \<and> check_pe c = Inr ())"

lemma validate_pe_Inr: "validate_pe p h = (Inr u, h') \<longleftrightarrow> valid_pe p h \<and> h' = h"
  by (auto simp: validate_pe_def valid_pe_def host_Inr)

lemma check_home_Inr:
  "check_home home h = (Inr u, h') \<longleftrightarrow> h' = h \<and> is_file (home @ [''conf'', ''defaults.ini'']) h
     \<and> is_dir (home @ [''public'', ''build'']) h
     \<and> (path_exists (home @ [''bin'', ''grafana.exe'']) h \<longrightarrow> valid_pe (home @ [''bin'', ''grafana.exe'']) h)"
  by (auto simp: check_home_def host_Inr validate_pe_Inr)

text \<open>The search as a function of the listings.\<close>

fun picked :: "(string \<Rightarrow> host_path list) \<Rightarrow> string list \<Rightarrow> host_path option" where
  "picked found [] = None"
| "picked found (filename # rest) =
     (if length (found filename) > 1 then None
      else case found filename of q # _ \<Rightarrow> Some q | [] \<Rightarrow> picked found rest)"

lemma pick_Inr: "pick n base names h = (Inr q, h') \<longleftrightarrow> picked (\<lambda>f. matches n base f h) names = Some q \<and> h' = h"
  by (induction names) (auto simp: host_Inr split: list.split)

lemma picked_in: "picked found names = Some q \<Longrightarrow> \<exists>f \<in> set names. q \<in> set (found f)"
  by (induction names) (auto split: if_splits list.splits)

lemma picked_cong: "(\<And>f. f \<in> set names \<Longrightarrow> g f = found f) \<Longrightarrow> picked g names = picked found names"
  by (induction names) (auto split: list.split)

lemma locate_Inr:
  "locate I n None h = (Inr (executable, home), h') \<longleftrightarrow> h' = h
     \<and> picked (\<lambda>f. matches n (local_of I n) f h) (re_names (RELEASES n)) = Some executable \<and> valid_pe executable h
     \<and> (if n = Grafana then home = butlast (butlast executable) \<and> check_home home h = (Inr (), h)
        else home = butlast executable)"
proof -
  have "locate I n None h = (Inr r, h') \<longleftrightarrow> located n (local_of I n) h = (Inr r, h')" for r
    by (auto simp: locate_def run_simps split: prod.splits sum.splits)
  then show ?thesis
    by (auto simp: located_def host_Inr pick_Inr validate_pe_Inr check_home_Inr)
qed

lemma release_names: "f \<in> set (re_names (RELEASES n)) \<Longrightarrow> str_lower f \<noteq> ''installation.json''"
proof -
  have "list_all (\<lambda>f. str_lower f \<noteq> ''installation.json'') (re_names (RELEASES Prometheus))"
    "list_all (\<lambda>f. str_lower f \<noteq> ''installation.json'') (re_names (RELEASES Grafana))" by code_simp+
  then show "f \<in> set (re_names (RELEASES n)) \<Longrightarrow> str_lower f \<noteq> ''installation.json''"
    by (cases n) (auto simp: list_all_iff)
qed

text \<open>An executable that was found lies below its base, under one of the names searched for.\<close>

lemma located_executable:
  assumes "picked (\<lambda>f. matches n base f h) (re_names (RELEASES n)) = Some q"
  shows "strictly_below base q" and "last q \<noteq> [] \<Longrightarrow> str_lower (last q) \<noteq> ''installation.json''"
    and "n = Grafana \<Longrightarrow> in_bin q" and "q \<in> set (map fst (dh_files h) @ dh_dirs h)"
proof -
  from picked_in [OF assms] obtain f where f: "f \<in> set (re_names (RELEASES n))" and q: "q \<in> set (matches n base f h)" by blast
  have "str_lower f \<noteq> ''installation.json''" using f release_names by blast
  with q show "strictly_below base q" and "last q \<noteq> [] \<Longrightarrow> str_lower (last q) \<noteq> ''installation.json''"
    and "n = Grafana \<Longrightarrow> in_bin q" and "q \<in> set (map fst (dh_files h) @ dh_dirs h)"
    by (auto simp: matches_def rglob_def Let_def split: if_splits)
qed


section \<open>Writing the receipt\<close>

abbreviation with_file :: "host_path \<Rightarrow> string \<Rightarrow> 'w demo_host \<Rightarrow> 'w demo_host" where
  "with_file p c h \<equiv> h\<lparr>dh_files := put_file p c (dh_files h)\<rparr>"

lemma content_put_other: "folded q \<noteq> folded p \<Longrightarrow> content_at q (with_file p c h) = content_at q h"
proof -
  assume "folded q \<noteq> folded p"
  then have "map_option snd (first_such (\<lambda>(r, _). folded r = folded q) (put_file p c fs))
      = map_option snd (first_such (\<lambda>(r, _). folded r = folded q) fs)" for fs :: "(host_path \<times> string) list"
    by (induction fs) auto
  then show ?thesis by (simp add: content_at_def)
qed

lemma content_put_same: "content_at p (with_file p c h) = Some c"
proof -
  have "map_option snd (first_such (\<lambda>(r, _). folded r = folded p) (put_file p c fs)) = Some c" for fs :: "(host_path \<times> string) list"
    by (induction fs) auto
  then show ?thesis by (simp add: content_at_def)
qed

lemma paths_put: "map fst (put_file p c fs) = map fst fs \<or> map fst (put_file p c fs) = map fst fs @ [p]"
proof (induction fs)
  case (Cons f fs)
  then show ?case by (cases f, cases "folded (fst f) = folded p") auto
qed simp

lemma list_ex_put: "list_ex P (map fst (put_file p c fs)) \<longleftrightarrow> list_ex P (map fst fs) \<or> P p \<and> map fst (put_file p c fs) \<noteq> map fst fs"
  using paths_put [of p c fs] by (elim disjE) simp_all

lemma is_dir_paths:
  "is_dir q h \<longleftrightarrow> list_ex (\<lambda>r. folded r = folded q \<or> strictly_below q r) (dh_dirs h) \<or> list_ex (strictly_below q) (map fst (dh_files h))"
proof -
  have "list_ex (\<lambda>(r, _). strictly_below q r) fs = list_ex (strictly_below q) (map fst fs)" for fs :: "(host_path \<times> string) list"
    by (induction fs) auto
  then show ?thesis by (simp add: is_dir_def)
qed

lemma with_file_listing: "dh_dirs (with_file p c h) = dh_dirs h" "dh_files (with_file p c h) = put_file p c (dh_files h)"
  by simp_all

lemma is_dir_put: "is_dir q h \<Longrightarrow> is_dir q (with_file p c h)"
  unfolding is_dir_paths with_file_listing list_ex_put by blast

lemma is_dir_put_other: "\<not> strictly_below q p \<Longrightarrow> is_dir q (with_file p c h) = is_dir q h"
  unfolding is_dir_paths with_file_listing list_ex_put by blast

lemma matches_put: "str_lower (last p) \<noteq> str_lower f \<Longrightarrow> matches n base f (with_file p c h) = matches n base f h"
  using paths_put [of p c "dh_files h"] by (auto simp: matches_def rglob_def)

lemma valid_pe_put: "folded q \<noteq> folded p \<Longrightarrow> valid_pe q (with_file p c h) = valid_pe q h"
  by (simp add: valid_pe_def content_put_other)

text \<open>Paths of different length, or with different last names, are different.\<close>

lemma folded_last: "p \<noteq> [] \<Longrightarrow> q \<noteq> [] \<Longrightarrow> folded p = folded q \<Longrightarrow> str_lower (last p) = str_lower (last q)"
  unfolding folded_def by (metis last_map)

lemma folded_length: "folded p = folded q \<Longrightarrow> length p = length q"
  unfolding folded_def by (metis length_map)

definition receipt_path :: "'w installer \<Rightarrow> product \<Rightarrow> host_path" where
  "receipt_path I n = local_of I n @ [''installation.json'']"

lemma str_lower_receipt: "str_lower ''installation.json'' = ''installation.json''"
  by code_simp

lemma not_receipt: "q \<noteq> [] \<Longrightarrow> str_lower (last q) \<noteq> ''installation.json'' \<Longrightarrow> folded q \<noteq> folded (receipt_path I n)"
  using folded_last [of q "receipt_path I n"] by (auto simp: receipt_path_def str_lower_receipt)

text \<open>The home of Grafana lies in the base: its executable stands in a \<open>bin\<close> strictly_below it.\<close>

lemma grafana_home:
  assumes "strictly_below (local_of I Grafana) q" and "in_bin q"
  shows "length (local_of I Grafana) \<le> length (butlast (butlast q))" and "relative_to (butlast (butlast q)) (local_of I Grafana)"
proof -
  let ?l = "length (local_of I Grafana)"
  have longer: "?l < length q" and pre: "folded (take ?l q) = folded (local_of I Grafana)"
    using assms(1) by (auto simp: strictly_below_def)
  have "length q \<noteq> Suc ?l"
  proof
    assume len: "length q = Suc ?l"
    then have "butlast q = take ?l q" by (simp add: butlast_conv_take)
    with pre have "folded (butlast q) = folded (local_of I Grafana)" by simp
    moreover have "0 < length (butlast q)" using len by (simp add: local_of_def)
    then have "butlast q \<noteq> []" by (metis length_greater_0_conv)
    ultimately have "str_lower (last (butlast q)) = str_lower ''grafana''"
      using folded_last [of "butlast q" "local_of I Grafana"] by (simp add: local_of_def)
    moreover have "str_lower ''grafana'' \<noteq> ''bin''" by code_simp
    ultimately show False using assms(2) by (simp add: in_bin_def)
  qed
  with longer show "?l \<le> length (butlast (butlast q))" by simp
  then have "take ?l (butlast (butlast q)) = take ?l q" by (simp add: butlast_conv_take)
  with pre show "relative_to (butlast (butlast q)) (local_of I Grafana)" by (simp add: relative_to_def)
qed

lemma locate_put:
  assumes "locate I n None h = (Inr (executable, home), h)"
  shows "locate I n None (with_file (receipt_path I n) c h) = (Inr (executable, home), with_file (receipt_path I n) c h)"
proof -
  let ?h = "with_file (receipt_path I n) c h"
  from assms have picked: "picked (\<lambda>f. matches n (local_of I n) f h) (re_names (RELEASES n)) = Some executable"
    and pe: "valid_pe executable h"
    and home: "if n = Grafana then home = butlast (butlast executable) \<and> check_home home h = (Inr (), h)
        else home = butlast executable"
    by (auto simp: locate_Inr)
  note exe = located_executable [OF picked]
  have same: "matches n (local_of I n) f ?h = matches n (local_of I n) f h" if "f \<in> set (re_names (RELEASES n))" for f
    using that by (intro matches_put) (metis receipt_path_def last_snoc str_lower_receipt release_names)
  have found: "picked (\<lambda>f. matches n (local_of I n) f ?h) (re_names (RELEASES n)) = Some executable"
    using picked_cong [of "re_names (RELEASES n)" "\<lambda>f. matches n (local_of I n) f ?h", OF same] picked by simp
  have "executable \<noteq> []" using exe(1) by (auto simp: strictly_below_def)
  moreover have "last executable \<noteq> []" using pe by (auto simp: valid_pe_def exe_name_def)
  ultimately have "valid_pe executable ?h" using pe exe(2) not_receipt valid_pe_put by metis
  moreover have "check_home home ?h = (Inr (), ?h)" if n: "n = Grafana"
  proof -
    have len: "length (local_of I n) \<le> length home" using grafana_home(1) exe(1,3) home n by auto
    have conf: "folded (home @ [''conf'', ''defaults.ini'']) \<noteq> folded (receipt_path I n)"
      and bin: "folded (home @ [''bin'', ''grafana.exe'']) \<noteq> folded (receipt_path I n)"
      using len folded_length [of "home @ [x, y]" "receipt_path I n" for x y] by (auto simp: receipt_path_def)
    have "\<not> strictly_below (home @ [''bin'', ''grafana.exe'']) (receipt_path I n)"
      using len by (simp add: strictly_below_def receipt_path_def)
    note put = content_put_other [OF conf] content_put_other [OF bin] valid_pe_put [OF bin] is_dir_put_other [OF this]
    have "check_home home h = (Inr (), h)" using home unfolding if_P [OF n] by blast
    then show ?thesis unfolding check_home_Inr is_file_def path_exists_def put by (blast intro: is_dir_put)
  qed
  ultimately show ?thesis using home found by (auto simp: locate_Inr)
qed


section \<open>The receipt of a new installation is accepted\<close>

text \<open>The names of a path hold no separator and no drive, and are no reference to a directory.\<close>

definition plain_name :: "string \<Rightarrow> bool" where
  "plain_name s \<longleftrightarrow> s \<notin> {[], ''.'', ''..''} \<and> set s \<inter> {CHR 0x5C, CHR ''/'', CHR '':''} = {}"

definition plain_path :: "host_path \<Rightarrow> bool" where
  "plain_path p \<longleftrightarrow> p \<noteq> [] \<and> list_all plain_name p"

definition below_plain :: "host_path \<Rightarrow> 'w demo_host \<Rightarrow> bool" where
  "below_plain base h \<longleftrightarrow>
     (\<forall>q \<in> set (map fst (dh_files h) @ dh_dirs h). strictly_below base q \<longrightarrow> plain_path (drop (length base) q))"

text \<open>Documents whose dicts have distinct keys and whose leaves are texts.\<close>

fun text_document :: "json \<Rightarrow> bool" where
  "text_document (JStr s) = True"
| "text_document (JObj kvs) = (distinct (map fst kvs) \<and> list_all (\<lambda>kv. text_document (snd kv)) kvs)"
| "text_document _ = False"

lemma set_entry_keys: "map fst (set_entry k v kvs) = (if k \<in> fst ` set kvs then map fst kvs else map fst kvs @ [k])"
proof (induction kvs)
  case (Cons e kvs)
  then show ?case by (cases e, cases "fst e = k") (auto split: if_splits)
qed simp

lemma set_entry_set: "set (set_entry k v kvs) \<subseteq> insert (k, v) (set kvs)"
proof (induction kvs)
  case (Cons e kvs)
  then show ?case by (cases e, cases "fst e = k") auto
qed simp

lemma set_entries_distinct: "distinct (map fst old) \<Longrightarrow> distinct (map fst (fold (\<lambda>(k, v). set_entry k v) kvs old))"
  by (induction kvs arbitrary: old) (auto simp: set_entry_keys)

lemma set_entries_set: "set (fold (\<lambda>(k, v). set_entry k v) kvs old) \<subseteq> set kvs \<union> set old"
  using set_entry_set by (induction kvs arbitrary: old) fastforce+

lemma set_entries_keys: "fst ` set (fold (\<lambda>(k, v). set_entry k v) kvs old) = fst ` set kvs \<union> fst ` set old"
proof (induction kvs arbitrary: old)
  case (Cons kv kvs)
  obtain k v where kv: "kv = (k, v)" by (rule prod.exhaust)
  have "fst ` set (set_entry k v old) = insert k (fst ` set old)"
    using arg_cong [OF set_entry_keys [of k v old], of set] by (auto simp: image_iff split: if_splits)
  with Cons [of "set_entry k v old"] show ?case by (simp add: kv)
qed simp

text \<open>The digests of the recorded files.\<close>

lemma digest_of_Inr: "digest_of I p h = (Inr d, h') \<longleftrightarrow> h' = h \<and> (\<exists>c. content_at p h = Some c \<and> d = is_sha256 I c)"
  by (auto simp: digest_of_def host_Inr)

lemma digests_of:
  "mapP (\<lambda>p. bindP (digest_of I p) (\<lambda>d. retP (key p, JStr d))) ps h = (Inr kvs, h') \<Longrightarrow>
    h' = h \<and> fst ` set kvs = key ` set ps
    \<and> (\<forall>kv \<in> set kvs. \<exists>p \<in> set ps. \<exists>c. content_at p h = Some c \<and> kv = (key p, JStr (is_sha256 I c)))"
proof (induction ps arbitrary: kvs)
  case (Cons p ps)
  then obtain c kvs' where c: "content_at p h = Some c" and kvs: "kvs = (key p, JStr (is_sha256 I c)) # kvs'"
    and rest: "mapP (\<lambda>p. bindP (digest_of I p) (\<lambda>d. retP (key p, JStr d))) ps h = (Inr kvs', h')"
    by (auto simp: host_Inr digest_of_Inr)
  from Cons.IH [OF rest] c show ?case by (auto simp: kvs)
qed (simp add: host_Inr)

lemma check_files_passes:
  assumes "\<And>k v. (k, v) \<in> set kvs \<Longrightarrow> \<exists>p c. is_resolve I target k = p \<and> relative_to p target
      \<and> content_at p h = Some c \<and> v = JStr (is_sha256 I c)"
  shows "check_files I target kvs h = (Inr (), h)"
  using assms
proof (induction kvs)
  case (Cons kv kvs)
  obtain k v where kv: "kv = (k, v)" by (rule prod.exhaust)
  with Cons.prems [of k v] obtain c where "relative_to (is_resolve I target k) target"
    "content_at (is_resolve I target k) h = Some c" "v = JStr (is_sha256 I c)" by auto
  moreover from this have "digest_of I (is_resolve I target k) h = (Inr (is_sha256 I c), h)" by (simp add: digest_of_Inr)
  moreover have "check_files I target kvs h = (Inr (), h)" by (rule Cons.IH [OF Cons.prems [OF list.set_intros(2)]])
  ultimately show ?case by (simp add: kv Let_def run_bindP)
qed (simp add: run_retP)


lemma content_at_folded: "folded p = folded q \<Longrightarrow> content_at p h = content_at q h"
  by (simp add: content_at_def)

lemma receipt_text_document:
  "distinct (map fst files) \<Longrightarrow> \<forall>kv \<in> set files. \<exists>s. snd kv = JStr s \<Longrightarrow> text_document (receipt_json n output files)"
  by (auto simp: receipt_json_def list_all_iff)

lemma receipt_json_matches: "receipt_matches n (receipt_json n output files) = Inr True"
  by (simp add: receipt_matches_def receipt_json_def get_eq_def)

lemma check_receipt_passes:
  assumes "content_at (receipt_path I n) h = Some t" and "is_loads I t = Some (receipt_json n output files)"
    and "check_files I (local_of I n) files h = (Inr (), h)"
    and "path_key (drop (length (local_of I n)) executable) \<in> fst ` set files"
  shows "check_receipt I n executable h = (Inr (), h)"
proof -
  have "jget ''files'' (receipt_json n output files) = Inr (JObj files)" by (simp add: receipt_json_def)
  then show ?thesis
    using assms
    by (simp add: check_receipt_def receipt_path_def run_simps read_bytes_def loaded_def receipt_json_matches items_def)
qed

lemma check_version_any: "settled_version I \<Longrightarrow> fst (check_version I n p h1) = fst (check_version I n p h2)"
proof -
  assume "settled_version I"
  then have "fst (is_run I p (dh_world h1)) = fst (is_run I p (dh_world h2))" unfolding settled_version_def by blast
  then show ?thesis
    by (cases "is_run I p (dh_world h1)"; cases "is_run I p (dh_world h2)")
      (auto simp: check_version_def beyond_host_def run_simps split: sum.splits prod.splits)
qed

text \<open>The files a receipt records lie below the target, under plain names, and are not the receipt.\<close>

definition recordable :: "'w installer \<Rightarrow> product \<Rightarrow> host_path \<Rightarrow> bool" where
  "recordable I n p \<longleftrightarrow> relative_to p (local_of I n) \<and> plain_path (drop (length (local_of I n)) p)
     \<and> folded p \<noteq> folded (receipt_path I n)"

lemma plain_names: "plain_name ''conf''" "plain_name ''defaults.ini''" "plain_name ''bin''" "plain_name ''grafana.exe''"
  by code_simp+

lemma recordable_files:
  assumes "locate I n None h = (Inr (executable, home), h)" and "below_plain (local_of I n) h"
    and "p \<in> set (recorded_files n (executable, home) h1)"
  shows "recordable I n p"
proof -
  let ?l = "length (local_of I n)"
  from assms(1) have picked: "picked (\<lambda>f. matches n (local_of I n) f h) (re_names (RELEASES n)) = Some executable"
    and pe: "valid_pe executable h" and home: "n = Grafana \<Longrightarrow> home = butlast (butlast executable)"
    by (auto simp: locate_Inr split: if_splits)
  note exe = located_executable [OF picked]
  have plain: "plain_path (drop ?l executable)" using assms(2) exe(1,4) by (simp add: below_plain_def)
  have "executable \<noteq> []" "last executable \<noteq> []" using exe(1) pe by (auto simp: strictly_below_def valid_pe_def exe_name_def)
  with exe(1,2) plain have first: "recordable I n executable"
    by (simp add: recordable_def strictly_below_def relative_to_def not_receipt)
  have more: "recordable I n (home @ [a, b])" if n: "n = Grafana" and ab: "plain_name a" "plain_name b" for a b
  proof -
    note inside = grafana_home [OF exe(1) [unfolded n] exe(3) [OF n], folded home [OF n]]
    have "drop ?l home = butlast (butlast (drop ?l executable))" by (simp add: home [OF n] drop_butlast)
    then have "set (drop ?l home) \<subseteq> set (drop ?l executable)" by (auto dest: in_set_butlastD)
    then have "list_all plain_name (drop ?l home)" using plain by (auto simp: plain_path_def list_all_iff)
    then have "plain_path (drop ?l (home @ [a, b]))" using inside(1) n ab by (simp add: plain_path_def)
    moreover have "folded (home @ [a, b]) \<noteq> folded (receipt_path I n)"
      using inside(1) n folded_length [of "home @ [a, b]" "receipt_path I n"] by (auto simp: receipt_path_def)
    moreover have "relative_to (home @ [a, b]) (local_of I n)" using inside n by (simp add: relative_to_def)
    ultimately show ?thesis by (simp add: recordable_def)
  qed
  show ?thesis
    using assms(3) first more plain_names by (auto simp: recorded_files_def split: if_splits)
qed


text \<open>
  What is relied on outside the code: JSON reads back the document of texts that it wrote as the
  receipt, and a path of plain names below a base resolves to itself.
\<close>

definition reads_back :: "'w installer \<Rightarrow> product \<Rightarrow> 'w demo_host \<Rightarrow> bool" where
  "reads_back I n h \<longleftrightarrow> (\<forall>j. text_document j \<and> content_at (receipt_path I n) h = Some (is_render I j) \<longrightarrow>
     is_loads I (is_render I j) = Some j)"

definition resolves_plain :: "'w installer \<Rightarrow> product \<Rightarrow> bool" where
  "resolves_plain I n \<longleftrightarrow> (\<forall>p. plain_path p \<longrightarrow> is_resolve I (local_of I n) (path_key p) = local_of I n @ p)"

lemma recorded_digest:
  assumes "resolves_plain I n" and "recordable I n p" and "content_at p h = Some c"
  shows "is_resolve I (local_of I n) (path_key (drop (length (local_of I n)) p)) = local_of I n @ drop (length (local_of I n)) p"
    and "relative_to (local_of I n @ drop (length (local_of I n)) p) (local_of I n)"
    and "content_at (local_of I n @ drop (length (local_of I n)) p) (with_file (receipt_path I n) t h) = Some c"
proof -
  let ?l = "length (local_of I n)"
  have rel: "folded (take ?l p) = folded (local_of I n)" and other: "folded p \<noteq> folded (receipt_path I n)"
    using assms(2) by (simp_all add: recordable_def relative_to_def)
  have same: "folded (local_of I n @ drop ?l p) = folded p"
  proof -
    have "folded (local_of I n @ drop ?l p) = folded (take ?l p) @ folded (drop ?l p)" using rel by (simp add: folded_def)
    also have "\<dots> = folded p" unfolding folded_def by (simp flip: map_append)
    finally show ?thesis .
  qed
  show "is_resolve I (local_of I n) (path_key (drop ?l p)) = local_of I n @ drop ?l p"
    using assms(1,2) by (simp add: resolves_plain_def recordable_def)
  show "relative_to (local_of I n @ drop ?l p) (local_of I n)" by (simp add: relative_to_def)
  show "content_at (local_of I n @ drop ?l p) (with_file (receipt_path I n) t h) = Some c"
    using assms(3) by (simp add: content_at_folded [OF same] content_put_other [OF other])
qed

lemma recorded_is_valid:
  assumes rec: "record_installation I n h = (Inr (executable, home), h')"
    and "settled_version I" and "reads_back I n h'" and "resolves_plain I n" and plain: "below_plain (local_of I n) h"
  shows "fst (validate_installation I n h') = Inr (executable, home)"
proof -
  let ?l = "length (local_of I n)" and ?R = "receipt_path I n"
  obtain v out h1 kvs h2 where found: "locate I n None h = (Inr (executable, home), v)"
    and version: "check_version I n executable v = (Inr out, h1)"
    and listed: "mapP (\<lambda>p. bindP (digest_of I p) (\<lambda>d. retP (path_key (drop ?l p), JStr d)))
        (recorded_files n (executable, home) h1) h1 = (Inr kvs, h2)"
    and h': "h' = with_file ?R (is_render I (receipt_json n out (fold (\<lambda>(k, v). set_entry k v) kvs []))) h2"
    using rec unfolding record_installation_def file_digests_def
    by (auto simp: host_Inr write_bytes_def receipt_path_def)
  have v: "v = h" using found by (simp add: locate_Inr)
  note loc = found [unfolded v] and version = version [unfolded v]
  note kvs = digests_of [OF listed]
  then have h2: "h2 = h1" by blast
  note h' = h' [unfolded h2]
  define files where "files = fold (\<lambda>(k, v). set_entry k v) kvs []"
  have "disk h1 = disk h" using steadyD(2) [OF steady_check_version [OF assms(2)], of n executable h] version by simp
  from steadyD(1) [OF steady_locate this] loc have "fst (locate I n None h1) = Inr (executable, home)" by simp
  then have loc1: "locate I n None h1 = (Inr (executable, home), h1)"
    by (cases "locate I n None h1") (auto simp: locate_Inr)
  have files: "\<exists>p c. recordable I n p \<and> k = path_key (drop ?l p) \<and> content_at p h1 = Some c \<and> v = JStr (is_sha256 I c)"
    if kv: "(k, v) \<in> set files" for k v
  proof -
    have "(k, v) \<in> set kvs" using kv set_entries_set [of kvs "[]"] by (auto simp: files_def)
    with kvs obtain p c where "p \<in> set (recorded_files n (executable, home) h1)" and c: "content_at p h1 = Some c"
      and "(k, v) = (path_key (drop ?l p), JStr (is_sha256 I c))" by blast
    with recordable_files [OF loc plain] show ?thesis by blast
  qed
  have "distinct (map fst files)" unfolding files_def by (rule set_entries_distinct) simp
  then have "text_document (receipt_json n out files)" using files by (intro receipt_text_document) fastforce+
  then have reads: "is_loads I (is_render I (receipt_json n out files)) = Some (receipt_json n out files)"
    using assms(3) content_put_same [of ?R _ h1] unfolding reads_back_def h' files_def by blast
  have "check_files I (local_of I n) files h' = (Inr (), h')"
    by (rule check_files_passes) (use files recorded_digest [OF assms(4)] h' in metis)
  moreover have "path_key (drop ?l executable) \<in> fst ` set files"
    using kvs set_entries_keys [of kvs "[]"] by (auto simp: files_def recorded_files_def)
  ultimately have receipt: "check_receipt I n executable h' = (Inr (), h')"
    using reads content_put_same [of ?R _ h1] unfolding h' files_def by (intro check_receipt_passes) auto
  have "locate I n None h' = (Inr (executable, home), h')" unfolding h' by (rule locate_put [OF loc1])
  moreover have "fst (check_version I n executable h') = Inr out"
    using check_version_any [OF assms(2), of n executable h' h] version by simp
  then obtain h2 where "check_version I n executable h' = (Inr out, h2)" by (cases "check_version I n executable h'") auto
  ultimately show ?thesis
    using receipt by (simp add: validate_installation_def run_simps)
qed


section \<open>Where an installation comes from\<close>

lemma folded_put: "folded ` fst ` set (put_file p c fs) = insert (folded p) (folded ` fst ` set fs)"
proof (induction fs)
  case (Cons f fs)
  then show ?case by (cases f, cases "folded (fst f) = folded p") auto
qed simp

lemma folded_puts:
  "folded ` fst ` set (fold (\<lambda>(q, c). put_file (target @ q) c) us fs)
     = (\<lambda>u. folded (target @ fst u)) ` set us \<union> folded ` fst ` set fs"
proof (induction us arbitrary: fs)
  case (Cons u us)
  obtain q c where u: "u = (q, c)" by (rule prod.exhaust)
  have "folded ` fst ` set (fold (\<lambda>(q, c). put_file (target @ q) c) (u # us) fs)
      = (\<lambda>u. folded (target @ fst u)) ` set us \<union> folded ` fst ` set (put_file (target @ q) c fs)"
    unfolding u fold_simps prod.case by (rule Cons.IH)
  then show ?case unfolding folded_put u by simp
qed simp

lemma strictly_below_folded: "folded p = folded q \<Longrightarrow> strictly_below base p = strictly_below base q"
  unfolding strictly_below_def using folded_length [of p q] by (metis folded_def take_map)

text \<open>Below the target stand the unpacked files and the receipt, and nothing else.\<close>

definition only_unpacked :: "'w installer \<Rightarrow> product \<Rightarrow> string \<Rightarrow> 'w demo_host \<Rightarrow> bool" where
  "only_unpacked I n archive h \<longleftrightarrow>
     (\<forall>q \<in> fst ` set (dh_files h). strictly_below (local_of I n) q \<longrightarrow>
        folded q = folded (receipt_path I n) \<or> (\<exists>u \<in> set (fst (is_unpacked I archive)). folded q = folded (local_of I n @ fst u)))"

lemma only_unpackedI:
  assumes "\<And>q. q \<in> fst ` set fs \<Longrightarrow> \<not> strictly_below (local_of I n) q"
    and "folded ` fst ` set (dh_files h) \<subseteq>
      insert (folded (receipt_path I n)) ((\<lambda>u. folded (local_of I n @ fst u)) ` set (fst (is_unpacked I archive)) \<union> folded ` fst ` set fs)"
  shows "only_unpacked I n archive h"
  unfolding only_unpacked_def
proof (intro ballI impI)
  fix q
  assume "q \<in> fst ` set (dh_files h)" and strictly_below: "strictly_below (local_of I n) q"
  with assms(2) consider "folded q = folded (receipt_path I n)"
    | u where "u \<in> set (fst (is_unpacked I archive))" "folded q = folded (local_of I n @ fst u)"
    | f where "f \<in> fst ` set fs" "folded q = folded f" by blast
  then show "folded q = folded (receipt_path I n) \<or>
      (\<exists>u \<in> set (fst (is_unpacked I archive)). folded q = folded (local_of I n @ fst u))"
    using assms(1) strictly_below strictly_below_folded by cases blast+
qed

lemma unpack_clears:
  assumes "unpack I n archive h = (Inr u, h')"
  shows "\<exists>ms fs. is_members I archive = Some ms \<and> list_all (safe_member I (local_of I n)) ms
    \<and> dh_files h' = fold (\<lambda>(q, c). put_file (local_of I n @ q) c) (fst (is_unpacked I archive)) fs
    \<and> (\<forall>q \<in> fst ` set fs. \<not> strictly_below (local_of I n) q)"
proof -
  let ?fs = "filter (\<lambda>(q, _). \<not> strictly_below (local_of I n) q) (dh_files h)"
  have "filter (\<lambda>(q, _). \<not> strictly_below (local_of I n) q) (dh_files h) = dh_files h" if "\<not> path_exists (local_of I n) h"
    using that by (auto simp: path_exists_def is_dir_def filter_id_conv list_ex_iff)
  with assms have "\<exists>ms. is_members I archive = Some ms \<and> list_all (safe_member I (local_of I n)) ms
      \<and> dh_files h' = fold (\<lambda>(q, c). put_file (local_of I n @ q) c) (fst (is_unpacked I archive)) ?fs"
    by (auto simp: unpack_def Let_def host_Inr run_whenP remove_tree_def make_dir_def split: option.splits if_splits)
  then show ?thesis by fastforce
qed

lemma record_adds_receipt:
  assumes "record_installation I n h = (Inr r, h')" and "settled_version I"
  shows "folded ` fst ` set (dh_files h') = insert (folded (receipt_path I n)) (folded ` fst ` set (dh_files h))"
    and "fst ` set (dh_files h) \<subseteq> fst ` set (dh_files h')" and "dh_dirs h' = dh_dirs h"
proof -
  obtain executable home v out h1 c where "locate I n None h = (Inr (executable, home), v)"
    and version: "check_version I n executable v = (Inr out, h1)" and h': "disk h' = disk (with_file (receipt_path I n) c h1)"
    using assms(1) unfolding record_installation_def file_digests_def
    by (auto simp: host_Inr write_bytes_def receipt_path_def split_beta dest!: digests_of)
  then have "v = h" by (simp add: locate_Inr)
  with steadyD(2) [OF steady_check_version [OF assms(2)], of n executable h] version have "disk h1 = disk h" by simp
  then have files: "dh_files h' = put_file (receipt_path I n) c (dh_files h)" and dirs: "dh_dirs h' = dh_dirs h"
    using h' by (auto simp: disk_def)
  show "folded ` fst ` set (dh_files h') = insert (folded (receipt_path I n)) (folded ` fst ` set (dh_files h))"
    by (simp add: files folded_put)
  show "fst ` set (dh_files h) \<subseteq> fst ` set (dh_files h')"
    using paths_put [of "receipt_path I n" c "dh_files h"] by (metis files list.set_map set_append Un_upper1 order_refl)
  show "dh_dirs h' = dh_dirs h" by (rule dirs)
qed


definition from_pinned_archive :: "'w installer \<Rightarrow> product \<Rightarrow> 'w demo_host \<Rightarrow> bool" where
  "from_pinned_archive I n h \<longleftrightarrow>
     (\<exists>archive ms. is_sha256 I archive = re_sha256 (RELEASES n) \<and> is_members I archive = Some ms
        \<and> list_all (safe_member I (local_of I n)) ms \<and> only_unpacked I n archive h)"

lemma install_verified:
  assumes run: "install I n h = (Inr r, h')"
    and env: "settled_version I" "reads_back I n h'" "resolves_plain I n" and plain: "below_plain (local_of I n) h'"
  shows "fst (validate_installation I n h') = Inr r \<and> from_pinned_archive I n h'"
proof -
  obtain h1 archive h2 where unpacked: "unpack I n archive h1 = (Inr (), h2)"
    and pinned: "is_sha256 I archive = re_sha256 (RELEASES n)" and rec: "record_installation I n h2 = (Inr r, h')"
    using run by (auto simp: install_def host_Inr run_whenP)
  obtain ms fs where ms: "is_members I archive = Some ms" "list_all (safe_member I (local_of I n)) ms"
    and files: "dh_files h2 = fold (\<lambda>(q, c). put_file (local_of I n @ q) c) (fst (is_unpacked I archive)) fs"
    and cleared: "\<forall>q \<in> fst ` set fs. \<not> strictly_below (local_of I n) q"
    using unpack_clears [OF unpacked] by blast
  note receipt = record_adds_receipt [OF rec env(1)]
  have "below_plain (local_of I n) h2" 
    unfolding below_plain_def set_append set_map
  proof (intro ballI impI)
    fix q
    assume "q \<in> fst ` set (dh_files h2) \<union> set (dh_dirs h2)" and "strictly_below (local_of I n) q"
    with receipt(2,3) have "q \<in> set (map fst (dh_files h') @ dh_dirs h')" by auto
    with plain \<open>strictly_below (local_of I n) q\<close> show "plain_path (drop (length (local_of I n)) q)"
      unfolding below_plain_def by blast
  qed
  moreover obtain executable home where r: "r = (executable, home)" by (rule prod.exhaust)
  ultimately have "fst (validate_installation I n h') = Inr r"
    using recorded_is_valid [OF rec [unfolded r] env] by simp
  moreover have "only_unpacked I n archive h'"
  proof (rule only_unpackedI [of fs])
    show "\<not> strictly_below (local_of I n) q" if "q \<in> fst ` set fs" for q using cleared that by blast
    show "folded ` fst ` set (dh_files h') \<subseteq> insert (folded (receipt_path I n))
        ((\<lambda>u. folded (local_of I n @ fst u)) ` set (fst (is_unpacked I archive)) \<union> folded ` fst ` set fs)"
      unfolding receipt(1) files folded_puts by (rule subset_refl)
  qed
  ultimately show ?thesis using pinned ms by (auto simp: from_pinned_archive_def)
qed

text \<open>
  C40 (an installation that is returned is verified). When \<open>ensure\<close> returns an installation, the
  verification accepts it: the receipt names the pinned release, every recorded file has its recorded
  digest, the executable is a Windows amd64 program of the pinned version and is found again as the
  only one. It was accepted before, or what lies strictly_below the target is what an archive with the pinned
  digest and safe members unpacks to, and the receipt. This holds when the program gives its version
  steadily, JSON reads back what it wrote, and the names in the installation are plain.
\<close>
theorem ensured_is_verified:
  assumes "ensure_installed I n h = (Inr r, h')"
    and "settled_version I" and "reads_back I n h'" and "resolves_plain I n" and "below_plain (local_of I n) h'"
  shows "fst (validate_installation I n h') = Inr r
    \<and> (fst (validate_installation I n h) = Inr r \<or> from_pinned_archive I n h')"
proof -
  obtain q v where validated: "validate_installation I n h = (q, v)" by (rule prod.exhaust)
  note steady = steady_validate [OF assms(2), of n]
  have same: "disk v = disk h" using steadyD(2) [OF steady, of h] validated by simp
  show ?thesis
  proof (cases q)
    case (Inr x)
    with assms(1) validated have "x = r" "h' = v"
      by (auto simp: ensure_installed_def run_simps split: sum.splits)
    with Inr validated steadyD(1) [OF steady same] show ?thesis by simp
  next
    case (Inl e)
    with assms(1) validated have "install I n v = (Inr r, h')"
      by (auto simp: ensure_installed_def run_simps split: sum.splits exn.splits)
    from install_verified [OF this assms(2-5)] show ?thesis by blast
  qed
qed


section \<open>A first installation\<close>

definition tiny_exe :: string where
  "tiny_exe = ''MZ'' @ replicate 58 (CHR 0x00) @ [CHR 0x40, CHR 0x00, CHR 0x00, CHR 0x00] @ ''PE'' @ [CHR 0x00, CHR 0x00]
     @ [CHR 0x64, CHR 0x86]"

definition tiny_path :: host_path where
  "tiny_path = [''prometheus-3.15.0'', ''prometheus.exe'']"

definition tiny_receipt :: json where
  "tiny_receipt = receipt_json Prometheus ''version 3.15.0'' [(path_key tiny_path, JStr (re_sha256 (RELEASES Prometheus)))]"

definition tiny_installer :: "unit installer" where
  "tiny_installer =
     \<lparr>is_here = [''demo''], is_windows = True, is_machine = ''AMD64'', is_sha256 = (\<lambda>_. re_sha256 (RELEASES Prometheus)),
      is_loads = (\<lambda>t. if t = ''R'' then Some tiny_receipt else None), is_render = (\<lambda>j. if j = tiny_receipt then ''R'' else ''X''),
      is_run = (\<lambda>_. retP (0, ''version 3.15.0'', [])), is_download = (\<lambda>_. retP ''Z''),
      is_members = (\<lambda>_. Some [\<lparr>zm_name = ''prometheus-3.15.0/prometheus.exe'', zm_attributes = 0x81A40000\<rparr>]),
      is_unpacked = (\<lambda>_. ([(tiny_path, tiny_exe)], [])), is_resolve = (\<lambda>base s. base @ split_on (CHR 0x5C) s)\<rparr>"

definition empty_host :: "unit demo_host" where
  "empty_host = \<lparr>dh_world = (), dh_files = [], dh_dirs = []\<rparr>"

lemma tiny_pe: "check_pe tiny_exe = Inr ()"
proof -
  have "read_at 0 2 tiny_exe = ''MZ''" "read_at 0x3C 4 tiny_exe = [CHR 0x40, CHR 0x00, CHR 0x00, CHR 0x00]"
    "read_at 64 4 tiny_exe = ''PE'' @ [CHR 0x00, CHR 0x00]" "read_at 68 2 tiny_exe = [CHR 0x64, CHR 0x86]" by code_simp+
  moreover have "word_of_bytes [CHR 0x40, CHR 0x00, CHR 0x00, CHR 0x00] = 64" by (simp add: word_of_bytes_def code_def)
  ultimately show ?thesis by (simp add: check_pe_def Let_def)
qed

lemma tiny_safe: "list_all (safe_member tiny_installer (local_of tiny_installer Prometheus)) (the (is_members tiny_installer a))"
  by (simp add: safe_member_def tiny_installer_def local_of_def relative_to_def)

definition installed_host :: "unit demo_host" where
  "installed_host =
     (let local = local_of tiny_installer Prometheus
      in \<lparr>dh_world = (), dh_files = [(archive_of tiny_installer Prometheus, ''Z''), (local @ tiny_path, tiny_exe),
             (local @ [''installation.json''], ''R'')],
          dh_dirs = [cache_of tiny_installer Prometheus, local]\<rparr>)"

lemma tiny_install: "ensure_installed tiny_installer Prometheus empty_host
    = (Inr (local_of tiny_installer Prometheus @ tiny_path, local_of tiny_installer Prometheus @ [''prometheus-3.15.0'']), installed_host)"
  by code_simp


lemma tiny_missing: "case fst (validate_installation tiny_installer Prometheus empty_host) of Inl _ \<Rightarrow> True | Inr _ \<Rightarrow> False"
  by code_simp

lemma tiny_environment:
  "settled_version tiny_installer" "reads_back tiny_installer Prometheus installed_host"
  "resolves_plain tiny_installer Prometheus" "below_plain (local_of tiny_installer Prometheus) installed_host"
proof -
  show "settled_version tiny_installer" by (simp add: settled_version_def tiny_installer_def run_retP)
  have "content_at (receipt_path tiny_installer Prometheus) installed_host = Some ''R''" by code_simp
  then show "reads_back tiny_installer Prometheus installed_host"
    by (auto simp: reads_back_def tiny_installer_def split: if_splits)
  show "resolves_plain tiny_installer Prometheus"
    unfolding resolves_plain_def
  proof (intro allI impI)
    fix p
    assume p: "plain_path p"
    then have "\<forall>x \<in> set p. CHR 0x5C \<notin> set x" by (auto simp: plain_path_def list_all_iff plain_name_def)
    with p have "split_on (CHR 0x5C) (path_key p) = p"
      unfolding path_key_def by (intro split_on_join) (simp_all add: plain_path_def)
    then show "is_resolve tiny_installer (local_of tiny_installer Prometheus) (path_key p) = local_of tiny_installer Prometheus @ p"
      by (simp add: tiny_installer_def)
  qed
  have "list_all (\<lambda>q. strictly_below (local_of tiny_installer Prometheus) q \<longrightarrow>
      plain_path (drop (length (local_of tiny_installer Prometheus)) q)) (map fst (dh_files installed_host) @ dh_dirs installed_host)"
    by code_simp
  then show "below_plain (local_of tiny_installer Prometheus) installed_host" by (simp add: below_plain_def list_all_iff)
qed

lemma ensured_is_verified_witness:
  "fst (validate_installation tiny_installer Prometheus installed_host)
     = Inr (local_of tiny_installer Prometheus @ tiny_path, local_of tiny_installer Prometheus @ [''prometheus-3.15.0''])
   \<and> from_pinned_archive tiny_installer Prometheus installed_host"
  using ensured_is_verified [OF tiny_install tiny_environment] tiny_missing by auto

end
