(* ===== verification/Spec2Isabelle.thy ===== *)
theory Spec2Isabelle
  imports ReleaseProperties Processor SecurityGate KServe Routing LegacyRelease Serving ReleaseJobSafety WorkerProperties RoutingProperties GateProperties
    ReaderProperties ReleaseV2 RunnerProperties EvaluatorProperties CredentialProperties TrafficPolicy ReleaseApproval LegacyProperties TelemetryProperties Bootstrap Processes DevProperties InstallerProperties
begin

text \<open>
  The release system of an ML template, as HOL functions with proofs.

  \<^bold>\<open>The program.\<close> A model that is promoted in a registry becomes an event on a queue. The control
  plane accepts the event into one durable JSON state (a Kubernetes ConfigMap updated under
  optimistic concurrency), resolves the runtime image the model needs, waits for a reviewed
  authorization from a release job, and then moves traffic to the new version in the stages 10, 25,
  50 and 100 percent, with a rollback whenever the lease, the metrics or the backends do not allow
  the next step. A router reads the state and splits the requests; a serving process answers them.
  Release jobs build, scan, pin, deploy and audit the images; a build trigger asks GitHub for runtime
  builds that are missing; a driver sends bounded synthetic traffic while a release ramps.

  \<^bold>\<open>How the model is written.\<close> Code that can raise is \<open>'a res\<close> (an exception or a value), code with
  effects is \<open>('w, 'a) prog\<close>, a function from a world to a result and a new world that keeps the
  effects of code that raised (\<open>Prelude\<close>). \<open>'w\<close> stays abstract: everything that is not under src/ is an
  operation on it, bundled in the records of the components (backends, effects, clients, jobs).
  Documents are values of \<open>json\<close> with Python's accessors, equality and truth (\<open>Json\<close>); the release
  state is a record whose rendering is \<open>state_json\<close>. Times and the floats that are only compared and
  added are exact rationals, other floats \<open>flt\<close>; strings are lists of code points below 256.

  \<^bold>\<open>Theories and sources.\<close>
  \<^item> \<open>Prelude\<close>, \<open>Json\<close>, \<open>Urls\<close>: exceptions, the two monads with their weakest preconditions, lists,
    strings, regular expressions; JSON values and their encodings; URL splitting.
  \<^item> \<open>PromotionState\<close>, \<open>CasStore\<close>, \<open>ReleaseStore\<close>: control_plane/state_v2.py, kube.py, kube_v2.py and
    authorization_backend.py: events, items, validation, ingestion, and the store whose \<open>update\<close>
    retries a mutator on the newest state.
  \<^item> \<open>Resolver\<close>, \<open>Authorization\<close>: runtime_resolver.py, build_contract.py, artifact_metadata.py;
    authorization_v2.py.
  \<^item> \<open>Policy\<close>, \<open>Lifecycle\<close>: policy.py, autoscaling_v2.py; controller_v2.py, one function per phase and one
    \<open>tick\<close>.
  \<^item> \<open>Processor\<close>, \<open>KServe\<close>, \<open>Routing\<close>, \<open>SecurityGate\<close>: processor_v2.py, operator_v2.py, consumer_v2.py,
    reconciliation_v2.py; runtime_catalog.py, kserve_effects.py; router.py, router_v2.py,
    canary/router.py; runtime_security.py.
  \<^item> \<open>LegacyRelease\<close>: state.py and controller.py, the first generation of the control plane.
  \<^item> \<open>Serving\<close>: src/model_service, from the settings over the verified artifact to the HTTP routes.
  \<^item> \<open>BuildTrigger\<close>, \<open>RuntimeCi\<close>: scripts/runtime_build_trigger.py; runtime_ci.py,
    runtime_ci_publish.py.
  \<^item> \<open>ReleaseIdentity\<close>, \<open>ReleaseDeploy\<close>: scripts/release.py. \<open>ReleaseV2\<close>: scripts/release_v2.py.
    \<open>StateReader\<close>: control_plane/oidc_eks_reader.py.
  \<^item> \<open>AutoTraffic\<close>, \<open>TrafficPolicy\<close>, \<open>EndToEnd\<close>, \<open>Runner\<close>: control_plane/automatic_traffic_v2.py with
    the expressions of its admission policy, and scripts/e2e_v2/render.py; the observation of a
    release and the loop of scripts/e2e_v2/runner.py.
  \<^item> \<open>Evaluator\<close>: canary/evaluator.py and canary/controller.py. \<open>LegacyWatcher\<close>: watcher.py, the queue of
    the first generation. \<open>Credentials\<close>: scripts/github/rotate_release_state_credential.py.
  \<^item> \<open>Telemetry\<close>: observations_v2.py, release_metrics_v2.py, telemetry.py and
    exporters/model_state_exporter.py. \<open>Processes\<close>: run_v2.py, the processes and their loop.
    \<open>Bootstrap\<close>: scripts/bootstrap_v2.py, the first stable pair.
  \<^item> \<open>SourceTree\<close>, \<open>DevBuild\<close>: scripts/dev_runtime.py and scripts/dev_artifact.py: the walk over the
    sources, the snapshot, the build, the inspection and the scans of the published images.
  \<^item> \<open>Installer\<close>: canary/bootstrap.py: the pinned programs of the local demonstration, with the 32-bit
    words of the executable and archive formats.
  \<^item> \<open>Refinement\<close>, \<open>ReleaseSafety\<close>, \<open>AuthorizationSafety\<close> hold the abstract release machine and the
    lemmas on the store and the controller; \<open>Scenario\<close> and \<open>ApprovalScenario\<close> hold the concrete worlds of
    the witnesses; the theories named after \<open>Properties\<close>, with \<open>ReleaseJobSafety\<close>, \<open>ReleaseApproval\<close>,
    \<open>TrafficPolicy\<close>, \<open>Bootstrap\<close> and \<open>Processes\<close>, hold the theorems.

  \<^bold>\<open>Interfaces.\<close> The locale \<open>cas_backend\<close> is the contract between the store and a backend: a write
  succeeds only on the version it names, and other writers may move the cell only along \<open>drift\<close>.
  \<open>release_controller\<close> extends it by the effects of a controller, \<open>controller_process\<close> extends
  that by the process around it, \<open>session_relation\<close> states what the runner needs of a relation that its
  client keeps, and \<open>reported_run\<close> is the contract of a command that writes a report on itself. Each is
  interpreted on the definitions of the component that provides it.

  \<^bold>\<open>What the lemmas show.\<close> The controller: only authorized pairs are ever served, every write is a
  step of an abstract release machine, the phase, the route and the stable pair stay consistent, the
  weight climbs the ladder, the lease excludes other owners. The store and the authorization: updates
  are atomic, renewals need an expiry, the authorization is exact. The workers: durable decisions
  before deletions, ordered queues, bounded retries. The router: fresh and authorized forwarding, an
  exact share of requests, bounded replies. Serving and jobs: verified artifacts, gated deployments,
  audited success, a reviewed authorization. The runner: budgets, consent before every request,
  termination. The evaluator: the weights it sets. The processes: over any number of turns the
  controller keeps the invariant of the release. The Dev builds: the snapshot is exactly the visible
  sources, a published image was scanned, the report tells the outcome.
  The installer: what it returns is verified and comes from a pinned archive.

  \<^bold>\<open>Bounds and fuel.\<close> The optimistic retry of the store takes the number of attempts of the code and
  ends with its error. Polls with a fixed number of rounds (port forwards, protection of branches,
  runtime evidence) recurse on that number. The history of workflow runs is read under the code's own
  budget of pages. The loops of the runner and of the evaluator take fuel, since their clocks are
  parameters: \<open>run_returns\<close> shows that one more than duration divided by the time of one read is enough
  for the runner, and that more fuel changes nothing; what is shown of the evaluator holds for every
  fuel. The endless loop of a process is modelled by its first turns, for every number of turns.

  \<^bold>\<open>Not modelled.\<close> Hashing, float formatting, JSON and YAML and XML parsing, base64, archives, time
  parsing, path resolution, sockets, threads, AWS, the Kubernetes API and subprocesses are parameters.
  Log lines, the text format of metrics and printing are left out. Dashboards and manifest renderers
  assemble documents without decisions; the local demonstration and the remaining command-line tools
  only drive subprocesses and probes in sequence. They are not modelled; the manifest lists them.
\<close>

end
